(* ===== verification/Prelude.thy ===== *)
theory Prelude
  imports Main "HOL-Library.Word" "HOL-Library.AList"
begin

text \<open>
  Shared vocabulary of the development: the types of Python text and bytes, the result
  type of code that may raise, and generic operations on lists and dictionaries (prefix
  and suffix tests, splitting, joining, searching) with the lemmas about them that several
  components use.

  A Python \<open>str\<close> is a list of code points, kept as integers the way \<open>ord\<close> returns them;
  \<open>S ''abc''\<close> is a literal. Python \<open>bytes\<close> are lists of 8-bit words; \<open>B ''abc''\<close> is a
  literal. A \<open>dict\<close> is an association list in insertion order; assignment is
  \<open>AList.update\<close>, which keeps the position of an existing key as Python does.
\<close>

named_theorems prefix_simps \<open>prefix, suffix, split and join rewrites\<close>
named_theorems denial_simps \<open>definitions of the request guards' decision chains\<close>
named_theorems route_defs \<open>route tables and route patterns\<close>

type_synonym str = "int list"
type_synonym bytes = "8 word list"
type_synonym ('k, 'v) dict = "('k \<times> 'v) list"

definition S :: "string \<Rightarrow> str" where
  "S s = map of_char s"

definition B :: "string \<Rightarrow> bytes" where
  "B s = map of_char s"

lemma S_inject [simp]: "S a = S b \<longleftrightarrow> a = b"
  by (simp add: S_def inj_map_eq_map inj_on_def)

lemma S_Nil [simp]: "S [] = []"
  by (simp add: S_def)

lemma S_eq_Nil [simp]: "S a = [] \<longleftrightarrow> a = []"
  by (simp add: S_def)

lemma length_S [simp]: "length (S a) = length a"
  by (simp add: S_def)

lemma B_Nil [simp]: "B [] = []"
  by (simp add: B_def)

lemma length_B [simp]: "length (B a) = length a"
  by (simp add: B_def)

text \<open>The exceptions the modelled code raises or catches by name.\<close>

datatype exn =
    ValueError str
  | TypeError
  | AttributeError
  | KeyError
  | IndexError
  | UnicodeError
  | OSError str
  | RuntimeError str
  | AssertionError
  | JSONDecodeError
  | RecursionError
  | GateError
  | NoReturn              \<comment> \<open>not an exception: the call does not return\<close>

type_synonym 'a res = "exn + 'a"

fun bind_res :: "'e + 'a \<Rightarrow> ('a \<Rightarrow> 'e + 'b) \<Rightarrow> 'e + 'b" where
  "bind_res (Inl e) f = Inl e"
| "bind_res (Inr a) f = f a"

lemma bind_res_eq_Inr [simp]:
  "bind_res m f = Inr b \<longleftrightarrow> (\<exists>a. m = Inr a \<and> f a = Inr b)"
  by (cases m) auto

lemma bind_res_eq_Inl:
  "bind_res m f = Inl e \<longleftrightarrow> m = Inl e \<or> (\<exists>a. m = Inr a \<and> f a = Inl e)"
  by (cases m) auto

lemma bind_res_cong [fundef_cong]:
  "m = m' \<Longrightarrow> (\<And>a. m' = Inr a \<Longrightarrow> f a = g a) \<Longrightarrow> bind_res m f = bind_res m' g"
  by (cases m') auto

text \<open>\<open>a or b\<close> on optional values whose \<open>Some\<close> values are truthy: the first that is set.\<close>

fun or_else :: "'a option \<Rightarrow> 'a option \<Rightarrow> 'a option" where
  "or_else (Some a) b = Some a"
| "or_else None b = b"

lemma or_else_None_iff [simp]: "or_else a b = None \<longleftrightarrow> a = None \<and> b = None"
  by (cases a) auto

lemma or_else_None_right [simp]: "or_else a None = a"
  by (cases a) auto

text \<open>The first element that satisfies a test (\<open>next((x for ...), None)\<close>).\<close>

fun find_first :: "('a \<Rightarrow> bool) \<Rightarrow> 'a list \<Rightarrow> 'a option" where
  "find_first P [] = None"
| "find_first P (x # xs) = (if P x then Some x else find_first P xs)"

lemma find_first_Some:
  "find_first P xs = Some x \<Longrightarrow> x \<in> set xs \<and> P x"
  by (induction xs) (auto split: if_splits)

lemma find_first_None: "find_first P xs = None \<longleftrightarrow> (\<forall>x \<in> set xs. \<not> P x)"
  by (induction xs) auto

subsection \<open>Prefixes and suffixes\<close>

fun startswith :: "'a list \<Rightarrow> 'a list \<Rightarrow> bool" where
  "startswith s [] = True"
| "startswith [] (p # ps) = False"
| "startswith (c # s) (p # ps) = (c = p \<and> startswith s ps)"

definition endswith :: "'a list \<Rightarrow> 'a list \<Rightarrow> bool" where
  "endswith s p = startswith (rev s) (rev p)"

definition removesuffix :: "'a list \<Rightarrow> 'a list \<Rightarrow> 'a list" where
  "removesuffix s p =
     (if p \<noteq> [] \<and> endswith s p then take (length s - length p) s else s)"

lemma startswith_iff: "startswith s p \<longleftrightarrow> (\<exists>t. s = p @ t)"
  by (induction s p rule: startswith.induct) auto

lemma startswith_append [simp, prefix_simps]: "startswith (p @ s) p"
  by (auto simp: startswith_iff)

lemma startswith_refl [simp]: "startswith s s"
  by (auto simp: startswith_iff)

lemma startswith_take: "startswith s p \<longleftrightarrow> take (length p) s = p"
  by (auto simp: startswith_iff) (metis append_take_drop_id)

lemma endswith_iff: "endswith s p \<longleftrightarrow> (\<exists>t. s = t @ p)"
proof
  assume "endswith s p"
  then obtain t where "rev s = rev p @ t" by (auto simp: endswith_def startswith_iff)
  then have "s = rev t @ p" by (metis rev_append rev_rev_ident)
  then show "\<exists>t. s = t @ p" ..
next
  assume "\<exists>t. s = t @ p"
  then show "endswith s p" by (auto simp: endswith_def startswith_iff)
qed

lemma endswith_append [simp, prefix_simps]: "endswith (s @ p) p"
  by (auto simp: endswith_iff)

lemma endswith_refl [simp]: "endswith s s"
  by (auto simp: endswith_iff)

lemma endswith_single: "endswith s [x] \<longleftrightarrow> s \<noteq> [] \<and> last s = x"
  by (cases s rule: rev_cases) (auto simp: endswith_iff)

lemma removesuffix_append [simp, prefix_simps]: "p \<noteq> [] \<Longrightarrow> removesuffix (s @ p) p = s"
  by (simp add: removesuffix_def)

lemma removesuffix_id [prefix_simps]: "\<not> endswith s p \<Longrightarrow> removesuffix s p = s"
  by (simp add: removesuffix_def)

subsection \<open>Searching, splitting and joining\<close>

text \<open>\<open>sub in s\<close>, and \<open>s.partition(sub)\<close> as the parts around the first occurrence.\<close>

fun partition_at :: "'a list \<Rightarrow> 'a list \<Rightarrow> ('a list \<times> 'a list) option" where
  "partition_at [] sub = (if sub = [] then Some ([], []) else None)"
| "partition_at (c # s) sub =
     (if startswith (c # s) sub then Some ([], drop (length sub) (c # s))
      else map_option (\<lambda>(h, t). (c # h, t)) (partition_at s sub))"

definition contains :: "'a list \<Rightarrow> 'a list \<Rightarrow> bool" where
  "contains s sub = (partition_at s sub \<noteq> None)"

lemma partition_at_append: "partition_at s sub = Some (h, t) \<Longrightarrow> s = h @ sub @ t"
proof (induction s arbitrary: h)
  case Nil
  then show ?case by (auto split: if_splits)
next
  case (Cons c s)
  show ?case
  proof (cases "startswith (c # s) sub")
    case True
    with Cons.prems show ?thesis
      by (auto simp: startswith_take) (metis append_take_drop_id)
  next
    case False
    with Cons show ?thesis by auto
  qed
qed

text \<open>\<open>s.split(sep)\<close> for a one-character separator: \<open>n\<close> separators give \<open>n + 1\<close> pieces.\<close>

fun split_on :: "'a \<Rightarrow> 'a list \<Rightarrow> 'a list list" where
  "split_on sep [] = [[]]"
| "split_on sep (c # s) =
     (if c = sep then [] # split_on sep s
      else (case split_on sep s of [] \<Rightarrow> [[c]] | p # ps \<Rightarrow> (c # p) # ps))"

fun join :: "'a list \<Rightarrow> 'a list list \<Rightarrow> 'a list" where
  "join sep [] = []"
| "join sep [p] = p"
| "join sep (p # q # ps) = p @ sep @ join sep (q # ps)"

lemma split_on_not_Nil [simp]: "split_on sep s \<noteq> []"
  by (cases s) (auto split: list.splits)

lemma split_on_no_sep: "p \<in> set (split_on sep s) \<Longrightarrow> sep \<notin> set p"
proof (induction s arbitrary: p)
  case (Cons c s)
  obtain q qs where eq: "split_on sep s = q # qs" by (meson neq_Nil_conv split_on_not_Nil)
  with Cons show ?case by (auto split: if_splits)
qed simp

lemma join_split_on: "join [sep] (split_on sep s) = s"
proof (induction s)
  case (Cons c s)
  obtain q qs where eq: "split_on sep s = q # qs" by (meson neq_Nil_conv split_on_not_Nil)
  with Cons show ?case by (cases qs) auto
qed simp

lemma split_on_no_occurrence [prefix_simps]: "sep \<notin> set s \<Longrightarrow> split_on sep s = [s]"
  by (induction s) auto

lemma split_on_append_sep [prefix_simps]:
  "sep \<notin> set p \<Longrightarrow> split_on sep (p @ sep # s) = p # split_on sep s"
  by (induction p) auto

lemma split_on_join [prefix_simps]:
  "ps \<noteq> [] \<Longrightarrow> \<forall>p \<in> set ps. sep \<notin> set p \<Longrightarrow> split_on sep (join [sep] ps) = ps"
proof (induction ps)
  case (Cons p ps)
  then show ?case
    by (cases ps) (simp_all add: split_on_no_occurrence split_on_append_sep)
qed simp

text \<open>\<open>s.partition(sep)\<close> for one character: \<open>None\<close> when the separator is absent.\<close>

fun partition1 :: "'a \<Rightarrow> 'a list \<Rightarrow> ('a list \<times> 'a list) option" where
  "partition1 sep [] = None"
| "partition1 sep (c # s) =
     (if c = sep then Some ([], s)
      else map_option (\<lambda>(h, t). (c # h, t)) (partition1 sep s))"

lemma partition1_Some:
  "partition1 sep s = Some (h, t) \<longleftrightarrow> s = h @ sep # t \<and> sep \<notin> set h"
proof (induction s arbitrary: h)
  case (Cons c s)
  then show ?case by (cases h) auto
qed simp

lemma partition1_None: "partition1 sep s = None \<longleftrightarrow> sep \<notin> set s"
  by (induction s) auto

text \<open>\<open>s.replace(old, new)\<close>: occurrences from the left, never overlapping.\<close>

function replace :: "'a list \<Rightarrow> 'a list \<Rightarrow> 'a list \<Rightarrow> 'a list" where
  "replace old new s =
     (if old = [] then s
      else (case partition_at s old of
              None \<Rightarrow> s
            | Some (h, t) \<Rightarrow> h @ new @ replace old new t))"
  by pat_completeness auto
termination
proof (relation "measure (\<lambda>(old, new, s). length s)", goal_cases)
  case (2 old new s p h t)
  then have "s = h @ old @ t" by (auto dest: partition_at_append)
  with 2(1) show ?case by simp
qed simp

declare replace.simps [simp del]

text \<open>\<open>int.from_bytes(b, "big")\<close>\<close>

definition be_int :: "bytes \<Rightarrow> nat" where
  "be_int b = foldl (\<lambda>n w. n * 256 + unat w) 0 b"

subsection \<open>Dictionaries\<close>

abbreviation dict_get :: "('k, 'v) dict \<Rightarrow> 'k \<Rightarrow> 'v option" where
  "dict_get d k \<equiv> map_of d k"

definition dict_get_or :: "('k, 'v) dict \<Rightarrow> 'k \<Rightarrow> 'v \<Rightarrow> 'v" where
  "dict_get_or d k v = (case map_of d k of Some w \<Rightarrow> w | None \<Rightarrow> v)"

definition has_key :: "('k, 'v) dict \<Rightarrow> 'k \<Rightarrow> bool" where
  "has_key d k = (map_of d k \<noteq> None)"

lemma has_key_iff: "has_key d k \<longleftrightarrow> k \<in> fst ` set d"
  by (simp add: has_key_def map_of_eq_None_iff)

lemma map_of_update [simp]:
  "map_of (AList.update k v d) k' = (if k' = k then Some v else map_of d k')"
  by (simp add: update_conv')

subsection \<open>Sorting by a given order\<close>

text \<open>\<open>ORDER BY\<close>: a stable sort, by the order of the database.\<close>

fun insert_by :: "('a \<Rightarrow> 'a \<Rightarrow> bool) \<Rightarrow> 'a \<Rightarrow> 'a list \<Rightarrow> 'a list" where
  "insert_by precedes x [] = [x]"
| "insert_by precedes x (y # ys) = (if precedes y x then y # insert_by precedes x ys else x # y # ys)"

definition order_by :: "('a \<Rightarrow> 'a \<Rightarrow> bool) \<Rightarrow> 'a list \<Rightarrow> 'a list" where
  "order_by precedes xs = fold (insert_by precedes) xs []"

lemma insert_by_set [simp]: "set (insert_by precedes x xs) = insert x (set xs)"
  by (induction xs) auto

lemma insert_by_length [simp]: "length (insert_by precedes x xs) = Suc (length xs)"
  by (induction xs) auto

lemma order_by_rows: "set (order_by precedes xs) = set xs" "length (order_by precedes xs) = length xs"
proof -
  have "set (fold (insert_by precedes) xs ys) = set xs \<union> set ys"
    and "length (fold (insert_by precedes) xs ys) = length xs + length ys" for ys
    by (induction xs arbitrary: ys) auto
  then show "set (order_by precedes xs) = set xs" "length (order_by precedes xs) = length xs"
    by (simp_all add: order_by_def)
qed

end
