(* ===== verification/PyStr.thy ===== *)
theory PyStr
  imports Prelude "HOL-Library.List_Lexorder"
begin

text \<open>
  The string methods of Python that the modelled code calls, on lists of code points:
  case folding, whitespace, \<open>strip\<close>, \<open>split\<close>, digit classes and \<open>int\<close> of a numeral.

  \<open>lower\<close> and \<open>upper\<close> give Python's result for every code point up to U+00FF, and for
  every other code point whose folding reaches down into that range (U+212A KELVIN SIGN
  becomes \<open>k\<close>, U+017F LONG S becomes \<open>S\<close>, ...). The remaining cased code points, which
  fold among themselves above U+00FF, are left unchanged: the program only ever compares
  a folded string with text in the ASCII range, so that no comparison can tell.
\<close>

subsection \<open>Case\<close>

definition lower_cp :: "int \<Rightarrow> str" where
  "lower_cp c =
     (if (65 \<le> c \<and> c \<le> 90) \<or> (192 \<le> c \<and> c \<le> 222 \<and> c \<noteq> 215) then [c + 32]
      else if c = 0x130 then [105, 0x307]
      else if c = 0x178 then [255]
      else if c = 0x1E9E then [223]
      else if c = 0x212A then [107]
      else if c = 0x212B then [229]
      else [c])"

definition lower :: "str \<Rightarrow> str" where
  "lower s = concat (map lower_cp s)"

definition upper_table :: "(int \<times> str) list" where
  "upper_table =
     [(0xB5, [0x39C]), (0xDF, [83, 83]), (0xFF, [0x178]), (0x131, [73]), (0x149, [0x2BC, 78]),
      (0x17F, [83]), (0x1F0, [74, 0x30C]), (0x1E96, [72, 0x331]), (0x1E97, [84, 0x308]),
      (0x1E98, [87, 0x30A]), (0x1E99, [89, 0x30A]), (0x1E9A, [65, 0x2BE]), (0xFB00, [70, 70]),
      (0xFB01, [70, 73]), (0xFB02, [70, 76]), (0xFB03, [70, 70, 73]), (0xFB04, [70, 70, 76]),
      (0xFB05, [83, 84]), (0xFB06, [83, 84])]"

definition upper_cp :: "int \<Rightarrow> str" where
  "upper_cp c =
     (if (97 \<le> c \<and> c \<le> 122) \<or> (224 \<le> c \<and> c \<le> 254 \<and> c \<noteq> 247) then [c - 32]
      else dict_get_or upper_table c [c])"

definition upper :: "str \<Rightarrow> str" where
  "upper s = concat (map upper_cp s)"

lemma lower_Nil [simp]: "lower [] = []"
  by (simp add: lower_def)

lemma lower_append [simp]: "lower (a @ b) = lower a @ lower b"
  by (simp add: lower_def)

lemma lower_Cons: "lower (c # s) = lower_cp c @ lower s"
  by (simp add: lower_def)

lemma lower_cp_lower: "lower (lower_cp c) = lower_cp c"
  by (auto simp: lower_def lower_cp_def)

lemma lower_lower [simp]: "lower (lower s) = lower s"
  by (induction s) (auto simp: lower_Cons lower_cp_lower)

lemma lower_cp_not_Nil [simp]: "lower_cp c \<noteq> []"
  by (simp add: lower_cp_def)

lemma lower_eq_Nil [simp]: "lower s = [] \<longleftrightarrow> s = []"
  by (cases s) (auto simp: lower_Cons)

text \<open>A string is folded if folding leaves it alone; every lower-case ASCII literal is.\<close>

definition is_folded :: "str \<Rightarrow> bool" where
  "is_folded s \<longleftrightarrow> lower s = s"

lemma is_folded_lower [simp]: "is_folded (lower s)"
  by (simp add: is_folded_def)

definition ascii_lower_cps :: "str \<Rightarrow> bool" where
  "ascii_lower_cps s = list_all (\<lambda>c. c < 65 \<or> (90 < c \<and> c < 192)) s"

lemma lower_ascii: "ascii_lower_cps s \<Longrightarrow> lower s = s"
  by (induction s) (auto simp: ascii_lower_cps_def lower_Cons lower_cp_def)

subsection \<open>Character classes\<close>

text \<open>\<open>str.isspace\<close>, which is also the regular-expression class \<open>\s\<close>.\<close>

definition is_space :: "int \<Rightarrow> bool" where
  "is_space c \<longleftrightarrow>
     (9 \<le> c \<and> c \<le> 13) \<or> (28 \<le> c \<and> c \<le> 32) \<or> c = 0x85 \<or> c = 0xA0 \<or> c = 0x1680
     \<or> (0x2000 \<le> c \<and> c \<le> 0x200A) \<or> c = 0x2028 \<or> c = 0x2029 \<or> c = 0x202F
     \<or> c = 0x205F \<or> c = 0x3000"

text \<open>
  The decimal digits of the Unicode database (class \<open>\d\<close>): runs of ten code points from
  each of these zeros, and five such runs from U+1D7CE.
\<close>

definition digit_zeros :: "int list" where
  "digit_zeros =
     [0x30, 0x660, 0x6f0, 0x7c0, 0x966, 0x9e6, 0xa66, 0xae6, 0xb66, 0xbe6, 0xc66, 0xce6,
      0xd66, 0xde6, 0xe50, 0xed0, 0xf20, 0x1040, 0x1090, 0x17e0, 0x1810, 0x1946, 0x19d0,
      0x1a80, 0x1a90, 0x1b50, 0x1bb0, 0x1c40, 0x1c50, 0xa620, 0xa8d0, 0xa900, 0xa9d0,
      0xa9f0, 0xaa50, 0xabf0, 0xff10, 0x104a0, 0x10d30, 0x11066, 0x110f0, 0x11136, 0x111d0,
      0x112f0, 0x11450, 0x114d0, 0x11650, 0x116c0, 0x11730, 0x118e0, 0x11950, 0x11c50,
      0x11d50, 0x11da0, 0x16a60, 0x16ac0, 0x16b50, 0x1d7ce, 0x1d7d8, 0x1d7e2, 0x1d7ec,
      0x1d7f6, 0x1e140, 0x1e2f0, 0x1e950, 0x1fbf0]"

definition digit_value :: "int \<Rightarrow> int option" where
  "digit_value c = map_option (\<lambda>z. c - z) (find_first (\<lambda>z. z \<le> c \<and> c \<le> z + 9) digit_zeros)"

definition is_digit :: "int \<Rightarrow> bool" where
  "is_digit c \<longleftrightarrow> digit_value c \<noteq> None"

lemma digit_value_range: "digit_value c = Some d \<Longrightarrow> 0 \<le> d \<and> d \<le> 9"
  by (auto simp: digit_value_def dest!: find_first_Some)

lemma digit_value_ascii: "48 \<le> c \<Longrightarrow> c \<le> 57 \<Longrightarrow> digit_value c = Some (c - 48)"
  by (simp add: digit_value_def digit_zeros_def)

lemma is_digit_ascii: "48 \<le> c \<Longrightarrow> c \<le> 57 \<Longrightarrow> is_digit c"
  by (simp add: is_digit_def digit_value_ascii)

lemma is_digit_small: "c < 0x660 \<Longrightarrow> is_digit c \<longleftrightarrow> 48 \<le> c \<and> c \<le> 57"
  by (auto simp: is_digit_def digit_value_def digit_zeros_def split: if_splits)

subsection \<open>\<open>strip\<close> and \<open>split\<close>\<close>

definition lstrip_by :: "('a \<Rightarrow> bool) \<Rightarrow> 'a list \<Rightarrow> 'a list" where
  "lstrip_by P s = dropWhile P s"

definition rstrip_by :: "('a \<Rightarrow> bool) \<Rightarrow> 'a list \<Rightarrow> 'a list" where
  "rstrip_by P s = rev (dropWhile P (rev s))"

definition strip_by :: "('a \<Rightarrow> bool) \<Rightarrow> 'a list \<Rightarrow> 'a list" where
  "strip_by P s = rstrip_by P (lstrip_by P s)"

abbreviation strip :: "str \<Rightarrow> str" where
  "strip \<equiv> strip_by is_space"

lemma strip_by_ends:
  assumes "strip_by P s = a # t"
  shows "\<not> P a" and "\<not> P (last (a # t))"
proof -
  have l: "\<not> P (last u)" if "u = rstrip_by P s" "u \<noteq> []" for u and s :: "'a list"
    using that by (metis hd_dropWhile last_rev rev_is_Nil_conv rev_rev_ident rstrip_by_def)
  then show "\<not> P (last (a # t))"
    using assms by (metis list.distinct(1) strip_by_def)
  obtain v where "lstrip_by P s = strip_by P s @ v"
    by (metis append_take_drop_id rev_append rev_rev_ident rstrip_by_def strip_by_def
        takeWhile_dropWhile_id)
  with assms have "dropWhile P s = a # t @ v" by (simp add: lstrip_by_def)
  then show "\<not> P a" by (metis hd_dropWhile list.distinct(1) list.sel(1))
qed

text \<open>\<open>s.split()\<close>: the maximal runs of non-space characters.\<close>

fun split_ws_aux :: "('a \<Rightarrow> bool) \<Rightarrow> 'a list \<Rightarrow> 'a list \<Rightarrow> 'a list list" where
  "split_ws_aux P cur [] = (if cur = [] then [] else [rev cur])"
| "split_ws_aux P cur (c # s) =
     (if P c then (if cur = [] then split_ws_aux P [] s else rev cur # split_ws_aux P [] s)
      else split_ws_aux P (c # cur) s)"

definition split_ws :: "str \<Rightarrow> str list" where
  "split_ws s = split_ws_aux is_space [] s"

lemma split_ws_aux_no_space:
  "t \<in> set (split_ws_aux P cur s) \<Longrightarrow> \<forall>c \<in> set cur. \<not> P c \<Longrightarrow> t \<noteq> [] \<and> (\<forall>c \<in> set t. \<not> P c)"
proof (induction s arbitrary: cur)
  case Nil
  then show ?case by (cases cur) auto
next
  case (Cons c s)
  show ?case
  proof (cases "P c")
    case True
    with Cons.prems consider "t = rev cur" "cur \<noteq> []" | "t \<in> set (split_ws_aux P [] s)"
      by (auto split: if_splits)
    then show ?thesis using Cons.IH [of "[]"] Cons.prems(2) by cases auto
  next
    case False
    with Cons.prems show ?thesis by (intro Cons.IH [of "c # cur"]) auto
  qed
qed

lemma split_ws_token: "t \<in> set (split_ws s) \<Longrightarrow> t \<noteq> [] \<and> (\<forall>c \<in> set t. \<not> is_space c)"
  unfolding split_ws_def by (erule split_ws_aux_no_space) simp

lemma split_ws_aux_run:
  "\<forall>c \<in> set s. \<not> P c \<Longrightarrow> split_ws_aux P cur s = (if cur = [] \<and> s = [] then [] else [rev cur @ s])"
  by (induction s arbitrary: cur) auto

lemma split_ws_single: "s \<noteq> [] \<Longrightarrow> \<forall>c \<in> set s. \<not> is_space c \<Longrightarrow> split_ws s = [s]"
  by (simp add: split_ws_def split_ws_aux_run)

text \<open>\<open>s.splitlines()\<close>: every line boundary of Unicode, a CR LF pair counting once.\<close>

definition is_line_end :: "int \<Rightarrow> bool" where
  "is_line_end c \<longleftrightarrow> (10 \<le> c \<and> c \<le> 13) \<or> (28 \<le> c \<and> c \<le> 30) \<or> c \<in> {0x85, 0x2028, 0x2029}"

fun splitlines_aux :: "str \<Rightarrow> str \<Rightarrow> str list" where
  "splitlines_aux cur [] = (if cur = [] then [] else [rev cur])"
| "splitlines_aux cur [c] = (if is_line_end c then [rev cur] else [rev (c # cur)])"
| "splitlines_aux cur (c # d # s) =
     (if c = 13 \<and> d = 10 then rev cur # splitlines_aux [] s
      else if is_line_end c then rev cur # splitlines_aux [] (d # s)
      else splitlines_aux (c # cur) (d # s))"

definition splitlines :: "str \<Rightarrow> str list" where
  "splitlines s = splitlines_aux [] s"

subsection \<open>\<open>int(text)\<close> and \<open>int(text, 16)\<close>\<close>

text \<open>
  Python strips surrounding whitespace, takes an optional sign, and reads digits of the
  base with single underscores between them. Base 16 also takes a \<open>0x\<close> prefix.
\<close>

definition hex_value :: "int \<Rightarrow> int option" where
  "hex_value c =
     (if 97 \<le> c \<and> c \<le> 102 then Some (c - 87)
      else if 65 \<le> c \<and> c \<le> 70 then Some (c - 55)
      else digit_value c)"

text \<open>\<open>ok\<close> says that the previous character was a digit: an underscore may follow it.\<close>

fun read_digits :: "int \<Rightarrow> (int \<Rightarrow> int option) \<Rightarrow> int \<Rightarrow> bool \<Rightarrow> str \<Rightarrow> int option" where
  "read_digits b val acc ok [] = (if ok then Some acc else None)"
| "read_digits b val acc ok (c # s) =
     (if c = 95 then (if ok then read_digits b val acc False s else None)
      else (case val c of None \<Rightarrow> None | Some d \<Rightarrow> read_digits b val (b * acc + d) True s))"

definition signed_numeral :: "(str \<Rightarrow> int option) \<Rightarrow> str \<Rightarrow> int option" where
  "signed_numeral f s =
     (case s of
        [] \<Rightarrow> None
      | c # t \<Rightarrow> (if c = 45 then map_option uminus (f t) else if c = 43 then f t else f s))"

text \<open>A decimal numeral of more than 4300 digits is refused (Python's conversion limit).\<close>

definition max_str_digits :: int where
  "max_str_digits = 4300"

definition py_int :: "str \<Rightarrow> int option" where
  "py_int s =
     (if max_str_digits < int (length (filter is_digit s)) then None
      else signed_numeral (read_digits 10 digit_value 0 False) (strip s))"

definition read_hex :: "str \<Rightarrow> int option" where
  "read_hex s =
     (case s of
        z # x # t \<Rightarrow>
          (if z = 48 \<and> (x = 120 \<or> x = 88) then read_digits 16 hex_value 0 (t \<noteq> [] \<and> hd t = 95) t
           else read_digits 16 hex_value 0 False s)
      | _ \<Rightarrow> read_digits 16 hex_value 0 False s)"

text \<open>
  \<open>int(b, 16)\<close> for bytes: the same grammar over ASCII, where only the six C whitespace
  characters are stripped.
\<close>

definition is_ascii_space :: "int \<Rightarrow> bool" where
  "is_ascii_space c \<longleftrightarrow> (9 \<le> c \<and> c \<le> 13) \<or> c = 32"

definition latin1 :: "bytes \<Rightarrow> str" where
  "latin1 b = map uint b"

definition bytes_int16 :: "bytes \<Rightarrow> int option" where
  "bytes_int16 b = signed_numeral read_hex (strip_by is_ascii_space (latin1 b))"

text \<open>\<open>str(n)\<close> for an integer.\<close>

function nat_digits :: "nat \<Rightarrow> str" where
  "nat_digits n = (if n < 10 then [48 + int n] else nat_digits (n div 10) @ [48 + int (n mod 10)])"
  by pat_completeness auto
termination by (relation "measure id") auto

declare nat_digits.simps [simp del]

definition str_of_int :: "int \<Rightarrow> str" where
  "str_of_int i = (if i < 0 then 45 # nat_digits (nat (- i)) else nat_digits (nat i))"

lemma nat_digits_ascii: "c \<in> set (nat_digits n) \<Longrightarrow> 48 \<le> c \<and> c \<le> 57"
proof (induction n rule: nat_digits.induct)
  case (1 n)
  then show ?case by (subst (asm) (2) nat_digits.simps) (auto split: if_splits)
qed

lemma nat_digits_not_Nil [simp]: "nat_digits n \<noteq> []"
  by (subst nat_digits.simps) simp

lemma read_digits_append:
  assumes "\<forall>x \<in> set s. val x \<noteq> None \<and> x \<noteq> 95" "c \<noteq> 95" "val c = Some d"
  shows "read_digits b val acc k (s @ [c]) = map_option (\<lambda>v. b * v + d) (read_digits b val acc True s)"
  using assms(1)
proof (induction s arbitrary: acc k)
  case (Cons x s)
  then obtain e where "val x = Some e" by auto
  with Cons show ?case by simp
qed (use assms in simp)

lemma read_nat_digits: "read_digits 10 digit_value 0 False (nat_digits n) = Some (int n)
  \<and> read_digits 10 digit_value 0 True (nat_digits n) = Some (int n)"
proof (induction n rule: nat_digits.induct)
  case (1 n)
  show ?case
  proof (cases "n < 10")
    case True
    then show ?thesis by (subst (1 2) nat_digits.simps) (simp add: digit_value_ascii)
  next
    case False
    let ?s = "nat_digits (n div 10)" and ?c = "48 + int (n mod 10)"
    have eq: "nat_digits n = ?s @ [?c]" using False by (subst nat_digits.simps) simp
    have s: "\<forall>x \<in> set ?s. digit_value x \<noteq> None \<and> x \<noteq> 95"
      using nat_digits_ascii digit_value_ascii by fastforce
    have c: "?c \<noteq> 95" "digit_value ?c = Some (int (n mod 10))" by (simp_all add: digit_value_ascii)
    show ?thesis
      unfolding eq read_digits_append [OF s c] using 1 [OF False] div_mult_mod_eq [of "int n" 10]
      by (simp add: zdiv_int zmod_int)
  qed
qed

lemma strip_by_none: "\<forall>c \<in> set s. \<not> P c \<Longrightarrow> strip_by P s = s"
proof -
  assume "\<forall>c \<in> set s. \<not> P c"
  then have "dropWhile P s = s" "dropWhile P (rev s) = rev s"
    by (auto simp: dropWhile_eq_self_iff hd_rev)
  then show ?thesis by (simp add: strip_by_def lstrip_by_def rstrip_by_def)
qed

lemma strip_ascii_digits: "strip (nat_digits n) = nat_digits n"
  by (rule strip_by_none) (auto simp: is_space_def dest!: nat_digits_ascii)

lemma length_nat_digits: "n < 10 ^ k \<Longrightarrow> 0 < k \<Longrightarrow> length (nat_digits n) \<le> k"
proof (induction n arbitrary: k rule: nat_digits.induct)
  case (1 n)
  show ?case
  proof (cases "n < 10")
    case True
    with 1 show ?thesis by (subst nat_digits.simps) simp
  next
    case False
    with 1 obtain j where k: "k = Suc j" "0 < j"
      by (cases k; cases "k - 1") auto
    with 1 have "n div 10 < 10 ^ j" by (simp add: less_mult_imp_div_less mult.commute)
    with 1 False k show ?thesis by (subst nat_digits.simps) simp
  qed
qed

lemma py_int_digits:
  assumes "int (length (nat_digits n)) \<le> max_str_digits"
  shows "py_int (nat_digits n) = Some (int n)"
proof -
  have "length (filter is_digit (nat_digits n)) \<le> length (nat_digits n)" by (rule length_filter_le)
  with assms have short: "\<not> max_str_digits < int (length (filter is_digit (nat_digits n)))" by linarith
  obtain c t where ct: "nat_digits n = c # t" by (cases "nat_digits n") auto
  with nat_digits_ascii [of c n] have "c \<noteq> 45" "c \<noteq> 43" by auto
  then have "signed_numeral (read_digits 10 digit_value 0 False) (nat_digits n)
      = read_digits 10 digit_value 0 False (nat_digits n)"
    unfolding ct signed_numeral_def by simp
  with short read_nat_digits [of n] show ?thesis by (simp add: py_int_def strip_ascii_digits)
qed

lemma read_digits_bound:
  assumes "read_digits 10 digit_value acc seen s = Some v" "0 \<le> acc"
  shows "0 \<le> v \<and> v < (acc + 1) * 10 ^ length s"
  using assms
proof (induction s arbitrary: acc seen)
  case (Cons c s)
  have grow: "x \<le> x * 10" if "0 \<le> x" for x :: int using that by simp
  from Cons.prems consider (underscore) "c = 95" "read_digits 10 digit_value acc False s = Some v"
    | (digit) d where "digit_value c = Some d" "read_digits 10 digit_value (10 * acc + d) True s = Some v"
    by (auto split: if_splits option.splits)
  then show ?case
  proof cases
    case underscore
    from Cons.IH [OF underscore(2)] Cons.prems(2) have "0 \<le> v" "v < (acc + 1) * 10 ^ length s" by auto
    with grow [of "(acc + 1) * 10 ^ length s"] show ?thesis by (simp add: mult.commute)
  next
    case digit
    from digit_value_range [OF digit(1)] Cons.prems(2) have d: "0 \<le> 10 * acc + d" "10 * acc + d + 1 \<le> (acc + 1) * 10"
      by auto
    from Cons.IH [OF digit(2) d(1)] have "0 \<le> v" "v < (10 * acc + d + 1) * 10 ^ length s" by auto
    moreover have "(10 * acc + d + 1) * 10 ^ length s \<le> (acc + 1) * 10 * 10 ^ length s"
      by (rule mult_right_mono [OF d(2)]) simp
    ultimately have "v < (acc + 1) * 10 * 10 ^ length s" by linarith
    with \<open>0 \<le> v\<close> show ?thesis by (simp only: length_Cons power_Suc mult.assoc simp_thms)
  qed
qed (auto split: if_splits)

lemma strip_length: "length (strip s) \<le> length s"
  unfolding strip_by_def rstrip_by_def lstrip_by_def
  by (metis length_dropWhile_le length_rev le_trans)

lemma py_int_bound:
  assumes "py_int s = Some v" "length s \<le> n"
  shows "v < 10 ^ n"
proof -
  have below: "w < 10 ^ n" if "read_digits 10 digit_value 0 False t = Some w" "length t \<le> length s" for w t
  proof -
    from read_digits_bound [OF that(1)] have "w < 10 ^ length t" by simp
    also have "(10::int) ^ length t \<le> 10 ^ n" using that(2) assms(2) by (intro power_increasing) auto
    finally show ?thesis .
  qed
  have pos: "- w < 10 ^ n" if "read_digits 10 digit_value 0 False t = Some w" for w t
    using read_digits_bound [OF that] by (smt (verit) zero_less_power)
  from assms(1) obtain c t where t: "strip s = c # t"
    and r: "signed_numeral (read_digits 10 digit_value 0 False) (c # t) = Some v"
    by (cases "strip s") (auto simp: py_int_def signed_numeral_def split: if_splits)
  have "length t \<le> length s" "length (c # t) \<le> length s" using strip_length [of s] t by auto
  with r below [of t] below [of "c # t"] pos [of t] show ?thesis
    by (auto simp: signed_numeral_def simp del: read_digits.simps split: if_splits)
qed

end
