(* ===== verification/UrlLib.thy ===== *)
theory UrlLib
  imports PyStr
begin

text \<open>
  The parts of \<open>urllib.parse\<close>, \<open>posixpath\<close> and the UTF-8 codec that the request path
  of the proxy relies on: percent-decoding, \<open>urlsplit\<close>, \<open>parse_qsl\<close>, \<open>quote\<close> and
  \<open>normpath\<close>. Tables of the Unicode database and IP address parsing are parameters,
  collected in the record \<open>pylib\<close>.
\<close>

record pylib =
  nfkc :: "str \<Rightarrow> str"               \<comment> \<open>\<open>unicodedata.normalize('NFKC', s)\<close>\<close>
  ip_version :: "str \<Rightarrow> int option"  \<comment> \<open>version of \<open>ipaddress.ip_address(s)\<close>, \<open>None\<close>: ValueError\<close>
  ip_is_global :: "str \<Rightarrow> bool"      \<comment> \<open>\<open>ipaddress.ip_address(s).is_global\<close>\<close>
  category_c :: "int \<Rightarrow> bool"        \<comment> \<open>\<open>unicodedata.category(c).startswith('C')\<close>\<close>
  word_cp :: "int \<Rightarrow> bool"           \<comment> \<open>\<open>\w\<close> for a code point from U+0080\<close>

subsection \<open>UTF-8\<close>

definition utf8_cont :: "int \<Rightarrow> bool" where
  "utf8_cont b \<longleftrightarrow> 128 \<le> b \<and> b < 192"

text \<open>
  One step of the decoder on a byte and what follows it: the code point, or \<open>None\<close> for an
  ill-formed sequence, and the number of further bytes it takes. An ill-formed sequence
  takes the longest prefix of a well-formed one, as CPython's decoder does.
\<close>

definition utf8_step :: "int \<Rightarrow> int list \<Rightarrow> int option \<times> nat" where
  "utf8_step b bs =
     (let lo = (if b = 0xE0 then 0xA0 else if b = 0xF0 then 0x90 else 0x80);
          hi = (if b = 0xED then 0x9F else if b = 0xF4 then 0x8F else 0xBF)
      in if b < 0x80 then (Some b, 0)
         else if 0xC2 \<le> b \<and> b \<le> 0xDF then
           (case bs of
              c # _ \<Rightarrow> (if utf8_cont c then (Some ((b - 0xC0) * 64 + (c - 0x80)), 1) else (None, 0))
            | [] \<Rightarrow> (None, 0))
         else if 0xE0 \<le> b \<and> b \<le> 0xEF then
           (case bs of
              c # d # _ \<Rightarrow>
                (if lo \<le> c \<and> c \<le> hi then
                   (if utf8_cont d
                    then (Some ((b - 0xE0) * 4096 + (c - 0x80) * 64 + (d - 0x80)), 2)
                    else (None, 1))
                 else (None, 0))
            | [c] \<Rightarrow> (None, if lo \<le> c \<and> c \<le> hi then 1 else 0)
            | [] \<Rightarrow> (None, 0))
         else if 0xF0 \<le> b \<and> b \<le> 0xF4 then
           (case bs of
              c # d # e # _ \<Rightarrow>
                (if lo \<le> c \<and> c \<le> hi then
                   (if utf8_cont d then
                      (if utf8_cont e
                       then (Some ((b - 0xF0) * 262144 + (c - 0x80) * 4096 + (d - 0x80) * 64 + (e - 0x80)), 3)
                       else (None, 2))
                    else (None, 1))
                 else (None, 0))
            | [c, d] \<Rightarrow> (None, if lo \<le> c \<and> c \<le> hi then (if utf8_cont d then 2 else 1) else 0)
            | [c] \<Rightarrow> (None, if lo \<le> c \<and> c \<le> hi then 1 else 0)
            | [] \<Rightarrow> (None, 0))
         else (None, 0))"

function utf8_decode :: "int list \<Rightarrow> int option list" where
  "utf8_decode [] = []"
| "utf8_decode (b # bs) =
     (case utf8_step b bs of (r, n) \<Rightarrow> r # utf8_decode (drop n bs))"
  by pat_completeness auto
termination by (relation "measure length") auto

text \<open>\<open>errors='replace'\<close> and \<open>errors='strict'\<close>.\<close>

definition utf8_replace :: "int list \<Rightarrow> str" where
  "utf8_replace b = map (\<lambda>r. case r of Some c \<Rightarrow> c | None \<Rightarrow> 0xFFFD) (utf8_decode b)"

definition utf8_strict :: "int list \<Rightarrow> str option" where
  "utf8_strict b = (let rs = utf8_decode b in if None \<in> set rs then None else Some (map the rs))"

text \<open>\<open>s.encode('utf-8')\<close>: \<open>None\<close> when the string has a lone surrogate.\<close>

definition is_surrogate :: "int \<Rightarrow> bool" where
  "is_surrogate c \<longleftrightarrow> 0xD800 \<le> c \<and> c \<le> 0xDFFF"

definition utf8_encode_cp :: "int \<Rightarrow> int list" where
  "utf8_encode_cp c =
     (if c < 0x80 then [c]
      else if c < 0x800 then [0xC0 + c div 64, 0x80 + c mod 64]
      else if c < 0x10000 then [0xE0 + c div 4096, 0x80 + (c div 64) mod 64, 0x80 + c mod 64]
      else [0xF0 + c div 262144, 0x80 + (c div 4096) mod 64, 0x80 + (c div 64) mod 64, 0x80 + c mod 64])"

definition utf8_encode :: "str \<Rightarrow> int list option" where
  "utf8_encode s = (if list_ex is_surrogate s then None else Some (concat (map utf8_encode_cp s)))"

lemma utf8_decode_ascii: "\<forall>c \<in> set s. c < 128 \<Longrightarrow> utf8_decode s = map Some s"
  by (induction s) (auto simp: utf8_step_def)

lemma utf8_replace_ascii: "\<forall>c \<in> set s. c < 128 \<Longrightarrow> utf8_replace s = s"
  by (simp add: utf8_replace_def utf8_decode_ascii map_idI)

lemma utf8_step_encode:
  assumes "0 \<le> c" "c < 0x110000" "\<not> is_surrogate c"
  shows "\<exists>b bs. utf8_encode_cp c = b # bs \<and> utf8_step b (bs @ t) = (Some c, length bs)"
proof -
  consider "c < 0x80" | "0x80 \<le> c" "c < 0x800" | "0x800 \<le> c" "c < 0x10000" | "0x10000 \<le> c"
    by linarith
  then show ?thesis
  proof cases
    case 2
    then have "2 \<le> c div 64" "c div 64 \<le> 31" by auto
    with 2 show ?thesis by (simp add: utf8_encode_cp_def utf8_step_def utf8_cont_def Let_def)
  next
    case 3
    define x y z where "x = c div 4096" and "y = (c div 64) mod 64" and "z = c mod 64"
    note d = x_def [symmetric] y_def [symmetric] z_def [symmetric]
    have "c div 4096 = c div 64 div 64" using zdiv_zmult2_eq [of 64 c 64] by simp
    then have c: "c = x * 4096 + y * 64 + z"
      using div_mult_mod_eq [of c 64] div_mult_mod_eq [of "c div 64" 64]
      unfolding x_def y_def z_def by linarith
    have r: "0 \<le> y" "y < 64" "0 \<le> z" "z < 64" by (simp_all add: y_def z_def)
    have x: "0 \<le> x" "x \<le> 15" using 3 by (simp_all add: x_def)
    have lo: "x = 0 \<longrightarrow> 32 \<le> y" and hi: "x = 13 \<longrightarrow> y \<le> 31"
      using c r 3 assms(3) unfolding is_surrogate_def by auto
    have e: "utf8_encode_cp c = [0xE0 + x, 0x80 + y, 0x80 + z]"
      using 3 by (simp add: utf8_encode_cp_def d)
    show ?thesis
      unfolding e using r x lo hi c by (simp add: utf8_step_def utf8_cont_def Let_def)
  next
    case 4
    define w x y z where "w = c div 262144" and "x = (c div 4096) mod 64"
      and "y = (c div 64) mod 64" and "z = c mod 64"
    note d = w_def [symmetric] x_def [symmetric] y_def [symmetric] z_def [symmetric]
    have "c div 4096 = c div 64 div 64" "c div 262144 = c div 4096 div 64"
      using zdiv_zmult2_eq [of 64 c 64] zdiv_zmult2_eq [of 64 c 4096] by simp_all
    then have c: "c = w * 262144 + x * 4096 + y * 64 + z"
      using div_mult_mod_eq [of c 64] div_mult_mod_eq [of "c div 64" 64]
        div_mult_mod_eq [of "c div 4096" 64]
      unfolding w_def x_def y_def z_def by linarith
    have r: "0 \<le> x" "x < 64" "0 \<le> y" "y < 64" "0 \<le> z" "z < 64"
      by (simp_all add: x_def y_def z_def)
    have w: "0 \<le> w" "w \<le> 4" using 4 assms(2) by (simp_all add: w_def)
    have lo: "w = 0 \<longrightarrow> 16 \<le> x" and hi: "w = 4 \<longrightarrow> x \<le> 15"
      using c r 4 assms(2) by auto
    have e: "utf8_encode_cp c = [0xF0 + w, 0x80 + x, 0x80 + y, 0x80 + z]"
      using 4 by (simp add: utf8_encode_cp_def d)
    show ?thesis
      unfolding e using r w lo hi c by (simp add: utf8_step_def utf8_cont_def Let_def)
  qed (use assms in \<open>simp add: utf8_encode_cp_def utf8_step_def\<close>)
qed

lemma utf8_decode_encode:
  "\<forall>c \<in> set s. 0 \<le> c \<and> c < 0x110000 \<and> \<not> is_surrogate c \<Longrightarrow>
   utf8_decode (concat (map utf8_encode_cp s)) = map Some s"
proof (induction s)
  case (Cons c s)
  then obtain b bs where "utf8_encode_cp c = b # bs"
      "utf8_step b (bs @ concat (map utf8_encode_cp s)) = (Some c, length bs)"
    using utf8_step_encode [of c "concat (map utf8_encode_cp s)"] by auto
  moreover have "utf8_decode (concat (map utf8_encode_cp s)) = map Some s"
    using Cons by simp
  ultimately show ?case by simp
qed simp

subsection \<open>Percent-decoding\<close>

definition ascii_hex :: "int \<Rightarrow> int option" where
  "ascii_hex c =
     (if 48 \<le> c \<and> c \<le> 57 then Some (c - 48)
      else if 97 \<le> c \<and> c \<le> 102 then Some (c - 87)
      else if 65 \<le> c \<and> c \<le> 70 then Some (c - 55) else None)"

text \<open>\<open>unquote_to_bytes\<close> on ASCII text.\<close>

fun unpercent :: "int list \<Rightarrow> int list" where
  "unpercent (c # a # b # s) =
     (if c = 37 then
        (case (ascii_hex a, ascii_hex b) of
           (Some x, Some y) \<Rightarrow> (16 * x + y) # unpercent s
         | _ \<Rightarrow> c # unpercent (a # b # s))
      else c # unpercent (a # b # s))"
| "unpercent s = s"

text \<open>
  \<open>unquote\<close>: each maximal run of ASCII characters is percent-decoded and its bytes are
  decoded as UTF-8; other characters are kept.
\<close>

function unquote_with :: "(int list \<Rightarrow> str option) \<Rightarrow> str \<Rightarrow> str option" where
  "unquote_with dec [] = Some []"
| "unquote_with dec (c # s) =
     (if c < 128 then
        (case dec (unpercent (takeWhile (\<lambda>x. x < 128) (c # s))) of
           None \<Rightarrow> None
         | Some t \<Rightarrow> map_option ((@) t) (unquote_with dec (dropWhile (\<lambda>x. x < 128) s)))
      else map_option ((#) c) (unquote_with dec s))"
  by pat_completeness auto
termination
  by (relation "measure (\<lambda>(d, s). length s)") (auto simp: le_imp_less_Suc length_dropWhile_le)

definition unquote :: "str \<Rightarrow> str" where
  "unquote s = (case unquote_with (Some \<circ> utf8_replace) s of Some t \<Rightarrow> t | None \<Rightarrow> [])"

definition unquote_strict :: "str \<Rightarrow> str option" where
  "unquote_strict s = unquote_with utf8_strict s"

lemma unquote_with_total: "\<exists>t. unquote_with (Some \<circ> f) s = Some t"
  by (induction "Some \<circ> f" s rule: unquote_with.induct) auto

lemma unpercent_no_percent: "37 \<notin> set s \<Longrightarrow> unpercent s = s"
  by (induction s rule: unpercent.induct) auto

lemma unquote_ascii_no_percent:
  assumes "\<forall>c \<in> set s. c < 128" and "37 \<notin> set s"
  shows "unquote s = s"
proof (cases s)
  case (Cons c r)
  have d: "dropWhile (\<lambda>x. x < 128) r = []" and t: "takeWhile (\<lambda>x. x < 128) r = r"
    using assms(1) Cons by (auto simp: dropWhile_eq_Nil_conv takeWhile_eq_all_conv)
  have "unpercent s = s" using assms(2) by (rule unpercent_no_percent)
  with assms Cons show ?thesis
    by (simp add: unquote_def utf8_replace_ascii d t)
qed (simp add: unquote_def)

definition unquote_plus :: "str \<Rightarrow> str" where
  "unquote_plus s = unquote (map (\<lambda>c. if c = 43 then 32 else c) s)"

subsection \<open>\<open>quote\<close>\<close>

definition always_safe :: "int \<Rightarrow> bool" where
  "always_safe c \<longleftrightarrow>
     (65 \<le> c \<and> c \<le> 90) \<or> (97 \<le> c \<and> c \<le> 122) \<or> (48 \<le> c \<and> c \<le> 57) \<or> c \<in> {95, 46, 45, 126}"

definition hex_upper :: "int \<Rightarrow> int" where
  "hex_upper d = (if d < 10 then 48 + d else 55 + d)"

definition quote :: "str \<Rightarrow> str \<Rightarrow> str option" where
  "quote safe s =
     map_option (\<lambda>bs. concat (map (\<lambda>b. if always_safe b \<or> b \<in> set safe then [b]
                                       else [37, hex_upper (b div 16), hex_upper (b mod 16)]) bs))
       (utf8_encode s)"

subsection \<open>\<open>urlsplit\<close> and \<open>parse_qsl\<close>\<close>

record split_result =
  u_scheme :: str
  u_netloc :: str
  u_path :: str
  u_query :: str
  u_fragment :: str

definition is_ascii_alpha :: "int \<Rightarrow> bool" where
  "is_ascii_alpha c \<longleftrightarrow> (65 \<le> c \<and> c \<le> 90) \<or> (97 \<le> c \<and> c \<le> 122)"

definition scheme_char :: "int \<Rightarrow> bool" where
  "scheme_char c \<longleftrightarrow> is_ascii_alpha c \<or> (48 \<le> c \<and> c \<le> 57) \<or> c \<in> {43, 45, 46}"

definition checknetloc_ok :: "pylib \<Rightarrow> str \<Rightarrow> bool" where
  "checknetloc_ok L netloc \<longleftrightarrow>
     list_all (\<lambda>c. c < 128) netloc
     \<or> (let n = filter (\<lambda>c. c \<notin> {64, 58, 35, 63}) netloc; m = nfkc L n
        in n = m \<or> list_all (\<lambda>c. c \<notin> {47, 63, 35, 64, 58}) m)"

definition ipvfuture_ok :: "str \<Rightarrow> bool" where
  "ipvfuture_ok h =
     (case partition1 46 (tl h) of
        None \<Rightarrow> False
      | Some (hex, rest) \<Rightarrow>
          hex \<noteq> [] \<and> list_all (\<lambda>c. ascii_hex c \<noteq> None) hex \<and> rest \<noteq> [] \<and> 10 \<notin> set rest)"

definition bracketed_host_ok :: "pylib \<Rightarrow> str \<Rightarrow> bool" where
  "bracketed_host_ok L h =
     (if startswith h (S ''v'') then ipvfuture_ok h else ip_version L h = Some 6)"

definition after1 :: "int \<Rightarrow> str \<Rightarrow> str" where
  "after1 c s = (case partition1 c s of Some (_, t) \<Rightarrow> t | None \<Rightarrow> [])"

definition before1 :: "int \<Rightarrow> str \<Rightarrow> str" where
  "before1 c s = (case partition1 c s of Some (h, _) \<Rightarrow> h | None \<Rightarrow> s)"

text \<open>\<open>None\<close> is the ValueError of a malformed authority.\<close>

definition urlsplit :: "pylib \<Rightarrow> str \<Rightarrow> split_result option" where
  "urlsplit L url0 =
     (let url1 = filter (\<lambda>c. c \<noteq> 9 \<and> c \<noteq> 13 \<and> c \<noteq> 10) (dropWhile (\<lambda>c. 0 \<le> c \<and> c \<le> 32) url0);
          (scheme, url2) =
            (case partition1 58 url1 of
               Some (h # hs, t) \<Rightarrow>
                 (if is_ascii_alpha h \<and> list_all scheme_char (h # hs) then (lower (h # hs), t) else ([], url1))
             | _ \<Rightarrow> ([], url1));
          is_delim = (\<lambda>c. c \<in> {47, 63, 35});
          (netloc, url3) =
            (if startswith url2 (S ''//'')
             then (takeWhile (Not \<circ> is_delim) (drop 2 url2), dropWhile (Not \<circ> is_delim) (drop 2 url2))
             else ([], url2));
          fragment = after1 35 url3; url4 = before1 35 url3;
          query = after1 63 url4; path = before1 63 url4
      in if (91 \<in> set netloc) \<noteq> (93 \<in> set netloc) then None
         else if 91 \<in> set netloc \<and> \<not> bracketed_host_ok L (before1 93 (after1 91 netloc)) then None
         else if \<not> checknetloc_ok L netloc then None
         else Some \<lparr>u_scheme = scheme, u_netloc = netloc, u_path = path, u_query = query,
                    u_fragment = fragment\<rparr>)"

text \<open>\<open>SplitResult.hostname\<close> (lower-cased up to a zone id, which no caller needs) as truthiness.\<close>

definition rpart_at :: "str \<Rightarrow> str" where
  "rpart_at netloc = rev (takeWhile (\<lambda>c. c \<noteq> 64) (rev netloc))"

definition u_hostname :: "str \<Rightarrow> str" where
  "u_hostname netloc =
     (let hostinfo = rpart_at netloc
      in case partition1 91 hostinfo of
           Some (_, bracketed) \<Rightarrow> before1 93 bracketed
         | None \<Rightarrow> before1 58 hostinfo)"

definition parse_qsl :: "bool \<Rightarrow> str \<Rightarrow> (str \<times> str) list" where
  "parse_qsl keep_blank qs =
     (if qs = [] then []
      else List.map_filter
             (\<lambda>nv. if nv = [] then None
                   else let name = before1 61 nv; val = after1 61 nv
                        in if val \<noteq> [] \<or> keep_blank then Some (unquote_plus name, unquote_plus val) else None)
             (split_on 38 qs))"

subsection \<open>\<open>posixpath.normpath\<close>\<close>

text \<open>The components kept so far are accumulated in reverse.\<close>

definition kept_comp :: "bool \<Rightarrow> str list \<Rightarrow> str \<Rightarrow> bool" where
  "kept_comp slash acc c \<longleftrightarrow>
     c \<noteq> S ''..'' \<or> (\<not> slash \<and> acc = []) \<or> (acc \<noteq> [] \<and> hd acc = S ''..'')"

fun norm_comps :: "bool \<Rightarrow> str list \<Rightarrow> str list \<Rightarrow> str list" where
  "norm_comps slash acc [] = rev acc"
| "norm_comps slash acc (c # cs) =
     (if c = [] \<or> c = S ''.'' then norm_comps slash acc cs
      else if kept_comp slash acc c then norm_comps slash (c # acc) cs
      else norm_comps slash (tl acc) cs)"

definition initial_slashes :: "str \<Rightarrow> str" where
  "initial_slashes p =
     (if startswith p (S ''//'') \<and> \<not> startswith p (S ''///'') then S ''//''
      else if startswith p (S ''/'') then S ''/'' else [])"

definition normpath :: "str \<Rightarrow> str" where
  "normpath p =
     (if p = [] then S ''.''
      else let r = initial_slashes p @ join (S ''/'') (norm_comps (startswith p (S ''/'')) [] (split_on 47 p))
           in if r = [] then S ''.'' else r)"

lemma norm_comps_step:
  "c = [] \<or> c = S ''.'' \<Longrightarrow> norm_comps slash acc (c # cs) = norm_comps slash acc cs"
  "\<not> (c = [] \<or> c = S ''.'') \<Longrightarrow> kept_comp slash acc c \<Longrightarrow>
   norm_comps slash acc (c # cs) = norm_comps slash (c # acc) cs"
  "\<not> (c = [] \<or> c = S ''.'') \<Longrightarrow> \<not> kept_comp slash acc c \<Longrightarrow>
   norm_comps slash acc (c # cs) = norm_comps slash (tl acc) cs"
  by simp_all

declare norm_comps.simps(2) [simp del]

lemma norm_comps_cases [case_names Nil skip keep pop]:
  assumes "\<And>acc. P acc []"
    and "\<And>acc c cs. c = [] \<or> c = S ''.'' \<Longrightarrow> P acc cs \<Longrightarrow> P acc (c # cs)"
    and "\<And>acc c cs. \<not> (c = [] \<or> c = S ''.'') \<Longrightarrow> kept_comp slash acc c \<Longrightarrow> P (c # acc) cs \<Longrightarrow> P acc (c # cs)"
    and "\<And>acc c cs. \<not> (c = [] \<or> c = S ''.'') \<Longrightarrow> \<not> kept_comp slash acc c \<Longrightarrow> P (tl acc) cs \<Longrightarrow> P acc (c # cs)"
  shows "P acc cs"
proof (induction cs arbitrary: acc)
  case (Cons c cs)
  show ?case
  proof (cases "c = [] \<or> c = S ''.''")
    case True
    then show ?thesis by (rule assms(2)) (rule Cons.IH)
  next
    case False
    then show ?thesis
      by (cases "kept_comp slash acc c") (rule assms(3-4), assumption, assumption, rule Cons.IH)+
  qed
qed (rule assms(1))

definition clean_comp :: "str \<Rightarrow> bool" where
  "clean_comp c \<longleftrightarrow> c \<noteq> [] \<and> c \<noteq> S ''.'' \<and> c \<noteq> S ''..''"

lemma list_all_tl: "list_all P xs \<Longrightarrow> list_all P (tl xs)"
  by (cases xs) auto

lemma norm_comps_absolute:
  "list_all clean_comp acc \<Longrightarrow> list_all clean_comp (norm_comps True acc cs)"
proof (induction acc cs rule: norm_comps_cases [where slash = True])
  case (keep acc c cs)
  have "hd acc \<noteq> S ''..''" if "acc \<noteq> []"
    using keep.prems that by (cases acc) (auto simp: clean_comp_def)
  then have "clean_comp c" using keep.hyps by (auto simp: clean_comp_def kept_comp_def)
  with keep show ?case by (simp add: norm_comps_step)
qed (simp_all add: norm_comps_step list_all_tl)

lemma norm_comps_mem: "x \<in> set (norm_comps slash acc cs) \<Longrightarrow> x \<in> set acc \<or> x \<in> set cs"
proof (induction acc cs rule: norm_comps_cases [where slash = slash])
  case (pop acc c cs)
  then have "x \<in> set (tl acc) \<or> x \<in> set cs" by (simp add: norm_comps_step)
  moreover have "x \<in> set acc" if "x \<in> set (tl acc)" using that by (cases acc) auto
  ultimately show ?case by auto
qed (auto simp: norm_comps_step)

lemma norm_comps_clean: "list_all clean_comp cs \<Longrightarrow> norm_comps slash acc cs = rev acc @ cs"
proof (induction cs arbitrary: acc)
  case (Cons c cs)
  then have "norm_comps slash (c # acc) cs = rev (c # acc) @ cs" by simp
  moreover have "norm_comps slash acc (c # cs) = norm_comps slash (c # acc) cs"
    using Cons.prems by (intro norm_comps_step) (auto simp: clean_comp_def kept_comp_def)
  ultimately show ?case by simp
qed simp

end
