(* ===== verification/Regex.thy ===== *)
theory Regex
  imports PyStr
begin

text \<open>
  The regular expressions the program uses, as syntax trees with the backtracking
  semantics of Python's \<open>re\<close>: \<open>rx_run\<close> lists every way an expression can match at a
  position, in the order the engine tries them, so that \<open>match\<close> and \<open>search\<close> take the
  first one and \<open>fullmatch\<close> asks for one that reaches the end.

  A position is the text already passed (reversed), the text still ahead, and the groups
  captured so far. The argument \<open>W\<close> is the table of word characters from U+0080.
\<close>

datatype cclass =
    Range int int
  | Digit               \<comment> \<open>\<open>\d\<close>\<close>
  | Space               \<comment> \<open>\<open>\s\<close>\<close>
  | Word                \<comment> \<open>\<open>\w\<close>\<close>
  | Any                 \<comment> \<open>\<open>.\<close>: all but newline\<close>
  | Union cclass cclass
  | Compl cclass

datatype rx =
    Eps
  | Cls cclass
  | CiCls cclass        \<comment> \<open>a class under \<open>(?i)\<close>\<close>
  | Seq rx rx
  | Alt rx rx
  | Greedy nat nat rx   \<comment> \<open>\<open>r{lo,hi}\<close>\<close>
  | GreedyInf nat rx    \<comment> \<open>\<open>r{lo,}\<close>, \<open>r+\<close>, \<open>r*\<close>\<close>
  | Lazy nat nat rx     \<comment> \<open>\<open>r{lo,hi}?\<close>\<close>
  | Group nat rx
  | Bound               \<comment> \<open>\<open>\b\<close>\<close>
  | Behind bool rx      \<comment> \<open>\<open>(?<=r)\<close>, \<open>(?<!r)\<close> of a fixed-width \<open>r\<close>, run on the reversed text\<close>
  | Ahead bool rx       \<comment> \<open>\<open>(?=r)\<close>, \<open>(?!r)\<close>\<close>
  | Bol                 \<comment> \<open>\<open>^\<close>\<close>
  | Eol                 \<comment> \<open>\<open>$\<close>\<close>

fun lit :: "str \<Rightarrow> rx" where
  "lit [] = Eps"
| "lit [c] = Cls (Range c c)"
| "lit (c # s) = Seq (Cls (Range c c)) (lit s)"

fun cilit :: "str \<Rightarrow> rx" where
  "cilit [] = Eps"
| "cilit [c] = CiCls (Range c c)"
| "cilit (c # s) = Seq (CiCls (Range c c)) (cilit s)"

fun seqs :: "rx list \<Rightarrow> rx" where
  "seqs [] = Eps"
| "seqs [r] = r"
| "seqs (r # rs) = Seq r (seqs rs)"

fun alts :: "rx \<Rightarrow> rx list \<Rightarrow> rx" where
  "alts r [] = r"
| "alts r (q # qs) = Alt r (alts q qs)"

fun chars :: "str \<Rightarrow> cclass" where
  "chars [] = Range 1 0"
| "chars [c] = Range c c"
| "chars (c # s) = Union (Range c c) (chars s)"

fun unions :: "cclass list \<Rightarrow> cclass" where
  "unions [] = Range 1 0"
| "unions [c] = c"
| "unions (c # cs) = Union c (unions cs)"

abbreviation opt :: "rx \<Rightarrow> rx" where "opt r \<equiv> Greedy 0 1 r"
abbreviation star :: "rx \<Rightarrow> rx" where "star r \<equiv> GreedyInf 0 r"
abbreviation plus :: "rx \<Rightarrow> rx" where "plus r \<equiv> GreedyInf 1 r"
abbreviation times_rx :: "nat \<Rightarrow> rx \<Rightarrow> rx" where "times_rx n r \<equiv> Greedy n n r"

definition is_ascii_word :: "int \<Rightarrow> bool" where
  "is_ascii_word c \<longleftrightarrow>
     (48 \<le> c \<and> c \<le> 57) \<or> (65 \<le> c \<and> c \<le> 90) \<or> (97 \<le> c \<and> c \<le> 122) \<or> c = 95"

definition is_word :: "(int \<Rightarrow> bool) \<Rightarrow> int \<Rightarrow> bool" where
  "is_word W c = (if c < 128 then is_ascii_word c else W c)"

fun cc_mem :: "(int \<Rightarrow> bool) \<Rightarrow> cclass \<Rightarrow> int \<Rightarrow> bool" where
  "cc_mem W (Range a b) c = (a \<le> c \<and> c \<le> b)"
| "cc_mem W Digit c = is_digit c"
| "cc_mem W Space c = is_space c"
| "cc_mem W Word c = is_word W c"
| "cc_mem W Any c = (c \<noteq> 10)"
| "cc_mem W (Union x y) c = (cc_mem W x c \<or> cc_mem W y c)"
| "cc_mem W (Compl x) c = (\<not> cc_mem W x c)"

text \<open>
  The characters a pattern character matches under \<open>(?i)\<close>: both cases of an ASCII letter,
  and the three letters outside ASCII whose case folding is an ASCII letter.
\<close>

definition ci_variants :: "int \<Rightarrow> int list" where
  "ci_variants c =
     (let l = (if 65 \<le> c \<and> c \<le> 90 then c + 32
               else if c = 0x212A then 107 else if c = 0x17F then 115
               else if c = 0x130 \<or> c = 0x131 then 105 else c)
      in if 97 \<le> l \<and> l \<le> 122
         then [l, l - 32] @ (if l = 107 then [0x212A] else if l = 115 then [0x17F]
                             else if l = 105 then [0x130, 0x131] else [])
         else [c])"

type_synonym pos = "str \<times> str \<times> (nat \<times> str) list"

definition at_bound :: "(int \<Rightarrow> bool) \<Rightarrow> pos \<Rightarrow> bool" where
  "at_bound W p =
     (case p of (l, r, _) \<Rightarrow>
        (l \<noteq> [] \<and> is_word W (hd l)) \<noteq> (r \<noteq> [] \<and> is_word W (hd r)))"

fun step_if :: "(int \<Rightarrow> bool) \<Rightarrow> pos \<Rightarrow> pos list" where
  "step_if f (l, [], g) = []"
| "step_if f (l, c # r, g) = (if f c then [(c # l, r, g)] else [])"

text \<open>Iterations that do not advance are cut, as in the engine.\<close>

definition shorter :: "pos \<Rightarrow> pos \<Rightarrow> bool" where
  "shorter p q = (case (p, q) of ((_, r, _), (_, r', _)) \<Rightarrow> length r' < length r)"

fun iter_greedy :: "(pos \<Rightarrow> pos list) \<Rightarrow> nat \<Rightarrow> pos \<Rightarrow> pos list" where
  "iter_greedy f 0 p = [p]"
| "iter_greedy f (Suc n) p = List.maps (iter_greedy f n) (filter (shorter p) (f p)) @ [p]"

fun iter_lazy :: "(pos \<Rightarrow> pos list) \<Rightarrow> nat \<Rightarrow> pos \<Rightarrow> pos list" where
  "iter_lazy f 0 p = [p]"
| "iter_lazy f (Suc n) p = p # List.maps (iter_lazy f n) (filter (shorter p) (f p))"

fun iter_exact :: "(pos \<Rightarrow> pos list) \<Rightarrow> nat \<Rightarrow> pos \<Rightarrow> pos list" where
  "iter_exact f 0 p = [p]"
| "iter_exact f (Suc n) p = List.maps (iter_exact f n) (f p)"

definition mirror_pos :: "pos \<Rightarrow> pos" where
  "mirror_pos p = (case p of (l, r, g) \<Rightarrow> (r, l, g))"

fun rx_run :: "(int \<Rightarrow> bool) \<Rightarrow> rx \<Rightarrow> pos \<Rightarrow> pos list" where
  "rx_run W Eps p = [p]"
| "rx_run W (Cls c) p = step_if (cc_mem W c) p"
| "rx_run W (CiCls c) p = step_if (\<lambda>x. list_ex (cc_mem W c) (ci_variants x)) p"
| "rx_run W (Seq a b) p = List.maps (rx_run W b) (rx_run W a p)"
| "rx_run W (Alt a b) p = rx_run W a p @ rx_run W b p"
| "rx_run W (Greedy lo hi a) p =
     List.maps (iter_greedy (rx_run W a) (hi - lo)) (iter_exact (rx_run W a) lo p)"
| "rx_run W (GreedyInf lo a) p =
     List.maps (\<lambda>q. iter_greedy (rx_run W a) (length (fst (snd q))) q) (iter_exact (rx_run W a) lo p)"
| "rx_run W (Lazy lo hi a) p =
     List.maps (iter_lazy (rx_run W a) (hi - lo)) (iter_exact (rx_run W a) lo p)"
| "rx_run W (Group n a) p =
     List.map (\<lambda>(l', r', g'). (l', r', (n, rev (take (length l' - length (fst p)) l')) # g'))
       (rx_run W a p)"
| "rx_run W Bound p = (if at_bound W p then [p] else [])"
| "rx_run W (Behind b a) p = (if (rx_run W a (mirror_pos p) \<noteq> []) = b then [p] else [])"
| "rx_run W (Ahead b a) p = (if (rx_run W a p \<noteq> []) = b then [p] else [])"
| "rx_run W Bol p = (if fst p = [] then [p] else [])"
| "rx_run W Eol p = (if fst (snd p) = [] \<or> fst (snd p) = [10] then [p] else [])"

definition rx_fullmatch :: "(int \<Rightarrow> bool) \<Rightarrow> rx \<Rightarrow> str \<Rightarrow> bool" where
  "rx_fullmatch W r s = list_ex (\<lambda>p. fst (snd p) = []) (rx_run W r ([], s, []))"

text \<open>The groups of the first full match.\<close>

definition rx_fullgroups :: "(int \<Rightarrow> bool) \<Rightarrow> rx \<Rightarrow> str \<Rightarrow> (nat \<times> str) list option" where
  "rx_fullgroups W r s =
     map_option (\<lambda>p. snd (snd p)) (find_first (\<lambda>p. fst (snd p) = []) (rx_run W r ([], s, [])))"

definition rx_match :: "(int \<Rightarrow> bool) \<Rightarrow> rx \<Rightarrow> str \<Rightarrow> pos option" where
  "rx_match W r s = (case rx_run W r ([], s, []) of [] \<Rightarrow> None | p # _ \<Rightarrow> Some p)"

text \<open>\<open>search\<close> from a position onwards: where the match starts and where it ends.\<close>

fun rx_search_from :: "(int \<Rightarrow> bool) \<Rightarrow> rx \<Rightarrow> str \<Rightarrow> str \<Rightarrow> (pos \<times> pos) option" where
  "rx_search_from W r l [] =
     (case rx_run W r (l, [], []) of [] \<Rightarrow> None | q # _ \<Rightarrow> Some ((l, [], []), q))"
| "rx_search_from W r l (c # s) =
     (case rx_run W r (l, c # s, []) of
        [] \<Rightarrow> rx_search_from W r (c # l) s
      | q # _ \<Rightarrow> Some ((l, c # s, []), q))"

definition rx_search :: "(int \<Rightarrow> bool) \<Rightarrow> rx \<Rightarrow> str \<Rightarrow> bool" where
  "rx_search W r s = (rx_search_from W r [] s \<noteq> None)"

record rx_span =
  sp_start :: nat
  sp_end :: nat
  sp_text :: str
  sp_groups :: "(nat \<times> str) list"

definition span_of :: "pos \<times> pos \<Rightarrow> rx_span" where
  "span_of m =
     (case m of ((l, r, _), (l', r', g')) \<Rightarrow>
        \<lparr>sp_start = length l, sp_end = length l', sp_text = rev (take (length l' - length l) l'),
         sp_groups = g'\<rparr>)"

text \<open>
  \<open>finditer\<close>: the leftmost match, then on from its end (one further after an empty match).
  Fuel \<open>Suc (length s)\<close> suffices, since every round moves on.
\<close>

fun rx_finditer_fuel :: "nat \<Rightarrow> (int \<Rightarrow> bool) \<Rightarrow> rx \<Rightarrow> str \<Rightarrow> str \<Rightarrow> rx_span list" where
  "rx_finditer_fuel 0 W r l s = []"
| "rx_finditer_fuel (Suc n) W r l s =
     (case rx_search_from W r l s of
        None \<Rightarrow> []
      | Some (p, q) \<Rightarrow>
          span_of (p, q) #
            (case q of (l', s', _) \<Rightarrow>
               if length s' < length s then rx_finditer_fuel n W r l' s'
               else (case s' of [] \<Rightarrow> [] | c # t \<Rightarrow> rx_finditer_fuel n W r (c # l') t)))"

definition rx_finditer :: "(int \<Rightarrow> bool) \<Rightarrow> rx \<Rightarrow> str \<Rightarrow> rx_span list" where
  "rx_finditer W r s = rx_finditer_fuel (Suc (length s)) W r [] s"

definition group_of :: "nat \<Rightarrow> (nat \<times> str) list \<Rightarrow> str" where
  "group_of n g = dict_get_or g n []"

subsection \<open>Every match is a stretch of the text\<close>

definition same_text :: "pos \<Rightarrow> pos \<Rightarrow> bool" where
  "same_text p q \<longleftrightarrow>
     rev (fst p) @ fst (snd p) = rev (fst q) @ fst (snd q) \<and> length (fst (snd q)) \<le> length (fst (snd p))"

lemma same_text_refl [simp]: "same_text p p"
  by (simp add: same_text_def)

lemma same_text_trans: "same_text p q \<Longrightarrow> same_text q r \<Longrightarrow> same_text p r"
  by (auto simp: same_text_def)

lemma step_if_same_text: "q \<in> set (step_if f p) \<Longrightarrow> same_text p q"
  by (cases "(f, p)" rule: step_if.cases) (auto simp: same_text_def split: if_splits)

lemma iter_same_text:
  assumes "\<And>p q. q \<in> set (f p) \<Longrightarrow> same_text p q"
  shows "q \<in> set (iter_greedy f n p) \<Longrightarrow> same_text p q"
    and "q \<in> set (iter_lazy f n p) \<Longrightarrow> same_text p q"
    and "q \<in> set (iter_exact f n p) \<Longrightarrow> same_text p q"
  by (induction n arbitrary: p) (auto dest: assms intro: same_text_trans)

lemma maps_same_text:
  assumes "q \<in> set (List.maps f xs)" and "\<And>m. m \<in> set xs \<Longrightarrow> same_text p m"
    and "\<And>m. q \<in> set (f m) \<Longrightarrow> same_text m q"
  shows "same_text p q"
proof -
  from assms(1) obtain m where "m \<in> set xs" "q \<in> set (f m)" by (auto simp del: split_paired_Ex)
  with assms(2,3) show ?thesis by (blast intro: same_text_trans)
qed

lemma rx_run_same_text: "q \<in> set (rx_run W r p) \<Longrightarrow> same_text p q"
proof (induction r arbitrary: p q)
  case (Seq a b)
  then show ?case by (simp only: rx_run.simps) (erule maps_same_text, blast+)
next
  case (Greedy lo hi a)
  then show ?case
    by (simp only: rx_run.simps)
       (erule maps_same_text, (erule iter_same_text [rotated], blast)+)
next
  case (GreedyInf lo a)
  then show ?case
    by (simp only: rx_run.simps)
       (erule maps_same_text, (erule iter_same_text [rotated], blast)+)
next
  case (Lazy lo hi a)
  then show ?case
    by (simp only: rx_run.simps)
       (erule maps_same_text, (erule iter_same_text [rotated], blast)+)
next
  case (Group n a)
  then obtain l' r' g' g'' where "(l', r', g') \<in> set (rx_run W a p)" "q = (l', r', g'')"
    by auto
  with Group.IH [of "(l', r', g')" p] show ?case by (simp add: same_text_def)
next
  case (Alt a b)
  then show ?case by (simp only: rx_run.simps set_append) blast
next
  case (Cls c)
  then show ?case by (simp only: rx_run.simps step_if_same_text)
next
  case (CiCls c)
  then show ?case by (simp only: rx_run.simps step_if_same_text)
qed (auto split: if_splits)

lemma rx_search_from_same_text:
  "rx_search_from W r l s = Some (p, q) \<Longrightarrow> same_text (l, s, []) p \<and> same_text p q"
proof (induction s arbitrary: l)
  case Nil
  then have "q \<in> set (rx_run W r (l, [], []))" and p: "p = (l, [], [])"
    by (auto split: list.splits)
  then have "same_text (l, [], []) q" by (intro rx_run_same_text)
  with p show ?case by simp
next
  case (Cons c s)
  show ?case
  proof (cases "rx_run W r (l, c # s, [])")
    case Nil
    with Cons show ?thesis by (force simp: same_text_def)
  next
    case (Cons a list)
    with Cons.prems have "q \<in> set (rx_run W r (l, c # s, []))" and p: "p = (l, c # s, [])" by auto
    then have "same_text (l, c # s, []) q" by (intro rx_run_same_text)
    with p show ?thesis by simp
  qed
qed

subsection \<open>Full matches of the route patterns' shapes\<close>

lemma rx_run_lit:
  "rx_run W (lit s) (l, r, g) = (if startswith r s then [(rev s @ l, drop (length s) r, g)] else [])"
proof (induction s arbitrary: l r rule: lit.induct)
  case (2 c)
  show ?case by (cases r) auto
next
  case (3 c d s)
  show ?case
  proof (cases r)
    case (Cons x xs)
    with 3 show ?thesis by auto
  qed simp
qed simp

lemma iter_greedy_class:
  "iter_greedy (rx_run W (Cls c)) n (l, r, g) =
   rev (map (\<lambda>k. (rev (take k r) @ l, drop k r, g))
     [0..<Suc (min n (length (takeWhile (cc_mem W c) r)))])"
proof (induction n arbitrary: l r)
  case (Suc n)
  show ?case
  proof (cases r)
    case (Cons x xs)
    show ?thesis
    proof (cases "cc_mem W c x")
      case True
      let ?m = "min n (length (takeWhile (cc_mem W c) xs))"
      have "[0..<Suc (Suc ?m)] = 0 # map Suc [0..<Suc ?m]"
        by (simp add: map_Suc_upt upt_conv_Cons del: upt_Suc)
      moreover have "min (Suc n) (length (takeWhile (cc_mem W c) (x # xs))) = Suc ?m"
        using True by simp
      ultimately show ?thesis
        using Suc [of "x # l" xs] True Cons
        by (simp add: shorter_def comp_def del: upt_Suc min_Suc1 min_Suc2)
    qed (use Cons in simp)
  qed simp
qed simp

lemma star_class_full:
  "(\<exists>p \<in> set (rx_run W (star (Cls c)) (l, r, g)). fst (snd p) = []) \<longleftrightarrow> list_all (cc_mem W c) r"
proof -
  have "list_all (cc_mem W c) r \<longleftrightarrow> takeWhile (cc_mem W c) r = r"
    by (simp add: list_all_iff takeWhile_eq_all_conv)
  also have "\<dots> \<longleftrightarrow> length r \<le> length (takeWhile (cc_mem W c) r)"
    by (metis append_take_drop_id length_takeWhile_le linorder_not_less nat_less_le order_antisym
        take_all takeWhile_eq_take takeWhile_nth)
  finally show ?thesis
    by (auto simp: iter_greedy_class less_Suc_eq_le image_iff Bex_def length_takeWhile_le
          simp del: upt_Suc intro: exI [of _ "length r"])
qed

subsection \<open>How much a match consumes\<close>

text \<open>A character class consumes one character, and a group captures what it consumed.\<close>

fun reach :: "rx \<Rightarrow> nat option" where
  "reach Eps = Some 0"
| "reach (Cls c) = Some 1"
| "reach (CiCls c) = Some 1"
| "reach (Seq a b) = (case (reach a, reach b) of (Some m, Some n) \<Rightarrow> Some (m + n) | _ \<Rightarrow> None)"
| "reach (Alt a b) = (case (reach a, reach b) of (Some m, Some n) \<Rightarrow> Some (max m n) | _ \<Rightarrow> None)"
| "reach (Group i a) = reach a"
| "reach _ = None"

lemma reach_run:
  "q \<in> set (rx_run W r p) \<Longrightarrow> reach r = Some n \<Longrightarrow> length (fst q) \<le> length (fst p) + n"
proof (induction r arbitrary: p q n)
  case (Cls c)
  then show ?case by (cases "(cc_mem W c, p)" rule: step_if.cases) (auto split: if_splits)
next
  case (CiCls c)
  then show ?case
    by (cases "(\<lambda>x. list_ex (cc_mem W c) (ci_variants x), p)" rule: step_if.cases) (auto split: if_splits)
next
  case (Seq a b)
  from Seq.prems(1) obtain m where m: "m \<in> set (rx_run W a p)" "q \<in> set (rx_run W b m)"
    by (auto simp del: split_paired_Ex)
  from Seq.prems(2) obtain k l where k: "n = k + l" "reach a = Some k" "reach b = Some l"
    by (auto split: option.splits)
  from Seq.IH(1) [OF m(1) k(2)] Seq.IH(2) [OF m(2) k(3)] k(1) show ?case by linarith
next
  case (Alt a b)
  from Alt.prems(2) obtain k l where k: "n = max k l" "reach a = Some k" "reach b = Some l"
    by (auto split: option.splits)
  from Alt.prems(1) Alt.IH(1) [of q p, OF _ k(2)] Alt.IH(2) [of q p, OF _ k(3)] show ?case
    unfolding k(1) by (simp only: rx_run.simps set_append) fastforce
next
  case (Group i a)
  then obtain l' r' g' where q: "(l', r', g') \<in> set (rx_run W a p)" "fst q = l'" by auto
  with Group.IH [OF q(1)] Group.prems(2) show ?case by simp
qed auto

definition captures :: "nat \<Rightarrow> nat \<Rightarrow> (nat \<times> str) list \<Rightarrow> bool" where
  "captures i n g \<longleftrightarrow> length (group_of i g) \<le> n"

lemma group_of_Cons [simp]: "group_of i ((j, t) # g) = (if i = j then t else group_of i g)"
  by (simp add: group_of_def dict_get_or_def)

fun groups_within :: "nat \<Rightarrow> nat \<Rightarrow> rx \<Rightarrow> bool" where
  "groups_within i n (Seq a b) = (groups_within i n a \<and> groups_within i n b)"
| "groups_within i n (Alt a b) = (groups_within i n a \<and> groups_within i n b)"
| "groups_within i n (Group j a) = (groups_within i n a \<and> (i = j \<longrightarrow> (case reach a of Some k \<Rightarrow> k \<le> n | None \<Rightarrow> False)))"
| "groups_within i n (Cls c) = True"
| "groups_within i n (CiCls c) = True"
| "groups_within i n Eps = True"
| "groups_within i n _ = False"

lemma groups_within_run:
  "q \<in> set (rx_run W r p) \<Longrightarrow> groups_within i n r \<Longrightarrow> captures i n (snd (snd p)) \<Longrightarrow> captures i n (snd (snd q))"
proof (induction r arbitrary: p q)
  case (Cls c)
  then show ?case by (cases "(cc_mem W c, p)" rule: step_if.cases) (auto split: if_splits)
next
  case (CiCls c)
  then show ?case
    by (cases "(\<lambda>x. list_ex (cc_mem W c) (ci_variants x), p)" rule: step_if.cases) (auto split: if_splits)
next
  case (Seq a b)
  from Seq.prems(1) obtain m where m: "m \<in> set (rx_run W a p)" "q \<in> set (rx_run W b m)"
    by (auto simp del: split_paired_Ex)
  from Seq.IH(1) [OF m(1)] Seq.IH(2) [OF m(2)] Seq.prems(2,3) show ?case by simp
next
  case (Alt a b)
  then show ?case by (simp only: rx_run.simps set_append groups_within.simps) blast
next
  case (Group j a)
  then obtain l' r' g' where q: "(l', r', g') \<in> set (rx_run W a p)"
    and eq: "q = (l', r', (j, rev (take (length l' - length (fst p)) l')) # g')" by auto
  from Group.IH [OF q] Group.prems have "captures i n g'" by simp
  moreover have "length l' - length (fst p) \<le> n" if "i = j"
    using reach_run [OF q] that Group.prems(2) by (fastforce split: option.splits)
  ultimately show ?case by (auto simp: eq captures_def)
qed auto

end
