(* ===== verification/NetPolicy.thy ===== *)
theory NetPolicy
  imports UrlLib Regex
begin

text \<open>
  The provider-agnostic request helpers of \<open>host/runtime/core/network_policy.py\<close>: path
  normalisation, method and path matching, and bounded decoding of request bodies. Regular
  expression matching is passed in (\<open>route_allowed\<close> serves both built-in patterns, which
  are \<open>Regex\<close> trees here, and operator-written ones), and the gzip and zlib decoders are
  external objects described by the record \<open>zlib_lib\<close>.
\<close>

subsection \<open>Paths and routes\<close>

definition normalized_path :: "str \<Rightarrow> str" where
  "normalized_path path =
     (let decoded = unquote (if path = [] then S ''/'' else path);
          n = normpath decoded;
          n1 = (if startswith n (S ''/'') then n else S ''/'' @ n)
      in if endswith path (S ''/'') \<and> \<not> endswith n1 (S ''/'') then n1 @ S ''/'' else n1)"

definition route_allowed ::
  "('p \<Rightarrow> str \<Rightarrow> bool) \<Rightarrow> str \<Rightarrow> str \<Rightarrow> str \<Rightarrow> str list \<Rightarrow> 'p list \<Rightarrow> bool" where
  "route_allowed fullmatch method path query allow_http_methods path_guards =
     (if upper method \<notin> set allow_http_methods then False
      else if path_guards = [] then True
      else let target = normalized_path path @ (if query \<noteq> [] then S ''?'' @ query else [])
           in list_ex (\<lambda>pattern. fullmatch pattern target) path_guards)"

lemma route_allowed_method: "route_allowed m method path query ms ps \<Longrightarrow> upper method \<in> set ms"
  by (simp add: route_allowed_def split: if_splits)

lemma unpercent_Cons: "c \<noteq> 37 \<Longrightarrow> unpercent (c # s) = c # unpercent s"
proof (cases s)
  case (Cons a t)
  then show "c \<noteq> 37 \<Longrightarrow> ?thesis" by (cases t) auto
qed simp

lemma unquote_slash: "unquote (47 # s) = 47 # unquote s"
proof (cases s)
  case (Cons c t)
  obtain u where u: "unquote_with (Some \<circ> utf8_replace) (dropWhile (\<lambda>x. x < 128) t) = Some u"
    using unquote_with_total by blast
  obtain v where v: "unquote_with (Some \<circ> utf8_replace) t = Some v"
    using unquote_with_total by blast
  from u v Cons show ?thesis
    by (simp add: unquote_def unpercent_Cons utf8_replace_def utf8_step_def)
qed (simp add: unquote_def utf8_replace_def utf8_step_def)

lemma clean_segments:
  assumes "list_all clean_comp cs" "cs \<noteq> []" "\<And>c. c \<in> set cs \<Longrightarrow> 47 \<notin> set c"
  shows "split_on 47 (join (S ''/'') cs) = cs"
proof -
  have "S ''/'' = [47]" by (simp add: S_def)
  with assms show ?thesis by (simp add: split_on_join)
qed

text \<open>What \<open>normpath\<close> makes of an absolute path: one or two slashes, then clean components.\<close>

lemma normpath_absolute:
  assumes "startswith p (S ''/'')"
  shows "\<exists>i cs. normpath p = i @ join (S ''/'') cs \<and> (i = S ''/'' \<or> i = S ''//'')
           \<and> list_all clean_comp cs \<and> (\<forall>c \<in> set cs. 47 \<notin> set c)"
proof -
  let ?cs = "norm_comps True [] (split_on 47 p)"
  have i: "initial_slashes p = S ''/'' \<or> initial_slashes p = S ''//''"
    using assms by (auto simp: initial_slashes_def)
  have p: "p \<noteq> []" using assms by (auto simp: startswith_iff S_def)
  have np: "normpath p = initial_slashes p @ join (S ''/'') ?cs"
    using assms i p by (auto simp: normpath_def Let_def)
  have "list_all clean_comp ?cs" by (rule norm_comps_absolute) simp
  moreover have "\<forall>c \<in> set ?cs. 47 \<notin> set c"
    using norm_comps_mem split_on_no_sep by fastforce
  ultimately show ?thesis using i np by blast
qed

lemma split_on_slashes:
  "split_on 47 (S ''/'' @ s) = [] # split_on 47 s"
  "split_on 47 (S ''//'' @ s) = [] # [] # split_on 47 s"
  by (simp_all add: S_def)

lemma split_on_append_slash: "split_on 47 (s @ S ''/'') = split_on 47 s @ [[]]"
  by (induction s) (auto simp: S_def split: list.splits)

definition no_dot_segment :: "str \<Rightarrow> bool" where
  "no_dot_segment p \<longleftrightarrow> S ''.'' \<notin> set (split_on 47 p) \<and> S ''..'' \<notin> set (split_on 47 p)"

lemma no_dot_segment_clean:
  assumes "list_all clean_comp cs" "\<forall>c \<in> set cs. 47 \<notin> set c"
  shows "no_dot_segment (join (S ''/'') cs)"
proof (cases cs)
  case (Cons c t)
  with clean_segments [of cs] assms show ?thesis
    by (auto simp: no_dot_segment_def list_all_iff clean_comp_def)
qed (simp add: no_dot_segment_def)

text \<open>
  C37. The path every guard compares against is absolute and has no \<open>.\<close> or \<open>..\<close> segment
  left, whatever percent-escapes the request used, so that no path pattern can be stepped
  over with \<open>..\<close>. The request target always gives an empty path or one that starts with
  a slash.
\<close>

theorem normalized_path_resolved:
  assumes "path = [] \<or> startswith path (S ''/'')"
  shows "startswith (normalized_path path) (S ''/'') \<and> no_dot_segment (normalized_path path)"
proof -
  let ?d = "unquote (if path = [] then S ''/'' else path)"
  obtain t where "(if path = [] then S ''/'' else path) = 47 # t"
    using assms by (auto simp: startswith_iff S_def)
  then have "startswith ?d (S ''/'')" by (simp add: unquote_slash S_def)
  then obtain i cs where d: "normpath ?d = i @ join (S ''/'') cs" "i = S ''/'' \<or> i = S ''//''"
      "list_all clean_comp cs" "\<forall>c \<in> set cs. 47 \<notin> set c"
    using normpath_absolute by blast
  have n: "no_dot_segment (normpath ?d)"
    using d no_dot_segment_clean by (auto simp: no_dot_segment_def split_on_slashes)
  moreover have "no_dot_segment (normpath ?d @ S ''/'')"
    using n by (auto simp: no_dot_segment_def split_on_append_slash)
  moreover have "startswith (normpath ?d) (S ''/'')" using d(1,2) by (auto simp: S_def)
  moreover have "startswith (normpath ?d @ S ''/'') (S ''/'')" using d(1,2) by (auto simp: S_def)
  ultimately show ?thesis by (simp add: normalized_path_def Let_def)
qed

theorem normalized_path_resolved_witness:
  "startswith (normalized_path (S ''/v1/threads/%2e%2E/../admin'')) (S ''/'')
   \<and> no_dot_segment (normalized_path (S ''/v1/threads/%2e%2E/../admin''))
   \<and> normalized_path (S ''/v1/threads/%2e%2E/../admin'') = S ''/admin''"
proof -
  have "startswith (S ''/v1/threads/%2e%2E/../admin'') (S ''/'')" by code_simp
  moreover have "normalized_path (S ''/v1/threads/%2e%2E/../admin'') = S ''/admin''" by code_simp
  ultimately show ?thesis using normalized_path_resolved by blast
qed

text \<open>
  A path that is already resolved is left as it is, so that comparing the normalised path
  with a literal means what it says.
\<close>

lemma normalized_path_fixed:
  assumes "list_all clean_comp cs" "\<forall>c \<in> set cs. 47 \<notin> set c \<and> 37 \<notin> set c \<and> (\<forall>x \<in> set c. x < 128)"
    and "cs \<noteq> []"
  shows "normalized_path (S ''/'' @ join (S ''/'') cs) = S ''/'' @ join (S ''/'') cs"
proof -
  let ?p = "S ''/'' @ join (S ''/'') cs"
  have sl: "S ''/'' = [47]" "S ''//'' = [47, 47]" "S ''///'' = [47, 47, 47]" by (simp_all add: S_def)
  have split: "split_on 47 (join [47] cs) = cs" using clean_segments [of cs] assms by (simp add: sl)
  have chars: "x \<in> set (join [47] cs) \<Longrightarrow> x = 47 \<or> (\<exists>c \<in> set cs. x \<in> set c)" for x
    by (induction "[47::int]" cs rule: join.induct) auto
  have "\<forall>x \<in> set ?p. x < 128" "37 \<notin> set ?p"
    using assms(2) chars by (fastforce simp: sl)+
  then have u: "unquote ?p = ?p" by (rule unquote_ascii_no_percent)
  obtain c t where cs: "cs = c # t" using assms(3) by (cases cs) auto
  have hd: "c \<noteq> []" "47 \<notin> set c" using assms cs by (auto simp: clean_comp_def)
  obtain x y where x: "join [47] cs = x # y" "x \<noteq> 47"
    using hd cs by (cases c; cases t) auto
  have i: "initial_slashes ?p = [47]" using x by (simp add: initial_slashes_def sl)
  have comps: "norm_comps True [] (split_on 47 ?p) = cs"
    using assms(1) split by (simp add: sl norm_comps_step norm_comps_clean)
  have n: "normpath ?p = ?p"
    using i comps by (simp add: normpath_def Let_def sl)
  have "last (join [47] cs) \<noteq> 47"
  proof
    assume "last (join [47] cs) = 47"
    with x obtain u where "join [47] cs = u @ [47]" by (metis append_butlast_last_id list.distinct(1))
    then have "split_on 47 (u @ S ''/'') = cs" using split by (simp add: sl)
    then have "[] \<in> set cs" by (auto simp: split_on_append_slash)
    with assms(1) show False by (auto simp: list_all_iff clean_comp_def)
  qed
  with x have l: "\<not> endswith ?p (S ''/'')" by (simp add: sl endswith_single)
  show ?thesis using u n l by (simp add: normalized_path_def Let_def sl)
qed

subsection \<open>Bodies\<close>

text \<open>
  The decoders of \<open>gzip\<close> and \<open>zlib\<close>. A decoder object answers by what it was fed so far,
  so \<open>z_decompress\<close> and \<open>z_flush\<close> take the calls made on it; \<open>None\<close> is the exception
  the code catches. \<open>g_read body n k\<close> is \<open>handle.read(k)\<close> after \<open>n\<close> bytes were read.
\<close>

type_synonym calls = "(bytes \<times> int) list"

record zlib_lib =
  g_read :: "bytes \<Rightarrow> int \<Rightarrow> int \<Rightarrow> bytes option"
  z_decompress :: "calls \<Rightarrow> bytes \<Rightarrow> int \<Rightarrow> (bytes \<times> bytes) option"  \<comment> \<open>output, \<open>unconsumed_tail\<close>\<close>
  z_flush :: "calls \<Rightarrow> int \<Rightarrow> bytes option"
  z_eof :: "calls \<Rightarrow> bool"

definition MAX_DECODED_BODY_BYTES :: int where
  "MAX_DECODED_BODY_BYTES = 128 * 1024 * 1024"

abbreviation ilen :: "'a list \<Rightarrow> int" where
  "ilen xs \<equiv> int (length xs)"

function read_decoded_limited :: "zlib_lib \<Rightarrow> bytes \<Rightarrow> bytes \<Rightarrow> bytes option" where
  "read_decoded_limited Z body decoded =
     (let remaining = MAX_DECODED_BODY_BYTES - ilen decoded + 1
      in if remaining \<le> 0 then None
         else case g_read Z body (ilen decoded) (min (64 * 1024) remaining) of
                None \<Rightarrow> None
              | Some chunk \<Rightarrow>
                  if chunk = [] then Some decoded
                  else if MAX_DECODED_BODY_BYTES < ilen (decoded @ chunk) then None
                  else read_decoded_limited Z body (decoded @ chunk))"
  by pat_completeness auto
termination
proof (relation "measure (\<lambda>(Z, body, decoded). nat (MAX_DECODED_BODY_BYTES + 1 - ilen decoded))", goal_cases)
  case (2 Z body decoded remaining chunk)
  then have "0 < length chunk" by simp
  with 2 show ?case by simp
qed simp

declare read_decoded_limited.simps [simp del]

definition bounded_gzip_decompress :: "zlib_lib \<Rightarrow> bytes \<Rightarrow> bytes option" where
  "bounded_gzip_decompress Z body = read_decoded_limited Z body []"

text \<open>
  The inner loop on one chunk: the outer option is whether the loop returns at all, the
  inner one is the function's \<open>None\<close>.
\<close>

partial_function (option) inflate_chunk ::
  "zlib_lib \<Rightarrow> calls \<Rightarrow> bytes \<Rightarrow> bytes \<Rightarrow> (calls \<times> bytes) option option" where
  "inflate_chunk Z done_calls decoded chunk =
     (if chunk = [] then Some (Some (done_calls, decoded))
      else let remaining = MAX_DECODED_BODY_BYTES - ilen decoded + 1
           in if remaining \<le> 0 then Some None
              else case z_decompress Z done_calls chunk remaining of
                     None \<Rightarrow> Some None
                   | Some (out, tail) \<Rightarrow>
                       if MAX_DECODED_BODY_BYTES < ilen (decoded @ out) then Some None
                       else inflate_chunk Z (done_calls @ [(chunk, remaining)]) (decoded @ out) tail)"

function chunks_of_64k :: "bytes \<Rightarrow> bytes list" where
  "chunks_of_64k body =
     (if body = [] then []
      else take (64 * 1024) body # chunks_of_64k (drop (64 * 1024) body))"
  by pat_completeness auto
termination by (relation "measure length") auto

declare chunks_of_64k.simps [simp del]

fun inflate_chunks :: "zlib_lib \<Rightarrow> calls \<Rightarrow> bytes \<Rightarrow> bytes list \<Rightarrow> (calls \<times> bytes) option option" where
  "inflate_chunks Z done_calls decoded [] = Some (Some (done_calls, decoded))"
| "inflate_chunks Z done_calls decoded (c # cs) =
     (case inflate_chunk Z done_calls decoded c of
        None \<Rightarrow> None
      | Some None \<Rightarrow> Some None
      | Some (Some (h, d)) \<Rightarrow> inflate_chunks Z h d cs)"

definition bounded_zlib_decompress :: "zlib_lib \<Rightarrow> bytes \<Rightarrow> bytes option option" where
  "bounded_zlib_decompress Z body =
     (case inflate_chunks Z [] [] (chunks_of_64k body) of
        None \<Rightarrow> None
      | Some None \<Rightarrow> Some None
      | Some (Some (h, d)) \<Rightarrow>
          (case z_flush Z h (MAX_DECODED_BODY_BYTES - ilen d + 1) of
             None \<Rightarrow> Some None
           | Some rest \<Rightarrow>
               if MAX_DECODED_BODY_BYTES < ilen (d @ rest) \<or> \<not> z_eof Z h then Some None
               else Some (Some (d @ rest))))"

definition decode_body :: "zlib_lib \<Rightarrow> bytes \<Rightarrow> str \<Rightarrow> bytes option option" where
  "decode_body Z body content_encoding =
     (let encoding = lower (strip content_encoding)
      in if encoding \<in> {S '''', S ''identity''} then Some (Some body)
         else if encoding = S ''gzip'' then Some (bounded_gzip_decompress Z body)
         else if encoding \<in> {S ''deflate'', S ''zlib''} then bounded_zlib_decompress Z body
         else Some None)"

text \<open>
  The documented contract of \<open>Decompress.decompress(data, max_length)\<close>: at most
  \<open>max_length\<close> bytes come out, and input is left over only when that many did.
\<close>

definition decompress_contract :: "zlib_lib \<Rightarrow> bool" where
  "decompress_contract Z \<longleftrightarrow>
     (\<forall>h c n out tail. 0 < n \<and> z_decompress Z h c n = Some (out, tail) \<longrightarrow>
        ilen out \<le> n \<and> (tail \<noteq> [] \<longrightarrow> ilen out = n))"

lemma inflate_chunk_returns:
  assumes "decompress_contract Z"
  shows "\<exists>r. inflate_chunk Z h d c = Some r"
proof (cases "c = [] \<or> MAX_DECODED_BODY_BYTES - ilen d + 1 \<le> 0")
  case True
  then show ?thesis by (auto simp: inflate_chunk.simps [of Z h d c] Let_def)
next
  case False
  let ?n = "MAX_DECODED_BODY_BYTES - ilen d + 1"
  show ?thesis
  proof (cases "z_decompress Z h c ?n")
    case None
    with False show ?thesis by (simp add: inflate_chunk.simps [of Z h d c] Let_def)
  next
    case (Some r)
    obtain out tail where r: "z_decompress Z h c ?n = Some (out, tail)"
      using Some by (cases r) auto
    moreover have "0 < ?n" using False by simp
    ultimately have "tail = [] \<or> ilen out = ?n"
      using assms unfolding decompress_contract_def by blast
    then show ?thesis
      using False r by (auto simp: inflate_chunk.simps [of Z h d c] inflate_chunk.simps [of Z _ _ "[]"] Let_def)
  qed
qed

lemma inflate_chunks_returns:
  assumes "decompress_contract Z"
  shows "\<exists>r. inflate_chunks Z h d cs = Some r"
proof (induction cs arbitrary: h d)
  case (Cons c cs)
  obtain r where "inflate_chunk Z h d c = Some r" using inflate_chunk_returns [OF assms] by blast
  with Cons show ?case by (cases r) auto
qed simp

lemma read_decoded_limited_bound:
  "ilen decoded \<le> MAX_DECODED_BODY_BYTES \<Longrightarrow> read_decoded_limited Z body decoded = Some out \<Longrightarrow>
   ilen out \<le> MAX_DECODED_BODY_BYTES"
proof (induction Z body decoded rule: read_decoded_limited.induct)
  case (1 Z body decoded)
  let ?r = "MAX_DECODED_BODY_BYTES - ilen decoded + 1"
  from "1.prems" obtain chunk where c: "g_read Z body (ilen decoded) (min (64 * 1024) ?r) = Some chunk"
    by (auto simp: read_decoded_limited.simps [of Z body decoded] Let_def split: option.splits if_splits)
  show ?case
  proof (cases "chunk = []")
    case True
    with c "1.prems" show ?thesis
      by (simp add: read_decoded_limited.simps [of Z body decoded] Let_def)
  next
    case False
    with c "1.prems" have n: "\<not> MAX_DECODED_BODY_BYTES < ilen (decoded @ chunk)"
      and rec: "read_decoded_limited Z body (decoded @ chunk) = Some out"
      by (auto simp: read_decoded_limited.simps [of Z body decoded] Let_def split: if_splits)
    show ?thesis
      by (rule "1.IH" [OF refl _ c False n _ rec]) (use "1.prems" n in auto)
  qed
qed

text \<open>
  C38. Decoding a request body always returns, and never yields more than 128 MiB out of a
  compressed body: under the decompressor's documented contract, no stream keeps the proxy
  in the loop or makes it hold an unbounded result.
\<close>

theorem decode_body_bounded:
  assumes "decompress_contract Z"
  shows "\<exists>r. decode_body Z body enc = Some r
           \<and> (\<forall>out. r = Some out \<longrightarrow> out = body \<or> ilen out \<le> MAX_DECODED_BODY_BYTES)"
proof -
  obtain r where r: "inflate_chunks Z [] [] (chunks_of_64k body) = Some r"
    using inflate_chunks_returns [OF assms] by blast
  have z: "\<exists>r. bounded_zlib_decompress Z body = Some r
             \<and> (\<forall>out. r = Some out \<longrightarrow> ilen out \<le> MAX_DECODED_BODY_BYTES)"
    using r by (auto simp: bounded_zlib_decompress_def split: option.splits)
  have g: "bounded_gzip_decompress Z body = Some out \<Longrightarrow> ilen out \<le> MAX_DECODED_BODY_BYTES" for out
    using read_decoded_limited_bound [of "[]" Z body out]
    by (simp add: bounded_gzip_decompress_def MAX_DECODED_BODY_BYTES_def)
  show ?thesis using z g by (auto simp: decode_body_def Let_def)
qed

text \<open>A decoder that copies its input, to run the definitions on.\<close>

definition copy_zlib :: zlib_lib where
  "copy_zlib = \<lparr>g_read = (\<lambda>b n k. Some (take (nat k) (drop (nat n) b))),
     z_decompress = (\<lambda>h c n. Some (take (nat n) c, drop (nat n) c)),
     z_flush = (\<lambda>h n. Some []), z_eof = (\<lambda>h. True)\<rparr>"

lemma copy_zlib_contract: "decompress_contract copy_zlib"
  by (auto simp: decompress_contract_def copy_zlib_def)

theorem decode_body_bounded_witness:
  "\<exists>r. decode_body copy_zlib (B ''abc'') (S '' Deflate'') = Some r
     \<and> (case r of None \<Rightarrow> True | Some out \<Rightarrow> out = B ''abc'' \<or> ilen out \<le> MAX_DECODED_BODY_BYTES)"
proof -
  obtain r where r: "decode_body copy_zlib (B ''abc'') (S '' Deflate'') = Some r"
    and bound: "\<And>out. r = Some out \<Longrightarrow> out = B ''abc'' \<or> ilen out \<le> MAX_DECODED_BODY_BYTES"
    using decode_body_bounded [OF copy_zlib_contract, of "B ''abc''" "S '' Deflate''"] by blast
  have "case r of None \<Rightarrow> True | Some out \<Rightarrow> out = B ''abc'' \<or> ilen out \<le> MAX_DECODED_BODY_BYTES"
    by (cases r) (use bound in \<open>simp_all only: option.case simp_thms\<close>)
  with r show ?thesis by blast
qed

end
