(* ===== verification/Json.thy ===== *)
theory Json
  imports Complex_Main PyStr
begin

text \<open>
  JSON values as \<open>json.loads\<close> returns them, and the operations of Python the code applies
  to them: membership in \<open>(False, None)\<close>, identity with \<open>False\<close>, \<open>dict.get\<close>, truth.
  The parser itself is a parameter of the definitions that read request bodies.
\<close>

text \<open>
  An object keeps its keys in insertion order. A float is its exact value; \<open>JFloat None\<close> is
  an infinity or a NaN, which \<open>json.loads\<close> also accepts.
\<close>

datatype json =
    JNull
  | JBool bool
  | JInt int
  | JFloat "rat option"
  | JStr str
  | JList "json list"
  | JObj "(str \<times> json) list"

text \<open>
  \<open>value in (False, None)\<close>: Python compares with \<open>==\<close>, and zero equals \<open>False\<close>.
\<close>

fun false_or_none :: "json \<Rightarrow> bool" where
  "false_or_none JNull = True"
| "false_or_none (JBool b) = (\<not> b)"
| "false_or_none (JInt i) = (i = 0)"
| "false_or_none (JFloat r) = (r = Some 0)"
| "false_or_none (JStr s) = False"
| "false_or_none (JList xs) = False"
| "false_or_none (JObj kvs) = False"

text \<open>\<open>d.get(k)\<close>, where a missing key and a stored null are both \<open>None\<close> of Python.\<close>

definition jget :: "(str \<times> json) list \<Rightarrow> str \<Rightarrow> json" where
  "jget d k = (case map_of d k of Some v \<Rightarrow> v | None \<Rightarrow> JNull)"

fun jstr :: "json \<Rightarrow> str option" where
  "jstr (JStr s) = Some s"
| "jstr _ = None"

fun jobj :: "json \<Rightarrow> (str \<times> json) list option" where
  "jobj (JObj kvs) = Some kvs"
| "jobj _ = None"

fun jlist :: "json \<Rightarrow> json list option" where
  "jlist (JList xs) = Some xs"
| "jlist _ = None"

lemma jstr_eq_Some [simp]: "jstr j = Some s \<longleftrightarrow> j = JStr s"
  by (cases j) auto

lemma jobj_eq_Some [simp]: "jobj j = Some kvs \<longleftrightarrow> j = JObj kvs"
  by (cases j) auto

lemma jlist_eq_Some [simp]: "jlist j = Some xs \<longleftrightarrow> j = JList xs"
  by (cases j) auto

lemma jget_Cons: "jget ((k, v) # d) k' = (if k = k' then v else jget d k')"
  by (simp add: jget_def)

lemma jget_Nil [simp]: "jget [] k = JNull"
  by (simp add: jget_def)

text \<open>Every value inside a value, itself included.\<close>

fun subvalues :: "json \<Rightarrow> json list" where
  "subvalues (JObj kvs) = JObj kvs # concat (map (\<lambda>kv. subvalues (snd kv)) kvs)"
| "subvalues (JList xs) = JList xs # concat (map subvalues xs)"
| "subvalues j = [j]"

lemma subvalues_self [simp]: "j \<in> set (subvalues j)"
  by (cases j) auto

end
