(* ===== verification/Config.thy ===== *)
theory Config
  imports Manifests
begin

text \<open>
  \<open>host/config.py\<close>: the typed network controls that the operator's policy is parsed into,
  their serialisation, and the deployment identity the command line supplies; and the pure
  parts of \<open>host/version.py\<close> and \<open>host/session_options.py\<close>.
\<close>

datatype integration_config =
    OpenAIConfig managed_integration
  | ClaudeConfig claude_integration
  | BedrockConfig bedrock_integration
  | GitHubConfig github_integration
  | PythonConfig managed_integration
  | NpmConfig managed_integration
  | CustomConfig custom_integration

fun config_enabled :: "integration_config \<Rightarrow> bool" where
  "config_enabled (OpenAIConfig c) = mi_enabled c"
| "config_enabled (ClaudeConfig c) = cl_enabled c"
| "config_enabled (BedrockConfig c) = br_enabled c"
| "config_enabled (GitHubConfig c) = gh_enabled c"
| "config_enabled (PythonConfig c) = mi_enabled c"
| "config_enabled (NpmConfig c) = mi_enabled c"
| "config_enabled (CustomConfig c) = custom_enabled c"

fun config_to_json :: "integration_config \<Rightarrow> json" where
  "config_to_json (OpenAIConfig c) = managed_to_json c"
| "config_to_json (ClaudeConfig c) = claude_to_json c"
| "config_to_json (BedrockConfig c) = bedrock_to_json c"
| "config_to_json (GitHubConfig c) = github_to_json c"
| "config_to_json (PythonConfig c) = managed_to_json c"
| "config_to_json (NpmConfig c) = managed_to_json c"
| "config_to_json (CustomConfig c) = custom_to_json c"

text \<open>\<open>registered.parse(value)\<close>, by the integration's id.\<close>

definition registered_parse ::
  "(str \<Rightarrow> bool) \<Rightarrow> str \<Rightarrow> (str \<times> json) list \<Rightarrow> integration_config parsed" where
  "registered_parse re_ok ident value =
     (if ident = S ''openai'' then map_sum id OpenAIConfig (openai_parse value)
      else if ident = S ''claude'' then map_sum id ClaudeConfig (claude_parse value)
      else if ident = S ''bedrock'' then map_sum id BedrockConfig (bedrock_parse value)
      else if ident = S ''github'' then map_sum id GitHubConfig (github_parse value)
      else if ident = S ''python_packages'' then map_sum id PythonConfig (python_parse value)
      else if ident = S ''npm_packages'' then map_sum id NpmConfig (npm_parse value)
      else map_sum id CustomConfig (custom_parse re_ok value))"

record network_controls =
  integrations :: "(str \<times> integration_config) list"

definition controls_to_json :: "network_controls \<Rightarrow> (str \<times> json) list" where
  "controls_to_json controls =
     [(S ''network_integrations'',
       JObj (map (\<lambda>(ident, config). (ident, config_to_json config))
               (filter (\<lambda>(ident, config). config_enabled config) (integrations controls))))]"

text \<open>\<open>_object(raw, key, required=False)\<close>.\<close>

definition optional_object :: "(str \<times> json) list \<Rightarrow> str \<Rightarrow> (str \<times> json) list parsed" where
  "optional_object raw key =
     (case jget raw key of
        JNull \<Rightarrow> Inr []
      | JObj kvs \<Rightarrow> Inr kvs
      | _ \<Rightarrow> Inl (Not_object key))"

fun parse_integrations ::
  "(str \<Rightarrow> bool) \<Rightarrow> (str \<times> json) list \<Rightarrow> integration_manifest list \<Rightarrow>
   (str \<times> integration_config) list parsed" where
  "parse_integrations re_ok raw [] = Inr []"
| "parse_integrations re_ok raw (m # ms) =
     bind_res (optional_object raw (integration_id m)) (\<lambda>value.
     bind_res (registered_parse re_ok (integration_id m) value) (\<lambda>config.
     bind_res (parse_integrations re_ok raw ms) (\<lambda>configs.
       Inr ((integration_id m, config) # configs))))"

fun reject_managed_domains :: "str list \<Rightarrow> unit parsed" where
  "reject_managed_domains [] = Inr ()"
| "reject_managed_domains (domain # rest) =
     (case managed_domain_owner domain of
        Some managed_owner \<Rightarrow> Inl (Managed_domain domain managed_owner)
      | None \<Rightarrow> reject_managed_domains rest)"

text \<open>\<open>custom.domains\<close> of the parsed configurations.\<close>

definition custom_domains :: "(str \<times> integration_config) list \<Rightarrow> (str \<times> custom_domain_rule) list" where
  "custom_domains configs =
     (case map_of configs (S ''custom'') of Some (CustomConfig c) \<Rightarrow> domains c | _ \<Rightarrow> [])"

definition parse_network_controls :: "(str \<Rightarrow> bool) \<Rightarrow> (str \<times> json) list \<Rightarrow> network_controls parsed" where
  "parse_network_controls re_ok raw =
     bind_res (reject_extra raw [S ''network_integrations''] (S ''network_controls'')) (\<lambda>_.
     bind_res (optional_object raw (S ''network_integrations'')) (\<lambda>raw_integrations.
     bind_res (reject_extra raw_integrations (map integration_id NETWORK_INTEGRATIONS)
                 (S ''network_integrations'')) (\<lambda>_.
     bind_res (parse_integrations re_ok raw_integrations NETWORK_INTEGRATIONS) (\<lambda>configs.
     bind_res (reject_managed_domains (map fst (custom_domains configs))) (\<lambda>_.
       Inr \<lparr>integrations = configs\<rparr>)))))"

subsection \<open>The deployment identity\<close>

datatype cli_error =
    Invalid_agent_name
  | Invalid_region
  | Invalid_ssh_key
  | Invalid_hostname
  | Missing_tunnel_token
  | Invalid_tunnel_token
  | No_operator_endpoint

definition AGENT_NAME_RE :: rx where
  "AGENT_NAME_RE =
     seqs [Bol, Greedy 1 50 (Cls (unions [Range 65 90, Range 97 122, Range 48 57, chars (S ''_-'')])), Eol]"

definition AWS_REGION_RE :: rx where
  "AWS_REGION_RE =
     seqs [Greedy 2 2 (Cls (Range 97 122)), lit (S ''-''), plus (Cls (Range 97 122)), lit (S ''-''), Cls Digit]"

record input_config =
  agent_name :: str
  aws_region :: str

definition build_input_config :: "str \<Rightarrow> str \<Rightarrow> cli_error + input_config" where
  "build_input_config name0 region0 =
     (let name = strip name0; region = strip region0
      in if \<not> rx_fullmatch (\<lambda>_. False) AGENT_NAME_RE name then Inl Invalid_agent_name
         else if \<not> rx_fullmatch (\<lambda>_. False) AWS_REGION_RE region then Inl Invalid_region
         else Inr \<lparr>agent_name = name, aws_region = region\<rparr>)"

datatype operator_connection =
    Ssh str                    \<comment> \<open>public key\<close>
  | Cloudflare_access str str  \<comment> \<open>host name, tunnel token\<close>

definition ssh_connection :: "str option \<Rightarrow> cli_error + operator_connection list" where
  "ssh_connection ssh_public_key =
     (case ssh_public_key of
        None \<Rightarrow> Inr []
      | Some key0 \<Rightarrow>
          let key = strip key0
          in if startswith key (S ''ssh-ed25519 '') \<or> startswith key (S ''ssh-rsa '') then Inr [Ssh key]
             else Inl Invalid_ssh_key)"

definition cloudflare_connection :: "str option \<Rightarrow> str option \<Rightarrow> cli_error + operator_connection list" where
  "cloudflare_connection cloudflare_hostname tunnel_token =
     (case cloudflare_hostname of
        None \<Rightarrow> Inr []
      | Some hostname0 \<Rightarrow>
          let hostname = lower (strip hostname0)
          in if \<not> rx_fullmatch (\<lambda>_. False) EXACT_DOMAIN_RE hostname then Inl Invalid_hostname
             else case tunnel_token of
                    None \<Rightarrow> Inl Missing_tunnel_token
                  | Some token \<Rightarrow>
                      if token = [] then Inl Missing_tunnel_token
                      else if list_ex is_space token then Inl Invalid_tunnel_token
                      else Inr [Cloudflare_access hostname token])"

definition build_operator_connections ::
  "str option \<Rightarrow> str option \<Rightarrow> str option \<Rightarrow> cli_error + operator_connection list" where
  "build_operator_connections ssh_public_key cloudflare_hostname tunnel_token =
     bind_res (ssh_connection ssh_public_key) (\<lambda>ssh.
     bind_res (cloudflare_connection cloudflare_hostname tunnel_token) (\<lambda>cloudflare.
       let connections = ssh @ cloudflare
       in if connections = [] then Inl No_operator_endpoint else Inr connections))"

fun connection_to_json :: "operator_connection \<Rightarrow> (str \<times> json) list" where
  "connection_to_json (Ssh key) = [(S ''mode'', JStr (S ''ssh'')), (S ''ssh_public_key'', JStr key)]"
| "connection_to_json (Cloudflare_access hostname token) =
     [(S ''mode'', JStr (S ''cloudflare_access'')), (S ''hostname'', JStr hostname), (S ''tunnel_token'', JStr token)]"

definition public_connection :: "(str \<times> json) list \<Rightarrow> (str \<times> json) list list" where
  "public_connection connection =
     (let mode = jget connection (S ''mode'')
      in if mode = JStr (S ''ssh'') then [[(S ''mode'', JStr (S ''ssh''))]]
         else if mode = JStr (S ''cloudflare_access'')
         then [[(S ''mode'', JStr (S ''cloudflare_access'')), (S ''hostname'', jget connection (S ''hostname''))]]
         else [])"

definition public_operator_connections :: "(str \<times> json) list list \<Rightarrow> (str \<times> json) list list" where
  "public_operator_connections connections = concat (map public_connection connections)"

subsection \<open>Versions\<close>

definition version_number :: "nat \<Rightarrow> rx" where
  "version_number n =
     Group n (Alt (lit (S ''0'')) (Seq (Cls (Range 49 57)) (star (Cls (Range 48 57)))))"

definition VERSION_RE :: rx where
  "VERSION_RE =
     seqs [Bol, version_number 1, lit (S ''.''), version_number 2, lit (S ''.''), version_number 3, Eol]"

text \<open>\<open>None\<close> is the ValueError of a malformed version.\<close>

definition parse_version :: "str \<Rightarrow> (int \<times> int \<times> int) option" where
  "parse_version version =
     (case rx_fullgroups (\<lambda>_. False) VERSION_RE (strip version) of
        None \<Rightarrow> None
      | Some gs \<Rightarrow>
          (case (py_int (group_of 1 gs), py_int (group_of 2 gs), py_int (group_of 3 gs)) of
             (Some a, Some b, Some c) \<Rightarrow> Some (a, b, c)
           | _ \<Rightarrow> None))"

definition version_less :: "int \<times> int \<times> int \<Rightarrow> int \<times> int \<times> int \<Rightarrow> bool" where
  "version_less l r =
     (case (l, r) of ((a, b, c), (a', b', c')) \<Rightarrow> a < a' \<or> (a = a' \<and> (b < b' \<or> (b = b' \<and> c < c'))))"

definition compare_versions :: "str \<Rightarrow> str \<Rightarrow> int option" where
  "compare_versions left right =
     (case parse_version left of
        None \<Rightarrow> None
      | Some l \<Rightarrow>
          (case parse_version right of
             None \<Rightarrow> None
           | Some r \<Rightarrow> Some ((if version_less r l then 1 else 0) - (if version_less l r then 1 else 0))))"

definition validate_version :: "str \<Rightarrow> str option" where
  "validate_version value = map_option (\<lambda>_. value) (parse_version value)"

text \<open>The argument is the file's text, \<open>None\<close> when there is no file.\<close>

definition read_root_version :: "str option \<Rightarrow> str option" where
  "read_root_version file = (case file of None \<Rightarrow> None | Some text \<Rightarrow> validate_version (strip text))"

text \<open>\<open>loads\<close> is \<open>json.loads\<close> on the file's text.\<close>

definition read_state_version :: "(str \<Rightarrow> json option) \<Rightarrow> str option \<Rightarrow> str option" where
  "read_state_version loads file =
     (case file of
        None \<Rightarrow> None
      | Some text \<Rightarrow>
          (case loads text of
             Some (JObj payload) \<Rightarrow>
               (case jget payload (S ''version'') of JStr v \<Rightarrow> validate_version v | _ \<Rightarrow> None)
           | _ \<Rightarrow> None))"

definition version_status :: "(str \<Rightarrow> json option) \<Rightarrow> str option \<Rightarrow> str option \<Rightarrow> str" where
  "version_status loads root_file state_file =
     (case (read_root_version root_file, read_state_version loads state_file) of
        (Some running, Some stored) \<Rightarrow> (if running = stored then S ''ok'' else S ''mismatch'')
      | _ \<Rightarrow> S ''error'')"

subsection \<open>Session options\<close>

definition SESSION_OPTIONS :: "(str \<times> (str \<times> str list) list) list" where
  "SESSION_OPTIONS =
     [(S ''codex'',
       [(S ''gpt-5.6-terra'', [S ''high'', S ''max'', S ''ultra'']),
        (S ''gpt-5.6-sol'', [S ''high'', S ''max'', S ''ultra'']),
        (S ''gpt-5.6-luna'', [S ''high'', S ''max''])]),
      (S ''claude_code'',
       [(S ''opus'', [S ''high'', S ''max'', S ''ultracode'']),
        (S ''fable'', [S ''high'', S ''max'', S ''ultracode'']),
        (S ''sonnet'', [S ''high'', S ''max'', S ''ultracode''])]),
      (S ''hermes'',
       [(S ''deepseek.v3.2'', [S ''high'']), (S ''qwen.qwen3-coder-next'', [S ''high'']),
        (S ''moonshotai.kimi-k2.5'', [S ''high''])])]"

datatype session_error = Bad_runtime | Bad_model | Bad_effort

definition session_config_error :: "str \<Rightarrow> json \<Rightarrow> json \<Rightarrow> session_error option" where
  "session_config_error runtime model effort =
     (case map_of SESSION_OPTIONS runtime of
        None \<Rightarrow> Some Bad_runtime
      | Some models \<Rightarrow>
          (case model of
             JStr m \<Rightarrow>
               (case map_of models m of
                  None \<Rightarrow> Some Bad_model
                | Some efforts \<Rightarrow>
                    (case effort of
                       JStr e \<Rightarrow> (if e \<in> set efforts then None else Some Bad_effort)
                     | _ \<Rightarrow> Some Bad_effort))
           | _ \<Rightarrow> Some Bad_model))"

end
