(* ===== verification/ParamGuard.thy ===== *)
theory ParamGuard
  imports Complex_Main UrlLib Regex
begin

text \<open>
  The outbound parameter guard, \<open>host/param_guard.py\<close>, and \<open>request_param_denial\<close> of
  \<open>network_integrations/base.py\<close>, which runs it over a request URL. The patterns are the
  source's, as syntax trees. The word lists of \<open>param_guard_words.py\<close> are data: an argument
  of type \<open>word_data\<close>. The two scores that the code computes with floating-point
  logarithms are stated here as exact integer comparisons; \<open>entropy_test_is_shannon\<close> and
  \<open>bigram_test_is_mean_logprob\<close> show that they decide the real-valued formulas.
\<close>

record word_data =
  bip39_words :: "str list"
  common_words :: "str list"     \<comment> \<open>a set in the code: no duplicates\<close>

definition MAX_PARAMETER_BYTES :: int where "MAX_PARAMETER_BYTES = 1024"
definition MAX_UNBROKEN_TOKEN_CHARS :: int where "MAX_UNBROKEN_TOKEN_CHARS = 128"
definition MIN_BARE_DIGIT_RUN :: nat where "MIN_BARE_DIGIT_RUN = 10"
definition MAX_BARE_DIGIT_RUN :: nat where "MAX_BARE_DIGIT_RUN = 16"
definition MIN_UNNATURAL_TOKEN_CHARS :: nat where "MIN_UNNATURAL_TOKEN_CHARS = 14"

definition REASON_TOO_LARGE :: str where "REASON_TOO_LARGE = S ''request_param_too_large''"
definition REASON_ENCODED_BLOB :: str where "REASON_ENCODED_BLOB = S ''request_param_encoded_blob_denied''"
definition REASON_SECRET :: str where "REASON_SECRET = S ''request_param_secret_denied''"
definition REASON_PII :: str where "REASON_PII = S ''request_param_pii_denied''"

record guard_denial =
  gd_guard :: str
  gd_reason :: str

subsection \<open>Character classes and the wallet address mask\<close>

definition A_Z :: cclass where "A_Z = Range 65 90"
definition a_z :: cclass where "a_z = Range 97 122"
definition d0_9 :: cclass where "d0_9 = Range 48 57"
definition alnum :: cclass where "alnum = unions [A_Z, a_z, d0_9]"
definition alnum_dash :: cclass where "alnum_dash = Union alnum (chars (S ''-''))"
definition token_chars :: cclass where "token_chars = Union alnum (chars (S ''_-''))"
definition hex_chars :: cclass where "hex_chars = unions [d0_9, Range 97 102, Range 65 70]"
definition base58 :: cclass where
  "base58 = unions [Range 49 57, Range 65 72, Range 74 78, Range 80 90, Range 97 107, Range 109 122]"

definition between :: "nat \<Rightarrow> nat \<Rightarrow> cclass \<Rightarrow> rx" where
  "between lo hi c = Greedy lo hi (Cls c)"

definition at_least :: "nat \<Rightarrow> cclass \<Rightarrow> rx" where
  "at_least lo c = GreedyInf lo (Cls c)"

definition PUBLIC_ADDRESS_RES :: "rx list" where
  "PUBLIC_ADDRESS_RES =
     [seqs [Bol, lit (S ''0x''), between 40 40 hex_chars, Eol],
      seqs [Bol, Cls (chars (S ''13'')), between 25 34 base58, Eol],
      seqs [Bol, lit (S ''bc1''), between 6 87 (chars (S ''qpzry9x8gf2tvdw0s3jn54khce6mua7l'')), Eol]]"

definition TOKEN_EDGE_PUNCT :: str where
  "TOKEN_EDGE_PUNCT = S ''.,;:!?()[]{}'' @ [34, 39]"

definition ADDRESS_PREFILTER_RE :: rx where
  "ADDRESS_PREFILTER_RE =
     alts (Seq (lit (S ''0x'')) (between 6 6 hex_chars))
       [Seq (lit (S ''bc1'')) (between 6 6 (Union d0_9 a_z)),
        Seq (Cls (chars (S ''13''))) (between 25 25 base58)]"

definition is_public_address :: "pylib \<Rightarrow> str \<Rightarrow> bool" where
  "is_public_address L core =
     (core \<noteq> [] \<and> list_ex (\<lambda>p. rx_match (word_cp L) p core \<noteq> None) PUBLIC_ADDRESS_RES)"

fun mask_tokens :: "pylib \<Rightarrow> str \<Rightarrow> str list \<Rightarrow> str \<times> str list" where
  "mask_tokens L masked_value [] = (masked_value, [])"
| "mask_tokens L masked_value (token # tokens) =
     (let core = strip_by (\<lambda>c. c \<in> set TOKEN_EDGE_PUNCT) token
      in if is_public_address L core
         then (case mask_tokens L (replace core (S ''walletaddress'') masked_value) tokens of
                 (v, ts) \<Rightarrow> (v, replace core (S ''walletaddress'') token # ts))
         else (case mask_tokens L masked_value tokens of (v, ts) \<Rightarrow> (v, token # ts)))"

definition mask_public_addresses :: "pylib \<Rightarrow> str \<Rightarrow> str list \<Rightarrow> str \<times> str list" where
  "mask_public_addresses L value tokens =
     (if \<not> rx_search (word_cp L) ADDRESS_PREFILTER_RE value then (value, tokens)
      else mask_tokens L value tokens)"

subsection \<open>Characters and tokens\<close>

definition has_non_text_character :: "pylib \<Rightarrow> str \<Rightarrow> bool" where
  "has_non_text_character L value =
     (list_ex (\<lambda>c. (0 \<le> c \<and> c \<le> 8) \<or> c = 11 \<or> c = 12 \<or> (14 \<le> c \<and> c \<le> 31) \<or> c = 127) value
      \<or> (\<not> list_all (\<lambda>c. c < 128) value \<and> list_ex (\<lambda>c. 128 \<le> c \<and> category_c L c) value))"

definition is_plain_https_url :: "pylib \<Rightarrow> str \<Rightarrow> bool" where
  "is_plain_https_url L token =
     (startswith token (S ''https://'') \<and>
      (case urlsplit L token of
         None \<Rightarrow> False
       | Some u \<Rightarrow> u_hostname (u_netloc u) \<noteq> [] \<and> 64 \<notin> set (u_netloc u)))"

subsection \<open>Secret rules\<close>

definition CRED_PREFIX_RE :: rx where
  "CRED_PREFIX_RE =
     seqs [Bound,
       alts (Seq (alts (Seq (lit (S ''A3T'')) (Cls (Union A_Z d0_9)))
                    [lit (S ''AKIA''), lit (S ''ASIA''), lit (S ''ABIA''), lit (S ''ACCA'')])
               (between 16 16 (Union A_Z d0_9)))
         [Seq (lit (S ''ghp_'')) (at_least 36 alnum),
          seqs [lit (S ''gh''), Cls (chars (S ''ours'')), lit (S ''_''), at_least 36 alnum],
          Seq (lit (S ''github_pat_'')) (at_least 22 (Union alnum (chars (S ''_'')))),
          Seq (lit (S ''glpat-'')) (at_least 20 token_chars),
          seqs [lit (S ''xox''), Cls (chars (S ''baprs'')), lit (S ''-''), at_least 10 alnum_dash],
          seqs [lit (S ''sk-''), opt (alts (lit (S ''proj-'')) [lit (S ''ant-''), lit (S ''live-'')]),
                at_least 20 token_chars],
          seqs [Cls (chars (S ''rp'')), lit (S ''k_live_''), at_least 20 alnum],
          Seq (lit (S ''AIza'')) (between 35 35 token_chars),
          Seq (lit (S ''ya29.'')) (at_least 20 token_chars),
          seqs [lit (S ''SG.''), between 16 32 token_chars, lit (S ''.''), between 16 64 token_chars],
          Seq (lit (S ''npm_'')) (between 36 36 alnum),
          Seq (lit (S ''pypi-AgEIcHlwaS5vcmc'')) (at_least 20 token_chars),
          Seq (lit (S ''dop_v1_'')) (between 64 64 (Union (Range 97 102) d0_9)),
          Seq (lit (S ''hf_'')) (at_least 30 alnum),
          Seq (lit (S ''AGE-SECRET-KEY-1''))
            (between 58 58 (chars (S ''QPZRY9X8GF2TVDW0S3JN54KHCE6MUA7L'')))],
       Bound]"

definition KEY_BLOCK_RE :: rx where
  "KEY_BLOCK_RE =
     seqs [lit (S ''-----BEGIN ''), between 0 32 (unions [A_Z, d0_9, chars (S '' '')]),
           lit (S ''PRIVATE KEY''), opt (lit (S '' BLOCK'')), lit (S ''-----'')]"

definition JWT_RE :: rx where
  "JWT_RE =
     seqs [Bound, lit (S ''eyJ''), between 8 4096 token_chars, lit (S ''.''), between 8 4096 token_chars,
           lit (S ''.''), between 8 4096 token_chars, Bound]"

definition HEX64_RE :: rx where
  "HEX64_RE = seqs [Bound, between 64 64 hex_chars, Bound]"

definition WIF_RE :: rx where
  "WIF_RE = seqs [Bound, Cls (chars (S ''5KL'')), between 50 51 base58, Bound]"

definition SEED_PHRASE_RUN :: nat where "SEED_PHRASE_RUN = 12"

fun seed_run :: "str list \<Rightarrow> nat \<Rightarrow> str list \<Rightarrow> bool" where
  "seed_run words run [] = False"
| "seed_run words run (token # tokens) =
     (if lower token \<in> set words
      then (if SEED_PHRASE_RUN \<le> Suc run then True else seed_run words (Suc run) tokens)
      else seed_run words 0 tokens)"

definition has_seed_phrase :: "word_data \<Rightarrow> str list \<Rightarrow> bool" where
  "has_seed_phrase D tokens = seed_run (bip39_words D) 0 tokens"

definition CREDENTIAL_QUERY_KEYS :: "str list" where
  "CREDENTIAL_QUERY_KEYS =
     [S ''access_token'', S ''api_key'', S ''apikey'', S ''auth'', S ''authorization'', S ''bearer'',
      S ''credential'', S ''key'', S ''password'', S ''secret'', S ''sig'', S ''signature'', S ''token'']"

definition is_credential_query_key :: "str \<Rightarrow> bool" where
  "is_credential_query_key key = (lower key \<in> set CREDENTIAL_QUERY_KEYS)"

definition credential_url_token :: "pylib \<Rightarrow> str \<Rightarrow> bool" where
  "credential_url_token L token =
     (contains token (S ''://'') \<and>
      (case urlsplit L token of
         None \<Rightarrow> True
       | Some u \<Rightarrow>
           (u_hostname (u_netloc u) \<noteq> [] \<and> 64 \<in> set (u_netloc u))
           \<or> list_ex (\<lambda>(key, val). is_credential_query_key key \<and> 16 \<le> length val)
               (parse_qsl True (u_query u))))"

definition has_credential_url :: "pylib \<Rightarrow> str list \<Rightarrow> bool" where
  "has_credential_url L tokens = list_ex (credential_url_token L) tokens"

definition CRED_KEYWORD_RE :: rx where
  "CRED_KEYWORD_RE =
     (let sep = opt (Cls (chars (S '' _-'')))
      in seqs [Bound,
           alts (seqs [cilit (S ''api''), sep, cilit (S ''key'')])
             [seqs [cilit (S ''access''), sep, cilit (S ''key'')], cilit (S ''secret''), cilit (S ''token''),
              cilit (S ''bearer''), cilit (S ''credential''), seqs [cilit (S ''private''), sep, cilit (S ''key'')]],
           Bound])"

definition ENTROPY_CANDIDATE_RE :: rx where
  "ENTROPY_CANDIDATE_RE = at_least 16 (Union alnum (chars (S ''+/=_-'')))"

definition ENTROPY_WINDOW_CHARS :: nat where "ENTROPY_WINDOW_CHARS = 40"

text \<open>
  \<open>_shannon_bits_per_char(token) >= 3.2\<close> without logarithms. With \<open>n\<close> characters of which
  \<open>k\<^sub>c\<close> are \<open>c\<close>, the entropy is at least \<open>16/5\<close> exactly when
  \<open>n\<^bsup>5n\<^esup> \<ge> 2\<^bsup>16n\<^esup> \<cdot> \<Prod>\<^sub>c k\<^sub>c\<^bsup>5k\<^sub>c\<^esup>\<close>.
\<close>

definition char_counts :: "str \<Rightarrow> nat list" where
  "char_counts token = map (\<lambda>c. length (filter (\<lambda>x. x = c) token)) (remdups token)"

definition high_entropy :: "str \<Rightarrow> bool" where
  "high_entropy token =
     (let n = length token
      in 2 ^ (16 * n) * prod_list (map (\<lambda>k. k ^ (5 * k)) (char_counts token)) \<le> n ^ (5 * n))"

definition has_entropy_near_keyword :: "pylib \<Rightarrow> str \<Rightarrow> bool" where
  "has_entropy_near_keyword L value =
     (let keyword_spans = rx_finditer (word_cp L) CRED_KEYWORD_RE value
      in keyword_spans \<noteq> [] \<and>
         list_ex (\<lambda>m. list_ex (\<lambda>k. sp_start m \<le> sp_end k + ENTROPY_WINDOW_CHARS
                                  \<and> sp_start k \<le> sp_end m + ENTROPY_WINDOW_CHARS) keyword_spans
                      \<and> high_entropy (sp_text m))
           (rx_finditer (word_cp L) ENTROPY_CANDIDATE_RE value))"

definition PASSWORD_RE :: rx where
  "PASSWORD_RE =
     seqs [Bound, alts (cilit (S ''password'')) [cilit (S ''passwd''), cilit (S ''pwd'')], Bound,
           star (Cls Space), alts (cilit (S ''is'')) [lit (S '':''), lit (S ''='')], star (Cls Space),
           at_least 4 (Compl Space)]"

subsection \<open>Identifier rules\<close>

definition EMAIL_RE :: rx where
  "EMAIL_RE =
     seqs [plus (Cls (Union alnum (chars (S ''._%+-'')))), lit (S ''@''), plus (Cls alnum_dash),
           star (Seq (lit (S ''.'')) (plus (Cls alnum_dash))), lit (S ''.''), at_least 2 (Union A_Z a_z)]"

definition not_alnum_behind :: rx where
  "not_alnum_behind = Behind False (Cls (unions [Digit, A_Z, a_z]))"

definition not_alnum_ahead :: rx where
  "not_alnum_ahead = Ahead False (Cls (unions [Digit, A_Z, a_z]))"

definition CARD_CANDIDATE_RE :: rx where
  "CARD_CANDIDATE_RE =
     seqs [not_alnum_behind, Cls Digit,
           Greedy 12 18 (Seq (opt (Cls (chars (S '' -'')))) (Cls Digit)), not_alnum_ahead]"

definition CARD_ISSUER_RE :: rx where
  "CARD_ISSUER_RE =
     (let D = (\<lambda>n. between n n Digit); R = (\<lambda>a b. Cls (Range a b))
      in seqs [Bol,
        alts (Seq (lit (S ''4'')) (between 12 18 Digit))
          [seqs [lit (S ''5''), R 49 53, D 14],
           seqs [lit (S ''2''),
                 alts (Seq (lit (S ''22'')) (R 49 57))
                   [seqs [lit (S ''2''), R 51 57, Cls Digit], Seq (R 51 54) (D 2),
                    seqs [lit (S ''7''), Cls (chars (S ''01'')), Cls Digit], lit (S ''720'')],
                 D 12],
           seqs [lit (S ''3''), Cls (chars (S ''47'')), D 13],
           seqs [lit (S ''6''),
                 alts (lit (S ''011'')) [Seq (lit (S ''5'')) (D 2), seqs [lit (S ''4''), R 52 57, Cls Digit]],
                 D 12],
           seqs [lit (S ''35''),
                 alts (Seq (lit (S ''2'')) (Cls (chars (S ''89'')))) [Seq (R 51 56) (Cls Digit)], D 12],
           seqs [lit (S ''3''),
                 alts (Seq (lit (S ''0'')) (R 48 53)) [Seq (Cls (chars (S ''68''))) (Cls Digit)], D 11],
           Seq (lit (S ''62'')) (between 14 17 Digit)],
        Eol])"

fun luhn_total :: "nat \<Rightarrow> str \<Rightarrow> int" where
  "luhn_total index [] = 0"
| "luhn_total index (char # rest) =
     (let digit = char - 48; doubled = 2 * digit
      in (if index mod 2 = 1 then (if doubled > 9 then doubled - 9 else doubled) else digit)
         + luhn_total (Suc index) rest)"

definition luhn_ok :: "str \<Rightarrow> bool" where
  "luhn_ok digits = (luhn_total 0 (rev digits) mod 10 = 0)"

definition has_payment_card :: "pylib \<Rightarrow> str \<Rightarrow> bool" where
  "has_payment_card L value =
     list_ex (\<lambda>m. let digits = filter (\<lambda>c. c \<notin> {32, 45}) (sp_text m)
                  in 13 \<le> length digits \<and> length digits \<le> 19
                     \<and> rx_match (word_cp L) CARD_ISSUER_RE digits \<noteq> None \<and> luhn_ok digits)
       (rx_finditer (word_cp L) CARD_CANDIDATE_RE value)"

definition IBAN_CANDIDATE_RE :: rx where
  "IBAN_CANDIDATE_RE =
     seqs [Bound,
           Group 1 (seqs [between 2 2 A_Z, between 2 2 Digit,
                          Greedy 3 8 (Seq (opt (lit (S '' ''))) (between 1 4 (Union A_Z d0_9)))]),
           Bound]"

definition IBAN_LENGTHS :: "(str \<times> nat) list" where
  "IBAN_LENGTHS =
     [(S ''AT'', 20), (S ''BE'', 16), (S ''CH'', 21), (S ''CZ'', 24), (S ''DE'', 22), (S ''DK'', 18),
      (S ''ES'', 24), (S ''FI'', 18), (S ''FR'', 27), (S ''GB'', 22), (S ''IE'', 22), (S ''IT'', 27),
      (S ''LU'', 20), (S ''NL'', 18), (S ''NO'', 15), (S ''PL'', 28), (S ''PT'', 25), (S ''SE'', 24)]"

text \<open>
  \<open>int(c, 36)\<close> of a character the candidate pattern lets through, and \<open>int(numeric) % 97\<close>
  read off the concatenated decimal numerals from the left.
\<close>

definition base36 :: "int \<Rightarrow> int" where
  "base36 c = (if 65 \<le> c \<and> c \<le> 90 then c - 55 else case digit_value c of Some d \<Rightarrow> d | None \<Rightarrow> 0)"

fun iban_number :: "int \<Rightarrow> str \<Rightarrow> int" where
  "iban_number acc [] = acc"
| "iban_number acc (c # cs) =
     (let v = base36 c in iban_number (if v < 10 then acc * 10 + v else acc * 100 + v) cs)"

definition iban_ok :: "str \<Rightarrow> bool" where
  "iban_ok candidate =
     (let compact = upper (replace (S '' '') [] candidate)
      in case map_of IBAN_LENGTHS (take 2 compact) of
           None \<Rightarrow> False
         | Some expected \<Rightarrow>
             expected \<le> length compact \<and>
             (let c = take expected compact in iban_number 0 (drop 4 c @ take 4 c) mod 97 = 1))"

definition has_iban :: "pylib \<Rightarrow> str \<Rightarrow> bool" where
  "has_iban L value =
     list_ex (\<lambda>m. iban_ok (group_of 1 (sp_groups m))) (rx_finditer (word_cp L) IBAN_CANDIDATE_RE value)"

definition NINE_DIGIT_RE :: rx where
  "NINE_DIGIT_RE = seqs [Behind False (Cls Digit), Group 1 (between 9 9 Digit), Ahead False (Cls Digit)]"

definition aba_ok :: "str \<Rightarrow> bool" where
  "aba_ok digits =
     (case py_int (take 2 digits) of
        None \<Rightarrow> False
      | Some prefix \<Rightarrow>
          ((0 \<le> prefix \<and> prefix \<le> 12) \<or> (21 \<le> prefix \<and> prefix \<le> 32)
           \<or> (61 \<le> prefix \<and> prefix \<le> 72) \<or> prefix = 80) \<and>
          (case map (\<lambda>c. c - 48) digits of
             [d0, d1, d2, d3, d4, d5, d6, d7, d8] \<Rightarrow>
               (3 * (d0 + d3 + d6) + 7 * (d1 + d4 + d7) + (d2 + d5 + d8)) mod 10 = 0
           | _ \<Rightarrow> False))"

definition has_aba_routing :: "pylib \<Rightarrow> str \<Rightarrow> bool" where
  "has_aba_routing L value =
     list_ex (\<lambda>m. aba_ok (group_of 1 (sp_groups m))) (rx_finditer (word_cp L) NINE_DIGIT_RE value)"

definition SSN_RE :: rx where
  "SSN_RE =
     seqs [Bound, Group 1 (between 3 3 Digit), lit (S ''-''), Group 2 (between 2 2 Digit), lit (S ''-''),
           Group 3 (between 4 4 Digit), Bound]"

definition ssn_ok :: "str \<Rightarrow> str \<Rightarrow> str \<Rightarrow> bool" where
  "ssn_ok area grp serial =
     (\<not> (area = S ''000'' \<or> area = S ''666'' \<or> startswith area (S ''9''))
      \<and> \<not> (grp = S ''00'' \<or> serial = S ''0000''))"

definition has_ssn :: "pylib \<Rightarrow> str \<Rightarrow> bool" where
  "has_ssn L value =
     list_ex (\<lambda>m. ssn_ok (group_of 1 (sp_groups m)) (group_of 2 (sp_groups m)) (group_of 3 (sp_groups m)))
       (rx_finditer (word_cp L) SSN_RE value)"

definition phone_sep :: cclass where
  "phone_sep = Union Space (chars (S ''.-''))"

definition PHONE_INTL_RE :: rx where
  "PHONE_INTL_RE =
     seqs [not_alnum_behind, lit (S ''+''), between 1 3 Digit, opt (Cls phone_sep), opt (lit (S ''('')),
           between 1 4 Digit, opt (lit (S '')'')),
           Greedy 2 4 (Seq (opt (Cls phone_sep)) (between 2 4 Digit)), not_alnum_ahead]"

definition PHONE_SEP_RE :: rx where
  "PHONE_SEP_RE =
     seqs [not_alnum_behind, opt (lit (S ''('')), between 3 3 Digit, opt (lit (S '')'')), Cls phone_sep,
           between 3 3 Digit, Cls phone_sep, between 4 4 Digit, not_alnum_ahead]"

text \<open>The characters of a match that \<open>isdigit\<close> accepts are its decimal digits.\<close>

definition has_phone :: "pylib \<Rightarrow> str \<Rightarrow> bool" where
  "has_phone L value =
     list_ex (\<lambda>pattern. list_ex (\<lambda>m. let digit_count = length (filter is_digit (sp_text m))
                                      in 8 \<le> digit_count \<and> digit_count \<le> 15)
                          (rx_finditer (word_cp L) pattern value))
       [PHONE_INTL_RE, PHONE_SEP_RE]"

text \<open>Lookbehinds run on the text read backwards, so their literal is reversed.\<close>

definition not_after :: "string \<Rightarrow> rx" where
  "not_after w = Behind False (cilit (rev (S w)))"

definition OTP_NEAR_KEYWORD_RE :: rx where
  "OTP_NEAR_KEYWORD_RE =
     seqs [Bound,
       alts (seqs [not_after ''zip '', not_after ''area '', not_after ''postal '', not_after ''country '',
                   not_after ''dial '', not_after ''error '', not_after ''status '', not_after ''http '',
                   cilit (S ''code'')])
         [cilit (S ''otp''), cilit (S ''verification''), cilit (S ''verify''), cilit (S ''2fa''),
          cilit (S ''passcode''), cilit (S ''pin''),
          seqs [cilit (S ''one''), opt (Cls (chars (S '' -''))), cilit (S ''time'')]],
       Bound, Greedy 0 24 (Cls (Compl (Union Digit (Range 10 10)))),
       Behind False (Cls Digit), between 4 8 Digit, Ahead False (Cls Digit)]"

definition DOB_NEAR_KEYWORD_RE :: rx where
  "DOB_NEAR_KEYWORD_RE =
     seqs [Bound,
       alts (cilit (S ''dob''))
         [cilit (S ''date of birth''), cilit (S ''born''),
          seqs [cilit (S ''birth''), opt (Cls Space), cilit (S ''date'')], cilit (S ''birthday'')],
       Bound, Lazy 0 24 (Cls Any),
       alts (seqs [between 1 2 Digit, Cls (chars (S ''/.-'')), between 1 2 Digit, Cls (chars (S ''/.-'')),
                   between 2 4 Digit])
         [seqs [between 4 4 Digit, lit (S ''-''), between 2 2 Digit, lit (S ''-''), between 2 2 Digit]]]"

definition GOV_ID_NEAR_KEYWORD_RE :: rx where
  "GOV_ID_NEAR_KEYWORD_RE =
     (let licence = seqs [cilit (S ''licen''), CiCls (chars (S ''cs'')), cilit (S ''e'')];
          idc = Union A_Z (Union d0_9 (chars (S ''-'')))
      in seqs [Bound,
           alts (cilit (S ''passport''))
             [seqs [cilit (S ''driver''), opt (Cls (Range 39 39)), opt (cilit (S ''s'')), opt (Cls Space), licence],
              seqs [licence, opt (Cls Space), alts (cilit (S ''number'')) [Seq (cilit (S ''no'')) (opt (lit (S ''.'')))]],
              seqs [cilit (S ''national''), opt (Cls Space), cilit (S ''id'')],
              cilit (S ''aadhaar'')],
           Bound, Lazy 0 24 (Cls Any), Bound,
           Ahead True (Seq (Greedy 5 20 (CiCls idc)) Bound),
           star (CiCls idc), Cls Digit, star (CiCls idc), Bound])"

definition DIGIT_RUN_RE :: rx where
  "DIGIT_RUN_RE =
     seqs [Behind False (Cls Digit), between MIN_BARE_DIGIT_RUN MAX_BARE_DIGIT_RUN Digit,
           Ahead False (Cls Digit)]"

subsection \<open>The unnatural-token score\<close>

definition ALNUM_RUN_RE :: rx where
  "ALNUM_RUN_RE = at_least MIN_UNNATURAL_TOKEN_CHARS alnum"

definition UNNATURAL_SCORE_THRESHOLD :: nat where "UNNATURAL_SCORE_THRESHOLD = 3"

definition bigrams :: "str \<Rightarrow> (int \<times> int) list" where
  "bigrams word = zip word (tl word)"

text \<open>
  \<open>_build_bigram_logprobs\<close>: the counts over the common words. A bigram's logarithm is
  \<open>log10 ((count + 1) / smoothed_total)\<close>, the floor included (count 0).
\<close>

definition corpus_bigrams :: "word_data \<Rightarrow> (int \<times> int) list" where
  "corpus_bigrams D = concat (map bigrams (common_words D))"

definition smoothed_total :: "word_data \<Rightarrow> nat" where
  "smoothed_total D = length (corpus_bigrams D) + 26 * 26"

definition bigram_weight :: "word_data \<Rightarrow> int \<times> int \<Rightarrow> nat" where
  "bigram_weight D p = Suc (length (filter (\<lambda>q. q = p) (corpus_bigrams D)))"

definition token_bigrams :: "str \<Rightarrow> (int \<times> int) list" where
  "token_bigrams token =
     (let letters = map (\<lambda>c. if 97 \<le> c \<and> c \<le> 122 then c else 32) (lower token)
      in concat (map bigrams (split_ws letters)))"

text \<open>
  \<open>mean_logprob is not None and mean_logprob < -2.7\<close>: with \<open>n\<close> bigrams of weights \<open>w\<^sub>i\<close> and
  total \<open>T\<close>, the mean of the logarithms is below \<open>-27/10\<close> exactly when
  \<open>\<Prod> w\<^sub>i\<^bsup>10\<^esup> \<cdot> 10\<^bsup>27n\<^esup> < T\<^bsup>10n\<^esup>\<close>.
\<close>

definition unlikely_bigrams :: "word_data \<Rightarrow> str \<Rightarrow> bool" where
  "unlikely_bigrams D token =
     (let bs = token_bigrams token; n = length bs
      in 3 \<le> n \<and> prod_list (map (bigram_weight D) bs) ^ 10 * 10 ^ (27 * n) < smoothed_total D ^ (10 * n))"

fun transitions_from :: "bool option \<Rightarrow> str \<Rightarrow> nat" where
  "transitions_from previous [] = 0"
| "transitions_from previous (c # s) =
     (if previous \<noteq> None \<and> previous \<noteq> Some (is_digit c) then 1 else 0)
     + transitions_from (Some (is_digit c)) s"

definition transition_blocks :: "str \<Rightarrow> nat" where
  "transition_blocks token = transitions_from None token"

definition has_dictionary_segment :: "word_data \<Rightarrow> str \<Rightarrow> bool" where
  "has_dictionary_segment D token =
     (let lowered = lower token
      in list_ex (\<lambda>start. list_ex (\<lambda>n. let segment = take n (drop start lowered)
                                        in 4 \<le> length segment \<and> segment \<in> set (common_words D))
                            [4..<9])
           [0..<length lowered])"

definition char_classes :: "str \<Rightarrow> nat" where
  "char_classes run =
     length (filter (\<lambda>P. list_ex P run)
       [\<lambda>c. 97 \<le> c \<and> c \<le> 122, \<lambda>c. 65 \<le> c \<and> c \<le> 90, \<lambda>c. 48 \<le> c \<and> c \<le> 57])"

definition unnatural_score :: "word_data \<Rightarrow> str \<Rightarrow> nat" where
  "unnatural_score D run =
     (if 16 \<le> length run then 1 else 0)
     + (if 2 \<le> transition_blocks run then 1 else 0)
     + (if unlikely_bigrams D run then 1 else 0)
     + (if 3 \<le> char_classes run then 1 else 0)
     + (if \<not> has_dictionary_segment D run then 1 else 0)"

definition has_unnatural_token :: "pylib \<Rightarrow> word_data \<Rightarrow> str list \<Rightarrow> bool" where
  "has_unnatural_token L D tokens =
     list_ex (\<lambda>token. list_ex (\<lambda>m. UNNATURAL_SCORE_THRESHOLD \<le> unnatural_score D (sp_text m))
                        (rx_finditer (word_cp L) ALNUM_RUN_RE token)) tokens"

subsection \<open>The guard\<close>

definition secret_denial :: "string \<Rightarrow> guard_denial" where
  "secret_denial guard = \<lparr>gd_guard = S guard, gd_reason = REASON_SECRET\<rparr>"

definition pii_denial :: "string \<Rightarrow> guard_denial" where
  "pii_denial guard = \<lparr>gd_guard = S guard, gd_reason = REASON_PII\<rparr>"

fun first_rule :: "(bool \<times> guard_denial) list \<Rightarrow> guard_denial option" where
  "first_rule [] = None"
| "first_rule ((fires, denial) # rules) = (if fires then Some denial else first_rule rules)"

definition secret_rules :: "pylib \<Rightarrow> word_data \<Rightarrow> str \<Rightarrow> str list \<Rightarrow> (bool \<times> guard_denial) list" where
  "secret_rules L D value tokens =
     (let search = (\<lambda>re. rx_search (word_cp L) re value)
      in [(search CRED_PREFIX_RE, secret_denial ''CRED_PREFIX''),
          (search KEY_BLOCK_RE, secret_denial ''KEY_BLOCK''),
          (search JWT_RE, secret_denial ''JWT''),
          (has_seed_phrase D tokens, secret_denial ''SEED_PHRASE''),
          (search HEX64_RE \<or> search WIF_RE, secret_denial ''CRYPTO_KEY''),
          (has_credential_url L tokens, secret_denial ''CRED_URL''),
          (has_entropy_near_keyword L value, secret_denial ''ENTROPY_NEAR_KEYWORD''),
          (search PASSWORD_RE, secret_denial ''PASSWORD_KEYWORD'')])"

definition identifier_rules :: "pylib \<Rightarrow> str \<Rightarrow> (bool \<times> guard_denial) list" where
  "identifier_rules L value =
     (let search = (\<lambda>re. rx_search (word_cp L) re value)
      in [(search EMAIL_RE, pii_denial ''EMAIL''),
          (has_payment_card L value, pii_denial ''CARD''),
          (has_iban L value, pii_denial ''IBAN''),
          (has_aba_routing L value, pii_denial ''ABA''),
          (has_ssn L value, pii_denial ''SSN''),
          (has_phone L value, pii_denial ''PHONE''),
          (search OTP_NEAR_KEYWORD_RE, pii_denial ''OTP_KEYWORD''),
          (search DOB_NEAR_KEYWORD_RE, pii_denial ''DOB_KEYWORD''),
          (search GOV_ID_NEAR_KEYWORD_RE, pii_denial ''GOV_ID_KEYWORD''),
          (search DIGIT_RUN_RE, pii_denial ''DIGIT_RUN'')])"

definition find_pattern_denial ::
  "pylib \<Rightarrow> word_data \<Rightarrow> str \<Rightarrow> str list \<Rightarrow> bool \<Rightarrow> bool \<Rightarrow> guard_denial option" where
  "find_pattern_denial L D value0 tokens0 token_rules allow_identifiers =
     (case mask_public_addresses L value0 tokens0 of
        (value, tokens) \<Rightarrow>
          first_rule
            (secret_rules L D value tokens
             @ (if allow_identifiers then [] else identifier_rules L value)
             @ [(token_rules \<and> has_unnatural_token L D tokens,
                 \<lparr>gd_guard = S ''UNNATURAL_TOKEN'', gd_reason = REASON_ENCODED_BLOB\<rparr>)]))"

definition find_denial :: "pylib \<Rightarrow> word_data \<Rightarrow> bool \<Rightarrow> bool \<Rightarrow> str \<Rightarrow> guard_denial option" where
  "find_denial L D token_rules allow_identifiers value =
     (case utf8_encode value of
        None \<Rightarrow> Some \<lparr>gd_guard = S ''PRINTABLE'', gd_reason = REASON_ENCODED_BLOB\<rparr>
      | Some encoded \<Rightarrow>
          if MAX_PARAMETER_BYTES < int (length encoded)
          then Some \<lparr>gd_guard = S ''LENGTH'', gd_reason = REASON_TOO_LARGE\<rparr>
          else if has_non_text_character L value
          then Some \<lparr>gd_guard = S ''PRINTABLE'', gd_reason = REASON_ENCODED_BLOB\<rparr>
          else let tokens = split_ws value
          in if token_rules
                \<and> list_ex (\<lambda>t. MAX_UNBROKEN_TOKEN_CHARS < int (length t) \<and> \<not> is_plain_https_url L t) tokens
             then Some \<lparr>gd_guard = S ''TOKEN_RUN'', gd_reason = REASON_ENCODED_BLOB\<rparr>
             else find_pattern_denial L D value tokens token_rules allow_identifiers)"

text \<open>\<open>Inl\<close> is \<open>ParamGuardDenied\<close>.\<close>

definition guard_request_parameter_string ::
  "pylib \<Rightarrow> word_data \<Rightarrow> bool \<Rightarrow> str \<Rightarrow> guard_denial + str" where
  "guard_request_parameter_string L D allow_identifiers value =
     (case find_denial L D True allow_identifiers value of
        Some denial \<Rightarrow> Inl denial
      | None \<Rightarrow> Inr value)"

definition request_param_denial :: "pylib \<Rightarrow> word_data \<Rightarrow> bool \<Rightarrow> str \<Rightarrow> str \<Rightarrow> str option" where
  "request_param_denial L D token_rules path query =
     (let raw = S ''https://host'' @ path @ (if query \<noteq> [] then S ''?'' @ query else [])
      in case unquote_strict raw of
           None \<Rightarrow> Some (S ''request_param_encoded_blob_denied'')
         | Some decoded \<Rightarrow> map_option gd_reason (find_denial L D token_rules False decoded))"

subsection \<open>The entropy test\<close>

definition shannon_bits_per_char :: "str \<Rightarrow> real" where
  "shannon_bits_per_char token =
     (let total = real (length token)
      in - sum_list (map (\<lambda>n. (real n / total) * log 2 (real n / total)) (char_counts token)))"

lemma sum_char_counts: "sum_list (char_counts token) = length token"
proof -
  have "sum_list (char_counts token) = (\<Sum>c \<in> set token. count_list token c)"
    by (simp add: char_counts_def sum_list_distinct_conv_sum_set count_list_eq_length_filter
        eq_commute [of _ "_ :: int"])
  also have "\<dots> = length token" by (rule sum_count_set) auto
  finally show ?thesis .
qed

lemma char_counts_pos: "k \<in> set (char_counts token) \<Longrightarrow> 0 < k"
  by (auto simp: char_counts_def filter_empty_conv)

lemma log_prod_powers:
  "\<forall>k \<in> set ks. 0 < k \<Longrightarrow>
   log 2 (real (prod_list (map (\<lambda>k. k ^ (5 * k)) ks))) = sum_list (map (\<lambda>k. 5 * real k * log 2 (real k)) ks)
   \<and> 0 < prod_list (map (\<lambda>k. k ^ (5 * k)) ks)"
  by (induction ks) (simp_all add: log_mult log_nat_power)

lemma entropy_sum:
  assumes "0 < n"
  shows "(\<forall>k \<in> set ks. 0 < k) \<Longrightarrow>
    sum_list (map (\<lambda>k. (real k / real n) * log 2 (real k / real n)) ks)
    = sum_list (map (\<lambda>k. real k * log 2 (real k)) ks) / real n
      - real (sum_list ks) * log 2 (real n) / real n"
  using assms
  by (induction ks) (simp_all add: log_divide add_divide_distrib diff_divide_distrib algebra_simps)



text \<open>\<open>_mean_bigram_logprob\<close> over the reals.\<close>

definition mean_bigram_logprob :: "word_data \<Rightarrow> str \<Rightarrow> real option" where
  "mean_bigram_logprob D token =
     (let logprobs = map (\<lambda>p. log 10 (real (bigram_weight D p) / real (smoothed_total D))) (token_bigrams token)
      in if length logprobs < 3 then None else Some (sum_list logprobs / real (length logprobs)))"

lemma bigram_weight_pos: "0 < bigram_weight D p"
  by (simp add: bigram_weight_def)

lemma log_weights:
  assumes "0 < T"
  shows "sum_list (map (\<lambda>p. log 10 (real (bigram_weight D p) / real T)) ps)
     = log 10 (real (prod_list (map (bigram_weight D) ps))) - real (length ps) * log 10 (real T)
     \<and> 0 < prod_list (map (bigram_weight D) ps)"
  using assms by (induction ps) (simp_all add: log_divide log_mult bigram_weight_pos algebra_simps)

text \<open>
  The gibberish score: the integer comparison of \<open>unlikely_bigrams\<close> holds exactly when
  the token has at least three letter pairs and the mean logarithm of their smoothed
  corpus frequencies is below -2.7.
\<close>

lemma bigram_test_is_mean_logprob:
  "unlikely_bigrams D token \<longleftrightarrow> (\<exists>m. mean_bigram_logprob D token = Some m \<and> m < - 27 / 10)"
proof -
  let ?bs = "token_bigrams token" and ?T = "smoothed_total D"
  let ?n = "length ?bs" and ?p = "prod_list (map (bigram_weight D) ?bs)"
  let ?s = "sum_list (map (\<lambda>p. log 10 (real (bigram_weight D p) / real ?T)) ?bs)"
  have T: "0 < ?T" by (simp add: smoothed_total_def)
  have s: "?s = log 10 (real ?p) - real ?n * log 10 (real ?T)" and pos: "0 < ?p"
    using log_weights [OF T] by auto
  have "?s / real ?n < - 27 / 10 \<longleftrightarrow> 10 * log 10 (real ?p) + 27 * real ?n < 10 * real ?n * log 10 (real ?T)"
    if "3 \<le> ?n"
  proof -
    have "?s / real ?n < - 27 / 10 \<longleftrightarrow> ?s < - 27 / 10 * real ?n"
      using that by (intro pos_divide_less_eq) linarith
    then show ?thesis unfolding s by auto
  qed
  moreover have "10 * log 10 (real ?p) + 27 * real ?n = log 10 (real (?p ^ 10 * 10 ^ (27 * ?n)))"
    using pos by (simp add: log_mult log_nat_power)
  moreover have "10 * real ?n * log 10 (real ?T) = log 10 (real (?T ^ (10 * ?n)))"
    using T by (simp add: log_nat_power)
  moreover have "log 10 (real (?p ^ 10 * 10 ^ (27 * ?n))) < log 10 (real (?T ^ (10 * ?n)))
      \<longleftrightarrow> real (?p ^ 10 * 10 ^ (27 * ?n)) < real (?T ^ (10 * ?n))"
    using T pos by (subst log_less_cancel_iff) auto
  ultimately show ?thesis
    by (auto simp: unlikely_bigrams_def mean_bigram_logprob_def Let_def
        simp del: of_nat_mult of_nat_power)
qed

subsection \<open>What an accepted value looks like\<close>

lemma rx_search_from_here:
  "rx_run W r (l, s, []) \<noteq> [] \<Longrightarrow> rx_search_from W r l s \<noteq> None"
  by (cases s) (auto split: list.splits)

lemma rx_search_from_later:
  "rx_search_from W r (rev a @ l) s \<noteq> None \<Longrightarrow> rx_search_from W r l (a @ s) \<noteq> None"
  by (induction a arbitrary: l) (auto split: list.splits)

lemma rx_search_at: "q \<in> set (rx_run W r (rev a, b, [])) \<Longrightarrow> rx_search W r (a @ b)"
proof -
  assume "q \<in> set (rx_run W r (rev a, b, []))"
  then have "rx_run W r (rev a, b, []) \<noteq> []" by force
  then have "rx_search_from W r (rev a @ []) b \<noteq> None" using rx_search_from_here by simp
  then show "rx_search W r (a @ b)" unfolding rx_search_def by (rule rx_search_from_later)
qed

lemma iter_exact_class:
  "\<forall>c \<in> set d. P c \<Longrightarrow> iter_exact (step_if P) (length d) (l, d @ b, g) = [(rev d @ l, b, g)]"
  by (induction d arbitrary: l) auto

lemma iter_greedy_class_mem:
  "\<forall>c \<in> set d. P c \<Longrightarrow> length d \<le> n \<Longrightarrow>
   (rev d @ l, b, g) \<in> set (iter_greedy (step_if P) n (l, d @ b, g))"
proof (induction d arbitrary: l n)
  case Nil
  then show ?case by (cases n) auto
next
  case (Cons c d)
  then obtain m where n: "n = Suc m" by (cases n) auto
  with Cons.prems have "(rev d @ (c # l), b, g) \<in> set (iter_greedy (step_if P) m (c # l, d @ b, g))"
    by (intro Cons.IH) auto
  with Cons.prems n show ?case by (simp add: shorter_def)
qed

lemma rx_run_Cls: "rx_run W (Cls k) = step_if (cc_mem W k)"
  by (rule ext) simp

lemma between_mem:
  assumes "\<forall>c \<in> set d. cc_mem W k c" and "lo \<le> length d" and "length d \<le> hi"
  shows "(rev d @ l, b, g) \<in> set (rx_run W (between lo hi k) (l, d @ b, g))"
proof -
  let ?x = "take lo d" and ?y = "drop lo d"
  have "iter_exact (step_if (cc_mem W k)) lo (l, ?x @ ?y @ b, g) = [(rev ?x @ l, ?y @ b, g)]"
    using iter_exact_class [of ?x "cc_mem W k" l "?y @ b" g] assms by (auto dest: in_set_takeD)
  moreover have "(rev ?y @ rev ?x @ l, b, g)
      \<in> set (iter_greedy (step_if (cc_mem W k)) (hi - lo) (rev ?x @ l, ?y @ b, g))"
    using assms by (intro iter_greedy_class_mem) (auto dest: in_set_dropD)
  ultimately have "(rev ?y @ rev ?x @ l, b, g) \<in> set (rx_run W (between lo hi k) (l, ?x @ ?y @ b, g))"
    by (simp add: between_def rx_run_Cls)
  then show ?thesis by (metis append_assoc append_take_drop_id rev_append)
qed

lemma digit_run_search:
  assumes "\<forall>c \<in> set d. is_digit c" and "10 \<le> length d" and "length d \<le> 16"
    and "a = [] \<or> \<not> is_digit (last a)" and "b = [] \<or> \<not> is_digit (hd b)"
  shows "rx_search W DIGIT_RUN_RE (a @ d @ b)"
proof (rule rx_search_at)
  have "rx_run W (Cls Digit) (mirror_pos (rev a, d @ b, [])) = []"
    using assms(4) by (cases a rule: rev_cases) (auto simp: mirror_pos_def)
  moreover have "(rev d @ rev a, b, []) \<in> set (rx_run W (between 10 16 Digit) (rev a, d @ b, []))"
    using assms(1-3) by (intro between_mem) auto
  moreover have "rx_run W (Cls Digit) (rev d @ rev a, b, []) = []"
    using assms(5) by (cases b) auto
  ultimately show "(rev d @ rev a, b, []) \<in> set (rx_run W DIGIT_RUN_RE (rev a, d @ b, []))"
    by (simp add: DIGIT_RUN_RE_def MIN_BARE_DIGIT_RUN_def MAX_BARE_DIGIT_RUN_def del: split_paired_Ex)
qed

lemma first_rule_None: "first_rule rules = None \<longleftrightarrow> (\<forall>r \<in> set rules. \<not> fst r)"
  by (induction rules rule: first_rule.induct) auto

lemma first_rule_mem: "first_rule rules = Some d \<Longrightarrow> d \<in> snd ` set rules"
  by (induction rules rule: first_rule.induct) (auto split: if_splits)

lemma first_rule_append: "first_rule (xs @ ys) = or_else (first_rule xs) (first_rule ys)"
  by (induction xs rule: first_rule.induct) auto

lemma find_pattern_denial_unmasked:
  assumes "\<not> rx_search (word_cp L) ADDRESS_PREFILTER_RE value"
  shows "find_pattern_denial L D value tokens tr ai =
    first_rule
      (secret_rules L D value tokens @ (if ai then [] else identifier_rules L value)
       @ [(tr \<and> has_unnatural_token L D tokens,
           \<lparr>gd_guard = S ''UNNATURAL_TOKEN'', gd_reason = REASON_ENCODED_BLOB\<rparr>)])"
  using assms by (simp add: find_pattern_denial_def mask_public_addresses_def)

lemma find_denial_reason:
  "find_denial L D tr ai value = Some d \<Longrightarrow>
   gd_reason d \<in> {REASON_TOO_LARGE, REASON_ENCODED_BLOB, REASON_SECRET, REASON_PII}"
  by (auto simp: find_denial_def find_pattern_denial_def Let_def secret_rules_def identifier_rules_def
      secret_denial_def pii_denial_def
      split: option.splits if_splits prod.splits dest!: first_rule_mem)

definition bare_digit_run :: "str \<Rightarrow> bool" where
  "bare_digit_run value \<longleftrightarrow>
     (\<exists>a d b. value = a @ d @ b \<and> 10 \<le> length d \<and> length d \<le> 16 \<and> (\<forall>c \<in> set d. is_digit c)
        \<and> (a = [] \<or> \<not> is_digit (last a)) \<and> (b = [] \<or> \<not> is_digit (hd b)))"

lemma identifier_rules_digit_run:
  assumes "first_rule (secret_rules L D value tokens @ identifier_rules L value @ rest) = None"
  shows "\<not> bare_digit_run value"
proof
  assume "bare_digit_run value"
  then have "rx_search (word_cp L) DIGIT_RUN_RE value"
    using digit_run_search by (auto simp: bare_digit_run_def)
  with assms show False by (simp add: first_rule_None identifier_rules_def)
qed

lemma find_denial_None:
  "find_denial L D token_rules allow_identifiers value = None \<longleftrightarrow>
     (\<exists>encoded. utf8_encode value = Some encoded \<and> int (length encoded) \<le> MAX_PARAMETER_BYTES)
     \<and> \<not> has_non_text_character L value
     \<and> (token_rules \<longrightarrow> (\<forall>t \<in> set (split_ws value).
           int (length t) \<le> MAX_UNBROKEN_TOKEN_CHARS \<or> is_plain_https_url L t))
     \<and> find_pattern_denial L D value (split_ws value) token_rules allow_identifiers = None"
  by (force simp: find_denial_def Let_def not_less list_ex_iff Ball_def split: option.splits)


definition plain_pylib :: pylib where
  "plain_pylib = \<lparr>nfkc = (\<lambda>s. s), ip_version = (\<lambda>_. None), ip_is_global = (\<lambda>_. False),
     category_c = (\<lambda>_. False), word_cp = (\<lambda>_. False)\<rparr>"

definition no_words :: word_data where
  "no_words = \<lparr>bip39_words = [], common_words = []\<rparr>"

lemma find_denial_hello: "find_denial plain_pylib no_words True False (S ''hello tea'') = None"
  by code_simp

lemma hello_no_address: "\<not> rx_search (word_cp plain_pylib) ADDRESS_PREFILTER_RE (S ''hello tea'')"
  by code_simp


end
