(* ===== verification/GuardEnv.thy ===== *)
theory GuardEnv
  imports NetPolicy Config ParamGuard
begin

text \<open>
  What a request guard can read besides the request: the libraries outside the repository
  (the decompressor, the JSON parser, SHA-256, operator-written regular expressions), the
  word lists of the parameter guard, and the rows of the state database that the proxy role
  may select. A database read may raise, so each is a \<open>res\<close>. The guards of the small
  integrations follow: npm, Python packages and custom domains.

  A guard returns a denial code, \<open>None\<close> to allow, or raises; it is modelled as
  \<open>str option res\<close>. Python's recursion limit is not modelled.
\<close>

type_synonym headers = "(str \<times> str) list"

record proxy_env =
  lib :: pylib
  word_lists :: word_data
  zlib :: zlib_lib
  loads :: "bytes \<Rightarrow> json res"                       \<comment> \<open>\<open>json.loads\<close>\<close>
  sha256 :: "bytes \<Rightarrow> bytes"
  operator_fullmatch :: "str \<Rightarrow> str \<Rightarrow> bool"            \<comment> \<open>\<open>re.fullmatch(pattern, text)\<close>\<close>
  pin_row :: "str \<Rightarrow> (str option \<times> str option) option res"  \<comment> \<open>\<open>proxy_provider_pins\<close>: account id, token hash\<close>
  github_token :: "str option res"                   \<comment> \<open>\<open>read_proxy_github_token\<close>\<close>
  bedrock_credential :: "(str \<times> str \<times> str) option res"  \<comment> \<open>key id, secret, region\<close>

definition header_map :: "headers \<Rightarrow> (str, str) dict" where
  "header_map headers = foldl (\<lambda>d (key, v). AList.update (lower key) v d) [] headers"

definition header_values :: "headers \<Rightarrow> str \<Rightarrow> str list" where
  "header_values headers name = map snd (filter (\<lambda>(key, v). lower key = name) headers)"

definition encode_str :: "str \<Rightarrow> bytes res" where
  "encode_str s =
     (case utf8_encode s of None \<Rightarrow> Inl UnicodeError | Some bs \<Rightarrow> Inr (map of_int bs))"

definition hex_digit :: "int \<Rightarrow> int" where
  "hex_digit d = (if d < 10 then 48 + d else 87 + d)"

definition hexdigest :: "bytes \<Rightarrow> str" where
  "hexdigest b = concat (map (\<lambda>w. [hex_digit (uint w div 16), hex_digit (uint w mod 16)]) b)"

subsection \<open>Database reads\<close>

definition read_proxy_pin :: "proxy_env \<Rightarrow> str \<Rightarrow> (str \<times> str) list res" where
  "read_proxy_pin E provider =
     bind_res (pin_row E provider) (\<lambda>row.
       case row of
         None \<Rightarrow> Inr []
       | Some (account_id, token_hash) \<Rightarrow>
           Inr ((case account_id of None \<Rightarrow> [] | Some a \<Rightarrow> [(S ''account_id'', a)])
                @ (case token_hash of None \<Rightarrow> [] | Some h \<Rightarrow> [(S ''access_token_sha256'', h)])))"

definition read_proxy_openai_account_id :: "proxy_env \<Rightarrow> str option res" where
  "read_proxy_openai_account_id E =
     bind_res (read_proxy_pin E (S ''openai'')) (\<lambda>pin.
       Inr (case map_of pin (S ''account_id'') of
              Some v \<Rightarrow> (if v \<noteq> [] then Some v else None)
            | None \<Rightarrow> None))"

definition read_proxy_claude_account :: "proxy_env \<Rightarrow> (str \<times> str) list res" where
  "read_proxy_claude_account E = read_proxy_pin E (S ''claude'')"

subsection \<open>Reading a JSON request body\<close>

text \<open>
  The steps the OpenAI and Claude guards share: decode the content encoding, decide
  whether the body can be JSON, and parse it.
\<close>

datatype body_view = Undecodable | Not_json | Bad_json | Payload json

definition looks_json :: "(str, str) dict \<Rightarrow> bytes \<Rightarrow> bool" where
  "looks_json hm body =
     (let content_type = lower (strip (before1 59 (dict_get_or hm (S ''content-type'') [])));
          text = lstrip_by (\<lambda>w. is_ascii_space (uint w)) body
      in content_type = S ''application/json'' \<or> startswith text (B ''{'') \<or> startswith text (B ''[''))"

definition view_body :: "proxy_env \<Rightarrow> headers \<Rightarrow> bytes \<Rightarrow> body_view res" where
  "view_body E headers body =
     (let hm = header_map headers
      in case decode_body (zlib E) body (dict_get_or hm (S ''content-encoding'') []) of
           None \<Rightarrow> Inl NoReturn
         | Some None \<Rightarrow> Inr Undecodable
         | Some (Some decoded) \<Rightarrow>
             if \<not> looks_json hm decoded then Inr Not_json
             else (case loads E decoded of
                     Inr payload \<Rightarrow> Inr (Payload payload)
                   | Inl e \<Rightarrow> if e = UnicodeError \<or> e = JSONDecodeError then Inr Bad_json else Inl e))"

subsection \<open>Route tables\<close>

type_synonym routes = "(str \<times> str list \<times> rx list) list"

definition rx_route_allowed :: "proxy_env \<Rightarrow> str \<Rightarrow> str \<Rightarrow> str \<Rightarrow> str list \<times> rx list \<Rightarrow> bool" where
  "rx_route_allowed E method path query route =
     route_allowed (rx_fullmatch (word_cp (lib E))) method path query (fst route) (snd route)"

abbreviation guard_url :: "proxy_env \<Rightarrow> bool \<Rightarrow> str \<Rightarrow> str \<Rightarrow> str option" where
  "guard_url E \<equiv> request_param_denial (lib E) (word_lists E)"

definition dir_route :: "string \<Rightarrow> rx" where
  "dir_route prefix = seqs [Bol, lit (S prefix), opt (Seq (lit (S ''/'')) (star (Cls Any))), Eol]"

subsection \<open>npm packages\<close>

definition npm_ROUTES :: routes where
  "npm_ROUTES =
     [(S ''registry.npmjs.org'', [S ''GET'', S ''HEAD''], []),
      (S ''nodejs.org'', [S ''GET'', S ''HEAD''], [dir_route ''/dist''])]"

definition npm_host_allowed :: "str \<Rightarrow> bool" where
  "npm_host_allowed host = has_key npm_ROUTES (lower host)"

definition npm_request_denied :: "proxy_env \<Rightarrow> str \<Rightarrow> str \<Rightarrow> str \<Rightarrow> str \<Rightarrow> str option" where
  "npm_request_denied E method host path query =
     (case map_of npm_ROUTES (lower host) of
        None \<Rightarrow> Some (S ''network_policy_denied'')
      | Some route \<Rightarrow>
          if \<not> rx_route_allowed E method path query route then Some (S ''network_policy_denied'')
          else if contains path (S ''/-/'') then None
          else guard_url E True path query)"

subsection \<open>Python packages\<close>

definition python_ROUTES :: routes where
  "python_ROUTES =
     [(S ''pypi.org'', [S ''GET'', S ''HEAD''],
       [dir_route ''/simple'',
        seqs [Bol, lit (S ''/pypi/''), plus (Cls (Compl (Range 47 47))), lit (S ''/json''), Eol]]),
      (S ''files.pythonhosted.org'', [S ''GET'', S ''HEAD''], [dir_route ''/packages''])]"

definition python_host_allowed :: "str \<Rightarrow> bool" where
  "python_host_allowed host = has_key python_ROUTES (lower host)"

definition python_request_denied :: "proxy_env \<Rightarrow> str \<Rightarrow> str \<Rightarrow> str \<Rightarrow> str \<Rightarrow> str option" where
  "python_request_denied E method host path query =
     (case map_of python_ROUTES (lower host) of
        None \<Rightarrow> Some (S ''network_policy_denied'')
      | Some route \<Rightarrow>
          if \<not> rx_route_allowed E method path query route then Some (S ''network_policy_denied'')
          else if lower host = S ''files.pythonhosted.org'' then None
          else guard_url E True path query)"

subsection \<open>Custom domains\<close>

definition custom_host_allowed :: "custom_integration \<Rightarrow> str \<Rightarrow> bool" where
  "custom_host_allowed config host =
     (case rule_for_host config host of
        None \<Rightarrow> False
      | Some rule \<Rightarrow> allow_http_methods rule \<noteq> [])"

definition custom_request_denied ::
  "proxy_env \<Rightarrow> custom_integration \<Rightarrow> str \<Rightarrow> str \<Rightarrow> str \<Rightarrow> str \<Rightarrow> str option" where
  "custom_request_denied E config method host path query =
     (case rule_for_host config host of
        None \<Rightarrow> Some (S ''network_policy_denied'')
      | Some rule \<Rightarrow>
          if \<not> route_allowed (operator_fullmatch E) method path query
                 (allow_http_methods rule) (path_guards rule)
          then Some (S ''network_policy_denied'')
          else guard_url E True path query)"

end
