(* ===== verification/BedrockUsage.thy ===== *)
theory BedrockUsage
  imports GuardEnv
begin

text \<open>
  \<open>network_integrations/bedrock/usage.py\<close>: the meter that buffers one upstream response
  and reads the token usage AWS reports in it. \<open>zlib.decompress(body, wbits=47)\<close> and the
  floating-point cost estimate are arguments.
\<close>

subsection \<open>HTTP response parsing\<close>

definition STATUS_RE :: rx where
  "STATUS_RE =
     seqs [Bol, lit (S ''HTTP/1.''), Cls (chars (S ''01'')), lit (S '' ''),
           Group 1 (times_rx 3 (Cls (Range 48 57))), lit (S '' '')]"

definition status_code :: "bytes \<Rightarrow> str option" where
  "status_code head = map_option (\<lambda>m. group_of 1 (snd (snd m))) (rx_match (\<lambda>_. False) STATUS_RE (latin1 head))"

definition crlf :: bytes where "crlf = [13, 10]"

lemma length_crlf [simp]: "length crlf = 2"
  by (simp add: crlf_def)

text \<open>A status line and its headers end with a blank line, so each round drops at least four bytes.\<close>

function skip_interim_responses :: "bytes \<Rightarrow> bytes" where
  "skip_interim_responses raw =
     (case status_code raw of
        None \<Rightarrow> raw
      | Some code \<Rightarrow>
          if \<not> startswith code (S ''1'') then raw
          else (case partition_at raw (crlf @ crlf) of
                  None \<Rightarrow> raw
                | Some (_, rest) \<Rightarrow> skip_interim_responses rest))"
  by pat_completeness auto
termination
proof (relation "measure length", goal_cases)
  case (2 raw code p h rest)
  then have "raw = h @ (crlf @ crlf) @ rest" by (auto dest: partition_at_append)
  then show ?case by simp
qed simp

declare skip_interim_responses.simps [simp del]

text \<open>\<open>head.split(b"\r\n")\<close>\<close>

function split_crlf :: "bytes \<Rightarrow> bytes list" where
  "split_crlf b = (case partition_at b crlf of None \<Rightarrow> [b] | Some (h, t) \<Rightarrow> h # split_crlf t)"
  by pat_completeness auto
termination
proof (relation "measure length", goal_cases)
  case (2 b p h t)
  then have "b = h @ crlf @ t" by (auto dest: partition_at_append)
  then show ?case by simp
qed simp

declare split_crlf.simps [simp del]

definition bytes_strip :: "bytes \<Rightarrow> bytes" where
  "bytes_strip = strip_by (\<lambda>w. is_ascii_space (uint w))"

definition response_headers :: "bytes \<Rightarrow> (str, str) dict" where
  "response_headers head =
     foldl (\<lambda>d line.
              case partition1 58 line of
                None \<Rightarrow> d
              | Some (name, v) \<Rightarrow>
                  AList.update (lower (latin1 (bytes_strip name))) (lower (latin1 (bytes_strip v))) d)
       [] (tl (split_crlf head))"

text \<open>
  \<open>_dechunked\<close> walks an offset through the body. A negative chunk size moves the offset
  backwards, so the loop may not end: the function is partial. \<open>slice\<close> is Python's, for
  the bounds that occur: the start is a length, the end may be negative.
\<close>

definition slice :: "int \<Rightarrow> int \<Rightarrow> 'a list \<Rightarrow> 'a list" where
  "slice i j xs =
     (let n = int (length xs); e = (if j < 0 then max 0 (n + j) else min j n)
      in take (nat (e - i)) (drop (nat i) xs))"

definition find_crlf :: "bytes \<Rightarrow> int \<Rightarrow> int option" where
  "find_crlf body off =
     (let start = (if off < 0 then max 0 (int (length body) + off) else off)
      in if int (length body) < start then None
         else map_option (\<lambda>(h, _). start + int (length h)) (partition_at (drop (nat start) body) crlf))"

definition chunk_size :: "bytes \<Rightarrow> int option" where
  "chunk_size line =
     (let text = bytes_strip (case partition1 59 line of Some (h, _) \<Rightarrow> h | None \<Rightarrow> line)
      in bytes_int16 (if text = [] then B ''0'' else text))"

text \<open>The slice up to the line end starts at the offset as Python reads it, negative or not.\<close>

definition slice_from :: "int \<Rightarrow> int \<Rightarrow> 'a list \<Rightarrow> 'a list" where
  "slice_from i j xs = slice (if i < 0 then max 0 (int (length xs) + i) else i) j xs"

partial_function (option) dechunk_loop :: "bytes \<Rightarrow> int \<Rightarrow> bytes \<Rightarrow> bytes option option" where
  "dechunk_loop body offset decoded =
     (case find_crlf body offset of
        None \<Rightarrow> Some None
      | Some line_end \<Rightarrow>
          (case chunk_size (slice_from offset line_end body) of
             None \<Rightarrow> Some None
           | Some n \<Rightarrow>
               if n = 0 then Some (Some decoded)
               else let chunk_start = line_end + 2
               in if int (length body) < chunk_start + n then Some None
                  else dechunk_loop body (chunk_start + n + 2)
                         (decoded @ slice chunk_start (chunk_start + n) body)))"

definition dechunked :: "bytes \<Rightarrow> bytes option option" where
  "dechunked body = dechunk_loop body 0 []"

definition decoded_body :: "(bytes \<Rightarrow> bytes option) \<Rightarrow> (str, str) dict \<Rightarrow> bytes \<Rightarrow> bytes option option" where
  "decoded_body decompress47 headers body0 =
     (case (if contains (dict_get_or headers (S ''transfer-encoding'') []) (S ''chunked'')
            then dechunked body0 else Some (Some body0)) of
        None \<Rightarrow> None
      | Some None \<Rightarrow> Some None
      | Some (Some body) \<Rightarrow>
          let encoding = dict_get_or headers (S ''content-encoding'') []
          in if encoding = [] \<or> encoding = S ''identity'' then Some (Some body)
             else if encoding = S ''gzip'' \<or> encoding = S ''deflate'' then Some (decompress47 body)
             else Some None)"

subsection \<open>Event streams\<close>

definition fixed_header_length :: "8 word \<Rightarrow> nat option" where
  "fixed_header_length ty =
     map_of [(0, 0), (1, 0), (2, 1), (3, 2), (4, 4), (5, 8), (8, 8), (9, 16)] ty"

definition utf8_bytes :: "bytes \<Rightarrow> str option" where
  "utf8_bytes b = utf8_strict (map uint b)"

text \<open>
  \<open>_event_headers\<close>: the loop consumes the block from the front. A name or value may be cut
  short by the end of the block; the offset then runs past it, which the test at the end of
  the round refuses.
\<close>

function event_headers :: "bytes \<Rightarrow> (str, str) dict \<Rightarrow> (str, str) dict option" where
  "event_headers raw headers =
     (case raw of
        [] \<Rightarrow> Some headers
      | name_length # r1 \<Rightarrow>
          let name = take (unat name_length) r1; r2 = drop (unat name_length) r1
          in if length r1 \<le> unat name_length then None
             else (let value_type = hd r2; r3 = tl r2
                   in if value_type = 6 \<or> value_type = 7
                      then if length r3 < 2 then None
                           else let value_length = be_int (take 2 r3); r4 = drop 2 r3;
                                    v = take value_length r4
                                in if value_type = 7
                                   then (case (utf8_bytes name, utf8_bytes v) of
                                           (Some n, Some t) \<Rightarrow>
                                             (if length r4 < value_length then None
                                              else event_headers (drop value_length r4) (AList.update n t headers))
                                         | _ \<Rightarrow> None)
                                   else if length r4 < value_length then None
                                   else event_headers (drop value_length r4) headers
                      else (case fixed_header_length value_type of
                              None \<Rightarrow> None
                            | Some n \<Rightarrow>
                                if length r3 < n then None else event_headers (drop n r3) headers)))"
  by pat_completeness auto
termination by (relation "measure (\<lambda>(raw, _). length raw)") auto

declare event_headers.simps [simp del]

text \<open>\<open>json.loads\<close> under \<open>except (UnicodeDecodeError, JSONDecodeError)\<close>.\<close>

definition loads_object :: "(bytes \<Rightarrow> json res) \<Rightarrow> bytes \<Rightarrow> (str \<times> json) list option res" where
  "loads_object parse_json b =
     (case parse_json b of
        Inr v \<Rightarrow> Inr (jobj v)
      | Inl e \<Rightarrow> if e = UnicodeError \<or> e = JSONDecodeError then Inr None else Inl e)"

function metadata_event_payload :: "(bytes \<Rightarrow> json res) \<Rightarrow> bytes \<Rightarrow> (str \<times> json) list option res" where
  "metadata_event_payload parse_json body =
     (if length body < 12 then Inr None
      else let total_length = be_int (take 4 body); headers_length = be_int (take 4 (drop 4 body))
      in if total_length < 16 \<or> total_length - 16 < headers_length \<or> length body < total_length then Inr None
         else case event_headers (take headers_length (drop 12 body)) [] of
           None \<Rightarrow> Inr None
         | Some headers \<Rightarrow>
             if map_of headers (S '':event-type'') = Some (S ''metadata'')
             then loads_object parse_json
                    (take (total_length - 4 - (12 + headers_length)) (drop (12 + headers_length) body))
             else metadata_event_payload parse_json (drop total_length body))"
  by pat_completeness auto
termination by (relation "measure (\<lambda>(_, body). length body)") auto

declare metadata_event_payload.simps [simp del]

subsection \<open>Usage counters\<close>

record usage_counters =
  input_tokens :: int
  output_tokens :: int
  cache_read_tokens :: int
  cache_write_tokens :: int

definition counter :: "(str \<times> json) list \<Rightarrow> string \<Rightarrow> bool \<Rightarrow> int option" where
  "counter usage field required =
     (case map_of usage (S field) of
        None \<Rightarrow> (if required then None else Some 0)
      | Some (JInt n) \<Rightarrow> (if n < 0 then None else Some n)
      | Some _ \<Rightarrow> None)"

definition usage_counters :: "(str \<times> json) list \<Rightarrow> usage_counters option" where
  "usage_counters v =
     (case jget v (S ''usage'') of
        JObj usage \<Rightarrow>
          (case (counter usage ''inputTokens'' True, counter usage ''outputTokens'' True,
                 counter usage ''cacheReadInputTokens'' False, counter usage ''cacheWriteInputTokens'' False) of
             (Some i, Some out, Some r, Some w) \<Rightarrow>
               Some \<lparr>input_tokens = i, output_tokens = out, cache_read_tokens = r, cache_write_tokens = w\<rparr>
           | _ \<Rightarrow> None)
      | _ \<Rightarrow> None)"

definition parse_usage ::
  "(bytes \<Rightarrow> json res) \<Rightarrow> (bytes \<Rightarrow> bytes option) \<Rightarrow> bytes \<Rightarrow> usage_counters option res" where
  "parse_usage parse_json decompress47 raw0 =
     (case partition_at (skip_interim_responses raw0) (crlf @ crlf) of
        None \<Rightarrow> Inr None
      | Some (head, body) \<Rightarrow>
          if status_code head \<noteq> Some (S ''200'') then Inr None
          else let headers = response_headers head
          in case decoded_body decompress47 headers body of
               None \<Rightarrow> Inl NoReturn
             | Some None \<Rightarrow> Inr None
             | Some (Some decoded) \<Rightarrow>
                 bind_res
                   (if contains (dict_get_or headers (S ''content-type'') []) (S ''vnd.amazon.eventstream'')
                    then metadata_event_payload parse_json decoded else loads_object parse_json decoded)
                   (\<lambda>payload. Inr (Option.bind payload usage_counters)))"

subsection \<open>The meter\<close>

definition MAX_METERED_RESPONSE_BYTES :: int where
  "MAX_METERED_RESPONSE_BYTES = 32 * 1024 * 1024"

record response_meter =
  rm_model_id :: str
  rm_buffer :: bytes
  rm_overflowed :: bool
  rm_finished :: bool

definition new_meter :: "str \<Rightarrow> response_meter" where
  "new_meter model_id = \<lparr>rm_model_id = model_id, rm_buffer = [], rm_overflowed = False, rm_finished = False\<rparr>"

definition meter_feed :: "response_meter \<Rightarrow> bytes \<Rightarrow> response_meter" where
  "meter_feed m data =
     (if rm_overflowed m then m
      else if MAX_METERED_RESPONSE_BYTES < int (length (rm_buffer m)) + int (length data)
      then m\<lparr>rm_overflowed := True, rm_buffer := []\<rparr>
      else m\<lparr>rm_buffer := rm_buffer m @ data\<rparr>)"

text \<open>The row handed to \<open>record_bedrock_usage\<close>: the priced model, the counters and the cost.\<close>

definition meter_finish ::
  "(bytes \<Rightarrow> json res) \<Rightarrow> (bytes \<Rightarrow> bytes option) \<Rightarrow> (str \<Rightarrow> usage_counters \<Rightarrow> 'cost option) \<Rightarrow> 'cost \<Rightarrow>
   response_meter \<Rightarrow> response_meter \<times> (str \<times> usage_counters option \<times> 'cost) option res" where
  "meter_finish parse_json decompress47 estimate_cost zero m =
     (if rm_finished m then (m, Inr None)
      else (m\<lparr>rm_finished := True, rm_buffer := []\<rparr>,
            bind_res (if rm_overflowed m then Inr None else parse_usage parse_json decompress47 (rm_buffer m)) (\<lambda>usage.
              let cost = (case usage of
                            None \<Rightarrow> zero
                          | Some u \<Rightarrow> (case estimate_cost (rm_model_id m) u of Some c \<Rightarrow> c | None \<Rightarrow> zero))
              in Inr (Some (catalog_model_id (rm_model_id m), usage, cost)))))"

subsection \<open>Feeding the meter\<close>

lemma meter_feed_bound:
  "int (length (rm_buffer m)) \<le> MAX_METERED_RESPONSE_BYTES \<Longrightarrow>
   int (length (rm_buffer (meter_feed m data))) \<le> MAX_METERED_RESPONSE_BYTES"
  by (simp add: meter_feed_def MAX_METERED_RESPONSE_BYTES_def)

lemma meter_feeds:
  assumes "\<not> rm_overflowed m"
  shows "foldl meter_feed m chunks =
    (if int (length (rm_buffer m)) + int (length (concat chunks)) \<le> MAX_METERED_RESPONSE_BYTES
     then m\<lparr>rm_buffer := rm_buffer m @ concat chunks\<rparr>
     else if chunks = [] then m
     else m\<lparr>rm_overflowed := True, rm_buffer := []\<rparr>)"
  using assms
proof (induction chunks arbitrary: m)
  case (Cons c cs)
  have over: "foldl meter_feed n cs = n" if "rm_overflowed n" for n
    using that by (induction cs) (auto simp: meter_feed_def)
  show ?case
  proof (cases "MAX_METERED_RESPONSE_BYTES < int (length (rm_buffer m)) + int (length c)")
    case True
    with Cons.prems have "meter_feed m c = m\<lparr>rm_overflowed := True, rm_buffer := []\<rparr>"
      by (simp add: meter_feed_def)
    with True show ?thesis by (simp add: over)
  next
    case False
    with Cons.prems have "meter_feed m c = m\<lparr>rm_buffer := rm_buffer m @ c\<rparr>"
      by (simp add: meter_feed_def)
    with Cons.IH [of "m\<lparr>rm_buffer := rm_buffer m @ c\<rparr>"] Cons.prems False show ?thesis
      by (auto simp: algebra_simps)
  qed
qed simp

subsection \<open>A chunk size below zero\<close>

lemma dechunk_loop_stuck:
  assumes "dechunk_loop body off acc = Some r"
  shows "(body, off, acc) \<noteq> (B ''-6'' @ crlf, 0, [])"
proof (rule dechunk_loop.raw_induct [OF _ assms, where P = "\<lambda>body off acc _. (body, off, acc) \<noteq> (B ''-6'' @ crlf, 0, [])"])
  fix f and body :: bytes and off :: int and acc :: bytes and r
  assume ih: "\<And>body off acc r. f body off acc = Some r \<Longrightarrow> (body, off, acc) \<noteq> (B ''-6'' @ crlf, 0, [])"
    and step: "(case find_crlf body off of
        None \<Rightarrow> Some None
      | Some line_end \<Rightarrow>
          (case chunk_size (slice_from off line_end body) of
             None \<Rightarrow> Some None
           | Some n \<Rightarrow>
               if n = 0 then Some (Some acc)
               else let chunk_start = line_end + 2
               in if int (length body) < chunk_start + n then Some None
                  else f body (chunk_start + n + 2)
                         (acc @ slice chunk_start (chunk_start + n) body))) = Some r"
  show "(body, off, acc) \<noteq> (B ''-6'' @ crlf, 0, [])"
  proof
    assume "(body, off, acc) = (B ''-6'' @ crlf, 0, [])"
    moreover have "find_crlf (B ''-6'' @ crlf) 0 = Some 2" by code_simp
    moreover have "chunk_size (slice_from 0 2 (B ''-6'' @ crlf)) = Some (- 6)" by code_simp
    moreover have "slice 4 (- 2) (B ''-6'' @ crlf) = []" by code_simp
    ultimately have "f (B ''-6'' @ crlf) 0 [] = Some r" using step by simp
    from ih [OF this] show False by simp
  qed
qed

text \<open>
  C40. The response meter's de-chunking loop does not check the sign of a chunk size: on the
  four-byte body \<open>-6 CR LF\<close> every round moves the offset back to the start, and the loop
  never ends.
\<close>

theorem dechunked_negative_size_hangs:
  "dechunked (B ''-6'' @ crlf) = None"
  using dechunk_loop_stuck by (cases "dechunked (B ''-6'' @ crlf)") (auto simp: dechunked_def)

end
