(* ===== verification/WebSocket.thy ===== *)
theory WebSocket
  imports GuardEnv
begin

text \<open>
  The WebSocket part of \<open>network_proxy/service.py\<close>: \<open>WebSocketClientGuard\<close>, which cuts the
  client's byte stream into frames and messages and releases a message only when the policy
  allows it, and the relay loop \<open>tunnel_websocket\<close> around it.
\<close>

definition MAX_BODY_BYTES :: int where
  "MAX_BODY_BYTES = 128 * 1024 * 1024"

abbreviation ws_uninspectable :: str where
  "ws_uninspectable \<equiv> S ''websocket_uninspectable''"

record ws_frame =
  wf_raw :: bytes
  wf_fin :: bool
  wf_opcode :: "8 word"
  wf_payload :: bytes

datatype next_result = Incomplete | Uninspectable | Frame ws_frame bytes

text \<open>The length of the payload and the offset of the mask: \<open>None\<close> when more bytes are needed.\<close>

definition frame_length :: "bytes \<Rightarrow> 8 word \<Rightarrow> (nat \<times> nat) option" where
  "frame_length buffer b1 =
     (let n = unat (and b1 0x7F)
      in if n = 126 then (if length buffer < 4 then None else Some (be_int (take 2 (drop 2 buffer)), 4))
         else if n = 127 then (if length buffer < 10 then None else Some (be_int (take 8 (drop 2 buffer)), 10))
         else Some (n, 2))"

definition unmask :: "bytes \<Rightarrow> bytes \<Rightarrow> bytes" where
  "unmask key data = map (\<lambda>(i, b). xor b (key ! (i mod 4))) (enumerate 0 data)"

definition next_frame :: "bytes \<Rightarrow> next_result" where
  "next_frame buffer =
     (case buffer of
        b0 # b1 # _ \<Rightarrow>
          if and b0 0x70 \<noteq> 0 then Uninspectable
          else if and b1 0x80 = 0 then Uninspectable
          else (case frame_length buffer b1 of
                  None \<Rightarrow> Incomplete
                | Some (n, offset) \<Rightarrow>
                    if MAX_BODY_BYTES < int n then Uninspectable
                    else let total = offset + 4 + n
                    in if length buffer < total then Incomplete
                       else let raw = take total buffer
                       in Frame \<lparr>wf_raw = raw, wf_fin = (and b0 0x80 \<noteq> 0), wf_opcode = and b0 0x0F,
                                 wf_payload = unmask (take 4 (drop offset raw)) (drop (offset + 4) raw)\<rparr>
                            (drop total buffer))
      | _ \<Rightarrow> Incomplete)"

record ws_guard =
  ws_buffer :: bytes
  ws_message :: bytes
  ws_frames :: "bytes list"
  ws_fragmented :: bool

definition new_ws_guard :: ws_guard where
  "new_ws_guard = \<lparr>ws_buffer = [], ws_message = [], ws_frames = [], ws_fragmented = False\<rparr>"

datatype ws_outcome = Cleared bytes | Ws_denied str | Ws_raised exn

text \<open>What one frame does to the guard: the new state and the bytes it releases.\<close>

definition take_frame ::
  "(bytes \<Rightarrow> str option res) \<Rightarrow> ws_guard \<Rightarrow> ws_frame \<Rightarrow> ws_guard \<times> ws_outcome" where
  "take_frame message_denied g f =
     (if wf_opcode f \<in> {0x8, 0x9, 0xA} then (g, Cleared (wf_raw f))
      else if wf_opcode f \<notin> {0x0, 0x1, 0x2} \<or> (wf_opcode f = 0x0) \<noteq> ws_fragmented g
      then (g, Ws_denied ws_uninspectable)
      else let message = ws_message g @ wf_payload f
      in if MAX_BODY_BYTES < int (length message) then (g\<lparr>ws_message := message\<rparr>, Ws_denied ws_uninspectable)
         else let g' = g\<lparr>ws_message := message, ws_frames := ws_frames g @ [wf_raw f], ws_fragmented := \<not> wf_fin f\<rparr>
         in if \<not> wf_fin f then (g', Cleared [])
            else case message_denied message of
                   Inl e \<Rightarrow> (g', Ws_raised e)
                 | Inr (Some denial) \<Rightarrow> (g', Ws_denied denial)
                 | Inr None \<Rightarrow> (g'\<lparr>ws_frames := [], ws_message := []\<rparr>, Cleared (concat (ws_frames g'))))"

lemma next_frame_shorter:
  "next_frame buffer = Frame f rest \<Longrightarrow> length rest < length buffer"
  by (auto simp: next_frame_def Let_def split: list.splits if_splits option.splits)

function feed_loop ::
  "(bytes \<Rightarrow> str option res) \<Rightarrow> ws_guard \<Rightarrow> bytes \<Rightarrow> bytes \<Rightarrow> ws_guard \<times> ws_outcome" where
  "feed_loop message_denied g buffer cleared =
     (case next_frame buffer of
        Incomplete \<Rightarrow> (g\<lparr>ws_buffer := buffer\<rparr>, Cleared cleared)
      | Uninspectable \<Rightarrow> (g\<lparr>ws_buffer := buffer\<rparr>, Ws_denied ws_uninspectable)
      | Frame f rest \<Rightarrow>
          (case take_frame message_denied g f of
             (g', Cleared released) \<Rightarrow> feed_loop message_denied g' rest (cleared @ released)
           | (g', stop) \<Rightarrow> (g'\<lparr>ws_buffer := rest\<rparr>, stop)))"
  by pat_completeness auto
termination
  by (relation "measure (\<lambda>(_, _, buffer, _). length buffer)") (auto dest: next_frame_shorter)

declare feed_loop.simps [simp del]

definition feed :: "(bytes \<Rightarrow> str option res) \<Rightarrow> ws_guard \<Rightarrow> bytes \<Rightarrow> ws_guard \<times> ws_outcome" where
  "feed message_denied g data = feed_loop message_denied g (ws_buffer g @ data) []"

subsection \<open>Frames do not depend on how the stream was cut\<close>

lemma frame_length_append:
  "frame_length buffer b1 = Some r \<Longrightarrow> frame_length (buffer @ more_bytes) b1 = Some r"
  by (auto simp: frame_length_def Let_def split: if_splits)

lemma next_frame_at:
  "frame_length (b0 # b1 # r) b1 = Some (n, off) \<Longrightarrow>
   next_frame (b0 # b1 # r) =
     (if and b0 0x70 \<noteq> 0 then Uninspectable else if and b1 0x80 = 0 then Uninspectable
      else if MAX_BODY_BYTES < int n then Uninspectable
      else if length (b0 # b1 # r) < off + 4 + n then Incomplete
      else let raw = take (off + 4 + n) (b0 # b1 # r)
           in Frame \<lparr>wf_raw = raw, wf_fin = (and b0 0x80 \<noteq> 0), wf_opcode = and b0 0x0F,
                     wf_payload = unmask (take 4 (drop off raw)) (drop (off + 4) raw)\<rparr>
                (drop (off + 4 + n) (b0 # b1 # r)))"
  by (simp add: next_frame_def Let_def)

lemma next_frame_append:
  assumes "next_frame buffer \<noteq> Incomplete"
  shows "next_frame (buffer @ more_bytes) =
    (case next_frame buffer of Frame f rest \<Rightarrow> Frame f (rest @ more_bytes) | r \<Rightarrow> r)"
proof -
  obtain b0 b1 r where b: "buffer = b0 # b1 # r"
    using assms by (auto simp: next_frame_def split: list.splits)
  show ?thesis
  proof (cases "frame_length buffer b1")
    case None
    with assms show ?thesis by (auto simp: next_frame_def b split: if_splits)
  next
    case (Some p)
    obtain n off where l: "frame_length (b0 # b1 # r) b1 = Some (n, off)"
      using Some b by (cases p) auto
    then have "frame_length (b0 # b1 # r @ more_bytes) b1 = Some (n, off)"
      using frame_length_append [of "b0 # b1 # r"] by simp
    from next_frame_at [OF this] next_frame_at [OF l] assms show ?thesis
      using take_append [of "off + 4 + n" "b0 # b1 # r" more_bytes]
        drop_append [of "off + 4 + n" "b0 # b1 # r" more_bytes]
      by (simp add: b Let_def split: if_splits)
  qed
qed

lemma feed_loop_cleared_prefix:
  "feed_loop md g buffer (pre @ cleared) =
     (case feed_loop md g buffer cleared of
        (g', Cleared out) \<Rightarrow> (g', Cleared (pre @ out))
      | r \<Rightarrow> r)"
proof (induction md g buffer cleared arbitrary: pre rule: feed_loop.induct)
  case (1 md g buffer cleared)
  show ?case
  proof (cases "next_frame buffer")
    case (Frame f rest)
    show ?thesis
    proof (cases "take_frame md g f")
      case (Pair g' stop)
      with 1 [OF Frame Pair [symmetric]] Frame Pair show ?thesis
        by (cases stop) (simp_all add: feed_loop.simps [of md g buffer])
    qed
  qed (simp_all add: feed_loop.simps [of md g buffer])
qed

lemma take_frame_buffer:
  "take_frame md (g\<lparr>ws_buffer := b\<rparr>) f = (case take_frame md g f of (g', r) \<Rightarrow> (g'\<lparr>ws_buffer := b\<rparr>, r))"
  by (auto simp: take_frame_def Let_def split: sum.splits option.splits)

lemma feed_loop_buffer_irrelevant:
  "feed_loop md (g\<lparr>ws_buffer := b\<rparr>) buffer cleared = feed_loop md g buffer cleared"
proof (induction md g buffer cleared rule: feed_loop.induct)
  case (1 md g buffer cleared)
  show ?case
  proof (cases "next_frame buffer")
    case (Frame f rest)
    show ?thesis
    proof (cases "take_frame md g f")
      case (Pair g' stop)
      with 1 [OF Frame Pair [symmetric]] Frame Pair show ?thesis
        by (cases stop) (simp_all add: feed_loop.simps [of md _ buffer] take_frame_buffer)
    qed
  qed (simp_all add: feed_loop.simps [of md _ buffer])
qed

lemma feed_loop_append:
  "feed_loop md g (buffer @ more_bytes) cleared =
     (case feed_loop md g buffer cleared of
        (g', Cleared out) \<Rightarrow> feed_loop md g' (ws_buffer g' @ more_bytes) out
      | (g', stop) \<Rightarrow> (g'\<lparr>ws_buffer := ws_buffer g' @ more_bytes\<rparr>, stop))"
proof (induction md g buffer cleared rule: feed_loop.induct)
  case (1 md g buffer cleared)
  show ?case
  proof (cases "next_frame buffer")
    case Incomplete
    then show ?thesis by (simp add: feed_loop.simps [of md g buffer] feed_loop_buffer_irrelevant)
  next
    case Uninspectable
    then show ?thesis
      by (simp add: feed_loop.simps [of md g buffer] feed_loop.simps [of md g "buffer @ more_bytes"] next_frame_append)
  next
    case (Frame f rest)
    show ?thesis
    proof (cases "take_frame md g f")
      case (Pair g' stop)
      with 1 [OF Frame Pair [symmetric]] Frame Pair show ?thesis
        by (cases stop)
          (simp_all add: feed_loop.simps [of md g buffer] feed_loop.simps [of md g "buffer @ more_bytes"]
            next_frame_append)
    qed
  qed
qed

definition then_feed ::
  "(bytes \<Rightarrow> str option res) \<Rightarrow> ws_guard \<times> ws_outcome \<Rightarrow> bytes \<Rightarrow> ws_outcome" where
  "then_feed md r data =
     (case r of
        (g, Cleared out) \<Rightarrow>
          (case feed md g data of (_, Cleared out2) \<Rightarrow> Cleared (out @ out2) | (_, stop) \<Rightarrow> stop)
      | (_, stop) \<Rightarrow> stop)"


subsection \<open>The relay\<close>

definition websocket_close_frame :: "int \<Rightarrow> bytes \<Rightarrow> bytes" where
  "websocket_close_frame status_code reason =
     (let payload = [of_int (status_code div 256), of_int (status_code mod 256)] @ take 120 reason
      in [0x88, of_int (int (length payload))] @ payload)"

datatype tunnel_event = From_client bytes | From_upstream bytes | Idle_or_error

record tunnel =
  tn_guard :: "ws_guard option"
  tn_upstream :: bytes            \<comment> \<open>sent upstream\<close>
  tn_client :: bytes              \<comment> \<open>sent to the client\<close>
  tn_denied :: "str option"       \<comment> \<open>the logged denial\<close>
  tn_open :: bool

definition tunnel_deny :: "tunnel \<Rightarrow> str \<Rightarrow> tunnel" where
  "tunnel_deny t code =
     t\<lparr>tn_denied := Some code, tn_open := False,
       tn_client := tn_client t @ websocket_close_frame 1008 (case encode_str code of Inr b \<Rightarrow> b | Inl _ \<Rightarrow> [])\<rparr>"

definition client_bytes :: "(bytes \<Rightarrow> str option res) \<Rightarrow> tunnel \<Rightarrow> bytes \<Rightarrow> tunnel" where
  "client_bytes message_denied t data =
     (case tn_guard t of
        None \<Rightarrow> t\<lparr>tn_upstream := tn_upstream t @ data\<rparr>
      | Some g \<Rightarrow>
          (case feed message_denied g data of
             (g', Cleared cleared) \<Rightarrow> t\<lparr>tn_guard := Some g', tn_upstream := tn_upstream t @ cleared\<rparr>
           | (g', Ws_denied code) \<Rightarrow> tunnel_deny (t\<lparr>tn_guard := Some g'\<rparr>) code
           | (g', Ws_raised e) \<Rightarrow> t\<lparr>tn_guard := Some g', tn_open := False\<rparr>))"

fun tunnel_step :: "(bytes \<Rightarrow> str option res) \<Rightarrow> tunnel \<Rightarrow> tunnel_event \<Rightarrow> tunnel" where
  "tunnel_step md t event =
     (if \<not> tn_open t then t
      else case event of
             Idle_or_error \<Rightarrow> t\<lparr>tn_open := False\<rparr>
           | From_client data \<Rightarrow> (if data = [] then t\<lparr>tn_open := False\<rparr> else client_bytes md t data)
           | From_upstream data \<Rightarrow>
               (if data = [] then t\<lparr>tn_open := False\<rparr> else t\<lparr>tn_client := tn_client t @ data\<rparr>))"

definition tunnel_websocket ::
  "(bytes \<Rightarrow> str option res) option \<Rightarrow> bytes \<Rightarrow> tunnel_event list \<Rightarrow> tunnel" where
  "tunnel_websocket message_guard initial_client_bytes events =
     (let t0 = \<lparr>tn_guard = (if message_guard = None then None else Some new_ws_guard), tn_upstream = [],
                tn_client = [], tn_denied = None, tn_open = True\<rparr>;
          md = (case message_guard of Some f \<Rightarrow> f | None \<Rightarrow> (\<lambda>_. Inr None));
          t1 = (if initial_client_bytes = [] then t0 else client_bytes md t0 initial_client_bytes)
      in foldl (tunnel_step md) t1 events)"

subsection \<open>Only whole, allowed messages are released\<close>

text \<open>
  The messages a stream of frames carries, control frames apart: the first argument is the
  message begun so far. \<open>None\<close> is a stream that ends inside a message or breaks the rules
  of fragmentation.
\<close>

fun whole_messages :: "bytes option \<Rightarrow> ws_frame list \<Rightarrow> bytes list option" where
  "whole_messages None [] = Some []"
| "whole_messages (Some m) [] = None"
| "whole_messages cur (f # fs) =
     (if wf_opcode f \<in> {0x8, 0x9, 0xA} then whole_messages cur fs
      else if wf_opcode f \<notin> {0x0, 0x1, 0x2} \<or> (wf_opcode f = 0x0) \<noteq> (cur \<noteq> None) then None
      else let m = (case cur of Some m \<Rightarrow> m | None \<Rightarrow> []) @ wf_payload f
           in if wf_fin f then map_option (Cons m) (whole_messages None fs)
              else whole_messages (Some m) fs)"

definition forwardable :: "(bytes \<Rightarrow> str option res) \<Rightarrow> bytes \<Rightarrow> bool" where
  "forwardable md c \<longleftrightarrow>
     (\<exists>fs ms. c = concat (map wf_raw fs) \<and> (\<forall>f \<in> set fs. next_frame (wf_raw f) = Frame f [])
        \<and> whole_messages None fs = Some ms \<and> (\<forall>m \<in> set ms. md m = Inr None))"

lemma frame_length_take:
  assumes "frame_length buffer b1 = Some (n, off)" and "off + 4 \<le> k" and "k \<le> length buffer"
  shows "frame_length (take k buffer) b1 = Some (n, off)"
  using assms by (auto simp: frame_length_def Let_def min_def drop_take split: if_splits)

lemma next_frame_raw:
  assumes "next_frame buffer = Frame f rest"
  shows "buffer = wf_raw f @ rest" and "next_frame (wf_raw f) = Frame f []"
proof -
  obtain b0 b1 r where b: "buffer = b0 # b1 # r"
    using assms by (auto simp: next_frame_def split: list.splits)
  obtain n off where l: "frame_length buffer b1 = Some (n, off)"
    using assms by (auto simp: next_frame_def b split: if_splits option.splits)
  let ?k = "off + 4 + n"
  have k: "?k \<le> length buffer" and f: "wf_raw f = take ?k buffer" and r: "rest = drop ?k buffer"
    using assms l by (auto simp: next_frame_def b Let_def split: if_splits)
  show "buffer = wf_raw f @ rest" by (simp add: f r)
  obtain r' where t: "take ?k buffer = b0 # b1 # r'"
    by (simp add: b take_Cons' split: if_splits)
  have "frame_length (b0 # b1 # r') b1 = Some (n, off)"
    using frame_length_take [OF l _ k] by (simp add: t)
  from next_frame_at [OF this] next_frame_at [OF l [unfolded b]] assms k t show "next_frame (wf_raw f) = Frame f []"
    by (auto simp: b f Let_def min_absorb2 dest: arg_cong [of _ _ length] split: if_splits)
qed

text \<open>The frames of an unfinished message: it began with a data frame, and none is final.\<close>

definition open_message :: "ws_frame list \<Rightarrow> bool" where
  "open_message ps \<longleftrightarrow>
     (\<forall>f \<in> set ps. \<not> wf_fin f \<and> next_frame (wf_raw f) = Frame f [])
     \<and> (\<forall>f \<in> set (tl ps). wf_opcode f = 0)
     \<and> (ps \<noteq> [] \<longrightarrow> wf_opcode (hd ps) \<in> {0x1, 0x2})"

definition guard_holds :: "ws_guard \<Rightarrow> ws_frame list \<Rightarrow> bool" where
  "guard_holds g ps \<longleftrightarrow>
     open_message ps \<and> ws_frames g = map wf_raw ps \<and> ws_message g = concat (map wf_payload ps)
     \<and> ws_fragmented g = (ps \<noteq> [])"

lemma whole_messages_append:
  "whole_messages cur fs = Some ms \<Longrightarrow>
   whole_messages cur (fs @ gs) = map_option ((@) ms) (whole_messages None gs)"
proof (induction cur fs arbitrary: ms rule: whole_messages.induct)
  case (1 ms)
  then show ?case by (cases "whole_messages None gs") auto
next
  case (3 cur f fs)
  then show ?case
    by (cases "whole_messages None gs") (auto simp: Let_def split: if_splits)
qed simp

lemma whole_messages_open:
  "\<forall>f \<in> set ps. \<not> wf_fin f \<and> wf_opcode f = 0 \<Longrightarrow>
   whole_messages (Some m) (ps @ gs) = whole_messages (Some (m @ concat (map wf_payload ps))) gs"
  by (induction ps arbitrary: m) (simp_all add: Let_def)

lemma whole_messages_close:
  assumes "open_message ps" and "wf_fin f" and "wf_opcode f \<in> {0x0, 0x1, 0x2}"
    and "(wf_opcode f = 0x0) = (ps \<noteq> [])"
  shows "whole_messages None (ps @ [f]) = Some [concat (map wf_payload ps) @ wf_payload f]"
proof (cases ps)
  case Nil
  with assms show ?thesis by (auto simp: Let_def)
next
  case (Cons p qs)
  with assms have "whole_messages None (ps @ [f]) = whole_messages (Some (wf_payload p)) (qs @ [f])"
    by (auto simp: open_message_def Let_def)
  also have "\<dots> = whole_messages (Some (wf_payload p @ concat (map wf_payload qs))) [f]"
    using assms(1) Cons by (intro whole_messages_open) (auto simp: open_message_def)
  finally show ?thesis using assms Cons by (simp add: Let_def)
qed

lemma forwardable_append:
  assumes "forwardable md a" and "forwardable md b"
  shows "forwardable md (a @ b)"
proof -
  from assms obtain fs ms gs ns where
    "a = concat (map wf_raw fs)" "\<forall>f \<in> set fs. next_frame (wf_raw f) = Frame f []"
    "whole_messages None fs = Some ms" "\<forall>m \<in> set ms. md m = Inr None"
    "b = concat (map wf_raw gs)" "\<forall>f \<in> set gs. next_frame (wf_raw f) = Frame f []"
    "whole_messages None gs = Some ns" "\<forall>m \<in> set ns. md m = Inr None"
    by (auto simp: forwardable_def)
  then show ?thesis unfolding forwardable_def
    by (intro exI [of _ "fs @ gs"] exI [of _ "ms @ ns"]) (auto simp: whole_messages_append)
qed

lemma forwardable_Nil [simp]: "forwardable md []"
  unfolding forwardable_def by (intro exI [of _ "[]"]) simp

lemma take_frame_holds:
  assumes "guard_holds g ps" and "next_frame (wf_raw f) = Frame f []"
    and "take_frame md g f = (g', Cleared out)"
  shows "forwardable md out \<and> (\<exists>ps'. guard_holds g' ps')"
proof (cases "wf_opcode f \<in> {0x8, 0x9, 0xA}")
  case True
  with assms have "out = wf_raw f" "g' = g" by (auto simp: take_frame_def)
  moreover have "forwardable md (wf_raw f)"
    using True assms(2) by (auto simp: forwardable_def intro!: exI [of _ "[f]"])
  ultimately show ?thesis using assms(1) by blast
next
  case False
  with assms(1,3) have op: "wf_opcode f \<in> {0x0, 0x1, 0x2}" "(wf_opcode f = 0x0) = (ps \<noteq> [])"
    by (auto simp: take_frame_def guard_holds_def split: if_splits)
  show ?thesis
  proof (cases "wf_fin f")
    case True
    have out: "out = concat (map wf_raw (ps @ [f]))"
      and ok: "md (concat (map wf_payload ps) @ wf_payload f) = Inr None"
      and g': "guard_holds g' []"
      using assms(1,3) False op True
      by (auto simp: take_frame_def guard_holds_def open_message_def Let_def
          split: if_splits sum.splits option.splits)
    have "whole_messages None (ps @ [f]) = Some [concat (map wf_payload ps) @ wf_payload f]"
      using whole_messages_close assms(1) True op by (simp add: guard_holds_def)
    with out ok assms(1,2) have "forwardable md out"
      unfolding forwardable_def
      by (intro exI [of _ "ps @ [f]"]) (auto simp: guard_holds_def open_message_def)
    with g' show ?thesis by blast
  next
    case nf: False
    have "out = []" and "guard_holds g' (ps @ [f])"
      using assms False op nf
      by (cases ps; auto simp: take_frame_def guard_holds_def open_message_def Let_def split: if_splits)+
    then show ?thesis by auto
  qed
qed

lemma feed_loop_holds:
  "feed_loop md g buffer cleared = (g', Cleared out) \<Longrightarrow> guard_holds g ps \<Longrightarrow> forwardable md cleared \<Longrightarrow>
   forwardable md out \<and> (\<exists>ps'. guard_holds g' ps')"
proof (induction md g buffer cleared arbitrary: ps rule: feed_loop.induct)
  case (1 md g buffer cleared)
  show ?case
  proof (cases "next_frame buffer")
    case Incomplete
    with 1(2-4) show ?thesis
      by (auto simp: feed_loop.simps [of md g buffer] guard_holds_def intro!: exI [of _ ps])
  next
    case Uninspectable
    with 1(2) show ?thesis by (simp add: feed_loop.simps [of md g buffer])
  next
    case (Frame f rest)
    obtain g1 stop where t: "take_frame md g f = (g1, stop)" by force
    with 1(2) Frame obtain released where s: "stop = Cleared released"
      by (cases stop) (auto simp: feed_loop.simps [of md g buffer])
    from take_frame_holds [OF 1(3) next_frame_raw(2) [OF Frame]] t s
    obtain ps' where "forwardable md released" "guard_holds g1 ps'" by blast
    with 1(1) [OF Frame t [symmetric] s, of ps'] 1(2,4) Frame t s forwardable_append show ?thesis
      by (simp add: feed_loop.simps [of md g buffer])
  qed
qed

definition tunnel_safe :: "(bytes \<Rightarrow> str option res) \<Rightarrow> tunnel \<Rightarrow> bool" where
  "tunnel_safe md t \<longleftrightarrow>
     forwardable md (tn_upstream t)
     \<and> (tn_open t \<longrightarrow> (\<exists>g ps. tn_guard t = Some g \<and> guard_holds g ps))"

lemma client_bytes_safe:
  assumes "tunnel_safe md t" and "tn_open t"
  shows "tunnel_safe md (client_bytes md t data)"
proof -
  from assms obtain g ps where g: "tn_guard t = Some g" "guard_holds g ps"
    by (auto simp: tunnel_safe_def)
  obtain g' stop where f: "feed md g data = (g', stop)" by force
  show ?thesis
  proof (cases stop)
    case (Cleared out)
    with f have "feed_loop md g (ws_buffer g @ data) [] = (g', Cleared out)" by (simp add: feed_def)
    with g(2) obtain ps' where "forwardable md out" "guard_holds g' ps'"
      using feed_loop_holds forwardable_Nil by blast
    with assms g f Cleared show ?thesis
      by (auto simp: tunnel_safe_def client_bytes_def forwardable_append)
  qed (use assms g f in \<open>auto simp: tunnel_safe_def client_bytes_def tunnel_deny_def\<close>)
qed

lemma tunnel_step_safe: "tunnel_safe md t \<Longrightarrow> tunnel_safe md (tunnel_step md t event)"
  using client_bytes_safe [of md t]
  by (cases event) (auto simp: tunnel_safe_def)

declare tunnel_step.simps [simp del]

lemma tunnel_steps_safe: "tunnel_safe md t \<Longrightarrow> tunnel_safe md (foldl (tunnel_step md) t events)"
  by (induction events arbitrary: t) (auto intro: tunnel_step_safe)

text \<open>
  C8. Whatever the client and the upstream send, and however the client's bytes are cut,
  everything an inspected WebSocket tunnel sends upstream is a sequence of well-formed
  frames whose messages are complete and were each allowed by the policy.
\<close>

theorem tunnel_forwards_allowed:
  "forwardable md (tn_upstream (tunnel_websocket (Some md) initial events))"
proof -
  let ?t0 = "\<lparr>tn_guard = Some new_ws_guard, tn_upstream = [], tn_client = [], tn_denied = None, tn_open = True\<rparr>"
  have "tunnel_safe md ?t0"
    by (auto simp: tunnel_safe_def guard_holds_def open_message_def new_ws_guard_def intro!: exI [of _ "[]"])
  then have "tunnel_safe md (if initial = [] then ?t0 else client_bytes md ?t0 initial)"
    using client_bytes_safe [of md ?t0] by simp
  from tunnel_steps_safe [OF this, of events] show ?thesis
    by (simp add: tunnel_safe_def tunnel_websocket_def Let_def)
qed

subsection \<open>Well-formed frames are read back\<close>

fun be_bytes :: "nat \<Rightarrow> nat \<Rightarrow> bytes" where
  "be_bytes 0 n = []"
| "be_bytes (Suc k) n = be_bytes k (n div 256) @ [of_nat (n mod 256)]"

lemma length_be_bytes [simp]: "length (be_bytes k n) = k"
  by (induction k arbitrary: n) auto

lemma be_int_be_bytes: "n < 256 ^ k \<Longrightarrow> be_int (be_bytes k n) = n"
proof (induction k arbitrary: n)
  case (Suc k)
  then have "n div 256 < 256 ^ k" by (simp add: div_less_iff_less_mult mult.commute)
  then have "be_int (be_bytes k (n div 256)) = n div 256" by (rule Suc.IH)
  then show ?case by (simp add: be_int_def unat_of_nat)
qed (simp add: be_int_def)

text \<open>A client frame of RFC 6455: masked, without extension bits, in the shortest length form.\<close>

definition length_header :: "nat \<Rightarrow> bytes" where
  "length_header n =
     (if n < 126 then [or 0x80 (of_nat n)]
      else if n < 65536 then or 0x80 126 # be_bytes 2 n
      else or 0x80 127 # be_bytes 8 n)"

definition client_frame :: "bool \<Rightarrow> 8 word \<Rightarrow> bytes \<Rightarrow> bytes \<Rightarrow> bytes" where
  "client_frame fin opcode key payload =
     or (if fin then 0x80 else 0) opcode # length_header (length payload) @ key @ unmask key payload"

lemma length_unmask [simp]: "length (unmask key data) = length data"
  by (simp add: unmask_def)

lemma unmask_unmask: "unmask key (unmask key data) = data"
  by (rule nth_equalityI) (simp_all add: unmask_def nth_enumerate_eq xor.assoc)

lemma take_length_append: "take (length xs) (xs @ ys) = xs"
  by simp

lemma drop_length_append: "drop (length xs) (xs @ ys) = ys"
  by simp

lemma length_bits:
  assumes "n < 128"
  shows "and (or 0x80 (of_nat n)) 0x80 \<noteq> (0 :: 8 word)" and "unat (and (or 0x80 (of_nat n)) (0x7F :: 8 word)) = n"
proof -
  have "\<forall>k \<in> set [0..<128]. and (or 0x80 (of_nat k)) 0x80 \<noteq> (0 :: 8 word)
      \<and> unat (and (or 0x80 (of_nat k)) (0x7F :: 8 word)) = k"
    by code_simp
  with assms show "and (or 0x80 (of_nat n)) 0x80 \<noteq> (0 :: 8 word)"
    and "unat (and (or 0x80 (of_nat n)) (0x7F :: 8 word)) = n"
    by (auto simp: atLeastLessThan_iff)
qed

lemma frame_length_header:
  assumes "n < 2 ^ 64"
  shows "\<exists>b1 h off. length_header n = b1 # h \<and> and b1 0x80 \<noteq> 0 \<and> off = 2 + length h
    \<and> (\<forall>b0 r. frame_length (b0 # b1 # h @ r) b1 = Some (n, off))"
proof -
  consider "n < 126" | "126 \<le> n" "n < 65536" | "65536 \<le> n" by linarith
  then show ?thesis
  proof cases
    case 1
    with length_bits [of n] show ?thesis by (simp add: length_header_def frame_length_def)
  next
    case 2
    then have "be_int (be_bytes 2 n) = n" by (intro be_int_be_bytes) simp
    with 2 length_bits [of 126] show ?thesis by (simp add: length_header_def frame_length_def)
  next
    case 3
    have "be_int (be_bytes 8 n) = n" using assms by (intro be_int_be_bytes) simp
    with 3 length_bits [of 127] show ?thesis by (simp add: length_header_def frame_length_def)
  qed
qed

lemma first_byte_bits:
  assumes "opcode \<in> {0x0, 0x1, 0x2, 0x8, 0x9, 0xA :: 8 word}"
  shows "and (or (if fin then 0x80 else 0) opcode) 0x70 = 0"
    and "(and (or (if fin then 0x80 else 0) opcode) 0x80 \<noteq> 0) = fin"
    and "and (or (if fin then 0x80 else 0) opcode) 0x0F = opcode"
  using assms by (cases fin; auto)+

text \<open>
  C31. Every masked client frame without extension bits whose payload is at most 128 MiB is
  read back as it was sent, whatever follows it: the frame reader neither refuses nor
  alters well-formed traffic, for all three encodings of the length.
\<close>

theorem next_frame_client_frame:
  assumes "length key = 4" and "int (length payload) \<le> MAX_BODY_BYTES"
    and "opcode \<in> {0x0, 0x1, 0x2, 0x8, 0x9, 0xA}"
  shows "next_frame (client_frame fin opcode key payload @ rest) =
    Frame \<lparr>wf_raw = client_frame fin opcode key payload, wf_fin = fin, wf_opcode = opcode,
           wf_payload = payload\<rparr> rest"
proof -
  let ?n = "length payload" and ?b0 = "or (if fin then 0x80 else 0) opcode"
  have "?n < 2 ^ 64" using assms(2) by (simp add: MAX_BODY_BYTES_def)
  then obtain b1 h off where h: "length_header ?n = b1 # h" "and b1 0x80 \<noteq> 0" "off = 2 + length h"
    and l: "\<And>r. frame_length (?b0 # b1 # h @ r) b1 = Some (?n, off)"
    using frame_length_header [of ?n] by blast
  have c: "client_frame fin opcode key payload = ?b0 # b1 # h @ key @ unmask key payload"
    by (simp add: client_frame_def h)
  let ?X = "(?b0 # b1 # h) @ key @ unmask key payload"
  have lx: "off + 4 + ?n = length ?X" and t: "take 4 (drop off ?X) = key"
    using h(3) assms(1) by simp_all
  have "off + 4 = length ((?b0 # b1 # h) @ key)" using h(3) assms(1) by simp
  then have d: "drop (off + 4) ?X = unmask key payload"
    by (metis append_assoc append_eq_conv_conj)
  have "next_frame (?X @ rest) =
      (let raw = take (length ?X) (?X @ rest)
       in Frame \<lparr>wf_raw = raw, wf_fin = fin, wf_opcode = opcode,
                 wf_payload = unmask (take 4 (drop off raw)) (drop (off + 4) raw)\<rparr>
            (drop (length ?X) (?X @ rest)))"
    using next_frame_at [OF l, of "key @ unmask key payload @ rest", unfolded lx] h(2) assms(2)
      first_byte_bits [OF assms(3), of fin]
    by (simp add: not_less)
  also have "\<dots> = Frame \<lparr>wf_raw = ?X, wf_fin = fin, wf_opcode = opcode, wf_payload = payload\<rparr> rest"
    by (simp only: take_length_append drop_length_append Let_def t d unmask_unmask)
  finally show ?thesis by (simp add: c)
qed

theorem next_frame_client_frame_witness:
  "next_frame (client_frame True 0x1 [1, 2, 3, 4] (B ''hello'') @ [0]) =
     Frame \<lparr>wf_raw = client_frame True 0x1 [1, 2, 3, 4] (B ''hello''), wf_fin = True, wf_opcode = 0x1,
            wf_payload = B ''hello''\<rparr> [0]"
  by (rule next_frame_client_frame) (simp_all add: MAX_BODY_BYTES_def)

end
