(* ===== verification/ProxyHttp.thy ===== *)
theory ProxyHttp
  imports BedrockUsage WebSocket
begin

text \<open>
  The HTTP/1.1 reading and writing of \<open>network_proxy/service.py\<close>: \<open>SocketReader\<close>, the request
  head, the body with its two framings, the forwarded request, and the Host header check.
  A socket is the list of what its successive \<open>recv\<close> calls return, the end of the list
  being the end of the stream; an empty chunk also ends the stream.
\<close>

datatype recv_event = Data bytes | Recv_error

record reader =
  rd_buffer :: bytes
  rd_input :: "recv_event list"

definition MAX_HEADER_BYTES :: int where
  "MAX_HEADER_BYTES = 64 * 1024"

fun event_size :: "recv_event \<Rightarrow> nat" where
  "event_size (Data b) = length b"
| "event_size Recv_error = 0"

text \<open>The bytes still to be consumed.\<close>

definition rd_size :: "reader \<Rightarrow> nat" where
  "rd_size r = length (rd_buffer r) + sum_list (map event_size (rd_input r))"

subsection \<open>\<open>SocketReader\<close>\<close>

fun readline_from :: "int \<Rightarrow> bytes \<Rightarrow> recv_event list \<Rightarrow> (bytes \<times> reader) res" where
  "readline_from limit buffer input =
     (case partition1 10 buffer of
        Some (line, rest) \<Rightarrow> Inr (line @ [10], \<lparr>rd_buffer = rest, rd_input = input\<rparr>)
      | None \<Rightarrow>
          if limit < int (length buffer) then Inl (OSError (S ''header line too long''))
          else (case input of
                  [] \<Rightarrow> Inr (buffer, \<lparr>rd_buffer = [], rd_input = []\<rparr>)
                | Recv_error # _ \<Rightarrow> Inl (OSError (S ''recv''))
                | Data chunk # input' \<Rightarrow>
                    if chunk = [] then Inr (buffer, \<lparr>rd_buffer = [], rd_input = input'\<rparr>)
                    else readline_from limit (buffer @ chunk) input'))"

declare readline_from.simps [simp del]

definition readline :: "reader \<Rightarrow> (bytes \<times> reader) res" where
  "readline r = readline_from MAX_HEADER_BYTES (rd_buffer r) (rd_input r)"

text \<open>\<open>data[:amount]\<close> and \<open>data[amount:]\<close>, where a negative amount counts from the end.\<close>

definition slice_at :: "int \<Rightarrow> bytes \<Rightarrow> bytes \<times> bytes" where
  "slice_at amount b =
     (let k = (if amount < 0 then nat (max 0 (int (length b) + amount)) else nat amount)
      in (take k b, drop k b))"

fun read_from :: "int \<Rightarrow> bytes \<Rightarrow> recv_event list \<Rightarrow> (bytes \<times> reader) res" where
  "read_from amount buffer input =
     (if amount \<le> int (length buffer) \<or> input = [] \<or> hd input = Data []
      then (let rest = (if amount \<le> int (length buffer) then input else tl input)
            in case slice_at amount buffer of (data, b) \<Rightarrow> Inr (data, \<lparr>rd_buffer = b, rd_input = rest\<rparr>))
      else (case input of
              Data chunk # input' \<Rightarrow> read_from amount (buffer @ chunk) input'
            | _ \<Rightarrow> Inl (OSError (S ''recv''))))"

declare read_from.simps [simp del]

definition read_bytes :: "reader \<Rightarrow> int \<Rightarrow> (bytes \<times> reader) res" where
  "read_bytes r amount = read_from amount (rd_buffer r) (rd_input r)"

definition drain :: "reader \<Rightarrow> bytes \<times> reader" where
  "drain r = (rd_buffer r, r\<lparr>rd_buffer := []\<rparr>)"

lemma readline_from_size:
  "readline_from limit buffer input = Inr (line, r) \<Longrightarrow>
   rd_size r + length line \<le> length buffer + sum_list (map event_size input)"
proof (induction limit buffer input rule: readline_from.induct)
  case (1 limit buffer input)
  show ?case
  proof (cases "partition1 10 buffer")
    case None
    with 1 show ?thesis
      by (auto simp: readline_from.simps [of limit buffer input] rd_size_def
          split: if_splits list.splits recv_event.splits)
  next
    case (Some p)
    obtain h t where p: "p = (h, t)" by force
    with Some 1(2) have "line = h @ [10]" "rd_buffer r = t" "rd_input r = input"
      by (auto simp: readline_from.simps [of limit buffer input])
    moreover have "buffer = h @ 10 # t" using Some p by (simp add: partition1_Some)
    ultimately show ?thesis by (simp add: rd_size_def)
  qed
qed

lemma readline_size: "readline r = Inr (line, r') \<Longrightarrow> rd_size r' + length line \<le> rd_size r"
  using readline_from_size [of _ "rd_buffer r" "rd_input r"] by (simp add: readline_def rd_size_def)

lemma slice_at_length: "slice_at amount b = (x, y) \<Longrightarrow> length x + length y = length b"
  by (auto simp: slice_at_def Let_def)

lemma read_from_size:
  "read_from amount buffer input = Inr (data, r) \<Longrightarrow>
   rd_size r + length data \<le> length buffer + sum_list (map event_size input)"
proof (induction amount buffer input rule: read_from.induct)
  case (1 amount buffer input)
  show ?case
  proof (cases "amount \<le> int (length buffer) \<or> input = [] \<or> hd input = Data []")
    case True
    obtain x y where "slice_at amount buffer = (x, y)" by force
    moreover from this True 1(2) have "data = x" "rd_buffer r = y"
        "rd_input r = (if amount \<le> int (length buffer) then input else tl input)"
      by (auto simp: read_from.simps [of amount buffer input])
    ultimately show ?thesis using slice_at_length [of amount buffer x y]
      by (cases input) (auto simp: rd_size_def)
  next
    case False
    with 1(2) obtain chunk input' where i: "input = Data chunk # input'"
      and r: "read_from amount (buffer @ chunk) input' = Inr (data, r)"
      by (auto simp: read_from.simps [of amount buffer input] split: list.splits recv_event.splits)
    from 1(1) [OF False i refl r] show ?thesis by (simp add: i)
  qed
qed

lemma read_bytes_size: "read_bytes r n = Inr (data, r') \<Longrightarrow> rd_size r' + length data \<le> rd_size r"
  using read_from_size [of n "rd_buffer r" "rd_input r"] by (simp add: read_bytes_def rd_size_def)

subsection \<open>The request head\<close>

definition is_blank_line :: "bytes \<Rightarrow> bool" where
  "is_blank_line line \<longleftrightarrow> line = [13, 10] \<or> line = [10] \<or> line = []"

definition header_of_line :: "bytes \<Rightarrow> (str \<times> str) list" where
  "header_of_line line =
     (case partition1 58 (latin1 line) of
        Some (key, v) \<Rightarrow> [(strip key, strip v)]
      | None \<Rightarrow> [])"

function read_headers :: "reader \<Rightarrow> int \<Rightarrow> headers \<Rightarrow> (headers \<times> reader) res" where
  "read_headers r seen headers =
     bind_res (readline r) (\<lambda>(line, r').
       if MAX_HEADER_BYTES < seen + int (length line) then Inl (OSError (S ''request headers too large''))
       else if is_blank_line line then Inr (headers, r')
       else read_headers r' (seen + int (length line)) (headers @ header_of_line line))"
  by pat_completeness auto
termination
  by (relation "measure (\<lambda>(r, _, _). rd_size r)")
     (auto simp: is_blank_line_def simp flip: length_greater_0_conv dest!: readline_size)

declare read_headers.simps [simp del]

text \<open>\<open>text.split(" ", 2)\<close> with its three parts.\<close>

definition split_request_line :: "str \<Rightarrow> (str \<times> str \<times> str) option" where
  "split_request_line text =
     (case partition1 32 text of
        None \<Rightarrow> None
      | Some (method, rest) \<Rightarrow>
          (case partition1 32 rest of None \<Rightarrow> None | Some (target, version) \<Rightarrow> Some (method, target, version)))"

definition read_request_head :: "reader \<Rightarrow> ((str \<times> str \<times> headers) \<times> reader) res" where
  "read_request_head r =
     bind_res (readline r) (\<lambda>(line, r1).
       if bytes_strip line = [] then Inl (OSError (S ''connection closed before request line''))
       else case split_request_line (strip (latin1 line)) of
              None \<Rightarrow> Inl (OSError (S ''malformed request line''))
            | Some (method, target, version) \<Rightarrow>
                if method = [] \<or> target = [] \<or> \<not> startswith version (S ''HTTP/'')
                then Inl (OSError (S ''malformed request line''))
                else bind_res (read_headers r1 (int (length line)) []) (\<lambda>(headers, r2).
                       Inr ((upper method, target, headers), r2)))"

subsection \<open>The body\<close>

function skip_trailers :: "reader \<Rightarrow> reader res" where
  "skip_trailers r =
     bind_res (readline r) (\<lambda>(line, r'). if is_blank_line line then Inr r' else skip_trailers r')"
  by pat_completeness auto
termination
  by (relation "measure rd_size") (auto simp: is_blank_line_def simp flip: length_greater_0_conv dest!: readline_size)

declare skip_trailers.simps [simp del]

text \<open>The result of reading a body: the bytes and the denial code.\<close>

type_synonym body_result = "(bytes \<times> str option) \<times> reader"

lemma chunk_size_Nil: "chunk_size [] = Some 0"
  by code_simp

function read_chunks :: "reader \<Rightarrow> bytes \<Rightarrow> body_result res" where
  "read_chunks r body =
     bind_res (readline r) (\<lambda>(size_line, r1).
       case chunk_size size_line of
         None \<Rightarrow> Inr (([], Some (S ''request_body_malformed'')), r1)
       | Some n \<Rightarrow>
           if n = 0 then bind_res (skip_trailers r1) (\<lambda>r2. Inr ((body, None), r2))
           else if MAX_BODY_BYTES < int (length body) + n
           then Inr (([], Some (S ''request_body_too_large'')), r1)
           else bind_res (read_bytes r1 n) (\<lambda>(data, r2).
                bind_res (read_bytes r2 2) (\<lambda>(_, r3). read_chunks r3 (body @ data))))"
  by pat_completeness auto
termination
proof (relation "measure (\<lambda>(r, _). rd_size r)", goal_cases)
  case (2 r body a line r1 n b data r2 c x r3)
  then have "rd_size r1 + length line \<le> rd_size r" "rd_size r2 \<le> rd_size r1" "rd_size r3 \<le> rd_size r2"
    by (auto dest: readline_size read_bytes_size)
  moreover have "line \<noteq> []" using 2 chunk_size_Nil by auto
  ultimately show ?case by (cases line) auto
qed simp

declare read_chunks.simps [simp del]

definition read_chunked_body :: "reader \<Rightarrow> body_result res" where
  "read_chunked_body r = read_chunks r []"

definition read_body :: "reader \<Rightarrow> headers \<Rightarrow> body_result res" where
  "read_body r headers =
     (let hm = header_map headers; raw_length = dict_get_or hm (S ''content-length'') []
      in if contains (lower (dict_get_or hm (S ''transfer-encoding'') [])) (S ''chunked'')
         then read_chunked_body r
         else case py_int (if raw_length = [] then S ''0'' else raw_length) of
           None \<Rightarrow> Inr (([], Some (S ''request_body_malformed'')), r)
         | Some n \<Rightarrow>
             if n < 0 then Inr (([], Some (S ''request_body_malformed'')), r)
             else if MAX_BODY_BYTES < n then Inr (([], Some (S ''request_body_too_large'')), r)
             else bind_res (read_bytes r n) (\<lambda>(data, r'). Inr ((data, None), r')))"

subsection \<open>The forwarded request\<close>

definition encode_ascii :: "str \<Rightarrow> bytes res" where
  "encode_ascii s = (if list_all (\<lambda>c. 0 \<le> c \<and> c < 128) s then Inr (map of_int s) else Inl UnicodeError)"

definition encode_latin1 :: "str \<Rightarrow> bytes res" where
  "encode_latin1 s = (if list_all (\<lambda>c. 0 \<le> c \<and> c < 256) s then Inr (map of_int s) else Inl UnicodeError)"

abbreviation crlf_str :: str where "crlf_str \<equiv> [13, 10]"

definition is_body_header :: "str \<Rightarrow> bool" where
  "is_body_header key \<longleftrightarrow> lower key \<in> {S ''content-length'', S ''transfer-encoding''}"

definition is_dropped_header :: "bool \<Rightarrow> str \<Rightarrow> bool" where
  "is_dropped_header websocket key \<longleftrightarrow>
     is_body_header key \<or> lower key \<in> {S ''proxy-connection'', S ''proxy-authorization'', S ''sec-websocket-extensions''}
     \<or> (lower key = S ''connection'' \<and> \<not> websocket)"

definition forwarded_headers :: "bool \<Rightarrow> headers \<Rightarrow> headers" where
  "forwarded_headers websocket headers = filter (\<lambda>(key, _). \<not> is_dropped_header websocket key) headers"

text \<open>
  The pieces handed to \<open>sendall\<close> in order: what was sent, and the exception that stopped
  the sending, if one did.
\<close>

fun send_pieces :: "bytes res list \<Rightarrow> bytes \<times> exn option" where
  "send_pieces [] = ([], None)"
| "send_pieces (Inl e # _) = ([], Some e)"
| "send_pieces (Inr b # ps) = (case send_pieces ps of (bs, e) \<Rightarrow> (b @ bs, e))"

definition send_http_request :: "str \<Rightarrow> str \<Rightarrow> headers \<Rightarrow> bytes \<Rightarrow> bool \<Rightarrow> bytes \<times> exn option" where
  "send_http_request method target headers body websocket =
     send_pieces
       ([encode_ascii (method @ S '' '' @ target @ S '' HTTP/1.1'' @ crlf_str)]
        @ map (\<lambda>(key, v). encode_latin1 (key @ S '': '' @ v @ crlf_str)) (forwarded_headers websocket headers)
        @ (if body \<noteq> [] \<or> list_ex (\<lambda>(key, _). is_body_header key) headers
           then [encode_ascii (S ''Content-Length: '' @ str_of_int (int (length body)) @ crlf_str)] else [])
        @ (if \<not> websocket then [Inr (B ''Connection: close'' @ crlf)] else [])
        @ [Inr crlf]
        @ (if body \<noteq> [] then [Inr body] else []))"

subsection \<open>Authorities\<close>

text \<open>\<open>authority.rsplit(":", 1)\<close>; \<open>None\<close> is the ValueError of \<open>int(port)\<close>.\<close>

definition split_host_port :: "str \<Rightarrow> int \<Rightarrow> (str \<times> int) option" where
  "split_host_port authority default_port =
     (case partition1 58 (rev authority) of
        None \<Rightarrow> Some (authority, default_port)
      | Some (port, host) \<Rightarrow> map_option (\<lambda>p. (rev host, p)) (py_int (rev port)))"

definition host_header_denial :: "headers \<Rightarrow> str \<Rightarrow> int \<Rightarrow> str option" where
  "host_header_denial headers expected_host expected_port =
     (case header_values headers (S ''host'') of
        [presented] \<Rightarrow>
          (case split_host_port presented expected_port of
             None \<Rightarrow> Some (S ''host_header_invalid'')
           | Some (host, port) \<Rightarrow>
               if lower host \<noteq> lower expected_host \<or> port \<noteq> expected_port
               then Some (S ''host_header_invalid'') else None)
      | _ \<Rightarrow> Some (S ''host_header_invalid''))"

end
