(* ===== verification/OpenAIGuard.thy ===== *)
theory OpenAIGuard
  imports GuardEnv
begin

text \<open>
  \<open>network_integrations/openai/guard.py\<close>: the account pin, and the rule that a request may
  only declare cache-backed web search. The same body rule decides WebSocket messages.
\<close>

definition OPENAI_SEARCH_PATHS :: "str list" where
  "OPENAI_SEARCH_PATHS = [S ''/backend-api/codex/alpha/search'', S ''/v1/alpha/search'']"

definition DENIED_HOSTED_TOOL_TYPES :: "str list" where
  "DENIED_HOSTED_TOOL_TYPES =
     [S ''browser'', S ''computer_use'', S ''computer_use_preview'', S ''code_interpreter'']"

definition openai_ROUTES :: routes where
  "openai_ROUTES =
     [(S ''api.openai.com'', [S ''POST''], []),
      (S ''auth.openai.com'', [S ''GET'', S ''POST''], []),
      (S ''chatgpt.com'', [S ''GET'', S ''POST''], [])]"

definition openai_GUARDED_HOSTS :: "str list" where
  "openai_GUARDED_HOSTS = [S ''api.openai.com'', S ''chatgpt.com'']"

definition openai_host_allowed :: "str \<Rightarrow> bool" where
  "openai_host_allowed host = has_key openai_ROUTES (lower host)"

abbreviation mcp_denied :: str where "mcp_denied \<equiv> S ''openai_remote_mcp_denied''"
abbreviation web_tool_denied :: str where "web_tool_denied \<equiv> S ''openai_web_tool_denied''"

definition web_access_key :: "str \<Rightarrow> bool" where
  "web_access_key key = endswith key (S ''_web_access'')"

definition is_guarded_tool :: "(str \<times> json) list \<Rightarrow> bool" where
  "is_guarded_tool node =
     (case jget node (S ''type'') of
        JStr ty \<Rightarrow>
          ty \<noteq> S ''web_search_call'' \<and>
          (ty = S ''mcp'' \<or> startswith ty (S ''web'') \<or> ty \<in> set DENIED_HOSTED_TOOL_TYPES
           \<or> list_ex (\<lambda>(key, v). web_access_key key \<and> \<not> false_or_none v) node)
      | _ \<Rightarrow> False)"

text \<open>\<open>walk\<close> visits a node before its values, in order.\<close>

definition iter_tool_objects :: "json \<Rightarrow> (str \<times> json) list list" where
  "iter_tool_objects payload = filter is_guarded_tool (List.map_filter jobj (subvalues payload))"

definition tool_object_violation :: "(str \<times> json) list \<Rightarrow> str option" where
  "tool_object_violation tool =
     (let ty = jget tool (S ''type'')
      in if ty = JStr (S ''mcp'') then Some mcp_denied
         else if ty \<noteq> JStr (S ''web_search'') then Some web_tool_denied
         else if jget tool (S ''external_web_access'') \<noteq> JBool False then Some web_tool_denied
         else if \<not> false_or_none (jget tool (S ''indexed_web_access'')) then Some web_tool_denied
         else if list_ex (\<lambda>(key, v). web_access_key key
                    \<and> key \<notin> {S ''external_web_access'', S ''indexed_web_access''}
                    \<and> \<not> false_or_none v) tool
         then Some web_tool_denied
         else None)"

fun contains_key :: "str \<Rightarrow> json \<Rightarrow> bool" where
  "contains_key key (JObj kvs) = (has_key kvs key \<or> list_ex (\<lambda>kv. contains_key key (snd kv)) kvs)"
| "contains_key key (JList items) = list_ex (contains_key key) items"
| "contains_key key _ = False"

fun first_denial :: "('a \<Rightarrow> str option) \<Rightarrow> 'a list \<Rightarrow> str option" where
  "first_denial f [] = None"
| "first_denial f (x # xs) = or_else (f x) (first_denial f xs)"

definition external_url_request_violation :: "json \<Rightarrow> str option" where
  "external_url_request_violation payload =
     (case first_denial tool_object_violation (iter_tool_objects payload) of
        Some denial \<Rightarrow> Some denial
      | None \<Rightarrow>
          if contains_key (S ''server_url'') payload then Some mcp_denied
          else if contains_key (S ''web_search_options'') payload then Some web_tool_denied
          else (case payload of
                  JObj kvs \<Rightarrow>
                    (case jget kvs (S ''model'') of
                       JStr m \<Rightarrow> (if contains m (S ''-search'') then Some web_tool_denied else None)
                     | _ \<Rightarrow> None)
                | _ \<Rightarrow> None))"

definition search_settings_denial :: "json \<Rightarrow> str option" where
  "search_settings_denial payload =
     (let settings = (case payload of
                        JObj kvs \<Rightarrow> (case jget kvs (S ''settings'') of JObj s \<Rightarrow> s | _ \<Rightarrow> [])
                      | _ \<Rightarrow> [])
      in if jget settings (S ''external_web_access'') \<noteq> JBool False then Some web_tool_denied
         else if \<not> false_or_none (jget settings (S ''indexed_web_access'')) then Some web_tool_denied
         else None)"

definition is_search_path :: "str \<Rightarrow> bool" where
  "is_search_path path = (rstrip_by (\<lambda>c. c = 47) (normalized_path path) \<in> set OPENAI_SEARCH_PATHS)"

text \<open>The path is \<open>None\<close> for a WebSocket message.\<close>

definition payload_denial :: "str option \<Rightarrow> json \<Rightarrow> str option" where
  "payload_denial path payload =
     or_else (external_url_request_violation payload)
       (case path of
          Some p \<Rightarrow> (if is_search_path p then search_settings_denial payload else None)
        | None \<Rightarrow> None)"

definition external_url_request_denial ::
  "proxy_env \<Rightarrow> headers \<Rightarrow> bytes \<Rightarrow> str option \<Rightarrow> str option res" where
  "external_url_request_denial E headers body path =
     (if body = [] then Inr None
      else bind_res (view_body E headers body) (\<lambda>view. Inr
        (case view of
           Undecodable \<Rightarrow> Some (S ''openai_body_undecodable'')
         | Not_json \<Rightarrow> None
         | Bad_json \<Rightarrow> Some (S ''openai_body_not_json'')
         | Payload payload \<Rightarrow> payload_denial path payload)))"

definition openai_request_denied ::
  "proxy_env \<Rightarrow> str \<Rightarrow> str \<Rightarrow> str \<Rightarrow> str \<Rightarrow> headers \<Rightarrow> bytes \<Rightarrow> str option res" where
  "openai_request_denied E method host path query headers body =
     (case map_of openai_ROUTES (lower host) of
        None \<Rightarrow> Inr (Some (S ''network_policy_denied''))
      | Some route \<Rightarrow>
          if \<not> rx_route_allowed E method path query route then Inr (Some (S ''network_policy_denied''))
          else if lower host \<notin> set openai_GUARDED_HOSTS then Inr None
          else bind_res (read_proxy_openai_account_id E) (\<lambda>pin.
            case pin of
              None \<Rightarrow> Inr (Some (S ''openai_account_unavailable''))
            | Some account_id \<Rightarrow>
                let presented = header_values headers (S ''chatgpt-account-id'')
                in if presented = [] then Inr (Some (S ''openai_account_header_required''))
                   else if list_ex (\<lambda>v. v \<noteq> account_id) presented
                   then Inr (Some (S ''openai_account_mismatch''))
                   else external_url_request_denial E headers body (Some path)))"

definition openai_ws_inspection_required :: "str \<Rightarrow> bool" where
  "openai_ws_inspection_required host = (lower host \<in> set openai_GUARDED_HOSTS)"

definition openai_ws_message_denied :: "proxy_env \<Rightarrow> bytes \<Rightarrow> str option res" where
  "openai_ws_message_denied E payload = external_url_request_denial E [] payload None"

end
