(* ===== verification/ClaudeGuard.thy ===== *)
theory ClaudeGuard
  imports GuardEnv
begin

text \<open>
  \<open>network_integrations/claude/guard.py\<close>: the bearer-token pin, the reads allowed before
  the pin exists, and the denial of server-side tools.
\<close>

definition ANTHROPIC_PRE_PIN_BOOTSTRAP_GET_PATHS :: "str list" where
  "ANTHROPIC_PRE_PIN_BOOTSTRAP_GET_PATHS =
     [S ''/api/oauth/profile'', S ''/api/oauth/claude_cli/roles'',
      S ''/api/organization/claude_code_first_token_date'', S ''/api/claude_code/policy_limits'',
      S ''/api/claude_code/settings'']"

definition claude_ROUTES :: routes where
  "claude_ROUTES =
     [(S ''api.anthropic.com'', [S ''GET'', S ''POST''], []),
      (S ''platform.claude.com'', [S ''GET'', S ''POST''], [dir_route ''/v1/oauth''])]"

definition claude_host_allowed :: "str \<Rightarrow> bool" where
  "claude_host_allowed host = has_key claude_ROUTES (lower host)"

fun tools_violation :: "bool \<Rightarrow> json list \<Rightarrow> str option" where
  "tools_violation allow [] = None"
| "tools_violation allow (tool # tools) =
     (case tool of
        JObj kvs \<Rightarrow>
          (case jget kvs (S ''type'') of
             JStr ty \<Rightarrow>
               (if startswith ty (S ''web_search'')
                then (if \<not> allow then Some (S ''anthropic_web_search_denied'') else tools_violation allow tools)
                else if startswith ty (S ''web_fetch'') \<or> startswith ty (S ''code_execution'')
                then Some (S ''anthropic_server_tool_denied'')
                else tools_violation allow tools)
           | _ \<Rightarrow> tools_violation allow tools)
      | _ \<Rightarrow> tools_violation allow tools)"

definition tool_violation :: "json \<Rightarrow> bool \<Rightarrow> str option" where
  "tool_violation payload allow_web_search =
     (case payload of
        JObj kvs \<Rightarrow>
          or_else
            (case jget kvs (S ''tools'') of JList tools \<Rightarrow> tools_violation allow_web_search tools | _ \<Rightarrow> None)
            (case jget kvs (S ''mcp_servers'') of
               JList servers \<Rightarrow> (if servers \<noteq> [] then Some (S ''anthropic_remote_mcp_denied'') else None)
             | _ \<Rightarrow> None)
      | _ \<Rightarrow> None)"

definition server_tool_denial :: "proxy_env \<Rightarrow> headers \<Rightarrow> bytes \<Rightarrow> bool \<Rightarrow> str option res" where
  "server_tool_denial E headers body allow_web_search =
     (if body = [] then Inr None
      else bind_res (view_body E headers body) (\<lambda>view. Inr
        (case view of
           Undecodable \<Rightarrow> Some (S ''anthropic_body_undecodable'')
         | Not_json \<Rightarrow> None
         | Bad_json \<Rightarrow> Some (S ''anthropic_body_not_json'')
         | Payload payload \<Rightarrow> tool_violation payload allow_web_search)))"

definition bearer_token :: "str \<Rightarrow> str option" where
  "bearer_token v =
     (let scheme = before1 32 v; credential = after1 32 v
      in if lower scheme \<noteq> S ''bearer'' \<or> strip credential = [] then None else Some (strip credential))"

definition bearer_tokens :: "headers \<Rightarrow> str list" where
  "bearer_tokens headers = List.map_filter bearer_token (header_values headers (S ''authorization''))"

definition pre_pin_bootstrap_allowed :: "str \<Rightarrow> str \<Rightarrow> str list \<Rightarrow> bool" where
  "pre_pin_bootstrap_allowed method path tokens \<longleftrightarrow>
     upper method = S ''GET'' \<and> normalized_path path \<in> set ANTHROPIC_PRE_PIN_BOOTSTRAP_GET_PATHS
     \<and> tokens \<noteq> []"

fun any_token_mismatch :: "proxy_env \<Rightarrow> str \<Rightarrow> str list \<Rightarrow> bool res" where
  "any_token_mismatch E expected [] = Inr False"
| "any_token_mismatch E expected (v # vs) =
     bind_res (encode_str v) (\<lambda>b.
       if hexdigest (sha256 E b) \<noteq> expected then Inr True else any_token_mismatch E expected vs)"

definition claude_pin_denial :: "proxy_env \<Rightarrow> str \<Rightarrow> str \<Rightarrow> str list \<Rightarrow> str option res" where
  "claude_pin_denial E method path presented =
     bind_res (read_proxy_claude_account E) (\<lambda>account.
       let expected = dict_get_or account (S ''access_token_sha256'') []
       in if expected = []
          then Inr (if pre_pin_bootstrap_allowed method path presented then None
                    else Some (S ''anthropic_token_unavailable''))
          else if presented = [] then Inr (Some (S ''anthropic_token_required''))
          else bind_res (any_token_mismatch E expected presented) (\<lambda>mismatch.
                 Inr (if mismatch then Some (S ''anthropic_token_mismatch'') else None)))"

definition claude_request_denied ::
  "proxy_env \<Rightarrow> claude_integration \<Rightarrow> str \<Rightarrow> str \<Rightarrow> str \<Rightarrow> str \<Rightarrow> headers \<Rightarrow> bytes \<Rightarrow> str option res" where
  "claude_request_denied E config method host path query headers body =
     (case map_of claude_ROUTES (lower host) of
        None \<Rightarrow> Inr (Some (S ''network_policy_denied''))
      | Some route \<Rightarrow>
          if \<not> rx_route_allowed E method path query route then Inr (Some (S ''network_policy_denied''))
          else if lower host \<noteq> S ''api.anthropic.com'' then Inr None
          else bind_res (server_tool_denial E headers body (web_search config)) (\<lambda>denial.
            if denial \<noteq> None then Inr denial
            else if upper method = S ''GET'' \<and> path = S ''/api/hello'' then Inr None
            else claude_pin_denial E method path (bearer_tokens headers)))"

end
