(* ===== verification/SigV4.thy ===== *)
theory SigV4
  imports GuardEnv "HOL-Library.Product_Lexorder"
begin

text \<open>
  AWS Signature Version 4, \<open>host/runtime/core/aws_sigv4.py\<close>: parsing the Authorization
  header a client signed with, and signing a request over an explicit set of headers.
  SHA-256 is the field \<open>sha256\<close> of the environment; HMAC is defined from it. A text that
  cannot be encoded raises \<open>UnicodeError\<close>.
\<close>

subsection \<open>HMAC and the signing key\<close>

definition hmac_sha256 :: "proxy_env \<Rightarrow> bytes \<Rightarrow> bytes \<Rightarrow> bytes" where
  "hmac_sha256 E key msg =
     (let k = (if 64 < length key then sha256 E key else key);
          block = k @ replicate (64 - length k) 0
      in sha256 E (map (xor 0x5C) block @ sha256 E (map (xor 0x36) block @ msg)))"

definition signing_key :: "proxy_env \<Rightarrow> str \<Rightarrow> str \<Rightarrow> str \<Rightarrow> str \<Rightarrow> bytes res" where
  "signing_key E secret_access_key date_stamp region service =
     bind_res (encode_str (S ''AWS4'' @ secret_access_key)) (\<lambda>secret.
     bind_res (encode_str date_stamp) (\<lambda>d.
     bind_res (encode_str region) (\<lambda>r.
     bind_res (encode_str service) (\<lambda>s.
       Inr (hmac_sha256 E (hmac_sha256 E (hmac_sha256 E (hmac_sha256 E secret d) r) s) (B ''aws4_request''))))))"

abbreviation nl :: str where "nl \<equiv> [10]"

definition string_to_sign :: "proxy_env \<Rightarrow> str \<Rightarrow> str \<Rightarrow> str \<Rightarrow> str res" where
  "string_to_sign E amz_date credential_scope canonical_request =
     bind_res (encode_str canonical_request) (\<lambda>b.
       Inr (join nl [S ''AWS4-HMAC-SHA256'', amz_date, credential_scope, hexdigest (sha256 E b)]))"

definition credential_scope :: "str \<Rightarrow> str \<Rightarrow> str \<Rightarrow> str" where
  "credential_scope date_stamp region service = join (S ''/'') [date_stamp, region, service, S ''aws4_request'']"

definition authorization_value :: "str \<Rightarrow> str \<Rightarrow> str \<Rightarrow> str \<Rightarrow> str" where
  "authorization_value access_key_id scope signed_header_names signature =
     S ''AWS4-HMAC-SHA256 Credential='' @ access_key_id @ S ''/'' @ scope @ S '', SignedHeaders=''
     @ signed_header_names @ S '', Signature='' @ signature"

subsection \<open>Parsing an Authorization header\<close>

record parsed_authorization =
  pa_access_key_id :: str
  pa_date_stamp :: str
  pa_region :: str
  pa_service :: str
  pa_signed_headers :: "str list"
  pa_signature :: str

definition scope_part :: "nat \<Rightarrow> rx" where
  "scope_part n = Group n (plus (Cls (Compl (Union (chars (S ''/,'')) Space))))"

definition AUTHORIZATION_RE :: rx where
  "AUTHORIZATION_RE =
     (let sp = star (Cls Space); comma = seqs [sp, lit (S '',''), sp]
      in seqs [Bol, cilit (S ''AWS4-HMAC-SHA256''), plus (Cls Space),
           cilit (S ''Credential=''), scope_part 1, lit (S ''/''), Group 2 (between 8 8 Digit), lit (S ''/''),
           scope_part 3, lit (S ''/''), scope_part 4, lit (S ''/''), cilit (S ''aws4_request''), comma,
           cilit (S ''SignedHeaders=''),
           Group 5 (plus (CiCls (unions [a_z, d0_9, chars (S '';-'')]))), comma,
           cilit (S ''Signature=''),
           Group 6 (times_rx 64 (CiCls (Union d0_9 (Range 97 102)))), sp, Eol])"

definition parse_authorization :: "proxy_env \<Rightarrow> str \<Rightarrow> parsed_authorization option" where
  "parse_authorization E v =
     map_option (\<lambda>m. let g = (\<lambda>n. group_of n (snd (snd m)))
                     in \<lparr>pa_access_key_id = g 1, pa_date_stamp = g 2, pa_region = g 3, pa_service = g 4,
                         pa_signed_headers = split_on 59 (lower (g 5)), pa_signature = lower (g 6)\<rparr>)
       (rx_match (word_cp (lib E)) AUTHORIZATION_RE (strip v))"

subsection \<open>Canonicalisation\<close>

fun dot_segments :: "str list \<Rightarrow> str list \<Rightarrow> str list" where
  "dot_segments out [] = out"
| "dot_segments out (segment # rest) =
     (if segment = S ''.'' then dot_segments out rest
      else if segment = S ''..'' then dot_segments (butlast out) rest
      else dot_segments (out @ [segment]) rest)"

definition remove_dot_segments :: "str \<Rightarrow> str" where
  "remove_dot_segments path =
     (let out0 = dot_segments [] (split_on 47 path);
          out1 = (if startswith path (S ''/'') \<and> (out0 = [] \<or> hd out0 \<noteq> []) then [] # out0 else out0)
      in if out1 = [[]] \<or> out1 = [] then S ''/''
         else let out2 = (if endswith path (S ''/.'') \<or> endswith path (S ''/..'') then out1 @ [[]] else out1)
         in join (S ''/'') out2)"

definition canonical_path :: "str \<Rightarrow> str res" where
  "canonical_path path =
     (case quote (S ''/'') (remove_dot_segments (if path = [] then S ''/'' else path)) of
        None \<Rightarrow> Inl UnicodeError
      | Some s \<Rightarrow> Inr s)"

fun query_pairs :: "str list \<Rightarrow> (str \<times> str) list res" where
  "query_pairs [] = Inr []"
| "query_pairs (part # parts) =
     (case (quote [] (unquote (before1 61 part)), quote [] (unquote (after1 61 part))) of
        (Some name, Some v) \<Rightarrow> bind_res (query_pairs parts) (\<lambda>ps. Inr ((name, v) # ps))
      | _ \<Rightarrow> Inl UnicodeError)"

definition canonical_query :: "str \<Rightarrow> str res" where
  "canonical_query query =
     (if query = [] then Inr []
      else bind_res (query_pairs (split_on 38 query)) (\<lambda>pairs.
             Inr (join (S ''&'') (map (\<lambda>(name, v). name @ S ''='' @ v) (sort pairs)))))"

text \<open>The values of a header name in order, each with inner whitespace collapsed.\<close>

definition value_list :: "headers \<Rightarrow> str \<Rightarrow> str list" where
  "value_list headers name =
     (let vs = map (\<lambda>v. join (S '' '') (split_ws v)) (header_values headers name)
      in if vs = [] then [[]] else vs)"

definition canonical_headers :: "headers \<Rightarrow> str list \<Rightarrow> str" where
  "canonical_headers headers signed_headers =
     concat (map (\<lambda>name. name @ S '':'' @ join (S '','') (value_list headers name) @ nl) signed_headers)"

subsection \<open>Signing\<close>

record sign_request =
  sr_method :: str
  sr_path :: str
  sr_query :: str
  sr_headers :: headers
  sr_signed_headers :: "str list"
  sr_payload_hash :: str
  sr_amz_date :: str
  sr_date_stamp :: str
  sr_region :: str
  sr_service :: str

definition canonical_request :: "sign_request \<Rightarrow> str res" where
  "canonical_request r =
     bind_res (canonical_path (sr_path r)) (\<lambda>p.
     bind_res (canonical_query (sr_query r)) (\<lambda>q.
       Inr (join nl [upper (sr_method r), p, q, canonical_headers (sr_headers r) (sr_signed_headers r),
                     join (S '';'') (sr_signed_headers r), sr_payload_hash r])))"

definition header_signature :: "proxy_env \<Rightarrow> sign_request \<Rightarrow> str \<Rightarrow> str \<Rightarrow> (str \<times> str) res" where
  "header_signature E r access_key_id secret_access_key =
     bind_res (canonical_request r) (\<lambda>cr.
       let scope = credential_scope (sr_date_stamp r) (sr_region r) (sr_service r)
       in bind_res (string_to_sign E (sr_amz_date r) scope cr) (\<lambda>sts.
          bind_res (signing_key E secret_access_key (sr_date_stamp r) (sr_region r) (sr_service r)) (\<lambda>key.
          bind_res (encode_str sts) (\<lambda>b.
            let signature = hexdigest (hmac_sha256 E key b)
            in Inr (authorization_value access_key_id scope (join (S '';'') (sr_signed_headers r)) signature,
                    signature)))))"

definition payload_hash_for :: "proxy_env \<Rightarrow> headers \<Rightarrow> bytes \<Rightarrow> str" where
  "payload_hash_for E headers body =
     (case header_values headers (S ''x-amz-content-sha256'') of
        v # _ \<Rightarrow> strip v
      | [] \<Rightarrow> hexdigest (sha256 E body))"

text \<open>\<open>sign_post\<close>; the clock's two renderings are arguments.\<close>

definition sign_post ::
  "proxy_env \<Rightarrow> str \<Rightarrow> str \<Rightarrow> str \<Rightarrow> str \<Rightarrow> str \<Rightarrow> bytes \<Rightarrow> str \<Rightarrow> (str, str) dict \<Rightarrow> str \<Rightarrow> str
     \<Rightarrow> (str, str) dict res" where
  "sign_post E host region service access_key_id secret_access_key body content_type extra amz_date date_stamp =
     (let headers = foldl (\<lambda>d (k, v). AList.update k v d)
                      [(S ''content-type'', content_type), (S ''host'', host), (S ''x-amz-date'', amz_date)] extra;
          names = sort (map fst headers);
          signed = join (S '';'') names;
          canonical = concat (map (\<lambda>n. n @ S '':'' @ strip (dict_get_or headers n []) @ nl) names);
          request = join nl [S ''POST'', S ''/'', [], canonical, signed, hexdigest (sha256 E body)];
          scope = credential_scope date_stamp region service
      in bind_res (string_to_sign E amz_date scope request) (\<lambda>sts.
         bind_res (signing_key E secret_access_key date_stamp region service) (\<lambda>key.
         bind_res (encode_str sts) (\<lambda>b.
           Inr (AList.update (S ''authorization'')
                  (authorization_value access_key_id scope signed (hexdigest (hmac_sha256 E key b)))
                  (AList.delete (S ''host'') headers))))))"

end
