(* ===== verification/BedrockGuard.thy ===== *)
theory BedrockGuard
  imports SigV4
begin

text \<open>
  \<open>network_integrations/bedrock/guard.py\<close>: admission of model invocations signed with the
  fixed routing identity, and the re-signing of an admitted request with the operator's key.
  \<open>host_allowed\<close> and \<open>rewrite_request_headers\<close> read the credential afresh: each takes the
  environment of its own moment.
\<close>

definition MODEL_ROUTE_RE :: rx where
  "MODEL_ROUTE_RE =
     seqs [Bol, lit (S ''/model/''), Group 1 (plus (Cls (Compl (Range 47 47)))), lit (S ''/''),
           alts (lit (S ''converse'')) [lit (S ''converse-stream'')], Eol]"

definition bedrock_ROUTES :: "str list \<times> rx list" where
  "bedrock_ROUTES = ([S ''POST''], [MODEL_ROUTE_RE])"

definition QUERY_AUTH_RE :: rx where
  "QUERY_AUTH_RE =
     seqs [Alt Bol (lit (S ''&'')), cilit (S ''x-amz-''),
           alts (cilit (S ''signature'')) [cilit (S ''credential'')], lit (S ''='')]"

definition bedrock_host_allowed :: "proxy_env \<Rightarrow> bedrock_integration \<Rightarrow> str \<Rightarrow> bool res" where
  "bedrock_host_allowed E config host =
     (if \<not> br_enabled config then Inr False
      else bind_res (bedrock_credential E) (\<lambda>credential.
        Inr (case credential of
               Some (_, _, region) \<Rightarrow> lower host = region_host region
             | None \<Rightarrow> lower host \<in> set (map region_host SUPPORTED_REGIONS))))"

definition scope_matches :: "parsed_authorization \<Rightarrow> str \<Rightarrow> str \<Rightarrow> bool" where
  "scope_matches parsed host region \<longleftrightarrow>
     lower host = region_host region \<and> pa_region parsed = region \<and> lower (pa_service parsed) = S ''bedrock''"

definition bedrock_request_denied ::
  "proxy_env \<Rightarrow> bedrock_integration \<Rightarrow> str \<Rightarrow> str \<Rightarrow> str \<Rightarrow> str \<Rightarrow> headers \<Rightarrow> str option res" where
  "bedrock_request_denied E config method host path query headers =
     (if rx_search (word_cp (lib E)) QUERY_AUTH_RE query then Inr (Some (S ''bedrock_query_auth_denied''))
      else if \<not> rx_route_allowed E method path query bedrock_ROUTES
      then Inr (Some (S ''network_policy_denied''))
      else let hm = header_map headers
      in if has_key hm (S ''x-amz-security-token'') then Inr (Some (S ''bedrock_session_credentials_denied''))
         else case parse_authorization E (dict_get_or hm (S ''authorization'') []) of
           None \<Rightarrow> Inr (Some (S ''bedrock_signature_required''))
         | Some parsed \<Rightarrow>
             if pa_access_key_id parsed \<noteq> ROUTING_ACCESS_KEY_ID
             then Inr (Some (S ''bedrock_access_key_mismatch''))
             else if \<not> br_enabled config then Inr (Some (S ''bedrock_credentials_unavailable''))
             else bind_res (bedrock_credential E) (\<lambda>credential.
               Inr (case credential of
                      None \<Rightarrow> Some (S ''bedrock_credentials_unavailable'')
                    | Some (_, _, region) \<Rightarrow>
                        if \<not> scope_matches parsed host region then Some (S ''bedrock_signature_invalid'')
                        else None)))"

definition with_host_header :: "headers \<Rightarrow> str \<Rightarrow> headers" where
  "with_host_header headers host =
     (if list_ex (\<lambda>(name, _). lower name = S ''host'') headers then headers
      else headers @ [(S ''host'', host)])"

definition replace_authorization :: "headers \<Rightarrow> str \<Rightarrow> headers" where
  "replace_authorization headers authorization =
     map (\<lambda>(name, v). (name, if lower name = S ''authorization'' then authorization else v)) headers"

definition bedrock_rewrite_request_headers ::
  "proxy_env \<Rightarrow> str \<Rightarrow> str \<Rightarrow> str \<Rightarrow> str \<Rightarrow> headers \<Rightarrow> bytes \<Rightarrow> headers res" where
  "bedrock_rewrite_request_headers E method host path query headers body =
     (let hm = header_map headers
      in case parse_authorization E (dict_get_or hm (S ''authorization'') []) of
           None \<Rightarrow> Inr headers
         | Some parsed \<Rightarrow>
             if pa_access_key_id parsed \<noteq> ROUTING_ACCESS_KEY_ID then Inr headers
             else bind_res (bedrock_credential E) (\<lambda>credential.
               case credential of
                 None \<Rightarrow> Inr headers
               | Some (access_key_id, secret_access_key, region) \<Rightarrow>
                   if \<not> scope_matches parsed host region then Inr headers
                   else bind_res
                     (header_signature E
                       \<lparr>sr_method = method, sr_path = path, sr_query = query,
                        sr_headers = with_host_header headers host,
                        sr_signed_headers = pa_signed_headers parsed,
                        sr_payload_hash = payload_hash_for E headers body,
                        sr_amz_date = dict_get_or hm (S ''x-amz-date'') [],
                        sr_date_stamp = pa_date_stamp parsed, sr_region = pa_region parsed,
                        sr_service = pa_service parsed\<rparr>
                       access_key_id secret_access_key)
                     (\<lambda>(authorization, _). Inr (replace_authorization headers authorization))))"

text \<open>\<open>response_meter\<close>: the model the meter is for.\<close>

definition bedrock_response_meter :: "proxy_env \<Rightarrow> str \<Rightarrow> str option" where
  "bedrock_response_meter E path =
     map_option (\<lambda>m. take 256 (group_of 1 (snd (snd m))))
       (rx_match (word_cp (lib E)) MODEL_ROUTE_RE (normalized_path path))"

end
