(* ===== verification/GitHubGuard.thy ===== *)
theory GitHubGuard
  imports GuardEnv
begin

text \<open>
  \<open>network_integrations/github/guard.py\<close> without the push gate: the write guard over
  github.com, api.github.com and uploads.github.com, and the injection of the working
  credential. \<open>gate_response\<close> is in the theory \<open>PushGate\<close>.
\<close>

definition GITHUB_BEARER_DOMAINS :: "str list" where
  "GITHUB_BEARER_DOMAINS = [S ''api.github.com'', S ''uploads.github.com'']"

definition GITHUB_BASIC_DOMAINS :: "str list" where
  "GITHUB_BASIC_DOMAINS = [S ''github.com'', S ''codeload.github.com'', S ''raw.githubusercontent.com'']"

definition GITHUB_STRIP_ONLY_DOMAINS :: "str list" where
  "GITHUB_STRIP_ONLY_DOMAINS =
     [S ''github-cloud.githubusercontent.com'', S ''objects.githubusercontent.com'',
      S ''release-assets.githubusercontent.com'']"

definition github_ROUTES :: routes where
  "github_ROUTES =
     (let reads = [S ''GET'', S ''HEAD''];
          api = [S ''GET'', S ''HEAD'', S ''POST'', S ''PUT'', S ''PATCH'', S ''DELETE'']
      in [(S ''github.com'', [S ''GET'', S ''HEAD'', S ''POST''], []),
          (S ''api.github.com'', api, []),
          (S ''uploads.github.com'', api, []),
          (S ''codeload.github.com'', reads, []),
          (S ''raw.githubusercontent.com'', reads, []),
          (S ''objects.githubusercontent.com'', reads, []),
          (S ''github-cloud.githubusercontent.com'', reads, []),
          (S ''release-assets.githubusercontent.com'', reads, [])])"

definition github_GUARDED_HOSTS :: "str list" where
  "github_GUARDED_HOSTS = [S ''github.com'', S ''api.github.com'', S ''uploads.github.com'']"

definition github_host_allowed :: "str \<Rightarrow> bool" where
  "github_host_allowed host = has_key github_ROUTES (lower host)"

subsection \<open>Credential injection\<close>

definition b64_char :: "int \<Rightarrow> int" where
  "b64_char d =
     (if d < 26 then 65 + d else if d < 52 then 71 + d else if d < 62 then d - 4
      else if d = 62 then 43 else 47)"

fun b64encode :: "bytes \<Rightarrow> str" where
  "b64encode (a # b # c # rest) =
     (let n = uint a * 65536 + uint b * 256 + uint c
      in map b64_char [n div 262144, n div 4096 mod 64, n div 64 mod 64, n mod 64] @ b64encode rest)"
| "b64encode [a, b] =
     (let n = uint a * 65536 + uint b * 256
      in map b64_char [n div 262144, n div 4096 mod 64, n div 64 mod 64] @ S ''='')"
| "b64encode [a] =
     (let n = uint a * 65536 in map b64_char [n div 262144, n div 4096 mod 64] @ S ''=='')"
| "b64encode [] = []"

definition github_credential_header :: "str \<Rightarrow> str \<Rightarrow> (str \<times> str) res" where
  "github_credential_header lowered token =
     (if lowered \<in> set GITHUB_BEARER_DOMAINS then Inr (S ''Authorization'', S ''Bearer '' @ token)
      else bind_res (encode_str (S ''x-access-token:'' @ token)) (\<lambda>b.
             Inr (S ''Authorization'', S ''Basic '' @ b64encode b)))"

definition drop_header :: "str \<Rightarrow> headers \<Rightarrow> headers" where
  "drop_header name headers = filter (\<lambda>(key, v). lower key \<noteq> name) headers"

definition github_rewrite_request_headers :: "proxy_env \<Rightarrow> str \<Rightarrow> headers \<Rightarrow> headers res" where
  "github_rewrite_request_headers E host headers0 =
     (let lowered = lower host
      in if lowered \<notin> set GITHUB_BEARER_DOMAINS \<and> lowered \<notin> set GITHUB_BASIC_DOMAINS
            \<and> lowered \<notin> set GITHUB_STRIP_ONLY_DOMAINS
         then Inr headers0
         else let headers = drop_header (S ''authorization'') headers0
         in if lowered \<in> set GITHUB_STRIP_ONLY_DOMAINS then Inr headers
            else bind_res (github_token E) (\<lambda>token.
                   case token of
                     None \<Rightarrow> Inr headers
                   | Some t \<Rightarrow>
                       if t = [] then Inr headers
                       else bind_res (github_credential_header lowered t) (\<lambda>h. Inr (headers @ [h]))))"

subsection \<open>The write guard\<close>

abbreviation write_repo_required :: str where "write_repo_required \<equiv> S ''github_write_repo_required''"
abbreviation admin_write_denied :: str where "admin_write_denied \<equiv> S ''github_repo_admin_write_denied''"
abbreviation dot_github_denied :: str where "dot_github_denied \<equiv> S ''github_dot_github_rest_write_denied''"

text \<open>\<open>[part for part in path.split("/") if part]\<close>\<close>

definition path_parts :: "str \<Rightarrow> str list" where
  "path_parts path = filter (\<lambda>p. p \<noteq> []) (split_on 47 path)"

definition repo_name :: "str \<Rightarrow> str" where
  "repo_name part = lower (removesuffix part (S ''.git''))"

definition github_repo_writable :: "(str \<times> str) list \<Rightarrow> str \<Rightarrow> str \<Rightarrow> bool" where
  "github_repo_writable write_repos owner repo = ((lower owner, repo_name repo) \<in> set write_repos)"

definition github_repo_from_path :: "str \<Rightarrow> (str \<times> str) option" where
  "github_repo_from_path path =
     (case path_parts path of
        owner # repo # _ \<Rightarrow> Some (lower owner, repo_name repo)
      | _ \<Rightarrow> None)"

definition lfs_batch_denied :: "proxy_env \<Rightarrow> bytes \<Rightarrow> str option res" where
  "lfs_batch_denied E body =
     (let unresolved = Some (S ''github_lfs_operation_unresolved'')
      in case loads E body of
           Inl e \<Rightarrow> if e = UnicodeError \<or> e = JSONDecodeError then Inr unresolved else Inl e
         | Inr payload \<Rightarrow>
             let operation = (case payload of JObj kvs \<Rightarrow> jget kvs (S ''operation'') | _ \<Rightarrow> JNull)
             in Inr (if operation = JStr (S ''download'') then None
                     else if operation = JStr (S ''upload'') then Some (S ''github_lfs_push_unsupported'')
                     else unresolved))"

definition first_service :: "str \<Rightarrow> str" where
  "first_service query = dict_get_or (parse_qsl False query) (S ''service'') []"

definition github_com_request_denied ::
  "proxy_env \<Rightarrow> (str \<times> str) list \<Rightarrow> str \<Rightarrow> str \<Rightarrow> str \<Rightarrow> bytes \<Rightarrow> str option res" where
  "github_com_request_denied E write_repos method path query body =
     (let repo = github_repo_from_path path; service = first_service query;
          suffix = (if repo \<noteq> None
                    then join (S ''/'') (filter (\<lambda>p. p \<noteq> []) (drop 3 (split_on 47 path))) else []);
          push = (method = S ''GET'' \<and> suffix = S ''info/refs'' \<and> service = S ''git-receive-pack'')
                 \<or> (method = S ''POST'' \<and> suffix = S ''git-receive-pack'')
      in case (repo, push) of
           (Some (owner, name), True) \<Rightarrow>
             Inr (if github_repo_writable write_repos owner name then None else Some write_repo_required)
         | _ \<Rightarrow>
             if method = S ''POST'' \<and> suffix = S ''info/lfs/objects/batch'' then lfs_batch_denied E body
             else if method = S ''GET'' \<or> method = S ''HEAD'' then Inr None
             else if method = S ''POST'' \<and> suffix = S ''git-upload-pack'' then Inr None
             else Inr (Some write_repo_required))"

definition ADMIN_SUBS :: "str list" where
  "ADMIN_SUBS =
     map S [''forks'', ''generate'', ''transfer'',
      ''collaborators'', ''invitations'', ''keys'', ''hooks'', ''pages'', ''environments'',
      ''codespaces'', ''dependabot'', ''rulesets'', ''properties'', ''interaction-limits'',
      ''immutable-releases'', ''autolinks'', ''topics'', ''lfs'',
      ''vulnerability-alerts'', ''automated-security-fixes'', ''private-vulnerability-reporting'',
      ''code-scanning'', ''secret-scanning'', ''dependency-graph'', ''security-advisories'',
      ''bypass-requests'',
      ''statuses'', ''check-runs'', ''check-suites'', ''deployments'', ''dispatches'', ''attestations'']"

definition ACTIONS_ADMIN :: "str list" where
  "ACTIONS_ADMIN =
     map S [''secrets'', ''variables'', ''runners'', ''permissions'', ''oidc'', ''cache'', ''caches'']"

definition actions_write_denied :: "str list \<Rightarrow> str \<Rightarrow> bool" where
  "actions_write_denied parts method =
     (case drop 4 parts of
        [] \<Rightarrow> False
      | t # _ \<Rightarrow>
          t \<in> set ACTIONS_ADMIN
          \<or> (t = S ''workflows'' \<and> last parts \<in> set (map S [''enable'', ''disable'', ''dispatches'']))
          \<or> (t = S ''runs'' \<and>
              (method = S ''DELETE''
               \<or> last parts \<in> set (map S [''cancel'', ''force-cancel'', ''approve'',
                    ''pending_deployments'', ''deployment_protection_rule''])))
          \<or> t = S ''artifacts'')"

text \<open>The caller gives at least the three parts \<open>repos\<close>, owner and repository.\<close>

definition repo_admin_write_denied :: "str list \<Rightarrow> str \<Rightarrow> str \<Rightarrow> str option" where
  "repo_admin_write_denied parts method host =
     (if length parts = 3 then Some admin_write_denied
      else let sub = parts ! 3
      in if sub \<in> set ADMIN_SUBS then Some admin_write_denied
         else if host = S ''api.github.com'' \<and> sub = S ''releases'' then Some admin_write_denied
         else if sub = S ''branches'' \<and> S ''protection'' \<in> set (drop 4 parts) then Some admin_write_denied
         else if sub = S ''tags'' \<and> S ''protection'' \<in> set (drop 4 parts) then Some admin_write_denied
         else if sub = S ''pulls'' \<and> last parts = S ''update-branch'' then Some admin_write_denied
         else if sub = S ''actions'' \<and> actions_write_denied parts method then Some admin_write_denied
         else None)"

definition dot_github_rest_write_denied :: "str list \<Rightarrow> str \<Rightarrow> str option" where
  "dot_github_rest_write_denied parts method =
     (if length parts < 4 then None
      else let sub = parts ! 3; content_path = join (S ''/'') (drop 4 parts)
      in if sub = S ''contents'' \<and> 5 \<le> length parts
            \<and> (content_path = S ''.github'' \<or> startswith content_path (S ''.github/''))
         then Some dot_github_denied
         else if sub = S ''git'' \<and> 5 \<le> length parts
            \<and> parts ! 4 \<in> set (map S [''commits'', ''refs'', ''trees''])
         then Some dot_github_denied
         else if sub = S ''merges'' \<or> sub = S ''merge-upstream'' then Some dot_github_denied
         else if sub = S ''pulls'' \<and> method = S ''PUT'' \<and> 6 \<le> length parts \<and> parts ! 5 = S ''merge''
         then Some dot_github_denied
         else None)"

definition github_api_request_denied ::
  "(str \<times> str) list \<Rightarrow> str \<Rightarrow> str \<Rightarrow> str \<Rightarrow> bool \<Rightarrow> str option" where
  "github_api_request_denied write_repos method path host require_approval =
     (if method \<in> {S ''GET'', S ''HEAD''} then None
      else if method = S ''POST'' \<and> path = S ''/graphql'' then Some (S ''github_graphql_denied'')
      else if method \<notin> {S ''POST'', S ''PUT'', S ''PATCH'', S ''DELETE''} then Some write_repo_required
      else let parts = path_parts path
      in if 3 \<le> length parts \<and> parts ! 0 = S ''repos''
         then let owner = lower (parts ! 1); repo = repo_name (parts ! 2)
              in case repo_admin_write_denied parts method host of
                   Some denial \<Rightarrow> Some denial
                 | None \<Rightarrow>
                     if \<not> github_repo_writable write_repos owner repo then Some write_repo_required
                     else if require_approval then dot_github_rest_write_denied parts method
                     else None
         else Some write_repo_required)"

definition write_repos_of :: "github_integration \<Rightarrow> (str \<times> str) list" where
  "write_repos_of config = map (\<lambda>r. (gr_owner r, gr_repo r)) (write_repositories config)"

definition github_request_denied ::
  "proxy_env \<Rightarrow> github_integration \<Rightarrow> str \<Rightarrow> str \<Rightarrow> str \<Rightarrow> str \<Rightarrow> bytes \<Rightarrow> str option res" where
  "github_request_denied E config method0 host0 path0 query body =
     (case map_of github_ROUTES (lower host0) of
        None \<Rightarrow> Inr (Some (S ''network_policy_denied''))
      | Some route \<Rightarrow>
          if \<not> rx_route_allowed E method0 path0 query route then Inr (Some (S ''network_policy_denied''))
          else if lower host0 \<notin> set github_GUARDED_HOSTS then Inr None
          else let param_denial =
                     (if query \<noteq> [] \<and> (upper method0 = S ''GET'' \<or> upper method0 = S ''HEAD'')
                      then guard_url E False [] query else None);
                   write_repos = write_repos_of config;
                   method = upper method0; host = lower host0; path = normalized_path path0
          in if param_denial \<noteq> None then Inr param_denial
             else if host = S ''github.com''
             then github_com_request_denied E write_repos method path query body
             else if host = S ''api.github.com''
             then Inr (github_api_request_denied write_repos method path host (require_dot_github_approval config))
             else if host = S ''uploads.github.com''
             then Inr (github_api_request_denied write_repos method path host False)
             else Inr (Some (S ''github_repo_scope_required'')))"

end
