(* ===== verification/PushGate.thy ===== *)
theory PushGate
  imports GitHubGuard
begin

text \<open>
  The \<open>.github\<close> push-approval gate: \<open>github/push_gate/engine.py\<close> and \<open>gate_response\<close> of
  the GitHub guard. Git is outside the repository: \<open>run_process\<close> maps the state of the
  quarantine mirrors, an argument vector and the input to the new state and the exit code
  and output (\<open>None\<close>: the process could not be run or timed out). The table
  \<open>pending_pushes\<close> is part of the state, the time and the fresh push id are arguments.
\<close>

datatype push_status = Pending | Approved | Rejected | Failed

record pending_push =
  pp_id :: str
  pp_owner :: str
  pp_repo :: str
  pp_ref_updates :: "(str \<times> str \<times> str) list"     \<comment> \<open>old, new, ref\<close>
  pp_changed_paths :: "str list"
  pp_requested_at :: str
  pp_status :: push_status
  pp_resolved_at :: "str option"
  pp_detail :: "str option"

record 'g gate_world =
  git :: 'g
  pending_pushes :: "pending_push list"

record 'g git_lib =
  run_process :: "'g \<Rightarrow> str list \<Rightarrow> bytes option \<Rightarrow> str option \<Rightarrow> 'g \<times> (int \<times> bytes) option"
  path_exists :: "'g \<Rightarrow> str \<Rightarrow> bool"
  db_error :: "exn option"                       \<comment> \<open>an outage of the database\<close>

type_synonym ('g, 'a) gate_step = "'g gate_world \<Rightarrow> 'g gate_world \<times> 'a res"

definition return_st :: "'a \<Rightarrow> ('g, 'a) gate_step" where
  "return_st a w = (w, Inr a)"

definition raise_st :: "exn \<Rightarrow> ('g, 'a) gate_step" where
  "raise_st e w = (w, Inl e)"

definition bind_st :: "('g, 'a) gate_step \<Rightarrow> ('a \<Rightarrow> ('g, 'b) gate_step) \<Rightarrow> ('g, 'b) gate_step" where
  "bind_st m f w = (case m w of (w', Inl e) \<Rightarrow> (w', Inl e) | (w', Inr a) \<Rightarrow> f a w')"

definition lift_st :: "'a res \<Rightarrow> ('g, 'a) gate_step" where
  "lift_st r w = (w, r)"

lemma bind_st_cong [fundef_cong]:
  assumes "m = m'" and "w = w'" and "\<And>a v. m' w' = (v, Inr a) \<Longrightarrow> f a v = g a v"
  shows "bind_st m f w = bind_st m' g w'"
  using assms by (auto simp: bind_st_def split: prod.splits sum.splits)

subsection \<open>The receive-pack framing\<close>

definition EMPTY_TREE :: str where "EMPTY_TREE = S ''4b825dc642cb6eb9a060e54bf8d69288fbee4904''"
definition ZERO_OID :: str where "ZERO_OID = replicate 40 48"

definition OID_RE :: rx where
  "OID_RE = seqs [Bol, times_rx 40 (Cls (Union (Range 48 57) (Range 97 102))), Eol]"

definition REF_RE :: rx where
  "REF_RE =
     seqs [Bol, lit (S ''refs/''), Group 1 (alts (lit (S ''heads'')) [lit (S ''tags'')]), lit (S ''/''),
           plus (Cls (Compl (Union Space (chars (S ''?*:['' @ [92] @ S ''~^''))))), Eol]"

definition MAX_CHANGED_PATHS :: nat where "MAX_CHANGED_PATHS = 200"

definition CHANGED_PATHS_TRUNCATED :: str where
  "CHANGED_PATHS_TRUNCATED = S ''.github/... (additional paths omitted)''"

definition valid_ref_name :: "str \<Rightarrow> bool" where
  "valid_ref_name ref = rx_fullmatch (\<lambda>_. False) REF_RE ref"

definition valid_oid :: "str \<Rightarrow> bool" where
  "valid_oid oid = rx_fullmatch (\<lambda>_. False) OID_RE oid"

definition ascii_replace :: "bytes \<Rightarrow> str" where
  "ascii_replace b = map (\<lambda>w. if uint w < 128 then uint w else 0xFFFD) b"

definition utf8_text :: "bytes \<Rightarrow> str" where
  "utf8_text b = utf8_replace (map uint b)"

type_synonym command = "str \<times> str \<times> str"

text \<open>The pieces of one command line: \<open>None\<close> is a line with fewer than three fields.\<close>

definition parse_command :: "bytes \<Rightarrow> command option res" where
  "parse_command head =
     (case split_on 32 (rstrip_by (\<lambda>w. w = 10) head) of
        f0 # f1 # f2 # _ \<Rightarrow>
          (let old = ascii_replace f0; new = ascii_replace f1; ref = utf8_text f2
           in if \<not> valid_oid old \<or> \<not> valid_oid new then Inl GateError
              else if \<not> valid_ref_name ref then Inl GateError
              else Inr (Some (old, new, ref)))
      | _ \<Rightarrow> Inr None)"

function receive_pack_loop ::
  "command list \<Rightarrow> str list \<Rightarrow> bytes \<Rightarrow> (command list \<times> str list \<times> bytes) res" where
  "receive_pack_loop commands capabilities body =
     (if length body < 4 then Inl GateError
      else case bytes_int16 (take 4 body) of
             None \<Rightarrow> Inl GateError
           | Some n \<Rightarrow>
               if n = 0 then Inr (commands, capabilities, drop 4 body)
               else if n < 4 \<or> int (length body) < n then Inl GateError
               else let payload = drop 4 (take (nat n) body);
                        (head, caps) = (case partition1 0 payload of Some (h, c) \<Rightarrow> (h, c) | None \<Rightarrow> (payload, []));
                        capabilities' = (if caps \<noteq> [] \<and> commands = [] then split_ws (utf8_text caps) else capabilities)
                    in bind_res (parse_command head) (\<lambda>command.
                         receive_pack_loop
                           (commands @ (case command of Some c \<Rightarrow> [c] | None \<Rightarrow> []))
                           capabilities' (drop (nat n) body)))"
  by pat_completeness auto
termination by (relation "measure (\<lambda>(_, _, body). length body)") auto

declare receive_pack_loop.simps [simp del]

definition parse_receive_pack :: "bytes \<Rightarrow> (command list \<times> str list \<times> bytes) res" where
  "parse_receive_pack body = receive_pack_loop [] [] body"

definition touches_github :: "str list \<Rightarrow> bool" where
  "touches_github paths =
     list_ex (\<lambda>path. path = S ''.github'' \<or> startswith path (S ''.github/'')) paths"

subsection \<open>The report to the client\<close>

definition hex4 :: "int \<Rightarrow> str" where
  "hex4 n = map hex_digit [n div 4096, n div 256 mod 16, n div 16 mod 16, n mod 16]"

definition bytes_of :: "str \<Rightarrow> bytes" where
  "bytes_of s = map of_int s"

text \<open>\<open>b"%04x"\<close>: four digits suffice for every packet built here.\<close>

definition pkt :: "bytes \<Rightarrow> bytes" where
  "pkt payload = bytes_of (hex4 (int (length payload) + 4)) @ payload"

fun report_lines :: "bytes \<Rightarrow> str list \<Rightarrow> bytes res" where
  "report_lines message [] = Inr []"
| "report_lines message (ref # refs) =
     bind_res (encode_str ref) (\<lambda>r.
     bind_res (report_lines message refs) (\<lambda>rest.
       Inr (pkt (B ''ng '' @ r @ B '' '' @ message @ [10]) @ rest)))"

function side_band_chunks :: "bytes \<Rightarrow> bytes" where
  "side_band_chunks report =
     (if report = [] then [] else pkt (1 # take 65515 report) @ side_band_chunks (drop 65515 report))"
  by pat_completeness auto
termination by (relation "measure length") auto

declare side_band_chunks.simps [simp del]

definition build_report_status :: "str list \<Rightarrow> str \<Rightarrow> bool \<Rightarrow> bytes res" where
  "build_report_status refs message side_band =
     bind_res (encode_str message) (\<lambda>m.
     bind_res (report_lines m refs) (\<lambda>lines.
       let report = pkt (B ''unpack ok'' @ [10]) @ lines @ B ''0000''
       in Inr (if \<not> side_band then report else side_band_chunks report @ B ''0000'')))"

definition build_http_response :: "bytes \<Rightarrow> bytes" where
  "build_http_response report_status =
     concat (map (\<lambda>line. line @ [13, 10])
       [B ''HTTP/1.1 200 OK'', B ''Content-Type: application/x-git-receive-pack-result'',
        B ''Connection: close'', B ''Content-Length: '' @ bytes_of (str_of_int (int (length report_status))), []])
     @ report_status"

subsection \<open>Git\<close>

definition QUARANTINE_ROOT :: str where
  "QUARANTINE_ROOT = S ''/mnt/trustyclaw-admin/proxy-state/github-quarantine''"

definition run_git ::
  "'g git_lib \<Rightarrow> str \<Rightarrow> str list \<Rightarrow> bytes option \<Rightarrow> str option \<Rightarrow> ('g, bytes) gate_step" where
  "run_git G mirror args stdin token w =
     (case run_process G (git w) ([S ''-C'', mirror] @ args) stdin token of
        (g, Some (code, out)) \<Rightarrow> (w\<lparr>git := g\<rparr>, if code = 0 then Inr out else Inl GateError)
      | (g, None) \<Rightarrow> (w\<lparr>git := g\<rparr>, Inl GateError))"

definition mirror_path :: "str \<Rightarrow> str \<Rightarrow> str" where
  "mirror_path owner repo = QUARANTINE_ROOT @ S ''/'' @ lower owner @ S ''/'' @ lower repo @ S ''.git''"

definition repo_url :: "str \<Rightarrow> str \<Rightarrow> str" where
  "repo_url owner repo = S ''https://github.com/'' @ owner @ S ''/'' @ repo @ S ''.git''"

text \<open>The token reaches git through an askpass script in its environment.\<close>

definition ensure_mirror :: "'g git_lib \<Rightarrow> str \<Rightarrow> str \<Rightarrow> str option \<Rightarrow> ('g, str) gate_step" where
  "ensure_mirror G owner repo token w0 =
     (let mirror = mirror_path owner repo;
          fresh = \<not> path_exists G (git w0) (mirror @ S ''/HEAD'')
      in bind_st
           (if fresh
            then bind_st (run_git G mirror [S ''init'', S ''--bare'', S ''--quiet''] None None) (\<lambda>_.
                   run_git G mirror [S ''config'', S ''transfer.fsckObjects'', S ''true''] None None)
            else return_st []) (\<lambda>_.
         bind_st (run_git G mirror
                   [S ''fetch'', S ''--quiet'', S ''--prune'', repo_url owner repo,
                    S ''+refs/heads/*:refs/heads/*'', S ''+refs/tags/*:refs/tags/*''] None token) (\<lambda>_.
         return_st mirror)) w0)"

definition output_lines :: "bytes \<Rightarrow> str list" where
  "output_lines out = filter (\<lambda>line. line \<noteq> []) (splitlines (utf8_text out))"

definition github_diff :: "'g git_lib \<Rightarrow> str \<Rightarrow> str \<Rightarrow> str \<Rightarrow> ('g, str list) gate_step" where
  "github_diff G mirror base new =
     bind_st (run_git G mirror
       [S ''diff-tree'', S ''-r'', S ''--no-commit-id'', S ''--name-only'', base, new, S ''--'', S ''.github'']
       None None) (\<lambda>out. return_st (output_lines out))"

text \<open>\<open>None\<close>: the pushed tip is already on the remote.\<close>

definition remote_ancestor_bases :: "'g git_lib \<Rightarrow> str \<Rightarrow> str \<Rightarrow> str \<Rightarrow> ('g, str list option) gate_step" where
  "remote_ancestor_bases G mirror old new =
     (if old \<noteq> ZERO_OID then return_st (Some [old])
      else bind_st (run_git G mirror
             [S ''rev-list'', S ''--boundary'', new, S ''--not'', S ''--branches'', S ''--tags''] None None) (\<lambda>out.
        let ls = output_lines out;
            bases = map tl (filter (\<lambda>line. startswith line (S ''-'')) ls);
            introduced = list_ex (\<lambda>line. \<not> startswith line (S ''-'')) ls
        in return_st (if \<not> introduced then None else Some (if bases = [] then [EMPTY_TREE] else bases))))"

fun diff_bases :: "'g git_lib \<Rightarrow> str \<Rightarrow> str \<Rightarrow> str list \<Rightarrow> str list \<Rightarrow> ('g, str list) gate_step" where
  "diff_bases G mirror new paths [] = return_st paths"
| "diff_bases G mirror new paths (base # bases) =
     bind_st (github_diff G mirror base new) (\<lambda>ps.
       diff_bases G mirror new (remdups (paths @ ps)) bases)"

fun diff_commands :: "'g git_lib \<Rightarrow> str \<Rightarrow> str list \<Rightarrow> command list \<Rightarrow> ('g, str list) gate_step" where
  "diff_commands G mirror paths [] = return_st paths"
| "diff_commands G mirror paths ((old, new, ref) # commands) =
     (if new = ZERO_OID then diff_commands G mirror paths commands
      else bind_st (remote_ancestor_bases G mirror old new) (\<lambda>bases.
        case bases of
          None \<Rightarrow> diff_commands G mirror paths commands
        | Some bs \<Rightarrow>
            bind_st (diff_bases G mirror new paths bs) (\<lambda>paths'.
              diff_commands G mirror paths' commands)))"

text \<open>A set of paths is a list without duplicates.\<close>

definition cap_paths :: "str list \<Rightarrow> str list" where
  "cap_paths paths =
     (if MAX_CHANGED_PATHS < length paths
      then remdups (take MAX_CHANGED_PATHS (sort paths) @ [CHANGED_PATHS_TRUNCATED]) else paths)"

definition changed_paths :: "'g git_lib \<Rightarrow> str \<Rightarrow> command list \<Rightarrow> bytes \<Rightarrow> ('g, str list) gate_step" where
  "changed_paths G mirror commands pack =
     bind_st (if pack = [] then return_st []
              else run_git G mirror [S ''index-pack'', S ''--stdin'', S ''--fix-thin''] (Some pack) None) (\<lambda>_.
     bind_st (diff_commands G mirror [] commands) (\<lambda>paths.
       return_st (cap_paths paths)))"

definition pending_ref :: "str \<Rightarrow> nat \<Rightarrow> str" where
  "pending_ref push_id index = S ''refs/pending/'' @ push_id @ S ''/'' @ str_of_int (int index)"

fun quarantine_pending :: "'g git_lib \<Rightarrow> str \<Rightarrow> nat \<Rightarrow> command list \<Rightarrow> str \<Rightarrow> ('g, unit) gate_step" where
  "quarantine_pending G mirror index [] push_id = return_st ()"
| "quarantine_pending G mirror index ((old, new, ref) # commands) push_id =
     bind_st (if new = ZERO_OID then return_st []
              else run_git G mirror [S ''update-ref'', pending_ref push_id index, new] None None) (\<lambda>_.
       quarantine_pending G mirror (Suc index) commands push_id)"

fun delete_refs :: "'g git_lib \<Rightarrow> str \<Rightarrow> str list \<Rightarrow> ('g, unit) gate_step" where
  "delete_refs G mirror [] = return_st ()"
| "delete_refs G mirror (ref # refs) =
     bind_st (run_git G mirror [S ''update-ref'', S ''-d'', ref] None None) (\<lambda>_. delete_refs G mirror refs)"

definition cleanup_pending :: "'g git_lib \<Rightarrow> str \<Rightarrow> str \<Rightarrow> ('g, unit) gate_step" where
  "cleanup_pending G mirror push_id =
     bind_st (run_git G mirror
       [S ''for-each-ref'', S ''--format=%(refname)'', S ''refs/pending/'' @ push_id @ S ''/''] None None) (\<lambda>out.
       delete_refs G mirror (output_lines out))"

definition side_band_requested :: "str list \<Rightarrow> bool" where
  "side_band_requested capabilities \<longleftrightarrow>
     S ''side-band-64k'' \<in> set capabilities \<or> S ''side-band'' \<in> set capabilities"

record gate_result =
  gt_mirror :: str
  gt_commands :: "command list"
  gt_side_band :: bool
  gt_paths :: "str list"

definition inspect :: "'g git_lib \<Rightarrow> str \<Rightarrow> str \<Rightarrow> bytes \<Rightarrow> str option \<Rightarrow> ('g, gate_result) gate_step" where
  "inspect G owner repo body token =
     bind_st (lift_st (parse_receive_pack body)) (\<lambda>(commands, capabilities, pack).
     bind_st (ensure_mirror G owner repo token) (\<lambda>mirror.
     bind_st (changed_paths G mirror commands pack) (\<lambda>paths.
       return_st \<lparr>gt_mirror = mirror, gt_commands = commands,
                  gt_side_band = side_band_requested capabilities, gt_paths = paths\<rparr>)))"

text \<open>A best-effort step: its failure is swallowed.\<close>

definition ignore_errors :: "('g, unit) gate_step \<Rightarrow> 'g gate_world \<Rightarrow> 'g gate_world" where
  "ignore_errors m w = fst (m w)"

definition hold_for_approval :: "'g git_lib \<Rightarrow> gate_result \<Rightarrow> str \<Rightarrow> ('g, bytes) gate_step" where
  "hold_for_approval G result push_id w =
     (let refs = map (\<lambda>(old, new, ref). ref) (gt_commands result);
          message = S ''queued for approval as push-'' @ push_id;
          work = bind_st (quarantine_pending G (gt_mirror result) 0 (gt_commands result) push_id) (\<lambda>_.
                 bind_st (lift_st (build_report_status refs message (gt_side_band result))) (\<lambda>report.
                   return_st (build_http_response report)))
      in case work w of
           (w', Inr response) \<Rightarrow> (w', Inr response)
         | (w', Inl e) \<Rightarrow> (ignore_errors (cleanup_pending G (gt_mirror result) push_id) w', Inl e))"

text \<open>The primary key refuses a second row with the same id.\<close>

definition enqueue_pending_push ::
  "'g git_lib \<Rightarrow> str \<Rightarrow> str \<Rightarrow> str \<Rightarrow> str \<Rightarrow> command list \<Rightarrow> str list \<Rightarrow> ('g, unit) gate_step" where
  "enqueue_pending_push G now push_id owner repo ref_updates paths w =
     (case db_error G of
        Some e \<Rightarrow> (w, Inl e)
      | None \<Rightarrow>
          if push_id \<in> set (map pp_id (pending_pushes w)) then (w, Inl (RuntimeError (S ''duplicate key'')))
          else (w\<lparr>pending_pushes := pending_pushes w @
                  [\<lparr>pp_id = push_id, pp_owner = owner, pp_repo = repo, pp_ref_updates = ref_updates,
                    pp_changed_paths = paths, pp_requested_at = now, pp_status = Pending,
                    pp_resolved_at = None, pp_detail = None\<rparr>]\<rparr>, Inr ()))"

subsection \<open>\<open>gate_response\<close>\<close>

abbreviation gate_unavailable :: str where "gate_unavailable \<equiv> S ''github_push_gate_unavailable''"
abbreviation gate_queued :: str where "gate_queued \<equiv> S ''github_push_queued_for_approval''"

text \<open>The response to send instead of forwarding, and the denial code.\<close>

definition gate_response ::
  "proxy_env \<Rightarrow> 'g git_lib \<Rightarrow> str \<Rightarrow> str \<Rightarrow> github_integration \<Rightarrow> str \<Rightarrow> str \<Rightarrow> str \<Rightarrow> bytes \<Rightarrow>
   ('g, bytes option \<times> str option) gate_step" where
  "gate_response E G now push_id config method host path body w =
     (let parts = path_parts (normalized_path path)
      in if \<not> require_dot_github_approval config then (w, Inr (None, None))
         else if lower host \<noteq> S ''github.com'' \<or> upper method \<noteq> S ''POST'' \<or> length parts \<noteq> 3
                 \<or> parts ! 2 \<noteq> S ''git-receive-pack''
         then (w, Inr (None, None))
         else let owner = lower (parts ! 0); repo = repo_name (parts ! 1)
         in case bind_st (lift_st (github_token E)) (inspect G owner repo body) w of
              (w1, Inl e) \<Rightarrow> (w1, if e = GateError then Inr (None, Some gate_unavailable) else Inl e)
            | (w1, Inr result) \<Rightarrow>
                if \<not> touches_github (gt_paths result) then (w1, Inr (None, None))
                else (case bind_st (hold_for_approval G result push_id) (\<lambda>response.
                             bind_st (enqueue_pending_push G now push_id owner repo (gt_commands result)
                                        (sort (gt_paths result))) (\<lambda>_. return_st response)) w1 of
                        (w2, Inr response) \<Rightarrow> (w2, Inr (Some response, Some gate_queued))
                      | (w2, Inl _) \<Rightarrow>
                          (ignore_errors (cleanup_pending G (gt_mirror result) push_id) w2,
                           Inr (None, Some gate_unavailable))))"

end
