(* ===== verification/Dispatch.thy ===== *)
theory Dispatch
  imports OpenAIGuard ClaudeGuard BedrockGuard PushGate
begin

text \<open>
  \<open>network_integrations/runtime.py\<close>: every request is decided by exactly one integration,
  the one that owns its host, or the custom-domain integration. The hooks of an integration
  are the fields of \<open>integration_guard\<close>; an absent hook is \<open>None\<close>. A hook that reads its
  own configuration raises \<open>AttributeError\<close> on another integration's.
\<close>

record 'g integration_guard =
  g_host_allowed :: "proxy_env \<Rightarrow> integration_config \<Rightarrow> str \<Rightarrow> bool res"
  g_request_denied ::
    "proxy_env \<Rightarrow> integration_config \<Rightarrow> str \<Rightarrow> str \<Rightarrow> str \<Rightarrow> str \<Rightarrow> headers \<Rightarrow> bytes \<Rightarrow> str option res"
  g_rewrite_request_headers ::
    "(proxy_env \<Rightarrow> str \<Rightarrow> str \<Rightarrow> str \<Rightarrow> str \<Rightarrow> headers \<Rightarrow> bytes \<Rightarrow> headers res) option"
  g_gate_response ::
    "(proxy_env \<Rightarrow> 'g git_lib \<Rightarrow> str \<Rightarrow> str \<Rightarrow> integration_config \<Rightarrow> str \<Rightarrow> str \<Rightarrow> str \<Rightarrow> bytes \<Rightarrow>
      ('g, bytes option \<times> str option) gate_step) option"
  g_ws_inspection_required :: "(str \<Rightarrow> bool) option"
  g_ws_message_denied :: "(proxy_env \<Rightarrow> bytes \<Rightarrow> str option res) option"
  g_response_meter :: "(proxy_env \<Rightarrow> str \<Rightarrow> str option) option"

definition plain_guard ::
  "(proxy_env \<Rightarrow> integration_config \<Rightarrow> str \<Rightarrow> bool res) \<Rightarrow>
   (proxy_env \<Rightarrow> integration_config \<Rightarrow> str \<Rightarrow> str \<Rightarrow> str \<Rightarrow> str \<Rightarrow> headers \<Rightarrow> bytes \<Rightarrow> str option res) \<Rightarrow>
   'g integration_guard" where
  "plain_guard host_ok denied =
     \<lparr>g_host_allowed = host_ok, g_request_denied = denied, g_rewrite_request_headers = None,
      g_gate_response = None, g_ws_inspection_required = None, g_ws_message_denied = None,
      g_response_meter = None\<rparr>"

definition openai_guard :: "'g integration_guard" where
  "openai_guard =
     (plain_guard (\<lambda>E c host. Inr (openai_host_allowed host))
        (\<lambda>E c method host path query headers body.
           openai_request_denied E method host path query headers body))
     \<lparr>g_ws_inspection_required := Some openai_ws_inspection_required,
      g_ws_message_denied := Some openai_ws_message_denied\<rparr>"

definition claude_guard :: "'g integration_guard" where
  "claude_guard =
     plain_guard (\<lambda>E c host. Inr (claude_host_allowed host))
       (\<lambda>E c method host path query headers body.
          case c of
            ClaudeConfig config \<Rightarrow> claude_request_denied E config method host path query headers body
          | _ \<Rightarrow> Inl AttributeError)"

definition bedrock_guard :: "'g integration_guard" where
  "bedrock_guard =
     (plain_guard
        (\<lambda>E c host. case c of BedrockConfig config \<Rightarrow> bedrock_host_allowed E config host | _ \<Rightarrow> Inl AttributeError)
        (\<lambda>E c method host path query headers body.
           case c of
             BedrockConfig config \<Rightarrow> bedrock_request_denied E config method host path query headers
           | _ \<Rightarrow> Inl AttributeError))
     \<lparr>g_rewrite_request_headers := Some bedrock_rewrite_request_headers,
      g_response_meter := Some bedrock_response_meter\<rparr>"

definition github_guard :: "'g integration_guard" where
  "github_guard =
     (plain_guard (\<lambda>E c host. Inr (github_host_allowed host))
        (\<lambda>E c method host path query headers body.
           case c of
             GitHubConfig config \<Rightarrow> github_request_denied E config method host path query body
           | _ \<Rightarrow> Inl AttributeError))
     \<lparr>g_rewrite_request_headers :=
        Some (\<lambda>E method host path query headers body. github_rewrite_request_headers E host headers),
      g_gate_response :=
        Some (\<lambda>E G now push_id c method host path body.
          case c of
            GitHubConfig config \<Rightarrow> gate_response E G now push_id config method host path body
          | _ \<Rightarrow> raise_st AttributeError)\<rparr>"

definition python_guard :: "'g integration_guard" where
  "python_guard =
     plain_guard (\<lambda>E c host. Inr (python_host_allowed host))
       (\<lambda>E c method host path query headers body. Inr (python_request_denied E method host path query))"

definition npm_guard :: "'g integration_guard" where
  "npm_guard =
     plain_guard (\<lambda>E c host. Inr (npm_host_allowed host))
       (\<lambda>E c method host path query headers body. Inr (npm_request_denied E method host path query))"

definition custom_guard :: "'g integration_guard" where
  "custom_guard =
     plain_guard
       (\<lambda>E c host. case c of CustomConfig config \<Rightarrow> Inr (custom_host_allowed config host) | _ \<Rightarrow> Inl AttributeError)
       (\<lambda>E c method host path query headers body.
          case c of
            CustomConfig config \<Rightarrow> Inr (custom_request_denied E config method host path query)
          | _ \<Rightarrow> Inl AttributeError)"

definition GUARDS :: "(str \<times> 'g integration_guard) list" where
  "GUARDS =
     [(S ''openai'', openai_guard), (S ''claude'', claude_guard), (S ''bedrock'', bedrock_guard),
      (S ''github'', github_guard), (S ''python_packages'', python_guard),
      (S ''npm_packages'', npm_guard), (S ''custom'', custom_guard)]"

definition owner_of_host :: "str \<Rightarrow> str" where
  "owner_of_host host = (case managed_domain_owner (lower host) of Some owner \<Rightarrow> owner | None \<Rightarrow> S ''custom'')"

definition selection :: "network_controls \<Rightarrow> str \<Rightarrow> ('g integration_guard \<times> integration_config) res" where
  "selection controls host =
     (case (map_of GUARDS (owner_of_host host), map_of (integrations controls) (owner_of_host host)) of
        (Some guard, Some config) \<Rightarrow> Inr (guard, config)
      | _ \<Rightarrow> Inl KeyError)"

text \<open>The guard's type of git state plays no role in the hooks below; it is fixed to \<open>unit\<close>.\<close>

abbreviation select :: "network_controls \<Rightarrow> str \<Rightarrow> (unit integration_guard \<times> integration_config) res" where
  "select \<equiv> selection"

definition host_allowed :: "proxy_env \<Rightarrow> network_controls \<Rightarrow> str \<Rightarrow> bool res" where
  "host_allowed E controls host =
     bind_res (select controls host) (\<lambda>(guard, config).
       if config_enabled config then g_host_allowed guard E config host else Inr False)"

definition request_denied ::
  "proxy_env \<Rightarrow> network_controls \<Rightarrow> str \<Rightarrow> str \<Rightarrow> str \<Rightarrow> str \<Rightarrow> headers \<Rightarrow> bytes \<Rightarrow> str option res" where
  "request_denied E controls method host path query headers body =
     bind_res (select controls host) (\<lambda>(guard, config).
       if \<not> config_enabled config then Inr (Some (S ''network_policy_denied''))
       else g_request_denied guard E config method host path query headers body)"

definition gate_response_for ::
  "proxy_env \<Rightarrow> 'g git_lib \<Rightarrow> str \<Rightarrow> str \<Rightarrow> network_controls \<Rightarrow> str \<Rightarrow> str \<Rightarrow> str \<Rightarrow> bytes \<Rightarrow>
   ('g, bytes option \<times> str option) gate_step" where
  "gate_response_for E G now push_id controls method host path body =
     bind_st (lift_st (selection controls host)) (\<lambda>(guard, config).
       if \<not> config_enabled config then return_st (None, None)
       else case g_gate_response guard of
              None \<Rightarrow> return_st (None, None)
            | Some gate \<Rightarrow> gate E G now push_id config method host path body)"

definition rewrite_request_headers ::
  "proxy_env \<Rightarrow> network_controls \<Rightarrow> str \<Rightarrow> str \<Rightarrow> str \<Rightarrow> str \<Rightarrow> headers \<Rightarrow> bytes \<Rightarrow> headers res" where
  "rewrite_request_headers E controls method host path query headers body =
     bind_res (select controls host) (\<lambda>(guard, config).
       case g_rewrite_request_headers guard of
         None \<Rightarrow> Inr headers
       | Some rewrite \<Rightarrow> rewrite E method host path query headers body)"

definition response_meter_for :: "proxy_env \<Rightarrow> network_controls \<Rightarrow> str \<Rightarrow> str \<Rightarrow> str option res" where
  "response_meter_for E controls host path =
     bind_res (select controls host) (\<lambda>(guard, config).
       Inr (if \<not> config_enabled config then None
            else case g_response_meter guard of None \<Rightarrow> None | Some meter \<Rightarrow> meter E path))"

definition ws_message_guard ::
  "proxy_env \<Rightarrow> network_controls \<Rightarrow> str \<Rightarrow> (bytes \<Rightarrow> str option res) option res" where
  "ws_message_guard E controls host =
     bind_res (select controls host) (\<lambda>(guard, config).
       Inr (if \<not> config_enabled config then None
            else case (g_ws_inspection_required guard, g_ws_message_denied guard) of
                   (Some required, Some denied) \<Rightarrow> (if required host then Some (denied E) else None)
                 | _ \<Rightarrow> None))"

end
