(* ===== verification/ProxyServe.thy ===== *)
theory ProxyServe
  imports ProxyHttp Dispatch
begin

text \<open>
  The request handler of \<open>network_proxy/service.py\<close>: the CONNECT decision, the denial of
  plain HTTP, and \<open>_serve_tls_request\<close>, which reads one request out of the tunnel, decides,
  logs and forwards it. What the outside world answers is the record \<open>serve_env\<close>: the
  database at the moment of the decision and at the later moment of the header rewrite, name
  resolution, the connection attempts, and the log. An exception that leaves the handler
  closes the connection; it is recorded in the result.
\<close>

record network_event =
  ne_protocol :: str
  ne_method :: str
  ne_host :: str
  ne_port :: int
  ne_path :: str
  ne_query :: str
  ne_allowed :: bool
  ne_reason :: "str option"

record 'g serve_env =
  se_decide :: proxy_env
  se_rewrite :: proxy_env
  se_policy :: "(str \<times> json) list res"          \<comment> \<open>\<open>load_policy()\<close>\<close>
  se_re_ok :: "str \<Rightarrow> bool"                      \<comment> \<open>which patterns \<open>re.compile\<close> accepts\<close>
  se_git :: "'g git_lib"
  se_now :: str
  se_push_id :: str
  se_log_error :: "exn option"                   \<comment> \<open>the event could not be inserted\<close>
  se_resolve :: "str \<Rightarrow> int \<Rightarrow> str list option"  \<comment> \<open>\<open>getaddrinfo\<close>; \<open>None\<close> is a gaierror\<close>
  se_connect_error :: "exn option"               \<comment> \<open>of the TCP connection or the TLS handshake\<close>

subsection \<open>The policy\<close>

definition load_enforcement_policy :: "'g serve_env \<Rightarrow> network_controls option" where
  "load_enforcement_policy X =
     (case se_policy X of
        Inl e \<Rightarrow> None
      | Inr raw \<Rightarrow> (case parse_network_controls (se_re_ok X) raw of Inl e \<Rightarrow> None | Inr c \<Rightarrow> Some c))"

text \<open>Any failure of the load is the denial.\<close>

definition policy_load_denial :: "'g serve_env \<Rightarrow> network_controls option \<times> str option" where
  "policy_load_denial X =
     (case load_enforcement_policy X of
        Some controls \<Rightarrow> (Some controls, None)
      | None \<Rightarrow> (None, Some (S ''network_policy_unavailable'')))"

definition request_denial_reason ::
  "proxy_env \<Rightarrow> network_controls option \<Rightarrow> str \<Rightarrow> str \<Rightarrow> str \<Rightarrow> str \<Rightarrow> headers \<Rightarrow> bytes \<Rightarrow> str option res" where
  "request_denial_reason E policy method host path query headers body =
     (case policy of
        None \<Rightarrow> Inr (Some (S ''network_policy_unavailable''))
      | Some controls \<Rightarrow> request_denied E controls method host path query headers body)"

subsection \<open>Upstream addresses\<close>

definition is_public_ip :: "pylib \<Rightarrow> str \<Rightarrow> bool" where
  "is_public_ip L ip = (ip_version L ip \<noteq> None \<and> ip_is_global L ip)"

text \<open>The address connected to, or the exception.\<close>

definition connect_public :: "'g serve_env \<Rightarrow> str \<Rightarrow> int \<Rightarrow> str res" where
  "connect_public X host port =
     (case se_resolve X host port of
        None \<Rightarrow> Inl (OSError (S ''could not resolve''))
      | Some ips \<Rightarrow>
          (case find_first (\<lambda>ip. \<not> is_public_ip (lib (se_decide X)) ip) ips of
             Some ip \<Rightarrow> Inl (OSError (S ''refusing to connect to non-public address''))
           | None \<Rightarrow>
               (case ips of
                  [] \<Rightarrow> Inl IndexError
                | ip # _ \<Rightarrow> (case se_connect_error X of Some e \<Rightarrow> Inl e | None \<Rightarrow> Inr ip))))"

subsection \<open>CONNECT\<close>

datatype connect_outcome =
    Connect_bad_target
  | Connect_denied str
  | Connect_raised exn
  | Connect_established str int

definition connect_denial :: "'g serve_env \<Rightarrow> str \<Rightarrow> int \<Rightarrow> str option res" where
  "connect_denial X host port =
     (case policy_load_denial X of
        (policy, policy_error) \<Rightarrow>
          if port \<noteq> 443 then Inr (Some (S ''connect_port_denied''))
          else if policy_error \<noteq> None then Inr policy_error
          else (case policy of
                  None \<Rightarrow> Inr (Some (S ''host_not_allowed''))
                | Some controls \<Rightarrow>
                    bind_res (host_allowed (se_decide X) controls host) (\<lambda>ok.
                      Inr (if ok then None else Some (S ''host_not_allowed'')))))"

text \<open>
  The event and the outcome; the certificate of an admitted host and the TLS handshake with
  the client are left out.
\<close>

definition do_CONNECT :: "'g serve_env \<Rightarrow> str \<Rightarrow> network_event list \<times> connect_outcome" where
  "do_CONNECT X authority =
     (case split_host_port authority 443 of
        None \<Rightarrow> ([], Connect_bad_target)
      | Some (host, port) \<Rightarrow>
          (case connect_denial X host port of
             Inl e \<Rightarrow> ([], Connect_raised e)
           | Inr None \<Rightarrow> ([], Connect_established host port)
           | Inr (Some denial) \<Rightarrow>
               (case se_log_error X of
                  Some e \<Rightarrow> ([], Connect_raised e)
                | None \<Rightarrow>
                    ([\<lparr>ne_protocol = S ''https'', ne_method = S ''CONNECT'', ne_host = host, ne_port = port,
                       ne_path = [], ne_query = [], ne_allowed = False, ne_reason = Some denial\<rparr>],
                     Connect_denied denial))))"

subsection \<open>Plain HTTP\<close>

definition py_hostname :: "str \<Rightarrow> str" where
  "py_hostname netloc =
     (case partition1 37 (u_hostname netloc) of
        Some (name, zone) \<Rightarrow> lower name @ [37] @ zone
      | None \<Rightarrow> lower (u_hostname netloc))"

text \<open>\<open>SplitResult.port\<close>: no port, or a number up to 65535; \<open>Inl\<close> is the ValueError.\<close>

definition py_port :: "str \<Rightarrow> int option res" where
  "py_port netloc =
     (let hostinfo = rpart_at netloc;
          port = (case partition1 91 hostinfo of
                    Some (_, bracketed) \<Rightarrow> after1 58 (after1 93 bracketed)
                  | None \<Rightarrow> after1 58 hostinfo)
      in if port = [] then Inr None
         else if list_all (\<lambda>c. 48 \<le> c \<and> c \<le> 57) port
         then (case py_int port of
                 Some p \<Rightarrow> (if 0 \<le> p \<and> p \<le> 65535 then Inr (Some p) else Inl (ValueError (S ''port'')))
               | None \<Rightarrow> Inl (ValueError (S ''port'')))
         else Inl (ValueError (S ''port'')))"

definition plain_http_target :: "pylib \<Rightarrow> str \<Rightarrow> str \<times> int \<times> str \<times> str" where
  "plain_http_target L target =
     (case urlsplit L target of
        None \<Rightarrow> ([], 80, S ''/'', [])
      | Some u \<Rightarrow>
          (case py_port (u_netloc u) of
             Inl _ \<Rightarrow> (py_hostname (u_netloc u), 80, S ''/'', [])
           | Inr port \<Rightarrow>
               (py_hostname (u_netloc u),
                (case port of Some p \<Rightarrow> (if p = 0 then 80 else p) | None \<Rightarrow> 80),
                (if u_path u = [] then S ''/'' else u_path u), u_query u)))"

definition deny_plain_http :: "'g serve_env \<Rightarrow> str \<Rightarrow> str \<Rightarrow> network_event list \<times> str res" where
  "deny_plain_http X command target =
     (case plain_http_target (lib (se_decide X)) target of
        (host, port, path, query) \<Rightarrow>
          (case se_log_error X of
             Some e \<Rightarrow> ([], Inl e)
           | None \<Rightarrow>
               ([\<lparr>ne_protocol = S ''http'', ne_method = command, ne_host = host, ne_port = port,
                  ne_path = path, ne_query = query, ne_allowed = False,
                  ne_reason = Some (S ''plain_http_denied'')\<rparr>], Inr (S ''plain_http_denied''))))"

subsection \<open>One request inside the tunnel\<close>

datatype relay = No_relay | Relay_http "str option" | Relay_websocket bytes

record 'g serve_result =
  sr_events :: "network_event list"
  sr_client :: bytes                \<comment> \<open>the proxy's own answer\<close>
  sr_connected :: "str option"      \<comment> \<open>the upstream address\<close>
  sr_upstream :: bytes              \<comment> \<open>the forwarded request\<close>
  sr_relay :: relay
  sr_world :: "'g gate_world"
  sr_exn :: "exn option"

definition closed :: "'g gate_world \<Rightarrow> exn \<Rightarrow> 'g serve_result" where
  "closed w e = \<lparr>sr_events = [], sr_client = [], sr_connected = None, sr_upstream = [],
                 sr_relay = No_relay, sr_world = w, sr_exn = Some e\<rparr>"

definition forbidden_response :: "str \<Rightarrow> bytes res" where
  "forbidden_response denial =
     bind_res (encode_str denial) (\<lambda>message.
       Inr (concat (map (\<lambda>line. line @ crlf)
              [B ''HTTP/1.1 403 Forbidden'', B ''Connection: close'',
               B ''Content-Length: '' @ bytes_of (str_of_int (int (length message))), []]) @ message))"

text \<open>The path and query the decision is made on, and the denial of a target that is not origin-form.\<close>

definition request_target :: "pylib \<Rightarrow> str \<Rightarrow> (str \<times> str \<times> str option) res" where
  "request_target L target =
     (if startswith target (S ''/'')
      then (case urlsplit L target of
              None \<Rightarrow> Inl (ValueError (S ''urlsplit''))
            | Some u \<Rightarrow> Inr (if u_path u = [] then S ''/'' else u_path u, u_query u, None))
      else Inr (S ''/'', [], Some (S ''request_target_invalid'')))"

definition is_websocket_request :: "headers \<Rightarrow> bool" where
  "is_websocket_request headers =
     list_ex (\<lambda>(key, v). lower key = S ''upgrade'' \<and> lower v = S ''websocket'') headers"

text \<open>The denial chain of the handler, up to the gate.\<close>

definition serve_denial ::
  "'g serve_env \<Rightarrow> str \<Rightarrow> int \<Rightarrow> str \<Rightarrow> headers \<Rightarrow> bytes \<Rightarrow> str option \<Rightarrow> str \<times> str \<times> str option \<Rightarrow> str option res" where
  "serve_denial X host port method headers body body_deny target =
     (case target of
        (path, query, target_denial) \<Rightarrow>
          (case policy_load_denial X of
             (policy, policy_error) \<Rightarrow>
               (case or_else body_deny (or_else target_denial
                       (or_else (host_header_denial headers host port) policy_error)) of
                  Some denial \<Rightarrow> Inr (Some denial)
                | None \<Rightarrow> request_denial_reason (se_decide X) policy method host path query headers body)))"

text \<open>Forwarding an allowed request.\<close>

definition forward_request ::
  "'g serve_env \<Rightarrow> network_controls \<Rightarrow> str \<Rightarrow> int \<Rightarrow> str \<Rightarrow> str \<Rightarrow> str \<Rightarrow> str \<Rightarrow> headers \<Rightarrow> bytes \<Rightarrow> bytes \<Rightarrow>
   'g serve_result \<Rightarrow> 'g serve_result" where
  "forward_request X controls host port method target path query headers body pipelined r =
     (let websocket = is_websocket_request headers
      in case (response_meter_for (se_decide X) controls host path,
               rewrite_request_headers (se_rewrite X) controls method host path query headers body) of
           (Inr meter, Inr headers') \<Rightarrow>
             (case connect_public X host port of
                Inl e \<Rightarrow> r\<lparr>sr_exn := Some e\<rparr>
              | Inr ip \<Rightarrow>
                  (case send_http_request method target headers' body websocket of
                     (sent, Some e) \<Rightarrow> r\<lparr>sr_connected := Some ip, sr_upstream := sent, sr_exn := Some e\<rparr>
                   | (sent, None) \<Rightarrow>
                       r\<lparr>sr_connected := Some ip, sr_upstream := sent,
                         sr_relay := (if websocket then Relay_websocket pipelined else Relay_http meter)\<rparr>))
         | (Inl e, _) \<Rightarrow> r\<lparr>sr_exn := Some e\<rparr>
         | (_, Inl e) \<Rightarrow> r\<lparr>sr_exn := Some e\<rparr>)"

text \<open>The gate, the log entry, and the answer or the forwarding.\<close>

definition decide_request ::
  "'g serve_env \<Rightarrow> str \<Rightarrow> int \<Rightarrow> str \<Rightarrow> str \<Rightarrow> str \<Rightarrow> str \<Rightarrow> headers \<Rightarrow> bytes \<Rightarrow> bytes \<Rightarrow> str option \<Rightarrow>
   'g gate_world \<Rightarrow> 'g serve_result" where
  "decide_request X host port method target path query headers body pipelined denial0 w =
     (case (denial0, load_enforcement_policy X) of
        (None, None) \<Rightarrow> closed w AssertionError
      | (_, policy) \<Rightarrow>
          (case (case policy of
                   Some controls \<Rightarrow>
                     (if denial0 = None
                      then gate_response_for (se_decide X) (se_git X) (se_now X) (se_push_id X)
                             controls method host path body w
                      else (w, Inr (None, denial0)))
                 | None \<Rightarrow> (w, Inr (None, denial0))) of
             (w', Inl e) \<Rightarrow> closed w' e
           | (w', Inr (gate_answer, denial)) \<Rightarrow>
               (case se_log_error X of
                  Some e \<Rightarrow> closed w' e
                | None \<Rightarrow>
                    let r = \<lparr>sr_events =
                               [\<lparr>ne_protocol = (if is_websocket_request headers then S ''wss'' else S ''https''),
                                 ne_method = method, ne_host = host, ne_port = port, ne_path = path,
                                 ne_query = query, ne_allowed = (denial = None), ne_reason = denial\<rparr>],
                             sr_client = [], sr_connected = None, sr_upstream = [], sr_relay = No_relay,
                             sr_world = w', sr_exn = None\<rparr>
                    in (case (gate_answer, denial, policy) of
                          (Some answer, _, _) \<Rightarrow> r\<lparr>sr_client := answer\<rparr>
                        | (None, Some code, _) \<Rightarrow>
                            (case forbidden_response code of
                               Inl e \<Rightarrow> r\<lparr>sr_exn := Some e\<rparr>
                             | Inr response \<Rightarrow> r\<lparr>sr_client := response\<rparr>)
                        | (None, None, Some controls) \<Rightarrow>
                            forward_request X controls host port method target path query headers body pipelined r
                        | (None, None, None) \<Rightarrow> r\<lparr>sr_exn := Some AssertionError\<rparr>))))"

definition serve_tls_request ::
  "'g serve_env \<Rightarrow> str \<Rightarrow> int \<Rightarrow> reader \<Rightarrow> 'g gate_world \<Rightarrow> 'g serve_result" where
  "serve_tls_request X host port rd w =
     (case read_request_head rd of
        Inl e \<Rightarrow> closed w e
      | Inr ((method, target, headers), rd1) \<Rightarrow>
          (case request_target (lib (se_decide X)) target of
             Inl e \<Rightarrow> closed w e
           | Inr (path, query, target_denial) \<Rightarrow>
               (case read_body rd1 headers of
                  Inl e \<Rightarrow> closed w e
                | Inr ((body, body_deny), rd2) \<Rightarrow>
                    (case serve_denial X host port method headers body body_deny (path, query, target_denial) of
                       Inl e \<Rightarrow> closed w e
                     | Inr denial \<Rightarrow>
                         decide_request X host port method target path query headers body
                           (fst (drain rd2)) denial w))))"

subsection \<open>What a forwarded request has passed\<close>

definition request_passed ::
  "'g serve_env \<Rightarrow> str \<Rightarrow> int \<Rightarrow> str \<Rightarrow> headers \<Rightarrow> bytes \<Rightarrow> str \<Rightarrow> str \<Rightarrow> network_controls \<Rightarrow>
   'g gate_world \<Rightarrow> bool" where
  "request_passed X host port method headers body path query controls w \<longleftrightarrow>
     load_enforcement_policy X = Some controls
     \<and> host_header_denial headers host port = None
     \<and> request_denied (se_decide X) controls method host path query headers body = Inr None
     \<and> (\<exists>w'. gate_response_for (se_decide X) (se_git X) (se_now X) (se_push_id X) controls method host path
               body w = (w', Inr (None, None)))"

lemma connect_public_vetted:
  "connect_public X host port = Inr ip \<Longrightarrow>
   (\<exists>ips. se_resolve X host port = Some ips \<and> hd ips = ip \<and> ip \<in> set ips
      \<and> (\<forall>i \<in> set ips. is_public_ip (lib (se_decide X)) i))"
  by (auto simp: connect_public_def find_first_None split: option.splits list.splits)

lemma forward_request_events [simp]:
  "sr_events (forward_request X controls host port method target path query headers body pip r) = sr_events r"
  "sr_client (forward_request X controls host port method target path query headers body pip r) = sr_client r"
  "sr_world (forward_request X controls host port method target path query headers body pip r) = sr_world r"
  by (auto simp: forward_request_def Let_def split: sum.splits prod.splits option.splits)

lemma forward_request_connected:
  assumes "sr_connected (forward_request X controls host port method target path query headers body pip r) = Some ip"
    and "sr_connected r = None"
  shows "\<exists>ips. se_resolve X host port = Some ips \<and> hd ips = ip \<and> ip \<in> set ips
      \<and> (\<forall>i \<in> set ips. is_public_ip (lib (se_decide X)) i)"
proof -
  from assms have "connect_public X host port = Inr ip"
    by (auto simp: forward_request_def Let_def split: sum.splits prod.splits option.splits)
  then show ?thesis by (rule connect_public_vetted)
qed

lemma forward_request_unconnected:
  "sr_connected (forward_request X controls host port method target path query headers body pip r) = None
   \<Longrightarrow> sr_upstream r = [] \<Longrightarrow>
   sr_upstream (forward_request X controls host port method target path query headers body pip r) = []"
  by (auto simp: forward_request_def Let_def split: sum.splits prod.splits option.splits)

lemma policy_load_denial_None:
  "policy_load_denial X = (p, None) \<longleftrightarrow> (\<exists>c. load_enforcement_policy X = Some c \<and> p = Some c)"
  by (auto simp: policy_load_denial_def split: option.splits)

lemma serve_denial_None:
  "serve_denial X host port method headers body body_deny (path, query, target_denial) = Inr None \<Longrightarrow>
   body_deny = None \<and> target_denial = None \<and> host_header_denial headers host port = None
   \<and> (\<exists>c. load_enforcement_policy X = Some c
        \<and> request_denied (se_decide X) c method host path query headers body = Inr None)"
  by (auto simp: serve_denial_def policy_load_denial_def request_denial_reason_def split: option.splits)

lemma decide_request_connected:
  assumes "sr_connected (decide_request X host port method target path query headers body pip denial w) = Some ip"
  shows "denial = None \<and>
    (\<exists>controls w' r. load_enforcement_policy X = Some controls
       \<and> gate_response_for (se_decide X) (se_git X) (se_now X) (se_push_id X) controls method host path body w
           = (w', Inr (None, None))
       \<and> decide_request X host port method target path query headers body pip denial w
           = forward_request X controls host port method target path query headers body pip r
       \<and> sr_connected r = None \<and> map ne_allowed (sr_events r) = [True])"
  using assms
  by (auto simp: decide_request_def closed_def Let_def
      split: option.splits sum.splits prod.splits if_splits)

text \<open>The request as the handler read it: head, target, and body without a framing error.\<close>

definition request_read ::
  "'g serve_env \<Rightarrow> reader \<Rightarrow> str \<Rightarrow> str \<Rightarrow> headers \<Rightarrow> str \<Rightarrow> str \<Rightarrow> bytes \<Rightarrow> bool" where
  "request_read X rd method target headers path query body \<longleftrightarrow>
     (\<exists>rd1 rd2. read_request_head rd = Inr ((method, target, headers), rd1)
        \<and> request_target (lib (se_decide X)) target = Inr (path, query, None)
        \<and> read_body rd1 headers = Inr ((body, None), rd2))"

definition vetted_address :: "'g serve_env \<Rightarrow> str \<Rightarrow> int \<Rightarrow> str \<Rightarrow> bool" where
  "vetted_address X host port ip \<longleftrightarrow>
     (\<exists>ips. se_resolve X host port = Some ips \<and> ip \<in> set ips
        \<and> (\<forall>i \<in> set ips. is_public_ip (lib (se_decide X)) i))"

text \<open>
  C1. The proxy connects upstream only for a request it has read completely, whose policy
  was loaded and is valid, whose Host header names the tunnel's host, which the integration
  that owns the host allowed, and which the push gate let through; the allow decision is
  logged before; and every address the host resolves to is publicly routable.
\<close>

theorem serve_forwards_only_allowed:
  assumes "sr_connected (serve_tls_request X host port rd w) = Some ip"
  shows "vetted_address X host port ip
    \<and> map ne_allowed (sr_events (serve_tls_request X host port rd w)) = [True]
    \<and> (\<exists>method target headers path query body controls.
         request_read X rd method target headers path query body
         \<and> request_passed X host port method headers body path query controls w)"
proof -
  let ?r = "serve_tls_request X host port rd w"
  from assms obtain m tg hs rd1 path query td body bd rd2 denial where
    head: "read_request_head rd = Inr ((m, tg, hs), rd1)"
    and tgt: "request_target (lib (se_decide X)) tg = Inr (path, query, td)"
    and body: "read_body rd1 hs = Inr ((body, bd), rd2)"
    and denial: "serve_denial X host port m hs body bd (path, query, td) = Inr denial"
    and r: "?r = decide_request X host port m tg path query hs body (fst (drain rd2)) denial w"
    by (auto simp: serve_tls_request_def closed_def split: sum.splits prod.splits)
  note dec = decide_request_connected [OF assms [unfolded r]]
  from dec obtain controls w' r0 where
    c: "denial = None" "load_enforcement_policy X = Some controls"
    and gate: "gate_response_for (se_decide X) (se_git X) (se_now X) (se_push_id X) controls m host path
                 body w = (w', Inr (None, None))"
    and f: "?r = forward_request X controls host port m tg path query hs body (fst (drain rd2)) r0"
      "sr_connected r0 = None" "map ne_allowed (sr_events r0) = [True]"
    by (auto simp: r)
  from serve_denial_None [OF denial [unfolded c(1)]] c(2) have
    "bd = None" "td = None" "host_header_denial hs host port = None"
    "request_denied (se_decide X) controls m host path query hs body = Inr None"
    by auto
  with head tgt body c gate have
    "request_read X rd m tg hs path query body"
    "request_passed X host port m hs body path query controls w"
    by (auto simp: request_read_def request_passed_def)
  moreover have "vetted_address X host port ip"
    using forward_request_connected [OF assms [unfolded f(1)] f(2)] by (auto simp: vetted_address_def)
  moreover have "map ne_allowed (sr_events ?r) = [True]" using f by simp
  ultimately show ?thesis by blast
qed

text \<open>
  C25. When the policy cannot be loaded or is not valid, the handler forwards nothing: no
  connection is made, no byte is sent upstream, no push is queued, and no event says allowed.
\<close>

theorem serve_fails_closed:
  assumes "load_enforcement_policy X = None"
  shows "sr_connected (serve_tls_request X host port rd w) = None
    \<and> sr_upstream (serve_tls_request X host port rd w) = []
    \<and> sr_relay (serve_tls_request X host port rd w) = No_relay
    \<and> sr_world (serve_tls_request X host port rd w) = w
    \<and> list_all (\<lambda>e. \<not> ne_allowed e) (sr_events (serve_tls_request X host port rd w))"
proof -
  have "denial \<noteq> None"
    if "serve_denial X host port m hs body bd (path, query, td) = Inr denial"
    for m hs body bd path query td denial
  proof
    assume "denial = None"
    with that have "serve_denial X host port m hs body bd (path, query, td) = Inr None"
      by simp
    then show False by (auto dest!: serve_denial_None simp: assms)
  qed
  then show ?thesis using assms
    by (auto simp: serve_tls_request_def closed_def decide_request_def Let_def
        split: sum.splits prod.splits option.splits)
qed


subsection \<open>A request to run\<close>

definition demo_env :: proxy_env where
  "demo_env = \<lparr>lib = plain_pylib\<lparr>ip_version := (\<lambda>_. Some 4), ip_is_global := (\<lambda>_. True)\<rparr>,
     word_lists = no_words, zlib = copy_zlib, loads = (\<lambda>_. Inl JSONDecodeError), sha256 = (\<lambda>_. []),
     operator_fullmatch = (\<lambda>_ _. False), pin_row = (\<lambda>_. Inr None), github_token = Inr None,
     bedrock_credential = Inr None\<rparr>"

definition demo_git :: "unit git_lib" where
  "demo_git = \<lparr>run_process = (\<lambda>g _ _ _. (g, None)), path_exists = (\<lambda>_ _. False), db_error = None\<rparr>"

definition demo_world :: "unit gate_world" where
  "demo_world = \<lparr>git = (), pending_pushes = []\<rparr>"

definition demo_policy :: "(str \<times> json) list" where
  "demo_policy = [(S ''network_integrations'', JObj [(S ''npm_packages'', JObj [(S ''enabled'', JBool True)])])]"

definition demo_serve :: "(str \<times> json) list res \<Rightarrow> unit serve_env" where
  "demo_serve policy = \<lparr>se_decide = demo_env, se_rewrite = demo_env, se_policy = policy,
     se_re_ok = (\<lambda>_. True), se_git = demo_git, se_now = [], se_push_id = [], se_log_error = None,
     se_resolve = (\<lambda>_ _. Some [S ''104.16.0.1'']), se_connect_error = None\<rparr>"

definition demo_request :: reader where
  "demo_request = \<lparr>rd_buffer = [], rd_input =
     [Data (B ''GET /left-pad/-/left-pad-1.0.tgz HTTP/1.1'' @ crlf @ B ''Host: registry.npmjs.org'' @ crlf @ crlf)]\<rparr>"

abbreviation demo_result :: "(str \<times> json) list res \<Rightarrow> unit serve_result" where
  "demo_result policy \<equiv>
     serve_tls_request (demo_serve policy) (S ''registry.npmjs.org'') 443 demo_request demo_world"

lemma demo_connected: "sr_connected (demo_result (Inr demo_policy)) = Some (S ''104.16.0.1'')"
  by code_simp

lemma demo_no_policy: "load_enforcement_policy (demo_serve (Inl (OSError []))) = None"
  by code_simp

theorem serve_forwards_only_allowed_witness:
  "vetted_address (demo_serve (Inr demo_policy)) (S ''registry.npmjs.org'') 443 (S ''104.16.0.1'')
   \<and> map ne_allowed (sr_events (demo_result (Inr demo_policy))) = [True]
   \<and> (\<exists>method target headers path query body controls.
        request_read (demo_serve (Inr demo_policy)) demo_request method target headers path query body
        \<and> request_passed (demo_serve (Inr demo_policy)) (S ''registry.npmjs.org'') 443 method headers body
            path query controls demo_world)"
  by (rule serve_forwards_only_allowed [OF demo_connected])

theorem serve_fails_closed_witness:
  "sr_connected (demo_result (Inl (OSError []))) = None
   \<and> sr_upstream (demo_result (Inl (OSError []))) = []
   \<and> sr_relay (demo_result (Inl (OSError []))) = No_relay
   \<and> sr_world (demo_result (Inl (OSError []))) = demo_world
   \<and> list_all (\<lambda>e. \<not> ne_allowed e) (sr_events (demo_result (Inl (OSError []))))"
  by (rule serve_fails_closed [OF demo_no_policy])


end
