(* ===== verification/PendingPush.thy ===== *)
theory PendingPush
  imports PushGate
begin

text \<open>
  The resolution of held pushes: the root helper \<open>push_gate/approve.py\<close>, which replays the
  quarantined objects to GitHub, and the operator's actions of \<open>push_gate/pending.py\<close> with
  the row update of \<open>state.resolve_pending_push\<close>. The helper's exit with an error message is
  the exception \<open>RuntimeError\<close> of \<open>approve_main\<close>. A fault of the process that runs the helper
  is an argument: it did not start, or its answer was lost after it ran.
\<close>

subsection \<open>The root helper\<close>

definition PUSH_ID_RE :: rx where
  "PUSH_ID_RE = seqs [Bol, Greedy 6 64 (Cls (Union (Range 97 102) (Range 48 57))), Eol]"

abbreviation fail_st :: "string \<Rightarrow> ('g, 'a) gate_step" where
  "fail_st m \<equiv> raise_st (RuntimeError (S m))"

text \<open>\<open>_run\<close>: only a process that could not be run fails; the exit code is the caller's.\<close>

definition helper_git ::
  "'g git_lib \<Rightarrow> str \<Rightarrow> str list \<Rightarrow> str option \<Rightarrow> ('g, int \<times> bytes) gate_step" where
  "helper_git G repo_dir args token w =
     (case run_process G (git w) ([S ''-c'', S ''safe.directory='' @ repo_dir, S ''-C'', repo_dir] @ args) None token of
        (g, Some result) \<Rightarrow> (w\<lparr>git := g\<rparr>, Inr result)
      | (g, None) \<Rightarrow> (w\<lparr>git := g\<rparr>, Inl (RuntimeError (S ''git invocation failed''))))"

definition pending_refs :: "'g git_lib \<Rightarrow> str \<Rightarrow> str \<Rightarrow> ('g, str list) gate_step" where
  "pending_refs G repo_dir push_id =
     bind_st (helper_git G repo_dir
       [S ''for-each-ref'', S ''--format=%(refname)'', S ''refs/pending/'' @ push_id @ S ''/''] None)
       (\<lambda>(code, out). if code \<noteq> 0 then fail_st ''could not list pending refs'' else return_st (output_lines out))"

definition rev_parse :: "'g git_lib \<Rightarrow> str \<Rightarrow> str \<Rightarrow> ('g, str option) gate_step" where
  "rev_parse G repo_dir ref =
     bind_st (helper_git G repo_dir [S ''rev-parse'', S ''--verify'', S ''--quiet'', ref] None)
       (\<lambda>(code, out). return_st (if code = 0 then Some (strip (ascii_replace out)) else None))"

fun delete_pending_refs :: "'g git_lib \<Rightarrow> str \<Rightarrow> str list \<Rightarrow> ('g, unit) gate_step" where
  "delete_pending_refs G repo_dir [] = return_st ()"
| "delete_pending_refs G repo_dir (ref # refs) =
     bind_st (helper_git G repo_dir [S ''update-ref'', S ''-d'', ref] None) (\<lambda>_.
       delete_pending_refs G repo_dir refs)"

definition lease :: "str \<Rightarrow> str \<Rightarrow> str" where
  "lease ref old = S ''--force-with-lease='' @ ref @ S '':'' @ (if old = ZERO_OID then [] else old)"

fun check_updates ::
  "'g git_lib \<Rightarrow> str \<Rightarrow> str \<Rightarrow> nat \<Rightarrow> json list \<Rightarrow> ('g, (str \<times> str) list) gate_step" where
  "check_updates G repo_dir push_id index [] = return_st []"
| "check_updates G repo_dir push_id index (update # updates) =
     (case update of
        JObj kvs \<Rightarrow>
          (case (jget kvs (S ''ref''), jget kvs (S ''old''), jget kvs (S ''new'')) of
             (JStr ref, JStr old, JStr new) \<Rightarrow>
               if \<not> valid_ref_name ref then fail_st ''ref_updates[].ref must be a refs/heads or refs/tags name''
               else if \<not> valid_oid old then fail_st ''ref_updates[].old must be an object id''
               else if \<not> valid_oid new then fail_st ''ref_updates[].new must be an object id''
               else if new = ZERO_OID
               then bind_st (check_updates G repo_dir push_id (Suc index) updates) (\<lambda>rest.
                      return_st ((lease ref old, S '':'' @ ref) # rest))
               else let pending = pending_ref push_id index
               in bind_st (rev_parse G repo_dir pending) (\<lambda>tip.
                    if tip \<noteq> Some new then fail_st ''quarantined ref does not match the approved commit''
                    else bind_st (check_updates G repo_dir push_id (Suc index) updates) (\<lambda>rest.
                      return_st ((lease ref old, pending @ S '':'' @ ref) # rest)))
           | _ \<Rightarrow> fail_st ''ref_updates entries are malformed'')
      | _ \<Rightarrow> fail_st ''ref_updates entries must be objects'')"

definition approve_main :: "'g git_lib \<Rightarrow> (str \<times> json) list \<Rightarrow> ('g, unit) gate_step" where
  "approve_main G payload =
     (let action = (case map_of payload (S ''action'') of Some a \<Rightarrow> a | None \<Rightarrow> JStr (S ''approve''))
      in if action \<noteq> JStr (S ''approve'') \<and> action \<noteq> JStr (S ''cleanup'')
         then fail_st ''action must be approve or cleanup''
         else case (jget payload (S ''owner''), jget payload (S ''repo''), jget payload (S ''push_id'')) of
           (JStr owner, JStr repo, JStr push_id) \<Rightarrow>
             if \<not> rx_fullmatch (\<lambda>_. False) GITHUB_OWNER_RE owner then fail_st ''owner is not a valid GitHub owner''
             else if \<not> rx_fullmatch (\<lambda>_. False) GITHUB_REPO_RE repo
             then fail_st ''repo is not a valid GitHub repository name''
             else if \<not> rx_fullmatch (\<lambda>_. False) PUSH_ID_RE push_id then fail_st ''push_id is invalid''
             else let token = (case jget payload (S ''token'') of
                                 JStr t \<Rightarrow> (if t = [] \<or> list_ex is_space t then None else Some t)
                               | _ \<Rightarrow> None);
                      repo_dir = mirror_path owner repo
             in if action = JStr (S ''approve'') \<and> token = None then fail_st ''token is required''
                else (\<lambda>w.
                  if \<not> path_exists G (git w) (repo_dir @ S ''/HEAD'')
                  then fail_st ''quarantine mirror is missing (the held objects are gone)'' w
                  else bind_st (pending_refs G repo_dir push_id) (\<lambda>refs.
                    if action = JStr (S ''cleanup'') then delete_pending_refs G repo_dir refs
                    else case jget payload (S ''ref_updates'') of
                      JList (u # us) \<Rightarrow>
                        bind_st (check_updates G repo_dir push_id 0 (u # us)) (\<lambda>specs.
                        bind_st (helper_git G repo_dir
                                   ([S ''push'', S ''--atomic''] @ map fst specs @ [repo_url owner repo] @ map snd specs)
                                   token) (\<lambda>(code, out).
                          if code \<noteq> 0 then fail_st ''git push was rejected''
                          else delete_pending_refs G repo_dir refs))
                    | _ \<Rightarrow> fail_st ''ref_updates must be a non-empty array'') w)
         | _ \<Rightarrow> fail_st ''owner, repo or push_id is not a string'')"

subsection \<open>The operator's actions\<close>

datatype helper_fault = No_fault | Not_started str | Answer_lost str

text \<open>\<open>_run_helper_json\<close>: \<open>Inl\<close> is the \<open>HelperError\<close> with its message.\<close>

definition run_helper ::
  "'g git_lib \<Rightarrow> helper_fault \<Rightarrow> (str \<times> json) list \<Rightarrow> 'g gate_world \<Rightarrow> 'g gate_world \<times> (str + unit)" where
  "run_helper G fault payload w =
     (case fault of
        Not_started m \<Rightarrow> (w, Inl m)
      | Answer_lost m \<Rightarrow> (fst (approve_main G payload w), Inl m)
      | No_fault \<Rightarrow>
          (case approve_main G payload w of
             (w', Inr _) \<Rightarrow> (w', Inr ())
           | (w', Inl (RuntimeError m)) \<Rightarrow> (w', Inl m)
           | (w', Inl _) \<Rightarrow> (w', Inl (S ''approve-github-push failed''))))"

datatype pending_push_error =
    Resolution_in_progress
  | Push_not_found
  | Already_resolved push_status
  | Replay_failed str
  | State_error exn

definition get_pending_push :: "str \<Rightarrow> 'g gate_world \<Rightarrow> pending_push option" where
  "get_pending_push push_id w = find_first (\<lambda>r. pp_id r = push_id) (pending_pushes w)"

definition require_pending :: "str \<Rightarrow> 'g gate_world \<Rightarrow> pending_push_error + pending_push" where
  "require_pending push_id w =
     (case get_pending_push push_id w of
        None \<Rightarrow> Inl Push_not_found
      | Some row \<Rightarrow> if pp_status row \<noteq> Pending then Inl (Already_resolved (pp_status row)) else Inr row)"

definition ref_update_json :: "str \<times> str \<times> str \<Rightarrow> json" where
  "ref_update_json u =
     (case u of (old, new, ref) \<Rightarrow> JObj [(S ''old'', JStr old), (S ''new'', JStr new), (S ''ref'', JStr ref)])"

definition helper_payload :: "pending_push \<Rightarrow> str \<Rightarrow> str \<Rightarrow> str option \<Rightarrow> (str \<times> json) list" where
  "helper_payload row push_id action token =
     [(S ''owner'', JStr (pp_owner row)), (S ''repo'', JStr (pp_repo row)),
      (S ''push_id'', JStr push_id), (S ''action'', JStr action)]
     @ (if action = S ''approve''
        then [(S ''ref_updates'', JList (map ref_update_json (pp_ref_updates row)))]
             @ (case token of Some t \<Rightarrow> [(S ''token'', JStr t)] | None \<Rightarrow> [])
        else [])"

definition cleanup_pending_refs ::
  "'g git_lib \<Rightarrow> helper_fault \<Rightarrow> pending_push \<Rightarrow> str \<Rightarrow> 'g gate_world \<Rightarrow> 'g gate_world" where
  "cleanup_pending_refs G fault row push_id w =
     fst (run_helper G fault (helper_payload row push_id (S ''cleanup'') None) w)"

definition mark_resolved :: "str \<Rightarrow> push_status \<Rightarrow> str option \<Rightarrow> pending_push \<Rightarrow> pending_push" where
  "mark_resolved now status detail row =
     row\<lparr>pp_status := status, pp_resolved_at := Some now,
         pp_detail := (case detail of Some d \<Rightarrow> (if d = [] then None else Some d) | None \<Rightarrow> None)\<rparr>"

definition resolve_pending_push ::
  "str \<Rightarrow> str \<Rightarrow> push_status \<Rightarrow> str option \<Rightarrow> 'g gate_world \<Rightarrow>
   'g gate_world \<times> (pending_push_error + pending_push)" where
  "resolve_pending_push now push_id status detail w =
     (let hit = (\<lambda>r. pp_id r = push_id \<and> pp_status r = Pending);
          rows = map (\<lambda>r. if hit r then mark_resolved now status detail r else r) (pending_pushes w)
      in case find_first hit (pending_pushes w) of
           None \<Rightarrow> (w, Inl (State_error (RuntimeError (S ''pending push vanished mid-resolve''))))
         | Some row \<Rightarrow> (w\<lparr>pending_pushes := rows\<rparr>, Inr (mark_resolved now status detail row)))"

text \<open>
  The lock is taken or the action is refused; \<open>faults\<close> are those of the replay and of the
  cleanup.
\<close>

definition approve_push ::
  "proxy_env \<Rightarrow> 'g git_lib \<Rightarrow> bool \<Rightarrow> helper_fault \<times> helper_fault \<Rightarrow> str \<Rightarrow> str \<Rightarrow> 'g gate_world \<Rightarrow>
   'g gate_world \<times> (pending_push_error + pending_push)" where
  "approve_push E G lock_free faults now push_id w =
     (if \<not> lock_free then (w, Inl Resolution_in_progress)
      else case require_pending push_id w of
        Inl e \<Rightarrow> (w, Inl e)
      | Inr row \<Rightarrow>
          let fail = (\<lambda>w' detail stored.
                let w2 = cleanup_pending_refs G (snd faults) row push_id w'
                in case resolve_pending_push now push_id Failed (Some stored) w2 of
                     (w3, Inl e) \<Rightarrow> (w3, Inl e)
                   | (w3, Inr _) \<Rightarrow> (w3, Inl (Replay_failed detail)));
              no_token = S ''no working GitHub token is available to replay the push''
          in case github_token E of
               Inl e \<Rightarrow> (w, Inl (State_error e))
             | Inr None \<Rightarrow> fail w no_token no_token
             | Inr (Some token) \<Rightarrow>
                 if token = [] then fail w no_token no_token
                 else (case run_helper G (fst faults) (helper_payload row push_id (S ''approve'') (Some token)) w of
                         (w', Inl m) \<Rightarrow>
                           (let detail = S ''replay to GitHub failed: '' @ m in fail w' detail (take 500 detail))
                       | (w', Inr _) \<Rightarrow> resolve_pending_push now push_id Approved None w'))"

definition reject_push ::
  "'g git_lib \<Rightarrow> bool \<Rightarrow> helper_fault \<Rightarrow> str \<Rightarrow> str \<Rightarrow> 'g gate_world \<Rightarrow>
   'g gate_world \<times> (pending_push_error + pending_push)" where
  "reject_push G lock_free fault now push_id w =
     (if \<not> lock_free then (w, Inl Resolution_in_progress)
      else case require_pending push_id w of
        Inl e \<Rightarrow> (w, Inl e)
      | Inr row \<Rightarrow> resolve_pending_push now push_id Rejected None (cleanup_pending_refs G fault row push_id w))"

end
