(* ===== verification/Txn.thy ===== *)
theory Txn
  imports Prelude
begin

text \<open>
  Database transactions. The admin service writes its state only inside
  \<open>state.mutation()\<close>: one process-wide lock around one database transaction, rolled back
  when an exception leaves the block. A block is a state transformer over the tables that
  either fails or returns a value with the tables it leaves; \<open>mutation\<close> runs it, keeping the
  tables unchanged when it fails. The lemmas about \<open>keeps\<close> and \<open>relates\<close> carry invariants and
  transition relations over composed blocks.
\<close>

text \<open>\<open>Api_error\<close> is the HTTP status of an \<open>ApiError\<close>; \<open>Raised\<close> is any other exception.\<close>

datatype fault = Api_error nat | Raised exn

type_synonym ('s, 'a) txn = "'s \<Rightarrow> fault + 'a \<times> 's"

abbreviation bad_request :: fault where "bad_request \<equiv> Api_error 400"
abbreviation not_found :: fault where "not_found \<equiv> Api_error 404"
abbreviation conflict :: fault where "conflict \<equiv> Api_error 409"

text \<open>What the database raises when a statement breaks a constraint of the schema.\<close>

abbreviation constraint_violation :: fault where
  "constraint_violation \<equiv> Raised (RuntimeError (S ''constraint violation''))"

definition ok :: "'a \<Rightarrow> ('s, 'a) txn" where
  "ok a = (\<lambda>s. Inr (a, s))"

definition abort :: "fault \<Rightarrow> ('s, 'a) txn" where
  "abort f = (\<lambda>s. Inl f)"

definition bind_txn :: "('s, 'a) txn \<Rightarrow> ('a \<Rightarrow> ('s, 'b) txn) \<Rightarrow> ('s, 'b) txn" where
  "bind_txn m k = (\<lambda>s. case m s of Inl f \<Rightarrow> Inl f | Inr (a, s') \<Rightarrow> k a s')"

definition then_txn :: "('s, 'a) txn \<Rightarrow> ('s, 'b) txn \<Rightarrow> ('s, 'b) txn" where
  "then_txn m k = bind_txn m (\<lambda>_. k)"

definition select :: "('s \<Rightarrow> 'a) \<Rightarrow> ('s, 'a) txn" where
  "select f = (\<lambda>s. Inr (f s, s))"

definition modify :: "('s \<Rightarrow> 's) \<Rightarrow> ('s, unit) txn" where
  "modify f = (\<lambda>s. Inr ((), f s))"

definition require :: "bool \<Rightarrow> fault \<Rightarrow> ('s, unit) txn" where
  "require b f = (if b then ok () else abort f)"

definition lift_txn :: "fault + 'a \<Rightarrow> ('s, 'a) txn" where
  "lift_txn r = (case r of Inl f \<Rightarrow> abort f | Inr a \<Rightarrow> ok a)"

fun each_txn :: "('a \<Rightarrow> ('s, unit) txn) \<Rightarrow> 'a list \<Rightarrow> ('s, unit) txn" where
  "each_txn f [] = ok ()"
| "each_txn f (x # xs) = then_txn (f x) (each_txn f xs)"

definition mutation :: "('s, 'a) txn \<Rightarrow> 's \<Rightarrow> (fault + 'a) \<times> 's" where
  "mutation m s = (case m s of Inl f \<Rightarrow> (Inl f, s) | Inr (a, s') \<Rightarrow> (Inr a, s'))"

subsection \<open>What a block that succeeds has done\<close>

named_theorems txn_simps \<open>the successful runs of a block\<close>

lemma ok_Inr [txn_simps]: "ok a s = Inr (b, s') \<longleftrightarrow> b = a \<and> s' = s"
  by (auto simp: ok_def)

lemma abort_Inr [txn_simps]: "abort f s = Inr (b, s') \<longleftrightarrow> False"
  by (simp add: abort_def)

lemma bind_txn_Inr [txn_simps]:
  "bind_txn m k s = Inr (b, s'') \<longleftrightarrow> (\<exists>a s'. m s = Inr (a, s') \<and> k a s' = Inr (b, s''))"
  by (auto simp: bind_txn_def split: sum.splits)

lemma then_txn_Inr [txn_simps]:
  "then_txn m k s = Inr (b, s'') \<longleftrightarrow> (\<exists>a s'. m s = Inr (a, s') \<and> k s' = Inr (b, s''))"
  by (simp add: then_txn_def bind_txn_Inr)

lemma select_Inr [txn_simps]: "select f s = Inr (b, s') \<longleftrightarrow> b = f s \<and> s' = s"
  by (auto simp: select_def)

lemma modify_Inr [txn_simps]: "modify f s = Inr (b, s') \<longleftrightarrow> s' = f s"
  by (auto simp: modify_def)

lemma require_Inr [txn_simps]: "require c f s = Inr (b, s') \<longleftrightarrow> c \<and> s' = s"
  by (auto simp: require_def ok_def abort_def)

lemma lift_txn_Inr [txn_simps]: "lift_txn r s = Inr (a, s') \<longleftrightarrow> r = Inr a \<and> s' = s"
  by (auto simp: lift_txn_def ok_def abort_def split: sum.splits)

lemma mutation_Inr: "mutation m s = (Inr a, s') \<longleftrightarrow> m s = Inr (a, s')"
  by (auto simp: mutation_def split: sum.splits)

lemma mutation_Inl: "mutation m s = (Inl f, s') \<longleftrightarrow> m s = Inl f \<and> s' = s"
  by (auto simp: mutation_def split: sum.splits)

subsection \<open>Relations that every block respects\<close>

text \<open>\<open>relates R m\<close>: whatever state \<open>m\<close> succeeds in, it moves along \<open>R\<close>.\<close>

definition relates :: "('s \<Rightarrow> 's \<Rightarrow> bool) \<Rightarrow> ('s, 'a) txn \<Rightarrow> bool" where
  "relates R m \<longleftrightarrow> (\<forall>s a s'. m s = Inr (a, s') \<longrightarrow> R s s')"

lemma relatesI: "(\<And>s a s'. m s = Inr (a, s') \<Longrightarrow> R s s') \<Longrightarrow> relates R m"
  by (auto simp: relates_def)

lemma relatesD: "relates R m \<Longrightarrow> m s = Inr (a, s') \<Longrightarrow> R s s'"
  by (auto simp: relates_def)

lemma relates_bind:
  assumes "transp R" "relates R m" "\<And>a. relates R (k a)"
  shows "relates R (bind_txn m k)"
  using assms unfolding relates_def bind_txn_Inr transp_def by blast

lemma relates_then:
  assumes "transp R" "relates R m" "relates R k"
  shows "relates R (then_txn m k)"
  using assms unfolding then_txn_def by (intro relates_bind) auto

lemma relates_pure:
  assumes "reflp R"
  shows "relates R (ok a)" "relates R (abort f)" "relates R (select g)" "relates R (require c f)"
    "relates R (lift_txn r)"
  using assms by (auto simp: relates_def txn_simps reflp_def)

lemma relates_each:
  assumes "transp R" "reflp R" "\<And>x. relates R (f x)"
  shows "relates R (each_txn f xs)"
  by (induction xs) (auto intro: relates_then relates_pure assms)

lemma relates_mutation:
  assumes "reflp R" "relates R m"
  shows "R s (snd (mutation m s))"
  using assms by (auto simp: mutation_def relates_def reflp_def split: sum.splits)

text \<open>An invariant of the tables is kept by a block.\<close>

definition keeps :: "('s \<Rightarrow> bool) \<Rightarrow> ('s, 'a) txn \<Rightarrow> bool" where
  "keeps P m \<longleftrightarrow> (\<forall>s a s'. P s \<longrightarrow> m s = Inr (a, s') \<longrightarrow> P s')"

lemma keepsI: "(\<And>s a s'. P s \<Longrightarrow> m s = Inr (a, s') \<Longrightarrow> P s') \<Longrightarrow> keeps P m"
  by (auto simp: keeps_def)

lemma keepsD: "keeps P m \<Longrightarrow> P s \<Longrightarrow> m s = Inr (a, s') \<Longrightarrow> P s'"
  by (auto simp: keeps_def)

lemma keeps_mutation: "keeps P m \<Longrightarrow> P s \<Longrightarrow> P (snd (mutation m s))"
  by (auto simp: mutation_def keeps_def split: sum.splits)

lemma keeps_bind: "keeps P m \<Longrightarrow> (\<And>a. keeps P (k a)) \<Longrightarrow> keeps P (bind_txn m k)"
  unfolding keeps_def bind_txn_Inr by blast

lemma keeps_then: "keeps P m \<Longrightarrow> keeps P k \<Longrightarrow> keeps P (then_txn m k)"
  unfolding then_txn_def by (rule keeps_bind)

lemma keeps_pure:
  "keeps P (ok a)" "keeps P (abort f)" "keeps P (select g)" "keeps P (require c f)" "keeps P (lift_txn r)"
  by (auto simp: keeps_def txn_simps)

lemma keeps_each: "(\<And>x. keeps P (f x)) \<Longrightarrow> keeps P (each_txn f xs)"
  by (induction xs) (auto intro: keeps_then keeps_pure)

subsection \<open>Weakest preconditions\<close>

text \<open>\<open>wp m Q s\<close>: from \<open>s\<close> the block does not fail, and it ends with a value and a state in \<open>Q\<close>.\<close>

definition wp :: "('s, 'a) txn \<Rightarrow> ('a \<Rightarrow> 's \<Rightarrow> bool) \<Rightarrow> 's \<Rightarrow> bool" where
  "wp m Q s = (case m s of Inl f \<Rightarrow> False | Inr (a, s') \<Rightarrow> Q a s')"

named_theorems wp_simps \<open>the weakest preconditions of the blocks\<close>

lemma wp_iff: "wp m Q s \<longleftrightarrow> (\<exists>a s'. m s = Inr (a, s') \<and> Q a s')"
  by (auto simp: wp_def split: sum.splits)

lemma wp_ok [wp_simps]: "wp (ok a) Q s \<longleftrightarrow> Q a s"
  by (simp add: wp_def ok_def)

lemma wp_abort [wp_simps]: "wp (abort f) Q s \<longleftrightarrow> False"
  by (simp add: wp_def abort_def)

lemma wp_bind [wp_simps]: "wp (bind_txn m k) Q s \<longleftrightarrow> wp m (\<lambda>a. wp (k a) Q) s"
  by (auto simp: wp_def bind_txn_def split: sum.splits)

lemma wp_then [wp_simps]: "wp (then_txn m k) Q s \<longleftrightarrow> wp m (\<lambda>_. wp k Q) s"
  by (simp add: then_txn_def wp_bind)

lemma wp_select [wp_simps]: "wp (select f) Q s \<longleftrightarrow> Q (f s) s"
  by (simp add: wp_def select_def)

lemma wp_modify [wp_simps]: "wp (modify f) Q s \<longleftrightarrow> Q () (f s)"
  by (simp add: wp_def modify_def)

lemma wp_require [wp_simps]: "wp (require b f) Q s \<longleftrightarrow> b \<and> Q () s"
  by (simp add: require_def wp_ok wp_abort)

lemma wp_if [wp_simps]: "wp (if b then m else m') Q s \<longleftrightarrow> (if b then wp m Q s else wp m' Q s)"
  by simp

lemma wp_mono: "wp m Q s \<Longrightarrow> (\<And>a s'. Q a s' \<Longrightarrow> Q' a s') \<Longrightarrow> wp m Q' s"
  by (auto simp: wp_iff)

lemma wp_keeps: "(\<And>s. P s \<Longrightarrow> wp m (\<lambda>_. P) s) \<Longrightarrow> keeps P m"
  unfolding keeps_def wp_iff by (metis Inr_inject Pair_inject)

text \<open>\<open>wlp m Q s\<close>: if the block does not fail from \<open>s\<close>, it ends in \<open>Q\<close>.\<close>

definition wlp :: "('s, 'a) txn \<Rightarrow> ('a \<Rightarrow> 's \<Rightarrow> bool) \<Rightarrow> 's \<Rightarrow> bool" where
  "wlp m Q s = (case m s of Inl f \<Rightarrow> True | Inr (a, s') \<Rightarrow> Q a s')"

named_theorems wlp_simps \<open>the weakest liberal preconditions of the blocks\<close>

lemma wlp_iff: "wlp m Q s \<longleftrightarrow> (\<forall>a s'. m s = Inr (a, s') \<longrightarrow> Q a s')"
  by (auto simp: wlp_def split: sum.splits)

lemma wlp_ok [wlp_simps]: "wlp (ok a) Q s \<longleftrightarrow> Q a s"
  by (simp add: wlp_def ok_def)

lemma wlp_abort [wlp_simps]: "wlp (abort f) Q s \<longleftrightarrow> True"
  by (simp add: wlp_def abort_def)

lemma wlp_bind [wlp_simps]: "wlp (bind_txn m k) Q s \<longleftrightarrow> wlp m (\<lambda>a. wlp (k a) Q) s"
  by (auto simp: wlp_def bind_txn_def split: sum.splits)

lemma wlp_then [wlp_simps]: "wlp (then_txn m k) Q s \<longleftrightarrow> wlp m (\<lambda>_. wlp k Q) s"
  by (simp add: then_txn_def wlp_bind)

lemma wlp_select [wlp_simps]: "wlp (select f) Q s \<longleftrightarrow> Q (f s) s"
  by (simp add: wlp_def select_def)

lemma wlp_modify [wlp_simps]: "wlp (modify f) Q s \<longleftrightarrow> Q () (f s)"
  by (simp add: wlp_def modify_def)

lemma wlp_require [wlp_simps]: "wlp (require b f) Q s \<longleftrightarrow> (b \<longrightarrow> Q () s)"
  by (simp add: require_def wlp_ok wlp_abort)

lemma wlp_if [wlp_simps]: "wlp (if b then m else m') Q s \<longleftrightarrow> (if b then wlp m Q s else wlp m' Q s)"
  by simp

lemma wlp_mono: "wlp m Q s \<Longrightarrow> (\<And>a s'. Q a s' \<Longrightarrow> Q' a s') \<Longrightarrow> wlp m Q' s"
  by (auto simp: wlp_iff)

lemma keeps_iff_wlp: "keeps P m \<longleftrightarrow> (\<forall>s. P s \<longrightarrow> wlp m (\<lambda>_. P) s)"
  by (auto simp: keeps_def wlp_iff)

lemma wlp_keeps: "(\<And>s. P s \<Longrightarrow> wlp m (\<lambda>_. P) s) \<Longrightarrow> keeps P m"
  by (simp add: keeps_iff_wlp)

lemma wp_wlp: "wp m Q s \<Longrightarrow> wlp m Q s"
  by (auto simp: wp_iff wlp_iff)

lemma wlp_each:
  "(\<And>x s. x \<in> set xs \<Longrightarrow> P s \<Longrightarrow> wlp (f x) (\<lambda>_. P) s) \<Longrightarrow> P s \<Longrightarrow> wlp (each_txn f xs) (\<lambda>_. P) s"
proof (induction xs arbitrary: s)
  case (Cons x xs)
  have "wlp (f x) (\<lambda>_. P) s" using Cons.prems by simp
  then have "wlp (f x) (\<lambda>_. wlp (each_txn f xs) (\<lambda>_. P)) s"
    by (rule wlp_mono) (use Cons in simp)
  then show ?case by (simp add: wlp_simps)
qed (simp add: wlp_simps)

end
