(* ===== verification/TaskStore.thy ===== *)
theory TaskStore
  imports Txn Config "HOL-Library.Product_Lexorder" "HOL-Library.List_Lexorder" "HOL-Library.Option_ord"
begin

text \<open>
  The task queue of the admin database: \<open>runtime/admin_api/task_status.py\<close>, and the tasks,
  thread sessions, steers and agent events of \<open>runtime/core/state.py\<close> over the tables of
  \<open>host/migrations\<close>. A table is the list of its rows in insertion order. The constraints of
  the schema (primary and foreign keys, the session options check) are branches of the
  statements that can break them. A task is named by its number: \<open>task_id\<close> is only its label.
\<close>

subsection \<open>Task status\<close>

datatype task_status = QUEUED | RUNNING | COMPLETED | FAILED | CANCELLED

fun TRANSITIONS :: "task_status \<Rightarrow> task_status list" where
  "TRANSITIONS QUEUED = [RUNNING, CANCELLED]"
| "TRANSITIONS RUNNING = [COMPLETED, FAILED, CANCELLED]"
| "TRANSITIONS COMPLETED = []"
| "TRANSITIONS FAILED = []"
| "TRANSITIONS CANCELLED = []"

definition terminal :: "task_status \<Rightarrow> bool" where
  "terminal s \<longleftrightarrow> s \<in> {COMPLETED, FAILED, CANCELLED}"

subsection \<open>Tables\<close>

record task =
  tk_number :: int
  tk_status :: task_status
  tk_thread :: str
  tk_input :: str
  tk_output :: "str option"
  tk_error :: "str option"
  tk_created :: str
  tk_updated :: str

record session =
  ss_thread :: str
  ss_runtime :: str
  ss_provider :: "str option"
  ss_last_used :: "str option"
  ss_model :: str
  ss_effort :: str

record steer =
  sr_id :: int
  sr_task :: int
  sr_message :: str

record agent_event =
  ev_seq :: int
  ev_created :: str
  ev_type :: str
  ev_task :: "int option"
  ev_message :: "str option"
  ev_source :: "str option"
  ev_error :: "str option"
  ev_runtime :: "str option"

record admin_db =
  tasks :: "task list"
  sessions :: "session list"
  steers :: "steer list"
  events :: "agent_event list"
  next_task_number :: "int option"   \<comment> \<open>the counter row\<close>
  next_steer_id :: int
  next_event_seq :: int

text \<open>The row joined with its session, as the accessors return it.\<close>

record task_view = task +
  tv_runtime :: str
  tv_model :: str
  tv_effort :: str

subsection \<open>Identifiers\<close>

definition task_id :: "int \<Rightarrow> str" where
  "task_id n = S ''task_'' @ str_of_int n"

text \<open>The characters \<open>str.isdigit\<close> accepts and \<open>int\<close> does not: superscripts, circled digits, \<open>\<dots>\<close>.\<close>

definition digit_like :: "(int \<times> int) list" where
  "digit_like =
     [(0xb2, 0xb3), (0xb9, 0xb9), (0x1369, 0x1371), (0x19da, 0x19da), (0x2070, 0x2070), (0x2074, 0x2079),
      (0x2080, 0x2089), (0x2460, 0x2468), (0x2474, 0x247c), (0x2488, 0x2490), (0x24ea, 0x24ea),
      (0x24f5, 0x24fd), (0x24ff, 0x24ff), (0x2776, 0x277e), (0x2780, 0x2788), (0x278a, 0x2792),
      (0x10a40, 0x10a43), (0x10e60, 0x10e68), (0x11052, 0x1105a), (0x1f100, 0x1f10a)]"

definition isdigit_char :: "int \<Rightarrow> bool" where
  "isdigit_char c \<longleftrightarrow> is_digit c \<or> list_ex (\<lambda>(a, b). a \<le> c \<and> c \<le> b) digit_like"

definition isdigit :: "str \<Rightarrow> bool" where
  "isdigit s \<longleftrightarrow> s \<noteq> [] \<and> list_all isdigit_char s"

text \<open>\<open>Inr None\<close> is an id that names no task; \<open>Inl\<close> is the ValueError of \<open>int\<close>.\<close>

definition task_number :: "str \<Rightarrow> fault + int option" where
  "task_number tid =
     (case partition1 95 tid of
        None \<Rightarrow> Inr None
      | Some (prefix, tail) \<Rightarrow>
          if prefix \<noteq> S ''task'' \<or> \<not> isdigit tail then Inr None
          else (case py_int tail of Some n \<Rightarrow> Inr (Some n) | None \<Rightarrow> Inl (Raised (ValueError (S ''int'')))))"

subsection \<open>Reading\<close>

definition session_of :: "admin_db \<Rightarrow> str \<Rightarrow> session option" where
  "session_of db thread = find_first (\<lambda>s. ss_thread s = thread) (sessions db)"

text \<open>The join of a task with its session; a task whose session is missing is not returned.\<close>

definition joined :: "admin_db \<Rightarrow> task \<Rightarrow> task_view option" where
  "joined db t =
     map_option (\<lambda>s. task.extend t (task_view.fields (ss_runtime s) (ss_model s) (ss_effort s)))
       (session_of db (tk_thread t))"

definition joined_tasks :: "admin_db \<Rightarrow> (task \<Rightarrow> bool) \<Rightarrow> task_view list" where
  "joined_tasks db P = List.map_filter (joined db) (sort_key tk_number (filter P (tasks db)))"

definition get_task :: "admin_db \<Rightarrow> int \<Rightarrow> task_view option" where
  "get_task db n = Option.bind (find_first (\<lambda>t. tk_number t = n) (tasks db)) (joined db)"

definition active_tasks :: "admin_db \<Rightarrow> task_view list" where
  "active_tasks db = joined_tasks db (\<lambda>t. tk_status t \<in> {QUEUED, RUNNING})"

definition running_tasks :: "admin_db \<Rightarrow> task_view list" where
  "running_tasks db = joined_tasks db (\<lambda>t. tk_status t = RUNNING)"

definition queued_tasks_brief :: "admin_db \<Rightarrow> task_view list" where
  "queued_tasks_brief db = joined_tasks db (\<lambda>t. tk_status t = QUEUED)"

definition queued_task_count :: "admin_db \<Rightarrow> nat" where
  "queued_task_count db = length (filter (\<lambda>t. tk_status t = QUEUED) (tasks db))"

definition task_steers :: "admin_db \<Rightarrow> int \<Rightarrow> str list" where
  "task_steers db n = map sr_message (sort_key sr_id (filter (\<lambda>s. sr_task s = n) (steers db)))"

definition pending_steer_count :: "admin_db \<Rightarrow> int \<Rightarrow> nat" where
  "pending_steer_count db n = length (filter (\<lambda>s. sr_task s = n) (steers db))"

text \<open>A thread's tasks, most recently updated first, ties broken by the newest.\<close>

definition tasks_for_thread :: "admin_db \<Rightarrow> str \<Rightarrow> nat \<Rightarrow> task_view list" where
  "tasks_for_thread db thread page =
     take page (rev (sort_key (\<lambda>v. (tk_updated v, tk_number v)) (joined_tasks db (\<lambda>t. tk_thread t = thread))))"

definition thread_session :: "admin_db \<Rightarrow> str \<Rightarrow> str \<Rightarrow> session option" where
  "thread_session db runtime thread =
     find_first (\<lambda>s. ss_runtime s = runtime \<and> ss_thread s = thread) (sessions db)"

definition thread_session_config :: "admin_db \<Rightarrow> str \<Rightarrow> session option" where
  "thread_session_config db thread = session_of db thread"

subsection \<open>Writing\<close>

definition allocate_task_number :: "(admin_db, int) txn" where
  "allocate_task_number = (\<lambda>db.
     let n = (case next_task_number db of None \<Rightarrow> 2 | Some v \<Rightarrow> v + 1)
     in Inr (n - 1, db\<lparr>next_task_number := Some n\<rparr>))"

text \<open>The primary key and the reference to the thread are constraints of the table.\<close>

definition insert_task :: "task \<Rightarrow> (admin_db, unit) txn" where
  "insert_task t = (\<lambda>db.
     if tk_number t \<in> tk_number ` set (tasks db) \<or> session_of db (tk_thread t) = None
     then Inl constraint_violation
     else Inr ((), db\<lparr>tasks := tasks db @ [t]\<rparr>))"

definition save_task :: "task_view \<Rightarrow> (admin_db, unit) txn" where
  "save_task v = modify (\<lambda>db.
     db\<lparr>tasks := map (\<lambda>t. if tk_number t = tk_number v then task.truncate v else t) (tasks db)\<rparr>)"

definition append_task_steer :: "int \<Rightarrow> str \<Rightarrow> (admin_db, unit) txn" where
  "append_task_steer n message = (\<lambda>db.
     if n \<notin> tk_number ` set (tasks db) then Inl constraint_violation
     else Inr ((), db\<lparr>steers := steers db @ [\<lparr>sr_id = next_steer_id db, sr_task = n, sr_message = message\<rparr>],
                      next_steer_id := next_steer_id db + 1\<rparr>))"

text \<open>The oldest steer of the task is dropped when it is the message just delivered.\<close>

definition pop_task_steer :: "int \<Rightarrow> str \<Rightarrow> (admin_db, unit) txn" where
  "pop_task_steer n message = modify (\<lambda>db.
     case sort_key sr_id (filter (\<lambda>s. sr_task s = n) (steers db)) of
       [] \<Rightarrow> db
     | oldest # _ \<Rightarrow>
         db\<lparr>steers := filter (\<lambda>s. \<not> (sr_id s = sr_id oldest \<and> sr_message s = message)) (steers db)\<rparr>)"

definition MAX_EVENTS :: int where "MAX_EVENTS = 1000000"
definition PRUNE_EVERY :: int where "PRUNE_EVERY = 500"

definition prune_agent_events :: "admin_db \<Rightarrow> admin_db" where
  "prune_agent_events db =
     db\<lparr>events := filter (\<lambda>e. \<not> ev_seq e \<le> foldr max (map ev_seq (events db)) 0 - MAX_EVENTS) (events db)\<rparr>"

text \<open>The payload is the four optional columns; \<open>fail_event\<close> and the others are the payloads in use.\<close>

definition append_agent_event ::
  "str \<Rightarrow> str \<Rightarrow> int option \<Rightarrow> str option \<Rightarrow> str option \<Rightarrow> str option \<Rightarrow> str option \<Rightarrow> (admin_db, unit) txn" where
  "append_agent_event now type n message source error runtime = modify (\<lambda>db.
     let seq = next_event_seq db;
         db' = db\<lparr>events := events db @
                   [\<lparr>ev_seq = seq, ev_created = now, ev_type = type, ev_task = n, ev_message = message,
                     ev_source = source, ev_error = error, ev_runtime = runtime\<rparr>],
                  next_event_seq := seq + 1\<rparr>
     in if seq mod PRUNE_EVERY = 0 then prune_agent_events db' else db')"

abbreviation task_event :: "str \<Rightarrow> string \<Rightarrow> int \<Rightarrow> (admin_db, unit) txn" where
  "task_event now type n \<equiv> append_agent_event now (S type) (Some n) None None None None"

abbreviation user_message_event :: "str \<Rightarrow> int \<Rightarrow> str \<Rightarrow> (admin_db, unit) txn" where
  "user_message_event now n message \<equiv>
     append_agent_event now (S ''task.message'') (Some n) (Some message) (Some (S ''user'')) None None"

abbreviation task_failed_event :: "str \<Rightarrow> int \<Rightarrow> str \<Rightarrow> (admin_db, unit) txn" where
  "task_failed_event now n error \<equiv>
     append_agent_event now (S ''task.failed'') (Some n) None None (Some error) None"

abbreviation runtime_event :: "str \<Rightarrow> string \<Rightarrow> str \<Rightarrow> (admin_db, unit) txn" where
  "runtime_event now type runtime \<equiv> append_agent_event now (S type) None None None None (Some runtime)"

subsection \<open>Sessions\<close>

text \<open>The check constraint \<open>thread_sessions_options_check\<close>, as the latest migration states it.\<close>

definition options_check :: "str \<Rightarrow> str \<Rightarrow> str \<Rightarrow> bool" where
  "options_check runtime model effort \<longleftrightarrow>
     (runtime = S ''codex''
        \<and> model \<in> {S ''gpt-5.6-terra'', S ''gpt-5.6-sol'', S ''gpt-5.6-luna''}
        \<and> effort \<in> {S ''high'', S ''max'', S ''ultra''}
        \<and> \<not> (model = S ''gpt-5.6-luna'' \<and> effort = S ''ultra''))
     \<or> (runtime = S ''claude_code''
        \<and> model \<in> {S ''opus'', S ''fable'', S ''sonnet''}
        \<and> effort \<in> {S ''high'', S ''max'', S ''ultracode''})
     \<or> (runtime = S ''hermes''
        \<and> model \<in> {S ''deepseek.v3.2'', S ''qwen.qwen3-coder-next'', S ''moonshotai.kimi-k2.5''}
        \<and> effort = S ''high'')"

definition save_thread_session ::
  "str \<Rightarrow> str \<Rightarrow> str option \<Rightarrow> str option \<Rightarrow> str \<Rightarrow> str \<Rightarrow> (admin_db, unit) txn" where
  "save_thread_session runtime thread provider last_used model effort = (\<lambda>db.
     if \<not> options_check runtime model effort then Inl constraint_violation
     else (case session_of db thread of
             None \<Rightarrow>
               Inr ((), db\<lparr>sessions := sessions db @
                 [\<lparr>ss_thread = thread, ss_runtime = runtime, ss_provider = provider, ss_last_used = last_used,
                   ss_model = model, ss_effort = effort\<rparr>]\<rparr>)
           | Some s \<Rightarrow>
               if ss_runtime s = runtime \<and> ss_model s = model \<and> ss_effort s = effort
               then Inr ((), db\<lparr>sessions := map (\<lambda>r. if ss_thread r = thread
                       then r\<lparr>ss_provider := provider, ss_last_used := last_used\<rparr> else r) (sessions db)\<rparr>)
               else Inl (Raised (ValueError (S ''thread already has another session configuration'')))))"

subsection \<open>Statements over many rows\<close>

definition fail_running_tasks :: "str \<Rightarrow> str \<Rightarrow> str option \<Rightarrow> (admin_db, int list) txn" where
  "fail_running_tasks now message runtime = (\<lambda>db.
     let hit = (\<lambda>t. tk_status t = RUNNING
                    \<and> (case runtime of None \<Rightarrow> True
                       | Some r \<Rightarrow> list_ex (\<lambda>s. ss_thread s = tk_thread t \<and> ss_runtime s = r) (sessions db)))
     in Inr (map tk_number (filter hit (tasks db)),
             db\<lparr>tasks := map (\<lambda>t. if hit t
                  then t\<lparr>tk_status := FAILED, tk_error := Some message, tk_updated := now\<rparr> else t) (tasks db)\<rparr>))"

text \<open>The finished tasks kept are the \<open>keep\<close> most recent; steers go with their task.\<close>

definition prune_finished_tasks :: "nat \<Rightarrow> (admin_db, unit) txn" where
  "prune_finished_tasks keep = modify (\<lambda>db.
     let finished = filter (\<lambda>t. terminal (tk_status t)) (tasks db);
         kept = map tk_number (take keep (rev (sort_key (\<lambda>t. (tk_updated t, tk_number t)) finished)));
         gone = (\<lambda>t. terminal (tk_status t) \<and> tk_number t \<notin> set kept);
         tasks' = filter (\<lambda>t. \<not> gone t) (tasks db)
     in db\<lparr>tasks := tasks',
           steers := filter (\<lambda>s. sr_task s \<in> tk_number ` set tasks') (steers db)\<rparr>)"

definition unreferenced :: "admin_db \<Rightarrow> str \<Rightarrow> session \<Rightarrow> bool" where
  "unreferenced db runtime s \<longleftrightarrow>
     ss_runtime s = runtime \<and> \<not> list_ex (\<lambda>t. tk_thread t = ss_thread s) (tasks db)"

text \<open>\<open>ORDER BY last_used_at DESC NULLS LAST, thread_id\<close>: two stable sorts.\<close>

definition prune_thread_sessions :: "str \<Rightarrow> nat \<Rightarrow> (admin_db, unit) txn" where
  "prune_thread_sessions runtime keep = modify (\<lambda>db.
     let candidates = filter (unreferenced db runtime) (sessions db);
         by_recency = rev (sort_key ss_last_used (rev (sort_key ss_thread candidates)));
         retained = map ss_thread (take keep by_recency)
     in db\<lparr>sessions := filter (\<lambda>s. \<not> (unreferenced db runtime s \<and> ss_thread s \<notin> set retained)) (sessions db)\<rparr>)"

end
