(* ===== verification/TaskApi.thy ===== *)
theory TaskApi
  imports TaskStore
begin

text \<open>
  The task operations of the admin service (\<open>runtime/admin_api/service.py\<close>): each reads and
  validates its request, then does its work in one mutation of the task queue. \<open>now\<close> is the
  time \<open>utc_now\<close> returns inside the operation.
\<close>

definition MESSAGE_LIMIT :: nat where "MESSAGE_LIMIT = 50000"
definition QUEUED_TASK_LIMIT :: nat where "QUEUED_TASK_LIMIT = 1000"
definition PENDING_STEER_LIMIT :: nat where "PENDING_STEER_LIMIT = 20"
definition FINISHED_TASK_LIMIT :: nat where "FINISHED_TASK_LIMIT = 100000"
definition THREAD_MAP_LIMIT :: nat where "THREAD_MAP_LIMIT = 100000"

subsection \<open>Reading a request\<close>

definition THREAD_ID_RE :: rx where
  "THREAD_ID_RE =
     seqs [Bol, Greedy 1 64 (Cls (unions [Range 65 90, Range 97 122, Range 48 57, chars (S ''_-'')])), Eol]"

definition message_of :: "json \<Rightarrow> str \<Rightarrow> fault + str" where
  "message_of body key =
     (case body of
        JObj kvs \<Rightarrow>
          (case jget kvs key of
             JStr value \<Rightarrow> (if value = [] \<or> MESSAGE_LIMIT < length value then Inl bad_request else Inr value)
           | _ \<Rightarrow> Inl bad_request)
      | _ \<Rightarrow> Inl bad_request)"

definition thread_id_of :: "json \<Rightarrow> fault + str" where
  "thread_id_of body =
     (case body of
        JObj kvs \<Rightarrow>
          (case jget kvs (S ''thread_id'') of
             JStr value \<Rightarrow> (if rx_fullmatch (\<lambda>_. False) THREAD_ID_RE value then Inr value else Inl bad_request)
           | _ \<Rightarrow> Inl bad_request)
      | _ \<Rightarrow> Inl bad_request)"

definition APP_SCOPED_ID_SEPARATOR :: str where "APP_SCOPED_ID_SEPARATOR = S ''__''"

definition validate_thread_id_not_reserved_by_app :: "str \<Rightarrow> str option \<Rightarrow> fault + unit" where
  "validate_thread_id_not_reserved_by_app thread app_backend_id =
     (case partition_at thread APP_SCOPED_ID_SEPARATOR of
        None \<Rightarrow> Inr ()
      | Some (app_id, visible) \<Rightarrow>
          if app_backend_id = Some app_id \<and> visible \<noteq> [] then Inr () else Inl bad_request)"

definition agent_runtime_of :: "(str \<times> json) list \<Rightarrow> fault + str" where
  "agent_runtime_of kvs =
     (case jget kvs (S ''agent_runtime'') of
        JStr value \<Rightarrow> (if value \<in> set (map fst SESSION_OPTIONS) then Inr value else Inl bad_request)
      | _ \<Rightarrow> Inl bad_request)"

definition session_config_of :: "(str \<times> json) list \<Rightarrow> str \<Rightarrow> fault + str \<times> str" where
  "session_config_of kvs runtime =
     (case session_config_error runtime (jget kvs (S ''model'')) (jget kvs (S ''effort'')) of
        Some _ \<Rightarrow> Inl bad_request
      | None \<Rightarrow>
          (case (jget kvs (S ''model''), jget kvs (S ''effort'')) of
             (JStr model, JStr effort) \<Rightarrow> Inr (model, effort)
           | _ \<Rightarrow> Inl (Raised AssertionError)))"

definition requested_config :: "(str \<times> json) list \<Rightarrow> fault + str \<times> str \<times> str" where
  "requested_config kvs =
     bind_res (agent_runtime_of kvs) (\<lambda>runtime.
     bind_res (session_config_of kvs runtime) (\<lambda>(model, effort). Inr (runtime, model, effort)))"

text \<open>A thread's configuration is fixed by its first task; later tasks repeat it or leave it out.\<close>

definition resolve_task_session_config ::
  "json \<Rightarrow> session option \<Rightarrow> fault + str \<times> str \<times> str" where
  "resolve_task_session_config body session_config =
     (case body of
        JObj kvs \<Rightarrow>
          (let supplied = filter (has_key kvs) [S ''agent_runtime'', S ''model'', S ''effort'']
           in case session_config of
                Some s \<Rightarrow>
                  let stored = (ss_runtime s, ss_model s, ss_effort s)
                  in if supplied = [] then Inr stored
                     else if length supplied \<noteq> 3 then Inl bad_request
                     else bind_res (requested_config kvs) (\<lambda>requested.
                            if requested \<noteq> stored then Inl bad_request else Inr requested)
              | None \<Rightarrow>
                  if supplied = [] then Inl bad_request
                  else if length supplied \<noteq> 3 then Inl bad_request
                  else requested_config kvs)
      | _ \<Rightarrow> Inl (Raised AssertionError))"

subsection \<open>Operations\<close>

definition create_task :: "str \<Rightarrow> json \<Rightarrow> str option \<Rightarrow> (admin_db, task_view) txn" where
  "create_task now body app_backend_id =
     bind_txn (lift_txn (message_of body (S ''input_message''))) (\<lambda>input.
     bind_txn (lift_txn (thread_id_of body)) (\<lambda>thread.
     then_txn (lift_txn (validate_thread_id_not_reserved_by_app thread app_backend_id))
     (bind_txn (select (\<lambda>db. thread_session_config db thread)) (\<lambda>config.
      bind_txn (lift_txn (resolve_task_session_config body config)) (\<lambda>(runtime, model, effort).
      bind_txn (select queued_task_count) (\<lambda>queued.
      then_txn (require (queued < QUEUED_TASK_LIMIT) conflict)
      (bind_txn allocate_task_number (\<lambda>n.
      then_txn (save_thread_session runtime thread (Option.bind config ss_provider) (Some now) model effort)
      (let t = \<lparr>tk_number = n, tk_status = QUEUED, tk_thread = thread, tk_input = input, tk_output = None,
                tk_error = None, tk_created = now, tk_updated = now\<rparr>
       in then_txn (insert_task t)
            (ok (task.extend t (task_view.fields runtime model effort))))))))))))"

text \<open>The tail of every operation on a stored task: an id that names none is a 404.\<close>

definition require_task :: "str \<Rightarrow> (admin_db, task_view) txn" where
  "require_task tid =
     bind_txn (lift_txn (task_number tid)) (\<lambda>number.
     bind_txn (select (\<lambda>db. Option.bind number (get_task db))) (\<lambda>found.
       case found of None \<Rightarrow> abort not_found | Some v \<Rightarrow> ok v))"

definition set_status :: "task_view \<Rightarrow> task_status \<Rightarrow> str \<Rightarrow> fault + task_view" where
  "set_status v to_status now =
     (if to_status \<in> set (TRANSITIONS (tk_status v))
      then Inr (v\<lparr>tk_status := to_status, tk_updated := now\<rparr>)
      else Inl (Raised (ValueError (S ''illegal task transition''))))"

definition update_task :: "str \<Rightarrow> str \<Rightarrow> json \<Rightarrow> (admin_db, task_view) txn" where
  "update_task now tid body =
     bind_txn (lift_txn (message_of body (S ''input_message''))) (\<lambda>input.
     bind_txn (require_task tid) (\<lambda>v.
     then_txn (require (tk_status v = QUEUED) conflict)
     (let v' = v\<lparr>tk_input := input, tk_updated := now\<rparr>
      in then_txn (save_task v') (ok v'))))"

definition steer_task :: "str \<Rightarrow> str \<Rightarrow> json \<Rightarrow> (admin_db, unit) txn" where
  "steer_task now tid body =
     bind_txn (lift_txn (message_of body (S ''steer_message''))) (\<lambda>message.
     bind_txn (require_task tid) (\<lambda>v.
     then_txn (require (tk_status v = RUNNING) conflict)
     (then_txn (require (tv_runtime v \<noteq> S ''hermes'') conflict)
     (bind_txn (select (\<lambda>db. pending_steer_count db (tk_number v))) (\<lambda>pending.
      then_txn (require (pending < PENDING_STEER_LIMIT) conflict)
      (then_txn (append_task_steer (tk_number v) message)
      (then_txn (save_task (v\<lparr>tk_updated := now\<rparr>))
      (user_message_event now (tk_number v) message))))))))"

definition cancel_in :: "task_status \<Rightarrow> str \<Rightarrow> str \<Rightarrow> (admin_db, int) txn" where
  "cancel_in expected now tid =
     bind_txn (require_task tid) (\<lambda>v.
     then_txn (require (tk_status v = expected) conflict)
     (bind_txn (lift_txn (set_status v CANCELLED now)) (\<lambda>v'.
      then_txn (save_task v')
      (then_txn (task_event now ''task.cancelled'' (tk_number v))
      (ok (tk_number v))))))"

definition cancel_task :: "str \<Rightarrow> str \<Rightarrow> (admin_db, int) txn" where
  "cancel_task now tid = cancel_in QUEUED now tid"

text \<open>The mutation of \<open>kill_task\<close>; the closing of the process follows outside it.\<close>

definition kill_task :: "str \<Rightarrow> str \<Rightarrow> (admin_db, int) txn" where
  "kill_task now tid = cancel_in RUNNING now tid"

definition fail_tasks_with_events :: "str \<Rightarrow> str \<Rightarrow> str option \<Rightarrow> (admin_db, unit) txn" where
  "fail_tasks_with_events now message runtime =
     bind_txn (fail_running_tasks now message runtime) (\<lambda>failed.
       each_txn (\<lambda>n. task_failed_event now n message) failed)"

definition initialize_state :: "str \<Rightarrow> (admin_db, unit) txn" where
  "initialize_state now =
     fail_tasks_with_events now (S ''host runtime restarted while the task was running'') None"

definition prune_state :: "(admin_db, unit) txn" where
  "prune_state =
     then_txn (prune_finished_tasks FINISHED_TASK_LIMIT)
       (each_txn (\<lambda>runtime. prune_thread_sessions runtime THREAD_MAP_LIMIT)
          [S ''codex'', S ''claude_code'', S ''hermes''])"

definition queue_order :: "task_view list \<Rightarrow> (nat \<times> task_view) list" where
  "queue_order vs =
     map (Pair 0) (filter (\<lambda>v. tk_status v = RUNNING) vs)
     @ enumerate 1 (filter (\<lambda>v. tk_status v = QUEUED) vs)"

definition TASK_LIMIT :: nat where "TASK_LIMIT = 5"

definition list_tasks :: "admin_db \<Rightarrow> str option \<Rightarrow> (nat \<times> task_view) list" where
  "list_tasks db last_seen =
     (let ordered = queue_order (active_tasks db);
          start = (case last_seen of
                     None \<Rightarrow> 0
                   | Some seen \<Rightarrow> if seen = [] then 0 else
                      (case find_first (\<lambda>i. task_id (tk_number (snd (ordered ! i))) = seen) [0..<length ordered] of
                         Some i \<Rightarrow> Suc i | None \<Rightarrow> 0))
      in take TASK_LIMIT (drop start ordered))"

subsection \<open>The invariant of the tables\<close>

definition next_number :: "admin_db \<Rightarrow> int" where
  "next_number db = (case next_task_number db of None \<Rightarrow> 1 | Some v \<Rightarrow> v)"

definition wf_db :: "admin_db \<Rightarrow> bool" where
  "wf_db db \<longleftrightarrow>
     distinct (map tk_number (tasks db))
     \<and> (\<forall>t \<in> set (tasks db). 0 < tk_number t \<and> tk_number t < next_number db)
     \<and> 0 < next_number db
     \<and> distinct (map ss_thread (sessions db))
     \<and> tk_thread ` set (tasks db) \<subseteq> ss_thread ` set (sessions db)
     \<and> (\<forall>s \<in> set (sessions db). options_check (ss_runtime s) (ss_model s) (ss_effort s))
     \<and> sr_task ` set (steers db) \<subseteq> tk_number ` set (tasks db)"

subsection \<open>Requests\<close>

text \<open>
  The mutations the HTTP handlers, the workers and the maintenance pass run on the queue;
  claiming and finishing a turn are in the orchestrator.
\<close>

datatype task_request =
    Create json "str option"
  | Update_input str json
  | Steer_running str json
  | Cancel_queued str
  | Kill_running str
  | Steer_delivered int str
  | Recover
  | Prune

fun request_txn :: "str \<Rightarrow> task_request \<Rightarrow> (admin_db, unit) txn" where
  "request_txn now (Create body app) = bind_txn (create_task now body app) (\<lambda>_. ok ())"
| "request_txn now (Update_input tid body) = bind_txn (update_task now tid body) (\<lambda>_. ok ())"
| "request_txn now (Steer_running tid body) = steer_task now tid body"
| "request_txn now (Cancel_queued tid) = bind_txn (cancel_task now tid) (\<lambda>_. ok ())"
| "request_txn now (Kill_running tid) = bind_txn (kill_task now tid) (\<lambda>_. ok ())"
| "request_txn now (Steer_delivered n message) = pop_task_steer n message"
| "request_txn now Recover = initialize_state now"
| "request_txn now Prune = prune_state"

definition serve_requests :: "(str \<times> task_request) list \<Rightarrow> admin_db \<Rightarrow> admin_db" where
  "serve_requests rs db = foldl (\<lambda>db (now, r). snd (mutation (request_txn now r) db)) db rs"

definition empty_db :: admin_db where
  "empty_db = \<lparr>tasks = [], sessions = [], steers = [], events = [], next_task_number = None,
               next_steer_id = 1, next_event_seq = 1\<rparr>"

subsection \<open>Session options and identifiers\<close>

text \<open>
  The configurations the API accepts are exactly those the check constraint of the
  session table accepts, so a validated task can never fail on the constraint.
\<close>

lemma options_match_constraint:
  "session_config_error runtime (JStr model) (JStr effort) = None \<longleftrightarrow> options_check runtime model effort"
proof (cases "runtime \<in> {S ''codex'', S ''claude_code'', S ''hermes''}")
  case True
  then show ?thesis
    by (elim insertE emptyE)
       (auto simp: session_config_error_def SESSION_OPTIONS_def options_check_def split: if_splits)
next
  case False
  then show ?thesis
    by (auto simp: session_config_error_def SESSION_OPTIONS_def options_check_def)
qed

text \<open>
  The label of a task reads back as its number, for every number the counter column can
  hold: \<open>task_N\<close> names task \<open>N\<close> and no other.
\<close>

lemma task_id_roundtrip:
  assumes "0 \<le> n" "n < 2 ^ 63"
  shows "task_number (task_id n) = Inr (Some n)"
proof -
  have "nat n < 2 ^ 63" using assms by (simp add: nat_less_iff)
  also have "(2::nat) ^ 63 < 10 ^ 19" by simp
  finally have "length (nat_digits (nat n)) \<le> 19" by (intro length_nat_digits) simp_all
  then have num: "py_int (nat_digits (nat n)) = Some n"
    using py_int_digits [of "nat n"] assms by (simp add: max_str_digits_def)
  have "isdigit_char c" if "c \<in> set (nat_digits (nat n))" for c
    using nat_digits_ascii [OF that] by (simp add: isdigit_char_def is_digit_ascii)
  then have "isdigit (nat_digits (nat n))" by (simp add: isdigit_def list_all_iff)
  moreover have "partition1 95 (task_id n) = Some (S ''task'', nat_digits (nat n))"
    using assms by (simp add: partition1_Some task_id_def str_of_int_def S_def)
  ultimately show ?thesis using num by (simp add: task_number_def)
qed

text \<open>
  An id with a superscript digit passes the digit test but not the conversion: reading
  the task raises a ValueError instead of reporting that there is no such task.
\<close>

lemma superscript_task_id_raises:
  "fst (mutation (require_task (S ''task_'' @ [0xb2])) db) = Inl (Raised (ValueError (S ''int'')))"
proof -
  have "task_number (S ''task_'' @ [0xb2]) = Inl (Raised (ValueError (S ''int'')))" by code_simp
  then show ?thesis
    by (simp add: mutation_def require_task_def bind_txn_def lift_txn_def abort_def)
qed

end
