(* ===== verification/Orchestrator.thy ===== *)
theory Orchestrator
  imports TaskApi
begin

text \<open>
  The worker pool of \<open>runtime/admin_api/orchestrator.py\<close>: claiming and finishing tasks, the
  registry \<open>_LIVE\<close> of runtime processes, the closing of a turn, and the interleaving of the
  workers with the requests that kill tasks or stop a runtime. Each atomic section of the code
  (a mutation, a critical section of \<open>_LIVE_LOCK\<close>, the start or the close of a process) is one
  action; \<open>act\<close> runs an action and \<open>execution\<close> is any sequence of them.

  A runtime process is known by a number. What a turn computes, when a process fails to start
  or to close, and whether the runtime is active when a claimed task is about to start are
  free choices of the actions. \<open>Recover\<close> runs before the workers exist and is not an action.
\<close>

definition WORKER_COUNT_PER_RUNTIME :: nat where "WORKER_COUNT_PER_RUNTIME = 3"

definition WORKER_COUNT :: nat where "WORKER_COUNT = WORKER_COUNT_PER_RUNTIME * length SESSION_OPTIONS"

definition live_key :: "str \<Rightarrow> str \<Rightarrow> str" where
  "live_key runtime thread = runtime @ S '':'' @ thread"

record turn =
  tn_server :: nat
  tn_runtime :: str
  tn_thread :: str
  tn_task :: int
  tn_closing :: bool

type_synonym live = "(str, turn) dict"

record claim =
  cl_task :: int
  cl_runtime :: str
  cl_thread :: str
  cl_input :: str
  cl_model :: str
  cl_effort :: str
  cl_provider :: "str option"

definition claim_key :: "claim \<Rightarrow> str" where
  "claim_key c = live_key (cl_runtime c) (cl_thread c)"

definition view_key :: "task_view \<Rightarrow> str" where
  "view_key v = live_key (tv_runtime v) (tk_thread v)"

subsection \<open>Claiming and finishing\<close>

text \<open>The queued task a worker may take: its runtime has a free slot and its thread is free.\<close>

definition claimable :: "admin_db \<Rightarrow> live \<Rightarrow> task_view option" where
  "claimable db live =
     (let running = running_tasks db
      in if WORKER_COUNT \<le> length running \<or> WORKER_COUNT \<le> length live then None
         else find_first
           (\<lambda>v. length (filter (\<lambda>r. tv_runtime r = tv_runtime v) running) < WORKER_COUNT_PER_RUNTIME
                \<and> length (filter (\<lambda>(_, t). tn_runtime t = tv_runtime v) live) < WORKER_COUNT_PER_RUNTIME
                \<and> view_key v \<notin> set (map view_key running) \<and> view_key v \<notin> set (map fst live))
           (queued_tasks_brief db))"

definition claim_next_task :: "str \<Rightarrow> live \<Rightarrow> (admin_db, claim option) txn" where
  "claim_next_task now live =
     bind_txn (select (\<lambda>db. claimable db live)) (\<lambda>candidate.
       case candidate of
         None \<Rightarrow> ok None
       | Some brief \<Rightarrow>
           bind_txn (select (\<lambda>db. get_task db (tk_number brief))) (\<lambda>claimed.
             case claimed of
               None \<Rightarrow> ok None
             | Some v \<Rightarrow>
                 if tk_status v \<noteq> QUEUED then ok None
                 else bind_txn (lift_txn (set_status v RUNNING now)) (\<lambda>v'.
                      then_txn (save_task v')
                      (then_txn (task_event now ''task.started'' (tk_number v))
                      (then_txn (user_message_event now (tk_number v) (tk_input v))
                      (bind_txn (select (\<lambda>db. thread_session db (tv_runtime v) (tk_thread v))) (\<lambda>session.
                       ok (Some \<lparr>cl_task = tk_number v, cl_runtime = tv_runtime v, cl_thread = tk_thread v,
                                 cl_input = tk_input v, cl_model = tv_model v, cl_effort = tv_effort v,
                                 cl_provider = Option.bind session ss_provider\<rparr>))))))))"

datatype outcome = Completed str "str option" | Failed str

text \<open>A task that is no longer running was killed while the turn was in flight: nothing is written.\<close>

definition finish_task :: "str \<Rightarrow> int \<Rightarrow> str \<Rightarrow> str \<Rightarrow> outcome \<Rightarrow> (admin_db, unit) txn" where
  "finish_task now n runtime thread result =
     bind_txn (select (\<lambda>db. get_task db n)) (\<lambda>found.
       case found of
         None \<Rightarrow> ok ()
       | Some v \<Rightarrow>
           if tk_status v \<noteq> RUNNING then ok ()
           else (case result of
                   Completed output provider \<Rightarrow>
                     bind_txn (lift_txn (set_status v COMPLETED now)) (\<lambda>v'.
                     then_txn (save_task (v'\<lparr>tk_output := Some output\<rparr>))
                     (then_txn (save_thread_session runtime thread provider (Some now) (tv_model v) (tv_effort v))
                     (task_event now ''task.completed'' n)))
                 | Failed message \<Rightarrow>
                     bind_txn (lift_txn (set_status v FAILED now)) (\<lambda>v'.
                     then_txn (save_task (v'\<lparr>tk_error := Some message\<rparr>))
                     (task_failed_event now n message))))"

text \<open>
  The end of a turn as the worker's \<open>try\<close> runs it: when recording the completion raises, the
  handler records a failure.
\<close>

definition end_turn :: "str \<Rightarrow> claim \<Rightarrow> outcome \<Rightarrow> admin_db \<Rightarrow> admin_db" where
  "end_turn now c result db =
     (case mutation (finish_task now (cl_task c) (cl_runtime c) (cl_thread c) result) db of
        (Inr _, db') \<Rightarrow> db'
      | (Inl _, db') \<Rightarrow>
          snd (mutation (finish_task now (cl_task c) (cl_runtime c) (cl_thread c) (Failed (S ''error''))) db'))"

subsection \<open>Closing a turn\<close>

text \<open>
  \<open>_close_turn\<close> in its three sections: taking ownership under the lock, closing the process
  outside it, removing the entry under the lock. \<open>None\<close> is the end of the call.
\<close>

datatype closing = Wants str nat | Owns str nat | Shut_down str nat

text \<open>
  A process object before its process is spawned, while it is up, and after it was stopped.
  Closing also tears down the thread's scope, which holds every process of the thread. Only
  Hermes remembers that the object was closed and then refuses to spawn.
\<close>

datatype process_state = Unspawned | Up | Down

record process =
  pr_runtime :: str
  pr_key :: str
  pr_state :: process_state
  pr_closed :: bool

type_synonym processes = "process list"

definition stop_process :: "process \<Rightarrow> process" where
  "stop_process p = (if pr_state p = Up then p\<lparr>pr_state := Down\<rparr> else p)"

definition close_process :: "nat \<Rightarrow> processes \<Rightarrow> processes" where
  "close_process sid ps =
     (map (\<lambda>p. if pr_key p = pr_key (ps ! sid) then stop_process p else p) ps)
       [sid := (stop_process (ps ! sid))\<lparr>pr_closed := True\<rparr>]"

definition spawn_process :: "nat \<Rightarrow> processes \<Rightarrow> processes" where
  "spawn_process sid ps = ps[sid := (ps ! sid)\<lparr>pr_state := Up\<rparr>]"

definition may_spawn :: "process \<Rightarrow> bool" where
  "may_spawn p \<longleftrightarrow> pr_state p = Unspawned \<and> \<not> (pr_runtime p = S ''hermes'' \<and> pr_closed p)"

fun close_step :: "bool \<Rightarrow> closing \<Rightarrow> live \<times> processes \<Rightarrow> closing option \<times> live \<times> processes" where
  "close_step closes (Wants key sid) (live, ps) =
     (case map_of live key of
        Some t \<Rightarrow>
          if tn_server t \<noteq> sid \<or> tn_closing t then (None, live, ps)
          else (Some (Owns key sid), AList.update key (t\<lparr>tn_closing := True\<rparr>) live, ps)
      | None \<Rightarrow> (None, live, ps))"
| "close_step closes (Owns key sid) (live, ps) =
     (if closes then (Some (Shut_down key sid), live, close_process sid ps) else (None, live, ps))"
| "close_step closes (Shut_down key sid) (live, ps) =
     (None,
      (case map_of live key of
         Some t \<Rightarrow> (if tn_server t = sid then AList.delete key live else live)
       | None \<Rightarrow> live),
      ps)"

subsection \<open>The system\<close>

datatype worker =
    Idle
  | Claimed claim
  | Registered claim nat
  | Started claim nat
  | In_turn claim nat
  | Ending closing

text \<open>
  A thread that closes turns for someone else: \<open>close_task_server\<close> looks for one task's turn,
  \<open>_stop_runtime_processes\<close> for a runtime's turns, which it closes one after the other.
\<close>

datatype closer =
    Find_task int
  | Find_runtime str
  | Close_each "(str \<times> nat) list"
  | Busy closing "(str \<times> nat) list"

record system =
  db :: admin_db
  live :: live
  processes :: processes
  workers :: "worker list"
  closers :: "closer list"

datatype action =
    Request task_request            \<comment> \<open>an API request or the maintenance pass\<close>
  | Stop_runtime str str            \<comment> \<open>the runtime is deactivated or its account reset\<close>
  | Claim nat
  | Give_up nat str                 \<comment> \<open>the runtime is not active, or the process object cannot be made\<close>
  | Register nat
  | Start nat
  | Start_fails nat bool str        \<comment> \<open>whether the process was spawned before the failure\<close>
  | Check nat
  | Spawn nat
  | Turn_ends nat outcome
  | Worker_closes nat bool
  | Closer_acts nat bool

definition spawns_at_start :: "str \<Rightarrow> bool" where
  "spawns_at_start runtime \<longleftrightarrow> runtime = S ''codex''"

definition next_closer :: "live \<Rightarrow> closer \<Rightarrow> closer" where
  "next_closer lv c =
     (case c of
        Find_task n \<Rightarrow>
          (case find_first (\<lambda>(_, t). tn_task t = n) lv of
             Some (_, t) \<Rightarrow> Close_each [(live_key (tn_runtime t) (tn_thread t), tn_server t)]
           | None \<Rightarrow> Close_each [])
      | Find_runtime runtime \<Rightarrow>
          Close_each (map (\<lambda>(_, t). (live_key (tn_runtime t) (tn_thread t), tn_server t))
                        (filter (\<lambda>(_, t). tn_runtime t = runtime) lv))
      | Close_each ((key, sid) # rest) \<Rightarrow> Busy (Wants key sid) rest
      | _ \<Rightarrow> c)"

text \<open>What a request does beside its mutation: a kill that succeeded closes the task's turn.\<close>

definition request_closers :: "task_request \<Rightarrow> admin_db \<Rightarrow> str \<Rightarrow> closer list" where
  "request_closers r db0 now =
     (case r of
        Kill_running tid \<Rightarrow>
          (case fst (mutation (kill_task now tid) db0) of Inr n \<Rightarrow> [Find_task n] | Inl _ \<Rightarrow> [])
      | _ \<Rightarrow> [])"

fun worker_action :: "str \<Rightarrow> action \<Rightarrow> worker \<Rightarrow> system \<Rightarrow> (worker \<times> system) option" where
  "worker_action now (Claim i) Idle s =
     (case mutation (claim_next_task now (live s)) (db s) of
        (Inr (Some c), db') \<Rightarrow> Some (Claimed c, s\<lparr>db := db'\<rparr>)
      | (_, db') \<Rightarrow> Some (Idle, s\<lparr>db := db'\<rparr>))"
| "worker_action now (Give_up i message) (Claimed c) s =
     Some (Idle, s\<lparr>db := end_turn now c (Failed message) (db s)\<rparr>)"
| "worker_action now (Register i) (Claimed c) s =
     (let sid = length (processes s)
      in Some (Registered c sid,
           s\<lparr>processes := processes s @
                [\<lparr>pr_runtime = cl_runtime c, pr_key = claim_key c, pr_state = Unspawned, pr_closed = False\<rparr>],
             live := AList.update (claim_key c)
                \<lparr>tn_server = sid, tn_runtime = cl_runtime c, tn_thread = cl_thread c, tn_task = cl_task c,
                  tn_closing = False\<rparr> (live s)\<rparr>))"
| "worker_action now (Start i) (Registered c sid) s =
     Some (Started c sid,
       if spawns_at_start (cl_runtime c) then s\<lparr>processes := spawn_process sid (processes s)\<rparr> else s)"
| "worker_action now (Start_fails i spawned message) (Registered c sid) s =
     Some (Ending (Wants (claim_key c) sid),
       s\<lparr>db := end_turn now c (Failed message) (db s),
         processes := (if spawned \<and> spawns_at_start (cl_runtime c) then spawn_process sid (processes s)
                       else processes s)\<rparr>)"
| "worker_action now (Check i) (Started c sid) s =
     Some (case get_task (db s) (cl_task c) of
             Some v \<Rightarrow> if tk_status v = RUNNING then In_turn c sid else Ending (Wants (claim_key c) sid)
           | None \<Rightarrow> Ending (Wants (claim_key c) sid), s)"
| "worker_action now (Spawn i) (In_turn c sid) s =
     (if spawns_at_start (cl_runtime c) \<or> \<not> may_spawn (processes s ! sid) then None
      else Some (In_turn c sid, s\<lparr>processes := spawn_process sid (processes s)\<rparr>))"
| "worker_action now (Turn_ends i result) (In_turn c sid) s =
     Some (Ending (Wants (claim_key c) sid), s\<lparr>db := end_turn now c result (db s)\<rparr>)"
| "worker_action now (Worker_closes i closes) (Ending k) s =
     (case close_step closes k (live s, processes s) of
        (k', lv, ps) \<Rightarrow>
          Some (case k' of Some k'' \<Rightarrow> Ending k'' | None \<Rightarrow> Idle, s\<lparr>live := lv, processes := ps\<rparr>))"
| "worker_action now a w s = None"

fun closer_action :: "bool \<Rightarrow> closer \<Rightarrow> system \<Rightarrow> closer \<times> system" where
  "closer_action closes (Busy k rest) s =
     (case close_step closes k (live s, processes s) of
        (k', lv, ps) \<Rightarrow>
          (case k' of Some k'' \<Rightarrow> Busy k'' rest | None \<Rightarrow> Close_each rest,
           s\<lparr>live := lv, processes := ps\<rparr>))"
| "closer_action closes c s = (next_closer (live s) c, s)"

fun actor :: "action \<Rightarrow> nat option" where
  "actor (Request r) = None"
| "actor (Stop_runtime runtime reason) = None"
| "actor (Closer_acts j closes) = None"
| "actor (Claim i) = Some i"
| "actor (Give_up i m) = Some i"
| "actor (Register i) = Some i"
| "actor (Start i) = Some i"
| "actor (Start_fails i b m) = Some i"
| "actor (Check i) = Some i"
| "actor (Spawn i) = Some i"
| "actor (Turn_ends i result) = Some i"
| "actor (Worker_closes i b) = Some i"

text \<open>One action at time \<open>now\<close>; \<open>None\<close> when its actor is not at that point of its code.\<close>

definition act :: "str \<Rightarrow> action \<Rightarrow> system \<Rightarrow> system option" where
  "act now a s =
     (case actor a of
        Some i \<Rightarrow>
          if i < length (workers s)
          then map_option (\<lambda>(w, s'). s'\<lparr>workers := (workers s')[i := w]\<rparr>)
                 (worker_action now a (workers s ! i) s)
          else None
      | None \<Rightarrow>
          (case a of
             Request r \<Rightarrow>
               if r = Recover then None
               else Some (s\<lparr>db := snd (mutation (request_txn now r) (db s)),
                            closers := closers s @ request_closers r (db s) now\<rparr>)
           | Stop_runtime runtime reason \<Rightarrow>
               Some (s\<lparr>db := snd (mutation (fail_tasks_with_events now reason (Some runtime)) (db s)),
                       closers := closers s @ [Find_runtime runtime]\<rparr>)
           | Closer_acts j closes \<Rightarrow>
               if j < length (closers s)
               then (case closer_action closes (closers s ! j) s of
                       (c, s') \<Rightarrow> Some (s'\<lparr>closers := (closers s')[j := c]\<rparr>))
               else None
           | _ \<Rightarrow> None))"

text \<open>After startup: interrupted tasks were failed, nothing is registered, the workers are idle.\<close>

definition boot :: "str \<Rightarrow> admin_db \<Rightarrow> system" where
  "boot now d = \<lparr>db = snd (mutation (initialize_state now) d), live = [], processes = [],
                 workers = replicate WORKER_COUNT Idle, closers = []\<rparr>"

inductive execution :: "system \<Rightarrow> system \<Rightarrow> bool" for s0 where
  start: "execution s0 s0"
| step: "execution s0 s \<Longrightarrow> act now a s = Some s' \<Longrightarrow> execution s0 s'"

fun run_actions :: "(str \<times> action) list \<Rightarrow> system \<Rightarrow> system option" where
  "run_actions [] s = Some s"
| "run_actions ((now, a) # as) s = Option.bind (act now a s) (run_actions as)"

end
