(* ===== verification/TaskInvariants.thy ===== *)
theory TaskInvariants
  imports TaskApi
begin

text \<open>
  What the task operations keep: the tables stay well formed (\<open>wf_db\<close>), tasks only move forward
  (\<open>tasks_evolve\<close>), and the queue and the steers stay under their caps, for every sequence of
  requests. Each statement of the store gets one lemma saying that it is a \<open>good_step\<close> and one
  saying that it adds nothing; the operations follow by composition.
\<close>

subsection \<open>What the statements do to the tables\<close>

lemma session_of_Some:
  "session_of db thread = Some s \<Longrightarrow> s \<in> set (sessions db) \<and> ss_thread s = thread"
  unfolding session_of_def by (auto dest: find_first_Some)

lemma session_of_None: "session_of db thread = None \<longleftrightarrow> thread \<notin> ss_thread ` set (sessions db)"
  by (auto simp: session_of_def find_first_None)

lemma truncate_extend [simp]: "task.truncate (task.extend t e) = t"
  by (cases t) (simp add: task.defs)

lemma extend_sel [simp]:
  "tk_number (task.extend t e) = tk_number t" "tk_status (task.extend t e) = tk_status t"
  "tk_thread (task.extend t e) = tk_thread t" "tk_created (task.extend t e) = tk_created t"
  by (simp_all add: task.defs)

lemma get_task_Some:
  assumes "get_task db n = Some v"
  shows "task.truncate v \<in> set (tasks db)" "tk_number v = n"
    "tk_thread v \<in> ss_thread ` set (sessions db)"
proof -
  from assms obtain t s where t: "find_first (\<lambda>t. tk_number t = n) (tasks db) = Some t"
    and s: "session_of db (tk_thread t) = Some s"
    and v: "v = task.extend t (task_view.fields (ss_runtime s) (ss_model s) (ss_effort s))"
    by (auto simp: get_task_def joined_def bind_eq_Some_conv)
  from find_first_Some [OF t] session_of_Some [OF s]
  show "task.truncate v \<in> set (tasks db)" "tk_number v = n" "tk_thread v \<in> ss_thread ` set (sessions db)"
    by (auto simp: v intro: image_eqI [of _ _ s])
qed

lemma truncate_sel [simp]:
  "tk_number (task.truncate v) = tk_number v" "tk_status (task.truncate v) = tk_status v"
  "tk_thread (task.truncate v) = tk_thread v" "tk_created (task.truncate v) = tk_created v"
  "tk_input (task.truncate v) = tk_input v" "tk_output (task.truncate v) = tk_output v"
  "tk_error (task.truncate v) = tk_error v" "tk_updated (task.truncate v) = tk_updated v"
  by (simp_all add: task.defs)

lemma require_task_Inr [txn_simps]:
  "require_task tid db = Inr (v, db') \<longleftrightarrow>
     db' = db \<and> (\<exists>n. task_number tid = Inr (Some n) \<and> get_task db n = Some v)"
  by (cases "task_number tid") (auto simp: require_task_def txn_simps bind_eq_Some_conv split: option.splits)

lemma set_status_Inr [txn_simps]:
  "set_status v to_status now = Inr v' \<longleftrightarrow>
     to_status \<in> set (TRANSITIONS (tk_status v)) \<and> v' = v\<lparr>tk_status := to_status, tk_updated := now\<rparr>"
  by (auto simp: set_status_def)

text \<open>The events are a log: no other table depends on them.\<close>

lemma append_agent_event_tables:
  assumes "append_agent_event now type n message source error runtime db = Inr (u, db')"
  shows "tasks db' = tasks db" "sessions db' = sessions db" "steers db' = steers db"
    "next_task_number db' = next_task_number db" "next_steer_id db' = next_steer_id db"
  using assms
  by (auto simp: append_agent_event_def prune_agent_events_def txn_simps Let_def split: if_splits)

text \<open>The order in which a status can change.\<close>

fun status_le :: "task_status \<Rightarrow> task_status \<Rightarrow> bool" where
  "status_le QUEUED s = True"
| "status_le RUNNING s = (s \<noteq> QUEUED)"
| "status_le s s' = (s' = s)"

lemma status_le_refl [simp]: "status_le s s"
  by (cases s) auto

lemma status_le_trans: "status_le a b \<Longrightarrow> status_le b c \<Longrightarrow> status_le a c"
  by (cases a; cases b; cases c) auto

lemma transition_le: "b \<in> set (TRANSITIONS a) \<Longrightarrow> status_le a b"
  by (cases a) auto

lemma status_le_terminal: "terminal a \<Longrightarrow> status_le a b \<Longrightarrow> b = a"
  by (cases a) (auto simp: terminal_def)

lemma status_le_path: "status_le a b \<longleftrightarrow> (\<lambda>x y. y \<in> set (TRANSITIONS x))\<^sup>*\<^sup>* a b"
proof
  have "(\<lambda>x y. y \<in> set (TRANSITIONS x))\<^sup>*\<^sup>* QUEUED RUNNING"
    by (rule r_into_rtranclp) simp
  then show "status_le a b \<Longrightarrow> (\<lambda>x y. y \<in> set (TRANSITIONS x))\<^sup>*\<^sup>* a b"
    by (cases a; cases b) (auto intro: r_into_rtranclp rtranclp.rtrancl_into_rtrancl)
next
  show "(\<lambda>x y. y \<in> set (TRANSITIONS x))\<^sup>*\<^sup>* a b \<Longrightarrow> status_le a b"
    by (induction rule: rtranclp_induct) (auto intro: status_le_trans transition_le)
qed

text \<open>
  How the tables evolve: numbers are never reused; a task keeps its thread, its creation time
  and the session configuration it was created under; its status moves forward only.
\<close>

definition task_config :: "admin_db \<Rightarrow> task \<Rightarrow> (str \<times> str \<times> str) option" where
  "task_config db t = map_option (\<lambda>s. (ss_runtime s, ss_model s, ss_effort s)) (session_of db (tk_thread t))"

definition same_task :: "admin_db \<Rightarrow> task \<Rightarrow> admin_db \<Rightarrow> task \<Rightarrow> bool" where
  "same_task db t db' t' \<longleftrightarrow>
     tk_number t = tk_number t' \<and> tk_thread t = tk_thread t' \<and> tk_created t = tk_created t'
     \<and> task_config db t = task_config db' t' \<and> status_le (tk_status t) (tk_status t')"

definition tasks_evolve :: "admin_db \<Rightarrow> admin_db \<Rightarrow> bool" where
  "tasks_evolve db db' \<longleftrightarrow>
     next_number db \<le> next_number db'
     \<and> (\<forall>t' \<in> set (tasks db').
          (\<exists>t \<in> set (tasks db). same_task db t db' t') \<or> next_number db \<le> tk_number t')"

lemma same_task_trans: "same_task a x b y \<Longrightarrow> same_task b y c z \<Longrightarrow> same_task a x c z"
  unfolding same_task_def using status_le_trans by metis

lemma tasks_evolve_refl: "reflp tasks_evolve"
  by (auto simp: reflp_def tasks_evolve_def same_task_def)

lemma tasks_evolve_trans: "transp tasks_evolve"
proof (rule transpI)
  fix a b c
  assume ab: "tasks_evolve a b" and bc: "tasks_evolve b c"
  have "(\<exists>t \<in> set (tasks a). same_task a t c t') \<or> next_number a \<le> tk_number t'"
    if t': "t' \<in> set (tasks c)" for t'
  proof (cases "next_number b \<le> tk_number t'")
    case True
    with ab show ?thesis by (auto simp: tasks_evolve_def)
  next
    case False
    with bc t' obtain u where u: "u \<in> set (tasks b)" "same_task b u c t'"
      by (auto simp: tasks_evolve_def)
    then have "tk_number u = tk_number t'" by (simp add: same_task_def)
    with ab u show ?thesis by (metis same_task_trans tasks_evolve_def)
  qed
  with ab bc show "tasks_evolve a c" by (auto simp: tasks_evolve_def)
qed

definition good_step :: "admin_db \<Rightarrow> admin_db \<Rightarrow> bool" where
  "good_step db db' \<longleftrightarrow> (wf_db db \<longrightarrow> wf_db db' \<and> tasks_evolve db db')"

lemma good_step_refl: "reflp good_step"
  using tasks_evolve_refl by (auto simp: reflp_def good_step_def)

lemma good_step_trans: "transp good_step"
  using tasks_evolve_trans by (auto simp: transp_def good_step_def)

named_theorems good_steps \<open>the blocks that keep the tables well formed and move tasks forward\<close>

lemmas good_pure [good_steps] = relates_pure [OF good_step_refl]
lemmas good_bind [good_steps] = relates_bind [OF good_step_trans]
lemmas good_then [good_steps] = relates_then [OF good_step_trans]
lemmas good_each [good_steps] = relates_each [OF good_step_trans good_step_refl]

lemma task_unique:
  "wf_db db \<Longrightarrow> t \<in> set (tasks db) \<Longrightarrow> t' \<in> set (tasks db) \<Longrightarrow> tk_number t = tk_number t' \<Longrightarrow> t = t'"
  by (auto simp: wf_db_def distinct_map dest: inj_onD)

text \<open>Rows rewritten in place.\<close>

lemma good_map_tasks:
  assumes f: "\<And>t. wf_db db \<Longrightarrow> t \<in> set (tasks db) \<Longrightarrow> tk_number (f t) = tk_number t \<and> tk_thread (f t) = tk_thread t
      \<and> tk_created (f t) = tk_created t \<and> status_le (tk_status t) (tk_status (f t))"
  shows "good_step db (db\<lparr>tasks := map f (tasks db)\<rparr>)"
proof -
  let ?db = "db\<lparr>tasks := map f (tasks db)\<rparr>"
  have n: "next_number ?db = next_number db" by (simp add: next_number_def)
  have "wf_db ?db \<and> tasks_evolve db ?db" if wf: "wf_db db"
  proof
    note f = f [OF wf]
    have nums: "map (tk_number \<circ> f) (tasks db) = map tk_number (tasks db)"
      by (simp add: f)
    have images: "tk_thread ` f ` set (tasks db) = tk_thread ` set (tasks db)"
      "tk_number ` f ` set (tasks db) = tk_number ` set (tasks db)"
      by (simp_all add: image_image f cong: image_cong)
    show "wf_db ?db"
      using wf f unfolding wf_db_def n by (auto simp: nums images)
    show "tasks_evolve db ?db"
      using f unfolding tasks_evolve_def n by (force simp: same_task_def task_config_def session_of_def)
  qed
  then show ?thesis by (simp add: good_step_def)
qed

lemma good_save_task:
  assumes "get_task db n = Some v" and "tk_number v' = tk_number v" "tk_thread v' = tk_thread v"
    "tk_created v' = tk_created v" "status_le (tk_status v) (tk_status v')"
    and "save_task v' db = Inr (u, db')"
  shows "good_step db db'"
proof -
  have db': "db' = db\<lparr>tasks := map (\<lambda>t. if tk_number t = tk_number v' then task.truncate v' else t) (tasks db)\<rparr>"
    using assms by (simp add: save_task_def txn_simps)
  show ?thesis unfolding db'
  proof (rule good_map_tasks)
    fix t assume "wf_db db" "t \<in> set (tasks db)"
    then have "t = task.truncate v" if "tk_number t = tk_number v'"
      using that task_unique [of db t "task.truncate v"] get_task_Some [OF assms(1)] assms(2) by simp
    then show "tk_number (if tk_number t = tk_number v' then task.truncate v' else t) = tk_number t
      \<and> tk_thread (if tk_number t = tk_number v' then task.truncate v' else t) = tk_thread t
      \<and> tk_created (if tk_number t = tk_number v' then task.truncate v' else t) = tk_created t
      \<and> status_le (tk_status t) (tk_status (if tk_number t = tk_number v' then task.truncate v' else t))"
      using assms by auto
  qed
qed

text \<open>Statements that touch neither a task nor the configuration of a session.\<close>

lemma good_other_tables:
  assumes "wf_db db \<Longrightarrow> wf_db db'" "tasks db' = tasks db" "next_number db \<le> next_number db'"
    "\<And>thread s. wf_db db \<Longrightarrow> session_of db thread = Some s \<Longrightarrow> thread \<in> tk_thread ` set (tasks db) \<Longrightarrow>
       \<exists>s'. session_of db' thread = Some s' \<and> ss_runtime s' = ss_runtime s \<and> ss_model s' = ss_model s
            \<and> ss_effort s' = ss_effort s"
  shows "good_step db db'"
proof -
  have "task_config db t = task_config db' t" if "wf_db db" "t \<in> set (tasks db)" for t
  proof -
    from that have "tk_thread t \<in> ss_thread ` set (sessions db)" by (auto simp: wf_db_def)
    then obtain s where "session_of db (tk_thread t) = Some s"
      by (cases "session_of db (tk_thread t)") (auto simp: session_of_None)
    with assms(4) [OF that(1) this] that show ?thesis by (auto simp: task_config_def)
  qed
  with assms show ?thesis by (auto simp: good_step_def tasks_evolve_def same_task_def)
qed

text \<open>Only the steers and the logs change.\<close>

lemma session_of_cong: "sessions db' = sessions db \<Longrightarrow> session_of db' = session_of db"
  by (simp add: session_of_def fun_eq_iff)

lemma get_task_cong:
  assumes "tasks db' = tasks db" "sessions db' = sessions db"
  shows "get_task db' = get_task db"
proof -
  have "joined db' = joined db"
    by (rule ext) (simp add: joined_def session_of_cong [OF assms(2)])
  then show ?thesis by (intro ext) (simp add: get_task_def assms(1))
qed

lemma good_other_rows:
  assumes "tasks db' = tasks db" "sessions db' = sessions db" "next_task_number db' = next_task_number db"
    "wf_db db \<Longrightarrow> sr_task ` set (steers db') \<subseteq> tk_number ` set (tasks db)"
  shows "good_step db db'"
  by (rule good_other_tables)
     (use assms in \<open>simp_all add: wf_db_def next_number_def session_of_cong [OF assms(2)]\<close>)

lemma good_event [good_steps]: "relates good_step (append_agent_event now type n m source error runtime)"
proof (rule relatesI)
  fix db u db' assume e: "append_agent_event now type n m source error runtime db = Inr (u, db')"
  note t = append_agent_event_tables [OF e]
  show "good_step db db'" by (rule good_other_rows) (simp_all add: t wf_db_def)
qed

lemma good_allocate: "relates good_step allocate_task_number"
  by (rule relatesI, rule good_other_tables)
     (fastforce simp: allocate_task_number_def wf_db_def next_number_def session_of_def Let_def
       split: option.splits)+

lemma find_first_map:
  "(\<And>x. P (f x) = P x) \<Longrightarrow> find_first P (map f xs) = map_option f (find_first P xs)"
  by (induction xs) auto

lemma find_first_append:
  "find_first P (xs @ ys) = (case find_first P xs of Some x \<Rightarrow> Some x | None \<Rightarrow> find_first P ys)"
  by (induction xs) auto

lemma good_save_thread_session [good_steps]:
  "relates good_step (save_thread_session runtime thread provider last_used model effort)"
proof (rule relatesI)
  fix db u db'
  assume s: "save_thread_session runtime thread provider last_used model effort db = Inr (u, db')"
  show "good_step db db'"
  proof (cases "session_of db thread")
    case None
    with s have "options_check runtime model effort"
      "db' = db\<lparr>sessions := sessions db @
         [\<lparr>ss_thread = thread, ss_runtime = runtime, ss_provider = provider, ss_last_used = last_used,
           ss_model = model, ss_effort = effort\<rparr>]\<rparr>"
      by (auto simp: save_thread_session_def split: if_splits)
    with None show ?thesis
      by (intro good_other_tables)
         (auto simp: wf_db_def next_number_def session_of_None, auto simp: session_of_def find_first_append)
  next
    case (Some r)
    define f :: "session \<Rightarrow> session" where "f = (\<lambda>r. if ss_thread r = thread then r\<lparr>ss_provider := provider, ss_last_used := last_used\<rparr> else r)"
    have f: "ss_thread (f r) = ss_thread r" "ss_runtime (f r) = ss_runtime r" "ss_model (f r) = ss_model r"
      "ss_effort (f r) = ss_effort r" for r
      by (simp_all add: f_def)
    have comp: "ss_thread \<circ> f = ss_thread" by (simp add: fun_eq_iff f)
    from Some s have db': "db' = db\<lparr>sessions := map f (sessions db)\<rparr>"
      by (auto simp: save_thread_session_def f_def split: if_splits)
    show ?thesis unfolding db'
      by (rule good_other_tables)
         (auto simp: wf_db_def next_number_def comp image_image f session_of_def find_first_map)
  qed
qed

lemma append_task_steer_Inr:
  "append_task_steer n message db = Inr (u, db') \<Longrightarrow>
   tasks db' = tasks db \<and> sessions db' = sessions db \<and> next_task_number db' = next_task_number db
   \<and> n \<in> tk_number ` set (tasks db)
   \<and> steers db' = steers db @ [\<lparr>sr_id = next_steer_id db, sr_task = n, sr_message = message\<rparr>]"
  unfolding append_task_steer_def by (simp split: if_splits add: prod_eq_iff) (drule sym, simp)

lemma good_append_task_steer [good_steps]: "relates good_step (append_task_steer n message)"
  by (rule relatesI, drule append_task_steer_Inr, rule good_other_rows) (simp_all add: wf_db_def)

lemma good_pop_task_steer [good_steps]: "relates good_step (pop_task_steer n message)"
proof (rule relatesI)
  fix db u db' assume "pop_task_steer n message db = Inr (u, db')"
  then obtain P where db': "db' = db\<lparr>steers := filter P (steers db)\<rparr>"
    by (cases "sort_key sr_id (filter (\<lambda>s. sr_task s = n) (steers db))")
       (auto simp: pop_task_steer_def txn_simps dest: meta_spec [of _ "\<lambda>_. True"])
  show "good_step db db'" by (rule good_other_rows) (auto simp: db' wf_db_def)
qed

lemma good_fail_running_tasks [good_steps]: "relates good_step (fail_running_tasks now message runtime)"
  unfolding relates_def fail_running_tasks_def Let_def
  by (auto intro!: good_map_tasks)

lemma session_of_filter:
  assumes "session_of db thread = Some s" "distinct (map ss_thread (sessions db))" "P s"
  shows "session_of (db\<lparr>sessions := filter P (sessions db)\<rparr>) thread = Some s"
proof -
  have "find_first Q (filter P xs) = Some s"
    if "find_first Q xs = Some s" "distinct (map g xs)" "\<And>x. Q x \<longleftrightarrow> g x = k" for Q g k and xs :: "session list"
    using that \<open>P s\<close> by (induction xs) (auto split: if_splits)
  from this [of "\<lambda>s. ss_thread s = thread" "sessions db" ss_thread thread] assms
  show ?thesis by (simp add: session_of_def)
qed

lemma good_prune_finished_tasks [good_steps]: "relates good_step (prune_finished_tasks keep)"
proof (rule relatesI)
  fix db u db' assume "prune_finished_tasks keep db = Inr (u, db')"
  then obtain P where db': "db' = db\<lparr>tasks := filter P (tasks db),
      steers := filter (\<lambda>s. sr_task s \<in> tk_number ` set (filter P (tasks db))) (steers db)\<rparr>"
    by (auto simp: prune_finished_tasks_def txn_simps Let_def)
  show "good_step db db'"
    by (auto simp: db' good_step_def wf_db_def tasks_evolve_def next_number_def same_task_def task_config_def
        session_of_def distinct_map_filter)
qed

lemma good_prune_thread_sessions [good_steps]: "relates good_step (prune_thread_sessions runtime keep)"
proof (rule relatesI)
  fix db u db' assume "prune_thread_sessions runtime keep db = Inr (u, db')"
  then have "\<exists>R. db' = db\<lparr>sessions := filter (\<lambda>s. \<not> (unreferenced db runtime s \<and> R s)) (sessions db)\<rparr>"
    unfolding prune_thread_sessions_def txn_simps Let_def by (intro exI) assumption
  then obtain R where db': "db' = db\<lparr>sessions := filter (\<lambda>s. \<not> (unreferenced db runtime s \<and> R s)) (sessions db)\<rparr>"
    by blast
  have used: "\<not> unreferenced db runtime s" if "ss_thread s \<in> tk_thread ` set (tasks db)" for s
    using that by (auto simp: unreferenced_def list_ex_iff)
  show "good_step db db'"
  proof (rule good_other_tables)
    assume wf: "wf_db db"
    have "tk_thread ` set (tasks db) \<subseteq> ss_thread ` set (sessions db')"
    proof
      fix x assume x: "x \<in> tk_thread ` set (tasks db)"
      with wf obtain s where "s \<in> set (sessions db)" "ss_thread s = x" by (auto simp: wf_db_def)
      with x used [of s] show "x \<in> ss_thread ` set (sessions db')" by (auto simp: db')
    qed
    with wf show "wf_db db'" by (auto simp: db' wf_db_def next_number_def distinct_map_filter)
  next
    fix thread s assume wf: "wf_db db" and s: "session_of db thread = Some s"
      and "thread \<in> tk_thread ` set (tasks db)"
    with used [of s] session_of_Some [OF s] have "\<not> (unreferenced db runtime s \<and> R s)" by auto
    then have "session_of db' thread = Some s"
      unfolding db' using s wf by (intro session_of_filter) (auto simp: wf_db_def)
    then show "\<exists>s'. session_of db' thread = Some s' \<and> ss_runtime s' = ss_runtime s
        \<and> ss_model s' = ss_model s \<and> ss_effort s' = ss_effort s" by blast
  qed (auto simp: db' next_number_def)
qed

subsection \<open>What the operations do\<close>

lemma good_fail_tasks_with_events [good_steps]: "relates good_step (fail_tasks_with_events now message runtime)"
  unfolding fail_tasks_with_events_def by (intro good_steps)

lemma good_initialize_state: "relates good_step (initialize_state now)"
  unfolding initialize_state_def by (rule good_steps)

lemma good_prune_state: "relates good_step prune_state"
  unfolding prune_state_def by (intro good_steps)

lemma good_step_via: "good_step a b \<Longrightarrow> relates good_step m \<Longrightarrow> m b = Inr (x, c) \<Longrightarrow> good_step a c"
  using good_step_trans by (metis relatesD transpD)

lemma good_update_task: "relates good_step (update_task now tid body)"
proof (rule relatesI)
  fix db x db' assume "update_task now tid body db = Inr (x, db')"
  then obtain v m input u where v: "get_task db m = Some v"
    and save: "save_task (v\<lparr>tk_input := input, tk_updated := now\<rparr>) db = Inr (u, db')"
    by (auto simp: update_task_def txn_simps Let_def)
  then show "good_step db db'" by (intro good_save_task [OF _ _ _ _ _ save]) auto
qed

lemma good_cancel_in: "relates good_step (cancel_in expected now tid)"
proof (rule relatesI)
  fix db n db' assume "cancel_in expected now tid db = Inr (n, db')"
  then obtain v db1 u m where v: "get_task db m = Some v" and c: "CANCELLED \<in> set (TRANSITIONS (tk_status v))"
    and save: "save_task (v\<lparr>tk_status := CANCELLED, tk_updated := now\<rparr>) db = Inr (u, db1)"
    and ev: "task_event now ''task.cancelled'' (tk_number v) db1 = Inr ((), db')"
    by (auto simp: cancel_in_def txn_simps)
  from v have "good_step db db1"
    by (rule good_save_task [OF _ _ _ _ _ save]) (use transition_le [OF c] in auto)
  with ev show "good_step db db'" by (meson good_event good_step_via)
qed

lemma good_steer_task: "relates good_step (steer_task now tid body)"
proof (rule relatesI)
  fix db x db' assume "steer_task now tid body db = Inr (x, db')"
  then have "\<exists>v m message db1 db2 u u'. get_task db m = Some v
    \<and> append_task_steer (tk_number v) message db = Inr (u, db1)
    \<and> save_task (v\<lparr>tk_updated := now\<rparr>) db1 = Inr (u', db2)
    \<and> user_message_event now (tk_number v) message db2 = Inr (x, db')"
    unfolding steer_task_def txn_simps by clarify (intro exI conjI, assumption+)
  then obtain v m message db1 db2 u u' where v: "get_task db m = Some v"
    and st: "append_task_steer (tk_number v) message db = Inr (u, db1)"
    and save: "save_task (v\<lparr>tk_updated := now\<rparr>) db1 = Inr (u', db2)"
    and ev: "user_message_event now (tk_number v) message db2 = Inr (x, db')"
    by blast
  from append_task_steer_Inr [OF st] have "get_task db1 = get_task db"
    by (intro get_task_cong) simp_all
  with v have "good_step db1 db2" by (intro good_save_task [OF _ _ _ _ _ save]) auto
  with st ev show "good_step db db'"
    by (meson good_append_task_steer good_event good_step_via good_step_trans relatesD transpD)
qed

lemma good_insert_fresh:
  assumes step: "good_step db db2" and fresh: "next_number db \<le> tk_number t"
    and bound: "tk_number t < next_number db2" and ins: "insert_task t db2 = Inr (u, db')"
  shows "good_step db db'"
proof -
  from ins have t: "tk_number t \<notin> tk_number ` set (tasks db2)" "session_of db2 (tk_thread t) \<noteq> None"
    and db': "db' = db2\<lparr>tasks := tasks db2 @ [t]\<rparr>"
    by (auto simp: insert_task_def split: if_splits)
  have n: "next_number db' = next_number db2" by (simp add: db' next_number_def)
  have s: "session_of db' = session_of db2" by (rule session_of_cong) (simp add: db')
  have "wf_db db' \<and> tasks_evolve db db'" if wf: "wf_db db"
  proof
    from step wf have wf2: "wf_db db2" and ev: "tasks_evolve db db2" by (auto simp: good_step_def)
    have "0 < tk_number t" using fresh wf by (auto simp: wf_db_def)
    then show "wf_db db'"
      using wf2 t bound unfolding wf_db_def n by (auto simp: db' session_of_None)
    show "tasks_evolve db db'"
      using ev fresh unfolding tasks_evolve_def n by (auto simp: db' same_task_def task_config_def session_of_def)
  qed
  then show ?thesis by (simp add: good_step_def)
qed

lemma allocate_task_number_Inr:
  "allocate_task_number db = Inr (n, db') \<Longrightarrow>
   n = next_number db \<and> next_number db' = n + 1 \<and> tasks db' = tasks db \<and> sessions db' = sessions db"
  by (auto simp: allocate_task_number_def next_number_def Let_def split: option.splits)

lemma save_thread_session_next:
  "save_thread_session runtime thread provider last_used model effort db = Inr (u, db') \<Longrightarrow>
   next_number db' = next_number db"
  by (auto simp: save_thread_session_def next_number_def split: if_splits option.splits)

lemma create_task_Inr:
  assumes "create_task now body app db = Inr (v, db')"
  shows "\<exists>n db1 db2 runtime thread provider model effort t.
    queued_task_count db < QUEUED_TASK_LIMIT
    \<and> allocate_task_number db = Inr (n, db1)
    \<and> save_thread_session runtime thread provider (Some now) model effort db1 = Inr ((), db2)
    \<and> insert_task t db2 = Inr ((), db') \<and> tk_number t = n \<and> tk_status t = QUEUED
    \<and> v = task.extend t (task_view.fields runtime model effort)"
  using assms unfolding create_task_def txn_simps Let_def
  by (auto simp: txn_simps split: prod.splits) (intro exI conjI, assumption+, simp_all)

lemma good_create_task: "relates good_step (create_task now body app)"
proof (rule relatesI)
  fix db v db' assume "create_task now body app db = Inr (v, db')"
  from create_task_Inr [OF this] obtain n db1 db2 runtime thread provider model effort t
    where a: "allocate_task_number db = Inr (n, db1)"
      and s: "save_thread_session runtime thread provider (Some now) model effort db1 = Inr ((), db2)"
      and ins: "insert_task t db2 = Inr ((), db')" and t: "tk_number t = n" by blast
  from a s have "good_step db db2"
    by (meson good_allocate good_save_thread_session good_step_via relatesD)
  then show "good_step db db'"
    by (rule good_insert_fresh [OF _ _ _ ins])
       (use allocate_task_number_Inr [OF a] save_thread_session_next [OF s] t in auto)
qed

subsection \<open>Any sequence of requests\<close>

lemma good_request: "relates good_step (request_txn now r)"
  by (cases r)
     (auto simp: cancel_task_def kill_task_def
       intro!: good_steps good_create_task good_update_task good_steer_task good_cancel_in
         good_initialize_state good_prune_state)

lemma good_serve_requests: "good_step db (serve_requests rs db)"
proof (induction rs arbitrary: db)
  case Nil
  show ?case using good_step_refl by (simp add: serve_requests_def reflp_def)
next
  case (Cons x rs)
  obtain now r where x: "x = (now, r)" by (cases x)
  have "good_step db (snd (mutation (request_txn now r) db))"
    by (rule relates_mutation [OF good_step_refl good_request])
  with Cons.IH [of "snd (mutation (request_txn now r) db)"] good_step_trans show ?case
    by (auto simp: serve_requests_def x transp_def)
qed

lemma wf_empty_db: "wf_db empty_db"
  by (simp add: wf_db_def empty_db_def next_number_def)


text \<open>
  C9. A task that is still there after any requests kept its thread, its creation time and the
  configuration it was created under, and its status moved only along the documented
  transitions: a completed, failed or cancelled task never changes status again.
\<close>

theorem task_status_moves_forward:
  assumes "wf_db db" and t: "t \<in> set (tasks db)" and t': "t' \<in> set (tasks (serve_requests rs db))"
    and n: "tk_number t' = tk_number t"
  shows "tk_thread t' = tk_thread t \<and> tk_created t' = tk_created t
    \<and> task_config (serve_requests rs db) t' = task_config db t
    \<and> (\<lambda>a b. b \<in> set (TRANSITIONS a))\<^sup>*\<^sup>* (tk_status t) (tk_status t')
    \<and> (if terminal (tk_status t) then tk_status t' = tk_status t else True)"
proof -
  from good_serve_requests [of db rs] assms(1) have ev: "tasks_evolve db (serve_requests rs db)"
    by (simp add: good_step_def)
  have "tk_number t < next_number db" using assms by (auto simp: wf_db_def)
  with ev t' n obtain u where u: "u \<in> set (tasks db)" "same_task db u (serve_requests rs db) t'"
    by (force simp: tasks_evolve_def)
  with n t assms(1) have "u = t" by (intro task_unique) (auto simp: same_task_def)
  with u show ?thesis
    by (auto simp: same_task_def status_le_path [symmetric] dest: status_le_terminal)
qed

subsection \<open>The caps\<close>

definition capped :: "admin_db \<Rightarrow> bool" where
  "capped db \<longleftrightarrow> queued_task_count db \<le> QUEUED_TASK_LIMIT
     \<and> (\<forall>n. pending_steer_count db n \<le> PENDING_STEER_LIMIT)"

text \<open>Blocks that hand out no task number and queue no steer.\<close>

definition adds_nothing :: "admin_db \<Rightarrow> admin_db \<Rightarrow> bool" where
  "adds_nothing db db' \<longleftrightarrow> next_task_number db' = next_task_number db
     \<and> (\<forall>n. pending_steer_count db' n \<le> pending_steer_count db n)"

lemma adds_nothing_refl: "reflp adds_nothing"
  by (simp add: reflp_def adds_nothing_def)

lemma adds_nothing_trans: "transp adds_nothing"
  unfolding transp_def adds_nothing_def by (metis order_trans)

lemma adds_nothing_frame:
  "next_task_number db' = next_task_number db \<Longrightarrow> steers db' = steers db \<Longrightarrow> adds_nothing db db'"
  by (simp add: adds_nothing_def pending_steer_count_def)

lemma adds_nothing_filter:
  assumes "next_task_number db' = next_task_number db" "steers db' = filter P (steers db)"
  shows "adds_nothing db db'"
proof -
  have "length (filter Q (filter P xs)) \<le> length (filter Q xs)" for Q and xs :: "steer list"
    by (induction xs) auto
  with assms show ?thesis by (simp add: adds_nothing_def pending_steer_count_def)
qed

named_theorems quiet_steps \<open>blocks that add nothing\<close>

lemmas quiet_combinators [quiet_steps] =
  relates_pure [OF adds_nothing_refl] relates_bind [OF adds_nothing_trans]
  relates_then [OF adds_nothing_trans] relates_each [OF adds_nothing_trans adds_nothing_refl]

lemma quiet_statements [quiet_steps]:
  "relates adds_nothing (append_agent_event now type n m source error runtime)"
  "relates adds_nothing (save_task v)"
  "relates adds_nothing (fail_running_tasks now message filter_runtime)"
  "relates adds_nothing (save_thread_session r thread provider last_used model effort)"
  "relates adds_nothing (prune_thread_sessions r keep)"
  by (auto simp: append_agent_event_tables save_task_def fail_running_tasks_def save_thread_session_def
      prune_thread_sessions_def txn_simps Let_def intro!: relatesI adds_nothing_frame
      split: if_splits option.splits)

lemma quiet_prune [quiet_steps]: "relates adds_nothing (prune_finished_tasks keep)"
  by (rule relatesI, rule adds_nothing_filter)
     (auto simp: prune_finished_tasks_def txn_simps Let_def)

lemma quiet_pop [quiet_steps]: "relates adds_nothing (pop_task_steer k message)"
proof (rule relatesI)
  fix db u db' assume "pop_task_steer k message db = Inr (u, db')"
  then have "db' = db \<or> (\<exists>P. db' = db\<lparr>steers := filter P (steers db)\<rparr>)"
    unfolding pop_task_steer_def txn_simps
    by (cases "sort_key sr_id (filter (\<lambda>s. sr_task s = k) (steers db))") auto
  then show "adds_nothing db db'"
    by (auto intro: adds_nothing_frame adds_nothing_filter)
qed

lemma quiet_require_task [quiet_steps]: "relates adds_nothing (require_task tid)"
  using adds_nothing_refl by (auto intro!: relatesI simp: txn_simps reflp_def)

lemma quiet_requests:
  assumes "case r of Create _ _ \<Rightarrow> False | Steer_running _ _ \<Rightarrow> False | _ \<Rightarrow> True"
  shows "relates adds_nothing (request_txn now r)"
  using assms
  by (cases r)
     (auto simp: update_task_def cancel_task_def kill_task_def cancel_in_def initialize_state_def
       fail_tasks_with_events_def prune_state_def Let_def intro!: quiet_steps)

text \<open>Without a new number the queue cannot grow: a status never goes back to queued.\<close>

lemma queued_card:
  assumes "wf_db db"
  shows "queued_task_count db = card (tk_number ` {t \<in> set (tasks db). tk_status t = QUEUED})"
proof -
  have "distinct (map tk_number (filter (\<lambda>t. tk_status t = QUEUED) (tasks db)))"
    using assms by (simp add: wf_db_def distinct_map_filter)
  from distinct_card [OF this] show ?thesis by (simp add: queued_task_count_def)
qed

lemma queue_bounded:
  assumes "good_step db db'" "wf_db db" "next_task_number db' = next_task_number db"
  shows "queued_task_count db' \<le> queued_task_count db"
proof -
  from assms have wf': "wf_db db'" and ev: "tasks_evolve db db'" by (auto simp: good_step_def)
  have "tk_number ` {t \<in> set (tasks db'). tk_status t = QUEUED}
      \<subseteq> tk_number ` {t \<in> set (tasks db). tk_status t = QUEUED}"
  proof
    fix n assume "n \<in> tk_number ` {t \<in> set (tasks db'). tk_status t = QUEUED}"
    then obtain t' where t': "t' \<in> set (tasks db')" "tk_status t' = QUEUED" "n = tk_number t'" by auto
    with wf' assms(3) have "tk_number t' < next_number db" by (auto simp: wf_db_def next_number_def)
    with ev t' obtain t where t: "t \<in> set (tasks db)" "same_task db t db' t'" by (force simp: tasks_evolve_def)
    with t' have "tk_status t = QUEUED" by (cases "tk_status t") (auto simp: same_task_def)
    with t t' show "n \<in> tk_number ` {t \<in> set (tasks db). tk_status t = QUEUED}"
      by (auto simp: same_task_def intro: image_eqI [of _ _ t])
  qed
  then show ?thesis
    unfolding queued_card [OF wf'] queued_card [OF assms(2)] by (intro card_mono) auto
qed

lemma steer_task_Inr:
  assumes "steer_task now tid body db = Inr (x, db')"
  shows "\<exists>n message db1. pending_steer_count db n < PENDING_STEER_LIMIT
    \<and> append_task_steer n message db = Inr ((), db1) \<and> adds_nothing db1 db'"
proof -
  from assms have "\<exists>v message db1 db2 u u'. pending_steer_count db (tk_number v) < PENDING_STEER_LIMIT
    \<and> append_task_steer (tk_number v) message db = Inr (u, db1)
    \<and> save_task (v\<lparr>tk_updated := now\<rparr>) db1 = Inr (u', db2)
    \<and> user_message_event now (tk_number v) message db2 = Inr (x, db')"
    unfolding steer_task_def txn_simps by clarify (intro exI conjI, assumption+)
  then obtain v message db1 db2 u u' where n: "pending_steer_count db (tk_number v) < PENDING_STEER_LIMIT"
    and st: "append_task_steer (tk_number v) message db = Inr (u, db1)"
    and save: "save_task (v\<lparr>tk_updated := now\<rparr>) db1 = Inr (u', db2)"
    and ev: "user_message_event now (tk_number v) message db2 = Inr (x, db')"
    by blast
  from relatesD [OF quiet_statements(2) save] relatesD [OF quiet_statements(1) ev]
  have "adds_nothing db1 db'" using adds_nothing_trans by (meson transpD)
  with n st show ?thesis by auto
qed

lemma capped_request:
  assumes "wf_db db" "capped db" and run: "request_txn now r db = Inr (u, db')"
  shows "capped db'"
proof -
  from run have good: "good_step db db'" by (rule relatesD [OF good_request])
  consider (create) body app where "r = Create body app" | (steer) tid body where "r = Steer_running tid body"
    | (quiet) "relates adds_nothing (request_txn now r)"
    using quiet_requests [of r now] by (cases r) auto
  then show ?thesis
  proof cases
    case create
    with run obtain v where "create_task now body app db = Inr (v, db')" by (auto simp: txn_simps)
    from create_task_Inr [OF this] obtain n db1 db2 runtime thread provider model effort t
      where q: "queued_task_count db < QUEUED_TASK_LIMIT" and a: "allocate_task_number db = Inr (n, db1)"
        and s: "save_thread_session runtime thread provider (Some now) model effort db1 = Inr ((), db2)"
        and i: "insert_task t db2 = Inr ((), db')" by blast
    have "tasks db' = tasks db @ [t]" "steers db' = steers db"
      using a s i by (auto simp: allocate_task_number_def save_thread_session_def insert_task_def Let_def
          split: option.splits if_splits)
    with q assms(2) show ?thesis by (simp add: capped_def queued_task_count_def pending_steer_count_def)
  next
    case steer
    with run have "steer_task now tid body db = Inr (u, db')" by simp
    from steer_task_Inr [OF this] obtain n message db1 where n: "pending_steer_count db n < PENDING_STEER_LIMIT"
      and st: "append_task_steer n message db = Inr ((), db1)" and db': "adds_nothing db1 db'" by blast
    note st = append_task_steer_Inr [OF st]
    have "pending_steer_count db' m \<le> PENDING_STEER_LIMIT" for m
    proof -
      have "pending_steer_count db' m \<le> pending_steer_count db1 m" using db' by (simp add: adds_nothing_def)
      also have "\<dots> \<le> PENDING_STEER_LIMIT"
        using n st assms(2) by (auto simp: capped_def pending_steer_count_def)
      finally show ?thesis .
    qed
    with good assms db' st queue_bounded [of db db'] show ?thesis by (auto simp: capped_def adds_nothing_def)
  next
    case quiet
    from relatesD [OF this run] good assms queue_bounded [of db db'] show ?thesis
      unfolding capped_def adds_nothing_def by (meson order_trans)
  qed
qed


subsection \<open>A queue to run\<close>

definition demo_session :: session where
  "demo_session = \<lparr>ss_thread = S ''t1'', ss_runtime = S ''codex'', ss_provider = None, ss_last_used = None,
     ss_model = S ''gpt-5.6-sol'', ss_effort = S ''high''\<rparr>"

definition demo_task :: task where
  "demo_task = \<lparr>tk_number = 1, tk_status = QUEUED, tk_thread = S ''t1'', tk_input = S ''hi'', tk_output = None,
     tk_error = None, tk_created = S ''2026'', tk_updated = S ''2026''\<rparr>"

definition demo_db :: admin_db where
  "demo_db = empty_db\<lparr>tasks := [demo_task], sessions := [demo_session], next_task_number := Some 2\<rparr>"

definition demo_cancelled :: task where
  "demo_cancelled = demo_task\<lparr>tk_status := CANCELLED, tk_updated := S ''2027''\<rparr>"

abbreviation demo_requests :: "(str \<times> task_request) list" where
  "demo_requests \<equiv> [(S ''2027'', Cancel_queued (S ''task_1'')), (S ''2028'', Kill_running (S ''task_1''))]"

lemma wf_demo_db: "wf_db demo_db"
  by (simp add: wf_db_def demo_db_def demo_task_def demo_session_def empty_db_def next_number_def options_check_def)

lemma demo_db_tasks: "tasks demo_db = [demo_task]" "tasks (serve_requests demo_requests demo_db) = [demo_cancelled]"
  by (simp add: demo_db_def, code_simp)

theorem task_status_moves_forward_witness:
  "tk_thread demo_cancelled = tk_thread demo_task \<and> tk_created demo_cancelled = tk_created demo_task
    \<and> task_config (serve_requests demo_requests demo_db) demo_cancelled = task_config demo_db demo_task
    \<and> (\<lambda>a b. b \<in> set (TRANSITIONS a))\<^sup>*\<^sup>* (tk_status demo_task) (tk_status demo_cancelled)
    \<and> (if terminal (tk_status demo_task) then tk_status demo_cancelled = tk_status demo_task else True)"
  by (rule task_status_moves_forward [OF wf_demo_db])
     (simp_all add: demo_db_tasks, simp add: demo_cancelled_def)

end
