(* ===== verification/OrchestratorInvariants.thy ===== *)
theory OrchestratorInvariants
  imports Orchestrator TaskInvariants
begin

text \<open>
  What every interleaving of the workers, the requests and the closing threads keeps: the task
  tables, the claim caps, one running task per thread, a worker for every running task; and
  what the registry of live processes guarantees and does not guarantee.
\<close>

lemma run_actions_execution: "run_actions as s = Some s' \<Longrightarrow> execution s0 s \<Longrightarrow> execution s0 s'"
proof (induction as arbitrary: s)
  case (Cons x as)
  obtain now a where x: "x = (now, a)" by (cases x)
  with Cons.prems obtain s1 where "act now a s = Some s1" "run_actions as s1 = Some s'"
    by (auto simp: bind_eq_Some_conv)
  with Cons show ?case by (blast intro: execution.step)
qed simp

subsection \<open>Which tasks a block can start\<close>

text \<open>No task becomes running.\<close>

definition no_starts :: "admin_db \<Rightarrow> admin_db \<Rightarrow> bool" where
  "no_starts d d' \<longleftrightarrow> (\<forall>t' \<in> set (tasks d'). tk_status t' = RUNNING \<longrightarrow>
     (\<exists>t \<in> set (tasks d). tk_status t = RUNNING \<and> tk_number t = tk_number t'))"

lemma no_starts_refl: "reflp no_starts"
  by (auto simp: reflp_def no_starts_def)

lemma no_starts_trans: "transp no_starts"
  unfolding transp_def no_starts_def by metis

lemma no_starts_subset: "set (tasks d') \<subseteq> set (tasks d) \<Longrightarrow> no_starts d d'"
  by (auto simp: no_starts_def)

named_theorems unstarting \<open>blocks that start no task\<close>

lemmas unstarting_combinators [unstarting] =
  relates_pure [OF no_starts_refl] relates_bind [OF no_starts_trans]
  relates_then [OF no_starts_trans] relates_each [OF no_starts_trans no_starts_refl]

lemma unstarting_require_task [unstarting]: "relates no_starts (require_task tid)"
  using no_starts_refl by (auto intro!: relatesI simp: txn_simps reflp_def)

lemma unstarting_statements [unstarting]:
  "relates no_starts (append_agent_event now type n m source error runtime)"
  "relates no_starts (save_thread_session r thread provider last_used model effort)"
  "relates no_starts (prune_thread_sessions r keep)"
  "relates no_starts (prune_finished_tasks keep)"
  "relates no_starts (append_task_steer k message)"
  "relates no_starts allocate_task_number"
  by (auto intro!: relatesI no_starts_subset dest!: append_task_steer_Inr
      simp: append_agent_event_tables save_thread_session_def prune_thread_sessions_def
        prune_finished_tasks_def allocate_task_number_def txn_simps Let_def
      split: if_splits option.splits)

lemma unstarting_fail_running_tasks [unstarting]: "relates no_starts (fail_running_tasks now message fr)"
  by (rule relatesI) (auto simp: fail_running_tasks_def no_starts_def Let_def)

lemma unstarting_pop [unstarting]: "relates no_starts (pop_task_steer k message)"
  by (auto intro!: relatesI no_starts_subset simp: pop_task_steer_def txn_simps split: list.splits)

lemma no_starts_save_task:
  assumes "save_task v d = Inr (u, d')" "tk_status v = RUNNING \<Longrightarrow>
    \<exists>t \<in> set (tasks d). tk_status t = RUNNING \<and> tk_number t = tk_number v"
  shows "no_starts d d'"
  using assms by (auto simp: save_task_def txn_simps no_starts_def split: if_splits)

lemma no_starts_via: "no_starts a b \<Longrightarrow> relates no_starts m \<Longrightarrow> m b = Inr (x, c) \<Longrightarrow> no_starts a c"
  using no_starts_trans by (metis relatesD transpD)

lemma unstarting_create_task: "relates no_starts (create_task now body app)"
proof (rule relatesI)
  fix d v d' assume "create_task now body app d = Inr (v, d')"
  from create_task_Inr [OF this] obtain n d1 d2 runtime thread provider model effort t
    where a: "allocate_task_number d = Inr (n, d1)"
      and s: "save_thread_session runtime thread provider (Some now) model effort d1 = Inr ((), d2)"
      and i: "insert_task t d2 = Inr ((), d')" and t: "tk_status t = QUEUED" by blast
  have "tasks d' = tasks d @ [t]"
    using a s i by (auto simp: allocate_task_number_def save_thread_session_def insert_task_def Let_def
        split: option.splits if_splits)
  with t show "no_starts d d'" by (auto simp: no_starts_def)
qed

lemma get_task_row: "get_task d n = Some v \<Longrightarrow>
  \<exists>t \<in> set (tasks d). tk_number t = n \<and> tk_status t = tk_status v \<and> t = task.truncate v"
  using get_task_Some [of d n v] by auto

lemma unstarting_update_task: "relates no_starts (update_task now tid body)"
proof (rule relatesI)
  fix d x d' assume "update_task now tid body d = Inr (x, d')"
  then obtain v m input u where v: "get_task d m = Some v" "tk_status v = QUEUED"
    and save: "save_task (v\<lparr>tk_input := input, tk_updated := now\<rparr>) d = Inr (u, d')"
    by (auto simp: update_task_def txn_simps Let_def)
  then show "no_starts d d'" by (intro no_starts_save_task [OF save]) auto
qed

lemma unstarting_cancel_in: "relates no_starts (cancel_in expected now tid)"
proof (rule relatesI)
  fix d n d' assume "cancel_in expected now tid d = Inr (n, d')"
  then obtain v d1 u m where
    save: "save_task (v\<lparr>tk_status := CANCELLED, tk_updated := now\<rparr>) d = Inr (u, d1)"
    and ev: "task_event now ''task.cancelled'' (tk_number v) d1 = Inr ((), d')"
    by (auto simp: cancel_in_def txn_simps)
  have "no_starts d d1" by (rule no_starts_save_task [OF save]) simp
  with ev show "no_starts d d'" by (meson unstarting_statements no_starts_via)
qed

lemma unstarting_steer_task: "relates no_starts (steer_task now tid body)"
proof (rule relatesI)
  fix d x d' assume "steer_task now tid body d = Inr (x, d')"
  then have "\<exists>v m message d1 d2 u u'. get_task d m = Some v
    \<and> append_task_steer (tk_number v) message d = Inr (u, d1)
    \<and> save_task (v\<lparr>tk_updated := now\<rparr>) d1 = Inr (u', d2)
    \<and> user_message_event now (tk_number v) message d2 = Inr (x, d')"
    unfolding steer_task_def txn_simps by clarify (intro exI conjI, assumption+)
  then obtain v m message d1 d2 u u' where v: "get_task d m = Some v"
    and st: "append_task_steer (tk_number v) message d = Inr (u, d1)"
    and save: "save_task (v\<lparr>tk_updated := now\<rparr>) d1 = Inr (u', d2)"
    and ev: "user_message_event now (tk_number v) message d2 = Inr (x, d')"
    by blast
  have "no_starts d1 d2"
    by (rule no_starts_save_task [OF save])
       (use append_task_steer_Inr [OF st] get_task_Some(1) [OF v] in \<open>auto intro: bexI [of _ "task.truncate v"]\<close>)
  with relatesD [OF unstarting_statements(5) st] have "no_starts d d2"
    using no_starts_trans by (meson transpD)
  with ev show "no_starts d d'" by (meson unstarting_statements no_starts_via)
qed

lemma unstarting_request: "relates no_starts (request_txn now r)"
  by (cases r)
     (auto simp: cancel_task_def kill_task_def initialize_state_def fail_tasks_with_events_def prune_state_def
       intro!: unstarting unstarting_create_task unstarting_update_task unstarting_steer_task
         unstarting_cancel_in)

subsection \<open>Finishing\<close>

lemma save_task_Inr [txn_simps]:
  "save_task v d = Inr (u, d') \<longleftrightarrow>
     d' = d\<lparr>tasks := map (\<lambda>t. if tk_number t = tk_number v then task.truncate v else t) (tasks d)\<rparr>"
  by (auto simp: save_task_def txn_simps)

lemma save_thread_session_tables:
  "save_thread_session r thread provider last_used model effort d = Inr (u, d') \<Longrightarrow> tasks d' = tasks d"
  by (auto simp: save_thread_session_def split: if_splits option.splits)

text \<open>A turn's end either leaves the tables alone or moves its running task to an end state.\<close>

lemma finish_task_Inr:
  assumes "finish_task now n runtime thread result d = Inr (u, d')"
  shows "(case get_task d n of None \<Rightarrow> True | Some v \<Rightarrow> tk_status v \<noteq> RUNNING) \<and> d' = d
    \<or> (\<exists>v v' d1. get_task d n = Some v \<and> tk_status v = RUNNING
        \<and> tk_number v' = tk_number v \<and> tk_thread v' = tk_thread v \<and> tk_created v' = tk_created v
        \<and> tk_status v' \<in> {COMPLETED, FAILED} \<and> save_task v' d = Inr ((), d1)
        \<and> good_step d1 d' \<and> tasks d' = tasks d1)"
proof (cases "get_task d n")
  case None
  with assms show ?thesis by (simp add: finish_task_def txn_simps)
next
  case (Some v)
  show ?thesis
  proof (cases "tk_status v = RUNNING")
    case False
    with assms Some show ?thesis by (simp add: finish_task_def txn_simps)
  next
    case run: True
    show ?thesis
    proof (cases result)
      case (Completed out provider)
      let ?v = "v\<lparr>tk_status := COMPLETED, tk_updated := now, tk_output := Some out\<rparr>"
      from assms Some run Completed obtain d1 d2 where save: "save_task ?v d = Inr ((), d1)"
        and sess: "save_thread_session runtime thread provider (Some now) (tv_model v) (tv_effort v) d1 = Inr ((), d2)"
        and ev: "task_event now ''task.completed'' n d2 = Inr ((), d')"
        unfolding finish_task_def bind_txn_Inr then_txn_Inr select_Inr by (auto simp: bind_txn_Inr then_txn_Inr lift_txn_Inr set_status_Inr)
      from relatesD [OF good_save_thread_session sess] ev have "good_step d1 d'"
        by (meson good_event good_step_via)
      moreover have "tasks d' = tasks d1"
        using save_thread_session_tables [OF sess] append_agent_event_tables(1) [OF ev] by simp
      ultimately show ?thesis using Some run save by (intro disjI2 exI [of _ v] exI [of _ ?v] exI [of _ d1]) simp
    next
      case (Failed message)
      let ?v = "v\<lparr>tk_status := FAILED, tk_updated := now, tk_error := Some message\<rparr>"
      from assms Some run Failed obtain d1 where save: "save_task ?v d = Inr ((), d1)"
        and ev: "task_failed_event now n message d1 = Inr ((), d')"
        unfolding finish_task_def bind_txn_Inr then_txn_Inr select_Inr by (auto simp: bind_txn_Inr then_txn_Inr lift_txn_Inr set_status_Inr)
      from relatesD [OF good_event ev] append_agent_event_tables(1) [OF ev] Some run save
      show ?thesis by (intro disjI2 exI [of _ v] exI [of _ ?v] exI [of _ d1]) simp
    qed
  qed
qed

definition not_running :: "int \<Rightarrow> admin_db \<Rightarrow> bool" where
  "not_running n d \<longleftrightarrow> (\<forall>t \<in> set (tasks d). tk_number t = n \<longrightarrow> tk_status t \<noteq> RUNNING)"

lemma wf_get_task:
  assumes "wf_db d" "t \<in> set (tasks d)"
  obtains s where "session_of d (tk_thread t) = Some s" "joined d t = get_task d (tk_number t)"
    "get_task d (tk_number t) = Some (task.extend t (task_view.fields (ss_runtime s) (ss_model s) (ss_effort s)))"
proof -
  from assms have "tk_thread t \<in> ss_thread ` set (sessions d)" by (auto simp: wf_db_def)
  then obtain s where s: "session_of d (tk_thread t) = Some s"
    by (cases "session_of d (tk_thread t)") (auto simp: session_of_None)
  have "find_first (\<lambda>u. tk_number u = tk_number t) (tasks d) = Some t"
  proof (cases "find_first (\<lambda>u. tk_number u = tk_number t) (tasks d)")
    case None
    with assms show ?thesis by (auto simp: find_first_None)
  next
    case (Some u)
    with find_first_Some [OF Some] task_unique [OF assms(1), of u t] assms(2) show ?thesis by simp
  qed
  with s that show ?thesis by (simp add: get_task_def joined_def)
qed

lemma not_running_get_task:
  assumes "wf_db d" "case get_task d n of None \<Rightarrow> True | Some v \<Rightarrow> tk_status v \<noteq> RUNNING"
  shows "not_running n d"
  unfolding not_running_def
proof (intro ballI impI)
  fix t assume t: "t \<in> set (tasks d)" "tk_number t = n"
  from assms(1) t(1) show "tk_status t \<noteq> RUNNING"
    by (rule wf_get_task) (use assms(2) t(2) in auto)
qed

lemma finish_task_step:
  assumes fin: "finish_task now n runtime thread result d = Inr (u, d')"
  shows "good_step d d' \<and> no_starts d d' \<and> (wf_db d \<longrightarrow> not_running n d')"
  using finish_task_Inr [OF fin]
proof (elim disjE conjE exE)
  assume "case get_task d n of None \<Rightarrow> True | Some v \<Rightarrow> tk_status v \<noteq> RUNNING" "d' = d"
  then show ?thesis
    using good_step_refl no_starts_refl not_running_get_task [of d n] by (simp add: reflp_def)
next
  fix v v' d1
  assume v: "get_task d n = Some v" "tk_status v = RUNNING" and eq: "tk_number v' = tk_number v"
    "tk_thread v' = tk_thread v" "tk_created v' = tk_created v" and st: "tk_status v' \<in> {COMPLETED, FAILED}"
    and save: "save_task v' d = Inr ((), d1)" and rest: "good_step d1 d'" "tasks d' = tasks d1"
  have "good_step d d1" by (rule good_save_task [OF v(1) eq _ save]) (use st v in auto)
  with rest have "good_step d d'" using good_step_trans by (meson transpD)
  moreover have "no_starts d d1" by (rule no_starts_save_task [OF save]) (use st in auto)
  moreover have "not_running n d1"
    using save st eq get_task_Some(2) [OF v(1)] by (auto simp: txn_simps not_running_def)
  ultimately show ?thesis using rest by (simp add: no_starts_def not_running_def)
qed

lemma failing_never_fails: "\<exists>d'. finish_task now n runtime thread (Failed message) d = Inr ((), d')"
proof (cases "\<exists>v. get_task d n = Some v \<and> tk_status v = RUNNING")
  case False
  then show ?thesis
    by (cases "get_task d n") (auto simp: finish_task_def bind_txn_def select_def ok_def)
next
  case True
  then show ?thesis
    by (auto simp: finish_task_def bind_txn_def then_txn_def select_def ok_def lift_txn_def set_status_def
        save_task_def modify_def append_agent_event_def)
qed

lemma end_turn_step:
  "good_step d (end_turn now c result d) \<and> no_starts d (end_turn now c result d)
   \<and> (wf_db d \<longrightarrow> not_running (cl_task c) (end_turn now c result d))"
proof (cases "finish_task now (cl_task c) (cl_runtime c) (cl_thread c) result d")
  case (Inr r)
  with finish_task_step [of now "cl_task c" "cl_runtime c" "cl_thread c" result d "fst r" "snd r"]
  show ?thesis by (cases r) (simp add: end_turn_def mutation_def)
next
  case (Inl f)
  obtain d' where fl: "finish_task now (cl_task c) (cl_runtime c) (cl_thread c) (Failed (S ''error'')) d = Inr ((), d')"
    using failing_never_fails by blast
  with Inl have "end_turn now c result d = d'" by (simp add: end_turn_def mutation_def)
  with finish_task_step [OF fl] show ?thesis by simp
qed

subsection \<open>The running tasks\<close>

text \<open>The running tasks as rows of number, thread and runtime.\<close>

definition running_rows :: "admin_db \<Rightarrow> (int \<times> str \<times> str) set" where
  "running_rows d = (\<lambda>v. (tk_number v, tk_thread v, tv_runtime v)) ` set (running_tasks d)"

lemma set_map_filter: "y \<in> set (List.map_filter f xs) \<longleftrightarrow> (\<exists>x \<in> set xs. f x = Some y)"
  by (induction xs) (auto simp: List.map_filter_simps split: option.splits)

lemma joined_tasks_iff:
  assumes "wf_db d"
  shows "v \<in> set (joined_tasks d P) \<longleftrightarrow> get_task d (tk_number v) = Some v \<and> P (task.truncate v)"
proof
  assume "v \<in> set (joined_tasks d P)"
  then obtain t where t: "t \<in> set (tasks d)" "P t" "joined d t = Some v"
    by (auto simp: joined_tasks_def set_map_filter)
  from assms t(1) obtain s where "session_of d (tk_thread t) = Some s"
    "joined d t = get_task d (tk_number t)"
    "get_task d (tk_number t) = Some (task.extend t (task_view.fields (ss_runtime s) (ss_model s) (ss_effort s)))"
    by (rule wf_get_task)
  with t show "get_task d (tk_number v) = Some v \<and> P (task.truncate v)" by auto
next
  assume v: "get_task d (tk_number v) = Some v \<and> P (task.truncate v)"
  then have row: "task.truncate v \<in> set (tasks d)" by (auto dest: get_task_Some)
  with assms have "joined d (task.truncate v) = get_task d (tk_number (task.truncate v))"
    by (rule wf_get_task)
  with v row show "v \<in> set (joined_tasks d P)"
    by (force simp: joined_tasks_def set_map_filter)
qed

lemma distinct_joined_numbers:
  assumes "wf_db d"
  shows "distinct (map tk_number (joined_tasks d P))"
proof -
  have num: "tk_number v = tk_number t" if "joined d t = Some v" for t v
    using that by (auto simp: joined_def)
  have all: "\<forall>t \<in> set xs. joined d t \<noteq> None" if "set xs \<subseteq> set (tasks d)" for xs
  proof
    fix t assume "t \<in> set xs"
    with that have "t \<in> set (tasks d)" by auto
    with assms show "joined d t \<noteq> None" by (rule wf_get_task) simp
  qed
  have same: "map tk_number (List.map_filter (joined d) xs) = map tk_number xs" if "\<forall>t \<in> set xs. joined d t \<noteq> None" for xs
    using that by (induction xs) (auto simp: num)
  have "distinct (map tk_number (sort_key tk_number (filter P (tasks d))))"
    using assms by (auto simp: wf_db_def distinct_map intro: inj_on_subset)
  moreover have "set (sort_key tk_number (filter P (tasks d))) \<subseteq> set (tasks d)" by auto
  ultimately show ?thesis unfolding joined_tasks_def by (simp only: same [OF all])
qed

lemma inj_on_numbers:
  assumes "distinct (map f xs)" "\<And>x y. g x = g y \<Longrightarrow> f x = f y"
  shows "card (g ` set xs) = length xs" "inj_on g (set xs)"
proof -
  from assms(1) have f: "inj_on f (set xs)" by (simp add: distinct_map)
  show i: "inj_on g (set xs)"
    by (rule inj_onI) (use assms(2) inj_onD [OF f] in blast)
  from assms(1) have "distinct xs" by (simp add: distinct_map)
  with i show "card (g ` set xs) = length xs" by (simp add: card_image distinct_card)
qed

lemma running_rows_counts:
  assumes "wf_db d"
  shows "length (running_tasks d) = card (running_rows d)"
    "length (filter (\<lambda>v. tv_runtime v = r) (running_tasks d)) = card {x \<in> running_rows d. snd (snd x) = r}"
proof -
  have dis: "distinct (map tk_number (running_tasks d))"
    unfolding running_tasks_def by (rule distinct_joined_numbers [OF assms])
  show "length (running_tasks d) = card (running_rows d)"
    unfolding running_rows_def by (rule inj_on_numbers(1) [OF dis, symmetric]) simp
  have rows: "{x \<in> running_rows d. snd (snd x) = r}
      = (\<lambda>v. (tk_number v, tk_thread v, tv_runtime v)) ` set (filter (\<lambda>v. tv_runtime v = r) (running_tasks d))"
    by (auto simp: running_rows_def)
  show "length (filter (\<lambda>v. tv_runtime v = r) (running_tasks d)) = card {x \<in> running_rows d. snd (snd x) = r}"
    unfolding rows
    by (rule inj_on_numbers(1) [of tk_number, symmetric]) (simp_all add: dis distinct_map_filter)
qed

lemma finite_running_rows [simp]: "finite (running_rows d)"
  by (simp add: running_rows_def)

lemma running_rows_iff:
  assumes "wf_db d"
  shows "(n, thread, r) \<in> running_rows d \<longleftrightarrow>
    (\<exists>t s. t \<in> set (tasks d) \<and> tk_status t = RUNNING \<and> tk_number t = n \<and> tk_thread t = thread
         \<and> session_of d thread = Some s \<and> ss_runtime s = r)"
proof
  assume "(n, thread, r) \<in> running_rows d"
  then obtain v where "v \<in> set (running_tasks d)" "n = tk_number v" "thread = tk_thread v" "r = tv_runtime v"
    by (auto simp: running_rows_def)
  then show "\<exists>t s. t \<in> set (tasks d) \<and> tk_status t = RUNNING \<and> tk_number t = n \<and> tk_thread t = thread
         \<and> session_of d thread = Some s \<and> ss_runtime s = r"
    by (auto simp: running_tasks_def joined_tasks_def set_map_filter joined_def task.defs task_view.defs)
next
  assume "\<exists>t s. t \<in> set (tasks d) \<and> tk_status t = RUNNING \<and> tk_number t = n \<and> tk_thread t = thread
         \<and> session_of d thread = Some s \<and> ss_runtime s = r"
  then obtain t s where t: "t \<in> set (tasks d)" "tk_status t = RUNNING" "tk_number t = n" "tk_thread t = thread"
     "session_of d thread = Some s" "ss_runtime s = r" by blast
  let ?v = "task.extend t (task_view.fields (ss_runtime s) (ss_model s) (ss_effort s))"
  have "joined d t = Some ?v" using t by (simp add: joined_def)
  with t have "?v \<in> set (running_tasks d)"
    by (force simp: running_tasks_def joined_tasks_def set_map_filter)
  moreover have "tv_runtime ?v = r" using t by (simp add: task.defs task_view.defs)
  ultimately show "(n, thread, r) \<in> running_rows d" using t
    by (force simp: running_rows_def)
qed

lemma running_rows_shrink:
  assumes wf: "wf_db d" and good: "good_step d d'" and ns: "no_starts d d'"
  shows "running_rows d' \<subseteq> running_rows d"
proof
  fix x assume x: "x \<in> running_rows d'"
  obtain n thread r where x_eq: "x = (n, thread, r)" by (cases x)
  from wf good have wf': "wf_db d'" and ev: "tasks_evolve d d'" by (auto simp: good_step_def)
  from x obtain t' s' where t': "t' \<in> set (tasks d')" "tk_status t' = RUNNING" "tk_number t' = n"
    "tk_thread t' = thread" "session_of d' thread = Some s'" "ss_runtime s' = r"
    unfolding x_eq running_rows_iff [OF wf'] by blast
  from ns t' obtain t where t: "t \<in> set (tasks d)" "tk_status t = RUNNING" "tk_number t = n"
    by (auto simp: no_starts_def)
  then have "tk_number t' < next_number d" using wf t' by (auto simp: wf_db_def)
  with ev t' obtain u where u: "u \<in> set (tasks d)" "same_task d u d' t'" by (force simp: tasks_evolve_def)
  with t t' wf have "u = t" by (intro task_unique [of d]) (auto simp: same_task_def)
  with t t' u show "x \<in> running_rows d"
    unfolding x_eq running_rows_iff [OF wf]
    by (intro exI [of _ t]) (auto simp: same_task_def task_config_def)
qed

lemma find_first_claimable:
  assumes "claimable d lv = Some v"
  shows "v \<in> set (queued_tasks_brief d)" "length (running_tasks d) < WORKER_COUNT"
    "length (filter (\<lambda>r. tv_runtime r = tv_runtime v) (running_tasks d)) < WORKER_COUNT_PER_RUNTIME"
    "view_key v \<notin> view_key ` set (running_tasks d)"
  using assms by (auto simp: claimable_def Let_def split: if_splits dest: find_first_Some)

text \<open>A claim starts the one task it returns, within the caps.\<close>

lemma claim_next_task_run:
  assumes wf: "wf_db d" and run: "claim_next_task now lv d = Inr (Some c, d')"
  obtains v d1 where "claimable d lv = Some v" "get_task d (cl_task c) = Some v" "tk_status v = QUEUED"
    "cl_task c = tk_number v" "cl_runtime c = tv_runtime v" "cl_thread c = tk_thread v"
    "save_task (v\<lparr>tk_status := RUNNING, tk_updated := now\<rparr>) d = Inr ((), d1)"
    "good_step d1 d'" "tasks d' = tasks d1" "sessions d' = sessions d"
proof -
  from run obtain v brief d1 d2 where b: "claimable d lv = Some brief" and v: "get_task d (tk_number brief) = Some v"
    and q: "tk_status v = QUEUED" and save: "save_task (v\<lparr>tk_status := RUNNING, tk_updated := now\<rparr>) d = Inr ((), d1)"
    and e1: "task_event now ''task.started'' (tk_number v) d1 = Inr ((), d2)"
    and e2: "user_message_event now (tk_number v) (tk_input v) d2 = Inr ((), d')"
    and c: "cl_task c = tk_number v" "cl_runtime c = tv_runtime v" "cl_thread c = tk_thread v"
    by (auto simp: claim_next_task_def bind_txn_Inr then_txn_Inr select_Inr ok_Inr lift_txn_Inr set_status_Inr
        split: option.splits if_splits)
  from find_first_claimable(1) [OF b] have "get_task d (tk_number brief) = Some brief"
    by (simp add: queued_tasks_brief_def joined_tasks_iff [OF wf])
  with v have eq: "brief = v" by simp
  have "good_step d1 d'"
    using relatesD [OF good_event e1] e2 by (meson good_event good_step_via)
  moreover have "tasks d' = tasks d1" "sessions d' = sessions d"
    using append_agent_event_tables [OF e1] append_agent_event_tables [OF e2] save by (auto simp: save_task_Inr)
  ultimately show thesis using that [of v d1] b v q c save eq by simp
qed

lemma view_runtime: "get_task d n = Some v \<Longrightarrow> session_of d (tk_thread v) = Some s \<Longrightarrow> tv_runtime v = ss_runtime s"
  by (auto simp: get_task_def joined_def bind_eq_Some_conv task.defs task_view.defs)

lemma view_session: "get_task d n = Some v \<Longrightarrow> \<exists>s. session_of d (tk_thread v) = Some s"
  by (auto simp: get_task_def joined_def bind_eq_Some_conv)

lemma claim_rows:
  assumes wf: "wf_db d" and v: "get_task d n = Some v"
    and save: "save_task (v\<lparr>tk_status := RUNNING, tk_updated := now\<rparr>) d = Inr ((), d1)"
    and tabs: "tasks d' = tasks d1" "sessions d' = sessions d" and wf': "wf_db d'"
  shows "running_rows d' \<subseteq> insert (tk_number v, tk_thread v, tv_runtime v) (running_rows d)"
proof
  fix x assume x: "x \<in> running_rows d'"
  obtain n' thread r where x_eq: "x = (n', thread, r)" by (cases x)
  note ses = session_of_cong [OF tabs(2)]
  from x obtain t' s where t': "t' \<in> set (tasks d')" "tk_status t' = RUNNING" "tk_number t' = n'"
    "tk_thread t' = thread" "session_of d' thread = Some s" "ss_runtime s = r"
    unfolding x_eq running_rows_iff [OF wf'] by blast
  show "x \<in> insert (tk_number v, tk_thread v, tv_runtime v) (running_rows d)"
  proof (cases "n' = tk_number v")
    case True
    with t' save have "t' = task.truncate (v\<lparr>tk_status := RUNNING, tk_updated := now\<rparr>)"
      by (auto simp: tabs save_task_Inr)
    with t' have "thread = tk_thread v" by simp
    with True t' ses view_runtime [OF v, of s] show ?thesis by (simp add: x_eq)
  next
    case False
    with t' save have "t' \<in> set (tasks d)" by (auto simp: tabs save_task_Inr)
    with t' ses show ?thesis by (auto simp: x_eq running_rows_iff [OF wf])
  qed
qed

lemma claim_thread_free:
  assumes wf: "wf_db d" and b: "claimable d lv = Some v" and v: "get_task d n = Some v"
  shows "tk_thread v \<notin> tk_thread ` set (running_tasks d)"
proof
  assume "tk_thread v \<in> tk_thread ` set (running_tasks d)"
  then obtain r where r: "r \<in> set (running_tasks d)" "tk_thread r = tk_thread v" by auto
  then have g: "get_task d (tk_number r) = Some r" by (simp add: running_tasks_def joined_tasks_iff [OF wf])
  with view_session [OF v] view_runtime [OF v] view_runtime [OF g] r have "view_key r = view_key v"
    by (auto simp: view_key_def)
  with r(1) find_first_claimable(4) [OF b] show False by (metis imageI)
qed

lemma claim_next_task_Inr:
  assumes wf: "wf_db d" and run: "claim_next_task now lv d = Inr (Some c, d')"
  shows "good_step d d'"
    and "running_rows d' \<subseteq> insert (cl_task c, cl_thread c, cl_runtime c) (running_rows d)"
    and "\<exists>t \<in> set (tasks d). tk_number t = cl_task c \<and> tk_status t = QUEUED"
    and "length (running_tasks d) < WORKER_COUNT"
    and "length (filter (\<lambda>r. tv_runtime r = cl_runtime c) (running_tasks d)) < WORKER_COUNT_PER_RUNTIME"
    and "cl_thread c \<notin> tk_thread ` set (running_tasks d)"
    and "\<forall>t \<in> set (tasks d'). tk_number t = cl_task c \<longrightarrow> tk_status t = RUNNING"
    and "\<forall>t \<in> set (tasks d'). tk_number t \<noteq> cl_task c \<longrightarrow> t \<in> set (tasks d)"
proof -
  from wf run obtain v d1 where b: "claimable d lv = Some v" and v: "get_task d (cl_task c) = Some v"
    and q: "tk_status v = QUEUED" and c: "cl_task c = tk_number v" "cl_runtime c = tv_runtime v" "cl_thread c = tk_thread v"
    and save: "save_task (v\<lparr>tk_status := RUNNING, tk_updated := now\<rparr>) d = Inr ((), d1)"
    and rest: "good_step d1 d'" and tabs: "tasks d' = tasks d1" "sessions d' = sessions d"
    by (rule claim_next_task_run)
  have "good_step d d1" by (rule good_save_task [OF v _ _ _ _ save]) (use q in auto)
  with rest show good: "good_step d d'" using good_step_trans by (meson transpD)
  with wf have wf': "wf_db d'" by (simp add: good_step_def)
  show "running_rows d' \<subseteq> insert (cl_task c, cl_thread c, cl_runtime c) (running_rows d)"
    unfolding c by (rule claim_rows [OF wf v save tabs wf'])
  show "\<exists>t \<in> set (tasks d). tk_number t = cl_task c \<and> tk_status t = QUEUED"
    using get_task_Some [OF v] q c by (intro bexI [of _ "task.truncate v"]) auto
  show "\<forall>t \<in> set (tasks d'). tk_number t = cl_task c \<longrightarrow> tk_status t = RUNNING"
    "\<forall>t \<in> set (tasks d'). tk_number t \<noteq> cl_task c \<longrightarrow> t \<in> set (tasks d)"
    using save by (auto simp: tabs save_task_Inr c)
  show "length (running_tasks d) < WORKER_COUNT"
    "length (filter (\<lambda>r. tv_runtime r = cl_runtime c) (running_tasks d)) < WORKER_COUNT_PER_RUNTIME"
    using find_first_claimable [OF b] by (simp_all add: c)
  show "cl_thread c \<notin> tk_thread ` set (running_tasks d)"
    unfolding c by (rule claim_thread_free [OF wf b v])
qed

subsection \<open>The pool\<close>

text \<open>The task a worker is responsible for.\<close>

fun holds :: "worker \<Rightarrow> int option" where
  "holds (Claimed c) = Some (cl_task c)"
| "holds (Registered c sid) = Some (cl_task c)"
| "holds (Started c sid) = Some (cl_task c)"
| "holds (In_turn c sid) = Some (cl_task c)"
| "holds w = None"

definition rows_capped :: "(int \<times> str \<times> str) set \<Rightarrow> bool" where
  "rows_capped R \<longleftrightarrow> card R \<le> WORKER_COUNT
     \<and> (\<forall>r. card {x \<in> R. snd (snd x) = r} \<le> WORKER_COUNT_PER_RUNTIME) \<and> inj_on (fst \<circ> snd) R"

definition pool_ok :: "worker list \<Rightarrow> admin_db \<Rightarrow> bool" where
  "pool_ok ws d \<longleftrightarrow> wf_db d \<and> rows_capped (running_rows d)
     \<and> (\<forall>i < length ws. \<forall>n. holds (ws ! i) = Some n \<longrightarrow>
          n < next_number d \<and> (\<forall>t \<in> set (tasks d). tk_number t = n \<longrightarrow> tk_status t \<noteq> QUEUED))
     \<and> (\<forall>i < length ws. \<forall>j < length ws. \<forall>n. holds (ws ! i) = Some n \<longrightarrow> holds (ws ! j) = Some n \<longrightarrow> i = j)
     \<and> (\<forall>x \<in> running_rows d. \<exists>i < length ws. holds (ws ! i) = Some (fst x))"

lemma rows_capped_subset: "rows_capped R \<Longrightarrow> R' \<subseteq> R \<Longrightarrow> finite R \<Longrightarrow> rows_capped R'"
proof -
  assume R: "rows_capped R" "R' \<subseteq> R" "finite R"
  then have "card R' \<le> card R" by (intro card_mono)
  moreover have "card {x \<in> R'. P x} \<le> card {x \<in> R. P x}" for P
    using R by (intro card_mono) auto
  ultimately show "rows_capped R'"
    using R(1) inj_on_subset [OF _ R(2)] unfolding rows_capped_def by (meson order_trans)
qed

lemma rows_capped_insert:
  assumes "rows_capped R" "finite R" "card R < WORKER_COUNT"
    "card {x \<in> R. snd (snd x) = r} < WORKER_COUNT_PER_RUNTIME" "thread \<notin> (fst \<circ> snd) ` R"
  shows "rows_capped (insert (n, thread, r) R)"
proof -
  have "{x \<in> insert (n, thread, r) R. snd (snd x) = q}
      = (if q = r then insert (n, thread, r) {x \<in> R. snd (snd x) = r} else {x \<in> R. snd (snd x) = q})" for q
    by auto
  moreover have "card (insert (n, thread, r) R) \<le> WORKER_COUNT"
    "card (insert (n, thread, r) {x \<in> R. snd (snd x) = r}) \<le> WORKER_COUNT_PER_RUNTIME"
    using assms by (auto simp: card_insert_if)
  ultimately show ?thesis using assms by (auto simp: rows_capped_def)
qed

text \<open>A number whose task is not queued is never queued again.\<close>

lemma never_requeued:
  assumes "good_step d d'" "wf_db d" "n < next_number d" "t' \<in> set (tasks d')" "tk_number t' = n"
    and "\<forall>t \<in> set (tasks d). tk_number t = n \<longrightarrow> tk_status t \<noteq> QUEUED"
  shows "tk_status t' \<noteq> QUEUED"
proof -
  from assms have "tasks_evolve d d'" by (simp add: good_step_def)
  with assms obtain u where "u \<in> set (tasks d)" "same_task d u d' t'" by (force simp: tasks_evolve_def)
  with assms(5,6) show ?thesis by (cases "tk_status u") (auto simp: same_task_def)
qed

lemma next_number_mono: "good_step d d' \<Longrightarrow> wf_db d \<Longrightarrow> next_number d \<le> next_number d'"
  by (simp add: good_step_def tasks_evolve_def)

text \<open>Anything that starts no task, and in which a worker lets go only of a task that is not running.\<close>

lemma pool_ok_quiet:
  assumes pool: "pool_ok ws d" and good: "good_step d d'" and ns: "no_starts d d'"
    and len: "length ws' = length ws"
    and w: "\<And>j. j < length ws \<Longrightarrow> holds (ws' ! j) = holds (ws ! j)
      \<or> holds (ws' ! j) = None \<and> (\<forall>n. holds (ws ! j) = Some n \<longrightarrow> not_running n d')"
  shows "pool_ok ws' d'"
proof -
  from pool have wf: "wf_db d" and held: "\<And>i n. i < length ws \<Longrightarrow> holds (ws ! i) = Some n \<Longrightarrow>
      n < next_number d \<and> (\<forall>t \<in> set (tasks d). tk_number t = n \<longrightarrow> tk_status t \<noteq> QUEUED)"
    by (auto simp: pool_ok_def)
  from good wf have wf': "wf_db d'" by (simp add: good_step_def)
  note rows = running_rows_shrink [OF wf good ns]
  have kept: "holds (ws ! j) = Some n" if "j < length ws" "holds (ws' ! j) = Some n" for j n
    using w [OF that(1)] that(2) by auto
  have "\<exists>i < length ws'. holds (ws' ! i) = Some (fst x)" if x: "x \<in> running_rows d'" for x
  proof -
    from x rows have "x \<in> running_rows d" by blast
    with pool obtain i where i: "i < length ws" "holds (ws ! i) = Some (fst x)"
      unfolding pool_ok_def by blast
    have "\<not> not_running (fst x) d'"
      using x by (cases x) (auto simp: running_rows_iff [OF wf'] not_running_def)
    with w [OF i(1)] i len show ?thesis by auto
  qed
  moreover have "rows_capped (running_rows d')"
    using rows pool by (auto simp: pool_ok_def intro: rows_capped_subset)
  moreover have "n < next_number d' \<and> (\<forall>t \<in> set (tasks d'). tk_number t = n \<longrightarrow> tk_status t \<noteq> QUEUED)"
    if "i < length ws'" "holds (ws' ! i) = Some n" for i n
    using held [OF _ kept] that len next_number_mono [OF good wf] never_requeued [OF good wf] by fastforce
  moreover have "i = j" if "i < length ws'" "j < length ws'" "holds (ws' ! i) = Some n" "holds (ws' ! j) = Some n"
    for i j n
    using pool kept that len unfolding pool_ok_def by metis
  ultimately show ?thesis using wf' by (auto simp: pool_ok_def)
qed

lemma pool_ok_claim:
  assumes pool: "pool_ok ws d" and i: "i < length ws" "ws ! i = Idle"
    and run: "claim_next_task now lv d = Inr (Some c, d')"
  shows "pool_ok (ws[i := Claimed c]) d'"
proof -
  from pool have wf: "wf_db d" by (simp add: pool_ok_def)
  note claim = claim_next_task_Inr [OF wf run]
  from claim(1) wf have wf': "wf_db d'" by (simp add: good_step_def)
  let ?R = "insert (cl_task c, cl_thread c, cl_runtime c) (running_rows d)"
  have "(fst \<circ> snd) ` running_rows d = tk_thread ` set (running_tasks d)"
    by (auto simp: running_rows_def image_image)
  then have cap: "rows_capped ?R"
    using pool claim(4-6) by (intro rows_capped_insert) (simp_all add: pool_ok_def running_rows_counts [OF wf, symmetric])
  from claim(3) wf have new: "cl_task c < next_number d'"
    using next_number_mono [OF claim(1) wf] by (auto simp: wf_db_def intro: order.strict_trans2)
  have free: "holds (ws ! j) \<noteq> Some (cl_task c)" if "j < length ws" for j
    using pool claim(3) that by (auto simp: pool_ok_def)
  have h: "holds (ws[i := Claimed c] ! j) = (if j = i then Some (cl_task c) else holds (ws ! j))" if "j < length ws" for j
    using that i by (simp add: nth_list_update)
  have "\<exists>j < length ws. holds (ws[i := Claimed c] ! j) = Some (fst x)" if "x \<in> running_rows d'" for x
  proof (cases "fst x = cl_task c")
    case True
    with h i show ?thesis by auto
  next
    case False
    with that claim(2) have "x \<in> running_rows d" by auto
    with pool obtain j where "j < length ws" "holds (ws ! j) = Some (fst x)" unfolding pool_ok_def by blast
    moreover from this i have "j \<noteq> i" by auto
    ultimately show ?thesis using h by auto
  qed
  moreover have "n < next_number d' \<and> (\<forall>t \<in> set (tasks d'). tk_number t = n \<longrightarrow> tk_status t \<noteq> QUEUED)"
    if "j < length ws" "holds (ws[i := Claimed c] ! j) = Some n" for j n
  proof (cases "j = i")
    case True
    with that h new claim(7) show ?thesis by (auto simp: i)
  next
    case False
    with that h have "holds (ws ! j) = Some n" by simp
    with that pool have "n < next_number d"
      "\<forall>t \<in> set (tasks d). tk_number t = n \<longrightarrow> tk_status t \<noteq> QUEUED" by (auto simp: pool_ok_def)
    with next_number_mono [OF claim(1) wf] never_requeued [OF claim(1) wf] show ?thesis by fastforce
  qed
  moreover have "j = k" if "j < length ws" "k < length ws" "holds (ws[i := Claimed c] ! j) = Some n"
    "holds (ws[i := Claimed c] ! k) = Some n" for j k n
    using that free [of j] free [of k] pool h by (auto simp: pool_ok_def split: if_splits)
  ultimately show ?thesis
    using wf' rows_capped_subset [OF cap claim(2)] by (auto simp: pool_ok_def)
qed

lemma good_no_step: "good_step d d" "no_starts d d"
  using good_step_refl no_starts_refl by (simp_all add: reflp_def)

lemma good_no_request: "good_step d (snd (mutation (request_txn now r) d))"
  "no_starts d (snd (mutation (request_txn now r) d))"
  by (rule relates_mutation [OF good_step_refl good_request])
     (rule relates_mutation [OF no_starts_refl unstarting_request])

lemma good_no_fail: "good_step d (snd (mutation (fail_tasks_with_events now m r) d))"
  "no_starts d (snd (mutation (fail_tasks_with_events now m r) d))"
proof -
  show "good_step d (snd (mutation (fail_tasks_with_events now m r) d))"
    by (rule relates_mutation [OF good_step_refl good_fail_tasks_with_events])
  have "relates no_starts (fail_tasks_with_events now m r)"
    unfolding fail_tasks_with_events_def by (intro unstarting)
  with no_starts_refl show "no_starts d (snd (mutation (fail_tasks_with_events now m r) d))"
    by (rule relates_mutation)
qed

fun_cases worker_action_Some: "worker_action now a w s = Some (w', s')"

lemma end_turn_drops:
  assumes "wf_db d"
  shows "good_step d (end_turn now c result d)" "no_starts d (end_turn now c result d)"
    "not_running (cl_task c) (end_turn now c result d)"
  using end_turn_step [of d now c result] assms by auto

lemma worker_action_quiet:
  assumes run: "worker_action now a w s = Some (w', s')" and no_claim: "\<forall>i. a \<noteq> Claim i" and wf: "wf_db (db s)"
  shows "workers s' = workers s \<and> good_step (db s) (db s') \<and> no_starts (db s) (db s')
    \<and> (holds w' = holds w \<or> holds w' = None \<and> (\<forall>n. holds w = Some n \<longrightarrow> not_running n (db s')))"
proof -
  note drops = end_turn_drops [OF wf]
  show ?thesis
  proof (cases rule: worker_action_Some [OF run])
    case (6 i c sid)
    with not_running_get_task [OF wf, of "cl_task c"] show ?thesis
      by (cases "get_task (db s) (cl_task c)") (auto simp: good_no_step)
  next
    case (9 i closes k)
    then show ?thesis by (cases "close_step closes k (live s, processes s)") (auto simp: good_no_step split: option.splits)
  qed (use no_claim drops good_no_step in \<open>auto simp: Let_def split: if_splits\<close>)
qed

lemma closer_action_frame:
  "closer_action closes c s = (c', s') \<Longrightarrow> workers s' = workers s \<and> db s' = db s"
  by (cases c) (auto split: prod.splits option.splits)

lemma pool_ok_worker:
  assumes i: "i < length (workers s)" and run: "worker_action now a (workers s ! i) s = Some (w', s')"
    and pool: "pool_ok (workers s) (db s)"
  shows "pool_ok ((workers s')[i := w']) (db s')"
proof (cases "\<exists>k. a = Claim k")
  case False
  from pool have "wf_db (db s)" by (simp add: pool_ok_def)
  with worker_action_quiet [OF run] False i show ?thesis
    by (intro pool_ok_quiet [OF pool]) (auto simp: nth_list_update)
next
  case True
  with run have idle: "workers s ! i = Idle" by (cases "workers s ! i") auto
  then have same: "(workers s)[i := Idle] = workers s" by (metis list_update_id)
  show ?thesis
  proof (cases "claim_next_task now (live s) (db s)")
    case (Inl f)
    with True run idle pool same show ?thesis by (auto simp: mutation_def)
  next
    case (Inr r)
    obtain c d' where r: "r = (c, d')" by (cases r)
    show ?thesis
    proof (cases c)
      case None
      with Inr r have "d' = db s"
        by (auto simp: claim_next_task_def bind_txn_Inr then_txn_Inr select_Inr ok_Inr split: option.splits if_splits)
      with None Inr r True run idle pool same show ?thesis by (auto simp: mutation_def)
    next
      case (Some cl)
      with Inr r have "claim_next_task now (live s) (db s) = Inr (Some cl, d')" by simp
      from pool_ok_claim [OF pool i idle this] Some Inr r True run idle show ?thesis
        by (auto simp: mutation_def)
    qed
  qed
qed

lemma pool_ok_act:
  assumes run: "act now a s = Some s'" and pool: "pool_ok (workers s) (db s)"
  shows "pool_ok (workers s') (db s')"
proof (cases "actor a")
  case (Some i)
  with run obtain w s1 where "i < length (workers s)" "worker_action now a (workers s ! i) s = Some (w, s1)"
    "s' = s1\<lparr>workers := (workers s1)[i := w]\<rparr>" by (auto simp: act_def split: if_splits)
  with pool_ok_worker [OF this(1,2) pool] show ?thesis by simp
next
  case None
  have "workers s' = workers s \<and> good_step (db s) (db s') \<and> no_starts (db s) (db s')"
  proof (cases a)
    case (Closer_acts j closes)
    with run closer_action_frame [of closes "closers s ! j" s] show ?thesis
      by (cases "closer_action closes (closers s ! j) s") (auto simp: act_def good_no_step split: if_splits)
  qed (use run None good_no_request good_no_fail in \<open>auto simp: act_def split: if_splits\<close>)
  then show ?thesis by (intro pool_ok_quiet [OF pool]) auto
qed

lemma each_event_tasks:
  "each_txn (\<lambda>n. task_failed_event now n m) ns d = Inr (u, d') \<Longrightarrow> tasks d' = tasks d"
  by (induction ns arbitrary: d) (auto simp: txn_simps dest: append_agent_event_tables)

lemma each_event_succeeds: "\<exists>d'. each_txn (\<lambda>n. task_failed_event now n m) ns d = Inr ((), d')"
  by (induction ns arbitrary: d)
     (auto simp: ok_def then_txn_def bind_txn_def append_agent_event_def modify_def)

lemma initialized_rows:
  assumes "wf_db d"
  shows "running_rows (snd (mutation (initialize_state now) d)) = {}"
proof -
  let ?m = "S ''host runtime restarted while the task was running''"
  obtain ns d1 where f: "fail_running_tasks now ?m None d = Inr (ns, d1)"
    and none: "\<forall>t \<in> set (tasks d1). tk_status t \<noteq> RUNNING"
  proof (rule that)
    let ?hit = "\<lambda>t. tk_status t = RUNNING"
    show "fail_running_tasks now ?m None d = Inr (map tk_number (filter ?hit (tasks d)), d\<lparr>tasks := map (\<lambda>t. if ?hit t
          then t\<lparr>tk_status := FAILED, tk_error := Some ?m, tk_updated := now\<rparr> else t) (tasks d)\<rparr>)"
      by (simp add: fail_running_tasks_def)
  qed auto
  obtain d2 where e: "each_txn (\<lambda>n. task_failed_event now n ?m) ns d1 = Inr ((), d2)"
    using each_event_succeeds by blast
  from f e have "snd (mutation (initialize_state now) d) = d2"
    by (simp add: mutation_def initialize_state_def fail_tasks_with_events_def bind_txn_def)
  moreover have "wf_db d2"
    using relatesD [OF good_initialize_state, of now d "()" d2] f e assms
    by (simp add: initialize_state_def fail_tasks_with_events_def bind_txn_def good_step_def)
  moreover from none each_event_tasks [OF e] have "\<forall>t \<in> set (tasks d2). tk_status t \<noteq> RUNNING" by simp
  ultimately show ?thesis by (auto simp: running_rows_iff)
qed

lemma pool_ok_boot:
  assumes "wf_db d"
  shows "pool_ok (workers (boot now d)) (db (boot now d))"
proof -
  have "wf_db (snd (mutation (initialize_state now) d))"
    using relates_mutation [OF good_step_refl good_initialize_state, of d now] assms by (simp add: good_step_def)
  then show ?thesis
    using initialized_rows [OF assms] by (simp add: pool_ok_def boot_def rows_capped_def)
qed

lemma pool_ok_execution:
  assumes "execution (boot now d) s" "wf_db d"
  shows "pool_ok (workers s) (db s)"
  using assms by (induction rule: execution.induct) (simp_all add: pool_ok_boot pool_ok_act)

lemma one_holder:
  assumes "pool_ok ws d" "x \<in> running_rows d"
  shows "length (filter (\<lambda>w. holds w = Some (fst x)) ws) = 1"
proof -
  from assms obtain i where i: "i < length ws" "holds (ws ! i) = Some (fst x)"
    unfolding pool_ok_def by blast
  with assms(1) have "{j. j < length ws \<and> holds (ws ! j) = Some (fst x)} = {i}"
    unfolding pool_ok_def by blast
  then show ?thesis by (simp add: length_filter_conv_card)
qed

text \<open>
  C3. Whatever the workers, the requests, the runtime stops and the closing threads do, and in
  whatever order: the task tables stay well formed, at most nine tasks run at once and at most
  three of one runtime, a thread never has two running tasks, and every running task is the
  responsibility of exactly one worker.
\<close>

theorem pool_invariant:
  assumes "execution (boot now d) s" "wf_db d"
  shows "wf_db (db s) \<and> length (running_tasks (db s)) \<le> 9
    \<and> length (filter (\<lambda>v. tv_runtime v = runtime) (running_tasks (db s))) \<le> 3
    \<and> distinct (map tk_thread (running_tasks (db s)))
    \<and> list_all (\<lambda>v. length (filter (\<lambda>w. holds w = Some (tk_number v)) (workers s)) = 1) (running_tasks (db s))"
proof -
  note pool = pool_ok_execution [OF assms]
  then have wf: "wf_db (db s)" and capped: "rows_capped (running_rows (db s))" by (simp_all add: pool_ok_def)
  have counts: "length (running_tasks (db s)) \<le> 9"
    "length (filter (\<lambda>v. tv_runtime v = runtime) (running_tasks (db s))) \<le> 3"
    using capped unfolding running_rows_counts [OF wf]
    by (simp_all add: rows_capped_def WORKER_COUNT_def WORKER_COUNT_PER_RUNTIME_def SESSION_OPTIONS_def)
  have "distinct (running_tasks (db s))"
    using distinct_joined_numbers [OF wf] by (simp add: running_tasks_def distinct_map)
  moreover have "inj_on tk_thread (set (running_tasks (db s)))"
  proof (rule inj_onI)
    fix v w assume vw: "v \<in> set (running_tasks (db s))" "w \<in> set (running_tasks (db s))" "tk_thread v = tk_thread w"
    with capped have "tk_number v = tk_number w"
      unfolding rows_capped_def running_rows_def by (auto dest!: inj_onD [where x = "(tk_number v, tk_thread v, tv_runtime v)" and y = "(tk_number w, tk_thread w, tv_runtime w)"])
    with vw show "v = w" by (auto simp: running_tasks_def joined_tasks_iff [OF wf])
  qed
  ultimately have "distinct (map tk_thread (running_tasks (db s)))" by (simp add: distinct_map)
  moreover have "length (filter (\<lambda>w. holds w = Some (tk_number v)) (workers s)) = 1"
    if "v \<in> set (running_tasks (db s))" for v
    using one_holder [OF pool, of "(tk_number v, tk_thread v, tv_runtime v)"] that by (force simp: running_rows_def)
  ultimately show ?thesis using wf counts by (auto simp: list_all_iff)
qed

abbreviation one_claim :: "(str \<times> action) list" where
  "one_claim \<equiv> [(S ''2027'', Claim 0)]"

lemma run_actions_the: "run_actions as s \<noteq> None \<Longrightarrow> execution s (the (run_actions as s))"
  using run_actions_execution [OF _ execution.start] by (cases "run_actions as s") auto

lemma one_claim_execution: "execution (boot (S ''2026'') demo_db) (the (run_actions one_claim (boot (S ''2026'') demo_db)))"
  by (rule run_actions_the) code_simp

theorem pool_invariant_witness:
  "length (running_tasks (db (the (run_actions one_claim (boot (S ''2026'') demo_db))))) \<le> 9
   \<and> running_tasks (db (the (run_actions one_claim (boot (S ''2026'') demo_db)))) \<noteq> []
   \<and> list_all (\<lambda>v. length (filter (\<lambda>w. holds w = Some (tk_number v))
         (workers (the (run_actions one_claim (boot (S ''2026'') demo_db))))) = 1)
       (running_tasks (db (the (run_actions one_claim (boot (S ''2026'') demo_db)))))"
proof -
  have "running_tasks (db (the (run_actions one_claim (boot (S ''2026'') demo_db)))) \<noteq> []" by code_simp
  with pool_invariant [OF one_claim_execution wf_demo_db] show ?thesis by blast
qed

subsection \<open>Progress of the queue\<close>

text \<open>The conditions under which a queued task may be taken now.\<close>

definition eligible :: "admin_db \<Rightarrow> live \<Rightarrow> task_view \<Rightarrow> bool" where
  "eligible d lv v \<longleftrightarrow>
     length (filter (\<lambda>r. tv_runtime r = tv_runtime v) (running_tasks d)) < WORKER_COUNT_PER_RUNTIME
     \<and> length (filter (\<lambda>(_, t). tn_runtime t = tv_runtime v) lv) < WORKER_COUNT_PER_RUNTIME
     \<and> view_key v \<notin> set (map view_key (running_tasks d)) \<and> view_key v \<notin> set (map fst lv)"

lemma find_first_least:
  assumes "sorted (map f xs)" "x \<in> set xs" "P x"
  shows "\<exists>y. find_first P xs = Some y \<and> y \<in> set xs \<and> P y \<and> f y \<le> f x"
  using assms by (induction xs) auto

lemma sorted_joined: "sorted (map tk_number (joined_tasks d P))"
proof -
  have num: "tk_number v = tk_number t" if "joined d t = Some v" for t v
    using that by (auto simp: joined_def)
  have "sorted (map tk_number (List.map_filter (joined d) xs))" if "sorted (map tk_number xs)" for xs
    using that
    by (induction xs) (auto simp: List.map_filter_simps set_map_filter num split: option.splits)
  then show ?thesis unfolding joined_tasks_def by simp
qed

lemma claimed_runs:
  assumes wf: "wf_db d" and run: "claim_next_task now lv d = Inr (Some c, d')"
  shows "map_option tk_status (get_task d' (cl_task c)) = Some RUNNING"
proof -
  note step = claim_next_task_Inr [OF wf run]
  from step(1) wf have wf': "wf_db d'" by (simp add: good_step_def)
  from wf run obtain v d1 where v: "get_task d (cl_task c) = Some v"
    and save: "save_task (v\<lparr>tk_status := RUNNING, tk_updated := now\<rparr>) d = Inr ((), d1)" "tasks d' = tasks d1"
    by (rule claim_next_task_run)
  let ?t = "task.truncate (v\<lparr>tk_status := RUNNING, tk_updated := now\<rparr>)"
  from get_task_Some(1) [OF v] save have t: "?t \<in> set (tasks d')"
    by (simp add: save_task_Inr image_iff) (intro exI [of _ "task.truncate v"]; simp)
  from wf' t obtain s where "session_of d' (tk_thread ?t) = Some s"
    "joined d' ?t = get_task d' (tk_number ?t)"
    "get_task d' (tk_number ?t) = Some (task.extend ?t (task_view.fields (ss_runtime s) (ss_model s) (ss_effort s)))"
    by (rule wf_get_task)
  with get_task_Some(2) [OF v] show ?thesis by simp
qed

text \<open>
  C28. The queue makes progress in order: when the pool has room and some queued task's runtime
  and thread are free, a claim succeeds, it takes a task that is free to run, no such task has
  a smaller number, and the task is running afterwards.
\<close>

theorem oldest_free_task_claimed:
  assumes wf: "wf_db d" and room: "length (running_tasks d) < WORKER_COUNT" "length lv < WORKER_COUNT"
    and v: "v \<in> set (queued_tasks_brief d)" "eligible d lv v"
  shows "\<exists>c d' u. mutation (claim_next_task now lv) d = (Inr (Some c), d') \<and> u \<in> set (queued_tasks_brief d)
    \<and> cl_task c = tk_number u \<and> eligible d lv u \<and> cl_task c \<le> tk_number v
    \<and> map_option tk_status (get_task d' (cl_task c)) = Some RUNNING"
proof -
  have "sorted (map tk_number (queued_tasks_brief d))"
    unfolding queued_tasks_brief_def by (rule sorted_joined)
  from find_first_least [where P = "eligible d lv", OF this v]
  obtain u where f: "find_first (eligible d lv) (queued_tasks_brief d) = Some u"
    and u: "u \<in> set (queued_tasks_brief d)" "eligible d lv u" "tk_number u \<le> tk_number v" by blast
  have c: "claimable d lv = Some u"
    using f room by (simp add: claimable_def Let_def eligible_def [abs_def] split_beta)
  from u(1) have g: "get_task d (tk_number u) = Some u" "tk_status u = QUEUED"
    by (auto simp: queued_tasks_brief_def joined_tasks_iff [OF wf])
  then obtain cl d' where run: "claim_next_task now lv d = Inr (Some cl, d')" and cl: "cl_task cl = tk_number u"
    using c by (auto simp: claim_next_task_def bind_txn_def then_txn_def select_def ok_def lift_txn_def
        set_status_def save_task_def modify_def append_agent_event_def)
  with u claimed_runs [OF wf run] show ?thesis by (auto simp: mutation_Inr)
qed

lemma demo_queue: "queued_tasks_brief demo_db \<noteq> []" "list_all (eligible demo_db []) (queued_tasks_brief demo_db)"
  "running_tasks demo_db = []"
  by code_simp+

theorem oldest_free_task_claimed_witness:
  "\<exists>c d' u. mutation (claim_next_task (S ''2027'') []) demo_db = (Inr (Some c), d') \<and> u \<in> set (queued_tasks_brief demo_db)
    \<and> cl_task c = tk_number u \<and> eligible demo_db [] u \<and> cl_task c \<le> tk_number (hd (queued_tasks_brief demo_db))
    \<and> map_option tk_status (get_task d' (cl_task c)) = Some RUNNING"
  by (rule oldest_free_task_claimed [OF wf_demo_db])
     (use demo_queue in \<open>simp_all add: WORKER_COUNT_def WORKER_COUNT_PER_RUNTIME_def SESSION_OPTIONS_def list_all_iff\<close>)

subsection \<open>A kill before the process exists\<close>

text \<open>
  A worker claims the task and registers its turn; the operator kills the task before the
  runtime process is started; the kill closes the turn, which has no process yet, and removes
  the entry; the worker then starts the process, sees that the task was cancelled, and finds no
  entry to close.
\<close>

abbreviation killed_early :: "(str \<times> action) list" where
  "killed_early \<equiv> map (Pair (S ''2027''))
     [Claim 0, Register 0, Request (Kill_running (S ''task_1'')),
      Closer_acts 0 True, Closer_acts 0 True, Closer_acts 0 True, Closer_acts 0 True, Closer_acts 0 True,
      Start 0, Check 0, Worker_closes 0 True]"

definition all_quiet :: "system \<Rightarrow> bool" where
  "all_quiet s \<longleftrightarrow> list_all (\<lambda>w. holds w = None \<and> (case w of Ending k \<Rightarrow> False | _ \<Rightarrow> True)) (workers s)
     \<and> list_all (\<lambda>c. case c of Close_each rest \<Rightarrow> rest = [] | _ \<Rightarrow> False) (closers s)
     \<and> live s = [] \<and> running_tasks (db s) = []"

text \<open>
  C26. A process can survive its killed task: an execution ends with every worker idle, every
  closing thread done, no task running and no turn registered, while the process started for
  the cancelled task is still up and nothing in the service refers to it any more.
\<close>

theorem killed_before_spawn_leaks:
  "\<exists>s. execution (boot (S ''2026'') demo_db) s \<and> all_quiet s
     \<and> map tk_status (tasks (db s)) = [CANCELLED] \<and> map pr_state (processes s) = [Up]"
proof (intro exI conjI)
  let ?s = "the (run_actions killed_early (boot (S ''2026'') demo_db))"
  show "execution (boot (S ''2026'') demo_db) ?s" by (rule run_actions_the) code_simp
  show "all_quiet ?s" by code_simp
  show "map tk_status (tasks (db ?s)) = [CANCELLED]" by code_simp
  show "map pr_state (processes ?s) = [Up]" by code_simp
qed

end
