(* ===== verification/PolicyStore.thy ===== *)
theory PolicyStore
  imports Txn Config
begin

text \<open>
  The stored network policy: \<open>save_network_policy\<close> and \<open>network_policy_record\<close> of
  \<open>runtime/core/state.py\<close> over the policy tables of \<open>host/migrations\<close>, the readers of
  \<open>runtime/core/network_policy.py\<close>, and \<open>replace_network_policy\<close> of the admin service. The
  operator's policy is validated, written as rows, and assembled again by every reader; the
  lemmas show that what is read back decides every host as the policy that was validated.
  \<open>le\<close> is the collation of the database.
\<close>

subsection \<open>The tables\<close>

record policy_tables =
  pt_updated :: "str option"                    \<comment> \<open>the row of network_policy\<close>
  pt_integrations :: "str list"
  pt_repositories :: "(int \<times> str \<times> str) list"   \<comment> \<open>position, owner, repo\<close>
  pt_github_settings :: "bool option"
  pt_claude_settings :: "bool option"
  pt_domains :: "str list"
  pt_methods :: "(str \<times> int \<times> str) list"        \<comment> \<open>domain, position, method\<close>
  pt_guards :: "(str \<times> int \<times> str) list"         \<comment> \<open>domain, position, pattern\<close>

definition empty_policy :: policy_tables where
  "empty_policy =
     \<lparr>pt_updated = None, pt_integrations = [], pt_repositories = [], pt_github_settings = None,
      pt_claude_settings = None, pt_domains = [], pt_methods = [], pt_guards = []\<rparr>"

type_synonym 'a policy_txn = "(policy_tables, 'a) txn"

subsection \<open>Values of Python in the stored shape\<close>

definition py_true :: "json \<Rightarrow> bool" where
  "py_true v =
     (case v of JNull \<Rightarrow> False | JBool b \<Rightarrow> b | JInt i \<Rightarrow> i \<noteq> 0 | JFloat r \<Rightarrow> r \<noteq> Some 0
      | JStr s \<Rightarrow> s \<noteq> [] | JList xs \<Rightarrow> xs \<noteq> [] | JObj kvs \<Rightarrow> kvs \<noteq> [])"

text \<open>\<open>v or []\<close>, iterated; \<open>(v or {}).items()\<close>; \<open>v["key"]\<close>.\<close>

definition items_or_empty :: "json \<Rightarrow> (policy_tables, json list) txn" where
  "items_or_empty v =
     (if \<not> py_true v then ok []
      else case v of
             JList xs \<Rightarrow> ok xs
           | JStr s \<Rightarrow> ok (map (\<lambda>c. JStr [c]) s)
           | JObj kvs \<Rightarrow> ok (map (JStr \<circ> fst) kvs)
           | _ \<Rightarrow> abort (Raised TypeError))"

definition dict_or_empty :: "json \<Rightarrow> (policy_tables, (str \<times> json) list) txn" where
  "dict_or_empty v =
     (if \<not> py_true v then ok []
      else case v of JObj kvs \<Rightarrow> ok kvs | _ \<Rightarrow> abort (Raised AttributeError))"

definition item_of :: "json \<Rightarrow> str \<Rightarrow> (policy_tables, json) txn" where
  "item_of v key =
     (case v of
        JObj kvs \<Rightarrow> (case map_of kvs key of Some x \<Rightarrow> ok x | None \<Rightarrow> abort (Raised KeyError))
      | _ \<Rightarrow> abort (Raised TypeError))"

text \<open>
  A parameter of a statement, as text (\<open>_encode_parameter\<close>): a missing value breaks the
  \<open>NOT NULL\<close> of every column here, an array or object is refused by the client. No float
  reaches the statements from a validated policy, and one is refused like an array.
\<close>

definition text_param :: "json \<Rightarrow> ('s, str) txn" where
  "text_param v =
     (case v of
        JStr s \<Rightarrow> ok s
      | JInt i \<Rightarrow> ok (str_of_int i)
      | JBool b \<Rightarrow> ok (if b then S ''t'' else S ''f'')
      | JNull \<Rightarrow> abort constraint_violation
      | _ \<Rightarrow> abort (Raised TypeError))"

subsection \<open>Statements\<close>

definition managed_names :: "str list" where
  "managed_names =
     [S ''openai'', S ''claude'', S ''bedrock'', S ''github'', S ''python_packages'', S ''npm_packages'']"

definition insert_integration :: "str \<Rightarrow> unit policy_txn" where
  "insert_integration ident =
     bind_txn (select pt_integrations) (\<lambda>rows.
     then_txn (require (ident \<in> set managed_names \<and> ident \<notin> set rows) constraint_violation)
       (modify (\<lambda>t. t\<lparr>pt_integrations := rows @ [ident]\<rparr>)))"

definition insert_repository :: "int \<Rightarrow> str \<Rightarrow> str \<Rightarrow> unit policy_txn" where
  "insert_repository position owner repo =
     bind_txn (select pt_repositories) (\<lambda>rows.
     then_txn (require
         (rx_fullmatch (\<lambda>_. False) GITHUB_OWNER_RE owner
          \<and> rx_fullmatch (\<lambda>_. False) GITHUB_REPO_RE repo \<and> \<not> endswith repo (S ''.git'')
          \<and> position \<notin> set (map fst rows) \<and> (owner, repo) \<notin> set (map snd rows)) constraint_violation)
       (modify (\<lambda>t. t\<lparr>pt_repositories := rows @ [(position, owner, repo)]\<rparr>)))"

definition insert_domain :: "str \<Rightarrow> unit policy_txn" where
  "insert_domain domain =
     bind_txn (select pt_domains) (\<lambda>rows.
     then_txn (require (domain \<noteq> [] \<and> domain \<notin> set rows) constraint_violation)
       (modify (\<lambda>t. t\<lparr>pt_domains := rows @ [domain]\<rparr>)))"

definition insert_method :: "str \<Rightarrow> int \<Rightarrow> str \<Rightarrow> unit policy_txn" where
  "insert_method domain position m =
     bind_txn (select (\<lambda>t. t)) (\<lambda>t.
     then_txn (require
         (domain \<in> set (pt_domains t) \<and> m \<in> set ALLOWED_HTTP_METHODS
          \<and> (domain, position) \<notin> set (map (\<lambda>(d, p, _). (d, p)) (pt_methods t))) constraint_violation)
       (modify (\<lambda>t. t\<lparr>pt_methods := pt_methods t @ [(domain, position, m)]\<rparr>)))"

definition insert_guard :: "str \<Rightarrow> int \<Rightarrow> str \<Rightarrow> unit policy_txn" where
  "insert_guard domain position pattern =
     bind_txn (select (\<lambda>t. t)) (\<lambda>t.
     then_txn (require
         (domain \<in> set (pt_domains t) \<and> pattern \<noteq> []
          \<and> (domain, position) \<notin> set (map (\<lambda>(d, p, _). (d, p)) (pt_guards t))) constraint_violation)
       (modify (\<lambda>t. t\<lparr>pt_guards := pt_guards t @ [(domain, position, pattern)]\<rparr>)))"

subsection \<open>Saving\<close>

definition delete_policy :: "policy_tables \<Rightarrow> policy_tables" where
  "delete_policy t = empty_policy\<lparr>pt_updated := pt_updated t\<rparr>"

definition save_integrations :: "(str \<times> json) list \<Rightarrow> unit policy_txn" where
  "save_integrations entries =
     each_txn (\<lambda>(integration, value).
       if integration = S ''custom'' then ok ()
       else case value of
              JObj kvs \<Rightarrow> (if jget kvs (S ''enabled'') = JBool True then insert_integration integration else ok ())
            | _ \<Rightarrow> ok ()) entries"

definition save_github :: "json \<Rightarrow> unit policy_txn" where
  "save_github github =
     (case github of
        JObj g \<Rightarrow>
          bind_txn (items_or_empty (jget g (S ''write_repositories''))) (\<lambda>repositories.
          then_txn
            (each_txn (\<lambda>(position, repository).
               bind_txn (item_of repository (S ''owner'')) (\<lambda>owner.
               bind_txn (item_of repository (S ''repo'')) (\<lambda>repo.
               bind_txn (text_param owner) (\<lambda>owner.
               bind_txn (text_param repo) (\<lambda>repo.
                 insert_repository (int position) owner repo))))) (enumerate 0 repositories))
            (if jget g (S ''require_dot_github_approval'') = JBool True
             then modify (\<lambda>t. t\<lparr>pt_github_settings := Some True\<rparr>) else ok ()))
      | _ \<Rightarrow> ok ())"

definition save_claude :: "json \<Rightarrow> unit policy_txn" where
  "save_claude claude =
     (case claude of
        JObj c \<Rightarrow>
          (if jget c (S ''web_search'') = JBool True
           then modify (\<lambda>t. t\<lparr>pt_claude_settings := Some True\<rparr>) else ok ())
      | _ \<Rightarrow> ok ())"

definition save_domain :: "str \<times> json \<Rightarrow> unit policy_txn" where
  "save_domain entry =
     (case entry of (domain, rule) \<Rightarrow>
        then_txn (insert_domain domain)
          (case rule of
             JObj r \<Rightarrow>
               bind_txn (items_or_empty (jget r (S ''allow_http_methods''))) (\<lambda>methods.
               then_txn
                 (each_txn (\<lambda>(position, m). bind_txn (text_param m) (insert_method domain (int position)))
                    (enumerate 0 methods))
                 (bind_txn (items_or_empty (jget r (S ''path_guards''))) (\<lambda>guards.
                    each_txn (\<lambda>(position, pattern).
                        bind_txn (text_param pattern) (insert_guard domain (int position)))
                      (enumerate 0 guards))))
           | _ \<Rightarrow> abort (Raised AttributeError)))"

definition save_custom :: "json \<Rightarrow> unit policy_txn" where
  "save_custom custom =
     bind_txn (dict_or_empty (case custom of JObj c \<Rightarrow> jget c (S ''domains'') | _ \<Rightarrow> JObj []))
       (each_txn save_domain)"

definition save_network_policy :: "(str \<times> json) list \<Rightarrow> str \<Rightarrow> unit policy_txn" where
  "save_network_policy controls updated_at =
     then_txn (modify (\<lambda>t. (delete_policy t)\<lparr>pt_updated := Some updated_at\<rparr>))
     (bind_txn (dict_or_empty (jget controls (S ''network_integrations''))) (\<lambda>integrations.
      then_txn (save_integrations integrations)
     (then_txn (save_github (jget integrations (S ''github'')))
     (then_txn (save_claude (jget integrations (S ''claude'')))
        (save_custom (jget integrations (S ''custom'')))))))"

subsection \<open>Reading\<close>

text \<open>\<open>integrations[name][key] = value\<close> for a present name.\<close>

definition set_item :: "(str \<times> json) list \<Rightarrow> str \<Rightarrow> str \<Rightarrow> json \<Rightarrow> (str \<times> json) list" where
  "set_item entries name key value =
     (case map_of entries name of
        Some (JObj kvs) \<Rightarrow> AList.update name (JObj (AList.update key value kvs)) entries
      | _ \<Rightarrow> entries)"

text \<open>The rules of the custom domains while they are assembled: methods, and guards once there is one.\<close>

type_synonym assembled = "(str \<times> str list \<times> str list option) list"

definition add_method :: "str \<times> int \<times> str \<Rightarrow> assembled res \<Rightarrow> assembled res" where
  "add_method row allowed =
     (case row of (domain, _, m) \<Rightarrow> bind_res allowed (\<lambda>rules.
        case map_of rules domain of
          None \<Rightarrow> Inl KeyError
        | Some (ms, gs) \<Rightarrow> Inr (AList.update domain (ms @ [m], gs) rules)))"

definition add_guard :: "str \<times> int \<times> str \<Rightarrow> assembled res \<Rightarrow> assembled res" where
  "add_guard row allowed =
     (case row of (domain, _, pattern) \<Rightarrow> bind_res allowed (\<lambda>rules.
        case map_of rules domain of
          None \<Rightarrow> Inl KeyError
        | Some (ms, gs) \<Rightarrow> Inr (AList.update domain (ms, Some (case gs of None \<Rightarrow> [pattern] | Some ps \<Rightarrow> ps @ [pattern])) rules)))"

definition rule_json :: "str list \<times> str list option \<Rightarrow> json" where
  "rule_json rule =
     (case rule of (ms, gs) \<Rightarrow>
        JObj ((S ''allow_http_methods'', JList (map JStr ms))
              # (case gs of None \<Rightarrow> [] | Some ps \<Rightarrow> [(S ''path_guards'', JList (map JStr ps))])))"

definition by_domain :: "(str \<Rightarrow> str \<Rightarrow> bool) \<Rightarrow> str \<times> int \<times> str \<Rightarrow> str \<times> int \<times> str \<Rightarrow> bool" where
  "by_domain le x y \<longleftrightarrow> (if fst x = fst y then fst (snd x) \<le> fst (snd y) else le (fst x) (fst y))"

definition assemble_domains :: "(str \<Rightarrow> str \<Rightarrow> bool) \<Rightarrow> policy_tables \<Rightarrow> assembled res" where
  "assemble_domains le t =
     fold add_guard (order_by (by_domain le) (pt_guards t))
       (fold add_method (order_by (by_domain le) (pt_methods t))
         (Inr (map (\<lambda>d. (d, [], None)) (order_by le (pt_domains t)))))"

text \<open>
  The order of the rows of \<open>managed_integrations\<close> is not given by the statement; they are read in
  the order they were written, and nothing depends on the order of this dictionary.
\<close>

definition network_policy_record ::
  "(str \<Rightarrow> str \<Rightarrow> bool) \<Rightarrow> policy_tables \<Rightarrow> ((str \<times> json) list \<times> str) option res" where
  "network_policy_record le t =
     (case pt_updated t of
        None \<Rightarrow> Inr None
      | Some updated_at \<Rightarrow>
          (let integrations = map (\<lambda>i. (i, JObj [(S ''enabled'', JBool True)])) (pt_integrations t);
               repositories = map (\<lambda>(_, owner, repo). JObj [(S ''owner'', JStr owner), (S ''repo'', JStr repo)])
                                (sort_key fst (pt_repositories t));
               integrations = (if repositories \<noteq> [] \<and> has_key integrations (S ''github'')
                               then set_item integrations (S ''github'') (S ''write_repositories'') (JList repositories)
                               else integrations);
               integrations = (if pt_github_settings t = Some True \<and> has_key integrations (S ''github'')
                               then set_item integrations (S ''github'') (S ''require_dot_github_approval'') (JBool True)
                               else integrations);
               integrations = (if pt_claude_settings t = Some True \<and> has_key integrations (S ''claude'')
                               then set_item integrations (S ''claude'') (S ''web_search'') (JBool True)
                               else integrations)
           in bind_res (assemble_domains le t) (\<lambda>allowed.
                let integrations =
                      (if allowed \<noteq> []
                       then AList.update (S ''custom'')
                              (JObj [(S ''domains'', JObj (map (\<lambda>(d, r). (d, rule_json r)) allowed))]) integrations
                       else integrations)
                in Inr (Some ([(S ''network_integrations'', JObj integrations)], updated_at)))))"

subsection \<open>The readers of network_policy.py\<close>

definition load_policy :: "(str \<Rightarrow> str \<Rightarrow> bool) \<Rightarrow> policy_tables \<Rightarrow> (str \<times> json) list res" where
  "load_policy le t =
     map_sum id (\<lambda>r. case r of None \<Rightarrow> [(S ''network_integrations'', JObj [])] | Some (controls, _) \<Rightarrow> controls)
       (network_policy_record le t)"

text \<open>One integration's stored dictionary, empty when absent.\<close>

definition managed_integration_of :: "str \<Rightarrow> (str \<times> json) list \<Rightarrow> (str \<times> json) list" where
  "managed_integration_of name policy =
     (case jget policy (S ''network_integrations'') of
        JObj entries \<Rightarrow> (case jget entries name of JObj kvs \<Rightarrow> kvs | _ \<Rightarrow> [])
      | _ \<Rightarrow> [])"

definition network_policy_response :: "(str \<Rightarrow> str \<Rightarrow> bool) \<Rightarrow> policy_tables \<Rightarrow> (str \<times> json) list res" where
  "network_policy_response le t =
     map_sum id (\<lambda>r. case r of
         None \<Rightarrow> [(S ''network_controls'', JObj [(S ''network_integrations'', JObj [])]), (S ''updated_at'', JNull)]
       | Some (controls, updated_at) \<Rightarrow> [(S ''network_controls'', JObj controls), (S ''updated_at'', JStr updated_at)])
       (network_policy_record le t)"

definition network_status :: "(str \<Rightarrow> str \<Rightarrow> bool) \<Rightarrow> (str \<Rightarrow> bool) \<Rightarrow> policy_tables \<Rightarrow> str" where
  "network_status le re_ok t =
     (case load_policy le t of
        Inl e \<Rightarrow> S ''error''
      | Inr policy \<Rightarrow> (case parse_network_controls re_ok policy of Inl e \<Rightarrow> S ''error'' | Inr c \<Rightarrow> S ''active''))"

text \<open>
  \<open>replace_network_policy\<close> up to the reconciliation that follows the commit. The reconciliation
  works on other tables; that of the GitHub credential cannot fail the request.
\<close>

definition replace_network_policy ::
  "(str \<Rightarrow> bool) \<Rightarrow> json \<Rightarrow> str \<Rightarrow> (policy_tables, (str \<times> json) list) txn" where
  "replace_network_policy re_ok body updated_at =
     (case body of
        JObj raw \<Rightarrow>
          (case parse_network_controls re_ok raw of
             Inl e \<Rightarrow> abort bad_request
           | Inr parsed \<Rightarrow>
               then_txn (save_network_policy (controls_to_json parsed) updated_at)
                 (ok [(S ''network_controls'', JObj (controls_to_json parsed)),
                      (S ''updated_at'', JStr updated_at)]))
      | _ \<Rightarrow> abort bad_request)"

end
