(* ===== verification/PolicyRoundtrip.thy ===== *)
theory PolicyRoundtrip
  imports PolicyStore Dispatch "HOL-Library.Multiset"
begin

text \<open>
  What is published is what is enforced: a policy that was accepted and stored is read back, and
  validates again, as a policy that decides every request the same. The rows hold the policy
  exactly; the order of the custom domains is lost to the collation, and no decision depends on it.
\<close>

subsection \<open>Sorted rows\<close>

lemma sorted_insert_by:
  assumes "transp p" "totalp p" "\<And>x. p x x" "sorted_wrt p ys"
  shows "sorted_wrt p (insert_by p x ys)"
  using assms(4)
proof (induction ys)
  case (Cons y ys)
  have "p x y" if "\<not> p y x"
    using that assms(2,3) by (metis totalpD)
  with Cons assms(1) show ?case by (auto dest: transpD)
qed simp

lemma filter_insert_by:
  assumes "transp p" "sorted_wrt p ys"
  shows "filter P (insert_by p x ys) = (if P x then insert_by p x (filter P ys) else filter P ys)"
  using assms(2)
proof (induction ys)
  case (Cons y ys)
  have stop: "insert_by p x zs = x # zs" if "\<forall>z \<in> set zs. \<not> p z x" for zs
    using that by (cases zs) auto
  show ?case
  proof (cases "p y x")
    case False
    with Cons.prems assms(1) have "\<forall>z \<in> set ys. \<not> p z x" by (auto dest: transpD)
    then have "insert_by p x (filter P ys) = x # filter P ys" by (intro stop) auto
    with False show ?thesis by simp
  qed (use Cons in auto)
qed simp

lemma filter_order_by:
  assumes "transp p" "totalp p" "\<And>x. p x x"
  shows "filter P (order_by p xs) = order_by p (filter P xs)"
proof -
  have "sorted_wrt p ys \<Longrightarrow>
      filter P (fold (insert_by p) xs ys) = fold (insert_by p) (filter P xs) (filter P ys)" for ys
    by (induction xs arbitrary: ys) (simp_all add: filter_insert_by assms sorted_insert_by)
  then show ?thesis by (simp add: order_by_def)
qed

lemma order_by_sorted: "sorted_wrt p xs \<Longrightarrow> order_by p xs = xs"
proof -
  have last: "\<forall>y \<in> set ys. p y x \<Longrightarrow> insert_by p x ys = ys @ [x]" for x ys
    by (induction ys) auto
  have "sorted_wrt p (ys @ xs) \<Longrightarrow> fold (insert_by p) xs ys = ys @ xs" for ys
  proof (induction xs arbitrary: ys)
    case (Cons x xs)
    from Cons.prems have "insert_by p x ys = ys @ [x]"
      by (intro last) (auto simp: sorted_wrt_append)
    with Cons.IH [of "ys @ [x]"] Cons.prems show ?case by simp
  qed simp
  then show "sorted_wrt p xs \<Longrightarrow> order_by p xs = xs" by (simp add: order_by_def)
qed

lemma mset_order_by [simp]: "mset (order_by p xs) = mset xs"
proof -
  have ins: "mset (insert_by p x ys) = add_mset x (mset ys)" for x ys
    by (induction ys) auto
  have "mset (fold (insert_by p) xs ys) = mset xs + mset ys" for ys
    by (induction xs arbitrary: ys) (simp_all add: ins)
  then show ?thesis by (simp add: order_by_def)
qed

lemma map_update:
  "distinct (map fst al) \<Longrightarrow> d \<in> fst ` set al \<Longrightarrow>
   AList.update d w al = map (\<lambda>(k, x). (k, if k = d then w else x)) al"
proof (induction al)
  case (Cons a al)
  obtain k x where a: "a = (k, x)" by (cases a)
  have "map (\<lambda>(k, x). (k, if k = d then w else x)) al = al" if "d \<notin> fst ` set al"
    using that by (induction al) force+
  with Cons a show ?case by auto
qed simp

definition collation :: "(str \<Rightarrow> str \<Rightarrow> bool) \<Rightarrow> bool" where
  "collation le \<longleftrightarrow> (\<forall>a b. le a b \<or> le b a) \<and> (\<forall>a b c. le a b \<longrightarrow> le b c \<longrightarrow> le a c)
     \<and> (\<forall>a b. le a b \<longrightarrow> le b a \<longrightarrow> a = b)"

lemma by_domain_order:
  assumes "collation le"
  shows "transp (by_domain le)" "totalp (by_domain le)" "by_domain le x x"
  unfolding transp_def totalp_on_def by_domain_def
  subgoal using assms unfolding collation_def by (smt (verit))
  subgoal using assms unfolding collation_def by (smt (verit))
  by simp

subsection \<open>Domains\<close>

text \<open>What a pattern without look-around consumes consists of characters of its classes.\<close>

fun classes :: "rx \<Rightarrow> cclass list" where
  "classes (Cls c) = [c]"
| "classes (Seq a b) = classes a @ classes b"
| "classes (Alt a b) = classes a @ classes b"
| "classes (Greedy lo hi a) = classes a"
| "classes (GreedyInf lo a) = classes a"
| "classes _ = []"

fun plain :: "rx \<Rightarrow> bool" where
  "plain Eps = True"
| "plain (Cls c) = True"
| "plain (Seq a b) = (plain a \<and> plain b)"
| "plain (Alt a b) = (plain a \<and> plain b)"
| "plain (Greedy lo hi a) = plain a"
| "plain (GreedyInf lo a) = plain a"
| "plain Bol = True"
| "plain Eol = True"
| "plain _ = False"

definition mapped :: "(int \<Rightarrow> int) \<Rightarrow> pos \<Rightarrow> pos" where
  "mapped f p = (case p of (l, r, g) \<Rightarrow> (map f l, map f r, g))"

lemma iter_mapped:
  assumes "\<And>p. g (mapped f p) = map (mapped f) (g p)"
  shows "iter_greedy g n (mapped f p) = map (mapped f) (iter_greedy g n p)"
    and "iter_exact g n (mapped f p) = map (mapped f) (iter_exact g n p)"
proof -
  have "shorter (mapped f p) (mapped f q) = shorter p q" for p q
    by (auto simp: shorter_def mapped_def split: prod.splits)
  then have "filter (shorter (mapped f p)) (map (mapped f) qs) = map (mapped f) (filter (shorter p) qs)" for p qs
    by (induction qs) auto
  then show "iter_greedy g n (mapped f p) = map (mapped f) (iter_greedy g n p)"
    by (induction n arbitrary: p) (simp_all add: assms map_concat comp_def)
  show "iter_exact g n (mapped f p) = map (mapped f) (iter_exact g n p)"
    by (induction n arbitrary: p) (simp_all add: assms map_concat comp_def)
qed

lemma rx_run_mapped:
  assumes "plain r" "\<And>x. (f x = 10) = (x = 10)"
    "\<And>c x. c \<in> set (classes r) \<Longrightarrow> cc_mem W c (f x) = cc_mem W c x"
  shows "rx_run W r (mapped f p) = map (mapped f) (rx_run W r p)"
  using assms(1,3)
proof (induction r arbitrary: p)
  case (Cls c)
  obtain l r g where p: "p = (l, r, g)" by (cases p)
  with Cls show ?case by (cases r) (auto simp: mapped_def)
next
  case (Eol)
  obtain l r g where "p = (l, r, g)" by (cases p)
  then show ?case using assms(2) by (cases r) (auto simp: mapped_def)
next
  case (Bol)
  then show ?case by (cases p) (auto simp: mapped_def)
next
  case (Greedy lo hi a)
  have ih: "rx_run W a (mapped f p) = map (mapped f) (rx_run W a p)" for p
    using Greedy by auto
  show ?case by (simp add: iter_mapped [where g = "rx_run W a" and f = f, OF ih] map_concat comp_def)
next
  case (GreedyInf lo a)
  have ih: "rx_run W a (mapped f p) = map (mapped f) (rx_run W a p)" for p
    using GreedyInf by auto
  have "length (fst (snd (mapped f q))) = length (fst (snd q))" for q
    by (simp add: mapped_def split: prod.splits)
  then show ?case by (simp add: iter_mapped [where g = "rx_run W a" and f = f, OF ih] map_concat comp_def)
qed (auto simp: map_concat comp_def)


definition consumes :: "(int \<Rightarrow> bool) \<Rightarrow> cclass list \<Rightarrow> pos \<Rightarrow> pos \<Rightarrow> bool" where
  "consumes W cs p q \<longleftrightarrow>
     (\<exists>u. fst (snd p) = u @ fst (snd q) \<and> (\<forall>x \<in> set u. \<exists>c \<in> set cs. cc_mem W c x))"

lemma consumes_refl [simp]: "consumes W cs p p"
  by (simp add: consumes_def)

lemma consumes_trans: "consumes W cs p q \<Longrightarrow> consumes W cs q r \<Longrightarrow> consumes W cs p r"
  unfolding consumes_def by (elim exE conjE) (rule_tac x = "u @ ua" in exI, auto)

lemma consumes_mono: "consumes W cs p q \<Longrightarrow> set cs \<subseteq> set cs' \<Longrightarrow> consumes W cs' p q"
  unfolding consumes_def by blast

lemma iter_consumes:
  assumes "\<And>p q. q \<in> set (f p) \<Longrightarrow> consumes W cs p q"
  shows "q \<in> set (iter_greedy f n p) \<Longrightarrow> consumes W cs p q"
    and "q \<in> set (iter_exact f n p) \<Longrightarrow> consumes W cs p q"
proof (induction n arbitrary: p)
  case (Suc n)
  {
    case 1
    then consider "q = p" | m where "m \<in> set (f p)" "q \<in> set (iter_greedy f n m)"
      by (auto simp del: split_paired_Ex)
    then show ?case using Suc.IH(1) assms by cases (simp, blast intro: consumes_trans)
  next
    case 2
    then obtain m where "m \<in> set (f p)" "q \<in> set (iter_exact f n m)"
      by (auto simp del: split_paired_Ex)
    then show ?case using Suc.IH(2) assms by (blast intro: consumes_trans)
  }
qed simp_all

lemma rx_run_consumes: "plain r \<Longrightarrow> q \<in> set (rx_run W r p) \<Longrightarrow> consumes W (classes r) p q"
proof (induction r arbitrary: p q)
  case (Cls c)
  obtain l r g where p: "p = (l, r, g)" by (cases p)
  with Cls show ?case by (cases r) (auto simp: consumes_def split: if_splits)
next
  case (Seq a b)
  from Seq.prems obtain m where m: "m \<in> set (rx_run W a p)" "q \<in> set (rx_run W b m)"
    by (auto simp del: split_paired_Ex)
  have "consumes W (classes a) p m" "consumes W (classes b) m q"
    using Seq.IH Seq.prems(1) m by auto
  then have "consumes W (classes (Seq a b)) p m" "consumes W (classes (Seq a b)) m q"
    by (auto elim!: consumes_mono)
  then show ?case by (rule consumes_trans)
next
  case (Alt a b)
  from Alt.prems consider "q \<in> set (rx_run W a p)" | "q \<in> set (rx_run W b p)" by auto
  then show ?case
    using Alt.IH(1) [of q p] Alt.IH(2) [of q p] Alt.prems(1) by cases (auto elim!: consumes_mono)
next
  case (Greedy lo hi a)
  from Greedy.prems(1) have step: "\<And>p q. q \<in> set (rx_run W a p) \<Longrightarrow> consumes W (classes a) p q"
    using Greedy.IH by simp
  from Greedy.prems obtain m where m: "m \<in> set (iter_exact (rx_run W a) lo p)"
      "q \<in> set (iter_greedy (rx_run W a) (hi - lo) m)"
    by (auto simp del: split_paired_Ex)
  have "consumes W (classes a) p m" "consumes W (classes a) m q"
    using iter_consumes [where f = "rx_run W a", OF step] m by blast+
  then show ?case by (simp add: consumes_trans [of _ _ p m q])
next
  case (GreedyInf lo a)
  from GreedyInf.prems(1) have step: "\<And>p q. q \<in> set (rx_run W a p) \<Longrightarrow> consumes W (classes a) p q"
    using GreedyInf.IH by simp
  from GreedyInf.prems obtain m where m: "m \<in> set (iter_exact (rx_run W a) lo p)"
      "q \<in> set (iter_greedy (rx_run W a) (length (fst (snd m))) m)"
    by (auto simp del: split_paired_Ex)
  have "consumes W (classes a) p m" "consumes W (classes a) m q"
    using iter_consumes [where f = "rx_run W a", OF step] m by blast+
  then show ?case by (simp add: consumes_trans [of _ _ p m q])
qed (auto split: if_splits)

lemma fullmatch_chars:
  assumes "plain r" "rx_fullmatch W r s" "x \<in> set s"
  shows "\<exists>c \<in> set (classes r). cc_mem W c x"
proof -
  from assms(2) obtain q where q: "q \<in> set (rx_run W r ([], s, []))" "fst (snd q) = []"
    by (auto simp: rx_fullmatch_def list_ex_iff)
  from rx_run_consumes [OF assms(1) q(1)] q(2) assms(3) show ?thesis by (auto simp: consumes_def)
qed

lemma fullmatch_mapped:
  assumes "plain r" "\<And>x. (f x = 10) = (x = 10)"
    "\<And>c x. c \<in> set (classes r) \<Longrightarrow> cc_mem W c (f x) = cc_mem W c x"
  shows "rx_fullmatch W r (map f s) = rx_fullmatch W r s"
proof -
  have "rx_run W r ([], map f s, []) = map (mapped f) (rx_run W r ([], s, []))"
    using rx_run_mapped [OF assms, of "([], s, [])"] by (simp add: mapped_def)
  moreover have "fst (snd (mapped f p)) = [] \<longleftrightarrow> fst (snd p) = []" for p
    by (cases p) (simp add: mapped_def)
  ultimately show ?thesis by (simp add: rx_fullmatch_def list_ex_iff del: split_paired_Ex)
qed

lemma domain_patterns:
  "plain EXACT_DOMAIN_RE" "plain WILDCARD_DOMAIN_RE"
  "set (classes EXACT_DOMAIN_RE) \<subseteq> {label_class, Range 46 46}"
  "set (classes WILDCARD_DOMAIN_RE) \<subseteq> {label_class, Range 46 46, Range 42 42}"
  by (simp_all add: EXACT_DOMAIN_RE_def WILDCARD_DOMAIN_RE_def domain_labels_def S_def)

definition fold_char :: "int \<Rightarrow> int" where
  "fold_char x = (if 65 \<le> x \<and> x \<le> 90 then x + 32 else x)"

lemma lower_domain:
  assumes "rx_fullmatch W r s" "r = EXACT_DOMAIN_RE \<or> r = WILDCARD_DOMAIN_RE"
  shows "rx_fullmatch W r (lower s)"
proof -
  have low: "lower_cp x = [fold_char x]" if "x \<in> set s" for x
  proof -
    have "\<exists>c \<in> {label_class, Range 46 46, Range 42 42}. cc_mem W c x"
      using fullmatch_chars [OF _ assms(1) that] assms(2) domain_patterns by blast
    then have "x < 128" by (auto simp: label_class_def)
    then show ?thesis by (simp add: lower_cp_def fold_char_def)
  qed
  have "lower s = map fold_char s"
    using low unfolding lower_def by (induction s) auto
  moreover have "cc_mem W c (fold_char x) = cc_mem W c x" if "c \<in> set (classes r)" for c x
  proof -
    have "c \<in> {label_class, Range 46 46, Range 42 42}" using that assms(2) domain_patterns(3,4) by blast
    then show ?thesis by (auto simp: fold_char_def label_class_def)
  qed
  then have "rx_fullmatch W r (map fold_char s) = rx_fullmatch W r s"
    using assms(2) domain_patterns(1,2) by (intro fullmatch_mapped) (auto simp: fold_char_def)
  ultimately show ?thesis using assms(1) by simp
qed


subsection \<open>What validation leaves, and that it validates again\<close>

lemma strip_by_strip [simp]: "strip_by P (strip_by P s) = strip_by P s"
proof (cases "strip_by P s")
  case Nil
  have "strip_by P [] = []" by (simp add: strip_by_def lstrip_by_def rstrip_by_def)
  with Nil show ?thesis by simp
next
  case (Cons a u)
  from strip_by_ends [OF Cons] have "lstrip_by P (a # u) = a # u" "rstrip_by P (a # u) = a # u"
    by (simp_all add: lstrip_by_def rstrip_by_def dropWhile_eq_self_iff hd_rev flip: rev.simps(2))
  with Cons show ?thesis by (simp add: strip_by_def)
qed

lemma allowed_methods_fixed: "m \<in> set ALLOWED_HTTP_METHODS \<Longrightarrow> upper m = m \<and> strip m = m \<and> m \<noteq> []"
proof -
  have "list_all (\<lambda>m. upper m = m \<and> strip m = m \<and> m \<noteq> []) ALLOWED_HTTP_METHODS" by code_simp
  then show "m \<in> set ALLOWED_HTTP_METHODS \<Longrightarrow> ?thesis" by (auto simp: list_all_iff)
qed

definition valid_rule :: "(str \<Rightarrow> bool) \<Rightarrow> custom_domain_rule \<Rightarrow> bool" where
  "valid_rule re_ok r \<longleftrightarrow> set (allow_http_methods r) \<subseteq> set ALLOWED_HTTP_METHODS
     \<and> (\<forall>g \<in> set (path_guards r). strip g = g \<and> g \<noteq> [] \<and> re_ok g)"

lemma string_items_Inr:
  assumes "string_items key items = Inr xs"
  shows "\<forall>x \<in> set xs. strip x = x \<and> x \<noteq> []"
proof
  fix x assume "x \<in> set xs"
  with assms obtain i where i: "i \<in> set items" "x = (case i of JStr s \<Rightarrow> strip s | _ \<Rightarrow> [])"
      and all: "list_all (\<lambda>i. case i of JStr s \<Rightarrow> strip s \<noteq> [] | _ \<Rightarrow> False) items"
    by (auto simp: string_items_def split: if_splits)
  from all i(1) have "case i of JStr s \<Rightarrow> strip s \<noteq> [] | _ \<Rightarrow> False" by (auto simp: list_all_iff)
  with i(2) show "strip x = x \<and> x \<noteq> []" by (cases i) auto
qed

lemma string_list_Inr: "string_list raw key b = Inr xs \<Longrightarrow> \<forall>x \<in> set xs. strip x = x \<and> x \<noteq> []"
  by (auto simp: string_list_def dest: string_items_Inr split: json.splits if_splits)

lemma string_items_JStr:
  "\<forall>x \<in> set xs. strip x = x \<and> x \<noteq> [] \<Longrightarrow> string_items key (map JStr xs) = Inr xs"
  by (simp add: string_items_def list_all_iff comp_def map_idI)

lemma parse_rule_valid:
  assumes "parse_rule re_ok raw d = Inr r"
  shows "valid_rule re_ok r"
proof -
  from assms obtain ms guards where "string_list raw (S ''path_guards'') False = Inr guards"
      "find_first (\<lambda>m. m \<notin> set ALLOWED_HTTP_METHODS) (map upper ms) = None"
      "find_first (\<lambda>p. \<not> re_ok p) guards = None" "r = \<lparr>allow_http_methods = map upper ms, path_guards = guards\<rparr>"
    by (auto simp: parse_rule_def Let_def split: option.splits)
  with string_list_Inr show ?thesis by (auto simp: valid_rule_def find_first_None)
qed

definition rule_entry :: "custom_domain_rule \<Rightarrow> str list \<times> str list option" where
  "rule_entry r = (allow_http_methods r, if path_guards r = [] then None else Some (path_guards r))"

lemma parse_rule_entry:
  assumes "valid_rule re_ok r" "rule_json (rule_entry r) = JObj kvs"
  shows "parse_rule re_ok kvs d = Inr r"
proof -
  have ms: "\<forall>m \<in> set (allow_http_methods r). strip m = m \<and> m \<noteq> []" "map upper (allow_http_methods r) = allow_http_methods r"
    using assms(1) allowed_methods_fixed by (auto simp: valid_rule_def intro: map_idI)
  have gs: "\<forall>m \<in> set (path_guards r). strip m = m \<and> m \<noteq> []"
    using assms(1) by (auto simp: valid_rule_def)
  have first: "find_first (\<lambda>m. m \<notin> set ALLOWED_HTTP_METHODS) (allow_http_methods r) = None"
      "find_first (\<lambda>p. \<not> re_ok p) (path_guards r) = None"
    using assms(1) by (auto simp: valid_rule_def find_first_None)
  show ?thesis
    using assms(2) ms gs first
    by (auto simp: parse_rule_def rule_json_def rule_entry_def reject_extra_def extra_fields_def
        string_list_def jget_def string_items_JStr split: if_splits)
qed

definition valid_domain :: "str \<Rightarrow> bool" where
  "valid_domain d \<longleftrightarrow> d \<noteq> [] \<and> lower d = d
     \<and> (rx_fullmatch (\<lambda>_. False) EXACT_DOMAIN_RE d \<or> rx_fullmatch (\<lambda>_. False) WILDCARD_DOMAIN_RE d)"

definition valid_domains :: "(str \<Rightarrow> bool) \<Rightarrow> (str \<times> custom_domain_rule) list \<Rightarrow> bool" where
  "valid_domains re_ok ds \<longleftrightarrow> distinct (map fst ds)
     \<and> (\<forall>(d, r) \<in> set ds. valid_domain d \<and> valid_rule re_ok r)"

lemma valid_lower:
  "d \<noteq> [] \<Longrightarrow> rx_fullmatch (\<lambda>_. False) EXACT_DOMAIN_RE d \<or> rx_fullmatch (\<lambda>_. False) WILDCARD_DOMAIN_RE d
     \<Longrightarrow> valid_domain (lower d)"
  using lower_domain by (auto simp: valid_domain_def)

lemma parse_domains_valid:
  "parse_domains re_ok raw acc = Inr ds \<Longrightarrow> valid_domains re_ok acc \<Longrightarrow> valid_domains re_ok ds"
proof (induction re_ok raw acc rule: parse_domains.induct)
  case (2 re_ok domain rule_raw rest acc)
  from "2.prems"(1) obtain kvs rule where step: "rule_raw = JObj kvs" "domain \<noteq> []"
      "rx_fullmatch (\<lambda>_. False) EXACT_DOMAIN_RE domain \<or> rx_fullmatch (\<lambda>_. False) WILDCARD_DOMAIN_RE domain"
      "\<not> has_key acc (lower domain)" "parse_rule re_ok kvs (lower domain) = Inr rule"
      "parse_domains re_ok rest (acc @ [(lower domain, rule)]) = Inr ds"
    by (auto split: if_splits json.splits simp: Let_def)
  have "valid_domains re_ok (acc @ [(lower domain, rule)])"
    using "2.prems"(2) step valid_lower [OF step(2,3)] parse_rule_valid [OF step(5)]
    by (auto simp: valid_domains_def has_key_iff)
  with "2.IH" [OF _ _ refl] step show ?case by (auto simp: Let_def)
qed simp

lemma parse_domains_again:
  "valid_domains re_ok (acc @ ds) \<Longrightarrow>
   parse_domains re_ok (map (\<lambda>(d, r). (d, rule_json (rule_entry r))) ds) acc = Inr (acc @ ds)"
proof (induction ds arbitrary: acc)
  case (Cons a ds)
  obtain d r where a: "a = (d, r)" by (cases a)
  obtain kvs where kvs: "rule_json (rule_entry r) = JObj kvs" by (simp add: rule_json_def rule_entry_def)
  have "valid_domain d" "valid_rule re_ok r" "\<not> has_key acc d"
    using Cons.prems a by (auto simp: valid_domains_def has_key_iff)
  with Cons.IH [of "acc @ [a]"] Cons.prems a kvs parse_rule_entry show ?case
    by (auto simp: valid_domain_def)
qed simp


lemma repository_names:
  assumes "r = GITHUB_OWNER_RE \<or> r = GITHUB_REPO_RE" "rx_fullmatch W r s"
  shows "lower s = s" "strip s = s" "s \<noteq> []"
proof -
  have plain: "plain r" and classes: "\<And>c x. c \<in> set (classes r) \<Longrightarrow> cc_mem W c x \<Longrightarrow> 45 \<le> x \<and> x < 128 \<and> (x < 65 \<or> 90 < x)"
    using assms(1) by (auto simp: GITHUB_OWNER_RE_def GITHUB_REPO_RE_def owner_first_def S_def)
  have chars: "45 \<le> x \<and> x < 128 \<and> (x < 65 \<or> 90 < x)" if "x \<in> set s" for x
    using fullmatch_chars [OF plain assms(2) that] classes by blast
  then show "lower s = s"
    by (intro lower_ascii) (auto simp: ascii_lower_cps_def list_all_iff dest!: chars)
  have "\<not> is_space x" if "x \<in> set s" for x
    using chars [OF that] by (auto simp: is_space_def)
  then show "strip s = s" by (simp add: strip_by_none)
  show "s \<noteq> []"
    using assms by (auto simp: rx_fullmatch_def GITHUB_OWNER_RE_def GITHUB_REPO_RE_def)
qed

definition valid_repositories :: "github_repository list \<Rightarrow> bool" where
  "valid_repositories rs \<longleftrightarrow> distinct (map (\<lambda>r. (gr_owner r, gr_repo r)) rs)
     \<and> (\<forall>r \<in> set rs. rx_fullmatch (\<lambda>_. False) GITHUB_OWNER_RE (gr_owner r)
          \<and> rx_fullmatch (\<lambda>_. False) GITHUB_REPO_RE (gr_repo r))"

lemma parse_repositories_valid:
  "parse_repositories ctx i items seen = Inr rs \<Longrightarrow>
   valid_repositories rs \<and> (\<forall>r \<in> set rs. (gr_owner r, gr_repo r) \<notin> set seen)"
proof (induction ctx i items seen arbitrary: rs rule: parse_repositories.induct)
  case (2 ctx i item items seen)
  from "2.prems" obtain kvs where item: "item = JObj kvs" by (cases item) auto
  from "2.prems" obtain owner repo rest where r: "rx_fullmatch (\<lambda>_. False) GITHUB_OWNER_RE owner"
      "rx_fullmatch (\<lambda>_. False) GITHUB_REPO_RE repo" "(owner, repo) \<notin> set seen"
      "parse_repositories ctx (Suc i) items ((owner, repo) # seen) = Inr rest"
      "rs = \<lparr>gr_owner = owner, gr_repo = repo\<rparr> # rest"
    unfolding item by (auto simp: Let_def split: if_splits)
  have "valid_repositories rest \<and> (\<forall>r \<in> set rest. (gr_owner r, gr_repo r) \<notin> set ((owner, repo) # seen))"
    using "2.IH" [OF item _ _ _ refl refl] r item "2.prems" by (auto simp: Let_def split: if_splits)
  with r show ?case by (auto simp: valid_repositories_def)
qed (simp add: valid_repositories_def)

lemma parse_repositories_again:
  "valid_repositories rs \<Longrightarrow> \<forall>r \<in> set rs. \<not> endswith (gr_repo r) (S ''.git'') \<and> (gr_owner r, gr_repo r) \<notin> set seen \<Longrightarrow>
   parse_repositories ctx i (map repository_to_json rs) seen = Inr rs"
proof (induction rs arbitrary: i seen)
  case (Cons r rs)
  have names: "lower (gr_owner r) = gr_owner r" "strip (gr_owner r) = gr_owner r" "gr_owner r \<noteq> []"
      "lower (gr_repo r) = gr_repo r" "strip (gr_repo r) = gr_repo r" "gr_repo r \<noteq> []"
    using Cons.prems(1) repository_names [of GITHUB_OWNER_RE] repository_names [of GITHUB_REPO_RE]
    by (simp_all add: valid_repositories_def) blast+
  have "parse_repositories ctx (Suc i) (map repository_to_json rs) ((gr_owner r, gr_repo r) # seen) = Inr rs"
    using Cons.prems by (intro Cons.IH) (auto simp: valid_repositories_def image_iff)
  with Cons.prems names show ?case
    by (auto simp: repository_to_json_def [of r] github_string_def jget_def reject_extra_def extra_fields_def Let_def
        removesuffix_id valid_repositories_def)
qed simp

definition valid_github :: "github_integration \<Rightarrow> bool" where
  "valid_github g \<longleftrightarrow> valid_repositories (write_repositories g)
     \<and> (\<not> gh_enabled g \<longrightarrow> write_repositories g = [] \<and> \<not> require_dot_github_approval g)"

lemma github_parse_valid: "github_parse raw = Inr g \<Longrightarrow> valid_github g"
  by (auto simp: github_parse_def valid_github_def valid_repositories_def parse_write_repositories_def Let_def
      dest: parse_repositories_valid [unfolded valid_repositories_def] split: if_splits json.splits)

lemma github_parse_again:
  assumes "valid_github g" "\<forall>r \<in> set (write_repositories g). \<not> endswith (gr_repo r) (S ''.git'')"
    "gh_enabled g" "github_to_json g = JObj kvs"
  shows "github_parse kvs = Inr g"
proof -
  have "parse_repositories c 0 (map repository_to_json (write_repositories g)) [] = Inr (write_repositories g)" for c
    using assms(1,2) by (intro parse_repositories_again) (auto simp: valid_github_def)
  with assms show ?thesis
    by (cases g)
       (auto simp: github_to_json_def github_parse_def parse_write_repositories_def Let_def get_flag_def jget_def
         reject_extra_def extra_fields_def simp del: bind_res_eq_Inr)
qed

lemma claude_parse_valid: "claude_parse raw = Inr c \<Longrightarrow> web_search c \<Longrightarrow> cl_enabled c"
  by (auto simp: claude_parse_def Let_def split: if_splits)

lemma simple_parse_again:
  "mi_enabled c \<Longrightarrow> managed_to_json c = JObj kvs \<Longrightarrow> parse_simple_integration kvs ctx = Inr c"
  "br_enabled b \<Longrightarrow> bedrock_to_json b = JObj kvs \<Longrightarrow> bedrock_parse kvs = Inr b"
  "cl_enabled cl \<Longrightarrow> claude_to_json cl = JObj kvs \<Longrightarrow> claude_parse kvs = Inr cl"
  by (cases c, auto simp: managed_to_json_def parse_simple_integration_def get_flag_def reject_extra_def
      extra_fields_def Let_def simp del: bind_res_eq_Inr)
     (cases b, auto simp: bedrock_to_json_def bedrock_parse_def get_flag_def reject_extra_def
      extra_fields_def Let_def simp del: bind_res_eq_Inr,
      cases cl, auto simp: claude_to_json_def claude_parse_def get_flag_def reject_extra_def
      extra_fields_def Let_def simp del: bind_res_eq_Inr)


text \<open>The seven configurations of a policy that was parsed, in the order of the registry.\<close>

definition policy_entries ::
  "managed_integration \<Rightarrow> claude_integration \<Rightarrow> bedrock_integration \<Rightarrow> github_integration \<Rightarrow>
   managed_integration \<Rightarrow> managed_integration \<Rightarrow> (str \<times> custom_domain_rule) list \<Rightarrow>
   (str \<times> integration_config) list" where
  "policy_entries a cl b g p n ds =
     [(S ''openai'', OpenAIConfig a), (S ''claude'', ClaudeConfig cl), (S ''bedrock'', BedrockConfig b),
      (S ''github'', GitHubConfig g), (S ''python_packages'', PythonConfig p), (S ''npm_packages'', NpmConfig n),
      (S ''custom'', CustomConfig \<lparr>domains = ds\<rparr>)]"

definition valid_policy ::
  "(str \<Rightarrow> bool) \<Rightarrow> claude_integration \<Rightarrow> github_integration \<Rightarrow> (str \<times> custom_domain_rule) list \<Rightarrow> bool" where
  "valid_policy re_ok cl g ds \<longleftrightarrow> (web_search cl \<longrightarrow> cl_enabled cl) \<and> valid_github g \<and> valid_domains re_ok ds
     \<and> reject_overlapping_wildcards ds = Inr () \<and> reject_managed_domains (map fst ds) = Inr ()"

lemmas manifest_ids = NETWORK_INTEGRATIONS_def openai_manifest_def claude_manifest_def bedrock_manifest_def
  github_manifest_def python_manifest_def npm_manifest_def custom_manifest_def

lemma map_sum_Inr [simp]: "map_sum id f x = Inr y \<longleftrightarrow> (\<exists>z. x = Inr z \<and> y = f z)"
  by (cases x) auto

lemma custom_parse_valid:
  "custom_parse re_ok raw = Inr c \<Longrightarrow>
   valid_domains re_ok (domains c) \<and> reject_overlapping_wildcards (domains c) = Inr ()"
  by (auto simp: custom_parse_def valid_domains_def split: json.splits
      dest!: parse_domains_valid [unfolded valid_domains_def])

lemma parsed_shape:
  assumes "parse_network_controls re_ok raw = Inr nc"
  obtains a cl b g p n ds where "nc = \<lparr>integrations = policy_entries a cl b g p n ds\<rparr>" "valid_policy re_ok cl g ds"
proof -
  from assms obtain raw' configs where c: "parse_integrations re_ok raw' NETWORK_INTEGRATIONS = Inr configs"
      "reject_managed_domains (map fst (custom_domains configs)) = Inr ()" "nc = \<lparr>integrations = configs\<rparr>"
    by (auto simp: parse_network_controls_def)
  from c(1) obtain a cl b g p n c v1 v2 v3 where
      "configs = [(S ''openai'', OpenAIConfig a), (S ''claude'', ClaudeConfig cl), (S ''bedrock'', BedrockConfig b),
        (S ''github'', GitHubConfig g), (S ''python_packages'', PythonConfig p), (S ''npm_packages'', NpmConfig n),
        (S ''custom'', CustomConfig c)]"
      "claude_parse v1 = Inr cl" "github_parse v2 = Inr g" "custom_parse re_ok v3 = Inr c"
    by (auto simp: manifest_ids registered_parse_def simp del: bind_res.simps)
  moreover from this c(2) have "reject_managed_domains (map fst (domains c)) = Inr ()"
    by (simp add: custom_domains_def)
  ultimately show ?thesis
    using c(3) that [of a cl b g p n "domains c"] claude_parse_valid github_parse_valid custom_parse_valid
    by (fastforce simp: policy_entries_def valid_policy_def)
qed

subsection \<open>What is saved\<close>

lemma each_Cons_wp [wp_simps]: "wp (each_txn f (x # xs)) Q s = wp (f x) (\<lambda>_. wp (each_txn f xs) Q) s"
  by (simp add: wp_simps)

lemma each_Nil_wp [wp_simps]: "wp (each_txn f []) Q s = Q () s"
  by (simp add: wp_simps)

lemma save_integrations_wp:
  "distinct (map fst xs) \<Longrightarrow> set (map fst xs) \<subseteq> insert (S ''custom'') (set managed_names) \<Longrightarrow>
   \<forall>(k, v) \<in> set xs. k \<noteq> S ''custom'' \<longrightarrow> (\<exists>kvs. v = JObj kvs \<and> jget kvs (S ''enabled'') = JBool True) \<Longrightarrow>
   set (map fst xs) \<inter> set (pt_integrations t) = {} \<Longrightarrow>
   Q () (t\<lparr>pt_integrations := pt_integrations t @ filter (\<lambda>k. k \<noteq> S ''custom'') (map fst xs)\<rparr>) \<Longrightarrow>
   wp (save_integrations xs) Q t"
proof (induction xs arbitrary: t)
  case Nil
  then show ?case by (simp add: save_integrations_def wp_simps)
next
  case (Cons x xs)
  obtain k v where x: "x = (k, v)" by (cases x)
  show ?case
  proof (cases "k = S ''custom''")
    case True
    with Cons x show ?thesis by (simp add: save_integrations_def wp_simps)
  next
    case False
    with Cons.prems(3) x obtain kvs where "v = JObj kvs" "jget kvs (S ''enabled'') = JBool True" by auto
    with Cons.prems False x show ?thesis
      using Cons.IH [of "t\<lparr>pt_integrations := pt_integrations t @ [k]\<rparr>"]
      by (auto simp: save_integrations_def wp_simps insert_integration_def)
  qed
qed

definition repository_rows :: "nat \<Rightarrow> github_repository list \<Rightarrow> (int \<times> str \<times> str) list" where
  "repository_rows n rs = map (\<lambda>(i, r). (int i, gr_owner r, gr_repo r)) (enumerate n rs)"

definition insert_repository_item :: "nat \<times> json \<Rightarrow> unit policy_txn" where
  "insert_repository_item = (\<lambda>(position, repository).
     bind_txn (item_of repository (S ''owner'')) (\<lambda>owner.
     bind_txn (item_of repository (S ''repo'')) (\<lambda>repo.
     bind_txn (text_param owner) (\<lambda>owner.
     bind_txn (text_param repo) (\<lambda>repo.
       insert_repository (int position) owner repo)))))"

lemma insert_repository_wp:
  "wp (insert_repository_item (n, repository_to_json r)) Q t \<longleftrightarrow>
     rx_fullmatch (\<lambda>_. False) GITHUB_OWNER_RE (gr_owner r)
     \<and> rx_fullmatch (\<lambda>_. False) GITHUB_REPO_RE (gr_repo r) \<and> \<not> endswith (gr_repo r) (S ''.git'')
     \<and> int n \<notin> fst ` set (pt_repositories t) \<and> (gr_owner r, gr_repo r) \<notin> snd ` set (pt_repositories t)
     \<and> Q () (t\<lparr>pt_repositories := pt_repositories t @ [(int n, gr_owner r, gr_repo r)]\<rparr>)"
  by (simp add: insert_repository_item_def repository_to_json_def item_of_def text_param_def insert_repository_def
      wp_simps)

lemma save_repositories_wp:
  "valid_repositories rs \<Longrightarrow> \<forall>r \<in> set rs. \<not> endswith (gr_repo r) (S ''.git'') \<Longrightarrow>
   \<forall>(i, k) \<in> set (pt_repositories t). i < int n \<and> k \<notin> (\<lambda>r. (gr_owner r, gr_repo r)) ` set rs \<Longrightarrow>
   Q () (t\<lparr>pt_repositories := pt_repositories t @ repository_rows n rs\<rparr>) \<Longrightarrow>
   wp (each_txn insert_repository_item (enumerate n (map repository_to_json rs))) Q t"
proof (induction rs arbitrary: t n)
  case Nil
  then show ?case by (simp add: wp_simps repository_rows_def)
next
  case (Cons r rs)
  let ?t = "t\<lparr>pt_repositories := pt_repositories t @ [(int n, gr_owner r, gr_repo r)]\<rparr>"
  have old: "fst x < int n \<and> snd x \<noteq> (gr_owner r, gr_repo r) \<and> snd x \<notin> (\<lambda>r. (gr_owner r, gr_repo r)) ` set rs"
    if "x \<in> set (pt_repositories t)" for x
    using bspec [OF Cons.prems(3) that] by (cases x) auto
  then have fresh: "int n \<notin> fst ` set (pt_repositories t)"
      "(gr_owner r, gr_repo r) \<notin> snd ` set (pt_repositories t)"
    by force+
  have "(gr_owner r, gr_repo r) \<notin> (\<lambda>r. (gr_owner r, gr_repo r)) ` set rs"
    using Cons.prems(1) by (simp add: valid_repositories_def)
  with old have later: "fst x < int (Suc n) \<and> snd x \<notin> (\<lambda>r. (gr_owner r, gr_repo r)) ` set rs"
    if "x \<in> set (pt_repositories t @ [(int n, gr_owner r, gr_repo r)])" for x
  proof -
    from that consider "x \<in> set (pt_repositories t)" | "x = (int n, gr_owner r, gr_repo r)" by auto
    then show ?thesis
    proof cases
      case 1
      from old [OF this] show ?thesis by simp
    next
      case 2
      with \<open>(gr_owner r, gr_repo r) \<notin> (\<lambda>r. (gr_owner r, gr_repo r)) ` set rs\<close> show ?thesis by (simp only: fst_conv snd_conv) simp
    qed
  qed
  have "wp (each_txn insert_repository_item (enumerate (Suc n) (map repository_to_json rs))) Q ?t"
  proof (rule Cons.IH)
    show "\<forall>(i, k) \<in> set (pt_repositories ?t). i < int (Suc n) \<and> k \<notin> (\<lambda>r. (gr_owner r, gr_repo r)) ` set rs"
      using later by (simp add: case_prod_beta del: set_append)
    show "Q () (?t\<lparr>pt_repositories := pt_repositories ?t @ repository_rows (Suc n) rs\<rparr>)"
      using Cons.prems(4) by (simp add: repository_rows_def)
  qed (use Cons.prems in \<open>auto simp: valid_repositories_def\<close>)
  with fresh Cons.prems(1,2) show ?case
    by (simp add: wp_simps insert_repository_wp valid_repositories_def)
qed

lemma save_github_steps:
  "save_github (github_to_json g) =
     then_txn (each_txn insert_repository_item (enumerate 0 (map repository_to_json (write_repositories g))))
       (if require_dot_github_approval g then modify (\<lambda>t. t\<lparr>pt_github_settings := Some True\<rparr>) else ok ())"
  by (auto simp: save_github_def github_to_json_def items_or_empty_def py_true_def jget_def insert_repository_item_def
      bind_txn_def ok_def fun_eq_iff then_txn_def)

lemma save_github_wp:
  assumes "valid_github g" "\<forall>r \<in> set (write_repositories g). \<not> endswith (gr_repo r) (S ''.git'')"
    "pt_repositories t = []"
    "Q () (t\<lparr>pt_repositories := repository_rows 0 (write_repositories g),
             pt_github_settings := (if require_dot_github_approval g then Some True else pt_github_settings t)\<rparr>)"
  shows "wp (save_github (github_to_json g)) Q t"
proof -
  let ?approve = "if require_dot_github_approval g then modify (\<lambda>t. t\<lparr>pt_github_settings := Some True\<rparr>) else ok ()"
  have "wp ?approve Q (t\<lparr>pt_repositories := repository_rows 0 (write_repositories g)\<rparr>)"
    using assms(4) by (auto simp: wp_simps)
  then have "wp (each_txn insert_repository_item (enumerate 0 (map repository_to_json (write_repositories g))))
      (\<lambda>_. wp ?approve Q) t"
    using assms by (intro save_repositories_wp) (auto simp: valid_github_def)
  then show ?thesis by (simp add: save_github_steps wp_then)
qed


definition position_rows :: "str \<Rightarrow> nat \<Rightarrow> str list \<Rightarrow> (str \<times> int \<times> str) list" where
  "position_rows d n xs = map (\<lambda>(i, x). (d, int i, x)) (enumerate n xs)"

definition below :: "str \<Rightarrow> nat \<Rightarrow> (str \<times> int \<times> str) list \<Rightarrow> bool" where
  "below d n rows \<longleftrightarrow> (\<forall>row \<in> set rows. fst row = d \<longrightarrow> fst (snd row) < int n)"

lemma below_append: "below d n rows \<Longrightarrow> below d (Suc n) (rows @ [(d, int n, x)])"
  by (auto simp: below_def)

lemma below_fresh: "below d n rows \<Longrightarrow> (d, int n) \<notin> set (map (\<lambda>(d, p, _). (d, p)) rows)"
  by (force simp: below_def)

lemma position_rows_Cons: "position_rows d n (x # xs) = (d, int n, x) # position_rows d (Suc n) xs"
  by (simp add: position_rows_def)

lemma save_methods_wp:
  "set ms \<subseteq> set ALLOWED_HTTP_METHODS \<Longrightarrow> d \<in> set (pt_domains t) \<Longrightarrow> below d n (pt_methods t) \<Longrightarrow>
   Q () (t\<lparr>pt_methods := pt_methods t @ position_rows d n ms\<rparr>) \<Longrightarrow>
   wp (each_txn (\<lambda>(position, m). bind_txn (text_param m) (insert_method d (int position)))
        (enumerate n (map JStr ms))) Q t"
proof (induction ms arbitrary: t n)
  case Nil
  then show ?case by (simp add: wp_simps position_rows_def)
next
  case (Cons m ms)
  from Cons.IH [of "t\<lparr>pt_methods := pt_methods t @ [(d, int n, m)]\<rparr>" "Suc n"] Cons.prems below_fresh
  show ?case
    by (simp add: wp_simps text_param_def insert_method_def position_rows_Cons below_append)
qed

lemma save_guards_wp:
  "[] \<notin> set gs \<Longrightarrow> d \<in> set (pt_domains t) \<Longrightarrow> below d n (pt_guards t) \<Longrightarrow>
   Q () (t\<lparr>pt_guards := pt_guards t @ position_rows d n gs\<rparr>) \<Longrightarrow>
   wp (each_txn (\<lambda>(position, g). bind_txn (text_param g) (insert_guard d (int position)))
        (enumerate n (map JStr gs))) Q t"
proof (induction gs arbitrary: t n)
  case Nil
  then show ?case by (simp add: wp_simps position_rows_def)
next
  case (Cons g gs)
  from Cons.IH [of "t\<lparr>pt_guards := pt_guards t @ [(d, int n, g)]\<rparr>" "Suc n"] Cons.prems below_fresh
  show ?case
    by (auto simp: wp_simps text_param_def insert_guard_def position_rows_Cons below_append)
qed

definition rows_known :: "policy_tables \<Rightarrow> bool" where
  "rows_known t \<longleftrightarrow> fst ` set (pt_methods t) \<subseteq> set (pt_domains t) \<and> fst ` set (pt_guards t) \<subseteq> set (pt_domains t)"

definition add_domain :: "str \<Rightarrow> custom_domain_rule \<Rightarrow> policy_tables \<Rightarrow> policy_tables" where
  "add_domain d r t =
     t\<lparr>pt_domains := pt_domains t @ [d], pt_methods := pt_methods t @ position_rows d 0 (allow_http_methods r),
       pt_guards := pt_guards t @ position_rows d 0 (path_guards r)\<rparr>"

lemma items_JList [wp_simps]: "wp (items_or_empty (JList xs)) Q t = Q xs t"
  by (simp add: items_or_empty_def py_true_def wp_simps)

lemma save_domain_wp:
  assumes "rows_known t" "d \<noteq> []" "d \<notin> set (pt_domains t)" "valid_rule re_ok r" "Q () (add_domain d r t)"
  shows "wp (save_domain (d, rule_to_json r)) Q t"
proof -
  let ?t = "t\<lparr>pt_domains := pt_domains t @ [d]\<rparr>"
  have fresh: "below d 0 (pt_methods t)" "below d 0 (pt_guards t)"
    using assms(1,3) by (auto simp: below_def rows_known_def)
  have guards: "wp (bind_txn (items_or_empty (if path_guards r = [] then JNull else JList (map JStr (path_guards r))))
        (\<lambda>gs. each_txn (\<lambda>(position, g). bind_txn (text_param g) (insert_guard d (int position))) (enumerate 0 gs)))
      Q (?t\<lparr>pt_methods := pt_methods t @ position_rows d 0 (allow_http_methods r)\<rparr>)"
  proof (cases "path_guards r = []")
    case True
    with assms(5) show ?thesis
      by (simp add: wp_simps items_or_empty_def py_true_def add_domain_def position_rows_def)
  next
    case False
    with assms(4,5) fresh(2) show ?thesis
      by (simp add: wp_simps, intro save_guards_wp) (auto simp: valid_rule_def add_domain_def)
  qed
  have "wp (each_txn (\<lambda>(position, m). bind_txn (text_param m) (insert_method d (int position)))
        (enumerate 0 (map JStr (allow_http_methods r))))
      (\<lambda>_. wp (bind_txn (items_or_empty (if path_guards r = [] then JNull else JList (map JStr (path_guards r))))
        (\<lambda>gs. each_txn (\<lambda>(position, g). bind_txn (text_param g) (insert_guard d (int position))) (enumerate 0 gs))) Q) ?t"
    using fresh(1) assms(4) guards by (intro save_methods_wp) (auto simp: valid_rule_def)
  moreover obtain kvs where "rule_to_json r = JObj kvs"
      "jget kvs (S ''allow_http_methods'') = JList (map JStr (allow_http_methods r))"
      "jget kvs (S ''path_guards'') = (if path_guards r = [] then JNull else JList (map JStr (path_guards r)))"
    by (auto simp: rule_to_json_def jget_def)
  ultimately show ?thesis
    using assms(2,3) by (simp add: save_domain_def insert_domain_def wp_then wp_bind wp_select wp_require wp_modify items_JList)
qed

definition add_domains :: "(str \<times> custom_domain_rule) list \<Rightarrow> policy_tables \<Rightarrow> policy_tables" where
  "add_domains ds t = fold (\<lambda>(d, r). add_domain d r) ds t"

lemma rows_known_add: "rows_known t \<Longrightarrow> rows_known (add_domain d r t)"
  by (force simp: rows_known_def add_domain_def position_rows_def)

lemma save_domains_wp:
  "valid_domains re_ok ds \<Longrightarrow> rows_known t \<Longrightarrow> set (map fst ds) \<inter> set (pt_domains t) = {} \<Longrightarrow>
   Q () (add_domains ds t) \<Longrightarrow>
   wp (each_txn save_domain (map (\<lambda>(d, r). (d, rule_to_json r)) ds)) Q t"
proof (induction ds arbitrary: t)
  case Nil
  then show ?case by (simp add: wp_simps add_domains_def)
next
  case (Cons x ds)
  obtain d r where x: "x = (d, r)" by (cases x)
  have "set (map fst ds) \<inter> set (pt_domains (add_domain d r t)) = {}"
    using Cons.prems(1,3) x by (simp add: add_domain_def valid_domains_def)
  then have "wp (each_txn save_domain (map (\<lambda>(d, r). (d, rule_to_json r)) ds)) Q (add_domain d r t)"
    using Cons.prems x by (intro Cons.IH) (auto simp: valid_domains_def rows_known_add add_domains_def)
  with Cons.prems x show ?case
    by (auto simp: wp_simps valid_domains_def valid_domain_def intro!: save_domain_wp)
qed


text \<open>The tables after a policy was saved.\<close>

definition saved_domains :: "(str \<times> custom_domain_rule) list \<Rightarrow> (str \<times> custom_domain_rule) list" where
  "saved_domains ds = sort_key fst ds"

definition enabled_entries :: "(str \<times> integration_config) list \<Rightarrow> (str \<times> json) list" where
  "enabled_entries xs = map (\<lambda>(ident, c). (ident, config_to_json c)) (filter (\<lambda>(ident, c). config_enabled c) xs)"

definition saved_policy ::
  "str \<Rightarrow> managed_integration \<Rightarrow> claude_integration \<Rightarrow> bedrock_integration \<Rightarrow> github_integration \<Rightarrow>
   managed_integration \<Rightarrow> managed_integration \<Rightarrow> (str \<times> custom_domain_rule) list \<Rightarrow> policy_tables" where
  "saved_policy now a cl b g p n ds =
     add_domains (saved_domains ds)
       (empty_policy\<lparr>pt_updated := Some now,
          pt_integrations := filter (\<lambda>k. k \<noteq> S ''custom'') (map fst (enabled_entries (policy_entries a cl b g p n ds))),
          pt_repositories := repository_rows 0 (write_repositories g),
          pt_github_settings := (if require_dot_github_approval g then Some True else None),
          pt_claude_settings := (if web_search cl then Some True else None)\<rparr>)"

lemma jget_enabled:
  "distinct (map fst xs) \<Longrightarrow>
   jget (enabled_entries xs) k =
     (case map_of xs k of Some c \<Rightarrow> if config_enabled c then config_to_json c else JNull | None \<Rightarrow> JNull)"
proof (induction xs)
  case (Cons x xs)
  have "k \<notin> fst ` set xs \<Longrightarrow> map_of xs k = None" by (simp add: map_of_eq_None_iff)
  with Cons show ?case
    by (auto simp: enabled_entries_def jget_def case_prod_beta split: option.splits if_splits)
qed (simp add: enabled_entries_def jget_def)

lemma enabled_keys:
  "set (map fst (enabled_entries xs)) \<subseteq> set (map fst xs)"
  "distinct (map fst xs) \<Longrightarrow> distinct (map fst (enabled_entries xs))"
proof -
  have "map fst (enabled_entries xs) = map fst (filter (\<lambda>x. config_enabled (snd x)) xs)"
    by (induction xs) (auto simp: enabled_entries_def)
  then show "set (map fst (enabled_entries xs)) \<subseteq> set (map fst xs)"
    and "distinct (map fst xs) \<Longrightarrow> distinct (map fst (enabled_entries xs))"
    by (auto simp: distinct_map_filter)
qed

lemma enabled_values: "(k, v) \<in> set (enabled_entries xs) \<Longrightarrow> \<exists>c. (k, c) \<in> set xs \<and> config_enabled c \<and> v = config_to_json c"
  by (auto simp: enabled_entries_def)

lemma policy_idents: "distinct (map fst (policy_entries a cl b g p n ds))"
  "set (map fst (policy_entries a cl b g p n ds)) = insert (S ''custom'') (set managed_names)"
  by (auto simp: policy_entries_def managed_names_def)

lemma valid_saved_domains: "valid_domains re_ok ds \<Longrightarrow> valid_domains re_ok (saved_domains ds)"
  by (simp add: valid_domains_def saved_domains_def distinct_map distinct_sort)

lemma save_policy_wp:
  assumes valid: "valid_policy re_ok cl g ds"
    and names: "\<forall>r \<in> set (write_repositories g). \<not> endswith (gr_repo r) (S ''.git'')"
    and post: "Q () (saved_policy now a cl b g p n ds)"
  shows "wp (save_network_policy (controls_to_json \<lparr>integrations = policy_entries a cl b g p n ds\<rparr>) now) Q t"
proof -
  let ?xs = "policy_entries a cl b g p n ds" and ?es = "enabled_entries (policy_entries a cl b g p n ds)"
  define t1 where "t1 = empty_policy\<lparr>pt_updated := Some now,
      pt_integrations := filter (\<lambda>k. k \<noteq> S ''custom'') (map fst ?es)\<rparr>"
  define t2 where "t2 = t1\<lparr>pt_repositories := repository_rows 0 (write_repositories g),
      pt_github_settings := (if require_dot_github_approval g then Some True else None)\<rparr>"
  define t3 where "t3 = t2\<lparr>pt_claude_settings := (if web_search cl then Some True else None)\<rparr>"
  have look: "jget ?es (S ''github'') = (if gh_enabled g then github_to_json g else JNull)"
      "jget ?es (S ''claude'') = (if cl_enabled cl then claude_to_json cl else JNull)"
      "jget ?es (S ''custom'') = (if ds = [] then JNull else custom_to_json \<lparr>domains = ds\<rparr>)"
    by (simp_all add: jget_enabled policy_idents) (simp_all add: policy_entries_def custom_enabled_def)
  have custom: "wp (save_custom (jget ?es (S ''custom''))) Q t3"
  proof -
    have "wp (each_txn save_domain (map (\<lambda>(d, r). (d, rule_to_json r)) (saved_domains ds))) Q t3"
      using valid post
      by (intro save_domains_wp [of re_ok])
         (auto simp: valid_policy_def valid_saved_domains rows_known_def t1_def t2_def t3_def empty_policy_def saved_policy_def)
    moreover have "saved_domains ds = [] \<longleftrightarrow> ds = []" by (metis saved_domains_def length_0_conv length_sort)
    ultimately show ?thesis
      by (auto simp: look save_custom_def custom_to_json_def dict_or_empty_def py_true_def wp_simps jget_Cons
          saved_domains_def)
  qed
  have claude: "wp (save_claude (jget ?es (S ''claude''))) (\<lambda>_. wp (save_custom (jget ?es (S ''custom''))) Q) t2"
    using custom valid
    by (auto simp: look save_claude_def claude_to_json_def jget_Cons wp_simps t3_def t2_def t1_def empty_policy_def
        valid_policy_def)
  have github: "wp (save_github (jget ?es (S ''github'')))
      (\<lambda>_. wp (save_claude (jget ?es (S ''claude''))) (\<lambda>_. wp (save_custom (jget ?es (S ''custom''))) Q)) t1"
  proof (cases "gh_enabled g")
    case True
    with claude valid names show ?thesis
      by (auto simp: look valid_policy_def t1_def t2_def empty_policy_def intro!: save_github_wp)
  next
    case False
    with valid have "t2 = t1"
      by (simp add: valid_policy_def valid_github_def t2_def t1_def empty_policy_def repository_rows_def)
    with False claude show ?thesis by (simp add: look save_github_def wp_simps)
  qed
  have "wp (save_integrations ?es) (\<lambda>_. wp (save_github (jget ?es (S ''github'')))
      (\<lambda>_. wp (save_claude (jget ?es (S ''claude''))) (\<lambda>_. wp (save_custom (jget ?es (S ''custom''))) Q)))
      (empty_policy\<lparr>pt_updated := Some now\<rparr>)"
  proof (rule save_integrations_wp)
    show "distinct (map fst ?es)" "set (map fst ?es) \<subseteq> insert (S ''custom'') (set managed_names)"
      using enabled_keys [of ?xs] policy_idents by blast+
    show "\<forall>(k, v) \<in> set ?es. k \<noteq> S ''custom'' \<longrightarrow> (\<exists>kvs. v = JObj kvs \<and> jget kvs (S ''enabled'') = JBool True)"
      by (auto dest!: enabled_values simp: policy_entries_def managed_to_json_def claude_to_json_def bedrock_to_json_def
          github_to_json_def jget_def)
  qed (use github in \<open>simp_all add: t1_def empty_policy_def\<close>)
  moreover have "dict_or_empty (jget (controls_to_json \<lparr>integrations = ?xs\<rparr>) (S ''network_integrations'')) = ok ?es"
    by (simp add: controls_to_json_def jget_def dict_or_empty_def py_true_def enabled_entries_def)
  moreover have "wp (then_txn m k) Q = wp m (\<lambda>_. wp k Q)" for m k :: "unit policy_txn" and Q
    by (simp add: fun_eq_iff wp_simps)
  ultimately show ?thesis
    by (simp add: save_network_policy_def wp_bind wp_ok wp_modify delete_policy_def empty_policy_def)
qed


subsection \<open>What is read back\<close>

lemma add_methods_fold:
  "distinct (map fst rules) \<Longrightarrow> fst ` set rows \<subseteq> fst ` set rules \<Longrightarrow>
   fold add_method rows (Inr rules) =
     Inr (map (\<lambda>(d, ms, gs). (d, ms @ map (snd \<circ> snd) (filter (\<lambda>r. fst r = d) rows), gs)) rules)"
proof (induction rows arbitrary: rules)
  case Nil
  then show ?case by (simp add: map_idI case_prod_beta)
next
  case (Cons row rows)
  obtain d i m where row: "row = (d, i, m)" by (cases row)
  with Cons.prems obtain ms gs where entry: "map_of rules d = Some (ms, gs)"
    by (metis image_subset_iff list.set_intros(1) fst_conv map_of_eq_None_iff not_Some_eq prod.exhaust)
  let ?rules = "map (\<lambda>(k, x). (k, if k = d then (ms @ [m], gs) else x)) rules"
  have step: "add_method row (Inr rules) = Inr ?rules"
    using entry Cons.prems row by (simp add: add_method_def map_update)
  have keys: "map fst ?rules = map fst rules" by (simp add: comp_def case_prod_beta)
  have same: "x = (ms, gs)" if "(d, x) \<in> set rules" for x
    using that Cons.prems(1) entry by simp
  have "fold add_method rows (Inr ?rules) =
      Inr (map (\<lambda>(d, ms, gs). (d, ms @ map (snd \<circ> snd) (filter (\<lambda>r. fst r = d) rows), gs)) ?rules)"
  proof (rule Cons.IH)
    show "distinct (map fst ?rules)" using Cons.prems(1) by (simp only: keys)
    have "fst ` set ?rules = fst ` set rules" using keys by (metis image_set)
    with Cons.prems(2) show "fst ` set rows \<subseteq> fst ` set ?rules" by simp
  qed
  with step row same show ?case by (auto simp: case_prod_beta)
qed


lemma add_guards_fold:
  "distinct (map fst rules) \<Longrightarrow> fst ` set rows \<subseteq> fst ` set rules \<Longrightarrow>
   fold add_guard rows (Inr rules) =
     Inr (map (\<lambda>(d, ms, gs).
       (d, ms, if filter (\<lambda>r. fst r = d) rows = [] then gs
               else Some (case_option [] id gs @ map (snd \<circ> snd) (filter (\<lambda>r. fst r = d) rows)))) rules)"
proof (induction rows arbitrary: rules)
  case Nil
  then show ?case by (simp add: map_idI case_prod_beta)
next
  case (Cons row rows)
  obtain d i m where row: "row = (d, i, m)" by (cases row)
  with Cons.prems obtain ms gs where entry: "map_of rules d = Some (ms, gs)"
    by (metis image_subset_iff list.set_intros(1) fst_conv map_of_eq_None_iff not_Some_eq prod.exhaust)
  let ?rules = "map (\<lambda>(k, x). (k, if k = d then (ms, Some (case gs of None \<Rightarrow> [m] | Some ps \<Rightarrow> ps @ [m])) else x)) rules"
  have step: "add_guard row (Inr rules) = Inr ?rules"
    using entry Cons.prems row by (simp add: add_guard_def map_update)
  have keys: "map fst ?rules = map fst rules" by (simp add: comp_def case_prod_beta)
  have same: "x = (ms, gs)" if "(d, x) \<in> set rules" for x
    using that Cons.prems(1) entry by simp
  have "fold add_guard rows (Inr ?rules) =
      Inr (map (\<lambda>(d, ms, gs).
       (d, ms, if filter (\<lambda>r. fst r = d) rows = [] then gs
               else Some (case_option [] id gs @ map (snd \<circ> snd) (filter (\<lambda>r. fst r = d) rows)))) ?rules)"
  proof (rule Cons.IH)
    show "distinct (map fst ?rules)" using Cons.prems(1) by (simp only: keys)
    have "fst ` set ?rules = fst ` set rules" using keys by (metis image_set)
    with Cons.prems(2) show "fst ` set rows \<subseteq> fst ` set ?rules" by simp
  qed
  with step row show ?case by (auto simp: case_prod_beta dest!: same split: option.splits)
qed

lemma filter_position_rows: "filter (\<lambda>r. fst r = d) (position_rows d' n xs) = (if d' = d then position_rows d' n xs else [])"
  by (simp add: position_rows_def filter_map comp_def case_prod_beta)

lemma position_rows_values: "map (snd \<circ> snd) (position_rows d n xs) = xs"
  by (simp add: position_rows_def comp_def case_prod_beta flip: map_map) (simp add: comp_def case_prod_beta)

lemma position_rows_sorted: "sorted_wrt (by_domain le) (position_rows d n xs)"
proof (induction xs arbitrary: n)
  case (Cons x xs)
  have "by_domain le (d, int n, x) row" if "row \<in> set (position_rows d (Suc n) xs)" for row
    using that by (auto simp: position_rows_def by_domain_def in_set_enumerate_eq)
  with Cons show ?case by (simp add: position_rows_Cons)
qed (simp add: position_rows_def)

definition method_rows :: "(str \<times> custom_domain_rule) list \<Rightarrow> (str \<times> int \<times> str) list" where
  "method_rows ds = concat (map (\<lambda>(d, r). position_rows d 0 (allow_http_methods r)) ds)"

definition guard_rows :: "(str \<times> custom_domain_rule) list \<Rightarrow> (str \<times> int \<times> str) list" where
  "guard_rows ds = concat (map (\<lambda>(d, r). position_rows d 0 (path_guards r)) ds)"

lemma add_domains_rows:
  "add_domains ds t =
     t\<lparr>pt_domains := pt_domains t @ map fst ds, pt_methods := pt_methods t @ method_rows ds,
       pt_guards := pt_guards t @ guard_rows ds\<rparr>"
proof (induction ds arbitrary: t)
  case (Cons x ds)
  then show ?case
    by (cases x) (simp add: add_domains_def method_rows_def guard_rows_def add_domain_def)
qed (simp add: add_domains_def method_rows_def guard_rows_def)

lemma rows_of_domain:
  "distinct (map fst ds) \<Longrightarrow> map_of ds d = Some r \<Longrightarrow>
   filter (\<lambda>x. fst x = d) (concat (map (\<lambda>(d, r). position_rows d 0 (f r)) ds)) = position_rows d 0 (f r)"
proof (induction ds)
  case (Cons x ds)
  have "filter (\<lambda>x. fst x = d) (concat (map (\<lambda>(d, r). position_rows d 0 (f r)) ds)) = []" if "d \<notin> fst ` set ds"
    using that by (induction ds) (auto simp: filter_position_rows)
  with Cons show ?case by (cases x) (auto simp: filter_position_rows)
qed simp

text \<open>The domains in the order they are read in.\<close>

definition read_domains :: "(str \<Rightarrow> str \<Rightarrow> bool) \<Rightarrow> (str \<times> custom_domain_rule) list \<Rightarrow> (str \<times> custom_domain_rule) list" where
  "read_domains le ds = map (\<lambda>d. (d, the (map_of ds d))) (order_by le (map fst ds))"

lemma read_domains_mset: "distinct (map fst ds) \<Longrightarrow> mset (read_domains le ds) = mset ds"
proof -
  assume d: "distinct (map fst ds)"
  have "mset (read_domains le ds) = image_mset (\<lambda>d. (d, the (map_of ds d))) (mset (map fst ds))"
    by (simp only: read_domains_def mset_map mset_order_by)
  also have "\<dots> = mset (map (\<lambda>x. (fst x, the (map_of ds (fst x)))) ds)"
    by (simp add: image_mset.compositionality comp_def)
  also have "map (\<lambda>x. (fst x, the (map_of ds (fst x)))) ds = ds"
    using d by (intro map_idI) auto
  finally show ?thesis .
qed


lemma assembled:
  assumes le: "collation le" and d: "distinct (map fst ds)"
    and t: "pt_domains t = map fst ds" "pt_methods t = method_rows ds" "pt_guards t = guard_rows ds"
  shows "assemble_domains le t = Inr (map (\<lambda>(d, r). (d, rule_entry r)) (read_domains le ds))"
proof -
  let ?names = "order_by le (map fst ds)"
  let ?start = "map (\<lambda>d. (d, [] :: str list, None :: str list option)) ?names"
  have sorted: "filter P (order_by (by_domain le) rows) = order_by (by_domain le) (filter P rows)" for P rows
    by (intro filter_order_by by_domain_order le)
  have rows: "map (snd \<circ> snd) (filter (\<lambda>r. fst r = k) (order_by (by_domain le) (concat (map (\<lambda>(d, r). position_rows d 0 (f r)) ds))))
      = f r" if "map_of ds k = Some r" for k r and f :: "custom_domain_rule \<Rightarrow> str list"
    unfolding sorted rows_of_domain [OF d that] order_by_sorted [OF position_rows_sorted] position_rows_values ..
  have names: "set ?names = fst ` set ds" by (simp add: order_by_rows)
  have distinct: "distinct (map fst ?start)"
  proof -
    have "mset ?names = mset (map fst ds)" by simp
    with d have "distinct ?names" using mset_eq_imp_distinct_iff by blast
    then show ?thesis by (simp add: comp_def)
  qed
  have known: "fst ` set (order_by (by_domain le) (method_rows ds)) \<subseteq> fst ` set ?start"
      "fst ` set (order_by (by_domain le) (guard_rows ds)) \<subseteq> fst ` set ?start"
    by (auto simp: order_by_rows names method_rows_def guard_rows_def position_rows_def image_iff Bex_def)
  let ?m = "\<lambda>k. map (snd \<circ> snd) (filter (\<lambda>r. fst r = k) (order_by (by_domain le) (method_rows ds)))"
  let ?g = "\<lambda>k. map (snd \<circ> snd) (filter (\<lambda>r. fst r = k) (order_by (by_domain le) (guard_rows ds)))"
  have "fold add_method (order_by (by_domain le) (method_rows ds)) (Inr ?start) =
      Inr (map (\<lambda>d. (d, ?m d, None)) ?names)"
    using add_methods_fold [OF distinct known(1)] by (simp add: comp_def)
  moreover have "fold add_guard (order_by (by_domain le) (guard_rows ds)) (Inr (map (\<lambda>d. (d, ?m d, None)) ?names)) =
      Inr (map (\<lambda>d. (d, ?m d, if ?g d = [] then None else Some (?g d))) ?names)"
    using add_guards_fold [of "map (\<lambda>d. (d, ?m d, None)) ?names"] distinct known(2) by (simp add: comp_def image_image)
  moreover have "map (\<lambda>d. (d, ?m d, if ?g d = [] then None else Some (?g d))) ?names =
      map (\<lambda>(d, r). (d, rule_entry r)) (read_domains le ds)"
  proof -
    have "(?m k, if ?g k = [] then None else Some (?g k)) = rule_entry (the (map_of ds k))" if k: "k \<in> set ?names" for k
    proof -
      from k names obtain r where r: "map_of ds k = Some r"
        by (metis map_of_eq_None_iff not_None_eq)
      from rows [OF r, of allow_http_methods] rows [OF r, of path_guards]
      show ?thesis by (simp add: rule_entry_def r method_rows_def guard_rows_def)
    qed
    then show ?thesis by (simp add: read_domains_def)
  qed
  ultimately show ?thesis by (simp add: assemble_domains_def t)
qed


lemma set_item_lookup:
  "map_of (set_item es name key v) k =
     (if k = name then (case map_of es name of Some (JObj kvs) \<Rightarrow> Some (JObj (AList.update key v kvs)) | x \<Rightarrow> x)
      else map_of es k)"
  by (auto simp: set_item_def split: option.splits json.splits)

lemma set_item_keys: "fst ` set (set_item es name key v) = fst ` set es"
proof (cases "map_of es name")
  case (Some x)
  then have "name \<in> fst ` set es" by (force dest: map_of_SomeD)
  with Some show ?thesis by (auto simp: set_item_def dom_update split: json.splits)
qed (simp add: set_item_def)

lemma repositories_read:
  "map (\<lambda>(_, owner, repo). JObj [(S ''owner'', JStr owner), (S ''repo'', JStr repo)]) (sort_key fst (repository_rows n rs))
   = map repository_to_json rs"
proof -
  have above: "\<forall>x \<in> set (repository_rows m rs). int m \<le> fst x" for m
    by (auto simp: repository_rows_def in_set_enumerate_eq)
  have "sorted (map fst (repository_rows n rs))"
  proof (induction rs arbitrary: n)
    case (Cons r rs)
    have "\<forall>x \<in> set (repository_rows (Suc n) rs). int n \<le> fst x"
      by (auto simp: repository_rows_def in_set_enumerate_eq)
    with Cons [of "Suc n"] show ?case by (simp add: repository_rows_def)
  qed (simp add: repository_rows_def)
  then have "sort_key fst (repository_rows n rs) = repository_rows n rs"
    by (rule sort_key_id_if_sorted)
  moreover have "map (\<lambda>(_, owner, repo). JObj [(S ''owner'', JStr owner), (S ''repo'', JStr repo)]) (repository_rows n rs)
      = map repository_to_json rs"
    by (induction rs arbitrary: n) (auto simp: repository_rows_def repository_to_json_def)
  ultimately show ?thesis by simp
qed

lemma enabled_names:
  "k \<in> set (filter (\<lambda>k. k \<noteq> S ''custom'') (map fst (enabled_entries (policy_entries a cl b g p n ds)))) \<longleftrightarrow>
     (k = S ''openai'' \<and> mi_enabled a) \<or> (k = S ''claude'' \<and> cl_enabled cl) \<or> (k = S ''bedrock'' \<and> br_enabled b)
     \<or> (k = S ''github'' \<and> gh_enabled g) \<or> (k = S ''python_packages'' \<and> mi_enabled p)
     \<or> (k = S ''npm_packages'' \<and> mi_enabled n)"
  by (auto simp: enabled_entries_def policy_entries_def)


lemma map_of_names: "map_of (map (\<lambda>i. (i, v)) names) k = (if k \<in> set names then Some v else None)"
  by (induction names) auto

text \<open>The policy the readers assemble from the rows of a saved policy.\<close>

definition stored_entries ::
  "managed_integration \<Rightarrow> claude_integration \<Rightarrow> bedrock_integration \<Rightarrow> github_integration \<Rightarrow>
   managed_integration \<Rightarrow> managed_integration \<Rightarrow> (str \<times> custom_domain_rule) list \<Rightarrow> str \<Rightarrow> json" where
  "stored_entries a cl b g p n ds k =
     (if k = S ''openai'' \<and> mi_enabled a then managed_to_json a
      else if k = S ''claude'' \<and> cl_enabled cl then claude_to_json cl
      else if k = S ''bedrock'' \<and> br_enabled b then bedrock_to_json b
      else if k = S ''github'' \<and> gh_enabled g then github_to_json g
      else if k = S ''python_packages'' \<and> mi_enabled p then managed_to_json p
      else if k = S ''npm_packages'' \<and> mi_enabled n then managed_to_json n
      else if k = S ''custom'' \<and> ds \<noteq> []
      then JObj [(S ''domains'', JObj (map (\<lambda>(d, r). (d, rule_json (rule_entry r))) ds))]
      else JNull)"

lemma stored_record:
  assumes le: "collation le" and valid: "valid_policy re_ok cl g ds"
  obtains es where "network_policy_record le (saved_policy now a cl b g p n ds) =
      Inr (Some ([(S ''network_integrations'', JObj es)], now))"
    "\<And>k. jget es k = stored_entries a cl b g p n (read_domains le (saved_domains ds)) k"
    "fst ` set es \<subseteq> insert (S ''custom'') (set managed_names)"
proof -
  let ?t = "saved_policy now a cl b g p n ds" and ?ds = "read_domains le (saved_domains ds)"
  let ?I = "filter (\<lambda>k. k \<noteq> S ''custom'') (map fst (enabled_entries (policy_entries a cl b g p n ds)))"
  have fields: "pt_updated ?t = Some now" "pt_integrations ?t = ?I" "pt_repositories ?t = repository_rows 0 (write_repositories g)"
      "pt_github_settings ?t = (if require_dot_github_approval g then Some True else None)"
      "pt_claude_settings ?t = (if web_search cl then Some True else None)"
      "pt_domains ?t = map fst (saved_domains ds)" "pt_methods ?t = method_rows (saved_domains ds)"
      "pt_guards ?t = guard_rows (saved_domains ds)"
    by (simp_all add: saved_policy_def add_domains_rows empty_policy_def)
  have assembled: "assemble_domains le ?t = Inr (map (\<lambda>(d, r). (d, rule_entry r)) ?ds)"
    using valid fields valid_saved_domains
    by (intro assembled le) (auto simp: valid_policy_def valid_domains_def)
  define base where "base = map (\<lambda>i. (i, JObj [(S ''enabled'', JBool True)])) ?I"
  define e1 where "e1 = (if write_repositories g \<noteq> [] \<and> has_key base (S ''github'')
      then set_item base (S ''github'') (S ''write_repositories'') (JList (map repository_to_json (write_repositories g))) else base)"
  define e2 where "e2 = (if require_dot_github_approval g \<and> has_key e1 (S ''github'')
      then set_item e1 (S ''github'') (S ''require_dot_github_approval'') (JBool True) else e1)"
  define e3 where "e3 = (if web_search cl \<and> has_key e2 (S ''claude'')
      then set_item e2 (S ''claude'') (S ''web_search'') (JBool True) else e2)"
  define e4 where "e4 = (if ?ds \<noteq> []
      then AList.update (S ''custom'') (JObj [(S ''domains'', JObj (map (\<lambda>(d, r). (d, rule_json r)) (map (\<lambda>(d, r). (d, rule_entry r)) ?ds)))]) e3
      else e3)"
  have "network_policy_record le ?t = Inr (Some ([(S ''network_integrations'', JObj e4)], now))"
    unfolding network_policy_record_def fields assembled repositories_read e4_def e3_def e2_def e1_def base_def
    by (simp add: Let_def del: filter.simps map_map)
  moreover have "jget e4 k = stored_entries a cl b g p n ?ds k" for k
  proof -
    have base: "map_of base k =
        (if (k = S ''openai'' \<and> mi_enabled a) \<or> (k = S ''claude'' \<and> cl_enabled cl) \<or> (k = S ''bedrock'' \<and> br_enabled b)
            \<or> (k = S ''github'' \<and> gh_enabled g) \<or> (k = S ''python_packages'' \<and> mi_enabled p)
            \<or> (k = S ''npm_packages'' \<and> mi_enabled n)
         then Some (JObj [(S ''enabled'', JBool True)]) else None)" for k
      unfolding base_def map_of_names enabled_names ..
    have e2: "map_of e2 k = (if k = S ''github'' \<and> gh_enabled g then Some (github_to_json g) else map_of base k)" for k
    proof -
      have off: "\<not> gh_enabled g \<Longrightarrow> write_repositories g = [] \<and> \<not> require_dot_github_approval g"
        using valid by (simp add: valid_policy_def valid_github_def)
      have on: "has_key base (S ''github'') = gh_enabled g" "map_of base (S ''github'') =
          (if gh_enabled g then Some (JObj [(S ''enabled'', JBool True)]) else None)"
        by (simp_all add: has_key_def base)
      have e1: "map_of e1 k = (if k = S ''github'' \<and> gh_enabled g then Some (JObj ([(S ''enabled'', JBool True)] @
          (if write_repositories g \<noteq> [] then [(S ''write_repositories'', JList (map repository_to_json (write_repositories g)))] else [])))
          else map_of base k)" for k
        unfolding e1_def by (simp add: set_item_lookup on)
      show ?thesis
        using off unfolding e2_def by (simp add: set_item_lookup has_key_def e1 on github_to_json_def)
    qed
    have e3: "map_of e3 k = (if k = S ''claude'' \<and> cl_enabled cl then Some (claude_to_json cl) else map_of e2 k)" for k
    proof -
      have "map_of e2 (S ''claude'') = (if cl_enabled cl then Some (JObj [(S ''enabled'', JBool True)]) else None)"
        by (simp add: e2 base)
      with valid show ?thesis
        unfolding e3_def by (simp add: set_item_lookup has_key_def claude_to_json_def valid_policy_def)
    qed
    have e4: "map_of e4 k = (if k = S ''custom'' \<and> ?ds \<noteq> []
        then Some (JObj [(S ''domains'', JObj (map (\<lambda>(d, r). (d, rule_json (rule_entry r))) ?ds))]) else map_of e3 k)" for k
      by (simp add: e4_def comp_def case_prod_beta)
    consider "k = S ''openai''" | "k = S ''claude''" | "k = S ''bedrock''" | "k = S ''github''"
      | "k = S ''python_packages''" | "k = S ''npm_packages''" | "k = S ''custom''"
      | "k \<noteq> S ''openai''" "k \<noteq> S ''claude''" "k \<noteq> S ''bedrock''" "k \<noteq> S ''github''"
        "k \<noteq> S ''python_packages''" "k \<noteq> S ''npm_packages''" "k \<noteq> S ''custom''"
      by blast
    then show ?thesis
      by cases (simp_all add: jget_def e4 e3 e2 base stored_entries_def managed_to_json_def bedrock_to_json_def)
  qed
  moreover have "fst ` set e4 \<subseteq> insert (S ''custom'') (set managed_names)"
  proof -
    have "fst ` set base \<subseteq> set managed_names"
      using enabled_keys(1) [of "policy_entries a cl b g p n ds"] policy_idents(2) unfolding base_def by fastforce
    moreover have "fst ` set e3 = fst ` set base"
      by (simp add: e3_def e2_def e1_def set_item_keys)
    ultimately show ?thesis by (auto simp: e4_def dom_update)
  qed
  ultimately show ?thesis using that by blast
qed


lemma reject_managed_iff: "reject_managed_domains ds = Inr () \<longleftrightarrow> (\<forall>d \<in> set ds. managed_domain_owner d = None)"
  by (induction ds) (auto split: option.splits)

lemma valid_policy_mset:
  assumes "valid_policy re_ok cl g ds" "mset ds' = mset ds"
  shows "valid_policy re_ok cl g ds'"
proof -
  have keys: "mset (map fst ds') = mset (map fst ds)" "set ds' = set ds"
    using assms(2) by (simp, metis set_mset_mset)
  then have "distinct (map fst ds') = distinct (map fst ds)" "set (map fst ds') = set (map fst ds)"
    using mset_eq_imp_distinct_iff by (blast, simp)
  moreover have "sort (filter P (map fst ds')) = sort (filter P (map fst ds))" for P
    using keys(1) by (metis mset_filter sorted_list_of_multiset_mset)
  ultimately show ?thesis
    using assms(1) keys(2) by (auto simp: valid_policy_def valid_domains_def reject_overlapping_wildcards_def reject_managed_iff)
qed

lemma reject_extra_none:
  assumes "fst ` set raw \<subseteq> set allowed"
  shows "reject_extra raw allowed ctx = Inr ()"
proof -
  have "filter (\<lambda>k. k \<notin> set allowed) (map fst raw) = []" using assms by (auto simp: filter_empty_conv)
  then show ?thesis by (simp add: reject_extra_def extra_fields_def)
qed

lemma disabled_configs:
  "\<not> mi_enabled m \<Longrightarrow> parse_simple_integration [] ctx = Inr m"
  "\<not> br_enabled b \<Longrightarrow> bedrock_parse [] = Inr b"
  "\<not> cl_enabled cl \<Longrightarrow> \<not> web_search cl \<Longrightarrow> claude_parse [] = Inr cl"
  "\<not> gh_enabled g \<Longrightarrow> write_repositories g = [] \<Longrightarrow> \<not> require_dot_github_approval g \<Longrightarrow> github_parse [] = Inr g"
     apply (cases m, simp add: parse_simple_integration_def)
    apply (cases b, simp add: bedrock_parse_def)
   apply (cases cl, simp add: claude_parse_def)
  apply (cases g, simp add: github_parse_def)
  done

lemma optional_object_get: "jget es k = JObj kvs \<Longrightarrow> optional_object es k = Inr kvs"
  "jget es k = JNull \<Longrightarrow> optional_object es k = Inr []"
  by (simp_all add: optional_object_def)

lemma registered_parses:
  "registered_parse re_ok (S ''openai'') = (\<lambda>v. map_sum id OpenAIConfig (openai_parse v))"
  "registered_parse re_ok (S ''claude'') = (\<lambda>v. map_sum id ClaudeConfig (claude_parse v))"
  "registered_parse re_ok (S ''bedrock'') = (\<lambda>v. map_sum id BedrockConfig (bedrock_parse v))"
  "registered_parse re_ok (S ''github'') = (\<lambda>v. map_sum id GitHubConfig (github_parse v))"
  "registered_parse re_ok (S ''python_packages'') = (\<lambda>v. map_sum id PythonConfig (python_parse v))"
  "registered_parse re_ok (S ''npm_packages'') = (\<lambda>v. map_sum id NpmConfig (npm_parse v))"
  "registered_parse re_ok (S ''custom'') = (\<lambda>v. map_sum id CustomConfig (custom_parse re_ok v))"
  by (simp_all add: registered_parse_def fun_eq_iff)

lemma custom_parse_again:
  assumes "valid_policy re_ok cl g ds"
  shows "custom_parse re_ok [(S ''domains'', JObj (map (\<lambda>(d, r). (d, rule_json (rule_entry r))) ds))] = Inr \<lparr>domains = ds\<rparr>"
    "ds = [] \<Longrightarrow> custom_parse re_ok [] = Inr \<lparr>domains = ds\<rparr>"
  using assms parse_domains_again [of re_ok "[]" ds]
  by (simp_all add: custom_parse_def reject_extra_none jget_Cons valid_policy_def)

lemma parse_stored:
  assumes valid: "valid_policy re_ok cl g ds"
    and names: "\<forall>r \<in> set (write_repositories g). \<not> endswith (gr_repo r) (S ''.git'')"
    and es: "\<And>k. jget es k = stored_entries a cl b g p n ds k"
      "fst ` set es \<subseteq> insert (S ''custom'') (set managed_names)"
  shows "parse_network_controls re_ok [(S ''network_integrations'', JObj es)] =
      Inr \<lparr>integrations = policy_entries a cl b g p n ds\<rparr>"
proof -
  have extra: "reject_extra es (map integration_id NETWORK_INTEGRATIONS) ctx = Inr ()" for ctx
    using es(2) by (intro reject_extra_none) (auto simp: manifest_ids managed_names_def)
  have lone: "valid_github g" "web_search cl \<longrightarrow> cl_enabled cl" using valid by (auto simp: valid_policy_def)
  obtain v where v: "github_to_json g = JObj v" by (simp add: github_to_json_def)
  obtain w where w: "claude_to_json cl = JObj w" by (simp add: claude_to_json_def)
  note stored = es stored_entries_def
  have openai: "\<exists>v. optional_object es (S ''openai'') = Inr v \<and> openai_parse v = Inr a"
    using simple_parse_again(1) [of a] disabled_configs(1) [of a]
    by (cases "mi_enabled a") (auto simp: optional_object_def stored openai_parse_def managed_to_json_def)
  have claude: "\<exists>v. optional_object es (S ''claude'') = Inr v \<and> claude_parse v = Inr cl"
    using simple_parse_again(3) [of cl w] disabled_configs(3) [of cl] lone(2) w
    by (cases "cl_enabled cl") (auto simp: optional_object_def stored)
  have bedrock: "\<exists>v. optional_object es (S ''bedrock'') = Inr v \<and> bedrock_parse v = Inr b"
    using simple_parse_again(2) [of b] disabled_configs(2) [of b]
    by (cases "br_enabled b") (auto simp: optional_object_def stored bedrock_to_json_def)
  have github: "\<exists>v. optional_object es (S ''github'') = Inr v \<and> github_parse v = Inr g"
    using github_parse_again [OF lone(1) names _ v] disabled_configs(4) [of g] lone(1) v
    by (cases "gh_enabled g") (auto simp: optional_object_def stored valid_github_def)
  have python: "\<exists>v. optional_object es (S ''python_packages'') = Inr v \<and> python_parse v = Inr p"
    using simple_parse_again(1) [of p] disabled_configs(1) [of p]
    by (cases "mi_enabled p") (auto simp: optional_object_def stored python_parse_def managed_to_json_def)
  have npm: "\<exists>v. optional_object es (S ''npm_packages'') = Inr v \<and> npm_parse v = Inr n"
    using simple_parse_again(1) [of n] disabled_configs(1) [of n]
    by (cases "mi_enabled n") (auto simp: optional_object_def stored npm_parse_def managed_to_json_def)
  have custom: "\<exists>v. optional_object es (S ''custom'') = Inr v \<and> custom_parse re_ok v = Inr \<lparr>domains = ds\<rparr>"
    using custom_parse_again [OF valid] by (cases "ds = []") (auto simp: optional_object_def stored)
  have configs: "parse_integrations re_ok es NETWORK_INTEGRATIONS = Inr (policy_entries a cl b g p n ds)"
    using openai claude bedrock github python npm custom
    by (auto simp: manifest_ids registered_parses policy_entries_def)
  have "reject_managed_domains (map fst (custom_domains (policy_entries a cl b g p n ds))) = Inr ()"
    using valid by (simp add: custom_domains_def policy_entries_def valid_policy_def)
  with configs extra show ?thesis
    by (simp add: parse_network_controls_def reject_extra_none optional_object_def jget_Cons)
qed


subsection \<open>No decision depends on the order of the domains\<close>

lemma longest_spec: "longest w ws \<in> set (w # ws) \<and> (\<forall>x \<in> set (w # ws). length x \<le> length (longest w ws))"
proof (induction ws arbitrary: w)
  case (Cons x ws)
  show ?case
  proof (cases "length w < length x")
    case True
    with Cons [of x] show ?thesis by (auto intro: order_trans [OF less_imp_le])
  next
    case False
    with Cons [of w] show ?thesis by (auto intro: order_trans [of "length x" "length w"])
  qed
qed simp

lemma wildcards_agree:
  assumes "startswith d (S ''*.'')" "startswith d' (S ''*.'')" "endswith h (tl d)" "endswith h (tl d')"
    "length d = length d'"
  shows "d = d'"
proof -
  from assms(1,2) obtain u v where "d = S ''*.'' @ u" "d' = S ''*.'' @ v" by (auto simp: startswith_iff)
  with assms(3-5) show ?thesis by (auto simp: endswith_iff S_def)
qed

lemma rule_for_host_mset:
  assumes "distinct (map fst ds)" "mset ds' = mset ds"
  shows "rule_for_host \<lparr>domains = ds'\<rparr> h = rule_for_host \<lparr>domains = ds\<rparr> h"
proof -
  have keys: "mset (map fst ds') = mset (map fst ds)" "set ds' = set ds"
    using assms(2) by (simp, metis set_mset_mset)
  have "distinct (map fst ds')" using assms(1) keys(1) mset_eq_imp_distinct_iff by blast
  then have look: "map_of ds' = map_of ds"
    using assms(1) keys(2) map_of_inject_set by blast
  let ?c = "\<lambda>ds. filter (\<lambda>d. domain_matches d (lower h)) (map fst ds)"
  have cands: "set (?c ds') = set (?c ds)" using keys(2) by simp
  show ?thesis
  proof (cases "map_of ds (lower h)")
    case None
    have wild: "startswith d (S ''*.'') \<and> endswith (lower h) (tl d)" if "d \<in> set (?c ds)" for d
      using that None by (auto simp: domain_matches_def map_of_eq_None_iff image_iff split: if_splits)
    have "longest w' ws' = longest w ws" if "?c ds' = w' # ws'" "?c ds = w # ws" for w w' ws ws'
    proof (rule wildcards_agree)
      have "set (w' # ws') = set (w # ws)" using cands that by simp
      with longest_spec [of w' ws'] longest_spec [of w ws]
      show "length (longest w' ws') = length (longest w ws)" by (metis order_antisym)
      have "longest w' ws' \<in> set (?c ds)" "longest w ws \<in> set (?c ds)"
        using longest_spec [of w' ws'] longest_spec [of w ws] cands that by metis+
      with wild show "startswith (longest w' ws') (S ''*.'')" "startswith (longest w ws) (S ''*.'')"
        "endswith (lower h) (tl (longest w' ws'))" "endswith (lower h) (tl (longest w ws))" by blast+
    qed
    moreover have "?c ds' = [] \<longleftrightarrow> ?c ds = []" using cands by (metis set_empty)
    ultimately have "(case ?c ds' of [] \<Rightarrow> None | w # ws \<Rightarrow> map_of ds (longest w ws)) =
        (case ?c ds of [] \<Rightarrow> None | w # ws \<Rightarrow> map_of ds (longest w ws))"
      by (auto split: list.split)
    then show ?thesis by (simp add: rule_for_host_def look None cong: list.case_cong)
  qed (simp add: rule_for_host_def look)
qed

lemma decisions_mset:
  assumes "distinct (map fst ds)" "mset ds' = mset ds"
  shows "request_denied E \<lparr>integrations = policy_entries a cl b g p n ds'\<rparr> method host path query headers body =
    request_denied E \<lparr>integrations = policy_entries a cl b g p n ds\<rparr> method host path query headers body"
proof -
  have empty: "ds' = [] \<longleftrightarrow> ds = []" using assms(2) by auto
  have rules: "rule_for_host \<lparr>domains = ds'\<rparr> = rule_for_host \<lparr>domains = ds\<rparr>"
    using rule_for_host_mset [OF assms] by auto
  show ?thesis
  proof (cases "owner_of_host host = S ''custom''")
    case True
    then show ?thesis
      by (simp add: request_denied_def selection_def GUARDS_def policy_entries_def custom_guard_def plain_guard_def
          custom_enabled_def empty custom_request_denied_def rules)
  next
    case False
    then have "map_of (policy_entries a cl b g p n ds') (owner_of_host host) =
        map_of (policy_entries a cl b g p n ds) (owner_of_host host)"
      by (simp add: policy_entries_def)
    then show ?thesis by (simp add: request_denied_def selection_def)
  qed
qed

subsection \<open>A saved policy names no repository the schema refuses\<close>

lemma saved_repositories_named:
  "each_txn insert_repository_item (enumerate n (map repository_to_json rs)) t = Inr (u, t') \<Longrightarrow>
   r \<in> set rs \<Longrightarrow> \<not> endswith (gr_repo r) (S ''.git'')"
proof (induction rs arbitrary: n t)
  case (Cons q rs)
  from Cons.prems(1) obtain t1 where "insert_repository_item (n, repository_to_json q) t = Inr ((), t1)"
      "each_txn insert_repository_item (enumerate (Suc n) (map repository_to_json rs)) t1 = Inr (u, t')"
    by (auto simp: txn_simps)
  moreover from this(1) have "\<not> endswith (gr_repo q) (S ''.git'')"
    using insert_repository_wp [of n q "\<lambda>_ _. True" t] by (simp add: wp_def)
  ultimately show ?case using Cons.IH Cons.prems(2) by auto
qed simp

lemma saved_names:
  assumes "save_network_policy (controls_to_json \<lparr>integrations = policy_entries a cl b g p n ds\<rparr>) now t = Inr (u, t')"
    "valid_github g" "r \<in> set (write_repositories g)"
  shows "\<not> endswith (gr_repo r) (S ''.git'')"
proof -
  let ?es = "enabled_entries (policy_entries a cl b g p n ds)"
  have "dict_or_empty (jget (controls_to_json \<lparr>integrations = policy_entries a cl b g p n ds\<rparr>) (S ''network_integrations'')) = ok ?es"
    by (simp add: controls_to_json_def jget_def dict_or_empty_def py_true_def enabled_entries_def)
  with assms(1) obtain t1 t2 where "save_github (jget ?es (S ''github'')) t1 = Inr ((), t2)"
    by (auto simp: save_network_policy_def txn_simps)
  moreover have "jget ?es (S ''github'') = github_to_json g"
    unfolding jget_enabled [OF policy_idents(1)] using assms(2,3)
    by (cases "gh_enabled g") (auto simp: policy_entries_def valid_github_def)
  ultimately show ?thesis
    using assms(3) saved_repositories_named [of 0 "write_repositories g"]
    by (auto simp: save_github_steps then_txn_Inr)
qed


subsection \<open>Properties\<close>

definition double_git_body :: "(str \<times> json) list" where
  "double_git_body =
     [(S ''network_integrations'', JObj
        [(S ''github'', JObj [(S ''enabled'', JBool True),
            (S ''write_repositories'', JList [JObj [(S ''owner'', JStr (S ''acme'')), (S ''repo'', JStr (S ''tools.git.git''))]])])])]"

text \<open>
  C2. Once a replacement of the network policy has succeeded, the policy that every reader loads
  from the tables validates, and it decides every request exactly as the policy the operator
  submitted.
\<close>

theorem published_policy_enforced:
  assumes le: "collation le"
    and replaced: "replace_network_policy re_ok (JObj body) now t = Inr (response, t')"
  shows "\<exists>submitted stored enforced. parse_network_controls re_ok body = Inr submitted
     \<and> load_policy le t' = Inr stored \<and> parse_network_controls re_ok stored = Inr enforced
     \<and> network_status le re_ok t' = S ''active''
     \<and> (\<forall>E method host path query headers data.
          request_denied E enforced method host path query headers data =
          request_denied E submitted method host path query headers data)"
proof -
  from replaced obtain nc where nc: "parse_network_controls re_ok body = Inr nc"
      and saved: "save_network_policy (controls_to_json nc) now t = Inr ((), t')"
    by (auto simp: replace_network_policy_def txn_simps split: sum.splits)
  obtain a cl b g p n ds where shape: "nc = \<lparr>integrations = policy_entries a cl b g p n ds\<rparr>"
      and valid: "valid_policy re_ok cl g ds"
    using parsed_shape [OF nc] by blast
  have names: "\<forall>r \<in> set (write_repositories g). \<not> endswith (gr_repo r) (S ''.git'')"
    using saved_names saved valid shape by (auto simp: valid_policy_def)
  have t': "t' = saved_policy now a cl b g p n ds"
    using save_policy_wp [OF valid names, of "\<lambda>_ s. s = saved_policy now a cl b g p n ds" now a b p n t] saved shape
    by (simp add: wp_def)
  let ?ds = "read_domains le (saved_domains ds)"
  have order: "mset ?ds = mset ds"
    using valid valid_saved_domains [of re_ok ds] read_domains_mset [of "saved_domains ds" le]
    by (simp add: valid_policy_def valid_domains_def saved_domains_def)
  obtain es where es: "network_policy_record le t' = Inr (Some ([(S ''network_integrations'', JObj es)], now))"
      "\<And>k. jget es k = stored_entries a cl b g p n ?ds k" "fst ` set es \<subseteq> insert (S ''custom'') (set managed_names)"
    using stored_record [OF le valid] t' by metis
  have enforced: "parse_network_controls re_ok [(S ''network_integrations'', JObj es)] =
      Inr \<lparr>integrations = policy_entries a cl b g p n ?ds\<rparr>"
    by (rule parse_stored [OF valid_policy_mset [OF valid order] names es(2,3)])
  have "distinct (map fst ds)" using valid by (simp add: valid_policy_def valid_domains_def)
  from decisions_mset [OF this order] have "request_denied E \<lparr>integrations = policy_entries a cl b g p n ?ds\<rparr> verb name path query headers data =
      request_denied E nc verb name path query headers data" for E verb name path query headers data
    unfolding shape .
  moreover have "load_policy le t' = Inr [(S ''network_integrations'', JObj es)]"
    by (simp add: load_policy_def es(1))
  ultimately show ?thesis using nc enforced by (auto simp: network_status_def)
qed


definition demo_policy_body :: "(str \<times> json) list" where
  "demo_policy_body =
     [(S ''network_integrations'', JObj
        [(S ''npm_packages'', JObj [(S ''enabled'', JBool True)]),
         (S ''github'', JObj [(S ''enabled'', JBool True),
            (S ''write_repositories'', JList [JObj [(S ''owner'', JStr (S ''Acme'')), (S ''repo'', JStr (S ''tools.git''))]])]),
         (S ''custom'', JObj [(S ''domains'', JObj
            [(S ''Docs.example.org'', JObj [(S ''allow_http_methods'', JList [JStr (S ''get''), JStr (S ''HEAD'')]),
                (S ''path_guards'', JList [JStr (S ''/v1/.*'')])]),
             (S ''*.cdn.example.org'', JObj [(S ''allow_http_methods'', JList [JStr (S ''GET'')])])])])])]"

lemma collation_lex: "collation (\<lambda>a b. a \<le> b)"
  by (auto simp: collation_def)

theorem published_policy_enforced_witness:
  "case replace_network_policy (\<lambda>_. True) (JObj demo_policy_body) (S ''now'') empty_policy of
     Inl f \<Rightarrow> False
   | Inr (response, t') \<Rightarrow> network_status (\<lambda>a b. a \<le> b) (\<lambda>_. True) t' = S ''active''
       \<and> pt_domains t' = [S ''*.cdn.example.org'', S ''docs.example.org'']
       \<and> pt_repositories t' = [(0, S ''acme'', S ''tools'')]"
proof -
  have rows: "case replace_network_policy (\<lambda>_. True) (JObj demo_policy_body) (S ''now'') empty_policy of
      Inl f \<Rightarrow> False | Inr (response, t') \<Rightarrow> pt_domains t' = [S ''*.cdn.example.org'', S ''docs.example.org'']
       \<and> pt_repositories t' = [(0, S ''acme'', S ''tools'')]"
    by code_simp
  then obtain response t' where saved:
      "replace_network_policy (\<lambda>_. True) (JObj demo_policy_body) (S ''now'') empty_policy = Inr (response, t')"
    by (auto split: sum.splits)
  from published_policy_enforced [OF collation_lex saved] have "network_status (\<lambda>a b. a \<le> b) (\<lambda>_. True) t' = S ''active''"
    by blast
  with rows saved show ?thesis by simp
qed

text \<open>
  A repository name that still ends in \<open>.git\<close> after one such suffix was removed passes the
  validation of the policy but not the check of the table: the request ends with an internal
  error, and the stored policy is unchanged.
\<close>

lemma double_git_suffix_unpublished:
  "(case parse_network_controls re_ok double_git_body of Inl e \<Rightarrow> False | Inr nc \<Rightarrow> True)
   \<and> mutation (replace_network_policy re_ok (JObj double_git_body) now) t = (Inl constraint_violation, t)"
proof -
  define c where "c = [(S ''network_integrations'', JObj [(S ''github'', JObj [(S ''enabled'', JBool True),
      (S ''write_repositories'', JList [JObj [(S ''owner'', JStr (S ''acme'')), (S ''repo'', JStr (S ''tools.git''))]])])])]"
  have parsed: "case parse_network_controls re_ok double_git_body of Inl e \<Rightarrow> False | Inr nc \<Rightarrow> controls_to_json nc = c"
    unfolding c_def by code_simp
  have "save_network_policy c now t = save_network_policy c now empty_policy"
    by (simp add: save_network_policy_def then_txn_def bind_txn_def modify_def delete_policy_def empty_policy_def)
  also have "\<dots> = Inl constraint_violation" unfolding c_def by code_simp
  finally show ?thesis
    using parsed by (auto simp: replace_network_policy_def mutation_def then_txn_def bind_txn_def split: sum.splits)
qed

end
