(* ===== verification/ProviderStore.thy ===== *)
theory ProviderStore
  imports PolicyStore
begin

text \<open>
  The provider connections of the admin service: the operator's logins, the provider accounts
  with the guard the schema puts on an approved row, the pins the proxy compares requests with,
  and the connected Bedrock credential (\<open>runtime/core/state.py\<close> over \<open>host/migrations\<close>). A row
  of an account is the value of the \<open>account_id\<close> column and the remaining fields as metadata. The
  secret of the Bedrock credential is kept as the text it was sealed from.
\<close>

datatype runtime = Codex | Claude_code | Hermes
datatype provider = Openai | Claude | Bedrock
datatype oauth_key = Codex_login | Claude_login

type_synonym record_dict = "(str \<times> json) list"

record login =
  lg_status :: str
  lg_url :: str
  lg_expires :: str
  lg_device_code :: "str option"
  lg_id :: "str option"
  lg_token_hash :: "str option"

record trust_db =
  td_policy :: policy_tables
  td_logins :: "oauth_key \<Rightarrow> login option"
  td_accounts :: "provider \<Rightarrow> (str option \<times> record_dict) option"
  td_pins :: "provider \<Rightarrow> (str option \<times> str option) option"     \<comment> \<open>account_id, access_token_sha256\<close>
  td_bedrock :: "(str \<times> str \<times> str) option"                        \<comment> \<open>key id, secret, region\<close>
  td_events :: "(str \<times> runtime) list"

type_synonym 'a trust_txn = "(trust_db, 'a) txn"

text \<open>\<open>value if isinstance(value, str) and value else None\<close>\<close>

definition string_field :: "record_dict \<Rightarrow> str \<Rightarrow> str option" where
  "string_field value key = (case jget value key of JStr s \<Rightarrow> if s = [] then None else Some s | _ \<Rightarrow> None)"

definition nonempty :: "str option \<Rightarrow> str option" where
  "nonempty t = (case t of Some s \<Rightarrow> if s = [] then None else Some s | None \<Rightarrow> None)"

subsection \<open>The operator's logins\<close>

definition login_allowed :: "oauth_key \<Rightarrow> login \<Rightarrow> bool" where
  "login_allowed key l =
     (case key of
        Codex_login \<Rightarrow> lg_device_code l \<noteq> None \<and> lg_id l \<noteq> None
      | Claude_login \<Rightarrow> lg_device_code l = None \<and> lg_id l = None)"

definition oauth_login :: "oauth_key \<Rightarrow> trust_db \<Rightarrow> login option" where
  "oauth_login key d = td_logins d key"

definition set_oauth_login :: "oauth_key \<Rightarrow> login option \<Rightarrow> unit trust_txn" where
  "set_oauth_login key data =
     then_txn (require (case data of None \<Rightarrow> True | Some l \<Rightarrow> login_allowed key l) constraint_violation)
       (modify (\<lambda>d. d\<lparr>td_logins := (td_logins d)(key := data)\<rparr>))"

subsection \<open>Provider accounts\<close>

definition CLAUDE_IDENTITY_ATTESTATION :: str where
  "CLAUDE_IDENTITY_ATTESTATION = S ''anthropic_oauth_profile''"

definition OPENAI_OPERATOR_APPROVAL :: str where
  "OPENAI_OPERATOR_APPROVAL = S ''codex_device_login''"

text \<open>\<open>provider_account_anchor_guard\<close>: the marker of an approved row, and the updates it lets through.\<close>

definition has_marker :: "provider \<Rightarrow> record_dict \<Rightarrow> bool" where
  "has_marker p metadata \<longleftrightarrow>
     (p = Claude \<and> jget metadata (S ''identity_attestation'') = JStr CLAUDE_IDENTITY_ATTESTATION)
     \<or> (p = Openai \<and> jget metadata (S ''operator_approval'') = JStr OPENAI_OPERATOR_APPROVAL)"

definition guard_lets :: "provider \<Rightarrow> (str option \<times> record_dict) option \<Rightarrow> str option \<times> record_dict \<Rightarrow> bool" where
  "guard_lets p old new =
     (case old of
        Some (Some old_id, old_metadata) \<Rightarrow>
          has_marker p old_metadata \<longrightarrow>
            fst new = None \<or> (fst new = Some old_id \<and> has_marker p (snd new))
      | _ \<Rightarrow> True)"

definition anchor_immutable :: fault where
  "anchor_immutable = Raised (RuntimeError (S ''provider account anchor is immutable''))"

definition nullable_text :: "json \<Rightarrow> ('s, str option) txn" where
  "nullable_text v = (if v = JNull then ok None else bind_txn (text_param v) (\<lambda>s. ok (Some s)))"

definition save_provider_account :: "provider \<Rightarrow> record_dict \<Rightarrow> unit trust_txn" where
  "save_provider_account p data =
     (let metadata = filter (\<lambda>(key, value). key \<noteq> S ''account_id'') data
      in bind_txn (nullable_text (jget data (S ''account_id''))) (\<lambda>account_id.
         bind_txn (select (\<lambda>d. td_accounts d p)) (\<lambda>old.
         then_txn (require (guard_lets p old (account_id, metadata)) anchor_immutable)
           (modify (\<lambda>d. d\<lparr>td_accounts := (td_accounts d)(p := Some (account_id, metadata))\<rparr>)))))"

definition read_provider_account :: "provider \<Rightarrow> trust_db \<Rightarrow> record_dict" where
  "read_provider_account p d =
     (case td_accounts d p of
        None \<Rightarrow> []
      | Some (None, metadata) \<Rightarrow> metadata
      | Some (Some account_id, metadata) \<Rightarrow> AList.update (S ''account_id'') (JStr account_id) metadata)"

definition save_openai_account :: "record_dict option \<Rightarrow> unit trust_txn" where
  "save_openai_account account =
     save_provider_account Openai (case account of Some a \<Rightarrow> a | None \<Rightarrow> [(S ''account_id'', JNull)])"

definition save_claude_account :: "record_dict option \<Rightarrow> unit trust_txn" where
  "save_claude_account account = save_provider_account Claude (case account of Some a \<Rightarrow> a | None \<Rightarrow> [])"

definition save_bedrock_account :: "record_dict option \<Rightarrow> unit trust_txn" where
  "save_bedrock_account account = save_provider_account Bedrock (case account of Some a \<Rightarrow> a | None \<Rightarrow> [])"

abbreviation read_openai_account :: "trust_db \<Rightarrow> record_dict" where
  "read_openai_account \<equiv> read_provider_account Openai"

abbreviation read_claude_account :: "trust_db \<Rightarrow> record_dict" where
  "read_claude_account \<equiv> read_provider_account Claude"

subsection \<open>The pins of the proxy\<close>

definition is_sha256 :: "str \<Rightarrow> bool" where
  "is_sha256 s \<longleftrightarrow> length s = 64 \<and> list_all (\<lambda>c. (48 \<le> c \<and> c \<le> 57) \<or> (97 \<le> c \<and> c \<le> 102)) s"

definition save_proxy_pin :: "provider \<Rightarrow> record_dict \<Rightarrow> unit trust_txn" where
  "save_proxy_pin p data =
     bind_txn (nullable_text (jget data (S ''account_id''))) (\<lambda>account_id.
     bind_txn (nullable_text (jget data (S ''access_token_sha256''))) (\<lambda>token.
     then_txn (require (case token of None \<Rightarrow> True | Some h \<Rightarrow> is_sha256 h) constraint_violation)
       (modify (\<lambda>d. d\<lparr>td_pins := (td_pins d)(p := Some (account_id, token))\<rparr>))))"

definition save_proxy_openai_account_id :: "str option \<Rightarrow> unit trust_txn" where
  "save_proxy_openai_account_id account_id =
     save_proxy_pin Openai [(S ''account_id'', case account_id of Some a \<Rightarrow> JStr a | None \<Rightarrow> JNull)]"

definition save_proxy_claude_account :: "record_dict option \<Rightarrow> unit trust_txn" where
  "save_proxy_claude_account account = save_proxy_pin Claude (case account of Some a \<Rightarrow> a | None \<Rightarrow> [])"

definition stored_proxy_pin :: "provider \<Rightarrow> trust_db \<Rightarrow> record_dict" where
  "stored_proxy_pin p d =
     (case td_pins d p of
        None \<Rightarrow> []
      | Some (account_id, token) \<Rightarrow>
          (case account_id of None \<Rightarrow> [] | Some a \<Rightarrow> [(S ''account_id'', JStr a)])
          @ (case token of None \<Rightarrow> [] | Some h \<Rightarrow> [(S ''access_token_sha256'', JStr h)]))"

definition stored_openai_pin :: "trust_db \<Rightarrow> str option" where
  "stored_openai_pin d = string_field (stored_proxy_pin Openai d) (S ''account_id'')"

definition stored_claude_pin :: "trust_db \<Rightarrow> record_dict" where
  "stored_claude_pin d = stored_proxy_pin Claude d"

subsection \<open>The Bedrock credential\<close>

definition save_bedrock_credential :: "str \<Rightarrow> str \<Rightarrow> str \<Rightarrow> unit trust_txn" where
  "save_bedrock_credential access_key_id secret region =
     then_txn (require (region \<in> set SUPPORTED_REGIONS) constraint_violation)
       (modify (\<lambda>d. d\<lparr>td_bedrock := Some (access_key_id, secret, region)\<rparr>))"

definition delete_bedrock_credential :: "unit trust_txn" where
  "delete_bedrock_credential = modify (\<lambda>d. d\<lparr>td_bedrock := None\<rparr>)"

definition read_bedrock_access_key_id :: "trust_db \<Rightarrow> str option" where
  "read_bedrock_access_key_id d = nonempty (map_option fst (td_bedrock d))"

definition read_bedrock_region :: "trust_db \<Rightarrow> str option" where
  "read_bedrock_region d = nonempty (map_option (snd \<circ> snd) (td_bedrock d))"

definition read_bedrock_proxy_credential :: "trust_db \<Rightarrow> (str \<times> str \<times> str) option" where
  "read_bedrock_proxy_credential d = td_bedrock d"

definition append_runtime_event :: "string \<Rightarrow> runtime \<Rightarrow> unit trust_txn" where
  "append_runtime_event event_type r = modify (\<lambda>d. d\<lparr>td_events := td_events d @ [(S event_type, r)]\<rparr>)"

subsection \<open>What the accessors return\<close>

lemma string_field_Some [simp]: "string_field v k = Some s \<longleftrightarrow> jget v k = JStr s \<and> s \<noteq> []"
  by (auto simp: string_field_def split: json.splits if_splits)

lemma jget_update: "jget (AList.update k v d) k' = (if k' = k then v else jget d k')"
  by (simp add: jget_def)

lemma jget_filter_other: "jget (filter (\<lambda>(key, value). key \<noteq> k) d) k' = (if k' = k then JNull else jget d k')"
proof (induction d)
  case (Cons x d)
  then show ?case by (cases x) (auto simp: jget_Cons)
qed simp

text \<open>A row that was saved is read back field by field.\<close>

lemma jget_read_saved:
  assumes "save_provider_account p data d = Inr (u, d')"
    "jget data (S ''account_id'') = JNull \<or> (\<exists>s. jget data (S ''account_id'') = JStr s)"
  shows "jget (read_provider_account p d') k = jget data k"
  using assms
  by (auto simp: save_provider_account_def nullable_text_def text_param_def txn_simps read_provider_account_def Let_def
      jget_update jget_filter_other split: if_splits)

lemma stored_proxy_pin_fields:
  "jget (stored_proxy_pin p d) (S ''account_id'') =
     (case td_pins d p of Some (Some a, _) \<Rightarrow> JStr a | _ \<Rightarrow> JNull)"
  "jget (stored_proxy_pin p d) (S ''access_token_sha256'') =
     (case td_pins d p of Some (_, Some h) \<Rightarrow> JStr h | _ \<Rightarrow> JNull)"
  by (auto simp: stored_proxy_pin_def jget_Cons split: option.splits)

end
