(* ===== verification/ProviderTrust.thy ===== *)
theory ProviderTrust
  imports ProviderStore
begin

text \<open>
  The trust in provider accounts (\<open>runtime/admin_api/orchestrator.py\<close>, the login flows of
  \<open>runtime/admin_api/service.py\<close>, and the parked login of \<open>codex_app_server.py\<close>). A refresh probes
  an agent's credentials outside any transaction and commits what it found; meanwhile the operator
  may log in, reset an account or replace the policy. Each runtime has at most one refresh in
  flight. The machine takes one transaction, one lock-free read or one answer of the outside per
  step. What a provider command answers is unrestricted, except that an attestation names the
  account its token belongs to.
\<close>

subsection \<open>Runtimes and their status\<close>

fun provider_of :: "runtime \<Rightarrow> provider" where
  "provider_of Codex = Openai"
| "provider_of Claude_code = Claude"
| "provider_of Hermes = Bedrock"

fun integration_name :: "runtime \<Rightarrow> str" where
  "integration_name Codex = S ''openai''"
| "integration_name Claude_code = S ''claude''"
| "integration_name Hermes = S ''bedrock''"

definition oauth_runtime :: "runtime \<Rightarrow> bool" where
  "oauth_runtime r \<longleftrightarrow> r = Codex \<or> r = Claude_code"

definition login_key :: "runtime \<Rightarrow> oauth_key" where
  "login_key r = (if r = Claude_code then Claude_login else Codex_login)"

text \<open>The rows of a stored policy refer to stored domains, so loading it does not raise.\<close>

definition runtime_network_enabled :: "(str \<Rightarrow> str \<Rightarrow> bool) \<Rightarrow> trust_db \<Rightarrow> runtime \<Rightarrow> bool" where
  "runtime_network_enabled le d r =
     (case load_policy le (td_policy d) of
        Inl e \<Rightarrow> False
      | Inr policy \<Rightarrow> jget (managed_integration_of (integration_name r) policy) (S ''enabled'') = JBool True)"

type_synonym status_record = "str \<times> str option"

definition loading :: status_record where
  "loading = (S ''loading'', None)"

definition status_entry :: "str \<Rightarrow> str option \<Rightarrow> status_record" where
  "status_entry status message = (status, if status = S ''error'' then nonempty message else None)"

subsection \<open>Trusted anchors\<close>

definition trusted_openai_account_id :: "record_dict \<Rightarrow> str option" where
  "trusted_openai_account_id account =
     (if string_field account (S ''operator_approval'') \<noteq> Some OPENAI_OPERATOR_APPROVAL then None
      else string_field account (S ''account_id''))"

definition with_openai_operator_approval :: "record_dict \<Rightarrow> record_dict" where
  "with_openai_operator_approval account =
     AList.update (S ''operator_approval'') (JStr OPENAI_OPERATOR_APPROVAL) account"

definition claude_anchor_is_server_attested :: "record_dict \<Rightarrow> bool" where
  "claude_anchor_is_server_attested account \<longleftrightarrow>
     string_field account (S ''identity_attestation'') = Some CLAUDE_IDENTITY_ATTESTATION"

definition trusted_claude_account_id :: "record_dict \<Rightarrow> str option" where
  "trusted_claude_account_id account =
     (if claude_anchor_is_server_attested account then string_field account (S ''account_id'') else None)"

definition update_if :: "str \<Rightarrow> str option \<Rightarrow> record_dict \<Rightarrow> record_dict" where
  "update_if key value d = (case value of Some v \<Rightarrow> AList.update key (JStr v) d | None \<Rightarrow> d)"

definition with_identity :: "record_dict \<Rightarrow> str \<Rightarrow> record_dict \<Rightarrow> str \<Rightarrow> record_dict" where
  "with_identity account account_id source now =
     (let merged = AList.update (S ''account_id'') (JStr account_id) account;
          merged = update_if (S ''email'') (string_field source (S ''email'')) merged;
          merged = update_if (S ''organization_id'')
                     (or_else (string_field source (S ''organization_id'')) (string_field source (S ''organization_uuid''))) merged
      in if string_field source (S ''account_uuid'') \<noteq> None
         then AList.update (S ''identity_attested_at'') (JStr now)
                (AList.update (S ''identity_attestation'') (JStr CLAUDE_IDENTITY_ATTESTATION) merged)
         else if claude_anchor_is_server_attested source
         then update_if (S ''identity_attested_at'') (string_field source (S ''identity_attested_at''))
                (AList.update (S ''identity_attestation'') (JStr CLAUDE_IDENTITY_ATTESTATION) merged)
         else merged)"

datatype verdict =
    Trusted record_dict
  | Not_approved          \<comment> \<open>ProviderAccountNotApproved\<close>
  | Untrusted str         \<comment> \<open>ProviderAccountTrustError\<close>

definition trusted_openai_account :: "record_dict \<Rightarrow> verdict trust_txn" where
  "trusted_openai_account account =
     (case string_field account (S ''account_id'') of
        None \<Rightarrow> ok (Untrusted (S ''OpenAI account id is not available''))
      | Some account_id \<Rightarrow>
          bind_txn (select (\<lambda>d. trusted_openai_account_id (read_openai_account d))) (\<lambda>trusted.
            ok (case trusted of
                  Some t \<Rightarrow> (if account_id \<noteq> t then Untrusted (S ''OpenAI account changed'')
                             else Trusted (with_openai_operator_approval account))
                | None \<Rightarrow> Not_approved)))"

subsection \<open>The operator's logins\<close>

definition login_expired :: "str \<Rightarrow> login \<Rightarrow> bool" where
  "login_expired now l \<longleftrightarrow> lg_expires l \<le> now"

text \<open>\<open>_current_oauth_login\<close> inside a transaction: an expired login is deleted.\<close>

definition current_oauth_login :: "oauth_key \<Rightarrow> str \<Rightarrow> login option trust_txn" where
  "current_oauth_login key now =
     bind_txn (select (oauth_login key)) (\<lambda>l.
       case l of
         None \<Rightarrow> ok None
       | Some l \<Rightarrow> (if login_expired now l then then_txn (set_oauth_login key None) (ok None) else ok (Some l)))"

definition completed_oauth_login :: "oauth_key \<Rightarrow> str \<Rightarrow> login option trust_txn" where
  "completed_oauth_login key now =
     bind_txn (current_oauth_login key now) (\<lambda>l.
       ok (case l of Some l \<Rightarrow> if lg_status l = S ''completed'' then Some l else None | None \<Rightarrow> None))"

definition mark_oauth_login_completed :: "oauth_key \<Rightarrow> str option \<Rightarrow> str \<Rightarrow> bool trust_txn" where
  "mark_oauth_login_completed key token_hash now =
     bind_txn (current_oauth_login key now) (\<lambda>l.
       case l of
         None \<Rightarrow> ok False
       | Some l \<Rightarrow>
           (let completed = l\<lparr>lg_status := S ''completed''\<rparr>;
                completed = (case nonempty token_hash of Some h \<Rightarrow> completed\<lparr>lg_token_hash := Some h\<rparr> | None \<Rightarrow> completed)
            in then_txn (set_oauth_login key (Some completed)) (ok True)))"

definition claude_first_capture_approved :: "str \<Rightarrow> str \<Rightarrow> bool trust_txn" where
  "claude_first_capture_approved token_hash now =
     bind_txn (completed_oauth_login Claude_login now) (\<lambda>l.
       ok (case l of Some l \<Rightarrow> nonempty (lg_token_hash l) = Some token_hash | None \<Rightarrow> False))"

definition attested_verdict ::
  "record_dict \<Rightarrow> str \<Rightarrow> str option \<Rightarrow> record_dict option \<Rightarrow> str option \<Rightarrow> str \<Rightarrow> verdict" where
  "attested_verdict account token_hash trusted attested attest_error now =
     (case attested of
        None \<Rightarrow> Untrusted (case nonempty attest_error of Some e \<Rightarrow> e | None \<Rightarrow> S ''Claude account is not attested yet'')
      | Some a \<Rightarrow>
          if string_field a (S ''access_token_sha256'') \<noteq> Some token_hash
          then Untrusted (S ''Claude token changed while attesting'')
          else case string_field a (S ''account_uuid'') of
                 None \<Rightarrow> Untrusted (S ''Claude account attestation has no account uuid'')
               | Some uuid \<Rightarrow>
                   if trusted \<noteq> None \<and> trusted \<noteq> Some uuid then Untrusted (S ''Claude account changed'')
                   else Trusted (with_identity account uuid a now))"

definition trusted_claude_account ::
  "record_dict \<Rightarrow> record_dict option \<Rightarrow> str option \<Rightarrow> str \<Rightarrow> verdict trust_txn" where
  "trusted_claude_account account attested attest_error now =
     (case string_field account (S ''access_token_sha256'') of
        None \<Rightarrow> ok (Untrusted (S ''Claude account token is not available''))
      | Some token_hash \<Rightarrow>
          bind_txn (select read_claude_account) (\<lambda>stored.
            let trusted = trusted_claude_account_id stored
            in case trusted of
                 Some t \<Rightarrow>
                   (if string_field stored (S ''access_token_sha256'') = Some token_hash
                    then ok (Trusted (with_identity account t stored now))
                    else ok (attested_verdict account token_hash trusted attested attest_error now))
               | None \<Rightarrow>
                   bind_txn (claude_first_capture_approved token_hash now) (\<lambda>approved.
                     ok (if \<not> approved then Not_approved
                         else attested_verdict account token_hash trusted attested attest_error now))))"

definition trusted_active_account ::
  "runtime \<Rightarrow> record_dict option \<Rightarrow> record_dict option \<Rightarrow> str option \<Rightarrow> str \<Rightarrow> verdict trust_txn" where
  "trusted_active_account r account attested attest_error now =
     (case account of
        None \<Rightarrow> ok (Untrusted (S ''active without account metadata''))
      | Some a \<Rightarrow>
          if a = [] then ok (Untrusted (S ''active without account metadata''))
          else if r = Claude_code then trusted_claude_account a attested attest_error now
          else trusted_openai_account a)"

subsection \<open>What a refresh commits\<close>

definition active_account_value :: "runtime \<Rightarrow> str \<Rightarrow> json \<Rightarrow> record_dict option" where
  "active_account_value r status account =
     (if status \<noteq> S ''active'' then None
      else case account of
             JObj a \<Rightarrow> Some a
           | JStr s \<Rightarrow> (if r = Codex \<and> s \<noteq> [] then Some [(S ''account_id'', JStr s)] else None)
           | _ \<Rightarrow> None)"

definition stamp_usage_checked_at :: "str \<Rightarrow> str \<Rightarrow> record_dict \<Rightarrow> record_dict" where
  "stamp_usage_checked_at usage_key checked_at account =
     (case jget account usage_key of
        JObj usage \<Rightarrow> AList.update usage_key (JObj (AList.update (S ''last_checked_at'') (JStr checked_at) usage)) account
      | _ \<Rightarrow> account)"

definition sync_runtime_proxy_pin :: "runtime \<Rightarrow> record_dict option \<Rightarrow> unit trust_txn" where
  "sync_runtime_proxy_pin r account =
     (if r = Claude_code then save_proxy_claude_account account
      else save_proxy_openai_account_id (Option.bind account (\<lambda>a. string_field a (S ''account_id''))))"

definition clear_oauth_login :: "runtime \<Rightarrow> unit trust_txn" where
  "clear_oauth_login r = (if r = Hermes then ok () else set_oauth_login (login_key r) None)"

definition deactivated_rows :: "runtime \<Rightarrow> str \<Rightarrow> unit trust_txn" where
  "deactivated_rows r previous =
     then_txn (clear_oauth_login r)
     (then_txn (if oauth_runtime r then sync_runtime_proxy_pin r None else ok ())
        (if previous \<noteq> S ''deactivated'' then append_runtime_event ''agent_runtime.deactivated'' r else ok ()))"

definition refresh_decision ::
  "runtime \<Rightarrow> str \<Rightarrow> str option \<Rightarrow> record_dict option \<Rightarrow> record_dict option \<Rightarrow> str option \<Rightarrow> str \<Rightarrow>
   (str \<times> str option \<times> record_dict option) trust_txn" where
  "refresh_decision r status message account attested attest_error now =
     (if status = S ''active'' \<and> oauth_runtime r
      then bind_txn (trusted_active_account r account attested attest_error now) (\<lambda>v.
             ok (case v of
                   Trusted a \<Rightarrow> (status, message, Some a)
                 | Not_approved \<Rightarrow> (S ''awaiting_login'', None, None)
                 | Untrusted m \<Rightarrow> (S ''error'', Some m, None)))
      else ok (status, message, account))"

text \<open>The rows of the commit; the value is the device login it closes.\<close>

definition refresh_rows :: "runtime \<Rightarrow> str \<Rightarrow> str \<Rightarrow> record_dict option \<Rightarrow> str \<Rightarrow> str option trust_txn" where
  "refresh_rows r previous status account now =
     bind_txn
       (if status = S ''active''
        then case r of
               Codex \<Rightarrow>
                 bind_txn (select (oauth_login Codex_login)) (\<lambda>l.
                 then_txn (set_oauth_login Codex_login None)
                 (then_txn (save_openai_account (map_option (stamp_usage_checked_at (S ''codex_usage'') now) account))
                    (ok (Option.bind l (\<lambda>l. nonempty (lg_id l))))))
             | Claude_code \<Rightarrow>
                 then_txn (set_oauth_login Claude_login None) (then_txn (save_claude_account account) (ok None))
             | Hermes \<Rightarrow> ok None
        else ok None) (\<lambda>login_to_close.
     then_txn (if oauth_runtime r then sync_runtime_proxy_pin r (if status = S ''active'' then account else None) else ok ())
     (then_txn (if oauth_runtime r \<and> previous = S ''awaiting_login'' \<and> status = S ''active''
                then append_runtime_event ''agent_runtime.login_completed'' r else ok ())
     (then_txn (if previous \<noteq> S ''active'' \<and> status = S ''active''
                then append_runtime_event ''agent_runtime.active'' r else ok ())
        (ok login_to_close))))"

datatype commit_result =
    Deactivated
  | Committed str "record_dict option" "str option"   \<comment> \<open>status, account, device login to close\<close>
  | Commit_failed fault

type_synonym statuses = "runtime \<Rightarrow> status_record"

text \<open>
  The commit. The cached status is process memory: it is replaced inside the transaction, and
  stays replaced when the transaction fails.
\<close>

definition mark_runtime_deactivated :: "runtime \<Rightarrow> trust_db \<Rightarrow> statuses \<Rightarrow> trust_db \<times> statuses" where
  "mark_runtime_deactivated r d st =
     (snd (mutation (deactivated_rows r (fst (st r))) d), st(r := status_entry (S ''deactivated'') None))"

definition commit_refresh ::
  "(str \<Rightarrow> str \<Rightarrow> bool) \<Rightarrow> runtime \<Rightarrow> str \<Rightarrow> str option \<Rightarrow> record_dict option \<Rightarrow> record_dict option \<Rightarrow>
   str option \<Rightarrow> str \<Rightarrow> trust_db \<Rightarrow> statuses \<Rightarrow> commit_result \<times> trust_db \<times> statuses" where
  "commit_refresh le r status message account attested attest_error now d st =
     (if \<not> runtime_network_enabled le d r
      then (Deactivated, mark_runtime_deactivated r d st)
      else case refresh_decision r status message account attested attest_error now d of
             Inl f \<Rightarrow> (Commit_failed f, d, st)
           | Inr ((status, message, account), d1) \<Rightarrow>
               (let st' = st(r := status_entry status message)
                in case refresh_rows r (fst (st r)) status account now d1 of
                     Inl f \<Rightarrow> (Commit_failed f, d, st')
                   | Inr (login_to_close, d2) \<Rightarrow> (Committed status account login_to_close, d2, st')))"

text \<open>\<open>_capture_completed_codex_oauth_login\<close>\<close>

definition capture_completed_codex_oauth_login :: "str \<Rightarrow> str \<Rightarrow> str \<Rightarrow> bool trust_txn" where
  "capture_completed_codex_oauth_login login_id account_id now =
     bind_txn (select (\<lambda>d. trusted_openai_account_id (read_openai_account d))) (\<lambda>trusted.
       case trusted of
         Some t \<Rightarrow> ok (t = account_id)
       | None \<Rightarrow>
           bind_txn (current_oauth_login Codex_login now) (\<lambda>l.
             case l of
               None \<Rightarrow> ok False
             | Some l \<Rightarrow>
                 (if nonempty (lg_id l) \<noteq> Some login_id then ok False
                  else then_txn (set_oauth_login Codex_login (Some (l\<lparr>lg_status := S ''completed''\<rparr>)))
                       (then_txn (save_openai_account
                           (Some (with_openai_operator_approval [(S ''account_id'', JStr account_id)]))) (ok True)))))"

definition backfill_claude_rows :: "str \<Rightarrow> record_dict \<Rightarrow> unit trust_txn" where
  "backfill_claude_rows token_hash usage =
     bind_txn (select read_claude_account) (\<lambda>stored.
       if string_field stored (S ''access_token_sha256'') \<noteq> Some token_hash then ok ()
       else save_claude_account (Some (AList.update (S ''claude_usage'') (JObj usage) stored)))"

subsection \<open>The operator's requests\<close>

definition reset_linked_account_rows :: "runtime \<Rightarrow> unit trust_txn" where
  "reset_linked_account_rows r =
     then_txn (clear_oauth_login r)
     (then_txn (if r = Claude_code then save_claude_account None else save_openai_account None)
     (then_txn (sync_runtime_proxy_pin r None)
        (append_runtime_event ''agent_runtime.linked_account_reset'' r)))"

definition reset_linked_account_in_state ::
  "(str \<Rightarrow> str \<Rightarrow> bool) \<Rightarrow> runtime \<Rightarrow> trust_db \<Rightarrow> statuses \<Rightarrow> trust_db \<times> statuses" where
  "reset_linked_account_in_state le r d st =
     (snd (mutation (reset_linked_account_rows r) d),
      st(r := status_entry (if runtime_network_enabled le d r then S ''awaiting_login'' else S ''deactivated'') None))"

definition BEDROCK_ACCESS_KEY_ID_RE :: rx where
  "BEDROCK_ACCESS_KEY_ID_RE =
     seqs [Bol, lit (S ''AKIA''), Greedy 16 16 (Cls (Union (Range 48 57) (Range 65 90))), Eol]"

text \<open>\<open>connect_bedrock_credentials\<close> up to the validation by AWS: the key, its secret and the region.\<close>

definition connect_bedrock_request :: "json \<Rightarrow> fault + str \<times> str \<times> str" where
  "connect_bedrock_request body =
     (case body of
        JObj b \<Rightarrow>
          (if extra_fields b [S ''access_key_id'', S ''secret_access_key'', S ''region''] \<noteq> [] then Inl bad_request
           else case (jget b (S ''access_key_id''), jget b (S ''secret_access_key''), jget b (S ''region'')) of
                  (JStr key_id, secret, region) \<Rightarrow>
                    (if strip key_id = [] \<or> \<not> rx_fullmatch (\<lambda>_. False) BEDROCK_ACCESS_KEY_ID_RE (strip key_id)
                     then Inl bad_request
                     else case (secret, region) of
                            (JStr s, JStr g) \<Rightarrow>
                              (if strip s = [] \<or> g \<notin> set SUPPORTED_REGIONS then Inl bad_request
                               else Inr (strip key_id, strip s, g))
                          | _ \<Rightarrow> Inl bad_request)
                | _ \<Rightarrow> Inl bad_request)
      | _ \<Rightarrow> Inl bad_request)"

definition bedrock_account :: "str \<Rightarrow> record_dict \<Rightarrow> record_dict" where
  "bedrock_account access_key_id identity =
     (S ''access_key_id'', JStr access_key_id)
     # concat (map (\<lambda>key. case string_field identity key of Some field \<Rightarrow> [(key, JStr field)] | None \<Rightarrow> [])
                 [S ''account_id'', S ''arn'', S ''user_id''])"

definition connect_bedrock_rows :: "str \<Rightarrow> str \<Rightarrow> str \<Rightarrow> record_dict \<Rightarrow> unit trust_txn" where
  "connect_bedrock_rows access_key_id secret region account =
     then_txn (save_bedrock_credential access_key_id secret region) (save_bedrock_account (Some account))"

definition disconnect_bedrock ::
  "(str \<Rightarrow> str \<Rightarrow> bool) \<Rightarrow> trust_db \<Rightarrow> statuses \<Rightarrow> trust_db \<times> statuses" where
  "disconnect_bedrock le d st =
     (snd (mutation (then_txn (save_bedrock_account None) (then_txn delete_bedrock_credential
        (append_runtime_event ''agent_runtime.linked_account_reset'' Hermes))) d),
      st(Hermes := status_entry (if S ''bedrock'' \<in> set (pt_integrations (td_policy d))
                              then S ''awaiting_login'' else S ''deactivated'') None))"

definition login_available :: "(str \<Rightarrow> str \<Rightarrow> bool) \<Rightarrow> runtime \<Rightarrow> trust_db \<Rightarrow> statuses \<Rightarrow> bool" where
  "login_available le r d st \<longleftrightarrow>
     runtime_network_enabled le d r \<and> fst (st r) \<in> {S ''awaiting_login'', S ''error''}"

text \<open>The public fields of a login: the answer of starting one and of reading the current one.\<close>

definition login_response :: "runtime \<Rightarrow> login \<Rightarrow> record_dict" where
  "login_response r l =
     [(S ''status'', JStr (lg_status l))]
     @ (if r = Codex then [(S ''device_code'', case lg_device_code l of Some c \<Rightarrow> JStr c | None \<Rightarrow> JNull)] else [])
     @ [(S ''login_url'', JStr (lg_url l)), (S ''expires_at'', JStr (lg_expires l))]"

definition current_login_response ::
  "(str \<Rightarrow> str \<Rightarrow> bool) \<Rightarrow> runtime \<Rightarrow> trust_db \<Rightarrow> statuses \<Rightarrow> fault + record_dict" where
  "current_login_response le r d st =
     (if \<not> login_available le r d st then Inl conflict
      else case oauth_login (login_key r) d of None \<Rightarrow> Inl not_found | Some l \<Rightarrow> Inr (login_response r l))"

text \<open>The start of a login up to the mint: the stored login is handed out again.\<close>

datatype login_start = Refused fault | Again record_dict | Mint

definition start_oauth_login ::
  "(str \<Rightarrow> str \<Rightarrow> bool) \<Rightarrow> runtime \<Rightarrow> trust_db \<Rightarrow> statuses \<Rightarrow> login_start" where
  "start_oauth_login le r d st =
     (if \<not> login_available le r d st then Refused conflict
      else case oauth_login (login_key r) d of Some l \<Rightarrow> Again (login_response r l) | None \<Rightarrow> Mint)"

text \<open>\<open>_mint_codex_login\<close> and \<open>_mint_claude_login\<close>: the record that is stored.\<close>

definition minted_login :: "runtime \<Rightarrow> str \<Rightarrow> str \<Rightarrow> str \<Rightarrow> str \<Rightarrow> login" where
  "minted_login r url expires device_code login_id =
     (if r = Codex
      then \<lparr>lg_status = S ''awaiting_login'', lg_url = url, lg_expires = expires, lg_device_code = Some device_code,
            lg_id = Some login_id, lg_token_hash = None\<rparr>
      else \<lparr>lg_status = S ''awaiting_code'', lg_url = url, lg_expires = expires, lg_device_code = None,
            lg_id = None, lg_token_hash = None\<rparr>)"

end
