(* ===== verification/ProviderMachine.thy ===== *)
theory ProviderMachine
  imports ProviderTrust
begin

text \<open>
  The refreshes, logins, resets and policy changes of \<open>ProviderTrust\<close> as one machine. Per runtime
  one refresh moves through its phases; the requests of the operator are a list of what each still
  has to do. A step is a transaction, the lock-free reads of one helper, or an answer of the
  outside: a provider command, the parked device-login server, the attesting helper.
\<close>

subsection \<open>The parked device login of codex_app_server.py\<close>

record parked =
  pk_server :: nat          \<comment> \<open>identity of the polling process\<close>
  pk_login :: str
  pk_completed :: bool
  pk_account :: "str option"

text \<open>
  The poll that saw completed logins: it marks the parked login it polled, with the account id the
  root helper read at that moment (\<open>None\<close> when the read failed).
\<close>

definition note_completed :: "nat option \<Rightarrow> str list \<Rightarrow> str option \<Rightarrow> parked option \<Rightarrow> parked option" where
  "note_completed polled completed account_id parked =
     (case parked of
        Some p \<Rightarrow>
          (if completed \<noteq> [] \<and> polled = Some (pk_server p) \<and> pk_login p \<in> set completed
           then Some (p\<lparr>pk_completed := True, pk_account := account_id\<rparr>) else parked)
      | None \<Rightarrow> None)"

definition pop_parked :: "(parked \<Rightarrow> bool) \<Rightarrow> parked option \<Rightarrow> parked option" where
  "pop_parked match parked = (case parked of Some p \<Rightarrow> if match p then None else parked | None \<Rightarrow> None)"

text \<open>\<open>Inl\<close> is the error of a completed login whose account id could not be read.\<close>

definition read_completed_device_login_account_id :: "str \<Rightarrow> parked option \<Rightarrow> unit + str option" where
  "read_completed_device_login_account_id login_id parked =
     (case parked of
        None \<Rightarrow> Inr None
      | Some p \<Rightarrow>
          if pk_login p \<noteq> login_id \<or> \<not> pk_completed p then Inr None
          else case nonempty (pk_account p) of None \<Rightarrow> Inl () | Some a \<Rightarrow> Inr (Some a))"

subsection \<open>Live validation of a steady Claude token\<close>

definition CLAUDE_LIVE_PROBE_RETRY_SECONDS :: rat where
  "CLAUDE_LIVE_PROBE_RETRY_SECONDS = 240"

record live_memo =
  lm_hash :: str
  lm_status :: str
  lm_error :: "str option"
  lm_usage :: record_dict
  lm_at :: rat

type_synonym probe = "str \<times> str option \<times> json"

datatype live_result = Settled probe | Must_probe str

definition live_claude_status ::
  "record_dict \<Rightarrow> bool \<Rightarrow> rat \<Rightarrow> live_memo option \<Rightarrow> record_dict \<Rightarrow> live_result" where
  "live_claude_status account force tick memo stored =
     (case string_field account (S ''access_token_sha256'') of
        None \<Rightarrow> Settled (S ''active'', None, JObj account)
      | Some h \<Rightarrow>
          if trusted_claude_account_id stored = None \<or> string_field stored (S ''access_token_sha256'') \<noteq> Some h
          then Settled (S ''active'', None, JObj account)
          else case memo of
                 None \<Rightarrow> Must_probe h
               | Some m \<Rightarrow>
                   if force \<or> lm_hash m \<noteq> h then Must_probe h
                   else if lm_status m = S ''awaiting_login'' then Settled (S ''awaiting_login'', None, JNull)
                   else if \<not> tick - lm_at m < CLAUDE_LIVE_PROBE_RETRY_SECONDS then Must_probe h
                   else if lm_status m = S ''error'' then Settled (S ''error'', lm_error m, JNull)
                   else Settled (S ''active'', None, JObj
                          (if lm_usage m \<noteq> [] then AList.update (S ''claude_usage'') (JObj (lm_usage m)) account else account)))"

datatype usage_answer = Usage record_dict | Authentication_error str | Usage_error str

definition checked_claude_usage :: "str \<Rightarrow> record_dict \<Rightarrow> record_dict" where
  "checked_claude_usage now usage =
     (if usage = [] then [] else AList.update (S ''last_checked_at'') (JStr now) usage)"

definition memo_claude_probe ::
  "str \<Rightarrow> str \<Rightarrow> str option \<Rightarrow> record_dict \<Rightarrow> rat \<Rightarrow> live_memo" where
  "memo_claude_probe h status message usage tick =
     \<lparr>lm_hash = h, lm_status = status, lm_error = message, lm_usage = usage, lm_at = tick\<rparr>"

text \<open>The result of the probe, and the memo when the probe gave a verdict.\<close>

definition probe_claude_status ::
  "record_dict \<Rightarrow> str \<Rightarrow> usage_answer \<Rightarrow> str + record_dict option \<Rightarrow> str \<Rightarrow> rat \<Rightarrow> probe \<times> live_memo option" where
  "probe_claude_status account h answer current now tick =
     (let verdict = (\<lambda>status message. ((status, message, JNull), Some (memo_claude_probe h status message [] tick)))
      in case current of
           Inl e \<Rightarrow> verdict (S ''error'') (Some (S ''could not read Claude account after live authentication: '' @ e))
         | Inr c \<Rightarrow>
             (case c of
                None \<Rightarrow> verdict (S ''error'') (Some (S ''Claude OAuth token metadata disappeared during live authentication''))
              | Some [] \<Rightarrow> verdict (S ''error'') (Some (S ''Claude OAuth token metadata disappeared during live authentication''))
              | Some fresh \<Rightarrow>
                  (let refreshed = fold (\<lambda>(k, v). AList.update k v) fresh account;
                       usage = checked_claude_usage now (case answer of Usage u \<Rightarrow> u | _ \<Rightarrow> []);
                       with_usage = (if usage \<noteq> [] then AList.update (S ''claude_usage'') (JObj usage) refreshed else refreshed)
                   in if string_field refreshed (S ''access_token_sha256'') \<noteq> Some h
                      then ((S ''active'', None, JObj with_usage), None)
                      else case answer of
                             Authentication_error e \<Rightarrow> verdict (S ''awaiting_login'') None
                           | Usage_error e \<Rightarrow> verdict (S ''error'') (Some (S ''could not validate Claude authentication: '' @ e))
                           | Usage u \<Rightarrow> ((S ''active'', None, JObj with_usage),
                                        Some (memo_claude_probe h (S ''active'') None usage tick)))))"

subsection \<open>Attestation\<close>

record attest_memo =
  am_hash :: str
  am_attested :: "record_dict option"
  am_error :: "str option"
  am_at :: rat

datatype attest_result =
    Attested "record_dict option" "str option"
  | Expired_login          \<comment> \<open>the expired login is cleared, and nothing is attested\<close>
  | Must_attest str

text \<open>\<open>_claude_attestation_allowed\<close>: \<open>None\<close> when the login it consulted has expired.\<close>

definition claude_attestation_allowed :: "str \<Rightarrow> str \<Rightarrow> trust_db \<Rightarrow> bool option" where
  "claude_attestation_allowed h now d =
     (let stored = read_claude_account d
      in if trusted_claude_account_id stored \<noteq> None
         then Some (string_field stored (S ''access_token_sha256'') \<noteq> Some h)
         else case oauth_login Claude_login d of
                None \<Rightarrow> Some False
              | Some l \<Rightarrow>
                  if login_expired now l then None
                  else Some (lg_status l = S ''completed'' \<and> nonempty (lg_token_hash l) = Some h))"

definition claude_attestation ::
  "record_dict \<Rightarrow> str \<Rightarrow> rat \<Rightarrow> attest_memo option \<Rightarrow> trust_db \<Rightarrow> attest_result" where
  "claude_attestation account now tick memo d =
     (case string_field account (S ''access_token_sha256'') of
        None \<Rightarrow> Attested None None
      | Some h \<Rightarrow>
          (case claude_attestation_allowed h now d of
             None \<Rightarrow> Expired_login
           | Some False \<Rightarrow> Attested None None
           | Some True \<Rightarrow>
               (case memo of
                  Some m \<Rightarrow>
                    (if am_hash m \<noteq> h then Must_attest h
                     else if am_attested m \<noteq> None then Attested (am_attested m) None
                     else if tick - am_at m < CLAUDE_LIVE_PROBE_RETRY_SECONDS then Attested None (am_error m)
                     else Must_attest h)
                | None \<Rightarrow> Must_attest h)))"

subsection \<open>The world\<close>

datatype phase =
    Idle
  | Deactivating
  | Probing "nat option"                       \<comment> \<open>the parked server that is polled\<close>
  | Live record_dict
  | Validating record_dict str
  | Capturing probe
  | Asking probe str                           \<comment> \<open>login id\<close>
  | Storing probe str str                      \<comment> \<open>login id, account id\<close>
  | Clearing oauth_key probe
  | Checking probe
  | Attesting probe str
  | Committing probe "record_dict option" "str option"
  | Closing str
  | Backfilling record_dict
  | Backfill_saving str record_dict

datatype request =
    Minting runtime
  | Persisting runtime login
  | Completing
  | Marking "str option"
  | Completed_refresh
  | Resetting runtime
  | Reconciling "runtime list"
  | Switching_off runtime "runtime list"

record world =
  w_db :: trust_db
  w_status :: statuses
  w_parked :: "parked option"
  w_next_server :: nat
  w_live_memo :: "live_memo option"
  w_attest_memo :: "attest_memo option"
  w_refresh :: "runtime \<Rightarrow> phase"
  w_requests :: "request list"
  w_clock :: str
  w_reports :: "(str \<times> str) list"             \<comment> \<open>history: the account ids read for completed logins\<close>

record trust_env =
  te_le :: "str \<Rightarrow> str \<Rightarrow> bool"
  te_re_ok :: "str \<Rightarrow> bool"
  te_identity :: "str \<Rightarrow> str"                  \<comment> \<open>the account a Claude token belongs to, by its hash\<close>

text \<open>The attesting helper answers with the account the provider names for the token.\<close>

definition honest :: "trust_env \<Rightarrow> record_dict \<Rightarrow> bool" where
  "honest E a \<longleftrightarrow>
     (case (string_field a (S ''access_token_sha256''), string_field a (S ''account_uuid'')) of
        (Some h, Some u) \<Rightarrow> te_identity E h = u
      | _ \<Rightarrow> True)"

definition at_phase :: "runtime \<Rightarrow> phase \<Rightarrow> world \<Rightarrow> world" where
  "at_phase r ph w = w\<lparr>w_refresh := (w_refresh w)(r := ph)\<rparr>"

definition enabled :: "trust_env \<Rightarrow> world \<Rightarrow> runtime \<Rightarrow> bool" where
  "enabled E w r = runtime_network_enabled (te_le E) (w_db w) r"

text \<open>After the probe: a Claude account is validated live, a Codex login is captured.\<close>

definition after_probe :: "runtime \<Rightarrow> probe \<Rightarrow> phase" where
  "after_probe r p =
     (case (r, p) of
        (Claude_code, (status, _, JObj a)) \<Rightarrow> (if status = S ''active'' then Live a else Checking p)
      | (Codex, _) \<Rightarrow> Capturing p
      | _ \<Rightarrow> Checking p)"

definition capture_phase :: "probe \<Rightarrow> str \<Rightarrow> trust_db \<Rightarrow> phase" where
  "capture_phase p now d =
     (if trusted_openai_account_id (read_openai_account d) \<noteq> None then Checking p
      else case oauth_login Codex_login d of
             None \<Rightarrow> Checking p
           | Some l \<Rightarrow>
               if login_expired now l then Clearing Codex_login p
               else case nonempty (lg_id l) of None \<Rightarrow> Checking p | Some login_id \<Rightarrow> Asking p login_id)"

definition check_phase :: "runtime \<Rightarrow> probe \<Rightarrow> str \<Rightarrow> rat \<Rightarrow> attest_memo option \<Rightarrow> trust_db \<Rightarrow> phase" where
  "check_phase r p now tick memo d =
     (case p of (status, message, account) \<Rightarrow>
        case active_account_value r status account of
          Some a \<Rightarrow>
            (if r = Claude_code \<and> a \<noteq> []
             then case claude_attestation a now tick memo d of
                    Attested attested e \<Rightarrow> Committing p attested e
                  | Expired_login \<Rightarrow> Clearing Claude_login p
                  | Must_attest h \<Rightarrow> Attesting p h
             else Committing p None None)
        | None \<Rightarrow> Committing p None None)"

definition committed_phase :: "runtime \<Rightarrow> commit_result \<Rightarrow> phase" where
  "committed_phase r result =
     (case result of
        Committed status account login_to_close \<Rightarrow>
          (if status \<noteq> S ''active'' then Idle
           else case login_to_close of
                  Some l \<Rightarrow> Closing l
                | None \<Rightarrow> (case (r, account) of (Claude_code, Some a) \<Rightarrow> Backfilling a | _ \<Rightarrow> Idle))
      | _ \<Rightarrow> Idle)"

definition backfill_hash :: "record_dict \<Rightarrow> live_memo option \<Rightarrow> str option" where
  "backfill_hash account memo =
     (case string_field account (S ''access_token_sha256'') of
        None \<Rightarrow> None
      | Some h \<Rightarrow>
          if has_key account (S ''claude_usage'') then None
          else case memo of Some m \<Rightarrow> (if lm_hash m = h then None else Some h) | None \<Rightarrow> Some h)"

definition clear_expired :: "oauth_key \<Rightarrow> trust_db \<Rightarrow> trust_db" where
  "clear_expired key d = snd (mutation (set_oauth_login key None) d)"

definition login_locked :: "world \<Rightarrow> bool" where
  "login_locked w \<longleftrightarrow> (\<exists>q \<in> set (w_requests w). case q of Minting _ \<Rightarrow> True | Persisting _ _ \<Rightarrow> True | _ \<Rightarrow> False)"

datatype trust_action = Refresh runtime | Operator_reset runtime | Policy_change | Login runtime | Connection | Clock

inductive trust_step :: "trust_env \<Rightarrow> world \<Rightarrow> trust_action \<Rightarrow> world \<Rightarrow> bool" for E where
  refresh_start: "w_refresh w r = Idle \<Longrightarrow>
    trust_step E w (Refresh r)
      (at_phase r (if enabled E w r then Probing (map_option pk_server (w_parked w)) else Deactivating) w)"
| clock: "w_clock w \<le> c \<Longrightarrow> trust_step E w Clock (w\<lparr>w_clock := c\<rparr>)"
| refresh_deactivate: "w_refresh w r = Deactivating \<Longrightarrow> mark_runtime_deactivated r (w_db w) (w_status w) = (d, st) \<Longrightarrow>
    trust_step E w (Refresh r) (at_phase r Idle (w\<lparr>w_db := d, w_status := st\<rparr>))"
| refresh_server_died: "w_refresh w Codex = Probing s \<Longrightarrow> s \<noteq> None \<Longrightarrow>
    trust_step E w (Refresh Codex)
      (at_phase Codex (Probing None) (w\<lparr>w_parked := pop_parked (\<lambda>p. Some (pk_server p) = s) (w_parked w)\<rparr>))"
| refresh_probed: "w_refresh w r = Probing s \<Longrightarrow>
    parked' = (if r = Codex then note_completed s completed account_id (w_parked w) else w_parked w) \<Longrightarrow>
    reports' = (if parked' = w_parked w then w_reports w
                else case (parked', account_id) of (Some p, Some a) \<Rightarrow> (pk_login p, a) # w_reports w | _ \<Rightarrow> w_reports w) \<Longrightarrow>
    trust_step E w (Refresh r)
      (at_phase r (after_probe r p) (w\<lparr>w_parked := parked', w_reports := reports'\<rparr>))"
| refresh_live: "w_refresh w r = Live a \<Longrightarrow>
    trust_step E w (Refresh r)
      (at_phase r (case live_claude_status a force tick (w_live_memo w) (read_claude_account (w_db w)) of
                     Settled p \<Rightarrow> Checking p | Must_probe h \<Rightarrow> Validating a h) w)"
| refresh_validated: "w_refresh w r = Validating a h \<Longrightarrow>
    probe_claude_status a h answer current (w_clock w) tick = (p, memo) \<Longrightarrow>
    trust_step E w (Refresh r)
      (at_phase r (Checking p) (w\<lparr>w_live_memo := or_else memo (w_live_memo w)\<rparr>))"
| refresh_capture: "w_refresh w r = Capturing p \<Longrightarrow>
    trust_step E w (Refresh r) (at_phase r (capture_phase p (w_clock w) (w_db w)) w)"
| refresh_ask: "w_refresh w r = Asking p login_id \<Longrightarrow>
    trust_step E w (Refresh r)
      (at_phase r (case read_completed_device_login_account_id login_id (w_parked w) of
                     Inr (Some a) \<Rightarrow> Storing p login_id a | _ \<Rightarrow> Checking p) w)"
| refresh_store: "w_refresh w r = Storing p login_id a \<Longrightarrow>
    trust_step E w (Refresh r)
      (at_phase r (Checking p)
        (w\<lparr>w_db := snd (mutation (capture_completed_codex_oauth_login login_id a (w_clock w)) (w_db w))\<rparr>))"
| refresh_clear: "w_refresh w r = Clearing key p \<Longrightarrow>
    trust_step E w (Refresh r)
      (at_phase r (if key = Codex_login then Checking p else Committing p None None)
        (w\<lparr>w_db := clear_expired key (w_db w)\<rparr>))"
| refresh_check: "w_refresh w r = Checking p \<Longrightarrow>
    trust_step E w (Refresh r)
      (at_phase r (check_phase r p (w_clock w) tick (w_attest_memo w) (w_db w)) w)"
| refresh_attest_failed: "w_refresh w r = Attesting p h \<Longrightarrow>
    trust_step E w (Refresh r)
      (at_phase r (Committing p None (Some e))
        (w\<lparr>w_attest_memo := Some \<lparr>am_hash = h, am_attested = None, am_error = Some e, am_at = tick\<rparr>\<rparr>))"
| refresh_attested: "w_refresh w r = Attesting p h \<Longrightarrow> honest E a \<Longrightarrow>
    trust_step E w (Refresh r)
      (at_phase r (Committing p (Some a) None)
        (w\<lparr>w_attest_memo := Some \<lparr>am_hash = h, am_attested = Some a, am_error = None, am_at = tick\<rparr>\<rparr>))"
| refresh_commit: "w_refresh w r = Committing (status, message, account) attested e \<Longrightarrow>
    commit_refresh (te_le E) r status message (active_account_value r status account) attested e (w_clock w) (w_db w) (w_status w)
      = (result, d, st) \<Longrightarrow>
    trust_step E w (Refresh r) (at_phase r (committed_phase r result) (w\<lparr>w_db := d, w_status := st\<rparr>))"
| refresh_close: "w_refresh w r = Closing login_id \<Longrightarrow>
    trust_step E w (Refresh r)
      (at_phase r Idle (w\<lparr>w_parked := pop_parked (\<lambda>p. pk_login p = login_id) (w_parked w)\<rparr>))"
| refresh_no_backfill: "w_refresh w r = Backfilling a \<Longrightarrow>
    backfill_hash a (w_live_memo w) = None \<or> failed \<Longrightarrow>
    trust_step E w (Refresh r) (at_phase r Idle w)"
| refresh_backfill: "w_refresh w r = Backfilling a \<Longrightarrow> backfill_hash a (w_live_memo w) = Some h \<Longrightarrow>
    trust_step E w (Refresh r)
      (at_phase r (if usage = [] then Idle else Backfill_saving h (checked_claude_usage (w_clock w) usage))
        (w\<lparr>w_live_memo := Some (memo_claude_probe h (S ''active'') None (checked_claude_usage (w_clock w) usage) tick)\<rparr>))"
| refresh_backfill_save: "w_refresh w r = Backfill_saving h usage \<Longrightarrow>
    trust_step E w (Refresh r)
      (at_phase r Idle (w\<lparr>w_db := snd (mutation (backfill_claude_rows h usage) (w_db w))\<rparr>))"
| login_mint: "oauth_runtime r \<Longrightarrow> \<not> login_locked w \<Longrightarrow> start_oauth_login (te_le E) r (w_db w) (w_status w) = Mint \<Longrightarrow>
    trust_step E w (Login r) (w\<lparr>w_requests := w_requests w @ [Minting r]\<rparr>)"
| login_mint_failed: "w_requests w = qs @ Minting r # qs' \<Longrightarrow>
    trust_step E w (Login r) (w\<lparr>w_requests := qs @ qs'\<rparr>)"
| login_minted: "w_requests w = qs @ Minting r # qs' \<Longrightarrow>
    trust_step E w (Login r)
      (w\<lparr>w_requests := qs @ Persisting r (minted_login r url expires code login_id) # qs',
         w_next_server := Suc (w_next_server w),
         w_parked := (if r = Codex
                      then Some \<lparr>pk_server = w_next_server w, pk_login = login_id, pk_completed = False, pk_account = None\<rparr>
                      else w_parked w)\<rparr>)"
| login_persisted: "w_requests w = qs @ Persisting r l # qs' \<Longrightarrow> login_available (te_le E) r (w_db w) (w_status w) \<Longrightarrow>
    trust_step E w (Login r)
      (w\<lparr>w_requests := qs @ qs', w_db := snd (mutation (set_oauth_login (login_key r) (Some l)) (w_db w))\<rparr>)"
| login_lost: "w_requests w = qs @ Persisting r l # qs' \<Longrightarrow> \<not> login_available (te_le E) r (w_db w) (w_status w) \<Longrightarrow>
    trust_step E w (Login r)
      (w\<lparr>w_requests := qs @ qs', w_parked := (if r = Codex then None else w_parked w)\<rparr>)"
| complete_claude: "enabled E w Claude_code \<Longrightarrow>
    trust_step E w (Login Claude_code) (w\<lparr>w_requests := w_requests w @ [Completing]\<rparr>)"
| complete_claude_failed: "w_requests w = qs @ Completing # qs' \<Longrightarrow>
    trust_step E w (Login Claude_code) (w\<lparr>w_requests := qs @ qs'\<rparr>)"
| completed_claude: "w_requests w = qs @ Completing # qs' \<Longrightarrow>
    trust_step E w (Login Claude_code) (w\<lparr>w_requests := qs @ Marking token_hash # qs'\<rparr>)"
| mark_claude: "w_requests w = qs @ Marking token_hash # qs' \<Longrightarrow>
    trust_step E w (Login Claude_code)
      (w\<lparr>w_requests := qs @ Completed_refresh # qs',
         w_db := snd (mutation (mark_oauth_login_completed Claude_login token_hash (w_clock w)) (w_db w))\<rparr>)"
| refreshed_claude: "w_requests w = qs @ Completed_refresh # qs' \<Longrightarrow>
    trust_step E w (Login Claude_code)
      (w\<lparr>w_requests := qs @ qs',
         w_db := (if active then w_db w else clear_expired Claude_login (w_db w))\<rparr>)"
| reset_rows: "oauth_runtime r \<Longrightarrow> reset_linked_account_in_state (te_le E) r (w_db w) (w_status w) = (d, st) \<Longrightarrow>
    trust_step E w (Operator_reset r) (w\<lparr>w_db := d, w_status := st, w_requests := w_requests w @ [Resetting r]\<rparr>)"
| reset_rest: "w_requests w = qs @ Resetting r # qs' \<Longrightarrow>
    trust_step E w (Operator_reset r)
      (w\<lparr>w_requests := qs @ qs', w_live_memo := (if r = Claude_code then None else w_live_memo w),
         w_parked := (if r = Codex then None else w_parked w)\<rparr>)"
| policy_saved: "replace_network_policy (te_re_ok E) body (w_clock w) (td_policy (w_db w)) = Inr (response, t) \<Longrightarrow>
    trust_step E w Policy_change
      (w\<lparr>w_db := (w_db w)\<lparr>td_policy := t\<rparr>,
         w_requests := w_requests w @ [Reconciling [Codex, Claude_code, Hermes]]\<rparr>)"
| reconcile_done: "w_requests w = qs @ Reconciling [] # qs' \<Longrightarrow>
    trust_step E w Policy_change (w\<lparr>w_requests := qs @ qs'\<rparr>)"
| reconcile_look: "w_requests w = qs @ Reconciling (r # rs) # qs' \<Longrightarrow>
    trust_step E w Policy_change
      (w\<lparr>w_requests := qs @ (if enabled E w r then Reconciling rs else Switching_off r rs) # qs'\<rparr>)"
| reconcile_mark: "w_requests w = qs @ Switching_off r rs # qs' \<Longrightarrow> mark_runtime_deactivated r (w_db w) (w_status w) = (d, st) \<Longrightarrow>
    trust_step E w Policy_change (w\<lparr>w_db := d, w_status := st, w_requests := qs @ Reconciling rs # qs'\<rparr>)"
| bedrock_connected: "connect_bedrock_request body = Inr (key_id, secret, region) \<Longrightarrow>
    string_field identity (S ''access_key_id'') = Some key_id \<Longrightarrow>
    trust_step E w Connection
      (w\<lparr>w_db := snd (mutation (connect_bedrock_rows key_id secret region (bedrock_account key_id identity)) (w_db w))\<rparr>)"
| bedrock_disconnected: "disconnect_bedrock (te_le E) (w_db w) (w_status w) = (d, st) \<Longrightarrow>
    trust_step E w Connection (w\<lparr>w_db := d, w_status := st\<rparr>)"

end
