(* ===== verification/ProviderInvariants.thy ===== *)
theory ProviderInvariants
  imports ProviderMachine
begin

text \<open>
  What the machine of \<open>ProviderMachine\<close> guarantees in every interleaving: the account a provider is
  pinned to is the one an operator approved, an approval is only undone by the operator's reset, and
  a provider whose integration was switched off has no pin left once the change is carried out.
\<close>

subsection \<open>Anchors\<close>

text \<open>The approved account of a provider, and the token hash stored with it.\<close>

definition anchor :: "provider \<Rightarrow> trust_db \<Rightarrow> str option" where
  "anchor p d =
     (case p of
        Openai \<Rightarrow> trusted_openai_account_id (read_openai_account d)
      | Claude \<Rightarrow> trusted_claude_account_id (read_claude_account d)
      | Bedrock \<Rightarrow> None)"

definition stored_token :: "trust_db \<Rightarrow> str option" where
  "stored_token d = string_field (read_claude_account d) (S ''access_token_sha256'')"

definition unpinned :: "provider \<Rightarrow> trust_db \<Rightarrow> bool" where
  "unpinned p d \<longleftrightarrow> td_pins d p = None \<or> td_pins d p = Some (None, None)"

definition pinned_to_anchor :: "trust_db \<Rightarrow> bool" where
  "pinned_to_anchor d \<longleftrightarrow>
     (unpinned Openai d \<or> (\<exists>a. td_pins d Openai = Some (Some a, None) \<and> anchor Openai d = Some a))
     \<and> (unpinned Claude d
        \<or> (\<exists>a h. td_pins d Claude = Some (Some a, Some h) \<and> anchor Claude d = Some a \<and> stored_token d = Some h))"

definition anchor_attested :: "trust_env \<Rightarrow> trust_db \<Rightarrow> bool" where
  "anchor_attested E d \<longleftrightarrow>
     (\<forall>a. anchor Claude d = Some a \<longrightarrow> (\<exists>h. stored_token d = Some h \<and> te_identity E h = a))"

definition rows_ok :: "trust_db \<Rightarrow> bool" where
  "rows_ok d \<longleftrightarrow> (\<forall>p i m. td_accounts d p = Some (i, m) \<longrightarrow> jget m (S ''account_id'') = JNull)"

definition tables_trusted :: "trust_env \<Rightarrow> trust_db \<Rightarrow> bool" where
  "tables_trusted E d \<longleftrightarrow> pinned_to_anchor d \<and> anchor_attested E d \<and> rows_ok d"

lemma marker_nonempty [simp]: "OPENAI_OPERATOR_APPROVAL \<noteq> []" "CLAUDE_IDENTITY_ATTESTATION \<noteq> []"
  by (simp_all add: OPENAI_OPERATOR_APPROVAL_def CLAUDE_IDENTITY_ATTESTATION_def)

lemma anchor_Openai:
  "anchor Openai d = Some a \<longleftrightarrow>
     jget (read_openai_account d) (S ''operator_approval'') = JStr OPENAI_OPERATOR_APPROVAL
     \<and> jget (read_openai_account d) (S ''account_id'') = JStr a \<and> a \<noteq> []"
  by (auto simp: anchor_def trusted_openai_account_id_def)

lemma anchor_Claude:
  "anchor Claude d = Some a \<longleftrightarrow>
     jget (read_claude_account d) (S ''identity_attestation'') = JStr CLAUDE_IDENTITY_ATTESTATION
     \<and> jget (read_claude_account d) (S ''account_id'') = JStr a \<and> a \<noteq> []"
  by (auto simp: anchor_def trusted_claude_account_id_def claude_anchor_is_server_attested_def)

lemma anchor_Bedrock [simp]: "anchor Bedrock d = None"
  by (simp add: anchor_def)

lemma anchor_frame: "p = Bedrock \<or> td_accounts d' p = td_accounts d p \<Longrightarrow> anchor p d' = anchor p d"
  by (cases p) (simp_all add: anchor_def read_provider_account_def)

lemma stored_token_frame: "td_accounts d' Claude = td_accounts d Claude \<Longrightarrow> stored_token d' = stored_token d"
  by (simp add: stored_token_def read_provider_account_def)

subsection \<open>The statements\<close>

named_theorems statement_effects \<open>what the statements on the trust tables do when they succeed\<close>

lemma set_oauth_login_effect [statement_effects]:
  "set_oauth_login key l d = Inr (u, d') \<longleftrightarrow>
     (case l of None \<Rightarrow> True | Some l \<Rightarrow> login_allowed key l) \<and> d' = d\<lparr>td_logins := (td_logins d)(key := l)\<rparr>"
  by (auto simp: set_oauth_login_def txn_simps)

lemma append_runtime_event_effect [statement_effects]:
  "append_runtime_event e r d = Inr (u, d') \<longleftrightarrow> d' = d\<lparr>td_events := td_events d @ [(S e, r)]\<rparr>"
  by (auto simp: append_runtime_event_def txn_simps)

lemma save_proxy_openai_effect [statement_effects]:
  "save_proxy_openai_account_id x d = Inr (u, d') \<longleftrightarrow> d' = d\<lparr>td_pins := (td_pins d)(Openai := Some (x, None))\<rparr>"
  by (auto simp: save_proxy_openai_account_id_def save_proxy_pin_def nullable_text_def text_param_def jget_Cons txn_simps
      split: option.splits)

lemma save_proxy_claude_effect:
  "save_proxy_claude_account None d = Inr (u, d') \<longleftrightarrow> d' = d\<lparr>td_pins := (td_pins d)(Claude := Some (None, None))\<rparr>"
  "jget a (S ''account_id'') = JStr i \<Longrightarrow> jget a (S ''access_token_sha256'') = JStr h \<Longrightarrow>
     save_proxy_claude_account (Some a) d = Inr (u, d') \<longleftrightarrow>
       is_sha256 h \<and> d' = d\<lparr>td_pins := (td_pins d)(Claude := Some (Some i, Some h))\<rparr>"
  by (auto simp: save_proxy_claude_account_def save_proxy_pin_def nullable_text_def text_param_def txn_simps)

lemma sync_none_effect [statement_effects]:
  "oauth_runtime r \<Longrightarrow>
   sync_runtime_proxy_pin r None d = Inr (u, d') \<longleftrightarrow> d' = d\<lparr>td_pins := (td_pins d)(provider_of r := Some (None, None))\<rparr>"
  by (auto simp: sync_runtime_proxy_pin_def oauth_runtime_def save_proxy_claude_effect statement_effects)

lemma clear_oauth_login_effect [statement_effects]:
  "clear_oauth_login r d = Inr (u, d') \<longleftrightarrow>
     d' = (if r = Hermes then d else d\<lparr>td_logins := (td_logins d)(login_key r := None)\<rparr>)"
  by (auto simp: clear_oauth_login_def txn_simps statement_effects)

text \<open>A saved account: only its row changes, and the row is read back field by field.\<close>

lemma save_account_effect:
  assumes "save_provider_account p data d = Inr (u, d')"
  shows "\<exists>i. d' = d\<lparr>td_accounts := (td_accounts d)(p := Some (i, filter (\<lambda>(key, value). key \<noteq> S ''account_id'') data))\<rparr>"
  using assms
  by (auto simp: save_provider_account_def Let_def txn_simps nullable_text_def text_param_def split: if_splits json.splits)

lemma save_account_frame:
  assumes "save_provider_account p data d = Inr (u, d')"
  shows "td_policy d' = td_policy d \<and> td_pins d' = td_pins d \<and> (\<forall>q. q \<noteq> p \<longrightarrow> td_accounts d' q = td_accounts d q)"
proof -
  from save_account_effect [OF assms] obtain i where
      "d' = d\<lparr>td_accounts := (td_accounts d)(p := Some (i, filter (\<lambda>(key, value). key \<noteq> S ''account_id'') data))\<rparr>" by blast
  then show ?thesis by simp
qed

lemma rows_ok_save: "save_provider_account p data d = Inr (u, d') \<Longrightarrow> rows_ok d \<Longrightarrow> rows_ok d'"
  using save_account_effect [of p data d u d'] by (auto simp: rows_ok_def jget_filter_other split: if_splits)

subsection \<open>Blocks that touch no approved account\<close>

definition quiet :: "trust_db \<Rightarrow> trust_db \<Rightarrow> bool" where
  "quiet d d' \<longleftrightarrow>
     td_policy d' = td_policy d \<and> (\<forall>p. p \<noteq> Bedrock \<longrightarrow> td_accounts d' p = td_accounts d p)
     \<and> (\<forall>p. td_pins d' p = td_pins d p \<or> td_pins d' p = Some (None, None))
     \<and> (rows_ok d \<longrightarrow> rows_ok d')"

lemma quiet_refl: "reflp quiet"
  by (simp add: reflp_def quiet_def)

lemma quiet_trans: "transp quiet"
  unfolding transp_def quiet_def by metis

lemma quiet_frame:
  "td_policy d' = td_policy d \<Longrightarrow> td_accounts d' = td_accounts d \<Longrightarrow> td_pins d' = td_pins d \<Longrightarrow> quiet d d'"
  by (simp add: quiet_def rows_ok_def)

lemma quiet_anchor: "quiet d d' \<Longrightarrow> anchor p d' = anchor p d"
  by (rule anchor_frame) (auto simp: quiet_def)

lemma quiet_unpinned: "quiet d d' \<Longrightarrow> unpinned p d \<Longrightarrow> unpinned p d'"
  unfolding quiet_def unpinned_def by metis

lemma quiet_trusted:
  assumes "quiet d d'" "tables_trusted E d"
  shows "tables_trusted E d'"
proof -
  have token: "stored_token d' = stored_token d"
    by (rule stored_token_frame) (use assms(1) in \<open>simp add: quiet_def\<close>)
  have pins: "td_pins d' p = td_pins d p \<or> td_pins d' p = Some (None, None)" for p
    using assms(1) by (simp add: quiet_def)
  have "pinned_to_anchor d'"
    using assms(2) pins [of Openai] pins [of Claude] quiet_unpinned [OF assms(1)]
    by (auto simp: tables_trusted_def pinned_to_anchor_def quiet_anchor [OF assms(1)] token unpinned_def)
  moreover have "anchor_attested E d'"
    using assms(2) by (simp add: tables_trusted_def anchor_attested_def quiet_anchor [OF assms(1)] token)
  ultimately show ?thesis using assms by (simp add: tables_trusted_def quiet_def)
qed

named_theorems quiet_blocks \<open>the blocks that change no approved account\<close>

lemmas quiet_pure [quiet_blocks] = relates_pure [OF quiet_refl]

lemma quiet_bind [quiet_blocks]:
  "relates quiet m \<Longrightarrow> (\<And>a. relates quiet (k a)) \<Longrightarrow> relates quiet (bind_txn m k)"
  by (rule relates_bind [OF quiet_trans])

lemma quiet_then [quiet_blocks]: "relates quiet m \<Longrightarrow> relates quiet k \<Longrightarrow> relates quiet (then_txn m k)"
  by (rule relates_then [OF quiet_trans])

lemma quiet_set_login [quiet_blocks]: "relates quiet (set_oauth_login key l)"
  by (rule relatesI) (auto simp: statement_effects intro: quiet_frame)

lemma quiet_event [quiet_blocks]: "relates quiet (append_runtime_event e r)"
  by (rule relatesI) (auto simp: statement_effects intro: quiet_frame)

lemma quiet_clear [quiet_blocks]: "relates quiet (clear_oauth_login r)"
  by (simp add: clear_oauth_login_def quiet_blocks)

lemma quiet_sync [quiet_blocks]: "oauth_runtime r \<Longrightarrow> relates quiet (sync_runtime_proxy_pin r None)"
  by (rule relatesI) (auto simp: statement_effects quiet_def rows_ok_def)

lemma quiet_deactivated [quiet_blocks]: "relates quiet (deactivated_rows r previous)"
  unfolding deactivated_rows_def by (auto intro!: quiet_blocks)

lemma quiet_current [quiet_blocks]: "relates quiet (current_oauth_login key now)"
  unfolding current_oauth_login_def by (auto intro!: quiet_blocks split: option.split)

lemma quiet_completed [quiet_blocks]: "relates quiet (completed_oauth_login key now)"
  unfolding completed_oauth_login_def by (auto intro!: quiet_blocks)

lemma quiet_mark [quiet_blocks]: "relates quiet (mark_oauth_login_completed key h now)"
  unfolding mark_oauth_login_completed_def Let_def by (auto intro!: quiet_blocks split: option.split)

lemma quiet_approved [quiet_blocks]: "relates quiet (claude_first_capture_approved h now)"
  unfolding claude_first_capture_approved_def by (auto intro!: quiet_blocks)

lemma quiet_decision [quiet_blocks]: "relates quiet (refresh_decision r status message account attested e now)"
  unfolding refresh_decision_def trusted_active_account_def trusted_claude_account_def trusted_openai_account_def Let_def
  by (auto intro!: quiet_blocks split: option.split)

lemma quiet_bedrock_account [quiet_blocks]: "relates quiet (save_bedrock_account a)"
proof (rule relatesI)
  fix d u d' assume saved: "save_bedrock_account a d = Inr (u, d')"
  then obtain data where data: "save_provider_account Bedrock data d = Inr (u, d')"
    by (auto simp: save_bedrock_account_def)
  show "quiet d d'"
    using save_account_effect [OF data] rows_ok_save [OF data] by (auto simp: quiet_def)
qed

lemma quiet_bedrock [quiet_blocks]:
  "relates quiet (save_bedrock_credential k s g)" "relates quiet delete_bedrock_credential"
  unfolding save_bedrock_credential_def delete_bedrock_credential_def
  by (auto intro!: quiet_blocks relatesI quiet_frame simp: txn_simps)

lemma quiet_connections [quiet_blocks]:
  "relates quiet (connect_bedrock_rows k s g a)"
  unfolding connect_bedrock_rows_def by (auto intro!: quiet_blocks)

lemma quiet_mutation: "relates quiet m \<Longrightarrow> quiet d (snd (mutation m d))"
  by (rule relates_mutation [OF quiet_refl])

lemma quiet_disconnect: "disconnect_bedrock le d st = (d', st') \<Longrightarrow> quiet d d'"
  unfolding disconnect_bedrock_def by (auto intro!: quiet_mutation quiet_blocks)

lemma quiet_deactivate: "mark_runtime_deactivated r d st = (d', st') \<Longrightarrow> quiet d d'"
  unfolding mark_runtime_deactivated_def by (auto intro!: quiet_mutation quiet_blocks)

text \<open>A deactivation cannot fail, so it leaves the provider without a pin.\<close>

lemma deactivated_unpinned:
  assumes "mark_runtime_deactivated r d st = (d', st')" "oauth_runtime r"
  shows "unpinned (provider_of r) d'"
proof -
  have "\<exists>d1. deactivated_rows r (fst (st r)) d = Inr ((), d1) \<and> td_pins d1 (provider_of r) = Some (None, None)"
    using assms(2) by (simp add: deactivated_rows_def txn_simps statement_effects)
  with assms(1) show ?thesis by (auto simp: mark_runtime_deactivated_def mutation_def unpinned_def)
qed

subsection \<open>Blocks that write an approved account\<close>

text \<open>
  \<open>moves E approved d d'\<close>: no anchor is lost or replaced, one that appears satisfies \<open>approved\<close>, and the
  tables stay trusted.
\<close>

definition moves :: "trust_env \<Rightarrow> (provider \<Rightarrow> str \<Rightarrow> bool) \<Rightarrow> trust_db \<Rightarrow> trust_db \<Rightarrow> bool" where
  "moves E approved d d' \<longleftrightarrow>
     td_policy d' = td_policy d
     \<and> (\<forall>p. anchor p d' = anchor p d \<or> (anchor p d = None \<and> (\<exists>a. anchor p d' = Some a \<and> approved p a)))
     \<and> tables_trusted E d'"

lemma quiet_moves: "quiet d d' \<Longrightarrow> tables_trusted E d \<Longrightarrow> moves E approved d d'"
  by (simp add: moves_def quiet_anchor quiet_trusted) (simp add: quiet_def)

lemma all_providers: "(\<forall>p. P p) \<longleftrightarrow> P Openai \<and> P Claude \<and> P Bedrock"
  by (metis provider.exhaust)

text \<open>The account id of a row is absent or a text, so a row written back keeps its fields.\<close>

lemma stored_account_id:
  "rows_ok d \<Longrightarrow> jget (read_provider_account p d) (S ''account_id'') = JNull
     \<or> (\<exists>s. jget (read_provider_account p d) (S ''account_id'') = JStr s)"
  by (auto simp: read_provider_account_def rows_ok_def jget_update split: option.split)

lemma backfill_moves:
  assumes run: "backfill_claude_rows h usage d = Inr (u, d')" and ok: "tables_trusted E d"
  shows "moves E approved d d' \<and> td_pins d' = td_pins d"
proof (cases "string_field (read_claude_account d) (S ''access_token_sha256'') = Some h")
  case False
  then have "d' = d" using run by (simp add: backfill_claude_rows_def txn_simps)
  then show ?thesis using quiet_moves [OF quiet_frame ok] by simp
next
  case True
  let ?data = "AList.update (S ''claude_usage'') (JObj usage) (read_claude_account d)"
  have saved: "save_provider_account Claude ?data d = Inr (u, d')"
    using run True by (simp add: backfill_claude_rows_def save_claude_account_def txn_simps)
  have frame: "td_policy d' = td_policy d" "td_pins d' = td_pins d" "td_accounts d' Openai = td_accounts d Openai"
    using save_account_effect [OF saved] by auto
  have read: "jget (read_claude_account d') k = jget ?data k" for k
    using jget_read_saved [OF saved, of k] stored_account_id [of d Claude] ok
    by (simp add: jget_update tables_trusted_def)
  have claude: "anchor Claude d' = anchor Claude d" and token: "stored_token d' = stored_token d"
    by (simp_all add: anchor_def trusted_claude_account_id_def claude_anchor_is_server_attested_def stored_token_def
        string_field_def read jget_update)
  have openai: "anchor Openai d' = anchor Openai d" using frame(3) by (intro anchor_frame) simp
  have "tables_trusted E d'"
    using ok rows_ok_save [OF saved]
    by (auto simp: tables_trusted_def pinned_to_anchor_def anchor_attested_def unpinned_def claude openai token frame)
  then show ?thesis using frame claude openai by (simp add: moves_def all_providers)
qed

lemma capture_moves:
  assumes run: "capture_completed_codex_oauth_login login_id a now d = Inr (u, d')" and ok: "tables_trusted E d"
    and evidence: "\<And>l. oauth_login Codex_login d = Some l \<Longrightarrow> \<not> login_expired now l \<Longrightarrow> lg_id l = Some login_id \<Longrightarrow>
      approved Openai a"
  shows "moves E approved d d' \<and> td_pins d' = td_pins d"
proof (cases "anchor Openai d")
  case (Some t)
  then have "d' = d" using run by (simp add: capture_completed_codex_oauth_login_def anchor_def txn_simps)
  then show ?thesis using quiet_moves [OF quiet_frame ok] by simp
next
  case None
  then have new: "trusted_openai_account_id (read_openai_account d) = None" by (simp add: anchor_def)
  obtain l d1 where current: "current_oauth_login Codex_login now d = Inr (l, d1)"
    using run by (auto simp: capture_completed_codex_oauth_login_def txn_simps new)
  have d1: "quiet d d1" using relatesD [OF quiet_current current] .
  have d1_pins: "td_pins d1 = td_pins d"
    using current by (auto simp: current_oauth_login_def txn_simps statement_effects split: option.splits if_splits)
  show ?thesis
  proof (cases "\<exists>l'. l = Some l' \<and> nonempty (lg_id l') = Some login_id")
    case False
    then have "d' = d1" using run current
      by (auto simp: capture_completed_codex_oauth_login_def txn_simps new split: option.splits if_splits)
    then show ?thesis using d1 d1_pins quiet_moves [OF _ ok] by simp
  next
    case True
    then obtain l' where l': "l = Some l'" "nonempty (lg_id l') = Some login_id" by blast
    have login: "oauth_login Codex_login d = Some l'" "\<not> login_expired now l'" "d1 = d" "lg_id l' = Some login_id"
      using current l' by (auto simp: current_oauth_login_def txn_simps nonempty_def split: option.splits if_splits)
    let ?data = "with_openai_operator_approval [(S ''account_id'', JStr a)]"
    obtain logins where d2: "save_provider_account Openai ?data (d\<lparr>td_logins := logins\<rparr>) = Inr ((), d')"
      using run current l' login(3)
      by (auto simp: capture_completed_codex_oauth_login_def txn_simps new save_openai_account_def statement_effects)
    have frame: "td_policy d' = td_policy d" "td_pins d' = td_pins d" "td_accounts d' Claude = td_accounts d Claude"
      using save_account_effect [OF d2] by auto
    have read: "jget (read_openai_account d') k = jget ?data k" for k
      using jget_read_saved [OF d2, of k] by (simp add: with_openai_operator_approval_def jget_update jget_Cons)
    have openai: "anchor Openai d' = (if a = [] then None else Some a)"
      by (simp add: anchor_def trusted_openai_account_id_def string_field_def read with_openai_operator_approval_def
          jget_update jget_Cons)
    have claude: "anchor Claude d' = anchor Claude d" by (rule anchor_frame) (simp add: frame)
    have token: "stored_token d' = stored_token d" by (rule stored_token_frame) (simp add: frame)
    have "rows_ok (d\<lparr>td_logins := logins\<rparr>)" using ok by (simp add: tables_trusted_def rows_ok_def)
    then have "tables_trusted E d'"
      using ok rows_ok_save [OF d2] None
      by (auto simp: tables_trusted_def pinned_to_anchor_def anchor_attested_def unpinned_def claude token frame)
    then show ?thesis
      using frame claude openai None evidence [OF login(1,2,4)] by (auto simp: moves_def all_providers)
  qed
qed

text \<open>The verdicts of a refresh name the account that is approved.\<close>

lemma with_identity_fields:
  "jget (with_identity account a source now) (S ''account_id'') = JStr a"
  "jget (with_identity account a source now) (S ''access_token_sha256'') = jget account (S ''access_token_sha256'')"
  "string_field source (S ''account_uuid'') \<noteq> None \<or> claude_anchor_is_server_attested source \<Longrightarrow>
     jget (with_identity account a source now) (S ''identity_attestation'') = JStr CLAUDE_IDENTITY_ATTESTATION"
  by (auto simp: with_identity_def Let_def jget_update update_if_def split: option.split)

lemma approved_login:
  assumes "claude_first_capture_approved h now d = Inr (True, d')"
  obtains l where "oauth_login Claude_login d = Some l" "\<not> login_expired now l" "lg_status l = S ''completed''"
    "lg_token_hash l = Some h"
  using assms
  by (auto simp: claude_first_capture_approved_def completed_oauth_login_def current_oauth_login_def txn_simps nonempty_def
      split: option.splits if_splits)

definition claude_evidence :: "trust_env \<Rightarrow> str \<Rightarrow> trust_db \<Rightarrow> str \<Rightarrow> bool" where
  "claude_evidence E now d a \<longleftrightarrow>
     (\<exists>l h. oauth_login Claude_login d = Some l \<and> \<not> login_expired now l \<and> lg_status l = S ''completed''
        \<and> lg_token_hash l = Some h \<and> te_identity E h = a)"

lemma attested_verdict_Trusted:
  assumes "attested_verdict account h trusted attested e now = Trusted v" "\<forall>a. attested = Some a \<longrightarrow> honest E a"
  obtains u a where "v = with_identity account u a now" "string_field a (S ''account_uuid'') = Some u" "te_identity E h = u"
    "trusted = None \<or> trusted = Some u"
  using assms
  by (auto simp: attested_verdict_def honest_def string_field_def split: option.splits if_splits json.splits)

lemma claude_verdict:
  assumes run: "trusted_claude_account account attested e now d = Inr (Trusted v, d')"
    and honest: "\<forall>a. attested = Some a \<longrightarrow> honest E a" and ok: "tables_trusted E d"
  shows "\<exists>u h. jget v (S ''account_id'') = JStr u \<and> u \<noteq> [] \<and> jget v (S ''access_token_sha256'') = JStr h \<and> h \<noteq> []
     \<and> jget v (S ''identity_attestation'') = JStr CLAUDE_IDENTITY_ATTESTATION \<and> te_identity E h = u
     \<and> (anchor Claude d = Some u \<or> (anchor Claude d = None \<and> claude_evidence E now d u))"
proof -
  obtain h where h: "string_field account (S ''access_token_sha256'') = Some h"
    using run by (auto simp: trusted_claude_account_def txn_simps split: option.splits)
  show ?thesis
  proof (cases "anchor Claude d")
    case (Some t)
    then have t: "trusted_claude_account_id (read_claude_account d) = Some t" by (simp add: anchor_def)
    show ?thesis
    proof (cases "string_field (read_claude_account d) (S ''access_token_sha256'') = Some h")
      case True
      then have "v = with_identity account t (read_claude_account d) now"
        using run h t by (auto simp: trusted_claude_account_def txn_simps Let_def)
      moreover have "te_identity E h = t" using ok Some True by (auto simp: tables_trusted_def anchor_attested_def stored_token_def)
      moreover have "claude_anchor_is_server_attested (read_claude_account d)" "t \<noteq> []"
        using t by (auto simp: trusted_claude_account_id_def split: if_splits)
      ultimately show ?thesis using h Some by (auto simp: with_identity_fields)
    next
      case False
      then have "attested_verdict account h (Some t) attested e now = Trusted v"
        using run h t by (auto simp: trusted_claude_account_def txn_simps Let_def)
      from attested_verdict_Trusted [OF this honest] obtain u a where
          "v = with_identity account u a now" "string_field a (S ''account_uuid'') = Some u" "te_identity E h = u" "t = u"
        by (metis option.distinct(1) option.inject)
      then show ?thesis using h Some by (auto simp: with_identity_fields)
    qed
  next
    case None
    then have t: "trusted_claude_account_id (read_claude_account d) = None" by (simp add: anchor_def)
    then have approved: "claude_first_capture_approved h now d = Inr (True, d')"
        and verdict: "attested_verdict account h None attested e now = Trusted v"
      using run h by (auto simp: trusted_claude_account_def txn_simps Let_def split: if_splits)
    from attested_verdict_Trusted [OF verdict honest] obtain u a where
        v: "v = with_identity account u a now" "string_field a (S ''account_uuid'') = Some u" "te_identity E h = u" by metis
    moreover from approved_login [OF approved] v(3) have "claude_evidence E now d u"
      unfolding claude_evidence_def by metis
    ultimately show ?thesis using h None by (auto simp: with_identity_fields)
  qed
qed

subsection \<open>The commit of a refresh\<close>

lemma codex_verdict:
  assumes "trusted_openai_account account d = Inr (Trusted v, d')"
  shows "\<exists>t. anchor Openai d = Some t \<and> jget v (S ''account_id'') = JStr t \<and> t \<noteq> []
     \<and> jget v (S ''operator_approval'') = JStr OPENAI_OPERATOR_APPROVAL"
  using assms
  by (auto simp: trusted_openai_account_def txn_simps anchor_def with_openai_operator_approval_def jget_update
      split: option.splits if_splits)

lemma quiet_rows: "status \<noteq> S ''active'' \<or> r = Hermes \<Longrightarrow> relates quiet (refresh_rows r previous status account now)"
  unfolding refresh_rows_def
  by (cases r) (auto simp: oauth_runtime_def intro!: quiet_blocks)

lemma stamp_other: "k \<noteq> key \<Longrightarrow> jget (stamp_usage_checked_at key now v) k = jget v k"
  by (auto simp: stamp_usage_checked_at_def jget_update split: json.split)

lemma codex_rows:
  assumes run: "refresh_rows Codex previous (S ''active'') (Some v) now d = Inr (x, d')"
    and v: "jget v (S ''account_id'') = JStr t" "t \<noteq> []" "jget v (S ''operator_approval'') = JStr OPENAI_OPERATOR_APPROVAL"
    and t: "anchor Openai d = Some t" and ok: "tables_trusted E d"
  shows "moves E approved d d' \<and> (\<forall>p. p \<noteq> Openai \<longrightarrow> td_pins d' p = td_pins d p)"
proof -
  let ?data = "stamp_usage_checked_at (S ''codex_usage'') now v"
  have field: "string_field v (S ''account_id'') = Some t" using v by simp
  have "\<exists>logins d1. save_provider_account Openai ?data (d\<lparr>td_logins := logins\<rparr>) = Inr ((), d1)
      \<and> td_pins d' = (td_pins d1)(Openai := Some (Some t, None)) \<and> td_accounts d' = td_accounts d1 \<and> td_policy d' = td_policy d1"
    using run
    by (fastforce simp: field refresh_rows_def txn_simps statement_effects save_openai_account_def oauth_runtime_def
        sync_runtime_proxy_pin_def stamp_other split: if_splits)
  then obtain logins d1 where d1: "save_provider_account Openai ?data (d\<lparr>td_logins := logins\<rparr>) = Inr ((), d1)"
      and d': "td_pins d' = (td_pins d1)(Openai := Some (Some t, None))" "td_accounts d' = td_accounts d1" "td_policy d' = td_policy d1"
    by blast
  have row: "td_policy d1 = td_policy d" "td_pins d1 = td_pins d" "td_accounts d1 Claude = td_accounts d Claude"
    using save_account_frame [OF d1] by simp_all
  have frame: "td_policy d' = td_policy d" "td_pins d' = (td_pins d)(Openai := Some (Some t, None))"
      "td_accounts d' Claude = td_accounts d Claude" "td_accounts d' = td_accounts d1"
    by (simp_all add: d' row)
  have "jget (read_openai_account d1) k = jget ?data k" for k
    using jget_read_saved [OF d1, of k] v(1) by (simp add: stamp_other)
  then have "anchor Openai d1 = Some t" using v by (simp add: anchor_Openai stamp_other)
  then have openai: "anchor Openai d' = Some t" by (subst anchor_frame [where d = d1]) (simp_all add: frame)
  have claude: "anchor Claude d' = anchor Claude d" by (rule anchor_frame) (simp add: d' row)
  have token: "stored_token d' = stored_token d" by (rule stored_token_frame) (simp add: d' row)
  have "rows_ok (d\<lparr>td_logins := logins\<rparr>)" using ok by (simp add: tables_trusted_def rows_ok_def)
  from rows_ok_save [OF d1 this] have "rows_ok d'" by (simp add: rows_ok_def frame(4))
  then have "tables_trusted E d'"
    using ok openai by (auto simp: tables_trusted_def pinned_to_anchor_def anchor_attested_def unpinned_def claude token frame)
  then show ?thesis using frame openai claude t by (simp add: moves_def all_providers)
qed

lemma claude_rows:
  assumes run: "refresh_rows Claude_code previous (S ''active'') (Some v) now d = Inr (x, d')"
    and v: "jget v (S ''account_id'') = JStr u" "u \<noteq> []" "jget v (S ''access_token_sha256'') = JStr h" "h \<noteq> []"
      "jget v (S ''identity_attestation'') = JStr CLAUDE_IDENTITY_ATTESTATION" "te_identity E h = u"
    and u: "anchor Claude d = Some u \<or> (anchor Claude d = None \<and> approved Claude u)" and ok: "tables_trusted E d"
  shows "moves E approved d d' \<and> (\<forall>p. p \<noteq> Claude \<longrightarrow> td_pins d' p = td_pins d p)"
proof -
  have "\<exists>logins d1. save_provider_account Claude v (d\<lparr>td_logins := logins\<rparr>) = Inr ((), d1)
      \<and> td_pins d' = (td_pins d1)(Claude := Some (Some u, Some h)) \<and> td_accounts d' = td_accounts d1 \<and> td_policy d' = td_policy d1"
    using run v(1,3)
    by (fastforce simp: refresh_rows_def txn_simps statement_effects save_claude_account_def oauth_runtime_def
        sync_runtime_proxy_pin_def save_proxy_claude_effect split: if_splits)
  then obtain logins d1 where d1: "save_provider_account Claude v (d\<lparr>td_logins := logins\<rparr>) = Inr ((), d1)"
      and d': "td_pins d' = (td_pins d1)(Claude := Some (Some u, Some h))" "td_accounts d' = td_accounts d1" "td_policy d' = td_policy d1"
    by blast
  have row: "td_policy d1 = td_policy d" "td_pins d1 = td_pins d" "td_accounts d1 Openai = td_accounts d Openai"
    using save_account_frame [OF d1] by simp_all
  have frame: "td_policy d' = td_policy d" "td_pins d' = (td_pins d)(Claude := Some (Some u, Some h))"
      "td_accounts d' Openai = td_accounts d Openai" "td_accounts d' = td_accounts d1"
    by (simp_all add: d' row)
  have read: "jget (read_claude_account d1) k = jget v k" for k
    using jget_read_saved [OF d1, of k] v(1) by simp
  then have "anchor Claude d1 = Some u" "stored_token d1 = Some h" using v by (simp_all add: anchor_Claude stored_token_def)
  then have claude: "anchor Claude d' = Some u" and token: "stored_token d' = Some h"
    using anchor_frame [of Claude d' d1] stored_token_frame [of d' d1] frame(4) by simp_all
  have openai: "anchor Openai d' = anchor Openai d" by (rule anchor_frame) (simp add: d' row)
  have "rows_ok (d\<lparr>td_logins := logins\<rparr>)" using ok by (simp add: tables_trusted_def rows_ok_def)
  from rows_ok_save [OF d1 this] have "rows_ok d'" by (simp add: rows_ok_def frame(4))
  then have "tables_trusted E d'"
    using ok v(6) by (auto simp: tables_trusted_def pinned_to_anchor_def anchor_attested_def unpinned_def claude openai token frame)
  then show ?thesis using frame openai claude u by (auto simp: moves_def all_providers)
qed

lemma decision_active:
  assumes run: "refresh_decision r status message account attested e now d = Inr ((S ''active'', m, acc), d1)"
    and r: "oauth_runtime r"
  obtains a v where "acc = Some v" "account = Some a"
    "r = Codex \<Longrightarrow> trusted_openai_account a d = Inr (Trusted v, d1)"
    "r = Claude_code \<Longrightarrow> trusted_claude_account a attested e now d = Inr (Trusted v, d1)"
proof -
  have "status = S ''active''" using assms by (auto simp: refresh_decision_def txn_simps split: if_splits)
  then obtain ver where ver: "trusted_active_account r account attested e now d = Inr (ver, d1)"
      and res: "(S ''active'', m, acc) = (case ver of Trusted a \<Rightarrow> (S ''active'', message, Some a)
        | Not_approved \<Rightarrow> (S ''awaiting_login'', None, None) | Untrusted t \<Rightarrow> (S ''error'', Some t, None))"
    using assms by (auto simp: refresh_decision_def txn_simps)
  then obtain v where "ver = Trusted v" "acc = Some v" by (cases ver) auto
  moreover from this ver obtain a where "account = Some a"
    by (auto simp: trusted_active_account_def txn_simps split: option.splits)
  ultimately show thesis
    using ver r that by (auto simp: trusted_active_account_def txn_simps oauth_runtime_def split: if_splits)
qed

lemma quiet_then_moves: "quiet d d1 \<Longrightarrow> moves E approved d1 d2 \<Longrightarrow> moves E approved d d2"
  unfolding moves_def using quiet_anchor [of d d1] by (simp add: quiet_def)

abbreviation commit_approved :: "trust_env \<Rightarrow> str \<Rightarrow> trust_db \<Rightarrow> provider \<Rightarrow> str \<Rightarrow> bool" where
  "commit_approved E now d p a \<equiv> p = Claude \<and> claude_evidence E now d a"

lemma active_rows_moves:
  assumes dec: "refresh_decision r status message account attested e now d = Inr ((S ''active'', m, acc), d1)"
    and rows: "refresh_rows r previous (S ''active'') acc now d1 = Inr (x, d2)" and r: "oauth_runtime r"
    and honest: "\<forall>a. attested = Some a \<longrightarrow> honest E a" and ok: "tables_trusted E d"
  shows "moves E (commit_approved E now d) d d2 \<and> (\<forall>p. p \<noteq> provider_of r \<longrightarrow> unpinned p d \<longrightarrow> unpinned p d2)"
proof -
  have d1: "quiet d d1" using relatesD [OF quiet_decision dec] .
  have ok1: "tables_trusted E d1" using quiet_trusted [OF d1 ok] .
  have same: "anchor p d1 = anchor p d" for p using quiet_anchor [OF d1] .
  obtain a v where v: "acc = Some v" "r = Codex \<Longrightarrow> trusted_openai_account a d = Inr (Trusted v, d1)"
      "r = Claude_code \<Longrightarrow> trusted_claude_account a attested e now d = Inr (Trusted v, d1)"
    using decision_active [OF dec r] by metis
  have "moves E (commit_approved E now d) d1 d2 \<and> (\<forall>p. p \<noteq> provider_of r \<longrightarrow> td_pins d2 p = td_pins d1 p)"
  proof (cases r)
    case Codex
    obtain t where "anchor Openai d = Some t" "jget v (S ''account_id'') = JStr t" "t \<noteq> []"
        "jget v (S ''operator_approval'') = JStr OPENAI_OPERATOR_APPROVAL"
      using codex_verdict [OF v(2) [OF Codex]] by blast
    with codex_rows [OF rows [unfolded v(1) Codex] _ _ _ _ ok1] show ?thesis by (simp add: same Codex)
  next
    case Claude_code
    obtain u h where fields: "jget v (S ''account_id'') = JStr u" "u \<noteq> []" "jget v (S ''access_token_sha256'') = JStr h" "h \<noteq> []"
        "jget v (S ''identity_attestation'') = JStr CLAUDE_IDENTITY_ATTESTATION" "te_identity E h = u"
        and u: "anchor Claude d = Some u \<or> (anchor Claude d = None \<and> claude_evidence E now d u)"
      using claude_verdict [OF v(3) [OF Claude_code] honest ok] by blast
    have "anchor Claude d1 = Some u \<or> (anchor Claude d1 = None \<and> commit_approved E now d Claude u)"
      using u by (simp add: same)
    from claude_rows [where approved = "commit_approved E now d", OF rows [unfolded v(1) Claude_code] fields this ok1] show ?thesis by (simp add: Claude_code)
  next
    case Hermes
    with r show ?thesis by (simp add: oauth_runtime_def)
  qed
  then have moved: "moves E (commit_approved E now d) d1 d2" and pins: "p \<noteq> provider_of r \<Longrightarrow> td_pins d2 p = td_pins d1 p" for p
    by blast+
  have "unpinned p d2" if "p \<noteq> provider_of r" "unpinned p d" for p
    using quiet_unpinned [OF d1 that(2)] pins [OF that(1)] by (simp add: unpinned_def)
  then show ?thesis using quiet_then_moves [OF d1 moved] by blast
qed

lemma commit_moves:
  assumes run: "commit_refresh le r status message account attested e now d st = (result, d', st')"
    and honest: "\<forall>a. attested = Some a \<longrightarrow> honest E a" and ok: "tables_trusted E d"
  shows "moves E (commit_approved E now d) d d'
    \<and> (\<forall>p. unpinned p d \<longrightarrow> unpinned p d' \<or> (p = provider_of r \<and> runtime_network_enabled le d r))"
proof -
  have no_change: ?thesis if "quiet d d'"
    using quiet_moves [OF that ok] quiet_unpinned [OF that] by blast
  have refl: "quiet d d" by (rule quiet_frame) simp_all
  show ?thesis
  proof (cases "runtime_network_enabled le d r")
    case False
    then have "quiet d d'" using run by (auto simp: commit_refresh_def intro: quiet_deactivate)
    then show ?thesis by (rule no_change)
  next
    case enabled: True
    show ?thesis
    proof (cases "refresh_decision r status message account attested e now d")
      case (Inl f)
      then have "d' = d" using run enabled by (simp add: commit_refresh_def)
      then show ?thesis using no_change refl by blast
    next
      case (Inr res)
      then obtain s m acc d1 where dec: "refresh_decision r status message account attested e now d = Inr ((s, m, acc), d1)"
        by (cases res) auto
      show ?thesis
      proof (cases "refresh_rows r (fst (st r)) s acc now d1")
        case (Inl f)
        then have "d' = d" using run enabled dec by (simp add: commit_refresh_def Let_def)
        then show ?thesis using no_change refl by blast
      next
        case (Inr res)
        then obtain x where rows: "refresh_rows r (fst (st r)) s acc now d1 = Inr (x, d')"
          using run enabled dec by (auto simp: commit_refresh_def Let_def split: prod.splits)
        show ?thesis
        proof (cases "s = S ''active'' \<and> oauth_runtime r")
          case False
          then have "relates quiet (refresh_rows r (fst (st r)) s acc now)"
            by (intro quiet_rows) (cases r; simp add: oauth_runtime_def)
          from relatesD [OF this rows] relatesD [OF quiet_decision dec] show ?thesis
            using no_change quiet_trans by (auto elim: transpE)
        next
          case True
          then show ?thesis using active_rows_moves [OF _ _ _ honest ok] dec rows enabled by blast
        qed
      qed
    qed
  qed
qed

text \<open>The reset forgets the account, the pin and the login of one runtime.\<close>

lemma reset_rows:
  assumes run: "reset_linked_account_rows r d = Inr (u, d')" and r: "oauth_runtime r" and ok: "tables_trusted E d"
  shows "td_policy d' = td_policy d \<and> anchor (provider_of r) d' = None \<and> unpinned (provider_of r) d'
    \<and> (\<forall>p. p \<noteq> provider_of r \<longrightarrow> anchor p d' = anchor p d \<and> td_pins d' p = td_pins d p) \<and> tables_trusted E d'"
proof -
  let ?p = "provider_of r"
  let ?data = "if r = Codex then [(S ''account_id'', JNull)] else []"
  have p: "?p = Openai \<or> ?p = Claude" using r by (auto simp: oauth_runtime_def)
  have "\<exists>logins d1. save_provider_account ?p ?data (d\<lparr>td_logins := logins\<rparr>) = Inr ((), d1)
      \<and> td_pins d' = (td_pins d1)(?p := Some (None, None)) \<and> td_accounts d' = td_accounts d1 \<and> td_policy d' = td_policy d1"
    using run r
    by (fastforce simp: reset_linked_account_rows_def txn_simps statement_effects oauth_runtime_def save_openai_account_def
        save_claude_account_def split: if_splits)
  then obtain logins d1 where d1: "save_provider_account ?p ?data (d\<lparr>td_logins := logins\<rparr>) = Inr ((), d1)"
      and d': "td_pins d' = (td_pins d1)(?p := Some (None, None))" "td_accounts d' = td_accounts d1" "td_policy d' = td_policy d1"
    by blast
  have row: "td_policy d1 = td_policy d" "td_pins d1 = td_pins d" "q \<noteq> ?p \<Longrightarrow> td_accounts d1 q = td_accounts d q" for q
    using save_account_frame [OF d1] by simp_all
  have "jget (read_provider_account ?p d1) k = jget ?data k" for k
    using jget_read_saved [OF d1, of k] by (simp add: jget_Cons)
  then have "anchor ?p d1 = None"
    using r by (auto simp: anchor_def trusted_openai_account_id_def trusted_claude_account_id_def oauth_runtime_def
        claude_anchor_is_server_attested_def string_field_def jget_Cons)
  then have gone: "anchor ?p d' = None" by (subst anchor_frame [where d = d1]) (simp_all add: d')
  have others: "anchor q d' = anchor q d" if "q \<noteq> ?p" for q
    by (rule anchor_frame) (simp add: d' row(3) [OF that])
  have token: "stored_token d' = stored_token d" if "?p = Openai"
    by (rule stored_token_frame) (simp add: d' row(3) that)
  have "rows_ok (d\<lparr>td_logins := logins\<rparr>)" using ok by (simp add: tables_trusted_def rows_ok_def)
  from rows_ok_save [OF d1 this] have "rows_ok d'" by (simp add: rows_ok_def d'(2))
  moreover have "pinned_to_anchor d' \<and> anchor_attested E d'"
    using p
  proof
    assume "?p = Openai"
    with ok gone others [of Claude] token show ?thesis
      by (auto simp: tables_trusted_def pinned_to_anchor_def anchor_attested_def unpinned_def d' row)
  next
    assume "?p = Claude"
    with ok gone others [of Openai] show ?thesis
      by (auto simp: tables_trusted_def pinned_to_anchor_def anchor_attested_def unpinned_def d' row)
  qed
  ultimately show ?thesis using gone others by (auto simp: tables_trusted_def unpinned_def d' row)
qed

lemma reset_moves:
  assumes run: "reset_linked_account_in_state le r d st = (d', st')" and r: "oauth_runtime r" and ok: "tables_trusted E d"
  shows "td_policy d' = td_policy d \<and> tables_trusted E d' \<and> (\<forall>p. unpinned p d \<longrightarrow> unpinned p d')
    \<and> (\<forall>p. anchor p d' = anchor p d \<or> (p = provider_of r \<and> anchor p d' = None))"
proof (cases "reset_linked_account_rows r d")
  case (Inl f)
  then show ?thesis using run ok by (auto simp: reset_linked_account_in_state_def mutation_def)
next
  case (Inr res)
  then have "reset_linked_account_rows r d = Inr (fst res, d')"
    using run by (cases res) (auto simp: reset_linked_account_in_state_def mutation_def)
  from reset_rows [OF this r ok] show ?thesis by (metis unpinned_def)
qed

end
