(* ===== verification/ProviderProperties.thy ===== *)
theory ProviderProperties
  imports ProviderInvariants
begin

text \<open>
  The invariant of the machine of \<open>ProviderMachine\<close> and the properties of provider trust, each with
  an example execution: an operator logs in, a refresh captures the account, the policy switches it off.
\<close>

subsection \<open>Evidence\<close>

text \<open>What an operator's login, still valid now, vouches for.\<close>

definition vouched :: "trust_env \<Rightarrow> world \<Rightarrow> provider \<Rightarrow> str \<Rightarrow> bool" where
  "vouched E w p a =
     (case p of
        Openai \<Rightarrow> (\<exists>l login_id. oauth_login Codex_login (w_db w) = Some l \<and> \<not> login_expired (w_clock w) l
          \<and> lg_id l = Some login_id \<and> (login_id, a) \<in> set (w_reports w))
      | Claude \<Rightarrow> claude_evidence E (w_clock w) (w_db w) a
      | Bedrock \<Rightarrow> False)"

fun phase_ok :: "trust_env \<Rightarrow> (str \<times> str) list \<Rightarrow> phase \<Rightarrow> bool" where
  "phase_ok E reports (Committing p (Some a) e) = honest E a"
| "phase_ok E reports (Storing p login_id a) = ((login_id, a) \<in> set reports)"
| "phase_ok E reports ph = True"

definition parked_ok :: "(str \<times> str) list \<Rightarrow> parked option \<Rightarrow> bool" where
  "parked_ok reports parked \<longleftrightarrow>
     (\<forall>p a. parked = Some p \<longrightarrow> pk_completed p \<longrightarrow> pk_account p = Some a \<longrightarrow> (pk_login p, a) \<in> set reports)"

definition memo_ok :: "trust_env \<Rightarrow> attest_memo option \<Rightarrow> bool" where
  "memo_ok E memo \<longleftrightarrow> (\<forall>m a. memo = Some m \<longrightarrow> am_attested m = Some a \<longrightarrow> honest E a)"

definition evidence_ok :: "trust_env \<Rightarrow> world \<Rightarrow> bool" where
  "evidence_ok E w \<longleftrightarrow>
     (\<forall>r. phase_ok E (w_reports w) (w_refresh w r)) \<and> parked_ok (w_reports w) (w_parked w) \<and> memo_ok E (w_attest_memo w)"

lemma at_phase_simps [simp]:
  "w_db (at_phase r ph w) = w_db w" "w_requests (at_phase r ph w) = w_requests w" "w_parked (at_phase r ph w) = w_parked w"
  "w_attest_memo (at_phase r ph w) = w_attest_memo w" "w_reports (at_phase r ph w) = w_reports w"
  "w_clock (at_phase r ph w) = w_clock w" "w_status (at_phase r ph w) = w_status w"
  "w_refresh (at_phase r ph w) = (w_refresh w)(r := ph)"
  by (simp_all add: at_phase_def)

lemma evidence_at_phase:
  "evidence_ok E w \<Longrightarrow> phase_ok E (w_reports w) ph \<Longrightarrow> evidence_ok E (at_phase r ph w)"
  by (simp add: evidence_ok_def)

lemma phase_ok_more: "phase_ok E reports ph \<Longrightarrow> set reports \<subseteq> set reports' \<Longrightarrow> phase_ok E reports' ph"
  by (cases "(E, reports, ph)" rule: phase_ok.cases) auto

lemma phase_ok_starts:
  "phase_ok E reports (after_probe r p)" "phase_ok E reports (capture_phase p now d)"
  "phase_ok E reports (committed_phase r result)"
  by (auto simp: after_probe_def capture_phase_def committed_phase_def
      split: runtime.split json.split option.split commit_result.split prod.split)

lemma phase_ok_check: "memo_ok E memo \<Longrightarrow> phase_ok E reports (check_phase r p now tick memo d)"
  by (auto simp: check_phase_def claude_attestation_def memo_ok_def split: option.split prod.split attest_result.split bool.split)

lemma parked_fresh [simp]: "parked_ok reports None" "\<not> pk_completed p \<Longrightarrow> parked_ok reports (Some p)"
  by (simp_all add: parked_ok_def)

lemma parked_pop: "parked_ok reports parked \<Longrightarrow> parked_ok reports (pop_parked match parked)"
  by (auto simp: parked_ok_def pop_parked_def split: option.split)

lemma completed_reported:
  "read_completed_device_login_account_id login_id parked = Inr (Some a) \<Longrightarrow> parked_ok reports parked \<Longrightarrow> (login_id, a) \<in> set reports"
  by (auto simp: read_completed_device_login_account_id_def parked_ok_def nonempty_def split: option.splits if_splits)

lemma noted_reported:
  assumes "parked' = note_completed polled completed account_id parked" "parked_ok reports parked"
    "reports' = (if parked' = parked then reports
       else case (parked', account_id) of (Some p, Some a) \<Rightarrow> (pk_login p, a) # reports | _ \<Rightarrow> reports)"
  shows "parked_ok reports' parked' \<and> set reports \<subseteq> set reports'"
  using assms by (auto simp: parked_ok_def note_completed_def split: option.splits if_splits)

lemma evidence_step:
  assumes "trust_step E w act w'" "evidence_ok E w"
  shows "evidence_ok E w'"
  using assms
proof cases
  case (refresh_probed r s parked' completed account_id reports' p)
  have parked: "parked_ok (w_reports w) (w_parked w)" using assms(2) by (simp add: evidence_ok_def)
  have "parked_ok reports' parked' \<and> set (w_reports w) \<subseteq> set reports'"
  proof (cases "r = Codex")
    case True
    with noted_reported [OF _ parked] refresh_probed show ?thesis by simp
  next
    case False
    with parked refresh_probed show ?thesis by simp
  qed
  then show ?thesis
    using assms(2) refresh_probed(2) by (auto simp: evidence_ok_def phase_ok_starts intro: phase_ok_more)
next
  case (refresh_ask r p login_id)
  then show ?thesis
    using assms(2) by (auto intro!: evidence_at_phase simp: completed_reported evidence_ok_def split: sum.split option.split)
next
  case (refresh_check r p tick)
  then show ?thesis using assms(2) by (auto intro!: evidence_at_phase phase_ok_check simp: evidence_ok_def)
qed (auto simp: evidence_ok_def phase_ok_starts parked_pop memo_ok_def split: live_result.split)

subsection \<open>The tables\<close>

text \<open>
  \<open>trust_move E w d'\<close>: the tables move on as an agent's refresh, a login or a connection may move them.
\<close>

definition trust_move :: "trust_env \<Rightarrow> world \<Rightarrow> trust_db \<Rightarrow> bool" where
  "trust_move E w d' \<longleftrightarrow>
     moves E (vouched E w) (w_db w) d'
     \<and> (\<forall>p. unpinned p (w_db w) \<longrightarrow> unpinned p d' \<or> (\<exists>r. p = provider_of r \<and> enabled E w r))"

lemma moves_mono: "moves E A d d' \<Longrightarrow> (\<And>p a. A p a \<Longrightarrow> A' p a) \<Longrightarrow> moves E A' d d'"
  unfolding moves_def by metis

lemma quiet_table_step: "quiet (w_db w) d' \<Longrightarrow> tables_trusted E (w_db w) \<Longrightarrow> trust_move E w d'"
  unfolding trust_move_def using quiet_moves quiet_unpinned by blast

lemma still_table_step: "tables_trusted E (w_db w) \<Longrightarrow> trust_move E w (w_db w)"
  by (rule quiet_table_step [OF quiet_frame]) simp_all

lemma mutation_table_step:
  assumes "tables_trusted E (w_db w)"
    and "\<And>u d'. m (w_db w) = Inr (u, d') \<Longrightarrow> moves E (vouched E w) (w_db w) d' \<and> td_pins d' = td_pins (w_db w)"
  shows "trust_move E w (snd (mutation m (w_db w)))"
proof (cases "m (w_db w)")
  case (Inl f)
  then show ?thesis using still_table_step [OF assms(1)] by (simp add: mutation_def)
next
  case (Inr res)
  then show ?thesis using assms(2) [of "fst res" "snd res"]
    by (cases res) (auto simp: mutation_def trust_move_def unpinned_def)
qed

lemma store_table_step:
  assumes "w_refresh w r = Storing p login_id a" "tables_trusted E (w_db w)" "evidence_ok E w"
  shows "trust_move E w (snd (mutation (capture_completed_codex_oauth_login login_id a (w_clock w)) (w_db w)))"
proof (rule mutation_table_step [OF assms(2)])
  fix u d' assume run: "capture_completed_codex_oauth_login login_id a (w_clock w) (w_db w) = Inr (u, d')"
  have "(login_id, a) \<in> set (w_reports w)"
    using assms(1,3) by (auto simp: evidence_ok_def dest: spec [of _ r])
  then show "moves E (vouched E w) (w_db w) d' \<and> td_pins d' = td_pins (w_db w)"
    by (intro capture_moves [OF run assms(2)]) (auto simp: vouched_def)
qed

lemma commit_table_step:
  assumes run: "commit_refresh (te_le E) r status message account attested e (w_clock w) (w_db w) st = (result, d', st')"
    and phase: "w_refresh w r = Committing p attested e" and ok: "tables_trusted E (w_db w)" "evidence_ok E w"
  shows "trust_move E w d'"
proof -
  have "\<forall>a. attested = Some a \<longrightarrow> honest E a"
    using phase ok(2) by (auto simp: evidence_ok_def dest: spec [of _ r])
  from commit_moves [OF run this ok(1)] have
      moved: "moves E (commit_approved E (w_clock w) (w_db w)) (w_db w) d'"
      and pins: "\<forall>q. unpinned q (w_db w) \<longrightarrow> unpinned q d' \<or> (q = provider_of r \<and> runtime_network_enabled (te_le E) (w_db w) r)"
    by blast+
  have "moves E (vouched E w) (w_db w) d'" by (rule moves_mono [OF moved]) (auto simp: vouched_def)
  with pins show ?thesis unfolding trust_move_def enabled_def by blast
qed

lemma table_steps:
  assumes "trust_step E w act w'" "tables_trusted E (w_db w)" "evidence_ok E w"
  shows "trust_move E w (w_db w')
     \<or> (\<exists>t. act = Policy_change \<and> w_db w' = (w_db w)\<lparr>td_policy := t\<rparr>
          \<and> w_requests w' = w_requests w @ [Reconciling [Codex, Claude_code, Hermes]])
     \<or> (\<exists>r. act = Operator_reset r \<and> oauth_runtime r
          \<and> reset_linked_account_in_state (te_le E) r (w_db w) (w_status w) = (w_db w', w_status w'))"
  using assms
proof cases
  case (refresh_store r p login_id a)
  then show ?thesis using store_table_step assms by simp
next
  case (refresh_commit r status message account attested e result d st)
  then show ?thesis using commit_table_step assms by simp
next
  case (refresh_backfill_save r h usage)
  moreover have "trust_move E w (snd (mutation (backfill_claude_rows h usage) (w_db w)))"
    by (rule mutation_table_step [OF assms(2) backfill_moves [OF _ assms(2)]])
  ultimately show ?thesis by simp
next
  case (reset_rows r d st)
  then show ?thesis by simp
next
  case (policy_saved body response t)
  then have "act = Policy_change \<and> w_db w' = (w_db w)\<lparr>td_policy := t\<rparr>
      \<and> w_requests w' = w_requests w @ [Reconciling [Codex, Claude_code, Hermes]]" by simp
  then show ?thesis by blast
next
  case (refresh_deactivate r d st)
  then show ?thesis using quiet_table_step [OF quiet_deactivate assms(2)] by simp
next
  case (reconcile_mark qs r rs qs' d st)
  then show ?thesis using quiet_table_step [OF quiet_deactivate assms(2)] by simp
next
  case (bedrock_disconnected d st)
  then show ?thesis using quiet_table_step [OF quiet_disconnect assms(2)] by simp
qed (auto simp: still_table_step clear_expired_def intro!: quiet_table_step quiet_mutation quiet_blocks)

subsection \<open>The invariant\<close>

text \<open>A policy request that still has to look at a runtime, or to switch it off.\<close>

fun pending :: "runtime \<Rightarrow> request \<Rightarrow> bool" where
  "pending r (Reconciling rs) = (r \<in> set rs)"
| "pending r (Switching_off r' rs) = (r = r' \<or> r \<in> set rs)"
| "pending r q = False"

definition being_switched_off :: "runtime \<Rightarrow> world \<Rightarrow> bool" where
  "being_switched_off r w \<longleftrightarrow> (\<exists>q \<in> set (w_requests w). pending r q)"

definition switched :: "trust_env \<Rightarrow> world \<Rightarrow> bool" where
  "switched E w \<longleftrightarrow>
     (\<forall>r. oauth_runtime r \<longrightarrow> enabled E w r \<or> unpinned (provider_of r) (w_db w) \<or> being_switched_off r w)"

definition world_ok :: "trust_env \<Rightarrow> world \<Rightarrow> bool" where
  "world_ok E w \<longleftrightarrow> tables_trusted E (w_db w) \<and> evidence_ok E w \<and> switched E w"

lemma provider_of_inject: "provider_of r = provider_of r' \<longleftrightarrow> r = r'"
  by (cases r; cases r') simp_all

lemma enabled_policy: "td_policy (w_db w') = td_policy (w_db w) \<Longrightarrow> enabled E w' r = enabled E w r"
  by (simp add: enabled_def runtime_network_enabled_def)

lemma pending_step:
  assumes "trust_step E w act w'" "being_switched_off r w" "oauth_runtime r" "\<not> enabled E w r"
  shows "being_switched_off r w' \<or> unpinned (provider_of r) (w_db w')"
  using assms
  by cases (auto simp: being_switched_off_def deactivated_unpinned split: if_splits)

lemma switched_step:
  assumes step: "trust_step E w act w'" and ok: "world_ok E w"
  shows "switched E w'"
  unfolding switched_def
proof (intro allI impI)
  fix r assume r: "oauth_runtime r"
  have w: "tables_trusted E (w_db w)" "evidence_ok E w"
      "enabled E w r \<or> unpinned (provider_of r) (w_db w) \<or> being_switched_off r w"
    using ok r by (auto simp: world_ok_def switched_def)
  show "enabled E w' r \<or> unpinned (provider_of r) (w_db w') \<or> being_switched_off r w'"
    using table_steps [OF step w(1,2)]
  proof (elim disjE exE conjE)
    assume "trust_move E w (w_db w')"
    then have "enabled E w' r = enabled E w r"
        "unpinned (provider_of r) (w_db w) \<Longrightarrow> unpinned (provider_of r) (w_db w') \<or> enabled E w r"
      by (auto simp: trust_move_def moves_def provider_of_inject intro!: enabled_policy)
    then show ?thesis using w(3) pending_step [OF step _ r] by blast
  next
    fix t assume "w_requests w' = w_requests w @ [Reconciling [Codex, Claude_code, Hermes]]"
    then show ?thesis using r by (auto simp: being_switched_off_def oauth_runtime_def)
  next
    fix r' assume reset: "reset_linked_account_in_state (te_le E) r' (w_db w) (w_status w) = (w_db w', w_status w')"
      "oauth_runtime r'"
    from reset_moves [OF reset w(1)] have "enabled E w' r = enabled E w r"
        "unpinned (provider_of r) (w_db w) \<Longrightarrow> unpinned (provider_of r) (w_db w')"
      by (auto intro!: enabled_policy)
    then show ?thesis using w(3) pending_step [OF step _ r] by blast
  qed
qed

text \<open>What a step does to the anchors.\<close>

lemma policy_frame:
  "anchor p (d\<lparr>td_policy := t\<rparr>) = anchor p d" "tables_trusted E (d\<lparr>td_policy := t\<rparr>) = tables_trusted E d"
proof -
  show anchors: "anchor p (d\<lparr>td_policy := t\<rparr>) = anchor p d" for p by (rule anchor_frame) simp
  have "stored_token (d\<lparr>td_policy := t\<rparr>) = stored_token d" by (rule stored_token_frame) simp
  with anchors show "tables_trusted E (d\<lparr>td_policy := t\<rparr>) = tables_trusted E d"
    by (simp add: tables_trusted_def pinned_to_anchor_def anchor_attested_def rows_ok_def unpinned_def)
qed

lemma anchor_step:
  assumes step: "trust_step E w act w'" and ok: "world_ok E w"
  shows "tables_trusted E (w_db w')
     \<and> (anchor p (w_db w') = anchor p (w_db w)
        \<or> (anchor p (w_db w) = None \<and> (\<exists>a. anchor p (w_db w') = Some a \<and> vouched E w p a))
        \<or> (\<exists>r. act = Operator_reset r \<and> p = provider_of r \<and> anchor p (w_db w') = None))"
proof -
  have w: "tables_trusted E (w_db w)" "evidence_ok E w" using ok by (auto simp: world_ok_def)
  show ?thesis
    using table_steps [OF step w]
  proof (elim disjE exE conjE)
    assume "trust_move E w (w_db w')"
    then show ?thesis unfolding trust_move_def moves_def by blast
  next
    fix t assume "w_db w' = (w_db w)\<lparr>td_policy := t\<rparr>"
    then show ?thesis using w(1) by (simp add: policy_frame)
  next
    fix r assume "act = Operator_reset r" and reset: "oauth_runtime r"
      "reset_linked_account_in_state (te_le E) r (w_db w) (w_status w) = (w_db w', w_status w')"
    then show ?thesis using reset_moves [OF reset(2,1) w(1)] by metis
  qed
qed

lemma world_ok_step: "trust_step E w act w' \<Longrightarrow> world_ok E w \<Longrightarrow> world_ok E w'"
  using anchor_step evidence_step switched_step unfolding world_ok_def by blast

subsection \<open>Reachable states\<close>

text \<open>The service as it is first started: any policy, and nothing stored about an account.\<close>

definition trust_start :: "world \<Rightarrow> bool" where
  "trust_start w \<longleftrightarrow>
     td_logins (w_db w) = (\<lambda>_. None) \<and> td_accounts (w_db w) = (\<lambda>_. None) \<and> td_pins (w_db w) = (\<lambda>_. None)
     \<and> w_refresh w = (\<lambda>_. Idle) \<and> w_requests w = [] \<and> w_parked w = None \<and> w_live_memo w = None
     \<and> w_attest_memo w = None \<and> w_reports w = []"

inductive trust_reachable :: "trust_env \<Rightarrow> world \<Rightarrow> bool" for E where
  start: "trust_start w \<Longrightarrow> trust_reachable E w"
| step: "trust_reachable E w \<Longrightarrow> trust_step E w act w' \<Longrightarrow> trust_reachable E w'"

lemma world_ok_start: "trust_start w \<Longrightarrow> world_ok E w"
  by (simp add: trust_start_def world_ok_def tables_trusted_def pinned_to_anchor_def unpinned_def anchor_attested_def rows_ok_def
      evidence_ok_def memo_ok_def switched_def anchor_def trusted_claude_account_id_def claude_anchor_is_server_attested_def
      read_provider_account_def string_field_def)

lemma trust_reachable_ok: "trust_reachable E w \<Longrightarrow> world_ok E w"
  by (induction rule: trust_reachable.induct) (auto intro: world_ok_start world_ok_step)

subsection \<open>An example execution\<close>

text \<open>
  The OpenAI integration is enabled; the operator starts a device login, a refresh captures and
  commits its account; then the operator publishes an empty policy, which switches the runtime off.
\<close>

definition ex_env :: trust_env where
  "ex_env = \<lparr>te_le = (\<lambda>a b. a \<le> b), te_re_ok = (\<lambda>_. True), te_identity = (\<lambda>h. h)\<rparr>"

definition ex_now :: str where "ex_now = S ''2026-01-01''"
definition ex_id :: str where "ex_id = S ''acct-7''"

definition ex_probe :: probe where
  "ex_probe = (S ''active'', None, JObj [(S ''account_id'', JStr ex_id)])"

definition ex_login :: login where
  "ex_login = minted_login Codex (S ''https://auth'') (S ''2026-01-02'') (S ''ABCD'') (S ''login-1'')"

definition ex_row :: "str option \<times> record_dict" where
  "ex_row = (Some ex_id, [(S ''operator_approval'', JStr OPENAI_OPERATOR_APPROVAL)])"

definition ex_on :: policy_tables where
  "ex_on = empty_policy\<lparr>pt_updated := Some (S ''t0''), pt_integrations := [S ''openai'']\<rparr>"

definition ex_off :: policy_tables where
  "ex_off = empty_policy\<lparr>pt_updated := Some ex_now\<rparr>"

definition ex_tables :: "policy_tables \<Rightarrow> login option \<Rightarrow> (str option \<times> record_dict) option \<Rightarrow>
    (str option \<times> str option) option \<Rightarrow> (str \<times> runtime) list \<Rightarrow> trust_db" where
  "ex_tables policy login row pin events =
     \<lparr>td_policy = policy, td_logins = (\<lambda>_. None)(Codex_login := login), td_accounts = (\<lambda>_. None)(Openai := row),
      td_pins = (\<lambda>_. None)(Openai := pin), td_bedrock = None, td_events = events\<rparr>"

definition ex_world :: "trust_db \<Rightarrow> status_record \<Rightarrow> nat \<Rightarrow> phase \<Rightarrow> request list \<Rightarrow> parked option \<Rightarrow> (str \<times> str) list \<Rightarrow> world" where
  "ex_world d s n ph requests parked reports =
     \<lparr>w_db = d, w_status = (\<lambda>_. (S ''awaiting_login'', None))(Codex := s), w_parked = parked, w_next_server = n,
      w_live_memo = None, w_attest_memo = None, w_refresh = (\<lambda>_. Idle)(Codex := ph), w_requests = requests,
      w_clock = ex_now, w_reports = reports\<rparr>"

definition ex_parked :: "str option \<Rightarrow> parked" where
  "ex_parked account_id =
     \<lparr>pk_server = 0, pk_login = S ''login-1'', pk_completed = account_id \<noteq> None, pk_account = account_id\<rparr>"

abbreviation ex_reports :: "(str \<times> str) list" where "ex_reports \<equiv> [(S ''login-1'', ex_id)]"
abbreviation ex_waiting :: status_record where "ex_waiting \<equiv> (S ''awaiting_login'', None)"

abbreviation ex_db_empty :: trust_db where "ex_db_empty \<equiv> ex_tables ex_on None None None []"
abbreviation ex_db_login :: trust_db where "ex_db_login \<equiv> ex_tables ex_on (Some ex_login) None None []"

definition ex_db_captured :: trust_db where
  "ex_db_captured = ex_tables ex_on (Some (ex_login\<lparr>lg_status := S ''completed''\<rparr>)) (Some ex_row) None []"

definition ex_events :: "(str \<times> runtime) list" where
  "ex_events = [(S ''agent_runtime.login_completed'', Codex), (S ''agent_runtime.active'', Codex)]"

definition ex_db_pinned :: "policy_tables \<Rightarrow> trust_db" where
  "ex_db_pinned policy = ex_tables policy None (Some ex_row) (Some (Some ex_id, None)) ex_events"

definition ex_db_unpinned :: trust_db where
  "ex_db_unpinned = ex_tables ex_off None (Some ex_row) (Some (None, None)) (ex_events @ [(S ''agent_runtime.deactivated'', Codex)])"

definition ex_asked :: world where
  "ex_asked = ex_world ex_db_login ex_waiting 1 (Storing ex_probe (S ''login-1'') ex_id) [] (Some (ex_parked (Some ex_id))) ex_reports"

definition ex_captured :: world where
  "ex_captured = ex_world ex_db_captured ex_waiting 1 (Checking ex_probe) [] (Some (ex_parked (Some ex_id))) ex_reports"

definition ex_pinned :: world where
  "ex_pinned = ex_world (ex_db_pinned ex_on) (S ''active'', None) 1 (Closing (S ''login-1'')) [] (Some (ex_parked (Some ex_id))) ex_reports"

definition ex_published :: world where
  "ex_published = ex_world (ex_db_pinned ex_off) (S ''active'', None) 1 (Closing (S ''login-1''))
     [Reconciling [Codex, Claude_code, Hermes]] (Some (ex_parked (Some ex_id))) ex_reports"

definition ex_switched_off :: world where
  "ex_switched_off = ex_world ex_db_unpinned (S ''deactivated'', None) 1 (Closing (S ''login-1''))
     [Reconciling [Claude_code, Hermes]] (Some (ex_parked (Some ex_id))) ex_reports"

lemma ex_world_simps [simp]:
  "at_phase Codex ph (ex_world d s n ph' qs pk rs) = ex_world d s n ph qs pk rs"
  "ex_world d s n ph qs pk rs\<lparr>w_db := d'\<rparr> = ex_world d' s n ph qs pk rs"
  "ex_world d s n ph qs pk rs\<lparr>w_requests := qs'\<rparr> = ex_world d s n ph qs' pk rs"
  "ex_world d s n ph qs pk rs\<lparr>w_parked := pk'\<rparr> = ex_world d s n ph qs pk' rs"
  "ex_world d s n ph qs pk rs\<lparr>w_reports := rs'\<rparr> = ex_world d s n ph qs pk rs'"
  "ex_world d s n ph qs pk rs\<lparr>w_next_server := n'\<rparr> = ex_world d s n' ph qs pk rs"
  "ex_world d s n ph qs pk rs\<lparr>w_status := (\<lambda>_. ex_waiting)(Codex := s')\<rparr> = ex_world d s' n ph qs pk rs"
  "w_db (ex_world d s n ph qs pk rs) = d" "w_status (ex_world d s n ph qs pk rs) = (\<lambda>_. ex_waiting)(Codex := s)"
  "w_refresh (ex_world d s n ph qs pk rs) Codex = ph" "w_requests (ex_world d s n ph qs pk rs) = qs"
  "w_parked (ex_world d s n ph qs pk rs) = pk" "w_reports (ex_world d s n ph qs pk rs) = rs"
  "w_next_server (ex_world d s n ph qs pk rs) = n" "w_clock (ex_world d s n ph qs pk rs) = ex_now"
  "w_attest_memo (ex_world d s n ph qs pk rs) = None"
  by (simp_all add: ex_world_def at_phase_def)

lemma ex_enabled:
  "td_policy d = ex_on \<Longrightarrow> runtime_network_enabled (te_le ex_env) d Codex"
  "td_policy d = ex_off \<Longrightarrow> \<not> runtime_network_enabled (te_le ex_env) d Codex"
proof -
  have "case load_policy (te_le ex_env) ex_on of
      Inl e \<Rightarrow> False | Inr policy \<Rightarrow> jget (managed_integration_of (integration_name Codex) policy) (S ''enabled'') = JBool True"
    by code_simp
  then show "td_policy d = ex_on \<Longrightarrow> runtime_network_enabled (te_le ex_env) d Codex"
    by (simp add: runtime_network_enabled_def split: sum.splits)
  have "case load_policy (te_le ex_env) ex_off of
      Inl e \<Rightarrow> True | Inr policy \<Rightarrow> jget (managed_integration_of (integration_name Codex) policy) (S ''enabled'') \<noteq> JBool True"
    by code_simp
  then show "td_policy d = ex_off \<Longrightarrow> \<not> runtime_network_enabled (te_le ex_env) d Codex"
    by (simp add: runtime_network_enabled_def split: sum.splits)
qed

lemma ex_tables_sel [simp]:
  "td_policy (ex_tables t l row pin es) = t" "td_logins (ex_tables t l row pin es) Codex_login = l"
  "td_accounts (ex_tables t l row pin es) Openai = row" "td_pins (ex_tables t l row pin es) Openai = pin"
  "td_events (ex_tables t l row pin es) = es"
  "ex_tables t l row pin es\<lparr>td_logins := (td_logins (ex_tables t l row pin es))(Codex_login := l')\<rparr> = ex_tables t l' row pin es"
  "ex_tables t l row pin es\<lparr>td_accounts := (td_accounts (ex_tables t l row pin es))(Openai := row')\<rparr> = ex_tables t l row' pin es"
  "ex_tables t l row pin es\<lparr>td_pins := (td_pins (ex_tables t l row pin es))(Openai := pin')\<rparr> = ex_tables t l row pin' es"
  "ex_tables t l row pin es\<lparr>td_events := es'\<rparr> = ex_tables t l row pin es'"
  "ex_tables t l row pin es\<lparr>td_policy := t'\<rparr> = ex_tables t' l row pin es"
  by (simp_all add: ex_tables_def)

lemma ex_login_available: "st Codex = ex_waiting \<Longrightarrow> login_available (te_le ex_env) Codex (ex_tables ex_on l None None []) st"
  by (simp add: login_available_def ex_enabled)

lemma ex_start: "trust_reachable ex_env (ex_world ex_db_empty ex_waiting 0 Idle [] None [])"
  by (rule start) (simp add: trust_start_def ex_world_def ex_tables_def fun_upd_idem)

lemma ex_login_stored:
  "trust_reachable ex_env (ex_world ex_db_login ex_waiting 1 Idle [] (Some (ex_parked None)) [])"
proof -
  have "trust_step ex_env (ex_world ex_db_empty ex_waiting 0 Idle [] None []) (Login Codex)
      (ex_world ex_db_empty ex_waiting 0 Idle [Minting Codex] None [])"
    using login_mint [of Codex "ex_world ex_db_empty ex_waiting 0 Idle [] None []" ex_env]
    by (simp add: oauth_runtime_def login_locked_def start_oauth_login_def ex_login_available oauth_login_def login_key_def)
  moreover have "trust_step ex_env (ex_world ex_db_empty ex_waiting 0 Idle [Minting Codex] None []) (Login Codex)
      (ex_world ex_db_empty ex_waiting 1 Idle [Persisting Codex ex_login] (Some (ex_parked None)) [])"
    using login_minted [of "ex_world ex_db_empty ex_waiting 0 Idle [Minting Codex] None []" "[]" Codex "[]" ex_env
        "S ''login-1''" "S ''https://auth''" "S ''2026-01-02''" "S ''ABCD''"]
    by (simp add: ex_login_def ex_parked_def)
  moreover have "trust_step ex_env (ex_world ex_db_empty ex_waiting 1 Idle [Persisting Codex ex_login] (Some (ex_parked None)) [])
      (Login Codex) (ex_world ex_db_login ex_waiting 1 Idle [] (Some (ex_parked None)) [])"
  proof -
    have "set_oauth_login Codex_login (Some ex_login) ex_db_empty = Inr ((), ex_db_login)"
      by (simp add: statement_effects login_allowed_def ex_login_def minted_login_def)
    then show ?thesis
      using login_persisted [of "ex_world ex_db_empty ex_waiting 1 Idle [Persisting Codex ex_login] (Some (ex_parked None)) []"
          "[]" Codex ex_login "[]" ex_env]
      by (simp add: ex_login_available login_key_def mutation_def)
  qed
  ultimately show ?thesis using ex_start step by metis
qed

lemma ex_asked_reachable: "trust_reachable ex_env ex_asked"
proof -
  let ?w = "\<lambda>ph. ex_world ex_db_login ex_waiting 1 ph [] (Some (ex_parked None)) []"
  let ?v = "\<lambda>ph. ex_world ex_db_login ex_waiting 1 ph [] (Some (ex_parked (Some ex_id))) ex_reports"
  have "trust_step ex_env (?w Idle) (Refresh Codex) (?w (Probing (Some 0)))"
    using refresh_start [of "?w Idle" Codex ex_env] by (simp add: enabled_def ex_enabled ex_parked_def)
  moreover have "trust_step ex_env (?w (Probing (Some 0))) (Refresh Codex) (?v (Capturing ex_probe))"
    using refresh_probed [of "?w (Probing (Some 0))" Codex "Some 0" "Some (ex_parked (Some ex_id))" "[S ''login-1'']" "Some ex_id"
        ex_reports ex_env ex_probe]
    by (simp add: note_completed_def ex_parked_def after_probe_def)
  moreover have "trust_step ex_env (?v (Capturing ex_probe)) (Refresh Codex) (?v (Asking ex_probe (S ''login-1'')))"
  proof -
    have "capture_phase ex_probe ex_now ex_db_login = Asking ex_probe (S ''login-1'')"
      by (simp add: capture_phase_def trusted_openai_account_id_def read_provider_account_def oauth_login_def ex_login_def
          string_field_def minted_login_def login_expired_def ex_now_def nonempty_def) code_simp
    then show ?thesis using refresh_capture [of "?v (Capturing ex_probe)" Codex ex_probe ex_env] by simp
  qed
  moreover have "trust_step ex_env (?v (Asking ex_probe (S ''login-1''))) (Refresh Codex) ex_asked"
    using refresh_ask [of "?v (Asking ex_probe (S ''login-1''))" Codex ex_probe "S ''login-1''" ex_env]
    by (simp add: read_completed_device_login_account_id_def ex_parked_def nonempty_def ex_id_def ex_asked_def)
  ultimately show ?thesis using ex_login_stored step by metis
qed

lemma ex_saved:
  assumes "td_accounts d Openai \<in> {None, Some ex_row}"
  shows "save_openai_account (Some (with_openai_operator_approval [(S ''account_id'', JStr ex_id)])) d =
    Inr ((), d\<lparr>td_accounts := (td_accounts d)(Openai := Some ex_row)\<rparr>)"
  using assms
  by (auto simp: save_openai_account_def save_provider_account_def Let_def nullable_text_def text_param_def txn_simps
      with_openai_operator_approval_def jget_update jget_Cons guard_lets_def ex_row_def has_marker_def)

lemma ex_captured_step: "trust_step ex_env ex_asked (Refresh Codex) ex_captured"
proof -
  have unexpired: "\<not> S ''2026-01-02'' \<le> S ''2026-01-01''" by code_simp
  have "capture_completed_codex_oauth_login (S ''login-1'') ex_id ex_now ex_db_login = Inr (True, ex_db_captured)"
    by (simp add: capture_completed_codex_oauth_login_def txn_simps trusted_openai_account_id_def read_provider_account_def
        string_field_def current_oauth_login_def oauth_login_def ex_login_def minted_login_def login_expired_def ex_now_def
        unexpired nonempty_def statement_effects login_allowed_def ex_saved ex_db_captured_def)
  then show ?thesis
    using refresh_store [of ex_asked Codex ex_probe "S ''login-1''" ex_id ex_env]
    by (simp add: ex_asked_def ex_captured_def mutation_def)
qed

lemma ex_pinned_reachable: "trust_reachable ex_env ex_pinned"
proof -
  let ?w = "\<lambda>ph. ex_world ex_db_captured ex_waiting 1 ph [] (Some (ex_parked (Some ex_id))) ex_reports"
  have "check_phase Codex ex_probe ex_now 0 None ex_db_captured = Committing ex_probe None None"
    by (simp add: check_phase_def ex_probe_def active_account_value_def)
  then have checked: "trust_step ex_env ex_captured (Refresh Codex) (?w (Committing ex_probe None None))"
    using refresh_check [of ex_captured Codex ex_probe ex_env 0] by (simp add: ex_captured_def)
  have policy: "td_policy ex_db_captured = ex_on" by (simp add: ex_db_captured_def)
  have read: "trusted_openai_account_id (read_openai_account ex_db_captured) = Some ex_id"
    by (simp add: trusted_openai_account_id_def read_provider_account_def ex_db_captured_def ex_row_def string_field_def jget_update
        jget_Cons ex_id_def)
  have account: "active_account_value Codex (S ''active'') (JObj [(S ''account_id'', JStr ex_id)]) = Some [(S ''account_id'', JStr ex_id)]"
    by (simp add: active_account_value_def)
  have decision: "refresh_decision Codex (S ''active'') None (Some [(S ''account_id'', JStr ex_id)]) None None ex_now ex_db_captured =
      Inr ((S ''active'', None, Some (with_openai_operator_approval [(S ''account_id'', JStr ex_id)])), ex_db_captured)"
    by (simp add: refresh_decision_def oauth_runtime_def trusted_active_account_def trusted_openai_account_def txn_simps read
        string_field_def jget_Cons ex_id_def)
  have stamp: "stamp_usage_checked_at (S ''codex_usage'') ex_now (with_openai_operator_approval [(S ''account_id'', JStr ex_id)]) =
      with_openai_operator_approval [(S ''account_id'', JStr ex_id)]"
    by (simp add: stamp_usage_checked_at_def with_openai_operator_approval_def jget_Cons)
  have pin: "string_field (with_openai_operator_approval [(S ''account_id'', JStr ex_id)]) (S ''account_id'') = Some ex_id"
    by (simp add: with_openai_operator_approval_def jget_Cons ex_id_def)
  have rows: "refresh_rows Codex (S ''awaiting_login'') (S ''active'')
      (Some (with_openai_operator_approval [(S ''account_id'', JStr ex_id)])) ex_now ex_db_captured
      = Inr (Some (S ''login-1''), ex_db_pinned ex_on)"
    by (simp add: refresh_rows_def txn_simps statement_effects oauth_runtime_def stamp ex_saved sync_runtime_proxy_pin_def pin
        oauth_login_def nonempty_def ex_db_captured_def ex_db_pinned_def ex_login_def minted_login_def ex_events_def)
  have "commit_refresh (te_le ex_env) Codex (S ''active'') None (Some [(S ''account_id'', JStr ex_id)]) None None ex_now
      ex_db_captured (w_status (?w ph))
      = (Committed (S ''active'') (Some (with_openai_operator_approval [(S ''account_id'', JStr ex_id)])) (Some (S ''login-1'')),
         ex_db_pinned ex_on, (w_status (?w ph))(Codex := (S ''active'', None)))" for ph
    by (simp add: commit_refresh_def ex_enabled policy decision rows status_entry_def)
  then have "trust_step ex_env (?w (Committing ex_probe None None)) (Refresh Codex) ex_pinned"
    using refresh_commit [of "?w (Committing ex_probe None None)" Codex "S ''active''" None "JObj [(S ''account_id'', JStr ex_id)]"
        None None ex_env]
    by (simp add: ex_probe_def account committed_phase_def ex_pinned_def del: One_nat_def)
  then show ?thesis using ex_asked_reachable ex_captured_step checked step by metis
qed

lemma ex_published_step: "trust_step ex_env ex_pinned Policy_change ex_published"
proof -
  have "case replace_network_policy (te_re_ok ex_env) (JObj [(S ''network_integrations'', JObj [])]) ex_now ex_on of
      Inr (response, t) \<Rightarrow> t = ex_off | Inl f \<Rightarrow> False" by code_simp
  then obtain response where
      "replace_network_policy (te_re_ok ex_env) (JObj [(S ''network_integrations'', JObj [])]) ex_now ex_on = Inr (response, ex_off)"
    by (auto split: sum.splits)
  then show ?thesis
    using policy_saved [of ex_env "JObj [(S ''network_integrations'', JObj [])]" ex_pinned response ex_off]
    by (simp add: ex_pinned_def ex_published_def ex_db_pinned_def)
qed

lemma ex_switched_off_reachable: "trust_reachable ex_env ex_switched_off"
proof -
  let ?w = "ex_world (ex_db_pinned ex_off) (S ''active'', None) 1 (Closing (S ''login-1''))
     [Switching_off Codex [Claude_code, Hermes]] (Some (ex_parked (Some ex_id))) ex_reports"
  have look: "trust_step ex_env ex_published Policy_change ?w"
    using reconcile_look [of ex_published "[]" Codex "[Claude_code, Hermes]" "[]" ex_env]
    by (simp add: ex_published_def enabled_def ex_enabled ex_db_pinned_def)
  have "deactivated_rows Codex (S ''active'') (ex_db_pinned ex_off) = Inr ((), ex_db_unpinned)"
    by (simp add: deactivated_rows_def txn_simps statement_effects oauth_runtime_def login_key_def ex_db_pinned_def
        ex_db_unpinned_def)
  then have "mark_runtime_deactivated Codex (ex_db_pinned ex_off) (w_status ?w) =
      (ex_db_unpinned, (w_status ?w)(Codex := (S ''deactivated'', None)))"
    by (simp add: mark_runtime_deactivated_def mutation_def status_entry_def)
  then have "trust_step ex_env ?w Policy_change ex_switched_off"
    using reconcile_mark [of ?w "[]" Codex "[Claude_code, Hermes]" "[]"] by (simp add: ex_switched_off_def del: One_nat_def)
  with look ex_pinned_reachable ex_published_step show ?thesis using step by metis
qed

subsection \<open>Properties\<close>

text \<open>
  C4. In every interleaving, the account the proxy pins OpenAI requests to is the account the operator
  approved, and the account and token it pins Claude requests to are those of the approved account
  row, whose token the provider attested to belong to that account.
\<close>

theorem pins_follow_anchor:
  assumes "trust_reachable E w"
  shows "stored_openai_pin (w_db w)
       \<in> {None, trusted_openai_account_id (read_openai_account (w_db w))}
     \<and> (stored_claude_pin (w_db w) = []
        \<or> (\<exists>a h. stored_claude_pin (w_db w) = [(S ''account_id'', JStr a), (S ''access_token_sha256'', JStr h)]
             \<and> trusted_claude_account_id (read_claude_account (w_db w)) = Some a
             \<and> string_field (read_claude_account (w_db w)) (S ''access_token_sha256'') = Some h
             \<and> te_identity E h = a))"
proof -
  have ok: "pinned_to_anchor (w_db w)" "anchor_attested E (w_db w)"
    using trust_reachable_ok [OF assms] by (auto simp: world_ok_def tables_trusted_def)
  from ok(1) have "stored_openai_pin (w_db w) \<in> {None, anchor Openai (w_db w)}"
    by (auto simp: pinned_to_anchor_def unpinned_def stored_openai_pin_def stored_proxy_pin_def string_field_def jget_Cons
        split: if_splits)
  moreover from ok have "stored_claude_pin (w_db w) = []
      \<or> (\<exists>a h. stored_claude_pin (w_db w) = [(S ''account_id'', JStr a), (S ''access_token_sha256'', JStr h)]
           \<and> anchor Claude (w_db w) = Some a \<and> stored_token (w_db w) = Some h \<and> te_identity E h = a)"
    by (auto simp: pinned_to_anchor_def anchor_attested_def unpinned_def stored_claude_pin_def stored_proxy_pin_def)
  ultimately show ?thesis by (simp add: anchor_def stored_token_def)
qed

theorem pins_follow_anchor_witness:
  "stored_openai_pin (w_db ex_pinned) = Some ex_id
   \<and> trusted_openai_account_id (read_openai_account (w_db ex_pinned)) = Some ex_id"
proof -
  have "stored_openai_pin (w_db ex_pinned) = Some ex_id" by code_simp
  with pins_follow_anchor [OF ex_pinned_reachable] show ?thesis by simp
qed

text \<open>
  C6. An approved account stays approved through every refresh, login, policy change and connection:
  only the operator's reset of that runtime removes it, and nothing replaces it by another.
\<close>

theorem anchor_only_moves_by_reset:
  assumes "trust_reachable E w" "trust_step E w act w'" "anchor p (w_db w) = Some a"
  shows "anchor p (w_db w') = Some a \<or> (\<exists>r. act = Operator_reset r \<and> provider_of r = p \<and> anchor p (w_db w') = None)"
  using anchor_step [OF assms(2) trust_reachable_ok [OF assms(1)], of p] assms(3) by auto

theorem anchor_only_moves_by_reset_witness:
  "anchor Openai (w_db ex_pinned) = Some ex_id \<and> anchor Openai (w_db ex_published) = Some ex_id"
proof -
  have "anchor Openai (w_db ex_pinned) = Some ex_id" by code_simp
  with anchor_only_moves_by_reset [OF ex_pinned_reachable ex_published_step] show ?thesis by fastforce
qed

text \<open>
  C5. An account becomes approved only while a login the operator started is stored and unexpired: for
  OpenAI it is the account id that was read when the device login of that id completed, for Claude the
  login is completed and the provider attested that its token belongs to the account.
\<close>

theorem first_capture_approved:
  assumes "trust_reachable E w" "trust_step E w act w'" "anchor p (w_db w) = None" "anchor p (w_db w') = Some a"
  shows "(p = Openai \<and> (\<exists>l login_id. oauth_login Codex_login (w_db w) = Some l \<and> \<not> login_expired (w_clock w) l
            \<and> lg_id l = Some login_id \<and> (login_id, a) \<in> set (w_reports w)))
     \<or> (p = Claude \<and> (\<exists>l h. oauth_login Claude_login (w_db w) = Some l \<and> \<not> login_expired (w_clock w) l
            \<and> lg_status l = S ''completed'' \<and> lg_token_hash l = Some h \<and> te_identity E h = a))"
proof -
  have "vouched E w p a" using anchor_step [OF assms(2) trust_reachable_ok [OF assms(1)], of p] assms(3,4) by auto
  then show ?thesis by (cases p) (simp_all add: vouched_def claude_evidence_def)
qed

theorem first_capture_approved_witness:
  "anchor Openai (w_db ex_captured) = Some ex_id
   \<and> (\<exists>l login_id. oauth_login Codex_login (w_db ex_asked) = Some l \<and> \<not> login_expired ex_now l
        \<and> lg_id l = Some login_id \<and> (login_id, ex_id) \<in> set (w_reports ex_asked))"
proof -
  have none: "anchor Openai (w_db ex_asked) = None" and new: "anchor Openai (w_db ex_captured) = Some ex_id" by code_simp+
  have "w_clock ex_asked = ex_now" by (simp add: ex_asked_def)
  with first_capture_approved [OF ex_asked_reachable ex_captured_step none new] new show ?thesis by auto
qed

text \<open>
  C7. A runtime whose integration is switched off has no pin in the proxy, except while the request
  that switched it off is still being carried out.
\<close>

theorem disabled_provider_unpinned:
  assumes "trust_reachable E w" "\<not> runtime_network_enabled (te_le E) (w_db w) r" "\<not> being_switched_off r w"
  shows "(r = Codex \<longrightarrow> stored_openai_pin (w_db w) = None)
     \<and> (r = Claude_code \<longrightarrow> stored_claude_pin (w_db w) = [])"
proof -
  have "oauth_runtime r \<Longrightarrow> unpinned (provider_of r) (w_db w)"
    using trust_reachable_ok [OF assms(1)] assms(2,3) by (auto simp: world_ok_def switched_def enabled_def)
  then show ?thesis
    by (auto simp: oauth_runtime_def unpinned_def stored_openai_pin_def stored_claude_pin_def
        stored_proxy_pin_def string_field_def)
qed

theorem disabled_provider_unpinned_witness:
  "stored_openai_pin (w_db ex_pinned) = Some ex_id
   \<and> trusted_openai_account_id (read_openai_account (w_db ex_switched_off)) = Some ex_id
   \<and> stored_openai_pin (w_db ex_switched_off) = None"
proof -
  have pinned: "stored_openai_pin (w_db ex_pinned) = Some ex_id
      \<and> trusted_openai_account_id (read_openai_account (w_db ex_switched_off)) = Some ex_id" by code_simp
  have off: "\<not> runtime_network_enabled (te_le ex_env) (w_db ex_switched_off) Codex"
    by (rule ex_enabled) (simp add: ex_switched_off_def ex_db_unpinned_def)
  have finished: "\<not> being_switched_off Codex ex_switched_off"
    by (simp add: being_switched_off_def ex_switched_off_def)
  from disabled_provider_unpinned [OF ex_switched_off_reachable off finished] pinned show ?thesis by simp
qed

end
