(* ===== verification/Lifecycle.thy ===== *)
theory Lifecycle
  imports Prelude
begin

text \<open>
  Rows that move through a life cycle. The tasks, the tool approvals and the pending pushes of
  the program are tables whose rows keep their identity and move forward through a small
  status graph, each move a conditional update inside a transaction. The locales state that
  interface: a status graph without cycles (\<open>lifecycle\<close>), and a table over it with an identity
  and an immutable part (\<open>tracked_table\<close>). The lemmas say what follows for any sequence of
  steps; the components interpret the locales on their own tables.
\<close>

definition leads :: "('s \<Rightarrow> 's list) \<Rightarrow> 's \<Rightarrow> 's \<Rightarrow> bool" where
  "leads moves = (\<lambda>s t. t \<in> set (moves s))\<^sup>*\<^sup>*"

text \<open>The same row later: its immutable part is unchanged and its status moved along the graph.\<close>

definition moved :: "('s \<Rightarrow> 's list) \<Rightarrow> ('r \<Rightarrow> 's) \<Rightarrow> ('r \<Rightarrow> 'f) \<Rightarrow> 'r \<Rightarrow> 'r \<Rightarrow> bool" where
  "moved moves status identity r r' \<longleftrightarrow> identity r = identity r' \<and> leads moves (status r) (status r')"

text \<open>A table later: every row is an earlier row moved on, or its key was handed out since.\<close>

definition table_step ::
  "('s \<Rightarrow> 's list) \<Rightarrow> ('r \<Rightarrow> 's) \<Rightarrow> ('r \<Rightarrow> 'f) \<Rightarrow> ('r \<Rightarrow> int) \<Rightarrow> int \<times> 'r list \<Rightarrow> int \<times> 'r list \<Rightarrow> bool" where
  "table_step moves status identity key t t' \<longleftrightarrow> fst t \<le> fst t'
     \<and> (\<forall>r' \<in> set (snd t'). (\<exists>r \<in> set (snd t). moved moves status identity r r') \<or> fst t \<le> key r')"

definition table_ok :: "('r \<Rightarrow> int) \<Rightarrow> int \<times> 'r list \<Rightarrow> bool" where
  "table_ok key t \<longleftrightarrow> distinct (map key (snd t)) \<and> (\<forall>r \<in> set (snd t). key r < fst t)"

lemma table_ok_update:
  assumes "table_ok key (n, rows)" "\<And>r. P r \<Longrightarrow> key (f r) = key r"
  shows "table_ok key (n, map (\<lambda>r. if P r then f r else r) rows)"
proof -
  have "map key (map (\<lambda>r. if P r then f r else r) rows) = map key rows"
    using assms(2) by simp
  with assms show ?thesis by (auto simp: table_ok_def simp del: map_map)
qed

lemma table_ok_delete: "table_ok key (n, rows) \<Longrightarrow> table_ok key (n, filter P rows)"
  by (auto simp: table_ok_def distinct_map_filter)

lemma table_ok_insert: "table_ok key (n, rows) \<Longrightarrow> key r = n \<Longrightarrow> table_ok key (n + 1, rows @ [r])"
  by (fastforce simp: table_ok_def)

locale lifecycle =
  fixes moves :: "'s \<Rightarrow> 's list" and rank :: "'s \<Rightarrow> nat"
  assumes forward: "t \<in> set (moves s) \<Longrightarrow> rank s < rank t"
begin

lemma leads_refl [simp]: "leads moves s s"
  by (simp add: leads_def)

lemma leads_move: "t \<in> set (moves s) \<Longrightarrow> leads moves s t"
  unfolding leads_def by (rule r_into_rtranclp)

lemma leads_trans: "leads moves s t \<Longrightarrow> leads moves t u \<Longrightarrow> leads moves s u"
  unfolding leads_def by (rule rtranclp_trans)

lemma leads_rank: "leads moves s t \<Longrightarrow> s = t \<or> rank s < rank t"
  unfolding leads_def by (induction rule: rtranclp_induct) (auto dest: forward)

lemma leads_antisym: "leads moves s t \<Longrightarrow> leads moves t s \<Longrightarrow> s = t"
  using leads_rank [of s t] leads_rank [of t s] by auto

text \<open>A status without moves is final, and a status that was left never comes back.\<close>

lemma leads_final: "leads moves s t \<Longrightarrow> moves s = [] \<Longrightarrow> t = s"
  unfolding leads_def by (induction rule: converse_rtranclp_induct) auto

lemma left_for_good: "leads moves s t \<Longrightarrow> leads moves t u \<Longrightarrow> t \<noteq> s \<Longrightarrow> u \<noteq> s"
  using leads_antisym by blast

end

locale tracked_table = lifecycle moves rank
  for moves :: "'s \<Rightarrow> 's list" and rank :: "'s \<Rightarrow> nat" +
  fixes key :: "'r \<Rightarrow> int" and status :: "'r \<Rightarrow> 's" and identity :: "'r \<Rightarrow> 'f"
  assumes key_identity: "identity r = identity r' \<Longrightarrow> key r = key r'"
begin

lemma moved_refl [simp]: "moved moves status identity r r"
  by (simp add: moved_def)

lemma moved_trans: "moved moves status identity a b \<Longrightarrow> moved moves status identity b c \<Longrightarrow> moved moves status identity a c"
  by (auto simp: moved_def intro: leads_trans)

lemma row_kept: "r \<in> set rows \<Longrightarrow> \<exists>q \<in> set rows. moved moves status identity q r"
  using moved_refl by blast

lemma moved_key: "moved moves status identity r r' \<Longrightarrow> key r = key r'"
  unfolding moved_def by (blast intro: key_identity)

lemma step_refl [simp]: "table_step moves status identity key t t"
  by (auto simp: table_step_def intro: row_kept)

lemma step_trans:
  assumes ab: "table_step moves status identity key a b" and bc: "table_step moves status identity key b c"
  shows "table_step moves status identity key a c"
proof -
  have "(\<exists>r \<in> set (snd a). moved moves status identity r r') \<or> fst a \<le> key r'" if "r' \<in> set (snd c)" for r'
  proof (cases "\<exists>r \<in> set (snd b). moved moves status identity r r'")
    case True
    then obtain r where r: "r \<in> set (snd b)" "moved moves status identity r r'" ..
    with ab moved_key [OF r(2)] show ?thesis unfolding table_step_def by (metis moved_trans)
  next
    case False
    with that ab bc show ?thesis unfolding table_step_def by force
  qed
  with ab bc show ?thesis by (auto simp: table_step_def)
qed

text \<open>The three ways a statement changes a table.\<close>

lemma step_rows:
  "(\<And>r'. r' \<in> set rows' \<Longrightarrow> \<exists>r \<in> set rows. moved moves status identity r r') \<Longrightarrow> n \<le> n' \<Longrightarrow>
   table_step moves status identity key (n, rows) (n', rows')"
  by (auto simp: table_step_def)

lemma step_update:
  assumes "\<And>r. r \<in> set rows \<Longrightarrow> P r \<Longrightarrow> identity (f r) = identity r \<and> leads moves (status r) (status (f r))"
  shows "table_step moves status identity key (n, rows) (n, map (\<lambda>r. if P r then f r else r) rows)"
proof (intro step_rows order_refl)
  fix r' assume "r' \<in> set (map (\<lambda>r. if P r then f r else r) rows)"
  then obtain r where r: "r \<in> set rows" "r' = (if P r then f r else r)" by auto
  with assms [OF r(1)] have "moved moves status identity r r'" by (auto simp: moved_def)
  with r show "\<exists>r \<in> set rows. moved moves status identity r r'" by blast
qed

lemma step_delete: "table_step moves status identity key (n, rows) (n, filter P rows)"
  by (intro step_rows) (auto intro: row_kept)

lemma step_insert: "n \<le> key r \<Longrightarrow> n \<le> n' \<Longrightarrow> table_step moves status identity key (n, rows) (n', rows @ [r])"
  by (auto simp: table_step_def intro: row_kept)

text \<open>A row that is found again under its key is the same row, moved on.\<close>

lemma survivor:
  assumes ok: "table_ok key t" and step: "table_step moves status identity key t t'"
    and r: "r \<in> set (snd t)" and r': "r' \<in> set (snd t')" and k: "key r = key r'"
  shows "moved moves status identity r r'"
proof -
  from ok r k have "key r' < fst t" by (auto simp: table_ok_def)
  with step r' obtain q where q: "q \<in> set (snd t)" "moved moves status identity q r'"
    by (force simp: table_step_def)
  with k moved_key have "key q = key r" by metis
  with ok q r have "q = r" by (auto simp: table_ok_def distinct_map dest: inj_onD)
  with q show ?thesis by simp
qed

lemma survivor_final:
  assumes "table_ok key t" "table_step moves status identity key t t'" "r \<in> set (snd t)" "r' \<in> set (snd t')"
    and "key r = key r'" "moves (status r) = []"
  shows "status r' = status r"
  using survivor [OF assms(1-5)] assms(6) by (auto simp: moved_def dest: leads_final)

text \<open>Without a new key, the rows in a status that no move enters can only become fewer.\<close>

lemma leads_source: "leads moves t s \<Longrightarrow> (\<And>u. s \<notin> set (moves u)) \<Longrightarrow> t = s"
  unfolding leads_def by (induction rule: rtranclp_induct) auto

lemma count_source:
  assumes ok: "table_ok key (n, rows)" and ok': "table_ok key (n, rows')"
    and step: "table_step moves status identity key (n, rows) (n, rows')" and source: "\<And>u. s \<notin> set (moves u)"
  shows "length (filter (\<lambda>r. status r = s) rows') \<le> length (filter (\<lambda>r. status r = s) rows)"
proof -
  have count: "length (filter (\<lambda>r. status r = s) xs) = card (key ` {r \<in> set xs. status r = s})"
    if "table_ok key (n, xs)" for xs
  proof -
    have "distinct (map key (filter (\<lambda>r. status r = s) xs))"
      using that by (simp add: table_ok_def distinct_map_filter)
    from distinct_card [OF this] show ?thesis by simp
  qed
  have "key ` {r \<in> set rows'. status r = s} \<subseteq> key ` {r \<in> set rows. status r = s}"
  proof
    fix k assume "k \<in> key ` {r \<in> set rows'. status r = s}"
    then obtain r' where r': "r' \<in> set rows'" "status r' = s" "k = key r'" by auto
    with ok' step obtain r where r: "r \<in> set rows" "moved moves status identity r r'"
      by (force simp: table_ok_def table_step_def)
    with r' source have "status r = s" by (auto simp: moved_def dest: leads_source)
    with r r' moved_key [OF r(2)] show "k \<in> key ` {r \<in> set rows. status r = s}"
      by (intro image_eqI [of _ _ r]) auto
  qed
  then show ?thesis unfolding count [OF ok] count [OF ok'] by (intro card_mono) auto
qed

end

end
