(* ===== verification/ToolApprovals.thy ===== *)
theory ToolApprovals
  imports Lifecycle TaskStore Json
begin

text \<open>
  The approvals of sensitive tool actions: the tables \<open>enabled_tools\<close>, \<open>tool_approvals\<close> and
  \<open>tool_events\<close> of \<open>runtime/core/state.py\<close>, and the lifecycle of \<open>runtime/tools/tools_host.py\<close>
  (\<open>decide_approval\<close>, \<open>_execute_approved\<close>, the maintenance pass and the recovery at service
  start). A decision runs over several transactions with the call of the tool package between
  them, so it is a thread whose atomic sections interleave with every other operation.

  What a tool package answers, the unguessable token of a new approval and the serialisation of
  JSON are inputs of the steps. The catalogue of the bundled packages is a parameter.
\<close>

subsection \<open>Tables\<close>

datatype approval_status =
    Awaiting       \<comment> \<open>\<open>'pending'\<close>\<close>
  | Granted        \<comment> \<open>\<open>'approved'\<close>\<close>
  | Denied
  | Expired
  | Executed
  | Unsuccessful   \<comment> \<open>\<open>'failed'\<close>\<close>

fun approval_moves :: "approval_status \<Rightarrow> approval_status list" where
  "approval_moves Awaiting = [Granted, Denied, Expired]"
| "approval_moves Granted = [Executed, Unsuccessful]"
| "approval_moves s = []"

fun approval_rank :: "approval_status \<Rightarrow> nat" where
  "approval_rank Awaiting = 0"
| "approval_rank Granted = 1"
| "approval_rank s = 2"

record approval =
  ap_number :: int
  ap_tool :: str
  ap_action :: str
  ap_status :: approval_status
  ap_summary :: str
  ap_payload :: json
  ap_token :: str
  ap_result :: str
  ap_created :: int
  ap_decided :: int

text \<open>The columns no statement updates.\<close>

definition ap_identity :: "approval \<Rightarrow> int \<times> str \<times> str \<times> str \<times> json \<times> str \<times> int" where
  "ap_identity a =
     (ap_number a, ap_tool a, ap_action a, ap_summary a, ap_payload a, ap_token a, ap_created a)"

record tool_event =
  te_seq :: int
  te_created :: str
  te_tool :: str
  te_action :: str
  te_outcome :: str
  te_detail :: str
  te_arguments :: "json option"

record tools_db =
  enabled_tools :: "str list"
  approvals :: "approval list"
  tool_events :: "tool_event list"
  next_approval :: int
  next_tool_event :: int

interpretation approval_table: tracked_table approval_moves approval_rank ap_number ap_status ap_identity
proof unfold_locales
  show "approval_rank s < approval_rank t" if "t \<in> set (approval_moves s)" for s t
    using that by (cases s) auto
  show "ap_number r = ap_number r'" if "ap_identity r = ap_identity r'" for r r'
    using that by (simp add: ap_identity_def)
qed

subsection \<open>Enablement\<close>

definition set_tool_enabled :: "str \<Rightarrow> bool \<Rightarrow> (tools_db, unit) txn" where
  "set_tool_enabled tool_id enabled = modify (\<lambda>d.
     d\<lparr>enabled_tools :=
        if enabled then (if tool_id \<in> set (enabled_tools d) then enabled_tools d else enabled_tools d @ [tool_id])
        else filter (\<lambda>t. t \<noteq> tool_id) (enabled_tools d)\<rparr>)"

text \<open>\<open>enabled_tool\<close>: the message of the refusal, or \<open>None\<close> when the tool may be called.\<close>

definition enabled_tool_error :: "str list \<Rightarrow> tools_db \<Rightarrow> str \<Rightarrow> str option" where
  "enabled_tool_error bundled d tool_id =
     (if tool_id \<notin> set bundled then Some (S ''Unknown tool: '' @ tool_id @ S ''.'')
      else if tool_id \<notin> set (enabled_tools d) then Some (S ''Tool '' @ tool_id @ S '' is not enabled.'')
      else None)"

subsection \<open>The audit log\<close>

definition prune_tool_events :: "tools_db \<Rightarrow> tools_db" where
  "prune_tool_events d =
     d\<lparr>tool_events := filter (\<lambda>e. \<not> te_seq e \<le> foldr max (map te_seq (tool_events d)) 0 - MAX_EVENTS) (tool_events d)\<rparr>"

definition record_tool_event :: "str \<Rightarrow> str \<Rightarrow> str \<Rightarrow> str \<Rightarrow> str \<Rightarrow> json option \<Rightarrow> (tools_db, unit) txn" where
  "record_tool_event now tool action outcome detail arguments = modify (\<lambda>d.
     let seq = next_tool_event d;
         d' = d\<lparr>tool_events := tool_events d @
                  [\<lparr>te_seq = seq, te_created = now, te_tool = tool, te_action = action, te_outcome = outcome,
                    te_detail = detail, te_arguments = arguments\<rparr>],
                next_tool_event := seq + 1\<rparr>
     in if seq mod PRUNE_EVERY = 0 then prune_tool_events d' else d')"

subsection \<open>Approval records\<close>

definition APPROVAL_ID_PREFIX :: str where "APPROVAL_ID_PREFIX = S ''approval_''"

definition approval_id :: "int \<Rightarrow> str \<Rightarrow> str" where
  "approval_id number token = APPROVAL_ID_PREFIX @ str_of_int number @ S ''.'' @ token"

definition ap_id :: "approval \<Rightarrow> str" where
  "ap_id a = approval_id (ap_number a) (ap_token a)"

definition approval_number :: "str \<Rightarrow> fault + int option" where
  "approval_number aid =
     (if \<not> startswith aid APPROVAL_ID_PREFIX then Inr None
      else let number_part = hd (split_on 46 (drop (length APPROVAL_ID_PREFIX) aid))
           in if \<not> isdigit number_part then Inr None
              else (case py_int number_part of
                      Some n \<Rightarrow> Inr (Some n)
                    | None \<Rightarrow> Inl (Raised (ValueError (S ''int'')))))"

abbreviation approval_limit_reached :: fault where
  "approval_limit_reached \<equiv> Raised (RuntimeError (S ''PendingToolApprovalLimitReached''))"

definition insert_tool_approval ::
  "str \<Rightarrow> str \<Rightarrow> str \<Rightarrow> json \<Rightarrow> int \<Rightarrow> str \<Rightarrow> nat \<Rightarrow> (tools_db, approval) txn" where
  "insert_tool_approval tool action summary payload created token pending_limit = (\<lambda>d.
     if pending_limit \<le> length (filter (\<lambda>a. ap_status a = Awaiting) (approvals d))
     then Inl approval_limit_reached
     else let a = \<lparr>ap_number = next_approval d, ap_tool = tool, ap_action = action, ap_status = Awaiting,
                   ap_summary = summary, ap_payload = payload, ap_token = token, ap_result = [],
                   ap_created = created, ap_decided = 0\<rparr>
          in Inr (a, d\<lparr>approvals := approvals d @ [a], next_approval := next_approval d + 1\<rparr>))"

text \<open>
  \<open>hmac.compare_digest\<close> of two texts raises when one of them is not ASCII; the stored ids are
  ASCII, so only the id asked for can be the cause.
\<close>

definition tool_approval :: "tools_db \<Rightarrow> str \<Rightarrow> str option \<Rightarrow> fault + approval option" where
  "tool_approval d aid tool_id = bind_res (approval_number aid) (\<lambda>number.
     case number of
       None \<Rightarrow> Inr None
     | Some n \<Rightarrow>
         (case find_first (\<lambda>a. ap_number a = n \<and> (case tool_id of None \<Rightarrow> True | Some t \<Rightarrow> ap_tool a = t)) (approvals d) of
            None \<Rightarrow> Inr None
          | Some a \<Rightarrow>
              if \<not> list_all (\<lambda>c. c < 128) aid then Inl (Raised TypeError)
              else Inr (if aid = ap_id a then Some a else None)))"

text \<open>Pending records first, then the newest.\<close>

definition list_tool_approvals :: "tools_db \<Rightarrow> nat \<Rightarrow> str option \<Rightarrow> approval list" where
  "list_tool_approvals d limit tool_id =
     take limit (rev (sort_key (\<lambda>a. (ap_status a = Awaiting, ap_number a))
       (filter (\<lambda>a. case tool_id of None \<Rightarrow> True | Some t \<Rightarrow> ap_tool a = t) (approvals d))))"

definition transition_tool_approval ::
  "str \<Rightarrow> approval_status \<Rightarrow> approval_status \<Rightarrow> int \<Rightarrow> str option \<Rightarrow> (tools_db, bool) txn" where
  "transition_tool_approval aid from_status to_status decided result = (\<lambda>d.
     bind_res (approval_number aid) (\<lambda>number.
       case number of
         None \<Rightarrow> Inr (False, d)
       | Some n \<Rightarrow>
           let hit = (\<lambda>a. ap_number a = n \<and> ap_status a = from_status)
           in Inr (list_ex hit (approvals d),
                   d\<lparr>approvals := map (\<lambda>a. if hit a
                        then a\<lparr>ap_status := to_status, ap_decided := decided,
                               ap_result := (case result of Some r \<Rightarrow> r | None \<Rightarrow> ap_result a)\<rparr>
                        else a) (approvals d)\<rparr>)))"

definition INTERRUPTED :: str where
  "INTERRUPTED = S ''The tools service restarted while executing this approved action; its outcome is unknown.''"

definition fail_approved_tool_approvals :: "int \<Rightarrow> (tools_db, unit) txn" where
  "fail_approved_tool_approvals decided = modify (\<lambda>d.
     d\<lparr>approvals := map (\<lambda>a. if ap_status a = Granted
          then a\<lparr>ap_status := Unsuccessful, ap_decided := decided, ap_result := INTERRUPTED\<rparr> else a) (approvals d)\<rparr>)"

definition expire_tool_approvals :: "int \<Rightarrow> int \<Rightarrow> (tools_db, unit) txn" where
  "expire_tool_approvals now cutoff = modify (\<lambda>d.
     d\<lparr>approvals := map (\<lambda>a. if ap_status a = Awaiting \<and> ap_created a < cutoff
          then a\<lparr>ap_status := Expired, ap_decided := now\<rparr> else a) (approvals d)\<rparr>)"

definition prune_tool_approvals :: "int \<Rightarrow> (tools_db, unit) txn" where
  "prune_tool_approvals keep = modify (\<lambda>d.
     let newest = foldr max (map ap_number (approvals d)) 0
     in d\<lparr>approvals := filter (\<lambda>a. \<not> (ap_status a \<noteq> Awaiting \<and> ap_number a \<le> newest - keep)) (approvals d)\<rparr>)"

end
