(* ===== verification/ToolDecisions.thy ===== *)
theory ToolDecisions
  imports ToolApprovals UrlLib
begin

text \<open>
  The approval lifecycle of \<open>runtime/tools/tools_host.py\<close>: requesting an approval, deciding it,
  executing it, the maintenance pass and the recovery at service start, and the step relation
  in which any number of decisions, requests and passes interleave. A step is one atomic
  section of the code: a transaction, or the call of the tool package.
\<close>

definition APPROVAL_PENDING_TTL_SECONDS :: int where "APPROVAL_PENDING_TTL_SECONDS = 24 * 3600"
definition PENDING_APPROVAL_LIMIT :: nat where "PENDING_APPROVAL_LIMIT = 1000"
definition APPROVAL_HISTORY_LIMIT :: int where "APPROVAL_HISTORY_LIMIT = 10000"
definition PAYLOAD_MAX_BYTES :: int where "PAYLOAD_MAX_BYTES = 64 * 1024"
definition SUMMARY_MAX_BYTES :: int where "SUMMARY_MAX_BYTES = 500"

text \<open>
  The registry of bundled packages: per tool its id, the actions of its manifest with their
  schemas, whether it connects by OAuth and whether it has a credential flow. \<open>dumps\<close> is the
  compact serialisation of a JSON value (\<open>None\<close> when \<open>json.dumps\<close> raises) and \<open>loads\<close> its parser.
\<close>

record action_spec =
  as_id :: str
  as_input :: json
  as_output :: json

record bundled_tool =
  bt_id :: str
  bt_actions :: "action_spec list"
  bt_oauth :: bool
  bt_credentials :: bool

record tool_host =
  tools :: "bundled_tool list"
  dumps :: "json \<Rightarrow> str option"
  loads :: "str \<Rightarrow> json option"

definition bundled :: "tool_host \<Rightarrow> str list" where
  "bundled h = map bt_id (tools h)"

definition manifest_action :: "tool_host \<Rightarrow> str \<Rightarrow> str \<Rightarrow> action_spec option" where
  "manifest_action h tool action =
     Option.bind (find_first (\<lambda>t. bt_id t = tool) (tools h))
       (\<lambda>t. find_first (\<lambda>a. as_id a = action) (bt_actions t))"

subsection \<open>Results\<close>

datatype action_result =
    ActionExecuted json
  | ApprovalExecuted str
  | ActionPendingApproval str str
  | ActionFailed str bool
  | StreamingAsset

text \<open>The JSON of a result; a stream has none of the attributes of a failure.\<close>

fun result_json :: "action_result \<Rightarrow> fault + (str \<times> json) list" where
  "result_json (ActionExecuted r) = Inr [(S ''status'', JStr (S ''executed'')), (S ''result'', r)]"
| "result_json (ApprovalExecuted m) = Inr [(S ''status'', JStr (S ''executed'')), (S ''message'', JStr m)]"
| "result_json (ActionPendingApproval aid summary) =
     Inr [(S ''status'', JStr (S ''pending_approval'')), (S ''approval_id'', JStr aid), (S ''summary'', JStr summary)]"
| "result_json (ActionFailed e r) =
     Inr [(S ''status'', JStr (S ''failed'')), (S ''error'', JStr e), (S ''reconnect_required'', JBool r)]"
| "result_json StreamingAsset = Inl (Raised AttributeError)"

definition truthy_str :: "json \<Rightarrow> str option" where
  "truthy_str j = (case j of JStr s \<Rightarrow> if s = [] then None else Some s | _ \<Rightarrow> None)"

definition status_of :: "(str \<times> json) list \<Rightarrow> str" where
  "status_of r = (case jget r (S ''status'') of JStr s \<Rightarrow> s | _ \<Rightarrow> [])"

definition approval_audit_detail :: "str \<Rightarrow> (str \<times> json) list \<Rightarrow> str" where
  "approval_audit_detail aid r =
     (case truthy_str (jget r (S ''error'')) of Some e \<Rightarrow> aid @ S '': '' @ e | None \<Rightarrow> aid)"

definition audit_detail :: "(str \<times> json) list \<Rightarrow> str" where
  "audit_detail r =
     (case or_else (truthy_str (jget r (S ''error''))) (truthy_str (jget r (S ''approval_id''))) of
        Some s \<Rightarrow> s | None \<Rightarrow> [])"

subsection \<open>Requesting an approval\<close>

definition ensure_json_object :: "tool_host \<Rightarrow> json \<Rightarrow> int \<Rightarrow> fault + str" where
  "ensure_json_object h value limit =
     (case value of
        JObj kvs \<Rightarrow>
          (case dumps h value of
             None \<Rightarrow> Inl (Raised (ValueError (S ''not serializable'')))
           | Some s \<Rightarrow>
               (case utf8_encode s of
                  None \<Rightarrow> Inl (Raised UnicodeError)
                | Some b \<Rightarrow> if limit < int (length b) then Inl (Raised (ValueError (S ''too large''))) else Inr s))
      | _ \<Rightarrow> Inl (Raised (ValueError (S ''not an object''))))"

text \<open>\<open>HostApprovals.request\<close>; the summary is a text, as the signature says.\<close>

definition request_approval ::
  "tool_host \<Rightarrow> str \<Rightarrow> str \<Rightarrow> str \<Rightarrow> json \<Rightarrow> int \<Rightarrow> str \<Rightarrow> (tools_db, approval) txn" where
  "request_approval h tool action summary payload now token =
     (if manifest_action h tool action = None then abort (Raised (ValueError (S ''unknown action'')))
      else case utf8_encode summary of
        None \<Rightarrow> abort (Raised UnicodeError)
      | Some b \<Rightarrow>
          if \<not> (1 \<le> length b \<and> int (length b) \<le> SUMMARY_MAX_BYTES) then abort (Raised (ValueError (S ''summary'')))
          else bind_txn (lift_txn (ensure_json_object h payload PAYLOAD_MAX_BYTES)) (\<lambda>_.
               insert_tool_approval tool action summary payload now token PENDING_APPROVAL_LIMIT))"

subsection \<open>Deciding an approval\<close>

datatype decision = Deny | Approve

text \<open>
  What the call of a tool package does: it returns, or it raises; a missing configuration key and
  a refused approval request are told apart from other exceptions.
\<close>

datatype tool_answer = Returns action_result | Config_unset str | Backpressure str | Raises

abbreviation tool_call_error :: fault where
  "tool_call_error \<equiv> Raised (RuntimeError (S ''ToolCallError''))"

text \<open>The result an answer is turned into.\<close>

fun approved_result :: "tool_answer \<Rightarrow> action_result" where
  "approved_result (Config_unset e) = ActionFailed e False"
| "approved_result (Backpressure e) = ActionFailed (S ''Tool call failed.'') False"
| "approved_result Raises = ActionFailed (S ''Tool call failed.'') False"
| "approved_result (Returns (ActionPendingApproval aid summary)) =
     ActionFailed (S ''Tool returned a pending result for an approved action.'') False"
| "approved_result (Returns r) = r"

definition record_approved_outcome :: "str \<Rightarrow> approval \<Rightarrow> (str \<times> json) list \<Rightarrow> (tools_db, unit) txn" where
  "record_approved_outcome now a r =
     record_tool_event now (ap_tool a) (ap_action a) (status_of r) (approval_audit_detail (ap_id a) r)
       (Some (ap_payload a))"

definition terminal_status :: "(str \<times> json) list \<Rightarrow> approval_status" where
  "terminal_status r = (if status_of r = S ''executed'' then Executed else Unsuccessful)"

definition result_text :: "(str \<times> json) list \<Rightarrow> str" where
  "result_text r =
     (case or_else (truthy_str (jget r (S ''message''))) (truthy_str (jget r (S ''error''))) of
        Some s \<Rightarrow> s | None \<Rightarrow> [])"

text \<open>A thread in \<open>decide_approval\<close>, at the point between two of its atomic sections.\<close>

datatype decider =
    Asked str decision                               \<comment> \<open>before the record is read\<close>
  | Found str decision approval                      \<comment> \<open>the record was read\<close>
  | Refused str approval                             \<comment> \<open>the denial won; its event is to be written\<close>
  | Gate_passed str approval                         \<comment> \<open>the approval won; the tool is to be looked up\<close>
  | Calling str approval                             \<comment> \<open>\<open>execute_approved\<close> is running\<close>
  | Ran str approval "(str \<times> json) list"             \<comment> \<open>the outcome is audited and to be recorded\<close>
  | Finished "fault + unit"

text \<open>The next section of a decision; the tool's answer is an input. A call is logged with its record.\<close>

fun decider_step ::
  "tool_host \<Rightarrow> str \<Rightarrow> int \<Rightarrow> tool_answer \<Rightarrow> decider \<Rightarrow> tools_db \<Rightarrow> (decider \<times> tools_db \<times> approval list)" where
  "decider_step h stamp now answer (Asked aid decision) d =
     (case tool_approval d aid None of
        Inl f \<Rightarrow> (Finished (Inl f), d, [])
      | Inr None \<Rightarrow> (Finished (Inl tool_call_error), d, [])
      | Inr (Some a) \<Rightarrow> (Found aid decision a, d, []))"
| "decider_step h stamp now answer (Found aid Deny a) d =
     (case mutation (transition_tool_approval aid Awaiting Denied now None) d of
        (Inr True, d') \<Rightarrow> (Refused aid a, d', [])
      | (Inr False, d') \<Rightarrow> (Finished (Inl tool_call_error), d', [])
      | (Inl f, d') \<Rightarrow> (Finished (Inl f), d', []))"
| "decider_step h stamp now answer (Found aid Approve a) d =
     (case mutation (transition_tool_approval aid Awaiting Granted now None) d of
        (Inr True, d') \<Rightarrow> (Gate_passed aid (a\<lparr>ap_status := Granted, ap_decided := now\<rparr>), d', [])
      | (Inr False, d') \<Rightarrow> (Finished (Inl tool_call_error), d', [])
      | (Inl f, d') \<Rightarrow> (Finished (Inl f), d', []))"
| "decider_step h stamp now answer (Refused aid a) d =
     (Finished (Inr ()),
      snd (mutation (record_tool_event stamp (ap_tool a) (ap_action a) (S ''denied'') aid (Some (ap_payload a))) d), [])"
| "decider_step h stamp now answer (Gate_passed aid a) d =
     (case enabled_tool_error (bundled h) d (ap_tool a) of
        None \<Rightarrow> (Calling aid a, d, [a])
      | Some e \<Rightarrow>
          (case result_json (ActionFailed e False) of
             Inl f \<Rightarrow> (Finished (Inl f), d, [])
           | Inr r \<Rightarrow> (Ran aid a r, snd (mutation (record_approved_outcome stamp a r) d), [])))"
| "decider_step h stamp now answer (Calling aid a) d =
     (case result_json (approved_result answer) of
        Inl f \<Rightarrow> (Finished (Inl f), d, [])
      | Inr r \<Rightarrow> (Ran aid a r, snd (mutation (record_approved_outcome stamp a r) d), []))"
| "decider_step h stamp now answer (Ran aid a r) d =
     (Finished (Inr ()),
      snd (mutation (transition_tool_approval aid Granted (terminal_status r) now (Some (result_text r))) d), [])"
| "decider_step h stamp now answer (Finished r) d = (Finished r, d, [])"

subsection \<open>The service\<close>

text \<open>
  The tables, the decisions under way, every decision asked for so far and the records
  \<open>execute_approved\<close> was called with so far.
\<close>

record tools_service =
  tdb :: tools_db
  deciders :: "decider list"
  asked :: "(str \<times> decision) list"
  calls :: "approval list"

inductive service_step :: "tool_host \<Rightarrow> tools_service \<Rightarrow> tools_service \<Rightarrow> bool" for h where
  decide: "service_step h s (s\<lparr>deciders := deciders s @ [Asked aid decision], asked := asked s @ [(aid, decision)]\<rparr>)"
| continue: "j < length (deciders s) \<Longrightarrow> decider_step h stamp now answer (deciders s ! j) (tdb s) = (t, d, called) \<Longrightarrow>
    service_step h s (s\<lparr>tdb := d, deciders := (deciders s)[j := t], calls := calls s @ called\<rparr>)"
| request: "service_step h s (s\<lparr>tdb := snd (mutation (request_approval h tool action summary payload now token) (tdb s))\<rparr>)"
| audit: "service_step h s
    (s\<lparr>tdb := snd (mutation (record_tool_event stamp tool action outcome detail arguments) (tdb s))\<rparr>)"
| expire: "service_step h s
    (s\<lparr>tdb := snd (mutation (expire_tool_approvals now (now' - APPROVAL_PENDING_TTL_SECONDS)) (tdb s))\<rparr>)"
| prune: "service_step h s (s\<lparr>tdb := snd (mutation (prune_tool_approvals APPROVAL_HISTORY_LIMIT) (tdb s))\<rparr>)"
| enable: "service_step h s (s\<lparr>tdb := snd (mutation (set_tool_enabled tool on) (tdb s))\<rparr>)"
| crash: "service_step h s (s\<lparr>deciders := []\<rparr>)"
| recover: "deciders s = [] \<Longrightarrow>
    service_step h s (s\<lparr>tdb := snd (mutation (fail_approved_tool_approvals now) (tdb s))\<rparr>)"

inductive_cases service_stepE [elim]: "service_step h s s'"

definition empty_tools_db :: tools_db where
  "empty_tools_db = \<lparr>enabled_tools = [], approvals = [], tool_events = [], next_approval = 1, next_tool_event = 1\<rparr>"

definition empty_service :: tools_service where
  "empty_service = \<lparr>tdb = empty_tools_db, deciders = [], asked = [], calls = []\<rparr>"

subsection \<open>What every step keeps\<close>

abbreviation approvals_of :: "tools_db \<Rightarrow> int \<times> approval list" where
  "approvals_of d \<equiv> (next_approval d, approvals d)"

abbreviation approvals_step :: "tools_db \<Rightarrow> tools_db \<Rightarrow> bool" where
  "approvals_step d d' \<equiv> table_step approval_moves ap_status ap_identity ap_number (approvals_of d) (approvals_of d')"

named_theorems approval_steps \<open>the blocks that move approvals forward\<close>

lemma relates_approvals_step:
  "(\<And>d a d'. m d = Inr (a, d') \<Longrightarrow> approvals_step d d') \<Longrightarrow> relates approvals_step m"
  by (rule relatesI)

lemma approvals_step_refl: "reflp approvals_step"
  by (simp add: reflp_def)

lemma approvals_step_trans: "transp approvals_step"
  unfolding transp_def using approval_table.step_trans by blast

lemma step_event [approval_steps]: "relates approvals_step (record_tool_event stamp tool action outcome detail arguments)"
  by (rule relatesI)
     (auto simp: record_tool_event_def prune_tool_events_def txn_simps Let_def split: if_splits)

lemma step_enable [approval_steps]: "relates approvals_step (set_tool_enabled tool on)"
  by (rule relatesI) (auto simp: set_tool_enabled_def txn_simps)

lemma step_expire [approval_steps]: "relates approvals_step (expire_tool_approvals now cutoff)"
  by (rule relatesI)
     (auto simp: expire_tool_approvals_def txn_simps ap_identity_def
       intro!: approval_table.step_update approval_table.leads_move)

lemma step_recover [approval_steps]: "relates approvals_step (fail_approved_tool_approvals now)"
  by (rule relatesI)
     (auto simp: fail_approved_tool_approvals_def txn_simps ap_identity_def
       intro!: approval_table.step_update approval_table.leads_move)

lemma step_prune [approval_steps]: "relates approvals_step (prune_tool_approvals keep)"
  by (rule relatesI) (auto simp: prune_tool_approvals_def txn_simps Let_def intro!: approval_table.step_delete)

lemma step_transition [approval_steps]:
  "to_status \<in> set (approval_moves from_status) \<Longrightarrow>
   relates approvals_step (transition_tool_approval aid from_status to_status decided result)"
  by (rule relatesI)
     (auto simp: transition_tool_approval_def Let_def ap_identity_def
       intro!: approval_table.step_update approval_table.leads_move split: option.splits)

lemma step_request [approval_steps]: "relates approvals_step (request_approval h tool action summary payload now token)"
  by (rule relatesI)
     (auto simp: request_approval_def insert_tool_approval_def txn_simps Let_def
       intro!: approval_table.step_insert split: if_splits option.splits)

lemma decider_step_forward: "decider_step h stamp now answer t d = (t', d', called) \<Longrightarrow> approvals_step d d'"
proof -
  have go: "approvals_step d (snd (mutation m d))" if "relates approvals_step m" for m :: "(tools_db, 'a) txn" and d
    using relates_mutation [OF approvals_step_refl that] .
  have tr: "approvals_step d d'" if "mutation (transition_tool_approval aid from_status to_status n r) d = (x, d')"
    "to_status \<in> set (approval_moves from_status)" for aid from_status to_status n r x d d'
    using go [OF step_transition [OF that(2), of aid n r], of d] that(1) by simp
  assume "decider_step h stamp now answer t d = (t', d', called)"
  then show ?thesis
    by (cases "(h, stamp, now, answer, t, d)" rule: decider_step.cases)
       (auto simp: record_approved_outcome_def terminal_status_def intro!: go step_event step_transition
         dest: tr split: sum.splits option.splits prod.splits bool.splits)
qed

lemma service_step_forward:
  assumes "service_step h s s'"
  shows "approvals_step (tdb s) (tdb s')"
proof -
  have go: "approvals_step d (snd (mutation m d))" if "relates approvals_step m" for m :: "(tools_db, 'a) txn" and d
    using relates_mutation [OF approvals_step_refl that] .
  from assms show ?thesis
    by cases (auto intro!: go approval_steps dest: decider_step_forward)
qed

end
