(* ===== verification/ToolInvariants.thy ===== *)
theory ToolInvariants
  imports ToolDecisions TaskApi
begin

text \<open>
  What the approval lifecycle guarantees in every interleaving: an approved action is executed
  at most once and only after its own approval, with the payload that was proposed; decided
  approvals stay decided; the pending queue is bounded; and an approval is reached only through
  its full unguessable id.
\<close>

subsection \<open>The record a decision works on\<close>

fun record_of :: "decider \<Rightarrow> (str \<times> approval) option" where
  "record_of (Found aid decision a) = Some (aid, a)"
| "record_of (Refused aid a) = Some (aid, a)"
| "record_of (Gate_passed aid a) = Some (aid, a)"
| "record_of (Calling aid a) = Some (aid, a)"
| "record_of (Ran aid a r) = Some (aid, a)"
| "record_of t = None"

fun wants :: "decider \<Rightarrow> (str \<times> decision) option" where
  "wants (Asked aid decision) = Some (aid, decision)"
| "wants (Found aid decision a) = Some (aid, decision)"
| "wants (Gate_passed aid a) = Some (aid, Approve)"
| "wants t = None"

fun holds_gate :: "int \<Rightarrow> decider \<Rightarrow> bool" where
  "holds_gate n (Gate_passed aid a) = (ap_number a = n)"
| "holds_gate n t = False"

text \<open>How often the single use of an approval was taken: by a call, or by a decision about to call.\<close>

definition grants :: "tools_service \<Rightarrow> int \<Rightarrow> nat" where
  "grants s n = length (filter (\<lambda>a. ap_number a = n) (calls s)) + length (filter (holds_gate n) (deciders s))"

definition known_record :: "tools_db \<Rightarrow> approval \<Rightarrow> bool" where
  "known_record d a \<longleftrightarrow> ap_number a < next_approval d
     \<and> (\<forall>r \<in> set (approvals d). ap_number r = ap_number a \<longrightarrow> ap_identity r = ap_identity a)"

definition granted :: "tools_db \<Rightarrow> int \<Rightarrow> bool" where
  "granted d n \<longleftrightarrow> n < next_approval d
     \<and> (\<forall>r \<in> set (approvals d). ap_number r = n \<longrightarrow> leads approval_moves Granted (ap_status r))"

definition record_ok :: "tools_db \<Rightarrow> decider \<Rightarrow> bool" where
  "record_ok d t \<longleftrightarrow> (case record_of t of None \<Rightarrow> True
     | Some (aid, a) \<Rightarrow> known_record d a \<and> aid = ap_id a \<and> approval_number aid = Inr (Some (ap_number a)))"

definition wish_ok :: "(str \<times> decision) list \<Rightarrow> decider \<Rightarrow> bool" where
  "wish_ok as t \<longleftrightarrow> (case wants t of None \<Rightarrow> True | Some w \<Rightarrow> w \<in> set as)"

definition service_ok :: "tools_service \<Rightarrow> bool" where
  "service_ok s \<longleftrightarrow> table_ok ap_number (approvals_of (tdb s))
     \<and> (\<forall>t \<in> set (deciders s). record_ok (tdb s) t \<and> wish_ok (asked s) t)
     \<and> (\<forall>c \<in> set (calls s). known_record (tdb s) c \<and> (ap_id c, Approve) \<in> set (asked s))
     \<and> (\<forall>n. grants s n \<le> 1 \<and> (0 < grants s n \<longrightarrow> granted (tdb s) n))"

lemma known_record_step: "known_record d a \<Longrightarrow> table_ok ap_number (approvals_of d) \<Longrightarrow> approvals_step d d' \<Longrightarrow> known_record d' a"
proof -
  assume a: "known_record d a" and ok: "table_ok ap_number (approvals_of d)" and step: "approvals_step d d'"
  have "ap_identity r' = ap_identity a" if r': "r' \<in> set (approvals d')" "ap_number r' = ap_number a" for r'
  proof -
    from step r' a obtain r where "r \<in> set (approvals d)" "moved approval_moves ap_status ap_identity r r'"
      by (force simp: table_step_def known_record_def)
    with a r'(2) show ?thesis
      using approval_table.moved_key by (metis known_record_def moved_def)
  qed
  with a step show ?thesis by (auto simp: known_record_def table_step_def)
qed

lemma granted_step: "granted d n \<Longrightarrow> approvals_step d d' \<Longrightarrow> granted d' n"
proof -
  assume g: "granted d n" and step: "approvals_step d d'"
  have "leads approval_moves Granted (ap_status r')" if r': "r' \<in> set (approvals d')" "ap_number r' = n" for r'
  proof -
    from step r' g obtain r where "r \<in> set (approvals d)" "moved approval_moves ap_status ap_identity r r'"
      by (force simp: table_step_def granted_def)
    with g r'(2) approval_table.moved_key show ?thesis
      unfolding granted_def moved_def by (metis approval_table.leads_trans moved_def)
  qed
  with g step show ?thesis by (auto simp: granted_def table_step_def)
qed

subsection \<open>Well-formed tables\<close>

abbreviation approvals_ok :: "tools_db \<Rightarrow> bool" where
  "approvals_ok d \<equiv> table_ok ap_number (approvals_of d)"

named_theorems approval_keys \<open>the blocks that keep the approvals table well formed\<close>

lemma keys_event [approval_keys]: "keeps approvals_ok (record_tool_event stamp tool action outcome detail arguments)"
  by (rule keepsI) (auto simp: record_tool_event_def prune_tool_events_def txn_simps Let_def split: if_splits)

lemma keys_enable [approval_keys]: "keeps approvals_ok (set_tool_enabled tool on)"
  by (rule keepsI) (auto simp: set_tool_enabled_def txn_simps)

lemma keys_expire [approval_keys]: "keeps approvals_ok (expire_tool_approvals now cutoff)"
  by (rule keepsI) (auto simp: expire_tool_approvals_def txn_simps intro!: table_ok_update)

lemma keys_recover [approval_keys]: "keeps approvals_ok (fail_approved_tool_approvals now)"
  by (rule keepsI) (auto simp: fail_approved_tool_approvals_def txn_simps intro!: table_ok_update)

lemma keys_prune [approval_keys]: "keeps approvals_ok (prune_tool_approvals keep)"
  by (rule keepsI) (auto simp: prune_tool_approvals_def txn_simps Let_def intro!: table_ok_delete)

lemma keys_transition [approval_keys]:
  "keeps approvals_ok (transition_tool_approval aid from_status to_status decided result)"
  by (rule keepsI)
     (auto simp: transition_tool_approval_def Let_def intro!: table_ok_update split: option.splits)

lemma keys_request [approval_keys]: "keeps approvals_ok (request_approval h tool action summary payload now token)"
  by (rule keepsI)
     (auto simp: request_approval_def insert_tool_approval_def txn_simps Let_def intro!: table_ok_insert
       split: if_splits option.splits)

lemma decider_step_ok:
  assumes run: "decider_step h stamp now answer t d = (t', d', called)" and ok: "approvals_ok d"
  shows "approvals_ok d'"
proof -
  have go: "approvals_ok (snd (mutation m d))" if "keeps approvals_ok m" for m :: "(tools_db, 'a) txn"
    using keeps_mutation [OF that ok] .
  have tr: "approvals_ok d'" if "mutation (transition_tool_approval aid from_status to_status n r) d = (x, d')"
    for aid from_status to_status n r x d'
    using go [OF keys_transition [of aid from_status to_status n r]] that by simp
  from run ok show ?thesis
    by (cases "(h, stamp, now, answer, t, d)" rule: decider_step.cases)
       (auto simp: record_approved_outcome_def intro!: go keys_event keys_transition
         dest: tr split: sum.splits option.splits prod.splits bool.splits)
qed

lemma service_step_ok:
  assumes "service_step h s s'" "approvals_ok (tdb s)"
  shows "approvals_ok (tdb s')"
proof -
  have go: "approvals_ok (snd (mutation m (tdb s)))" if "keeps approvals_ok m" for m :: "(tools_db, 'a) txn"
    using keeps_mutation [OF that assms(2)] .
  from assms show ?thesis by cases (auto intro!: go approval_keys dest: decider_step_ok)
qed

subsection \<open>A decision's step\<close>

lemma approval_unique:
  "approvals_ok d \<Longrightarrow> a \<in> set (approvals d) \<Longrightarrow> b \<in> set (approvals d) \<Longrightarrow> ap_number a = ap_number b \<Longrightarrow> a = b"
  unfolding table_ok_def distinct_map by (auto dest: inj_onD)

lemma transition_won:
  assumes run: "mutation (transition_tool_approval aid from_status to_status n r) d = (Inr True, d')"
    and k: "approval_number aid = Inr (Some k)" and ok: "approvals_ok d"
  shows "\<exists>a \<in> set (approvals d). ap_number a = k \<and> ap_status a = from_status"
    and "\<forall>a \<in> set (approvals d'). ap_number a = k \<longrightarrow> ap_status a = to_status"
proof -
  let ?hit = "\<lambda>a. ap_number a = k \<and> ap_status a = from_status"
  let ?new = "\<lambda>a. a\<lparr>ap_status := to_status, ap_decided := n,
      ap_result := (case r of Some r \<Rightarrow> r | None \<Rightarrow> ap_result a)\<rparr>"
  from run k have hit: "list_ex ?hit (approvals d)"
    and d': "approvals d' = map (\<lambda>a. if ?hit a then ?new a else a) (approvals d)"
    by (auto simp: mutation_Inr transition_tool_approval_def Let_def)
  from hit obtain b where b: "b \<in> set (approvals d)" "?hit b" by (auto simp: list_ex_iff)
  then show "\<exists>a \<in> set (approvals d). ap_number a = k \<and> ap_status a = from_status" by blast
  show "\<forall>a \<in> set (approvals d'). ap_number a = k \<longrightarrow> ap_status a = to_status"
  proof (intro ballI impI)
    fix a assume "a \<in> set (approvals d')" and num: "ap_number a = k"
    then obtain a0 where a0: "a = (if ?hit a0 then ?new a0 else a0)" "a0 \<in> set (approvals d)"
      unfolding d' set_map by (elim imageE)
    with num have "ap_number a0 = k" by (auto split: if_splits)
    with approval_unique [OF ok a0(2) b(1)] b have "a0 = b" by simp
    with a0 b show "ap_status a = to_status" by simp
  qed
qed

lemma tool_approval_found:
  assumes "tool_approval d aid tool = Inr (Some a)"
  shows "a \<in> set (approvals d)" "aid = ap_id a" "approval_number aid = Inr (Some (ap_number a))"
proof -
  let ?P = "\<lambda>n a. ap_number a = n \<and> (case tool of None \<Rightarrow> True | Some t \<Rightarrow> ap_tool a = t)"
  from assms obtain n where n: "approval_number aid = Inr (Some n)"
    by (cases "approval_number aid") (auto simp: tool_approval_def split: option.splits)
  with assms obtain r where r: "find_first (?P n) (approvals d) = Some r"
    by (cases "find_first (?P n) (approvals d)") (auto simp: tool_approval_def)
  with assms n have "aid = ap_id r \<and> a = r" by (auto simp: tool_approval_def split: if_splits)
  with find_first_Some [OF r] n show "a \<in> set (approvals d)" "aid = ap_id a" "approval_number aid = Inr (Some (ap_number a))"
    by auto
qed

text \<open>The gate of the approval moves from the decision to the call log, and is never taken twice.\<close>

definition called_count :: "approval list \<Rightarrow> int \<Rightarrow> nat" where
  "called_count cs n = length (filter (\<lambda>a. ap_number a = n) cs)"

lemma decider_step_gate:
  assumes run: "decider_step h stamp now answer t d = (t', d', called)" and ok: "approvals_ok d"
    and rec: "record_ok d t"
  shows "called_count called n + (if holds_gate n t' then 1 else 0) \<le> (if holds_gate n t then 1 else 0)
    \<or> called_count called n + (if holds_gate n t' then 1 else 0) = 1 \<and> granted d' n
      \<and> (\<exists>a \<in> set (approvals d). ap_number a = n \<and> ap_status a = Awaiting)"
proof (cases "\<exists>aid a. t = Found aid Approve a")
  case True
  then obtain aid a where t: "t = Found aid Approve a" by blast
  with rec have a: "known_record d a" "approval_number aid = Inr (Some (ap_number a))" by (auto simp: record_ok_def)
  obtain x d1 where m: "mutation (transition_tool_approval aid Awaiting Granted now None) d = (x, d1)"
    by (cases "mutation (transition_tool_approval aid Awaiting Granted now None) d")
  show ?thesis
  proof (cases "x = Inr True")
    case True
    with m have won: "mutation (transition_tool_approval aid Awaiting Granted now None) d = (Inr True, d1)" by simp
    note w = transition_won [OF won a(2) ok]
    from won run t have eq: "t' = Gate_passed aid (a\<lparr>ap_status := Granted, ap_decided := now\<rparr>)" "d' = d1" "called = []"
      by auto
    have "next_approval d1 = next_approval d"
      using won a(2) by (auto simp: mutation_Inr transition_tool_approval_def Let_def)
    with w(2) a(1) have "granted d1 (ap_number a)" by (simp add: granted_def known_record_def)
    with eq w(1) show ?thesis by (auto simp: called_count_def)
  next
    case False
    with run t m have "\<not> holds_gate n t' \<and> called = []"
      by (auto split: sum.splits bool.splits)
    then show ?thesis by (simp add: called_count_def)
  qed
next
  case False
  with run show ?thesis
    by (cases "(h, stamp, now, answer, t, d)" rule: decider_step.cases)
       (auto simp: called_count_def split: sum.splits option.splits prod.splits bool.splits)
qed

lemma decider_step_records:
  assumes run: "decider_step h stamp now answer t d = (t', d', called)" and ok: "approvals_ok d"
    and rec: "record_ok d t"
  shows "record_ok d' t'"
    and "\<forall>c \<in> set called. known_record d' c \<and> wants t = Some (ap_id c, Approve)"
    and "case wants t' of None \<Rightarrow> True | Some w \<Rightarrow> wants t = Some w"
proof -
  have fresh: "known_record d a" if "tool_approval d aid tool = Inr (Some a)" for aid tool a
    using tool_approval_found(1) [OF that] ok approval_unique [OF ok]
    by (auto simp: known_record_def table_ok_def)
  have later: "known_record d' a" if "known_record d a" for a
    by (rule known_record_step [OF that ok decider_step_forward [OF run]])
  have upd: "known_record e (a\<lparr>ap_status := st, ap_decided := m\<rparr>) = known_record e a"
    "ap_id (a\<lparr>ap_status := st, ap_decided := m\<rparr>) = ap_id a" for e a st m
    by (simp_all add: known_record_def ap_identity_def ap_id_def)
  show "record_ok d' t'"
    using run rec later fresh tool_approval_found(2,3) [of d]
    by (cases "(h, stamp, now, answer, t, d)" rule: decider_step.cases)
       (auto simp: upd record_ok_def split: sum.splits option.splits prod.splits bool.splits)
  show "\<forall>c \<in> set called. known_record d' c \<and> wants t = Some (ap_id c, Approve)"
    using run rec later
    by (cases "(h, stamp, now, answer, t, d)" rule: decider_step.cases)
       (auto simp: record_ok_def split: sum.splits option.splits prod.splits bool.splits)
  show "case wants t' of None \<Rightarrow> True | Some w \<Rightarrow> wants t = Some w"
    using run
    by (cases "(h, stamp, now, answer, t, d)" rule: decider_step.cases)
       (auto split: sum.splits option.splits prod.splits bool.splits)
qed

subsection \<open>Every reachable state\<close>

lemma length_filter_update:
  "j < length xs \<Longrightarrow> length (filter P (xs[j := x])) + (if P (xs ! j) then 1 else 0)
     = length (filter P xs) + (if P x then 1 else (0::nat))"
proof (induction xs arbitrary: j)
  case (Cons y ys)
  then show ?case by (cases j) auto
qed simp

lemma set_update_D: "t \<in> set (xs[j := x]) \<Longrightarrow> t \<in> set xs \<or> t = x"
  using set_update_subset_insert by fastforce

lemma service_ok_tables:
  assumes ok: "service_ok s" and step: "approvals_step (tdb s) d'" and keys: "approvals_ok d'"
    and ds: "set ds \<subseteq> set (deciders s)" "\<And>n. length (filter (holds_gate n) ds) \<le> length (filter (holds_gate n) (deciders s))"
    and ask: "set (asked s) \<subseteq> set as"
  shows "service_ok (s\<lparr>tdb := d', deciders := ds, asked := as\<rparr>)"
proof -
  let ?s = "s\<lparr>tdb := d', deciders := ds, asked := as\<rparr>"
  from ok have k: "approvals_ok (tdb s)" by (simp add: service_ok_def)
  note known = known_record_step [OF _ k step]
  have g: "grants ?s n \<le> grants s n" for n using ds(2) [of n] by (simp add: grants_def)
  have "record_ok d' t"
    if "t \<in> set ds" for t
    using that ds(1) ok known by (fastforce simp: service_ok_def record_ok_def record_ok_def split: option.splits prod.splits)
  moreover have "wish_ok as t" if "t \<in> set ds" for t
    using that ds(1) ok ask by (fastforce simp: service_ok_def wish_ok_def split: option.splits)
  moreover have "known_record d' c \<and> (ap_id c, Approve) \<in> set as" if "c \<in> set (calls s)" for c
    using that ok known ask by (auto simp: service_ok_def)
  moreover have "grants ?s n \<le> 1 \<and> (0 < grants ?s n \<longrightarrow> granted d' n)" for n
  proof -
    have "grants s n \<le> 1" "0 < grants s n \<longrightarrow> granted (tdb s) n" using ok by (simp_all add: service_ok_def)
    with g [of n] granted_step [OF _ step, of n] show ?thesis by fastforce
  qed
  ultimately show ?thesis using keys by (simp add: service_ok_def)
qed

lemma service_ok_continue:
  assumes ok: "service_ok s" and j: "j < length (deciders s)"
    and run: "decider_step h stamp now answer (deciders s ! j) (tdb s) = (t, d, called)"
  shows "service_ok (s\<lparr>tdb := d, deciders := (deciders s)[j := t], calls := calls s @ called\<rparr>)"
proof -
  let ?s = "s\<lparr>tdb := d, deciders := (deciders s)[j := t], calls := calls s @ called\<rparr>" and ?t = "deciders s ! j"
  from j have mem: "?t \<in> set (deciders s)" by simp
  from ok have k: "approvals_ok (tdb s)" by (simp add: service_ok_def)
  from ok mem have rec: "record_ok (tdb s) ?t"
    unfolding service_ok_def by blast
  from ok mem have wanted: "wish_ok (asked s) ?t"
    unfolding service_ok_def by blast
  note step = decider_step_forward [OF run] and records = decider_step_records [OF run k rec]
    and gate = decider_step_gate [OF run k rec]
  note known = known_record_step [OF _ k step]
  have "record_ok d u"
    if "u \<in> set ((deciders s)[j := t])" for u
    using set_update_D [OF that] records(1) ok known
    by (fastforce simp: service_ok_def record_ok_def split: option.splits prod.splits)
  moreover have "wish_ok (asked s) u" if "u \<in> set ((deciders s)[j := t])" for u
    using set_update_D [OF that] records(3) wanted ok by (fastforce simp: service_ok_def wish_ok_def split: option.splits)
  moreover have "known_record d c \<and> (ap_id c, Approve) \<in> set (asked s)" if "c \<in> set (calls s @ called)" for c
    using that records(2) wanted ok known by (auto simp: service_ok_def wish_ok_def)
  moreover have "grants ?s n \<le> 1 \<and> (0 < grants ?s n \<longrightarrow> granted d n)" for n
  proof -
    have old: "grants s n \<le> 1" "0 < grants s n \<longrightarrow> granted (tdb s) n" using ok by (simp_all add: service_ok_def)
    have eq: "grants ?s n + (if holds_gate n ?t then 1 else 0)
        = grants s n + called_count called n + (if holds_gate n t then 1 else 0)"
      using length_filter_update [OF j, of "holds_gate n" t] by (simp add: grants_def called_count_def)
    from gate [of n] show ?thesis
    proof (elim disjE conjE)
      assume "called_count called n + (if holds_gate n t then 1 else 0) \<le> (if holds_gate n ?t then 1 else 0)"
      with eq have "grants ?s n \<le> grants s n" by linarith
      with old granted_step [OF _ step, of n] show ?thesis by fastforce
    next
      assume one: "called_count called n + (if holds_gate n t then 1 else 0) = 1" and g: "granted d n"
        and "\<exists>a \<in> set (approvals (tdb s)). ap_number a = n \<and> ap_status a = Awaiting"
      then have "\<not> granted (tdb s) n"
        using approval_table.leads_rank by (fastforce simp: granted_def)
      with old have "grants s n = 0" by simp
      with eq one have "grants ?s n \<le> 1" by linarith
      with g show ?thesis by simp
    qed
  qed
  ultimately show ?thesis using decider_step_ok [OF run k] by (simp add: service_ok_def)
qed

lemma service_ok_step:
  assumes "service_step h s s'" "service_ok s"
  shows "service_ok s'"
proof -
  have k: "approvals_ok (tdb s)" using assms(2) by (simp add: service_ok_def)
  note tables = service_ok_tables [OF assms(2) service_step_forward [OF assms(1)] service_step_ok [OF assms(1) k],
      where ds = "deciders s'" and as = "asked s'"]
  from assms(1) show ?thesis
  proof cases
    case (continue j stamp now answer t d called)
    with service_ok_continue [OF assms(2)] show ?thesis by blast
  next
    case (decide aid decision)
    with assms(2) show ?thesis
      by (auto simp: service_ok_def grants_def record_ok_def wish_ok_def split: option.splits)
  next
    case (recover now)
    with tables show ?thesis by (cases s) auto
  qed (use tables in auto)
qed

definition reachable_service :: "tool_host \<Rightarrow> tools_service \<Rightarrow> bool" where
  "reachable_service h s \<longleftrightarrow> (service_step h)\<^sup>*\<^sup>* empty_service s"

lemma service_ok_reachable: "reachable_service h s \<Longrightarrow> service_ok s"
  unfolding reachable_service_def
proof (induction rule: rtranclp_induct)
  case base
  show ?case by (simp add: service_ok_def empty_service_def empty_tools_db_def table_ok_def grants_def)
qed (rule service_ok_step)

lemma after_grant: "leads approval_moves Granted t \<Longrightarrow> t \<in> {Granted, Executed, Unsuccessful}"
  unfolding leads_def by (induction rule: rtranclp_induct) auto

lemma distinct_map_counts:
  assumes "\<And>n. length (filter (\<lambda>a. f a = n) xs) \<le> 1"
  shows "distinct (map f xs)"
  using assms
proof (induction xs)
  case (Cons x xs)
  have "length (filter (\<lambda>a. f a = n) xs) \<le> 1" for n
    using Cons.prems [of n] by (auto split: if_splits)
  moreover have "filter (\<lambda>a. f a = f x) xs = []" using Cons.prems [of "f x"] by simp
  ultimately show ?case using Cons.IH by (auto simp: filter_empty_conv)
qed simp

text \<open>
  C10. A sensitive action runs at most once, and only after the operator approved exactly that
  approval: in every interleaving of decisions, requests, restarts and maintenance, no approval
  is executed twice, every execution was asked for as an approval under its full id, it used
  the tool, action and payload stored in the record, and the record of an executed approval
  never reads as pending, denied or expired.
\<close>

theorem approved_at_most_once:
  assumes "reachable_service h s"
  shows "distinct (map ap_number (calls s))
    \<and> (\<forall>c \<in> set (calls s). (ap_id c, Approve) \<in> set (asked s)
        \<and> (\<forall>r \<in> set (approvals (tdb s)). ap_number r = ap_number c \<longrightarrow>
             ap_identity r = ap_identity c \<and> ap_status r \<in> {Granted, Executed, Unsuccessful}))"
proof -
  from service_ok_reachable [OF assms] have ok: "service_ok s" .
  have "length (filter (\<lambda>a. ap_number a = n) (calls s)) \<le> 1" for n
  proof -
    have "length (filter (\<lambda>a. ap_number a = n) (calls s)) \<le> grants s n" by (simp add: grants_def)
    with ok show ?thesis by (force simp: service_ok_def intro: order_trans)
  qed
  then have "distinct (map ap_number (calls s))" by (rule distinct_map_counts)
  moreover have "ap_status r \<in> {Granted, Executed, Unsuccessful}"
    if "c \<in> set (calls s)" "r \<in> set (approvals (tdb s))" "ap_number r = ap_number c" for c r
  proof -
    from that(1) have "0 < grants s (ap_number c)"
      by (auto simp: grants_def length_greater_0_conv [symmetric] filter_empty_conv simp del: length_greater_0_conv)
    with ok that(2,3) have "leads approval_moves Granted (ap_status r)" by (auto simp: service_ok_def granted_def)
    then show ?thesis by (rule after_grant)
  qed
  ultimately show ?thesis using ok by (auto simp: service_ok_def known_record_def)
qed

text \<open>
  C12. A decision is final: from any reachable state on, an approval that is still in the table
  kept its tool, action, summary, payload and token, its status moved only along the
  documented lifecycle, and once it was denied, expired, executed or failed it stays so.
\<close>

theorem approvals_stay_decided:
  assumes "reachable_service h s" and "(service_step h)\<^sup>*\<^sup>* s s'"
    and r: "r \<in> set (approvals (tdb s))" "r' \<in> set (approvals (tdb s'))" "ap_number r = ap_number r'"
  shows "ap_identity r = ap_identity r' \<and> leads approval_moves (ap_status r) (ap_status r')
    \<and> (if approval_moves (ap_status r) = [] then ap_status r' = ap_status r else True)"
proof -
  have "approvals_ok (tdb s)" using service_ok_reachable [OF assms(1)] by (simp add: service_ok_def)
  moreover from assms(2) have "approvals_step (tdb s) (tdb s')"
    by (induction rule: rtranclp_induct) (auto intro: approval_table.step_trans service_step_forward)
  ultimately show ?thesis
    using approval_table.survivor [of "approvals_of (tdb s)" "approvals_of (tdb s')" r r']
      approval_table.survivor_final [of "approvals_of (tdb s)" "approvals_of (tdb s')" r r'] r
    by (auto simp: moved_def)
qed

subsection \<open>The pending queue\<close>

abbreviation waiting :: "tools_db \<Rightarrow> nat" where
  "waiting d \<equiv> length (filter (\<lambda>a. ap_status a = Awaiting) (approvals d))"

lemma nothing_awaits_again: "Awaiting \<notin> set (approval_moves u)"
  by (cases u) auto

lemma waiting_without_insert:
  assumes "approvals_ok d" "approvals_ok d'" "approvals_step d d'" "next_approval d' = next_approval d"
  shows "waiting d' \<le> waiting d"
  by (rule approval_table.count_source [of "next_approval d"])
     (use assms nothing_awaits_again in simp_all)

text \<open>A block that hands out no approval number.\<close>

definition no_new :: "tools_db \<Rightarrow> tools_db \<Rightarrow> bool" where
  "no_new d d' \<longleftrightarrow> next_approval d' = next_approval d"

lemma no_new_refl: "reflp no_new"
  by (simp add: reflp_def no_new_def)

lemma no_new_blocks:
  "relates no_new (record_tool_event stamp tool action outcome detail arguments)"
  "relates no_new (set_tool_enabled tool on)" "relates no_new (expire_tool_approvals now cutoff)"
  "relates no_new (fail_approved_tool_approvals now)" "relates no_new (prune_tool_approvals keep)"
  "relates no_new (transition_tool_approval aid from_status to_status decided result)"
  by (auto intro!: relatesI simp: no_new_def record_tool_event_def prune_tool_events_def set_tool_enabled_def
      expire_tool_approvals_def fail_approved_tool_approvals_def prune_tool_approvals_def
      transition_tool_approval_def txn_simps Let_def split: if_splits option.splits)

lemma decider_step_no_new:
  assumes "decider_step h stamp now answer t d = (t', d', called)"
  shows "no_new d d'"
proof -
  have go: "no_new d (snd (mutation m d))" if "relates no_new m" for m :: "(tools_db, 'a) txn"
    using relates_mutation [OF no_new_refl that] .
  have tr: "no_new d d'" if "mutation (transition_tool_approval aid from_status to_status n r) d = (x, d')"
    for aid from_status to_status n r x d'
    using go [OF no_new_blocks(6) [of aid from_status to_status n r]] that by simp
  from assms no_new_refl show ?thesis
    by (cases "(h, stamp, now, answer, t, d)" rule: decider_step.cases)
       (auto simp: record_approved_outcome_def reflp_def intro!: go no_new_blocks
         dest: tr split: sum.splits option.splits prod.splits bool.splits)
qed

lemma request_waiting:
  "request_approval h tool action summary payload now token d = Inr (a, d') \<Longrightarrow>
   waiting d' = Suc (waiting d) \<and> waiting d < PENDING_APPROVAL_LIMIT"
  by (auto simp: request_approval_def insert_tool_approval_def txn_simps Let_def split: if_splits option.splits)

text \<open>
  C34. The agent cannot pile up work for the operator: whatever it requests and whatever else
  happens, at most 1000 approvals are pending.
\<close>

theorem pending_approvals_capped:
  assumes "reachable_service h s"
  shows "length (filter (\<lambda>a. ap_status a = Awaiting) (approvals (tdb s))) \<le> 1000"
  using assms unfolding reachable_service_def
proof (induction rule: rtranclp_induct)
  case base
  show ?case by (simp add: empty_service_def empty_tools_db_def)
next
  case (step s s')
  from step(1) have ok: "approvals_ok (tdb s)"
    using service_ok_reachable by (simp add: reachable_service_def service_ok_def)
  note next_ok = service_step_ok [OF step(2) ok] and forward = service_step_forward [OF step(2)]
  have go: "no_new d (snd (mutation m d))" if "relates no_new m" for m :: "(tools_db, 'a) txn" and d
    using relates_mutation [OF no_new_refl that] .
  have "no_new (tdb s) (tdb s') \<or> waiting (tdb s') \<le> 1000"
    using step(2)
  proof cases
    case (request tool action summary payload now token)
    with step(3) request_waiting [of h tool action summary payload now token "tdb s"] show ?thesis
      by (cases "request_approval h tool action summary payload now token (tdb s)")
         (auto simp: mutation_def PENDING_APPROVAL_LIMIT_def)
  qed (use no_new_refl in \<open>auto simp: reflp_def intro!: go no_new_blocks dest: decider_step_no_new\<close>)
  with waiting_without_insert [OF ok next_ok forward] step(3) show ?case by (auto simp: no_new_def)
qed

subsection \<open>The id of an approval\<close>

lemma approval_number_id:
  assumes "0 \<le> n" "n < 2 ^ 63"
  shows "approval_number (approval_id n token) = Inr (Some n)"
proof -
  have "nat n < 2 ^ 63" using assms by (simp add: nat_less_iff)
  also have "(2::nat) ^ 63 < 10 ^ 19" by simp
  finally have "length (nat_digits (nat n)) \<le> 19" by (intro length_nat_digits) simp_all
  then have num: "py_int (nat_digits (nat n)) = Some n"
    using py_int_digits [of "nat n"] assms by (simp add: max_str_digits_def)
  have "46 \<notin> set (nat_digits (nat n))" using nat_digits_ascii by fastforce
  then have part: "hd (split_on 46 (nat_digits (nat n) @ S ''.'' @ token)) = nat_digits (nat n)"
    by (simp add: S_def split_on_append_sep)
  have "isdigit_char c" if "c \<in> set (nat_digits (nat n))" for c
    using nat_digits_ascii [OF that] by (simp add: isdigit_char_def is_digit_ascii)
  then have "isdigit (nat_digits (nat n))" by (simp add: isdigit_def list_all_iff)
  with num part assms show ?thesis
    by (simp add: approval_number_def approval_id_def str_of_int_def)
qed

lemma approval_id_ascii:
  assumes "0 \<le> n" "list_all (\<lambda>c. c < 128) token"
  shows "list_all (\<lambda>c. c < 128) (approval_id n token)"
proof -
  have "list_all (\<lambda>c. c < 128) (nat_digits (nat n))"
    using nat_digits_ascii by (fastforce simp: list_all_iff)
  with assms show ?thesis by (simp add: approval_id_def APPROVAL_ID_PREFIX_def str_of_int_def S_def)
qed

text \<open>
  The id is the capability: over a well-formed table whose numbers fit the column and whose
  tokens are ASCII, an id resolves to an approval exactly when it is the full id of that
  approval, token included; a guessed number, or a wrong token, names nothing.
\<close>

lemma approval_id_resolves:
  assumes ok: "approvals_ok d"
    and rows: "\<forall>a \<in> set (approvals d). 0 \<le> ap_number a \<and> ap_number a < 2 ^ 63 \<and> list_all (\<lambda>c. c < 128) (ap_token a)"
  shows "tool_approval d aid None = Inr (Some a) \<longleftrightarrow> a \<in> set (approvals d) \<and> aid = ap_id a"
proof
  assume "tool_approval d aid None = Inr (Some a)"
  then show "a \<in> set (approvals d) \<and> aid = ap_id a" using tool_approval_found by blast
next
  assume a: "a \<in> set (approvals d) \<and> aid = ap_id a"
  with rows have num: "approval_number aid = Inr (Some (ap_number a))" and asc: "list_all (\<lambda>c. c < 128) aid"
    using approval_number_id approval_id_ascii by (auto simp: ap_id_def)
  obtain r where r: "find_first (\<lambda>b. ap_number b = ap_number a) (approvals d) = Some r"
    using a by (cases "find_first (\<lambda>b. ap_number b = ap_number a) (approvals d)") (auto simp: find_first_None)
  with find_first_Some [OF r] approval_unique [OF ok] a have "r = a" by blast
  with a num asc r show "tool_approval d aid None = Inr (Some a)" by (simp add: tool_approval_def)
qed

subsection \<open>A service at work\<close>

definition demo_host :: tool_host where
  "demo_host =
     \<lparr>tools = [\<lparr>bt_id = S ''gmail'',
               bt_actions = [\<lparr>as_id = S ''send'', as_input = JObj [(S ''type'', JStr (S ''object''))], as_output = JObj []\<rparr>],
               bt_oauth = True, bt_credentials = True\<rparr>],
      dumps = (\<lambda>j. if j = JObj [] then Some (S ''{}'') else None),
      loads = (\<lambda>s. if s = S ''{}'' then Some (JObj []) else None)\<rparr>"

definition enabled_service :: tools_service where
  "enabled_service = empty_service\<lparr>tdb := snd (mutation (set_tool_enabled (S ''gmail'') True) (tdb empty_service))\<rparr>"

definition requested_service :: tools_service where
  "requested_service = enabled_service\<lparr>tdb := snd (mutation
     (request_approval demo_host (S ''gmail'') (S ''send'') (S ''mail'') (JObj []) 100 (S ''token'')) (tdb enabled_service))\<rparr>"

definition asked_service :: tools_service where
  "asked_service = requested_service\<lparr>deciders := deciders requested_service @ [Asked (S ''approval_1.token'') Approve],
     asked := asked requested_service @ [(S ''approval_1.token'', Approve)]\<rparr>"

fun go_on :: "nat \<Rightarrow> tools_service \<Rightarrow> tools_service" where
  "go_on 0 s = s"
| "go_on (Suc k) s = go_on k
     (case decider_step demo_host (S ''2027'') 200 (Returns (ApprovalExecuted (S ''Sent.''))) (deciders s ! 0) (tdb s) of
        (t, d, called) \<Rightarrow> s\<lparr>tdb := d, deciders := (deciders s)[0 := t], calls := calls s @ called\<rparr>)"

lemma go_on_steps: "deciders s \<noteq> [] \<Longrightarrow> (service_step demo_host)\<^sup>*\<^sup>* s (go_on k s)"
proof (induction k arbitrary: s)
  case (Suc k)
  obtain t d called where run: "decider_step demo_host (S ''2027'') 200 (Returns (ApprovalExecuted (S ''Sent.'')))
      (deciders s ! 0) (tdb s) = (t, d, called)" by (metis prod_cases3)
  let ?s = "s\<lparr>tdb := d, deciders := (deciders s)[0 := t], calls := calls s @ called\<rparr>"
  have "service_step demo_host s ?s" using Suc.prems run by (intro service_step.continue) auto
  moreover have "(service_step demo_host)\<^sup>*\<^sup>* ?s (go_on k ?s)" using Suc.prems by (intro Suc.IH) simp
  ultimately show ?case using run by (simp add: converse_rtranclp_into_rtranclp)
qed simp

lemma asked_reachable: "reachable_service demo_host asked_service"
proof -
  have "service_step demo_host empty_service enabled_service"
    unfolding enabled_service_def by (rule service_step.enable)
  moreover have "service_step demo_host enabled_service requested_service"
    unfolding requested_service_def by (rule service_step.request)
  moreover have "service_step demo_host requested_service asked_service"
    unfolding asked_service_def by (rule service_step.decide)
  ultimately show ?thesis unfolding reachable_service_def
    by (intro rtranclp.rtrancl_into_rtrancl [OF rtranclp.rtrancl_into_rtrancl [OF r_into_rtranclp]])
qed

lemma asked_deciders: "deciders asked_service \<noteq> []"
  by (simp add: asked_service_def)

lemma decided_reachable: "reachable_service demo_host (go_on k asked_service)"
  using asked_reachable go_on_steps [OF asked_deciders] unfolding reachable_service_def by (rule rtranclp_trans)

lemma demo_call: "map ap_number (calls (go_on 5 asked_service)) = [1]"
  "map ap_status (approvals (tdb (go_on 5 asked_service))) = [Executed]"
  "map ap_status (approvals (tdb (go_on 2 asked_service))) = [Granted]"
  by code_simp+

theorem approved_at_most_once_witness:
  "distinct (map ap_number (calls (go_on 5 asked_service)))
   \<and> (ap_id (calls (go_on 5 asked_service) ! 0), Approve) \<in> set (asked (go_on 5 asked_service))"
proof -
  have "calls (go_on 5 asked_service) ! 0 \<in> set (calls (go_on 5 asked_service))"
    using demo_call(1) by (intro nth_mem) (metis length_map length_greater_0_conv list.distinct(1))
  with approved_at_most_once [OF decided_reachable [of 5]] show ?thesis by simp
qed

theorem pending_approvals_capped_witness:
  "length (filter (\<lambda>a. ap_status a = Awaiting) (approvals (tdb asked_service))) \<le> 1000"
  by (rule pending_approvals_capped [OF asked_reachable])

theorem approvals_stay_decided_witness:
  "ap_identity (approvals (tdb (go_on 2 asked_service)) ! 0) = ap_identity (approvals (tdb (go_on 5 asked_service)) ! 0)
   \<and> leads approval_moves (ap_status (approvals (tdb (go_on 2 asked_service)) ! 0))
       (ap_status (approvals (tdb (go_on 5 asked_service)) ! 0))"
proof -
  have ne: "approvals (tdb (go_on 2 asked_service)) \<noteq> []" "approvals (tdb (go_on 5 asked_service)) \<noteq> []"
    using demo_call(2,3) by (metis list.distinct(1) list.simps(8))+
  have "go_on 3 (go_on 2 asked_service) = go_on 5 asked_service" "deciders (go_on 2 asked_service) \<noteq> []"
    by code_simp+
  then have run: "(service_step demo_host)\<^sup>*\<^sup>* (go_on 2 asked_service) (go_on 5 asked_service)"
    using go_on_steps [of "go_on 2 asked_service" 3] by simp
  have "ap_number (approvals (tdb (go_on 2 asked_service)) ! 0) = ap_number (approvals (tdb (go_on 5 asked_service)) ! 0)"
    by code_simp
  with approvals_stay_decided [OF decided_reachable [of 2] run] ne show ?thesis by simp
qed

end
