(* ===== verification/ToolSchema.thy ===== *)
theory ToolSchema
  imports Json "HOL-Library.List_Lexorder"
begin

text \<open>
  The JSON Schema subset of tool manifests in \<open>runtime/tools/tools_host.py\<close>:
  \<open>validate_against_schema\<close>, which checks a value, and \<open>unsupported_schema_error\<close>, which checks
  at registration that a manifest declares nothing the validator would ignore. An error is the
  path and the kind of the message; \<open>None\<close> is the empty text.
\<close>

lemma size_item: "x \<in> set xs \<Longrightarrow> size x < size (JList xs)"
  by (induction xs) auto

lemma size_field: "(k, v) \<in> set kvs \<Longrightarrow> size v < size (JObj kvs)"
  by (induction kvs) auto

lemma size_map_of: "map_of kvs k = Some v \<Longrightarrow> size v < size (JObj kvs)"
  by (drule map_of_SomeD) (rule size_field)

lemma size_jget: "jget kvs k \<noteq> JNull \<Longrightarrow> size (jget kvs k) < size (JObj kvs)"
  by (auto simp: jget_def simp del: json.size split: option.splits dest: size_map_of)

subsection \<open>Python equality of JSON values\<close>

text \<open>Numbers and booleans compare by value; an infinity or a NaN equals nothing here.\<close>

fun number_of :: "json \<Rightarrow> rat option" where
  "number_of (JBool b) = Some (if b then 1 else 0)"
| "number_of (JInt i) = Some (of_int i)"
| "number_of (JFloat r) = r"
| "number_of j = None"

function json_eq :: "json \<Rightarrow> json \<Rightarrow> bool" where
  "json_eq a b =
     (case a of
        JNull \<Rightarrow> b = JNull
      | JStr s \<Rightarrow> b = JStr s
      | JList xs \<Rightarrow>
          (case b of JList ys \<Rightarrow> length xs = length ys \<and> list_all (\<lambda>(x, y). json_eq x y) (zip xs ys) | _ \<Rightarrow> False)
      | JObj xs \<Rightarrow>
          (case b of
             JObj ys \<Rightarrow> length xs = length ys
               \<and> list_all (\<lambda>(k, v). case map_of ys k of Some w \<Rightarrow> json_eq v w | None \<Rightarrow> False) xs
           | _ \<Rightarrow> False)
      | _ \<Rightarrow> number_of a \<noteq> None \<and> number_of a = number_of b)"
  by pat_completeness auto
termination
  by (relation "measure (\<lambda>(a, b). size a)")
     (auto simp del: json.size dest!: set_zip_leftD intro: size_item size_field)

declare json_eq.simps [simp del]

subsection \<open>Validation\<close>

fun first_some :: "('a \<Rightarrow> 'b option) \<Rightarrow> 'a list \<Rightarrow> 'b option" where
  "first_some f [] = None"
| "first_some f (x # xs) = (case f x of Some y \<Rightarrow> Some y | None \<Rightarrow> first_some f xs)"

lemma first_some_cong [fundef_cong]:
  "xs = ys \<Longrightarrow> (\<And>x. x \<in> set ys \<Longrightarrow> f x = g x) \<Longrightarrow> first_some f xs = first_some g ys"
  by (induction ys arbitrary: xs) (auto split: option.splits)

lemma first_some_None [simp]: "first_some f xs = None \<longleftrightarrow> (\<forall>x \<in> set xs. f x = None)"
  by (induction xs) (auto split: option.splits)

datatype schema_fault =
    No_shape_matches
  | Not_in_enum
  | Not_an_object
  | Missing_field
  | Unsupported_fields "str list"
  | Not_an_array
  | Too_few int
  | Too_many int
  | Not_a_string
  | Not_a_boolean

type_synonym schema_error = "str \<times> schema_fault"

definition index_path :: "str \<Rightarrow> nat \<Rightarrow> str" where
  "index_path path i = path @ S ''['' @ str_of_int (int i) @ S '']''"

definition field_path :: "str \<Rightarrow> str \<Rightarrow> str" where
  "field_path path name = path @ S ''.'' @ name"

text \<open>\<open>isinstance(x, int)\<close>, which a boolean is too.\<close>

fun py_int_of :: "json \<Rightarrow> int option" where
  "py_int_of (JInt i) = Some i"
| "py_int_of (JBool b) = Some (if b then 1 else 0)"
| "py_int_of j = None"

text \<open>\<open>x if isinstance(x, dict) else {}\<close>, and the same for lists.\<close>

definition obj_of :: "json \<Rightarrow> (str \<times> json) list" where
  "obj_of j = (case j of JObj kvs \<Rightarrow> kvs | _ \<Rightarrow> [])"

definition list_of :: "json \<Rightarrow> json list" where
  "list_of j = (case j of JList xs \<Rightarrow> xs | _ \<Rightarrow> [])"

definition name_missing :: "(str \<times> json) list \<Rightarrow> json \<Rightarrow> bool" where
  "name_missing kvs n = (case n of JStr name \<Rightarrow> \<not> has_key kvs name | _ \<Rightarrow> True)"

definition name_text :: "json \<Rightarrow> str" where
  "name_text n = (case n of JStr name \<Rightarrow> name | _ \<Rightarrow> [])"

lemma size_options: "jlist (jget sch k) = Some xs \<Longrightarrow> x \<in> set xs \<Longrightarrow> size x < size (JObj sch)"
  using size_item [of x xs] size_jget [of sch k] by (simp del: json.size)

lemma size_property: "map_of (obj_of (jget sch k)) n = Some sub \<Longrightarrow> size sub < size (JObj sch)"
  using size_map_of [of "obj_of (jget sch k)" n sub] size_jget [of sch k]
  by (cases "jget sch k") (simp_all add: obj_of_def del: json.size)

function validate_against_schema :: "json \<Rightarrow> json \<Rightarrow> str \<Rightarrow> schema_error option" where
  "validate_against_schema v schema path =
     (case jobj schema of
        None \<Rightarrow> None
      | Some sch \<Rightarrow>
          (case jlist (jget sch (S ''oneOf'')) of
             Some options \<Rightarrow>
               if list_ex (\<lambda>option. validate_against_schema v option path = None) options then None
               else Some (path, No_shape_matches)
           | None \<Rightarrow>
               if (case jlist (jget sch (S ''enum'')) of Some enum \<Rightarrow> \<not> list_ex (json_eq v) enum | None \<Rightarrow> False)
               then Some (path, Not_in_enum)
               else if jget sch (S ''type'') = JStr (S ''object'') then
                 (case jobj v of
                    None \<Rightarrow> Some (path, Not_an_object)
                  | Some kvs \<Rightarrow>
                      (case find_first (name_missing kvs) (list_of (jget sch (S ''required''))) of
                         Some n \<Rightarrow> Some (field_path path (name_text n), Missing_field)
                       | None \<Rightarrow>
                           let extra = filter (\<lambda>k. \<not> has_key (obj_of (jget sch (S ''properties''))) k) (map fst kvs)
                           in if jget sch (S ''additionalProperties'') = JBool False \<and> extra \<noteq> []
                              then Some (path, Unsupported_fields (sort extra))
                              else first_some (\<lambda>(name, item).
                                     case map_of (obj_of (jget sch (S ''properties''))) name of
                                       None \<Rightarrow> None
                                     | Some sub \<Rightarrow> validate_against_schema item sub (field_path path name)) kvs))
               else if jget sch (S ''type'') = JStr (S ''array'') then
                 (case jlist v of
                    None \<Rightarrow> Some (path, Not_an_array)
                  | Some xs \<Rightarrow>
                      if (case py_int_of (jget sch (S ''minItems'')) of Some n \<Rightarrow> int (length xs) < n | None \<Rightarrow> False)
                      then Some (path, Too_few (the (py_int_of (jget sch (S ''minItems'')))))
                      else if (case py_int_of (jget sch (S ''maxItems'')) of Some n \<Rightarrow> n < int (length xs) | None \<Rightarrow> False)
                      then Some (path, Too_many (the (py_int_of (jget sch (S ''maxItems'')))))
                      else (case map_of sch (S ''items'') of
                              None \<Rightarrow> None
                            | Some sub \<Rightarrow>
                                first_some (\<lambda>(i, item). validate_against_schema item sub (index_path path i))
                                  (enumerate 0 xs)))
               else if jget sch (S ''type'') = JStr (S ''string'') then
                 (if jstr v = None then Some (path, Not_a_string) else None)
               else if jget sch (S ''type'') = JStr (S ''boolean'') then
                 (case v of JBool b \<Rightarrow> None | _ \<Rightarrow> Some (path, Not_a_boolean))
               else None))"
  by pat_completeness auto
termination
  by (relation "measure (\<lambda>(v, schema, path). size schema)")
     (auto simp del: json.size intro: size_options size_property size_map_of)

declare validate_against_schema.simps [simp del]

subsection \<open>What a manifest may declare\<close>

datatype declaration_fault =
    Schema_not_object
  | Bad_description
  | One_of_mixed "str list"
  | One_of_malformed
  | Bad_enum
  | Empty_schema
  | Enum_mixed "str list"
  | Bad_type
  | Unsupported_keys "str list"
  | Bad_properties
  | Bad_additional
  | Bad_required
  | Duplicate_required
  | Undeclared_required "str list"
  | No_items
  | Bad_item_bound
  | Crossed_item_bounds

definition SCHEMA_COMMON_KEYS :: "str list" where
  "SCHEMA_COMMON_KEYS = [S ''type'', S ''enum'', S ''description'']"

definition SCHEMA_KEYS_BY_TYPE :: "(str, str list) dict" where
  "SCHEMA_KEYS_BY_TYPE =
     [(S ''object'', [S ''properties'', S ''required'', S ''additionalProperties'']),
      (S ''array'', [S ''items'', S ''minItems'', S ''maxItems'']),
      (S ''string'', []),
      (S ''boolean'', [])]"

text \<open>\<open>sorted(set(schema) - allowed)\<close>\<close>

definition extra_keys :: "(str \<times> json) list \<Rightarrow> str list \<Rightarrow> str list" where
  "extra_keys sch allowed = sort (filter (\<lambda>k. k \<notin> set allowed) (map fst sch))"

fun is_scalar :: "json \<Rightarrow> bool" where
  "is_scalar (JStr s) = True"
| "is_scalar (JInt i) = True"
| "is_scalar (JBool b) = True"
| "is_scalar j = False"

text \<open>An item bound that is present must be a non-negative integer and no boolean.\<close>

definition bad_bound :: "(str \<times> json) list \<Rightarrow> str \<Rightarrow> bool" where
  "bad_bound sch k =
     (case map_of sch k of None \<Rightarrow> False | Some (JInt i) \<Rightarrow> i < 0 | Some j \<Rightarrow> True)"

definition key_fault :: "(str \<times> json) list \<Rightarrow> str \<Rightarrow> declaration_fault option" where
  "key_fault sch type =
     (case map_of SCHEMA_KEYS_BY_TYPE type of
        None \<Rightarrow> Some Bad_type
      | Some ks \<Rightarrow>
          (case extra_keys sch (SCHEMA_COMMON_KEYS @ ks) of [] \<Rightarrow> None | extra \<Rightarrow> Some (Unsupported_keys extra)))"

definition object_fault :: "(str \<times> json) list \<Rightarrow> declaration_fault option" where
  "object_fault sch =
     (let props = (case map_of sch (S ''properties'') of None \<Rightarrow> JObj [] | Some j \<Rightarrow> j);
          needed = (case map_of sch (S ''required'') of None \<Rightarrow> JList [] | Some j \<Rightarrow> j);
          extra = (case map_of sch (S ''additionalProperties'') of None \<Rightarrow> JBool True | Some j \<Rightarrow> j)
      in if jobj props = None then Some Bad_properties
         else if \<not> (case extra of JBool b \<Rightarrow> True | _ \<Rightarrow> False) then Some Bad_additional
         else if jlist needed = None \<or> \<not> list_all (\<lambda>n. jstr n \<noteq> None) (list_of needed) then Some Bad_required
         else let names = map name_text (list_of needed);
                  missing = filter (\<lambda>n. \<not> has_key (obj_of props) n) names
              in if \<not> distinct names then Some Duplicate_required
                 else if missing \<noteq> [] then Some (Undeclared_required (sort missing))
                 else None)"

definition array_fault :: "(str \<times> json) list \<Rightarrow> declaration_fault option" where
  "array_fault sch =
     (if map_of sch (S ''items'') = None then Some No_items
      else if bad_bound sch (S ''minItems'') \<or> bad_bound sch (S ''maxItems'') then Some Bad_item_bound
      else (case (py_int_of (jget sch (S ''minItems'')), py_int_of (jget sch (S ''maxItems''))) of
              (Some a, Some b) \<Rightarrow> if b < a then Some Crossed_item_bounds else None
            | _ \<Rightarrow> None))"

function unsupported_schema_error :: "json \<Rightarrow> str \<Rightarrow> bool \<Rightarrow> (str \<times> declaration_fault) option" where
  "unsupported_schema_error schema path allow_empty =
     (case jobj schema of
        None \<Rightarrow> Some (path, Schema_not_object)
      | Some sch \<Rightarrow>
          if (case map_of sch (S ''description'') of None \<Rightarrow> False | Some j \<Rightarrow> jstr j = None)
          then Some (path, Bad_description)
          else if has_key sch (S ''oneOf'') then
            (case extra_keys sch [S ''oneOf'', S ''description''] of
               [] \<Rightarrow>
                 (case jlist (jget sch (S ''oneOf'')) of
                    None \<Rightarrow> Some (path, One_of_malformed)
                  | Some options \<Rightarrow>
                      if options = [] then Some (path, One_of_malformed)
                      else first_some (\<lambda>(i, option).
                             unsupported_schema_error option (index_path (path @ S ''.oneOf'') i) False)
                           (enumerate 0 options))
             | extra \<Rightarrow> Some (path, One_of_mixed extra))
          else if (case map_of sch (S ''enum'') of None \<Rightarrow> False
                   | Some j \<Rightarrow> (case jlist j of None \<Rightarrow> True | Some es \<Rightarrow> es = [] \<or> \<not> list_all is_scalar es))
          then Some (path, Bad_enum)
          else if sch = [] then (if allow_empty then None else Some (path, Empty_schema))
          else if jget sch (S ''type'') = JNull \<and> has_key sch (S ''enum'') then
            (case extra_keys sch [S ''enum'', S ''description''] of [] \<Rightarrow> None | extra \<Rightarrow> Some (path, Enum_mixed extra))
          else
            (case jstr (jget sch (S ''type'')) of
               None \<Rightarrow> Some (path, Bad_type)
             | Some type \<Rightarrow>
                 (case key_fault sch type of
                    Some f \<Rightarrow> Some (path, f)
                  | None \<Rightarrow>
                      if type = S ''object'' then
                        (case object_fault sch of
                           Some f \<Rightarrow> Some (path, f)
                         | None \<Rightarrow>
                             first_some (\<lambda>(name, item). unsupported_schema_error item (field_path path name) False)
                               (obj_of (jget sch (S ''properties''))))
                      else if type = S ''array'' then
                        (case array_fault sch of
                           Some f \<Rightarrow> Some (path, f)
                         | None \<Rightarrow>
                             (case map_of sch (S ''items'') of
                                None \<Rightarrow> None
                              | Some sub \<Rightarrow> unsupported_schema_error sub (path @ S ''.items'') False))
                      else None)))"
  by pat_completeness auto
termination
proof -
  have inner: "size item < size (JObj sch)" if "(name, item) \<in> set (obj_of (jget sch k))" for sch k name item
    using that size_field [of name item "obj_of (jget sch k)"] size_jget [of sch k]
    by (cases "jget sch k") (simp_all add: obj_of_def del: json.size)
  have nth: "size (xs ! i) < size (JObj sch)" if "jget sch k = JList xs" "i < length xs" for sch k xs i
    using that size_options [of sch k xs "xs ! i"] by simp
  show ?thesis
    by (relation "measure (\<lambda>(schema, path, allow_empty). size schema)")
       (auto simp: in_set_enumerate_eq simp del: json.size intro: nth size_map_of inner)
qed

declare unsupported_schema_error.simps [simp del]

subsection \<open>The meaning of a schema\<close>

text \<open>
  JSON Schema, keyword by keyword: every keyword present is an assertion of its own, and an
  unknown keyword is an assertion nothing satisfies. As the manifests use it, \<open>oneOf\<close> asks for
  at least one of the shapes.
\<close>

definition KNOWN_KEYS :: "str list" where
  "KNOWN_KEYS = [S ''type'', S ''enum'', S ''description'', S ''oneOf'', S ''properties'', S ''required'',
     S ''additionalProperties'', S ''items'', S ''minItems'', S ''maxItems'']"

definition has_type :: "json \<Rightarrow> json \<Rightarrow> bool" where
  "has_type type v =
     (case v of
        JObj kvs \<Rightarrow> type = JStr (S ''object'')
      | JList xs \<Rightarrow> type = JStr (S ''array'')
      | JStr s \<Rightarrow> type = JStr (S ''string'')
      | JBool b \<Rightarrow> type = JStr (S ''boolean'')
      | _ \<Rightarrow> False)"

text \<open>An assertion about one keyword: it holds when the keyword is absent.\<close>

abbreviation keyword :: "(str \<times> json) list \<Rightarrow> string \<Rightarrow> (json \<Rightarrow> bool) \<Rightarrow> bool" where
  "keyword sch k P \<equiv> (case map_of sch (S k) of None \<Rightarrow> True | Some a \<Rightarrow> P a)"

function satisfies :: "json \<Rightarrow> json \<Rightarrow> bool" where
  "satisfies schema v \<longleftrightarrow>
     (case jobj schema of
        None \<Rightarrow> False
      | Some sch \<Rightarrow>
          list_all (\<lambda>(k, a). k \<in> set KNOWN_KEYS) sch
          \<and> keyword sch ''type'' (\<lambda>a. has_type a v)
          \<and> keyword sch ''enum'' (\<lambda>a. list_ex (json_eq v) (list_of a))
          \<and> (case map_of sch (S ''oneOf'') of None \<Rightarrow> True
              | Some a \<Rightarrow> (case jlist a of None \<Rightarrow> False | Some os \<Rightarrow> list_ex (\<lambda>sub. satisfies sub v) os))
          \<and> (case jobj v of None \<Rightarrow> True
              | Some kvs \<Rightarrow>
                  keyword sch ''required'' (\<lambda>a. list_all (\<lambda>n. \<not> name_missing kvs n) (list_of a))
                  \<and> keyword sch ''additionalProperties'' (\<lambda>a. a = JBool False \<longrightarrow>
                        list_all (\<lambda>(k, item). has_key (obj_of (jget sch (S ''properties''))) k) kvs)
                  \<and> list_all (\<lambda>(k, item). case map_of (obj_of (jget sch (S ''properties''))) k of
                        None \<Rightarrow> True | Some sub \<Rightarrow> satisfies sub item) kvs)
          \<and> (case jlist v of None \<Rightarrow> True
              | Some xs \<Rightarrow>
                  keyword sch ''minItems'' (\<lambda>a. case a of JInt n \<Rightarrow> n \<le> int (length xs) | _ \<Rightarrow> False)
                  \<and> keyword sch ''maxItems'' (\<lambda>a. case a of JInt n \<Rightarrow> int (length xs) \<le> n | _ \<Rightarrow> False)
                  \<and> (case map_of sch (S ''items'') of None \<Rightarrow> True
                      | Some sub \<Rightarrow> list_all (\<lambda>item. satisfies sub item) xs)))"
  by pat_completeness auto
termination
proof -
  have opt: "size x < size (JObj sch)" if "map_of sch k = Some a" "jlist a = Some xs" "x \<in> set xs" for sch k a xs x
    using that size_item [of x xs] size_map_of [of sch k a] by (simp del: json.size)
  show ?thesis
    by (relation "measure (\<lambda>(schema, v). size schema)")
       (auto simp del: json.size intro: opt size_property size_map_of)
qed

declare satisfies.simps [simp del]

subsection \<open>The shapes of a supported schema\<close>

definition supported :: "json \<Rightarrow> bool" where
  "supported schema \<longleftrightarrow> (\<exists>path. unsupported_schema_error schema path False = None)"

lemma extra_keys_Nil: "extra_keys sch allowed = [] \<longleftrightarrow> fst ` set sch \<subseteq> set allowed"
proof -
  have "sort xs = [] \<longleftrightarrow> xs = []" for xs :: "str list"
    by (metis set_empty set_sort)
  then show ?thesis by (auto simp: extra_keys_def filter_empty_conv)
qed

lemma absent_key: "fst ` set sch \<subseteq> K \<Longrightarrow> k \<notin> K \<Longrightarrow> map_of sch k = None"
  by (auto simp: map_of_eq_None_iff)

lemma jget_eq_JNull: "map_of sch k = None \<Longrightarrow> jget sch k = JNull"
  by (simp add: jget_def)

lemma map_of_jget: "jget sch k = a \<Longrightarrow> a \<noteq> JNull \<Longrightarrow> map_of sch k = Some a"
  by (auto simp: jget_def split: option.splits)

definition enum_ok :: "(str \<times> json) list \<Rightarrow> bool" where
  "enum_ok sch \<longleftrightarrow> (map_of sch (S ''enum'') = None \<or> (\<exists>es. map_of sch (S ''enum'') = Some (JList es)))"

lemma first_some_enumerate: "first_some (\<lambda>(i, x). f i x) (enumerate 0 xs) = None \<Longrightarrow> x \<in> set xs \<Longrightarrow> \<exists>i. f i x = None"
proof -
  assume all: "first_some (\<lambda>(i, x). f i x) (enumerate 0 xs) = None" and "x \<in> set xs"
  then obtain i where "i < length xs" "x = xs ! i" by (auto simp: in_set_conv_nth)
  then have "(i, x) \<in> set (enumerate 0 xs)" by (simp add: in_set_enumerate_eq)
  with all show ?thesis by auto
qed

lemma supported_shapes:
  assumes "supported (JObj sch)"
  obtains (one_of) options where "map_of sch (S ''oneOf'') = Some (JList options)"
      "fst ` set sch \<subseteq> {S ''oneOf'', S ''description''}" "\<forall>x \<in> set options. supported x"
  | (enum) es where "map_of sch (S ''enum'') = Some (JList es)"
      "fst ` set sch \<subseteq> {S ''enum'', S ''description''}"
  | (typed) type ks where "map_of sch (S ''oneOf'') = None" "enum_ok sch"
      "map_of sch (S ''type'') = Some (JStr type)" "map_of SCHEMA_KEYS_BY_TYPE type = Some ks"
      "fst ` set sch \<subseteq> set (SCHEMA_COMMON_KEYS @ ks)"
      "type = S ''object'' \<Longrightarrow> object_fault sch = None
         \<and> (\<forall>n sub. (n, sub) \<in> set (obj_of (jget sch (S ''properties''))) \<longrightarrow> supported sub)"
      "type = S ''array'' \<Longrightarrow> array_fault sch = None \<and> (\<exists>sub. map_of sch (S ''items'') = Some sub \<and> supported sub)"
proof -
  from assms obtain path where ok: "unsupported_schema_error (JObj sch) path False = None"
    by (auto simp: supported_def)
  show thesis
  proof (cases "has_key sch (S ''oneOf'')")
    case True
    with ok have keys: "extra_keys sch [S ''oneOf'', S ''description''] = []"
      by (subst (asm) unsupported_schema_error.simps) (auto split: if_splits list.splits)
    with ok True obtain options where o: "jget sch (S ''oneOf'') = JList options"
      and all: "first_some (\<lambda>(i, option). unsupported_schema_error option (index_path (path @ S ''.oneOf'') i) False)
                  (enumerate 0 options) = None"
      by (subst (asm) unsupported_schema_error.simps) (auto split: if_splits option.splits)
    from first_some_enumerate [OF all] have "\<forall>x \<in> set options. supported x" by (auto simp: supported_def)
    with o keys show thesis by (intro one_of) (auto simp: extra_keys_Nil intro: map_of_jget)
  next
    case False
    then have no: "map_of sch (S ''oneOf'') = None" by (simp add: has_key_def)
    from ok False have en: "enum_ok sch" and ne: "sch \<noteq> []"
      by (subst (asm) unsupported_schema_error.simps; auto simp: enum_ok_def split: if_splits option.splits)+
    show thesis
    proof (cases "jget sch (S ''type'') = JNull \<and> has_key sch (S ''enum'')")
      case True
      with ok False ne have "extra_keys sch [S ''enum'', S ''description''] = []"
        by (subst (asm) unsupported_schema_error.simps) (auto split: if_splits list.splits option.splits)
      moreover from True en obtain es where "map_of sch (S ''enum'') = Some (JList es)"
        by (auto simp: enum_ok_def has_key_def)
      ultimately show thesis by (intro enum) (auto simp: extra_keys_Nil)
    next
      case typed_schema: False
      with ok False ne obtain type where type: "jget sch (S ''type'') = JStr type" and key: "key_fault sch type = None"
        and obj: "type = S ''object'' \<Longrightarrow> object_fault sch = None \<and>
          first_some (\<lambda>(name, item). unsupported_schema_error item (field_path path name) False)
            (obj_of (jget sch (S ''properties''))) = None"
        and arr: "type = S ''array'' \<Longrightarrow> array_fault sch = None \<and>
          (case map_of sch (S ''items'') of None \<Rightarrow> True
           | Some sub \<Rightarrow> unsupported_schema_error sub (path @ S ''.items'') False = None)"
        by (subst (asm) unsupported_schema_error.simps) (auto split: if_splits option.splits)
      from key obtain ks where ks: "map_of SCHEMA_KEYS_BY_TYPE type = Some ks"
        "fst ` set sch \<subseteq> set (SCHEMA_COMMON_KEYS @ ks)"
        by (auto simp: key_fault_def extra_keys_Nil split: option.splits list.splits)
      from type have "map_of sch (S ''type'') = Some (JStr type)" by (simp add: map_of_jget)
      then show thesis
      proof (rule typed [OF no en _ ks])
        show "type = S ''object'' \<Longrightarrow> object_fault sch = None
         \<and> (\<forall>n sub. (n, sub) \<in> set (obj_of (jget sch (S ''properties''))) \<longrightarrow> supported sub)"
          using obj by (auto simp: supported_def)
        show "type = S ''array'' \<Longrightarrow> array_fault sch = None \<and> (\<exists>sub. map_of sch (S ''items'') = Some sub \<and> supported sub)"
          using arr by (auto simp: supported_def array_fault_def split: option.splits if_splits)
      qed
    qed
  qed
qed

subsection \<open>The validator enforces exactly the declared keywords\<close>

text \<open>The validator, shape by shape.\<close>

definition enum_passes :: "(str \<times> json) list \<Rightarrow> json \<Rightarrow> bool" where
  "enum_passes sch v = (case jlist (jget sch (S ''enum'')) of Some es \<Rightarrow> list_ex (json_eq v) es | None \<Rightarrow> True)"

lemma first_some_at: "first_some (\<lambda>(i, x). f i x) (enumerate 0 xs) = None \<longleftrightarrow> (\<forall>i < length xs. f i (xs ! i) = None)"
proof
  assume all: "first_some (\<lambda>(i, x). f i x) (enumerate 0 xs) = None"
  show "\<forall>i < length xs. f i (xs ! i) = None"
  proof (intro allI impI)
    fix i assume "i < length xs"
    then have "(i, xs ! i) \<in> set (enumerate 0 xs)" by (simp add: in_set_enumerate_eq)
    with all show "f i (xs ! i) = None" by auto
  qed
qed (auto simp: in_set_enumerate_eq)

lemma optional_check: "(case x of None \<Rightarrow> None | Some y \<Rightarrow> g y) = None \<longleftrightarrow> (case x of None \<Rightarrow> True | Some y \<Rightarrow> g y = None)"
  by (cases x) auto

lemma enum_test: "(case jlist e of Some es \<Rightarrow> \<not> list_ex (json_eq v) es | None \<Rightarrow> False)
    \<longleftrightarrow> \<not> (case jlist e of Some es \<Rightarrow> list_ex (json_eq v) es | None \<Rightarrow> True)"
  by (cases "jlist e") auto

lemma bound_test: "(case n of Some n \<Rightarrow> len < n | None \<Rightarrow> False) \<longleftrightarrow> \<not> (case n of Some n \<Rightarrow> n \<le> len | None \<Rightarrow> True)"
  "(case n of Some n \<Rightarrow> n < len | None \<Rightarrow> False) \<longleftrightarrow> \<not> (case n of Some n \<Rightarrow> len \<le> n | None \<Rightarrow> True)" for len :: int
  by (cases n; auto)+

lemma validate_one_of: "jget sch (S ''oneOf'') = JList options \<Longrightarrow>
  validate_against_schema v (JObj sch) path = None \<longleftrightarrow>
    list_ex (\<lambda>sub. validate_against_schema v sub path = None) options"
  by (subst validate_against_schema.simps) simp

lemma validate_untyped: "jget sch (S ''oneOf'') = JNull \<Longrightarrow> jget sch (S ''type'') = JNull \<Longrightarrow>
  validate_against_schema v (JObj sch) path = None \<longleftrightarrow> enum_passes sch v"
  by (subst validate_against_schema.simps) (simp add: enum_passes_def split: option.split)

lemma validate_object:
  assumes sch: "jget sch (S ''oneOf'') = JNull" "jget sch (S ''type'') = JStr (S ''object'')"
  shows "validate_against_schema (JObj kvs) (JObj sch) path = None \<longleftrightarrow> enum_passes sch (JObj kvs)
    \<and> (\<forall>n \<in> set (list_of (jget sch (S ''required''))). \<not> name_missing kvs n)
    \<and> (jget sch (S ''additionalProperties'') = JBool False \<longrightarrow>
         (\<forall>k \<in> set (map fst kvs). has_key (obj_of (jget sch (S ''properties''))) k))
    \<and> (\<forall>(k, item) \<in> set kvs. case map_of (obj_of (jget sch (S ''properties''))) k of
         None \<Rightarrow> True | Some sub \<Rightarrow> validate_against_schema item sub (field_path path k) = None)"
proof (cases "find_first (name_missing kvs) (list_of (jget sch (S ''required'')))")
  case None
  then have req: "\<forall>n \<in> set (list_of (jget sch (S ''required''))). \<not> name_missing kvs n"
    by (simp add: find_first_None)
  have extra: "filter (\<lambda>k. \<not> has_key ps k) ks = [] \<longleftrightarrow> (\<forall>k \<in> set ks. has_key ps k)" for ps ks
    by (simp add: filter_empty_conv)
  from req show ?thesis
    by (subst validate_against_schema.simps)
       (simp add: None sch enum_test enum_passes_def Let_def extra split_beta optional_check)
next
  case (Some n)
  then have "\<not> (\<forall>n \<in> set (list_of (jget sch (S ''required''))). \<not> name_missing kvs n)"
    by (auto dest: find_first_Some)
  with Some show ?thesis
    by (subst validate_against_schema.simps) (simp add: sch enum_test enum_passes_def)
qed

lemma validate_array:
  assumes "jget sch (S ''oneOf'') = JNull" "jget sch (S ''type'') = JStr (S ''array'')"
    "map_of sch (S ''items'') = Some sub"
  shows "validate_against_schema (JList xs) (JObj sch) path = None \<longleftrightarrow> enum_passes sch (JList xs)
    \<and> (case py_int_of (jget sch (S ''minItems'')) of Some n \<Rightarrow> n \<le> int (length xs) | None \<Rightarrow> True)
    \<and> (case py_int_of (jget sch (S ''maxItems'')) of Some n \<Rightarrow> int (length xs) \<le> n | None \<Rightarrow> True)
    \<and> (\<forall>i < length xs. validate_against_schema (xs ! i) sub (index_path path i) = None)"
  using assms
  by (subst validate_against_schema.simps)
     (simp add: enum_test bound_test enum_passes_def first_some_at del: first_some_None)

lemma validate_wrong_type:
  assumes "jget sch (S ''oneOf'') = JNull"
    and "jget sch (S ''type'') = JStr (S ''object'') \<and> jobj v = None
      \<or> jget sch (S ''type'') = JStr (S ''array'') \<and> jlist v = None"
  shows "validate_against_schema v (JObj sch) path \<noteq> None"
  using assms by (subst validate_against_schema.simps) (auto simp: enum_test)

lemma validate_string: "jget sch (S ''oneOf'') = JNull \<Longrightarrow> jget sch (S ''type'') = JStr (S ''string'') \<Longrightarrow>
  validate_against_schema v (JObj sch) path = None \<longleftrightarrow> enum_passes sch v \<and> jstr v \<noteq> None"
  by (subst validate_against_schema.simps) (auto simp: enum_passes_def split: option.splits)

lemma validate_boolean: "jget sch (S ''oneOf'') = JNull \<Longrightarrow> jget sch (S ''type'') = JStr (S ''boolean'') \<Longrightarrow>
  validate_against_schema v (JObj sch) path = None \<longleftrightarrow> enum_passes sch v \<and> (case v of JBool b \<Rightarrow> True | _ \<Rightarrow> False)"
  by (subst validate_against_schema.simps) (auto simp: enum_passes_def split: option.splits json.splits)

lemma supported_array: "array_fault sch = None \<Longrightarrow>
  (map_of sch (S ''minItems'') = None \<or> (\<exists>n. map_of sch (S ''minItems'') = Some (JInt n)))
  \<and> (map_of sch (S ''maxItems'') = None \<or> (\<exists>n. map_of sch (S ''maxItems'') = Some (JInt n)))"
  by (auto simp: array_fault_def bad_bound_def split: if_splits option.splits json.splits)

lemma supported_object: "object_fault sch = None \<Longrightarrow>
  (map_of sch (S ''required'') = None \<or> (\<exists>ns. map_of sch (S ''required'') = Some (JList ns)))
  \<and> (map_of sch (S ''additionalProperties'') = None \<or> (\<exists>b. map_of sch (S ''additionalProperties'') = Some (JBool b)))"
  by (auto simp: object_fault_def Let_def split: if_splits option.splits json.splits)

lemma known_keys: "fst ` set sch \<subseteq> K \<Longrightarrow> K \<subseteq> set KNOWN_KEYS \<Longrightarrow> list_all (\<lambda>(k, a). k \<in> set KNOWN_KEYS) sch"
  by (fastforce simp: list_all_iff)

lemma satisfies_one_of:
  assumes "map_of sch (S ''oneOf'') = Some (JList options)" "fst ` set sch \<subseteq> {S ''oneOf'', S ''description''}"
  shows "satisfies (JObj sch) v \<longleftrightarrow> list_ex (\<lambda>sub. satisfies sub v) options"
proof -
  have none: "map_of sch (S k) = None" if "k \<notin> {''oneOf'', ''description''}" for k
    using that by (intro absent_key [OF assms(2)]) auto
  have known: "list_all (\<lambda>(k, a). k \<in> set KNOWN_KEYS) sch"
    by (rule known_keys [OF assms(2)]) (simp add: KNOWN_KEYS_def)
  have "obj_of (jget sch (S ''properties'')) = []" using none [of "''properties''"] by (simp add: obj_of_def jget_def)
  with none known assms(1) show ?thesis
    by (subst satisfies.simps) (simp add: list_all_iff split: option.split)
qed

lemma satisfies_enum:
  assumes "map_of sch (S ''enum'') = Some (JList es)" "fst ` set sch \<subseteq> {S ''enum'', S ''description''}"
  shows "satisfies (JObj sch) v \<longleftrightarrow> list_ex (json_eq v) es"
proof -
  have none: "map_of sch (S k) = None" if "k \<notin> {''enum'', ''description''}" for k
    using that by (intro absent_key [OF assms(2)]) auto
  have known: "list_all (\<lambda>(k, a). k \<in> set KNOWN_KEYS) sch"
    by (rule known_keys [OF assms(2)]) (simp add: KNOWN_KEYS_def)
  have "obj_of (jget sch (S ''properties'')) = []" using none [of "''properties''"] by (simp add: obj_of_def jget_def)
  with none known assms(1) show ?thesis
    by (subst satisfies.simps) (simp add: list_of_def list_all_iff split: option.split)
qed

lemma enum_passes_keyword: "enum_ok sch \<Longrightarrow>
  keyword sch ''enum'' (\<lambda>a. list_ex (json_eq v) (list_of a)) \<longleftrightarrow> enum_passes sch v"
  by (auto simp: enum_ok_def enum_passes_def jget_def list_of_def)

lemma schema_types:
  "map_of SCHEMA_KEYS_BY_TYPE type = Some ks \<Longrightarrow>
    type = S ''object'' \<and> ks = [S ''properties'', S ''required'', S ''additionalProperties'']
    \<or> type = S ''array'' \<and> ks = [S ''items'', S ''minItems'', S ''maxItems'']
    \<or> (type = S ''string'' \<or> type = S ''boolean'') \<and> ks = []"
  by (auto simp: SCHEMA_KEYS_BY_TYPE_def split: if_splits)

lemma satisfies_scalar:
  assumes "map_of sch (S ''oneOf'') = None" "enum_ok sch" "map_of sch (S ''type'') = Some (JStr type)"
    "type = S ''string'' \<or> type = S ''boolean''" "fst ` set sch \<subseteq> set SCHEMA_COMMON_KEYS"
  shows "satisfies (JObj sch) v \<longleftrightarrow> enum_passes sch v \<and> has_type (JStr type) v"
proof -
  have none: "map_of sch (S k) = None" if "k \<notin> {''type'', ''enum'', ''description''}" for k
    using that by (intro absent_key [OF assms(5)]) (auto simp: SCHEMA_COMMON_KEYS_def)
  have known: "list_all (\<lambda>(k, a). k \<in> set KNOWN_KEYS) sch"
    by (rule known_keys [OF assms(5)]) (simp add: KNOWN_KEYS_def SCHEMA_COMMON_KEYS_def)
  have "obj_of (jget sch (S ''properties'')) = []" using none [of "''properties''"] by (simp add: obj_of_def jget_def)
  with none known assms(1,3) show ?thesis
    by (subst satisfies.simps) (auto simp: enum_passes_keyword [OF assms(2)] list_all_iff split: option.splits)
qed

lemma satisfies_object:
  assumes "map_of sch (S ''oneOf'') = None" "enum_ok sch" "map_of sch (S ''type'') = Some (JStr (S ''object''))"
    "fst ` set sch \<subseteq> set (SCHEMA_COMMON_KEYS @ [S ''properties'', S ''required'', S ''additionalProperties''])"
    "object_fault sch = None"
  shows "satisfies (JObj sch) (JObj kvs) \<longleftrightarrow> enum_passes sch (JObj kvs)
    \<and> (\<forall>n \<in> set (list_of (jget sch (S ''required''))). \<not> name_missing kvs n)
    \<and> (jget sch (S ''additionalProperties'') = JBool False \<longrightarrow>
         (\<forall>k \<in> set (map fst kvs). has_key (obj_of (jget sch (S ''properties''))) k))
    \<and> (\<forall>(k, item) \<in> set kvs. case map_of (obj_of (jget sch (S ''properties''))) k of
         None \<Rightarrow> True | Some sub \<Rightarrow> satisfies sub item)"
proof -
  have known: "list_all (\<lambda>(k, a). k \<in> set KNOWN_KEYS) sch"
    by (rule known_keys [OF assms(4)]) (simp add: KNOWN_KEYS_def SCHEMA_COMMON_KEYS_def)
  have "keyword sch ''required'' (\<lambda>a. list_all (\<lambda>n. \<not> name_missing kvs n) (list_of a))
      \<longleftrightarrow> (\<forall>n \<in> set (list_of (jget sch (S ''required''))). \<not> name_missing kvs n)"
    using supported_object [OF assms(5)] by (auto simp: jget_def list_of_def list_all_iff)
  moreover have "keyword sch ''additionalProperties'' (\<lambda>a. a = JBool False \<longrightarrow> P)
      \<longleftrightarrow> (jget sch (S ''additionalProperties'') = JBool False \<longrightarrow> P)" for P
    by (auto simp: jget_def split: option.splits)
  ultimately show ?thesis
    using known assms(1,3)
    by (subst satisfies.simps)
       (simp add: enum_passes_keyword [OF assms(2)] has_type_def list_all_iff split_beta)
qed

lemma satisfies_array:
  assumes "map_of sch (S ''oneOf'') = None" "enum_ok sch" "map_of sch (S ''type'') = Some (JStr (S ''array''))"
    "fst ` set sch \<subseteq> set (SCHEMA_COMMON_KEYS @ [S ''items'', S ''minItems'', S ''maxItems''])"
    "array_fault sch = None" "map_of sch (S ''items'') = Some sub"
  shows "satisfies (JObj sch) (JList xs) \<longleftrightarrow> enum_passes sch (JList xs)
    \<and> (case py_int_of (jget sch (S ''minItems'')) of Some n \<Rightarrow> n \<le> int (length xs) | None \<Rightarrow> True)
    \<and> (case py_int_of (jget sch (S ''maxItems'')) of Some n \<Rightarrow> int (length xs) \<le> n | None \<Rightarrow> True)
    \<and> (\<forall>i < length xs. satisfies sub (xs ! i))"
proof -
  have known: "list_all (\<lambda>(k, a). k \<in> set KNOWN_KEYS) sch"
    by (rule known_keys [OF assms(4)]) (simp add: KNOWN_KEYS_def SCHEMA_COMMON_KEYS_def)
  have "keyword sch ''minItems'' (\<lambda>a. case a of JInt n \<Rightarrow> n \<le> int (length xs) | _ \<Rightarrow> False)
      \<longleftrightarrow> (case py_int_of (jget sch (S ''minItems'')) of Some n \<Rightarrow> n \<le> int (length xs) | None \<Rightarrow> True)"
    "keyword sch ''maxItems'' (\<lambda>a. case a of JInt n \<Rightarrow> int (length xs) \<le> n | _ \<Rightarrow> False)
      \<longleftrightarrow> (case py_int_of (jget sch (S ''maxItems'')) of Some n \<Rightarrow> int (length xs) \<le> n | None \<Rightarrow> True)"
    using supported_array [OF assms(5)] by (auto simp: jget_def)
  with known assms(1,3,6) show ?thesis
    by (subst satisfies.simps)
       (simp add: enum_passes_keyword [OF assms(2)] has_type_def list_all_length)
qed

lemma satisfies_type:
  assumes "map_of sch (S ''type'') = Some t" "\<not> has_type t v"
  shows "\<not> satisfies (JObj sch) v"
  using assms by (subst satisfies.simps) simp

lemma supported_obj: "supported schema \<Longrightarrow> \<exists>sch. schema = JObj sch"
  by (cases schema) (auto simp: supported_def unsupported_schema_error.simps)

text \<open>The equivalence for an object, an array and a scalar, given it for the inner schemas.\<close>

abbreviation agrees :: "json \<Rightarrow> bool" where
  "agrees schema \<equiv> \<forall>v path. validate_against_schema v schema path = None \<longleftrightarrow> satisfies schema v"

lemma agrees_object:
  assumes sch: "map_of sch (S ''oneOf'') = None" "enum_ok sch" "map_of sch (S ''type'') = Some (JStr (S ''object''))"
    "fst ` set sch \<subseteq> set (SCHEMA_COMMON_KEYS @ [S ''properties'', S ''required'', S ''additionalProperties''])"
    "object_fault sch = None"
    and inner: "\<And>k sub. map_of (obj_of (jget sch (S ''properties''))) k = Some sub \<Longrightarrow> agrees sub"
  shows "agrees (JObj sch)"
proof (intro allI)
  fix v path
  have no: "jget sch (S ''oneOf'') = JNull" and type: "jget sch (S ''type'') = JStr (S ''object'')"
    using sch by (simp_all add: jget_def)
  show "validate_against_schema v (JObj sch) path = None \<longleftrightarrow> satisfies (JObj sch) v"
  proof (cases "jobj v")
    case None
    then have "\<not> has_type (JStr (S ''object'')) v" by (cases v) (auto simp: has_type_def)
    with None satisfies_type [OF sch(3)] validate_wrong_type [OF no, of v path] type show ?thesis by simp
  next
    case (Some kvs)
    with inner show ?thesis
      by (simp add: validate_object [OF no type] satisfies_object [OF sch] split: option.split)
  qed
qed

lemma agrees_array:
  assumes sch: "map_of sch (S ''oneOf'') = None" "enum_ok sch" "map_of sch (S ''type'') = Some (JStr (S ''array''))"
    "fst ` set sch \<subseteq> set (SCHEMA_COMMON_KEYS @ [S ''items'', S ''minItems'', S ''maxItems''])"
    "array_fault sch = None" "map_of sch (S ''items'') = Some sub"
    and inner: "agrees sub"
  shows "agrees (JObj sch)"
proof (intro allI)
  fix v path
  have no: "jget sch (S ''oneOf'') = JNull" and type: "jget sch (S ''type'') = JStr (S ''array'')"
    using sch by (simp_all add: jget_def)
  show "validate_against_schema v (JObj sch) path = None \<longleftrightarrow> satisfies (JObj sch) v"
  proof (cases "jlist v")
    case None
    then have "\<not> has_type (JStr (S ''array'')) v" by (cases v) (auto simp: has_type_def)
    with None satisfies_type [OF sch(3)] validate_wrong_type [OF no, of v path] type show ?thesis by simp
  next
    case (Some xs)
    with inner show ?thesis by (simp add: validate_array [OF no type sch(6)] satisfies_array [OF sch])
  qed
qed

lemma agrees_scalar:
  assumes sch: "map_of sch (S ''oneOf'') = None" "enum_ok sch" "map_of sch (S ''type'') = Some (JStr type)"
    "type = S ''string'' \<or> type = S ''boolean''" "fst ` set sch \<subseteq> set SCHEMA_COMMON_KEYS"
  shows "agrees (JObj sch)"
proof (intro allI)
  fix v path
  have no: "jget sch (S ''oneOf'') = JNull" and t: "jget sch (S ''type'') = JStr type"
    using sch by (simp_all add: jget_def)
  show "validate_against_schema v (JObj sch) path = None \<longleftrightarrow> satisfies (JObj sch) v"
    unfolding satisfies_scalar [OF sch]
    using sch(4) t validate_string [OF no, of v path] validate_boolean [OF no, of v path]
    by (cases v) (auto simp: has_type_def simp del: not_None_eq)
qed

lemma validator_exact:
  assumes "supported schema"
  shows "validate_against_schema v schema path = None \<longleftrightarrow> satisfies schema v"
proof -
  from assms have "agrees schema"
  proof (induction schema rule: measure_induct_rule [of size])
    case (less schema)
    from supported_obj [OF less.prems] obtain sch where sch: "schema = JObj sch" by blast
    note IH = less.IH [unfolded sch]
    from less.prems have "supported (JObj sch)" by (simp add: sch)
    then have "agrees (JObj sch)"
    proof (cases rule: supported_shapes)
      case (one_of options)
      then have o: "jget sch (S ''oneOf'') = JList options" by (simp add: jget_def)
      have "agrees sub" if "sub \<in> set options" for sub
        by (rule IH) (use that one_of(3) o size_options in auto)
      then show ?thesis
        by (simp add: validate_one_of [OF o] satisfies_one_of [OF one_of(1,2)] list_ex_iff cong: conj_cong)
    next
      case (enum es)
      have "jget sch (S ''oneOf'') = JNull" "jget sch (S ''type'') = JNull"
        using absent_key [OF enum(2)] by (simp_all add: jget_def)
      with enum show ?thesis
        by (simp add: validate_untyped satisfies_enum enum_passes_def jget_def)
    next
      case (typed type ks)
      from schema_types [OF typed(4)] consider
          (object) "type = S ''object''" "ks = [S ''properties'', S ''required'', S ''additionalProperties'']"
        | (array) "type = S ''array''" "ks = [S ''items'', S ''minItems'', S ''maxItems'']"
        | (scalar) "type = S ''string'' \<or> type = S ''boolean''" "ks = []" by blast
      then show ?thesis
      proof cases
        case object
        have "agrees sub" if "map_of (obj_of (jget sch (S ''properties''))) k = Some sub" for k sub
          by (rule IH) (use that typed(6) [OF object(1)] map_of_SomeD [OF that] in \<open>auto intro: size_property simp del: json.size\<close>)
        with typed object show ?thesis by (intro agrees_object) auto
      next
        case array
        with typed(7) obtain sub where sub: "array_fault sch = None" "map_of sch (S ''items'') = Some sub" "supported sub"
          by auto
        then have "agrees sub" by (intro IH size_map_of)
        with typed array sub show ?thesis by (intro agrees_array) auto
      next
        case scalar
        with typed show ?thesis by (intro agrees_scalar [where type = type]) auto
      qed
    qed
    then show ?case by (simp add: sch)
  qed
  then show ?thesis by blast
qed

text \<open>
  C24. Declaration and enforcement cannot drift: for every schema the registration check accepts,
  the validator accepts a value exactly when the value satisfies every keyword of the schema,
  at every level; no declared constraint is skipped.
\<close>

theorem validator_enforces_schema:
  assumes "supported schema"
  shows "validate_against_schema v schema path = None \<longleftrightarrow> satisfies schema v"
  using assms by (rule validator_exact)

text \<open>The schema of a tool action with a required text and an optional list.\<close>

definition demo_schema :: json where
  "demo_schema = JObj
     [(S ''type'', JStr (S ''object'')),
      (S ''properties'', JObj
         [(S ''to'', JObj [(S ''type'', JStr (S ''string''))]),
          (S ''cc'', JObj [(S ''type'', JStr (S ''array'')), (S ''items'', JObj [(S ''type'', JStr (S ''string''))]),
                           (S ''maxItems'', JInt 5)])]),
      (S ''required'', JList [JStr (S ''to'')]),
      (S ''additionalProperties'', JBool False)]"

lemma demo_supported: "supported demo_schema"
proof -
  have "unsupported_schema_error demo_schema [] False = None" by code_simp
  then show ?thesis by (auto simp: supported_def)
qed

theorem validator_enforces_schema_witness:
  "validate_against_schema (JObj [(S ''to'', JStr (S ''a'')), (S ''cc'', JList [JBool True])]) demo_schema (S ''input'') = None
   \<longleftrightarrow> satisfies demo_schema (JObj [(S ''to'', JStr (S ''a'')), (S ''cc'', JList [JBool True])])"
  by (rule validator_enforces_schema [OF demo_supported])

end
