(* ===== verification/ToolHost.thy ===== *)
theory ToolHost
  imports ToolInvariants ToolSchema
begin

text \<open>
  Calling a tool action: the registration checks of \<open>_bundled_tool_map\<close> and of the manifest
  (\<open>host/tools/manifest.py\<close>), \<open>execute_action\<close> of \<open>runtime/tools/tools_host.py\<close>, and the agent's
  entry \<open>call_action\<close> with the approval poll of \<open>runtime/tools/api.py\<close>. The package itself is
  an argument: what it answers on some arguments and what it does to the tables meanwhile.
\<close>

subsection \<open>Registration\<close>

definition TOOL_ID_RE :: rx where
  "TOOL_ID_RE = seqs [Bol, Cls (Range 97 122), Greedy 0 63 (Cls (unions [Range 97 122, Range 48 57, Range 95 95])), Eol]"

definition ACTION_ID_RE :: rx where
  "ACTION_ID_RE =
     seqs [Bol, Greedy 1 128 (Cls (unions [Range 65 90, Range 97 122, Range 48 57, chars (S ''._:-'')])), Eol]"

text \<open>The checks of \<open>ToolManifest.__post_init__\<close> on the ids; its texts are not modelled.\<close>

definition manifest_ids_ok :: "bundled_tool \<Rightarrow> bool" where
  "manifest_ids_ok t \<longleftrightarrow> rx_fullmatch (\<lambda>_. False) TOOL_ID_RE (bt_id t)
     \<and> list_all (\<lambda>a. rx_fullmatch (\<lambda>_. False) ACTION_ID_RE (as_id a)) (bt_actions t)
     \<and> distinct (map as_id (bt_actions t))"

definition action_schemas_ok :: "action_spec \<Rightarrow> bool" where
  "action_schemas_ok a \<longleftrightarrow> unsupported_schema_error (as_input a) (S ''schema'') False = None
     \<and> unsupported_schema_error (as_output a) (S ''schema'') True = None"

text \<open>Discovery fails the service unless every package passes.\<close>

definition bundled_tool_map :: "bundled_tool list \<Rightarrow> fault + bundled_tool list" where
  "bundled_tool_map ts =
     (if list_all manifest_ids_ok ts \<and> distinct (map bt_id ts)
         \<and> list_all (\<lambda>t. list_all action_schemas_ok (bt_actions t) \<and> bt_oauth t = bt_credentials t) ts
      then Inr ts else Inl (Raised (RuntimeError (S ''registration''))))"

subsection \<open>Executing an action\<close>

datatype action_outcome =
    Json_result "(str \<times> json) list"
  | Streaming_action str str json

text \<open>
  A package at work: its answer, what it leaves in the argument object it was handed, and the
  tables it leaves.
\<close>

type_synonym package = "json \<Rightarrow> tools_db \<Rightarrow> tool_answer \<times> json \<times> tools_db"

fun direct_result :: "tool_answer \<Rightarrow> action_result" where
  "direct_result (Config_unset e) = ActionFailed e False"
| "direct_result (Backpressure e) = ActionFailed e False"
| "direct_result Raises = ActionFailed (S ''Tool call failed.'') False"
| "direct_result (Returns r) = r"

definition invalid_output :: "str \<Rightarrow> str \<Rightarrow> (str \<times> json) list" where
  "invalid_output tool action =
     [(S ''status'', JStr (S ''failed'')),
      (S ''error'', JStr (S ''Invalid output for '' @ tool @ S ''.'' @ action @ S '': '')),
      (S ''reconnect_required'', JBool False)]"

text \<open>The text of the schema error is left out of the message.\<close>

definition validate_output :: "str \<Rightarrow> str \<Rightarrow> action_spec \<Rightarrow> (str \<times> json) list \<Rightarrow> (str \<times> json) list" where
  "validate_output tool action spec r =
     (if status_of r \<noteq> S ''executed'' \<or> \<not> has_key r (S ''result'') then r
      else (case validate_against_schema (jget r (S ''result'')) (as_output spec) (S ''result'') of
              None \<Rightarrow> r
            | Some _ \<Rightarrow> invalid_output tool action))"

definition audit :: "str \<Rightarrow> str \<Rightarrow> str \<Rightarrow> (str \<times> json) list \<Rightarrow> json \<Rightarrow> tools_db \<Rightarrow> tools_db" where
  "audit now tool action r arguments d =
     snd (mutation (record_tool_event now tool action (status_of r) (audit_detail r) (Some arguments)) d)"

text \<open>
  What happens once the package has answered. The argument object of the audit record is the one
  the package had in its hands.
\<close>

definition finish_action ::
  "str \<Rightarrow> str \<Rightarrow> str \<Rightarrow> action_spec \<Rightarrow> tool_answer \<times> json \<times> tools_db \<Rightarrow> (fault + action_outcome) \<times> tools_db" where
  "finish_action now tool action spec answered =
     (case answered of (answer, arguments, d) \<Rightarrow>
        if direct_result answer = StreamingAsset then (Inr (Streaming_action tool action arguments), d)
        else (case result_json (direct_result answer) of
                Inl f \<Rightarrow> (Inl f, d)
              | Inr r \<Rightarrow>
                  let r' = validate_output tool action spec r
                  in (Inr (Json_result r'), audit now tool action r' arguments d)))"

definition execute_action ::
  "tool_host \<Rightarrow> package \<Rightarrow> str \<Rightarrow> str \<Rightarrow> str \<Rightarrow> json \<Rightarrow> tools_db \<Rightarrow> (fault + action_outcome) \<times> tools_db" where
  "execute_action h run now tool action tool_input d =
     (if enabled_tool_error (bundled h) d tool \<noteq> None then (Inl tool_call_error, d)
      else case manifest_action h tool action of
        None \<Rightarrow> (Inl tool_call_error, d)
      | Some spec \<Rightarrow>
          let input = (if tool_input = JNull then JObj [] else tool_input)
          in if jobj input = None then (Inl tool_call_error, d)
             else if validate_against_schema input (as_input spec) (S ''input'') \<noteq> None then (Inl tool_call_error, d)
             else (case ensure_json_object h input PAYLOAD_MAX_BYTES of
                     Inl _ \<Rightarrow> (Inl tool_call_error, d)
                   | Inr serialized \<Rightarrow>
                       (case loads h serialized of
                          None \<Rightarrow> (Inl (Raised JSONDecodeError), d)
                        | Some arguments \<Rightarrow> finish_action now tool action spec (run arguments d))))"

text \<open>A stream is audited when its transport ended.\<close>

definition finish_streaming_action :: "str \<Rightarrow> action_outcome \<Rightarrow> str option \<Rightarrow> tools_db \<Rightarrow> tools_db" where
  "finish_streaming_action now outcome error d =
     (case outcome of
        Streaming_action tool action arguments \<Rightarrow>
          audit now tool action
            (case error of
               None \<Rightarrow> [(S ''status'', JStr (S ''executed''))]
             | Some e \<Rightarrow> [(S ''status'', JStr (S ''failed'')), (S ''error'', JStr e), (S ''reconnect_required'', JBool False)])
            arguments d
      | Json_result r \<Rightarrow> d)"

subsection \<open>The agent's entry\<close>

text \<open>The first tool in registry order whose prefix and action fit the name.\<close>

definition resolve_action :: "tool_host \<Rightarrow> str \<Rightarrow> (str \<times> str) option" where
  "resolve_action h name =
     map_option (\<lambda>t. (bt_id t, drop (length (bt_id t) + 1) name))
       (find_first (\<lambda>t. startswith name (bt_id t @ S ''_'')
            \<and> manifest_action h (bt_id t) (drop (length (bt_id t) + 1) name) \<noteq> None) (tools h))"

definition status_text :: "approval_status \<Rightarrow> str" where
  "status_text s = (case s of
     Awaiting \<Rightarrow> S ''pending'' | Granted \<Rightarrow> S ''approved'' | Denied \<Rightarrow> S ''denied''
   | Expired \<Rightarrow> S ''expired'' | Executed \<Rightarrow> S ''executed'' | Unsuccessful \<Rightarrow> S ''failed'')"

definition check_approval :: "json \<Rightarrow> tools_db \<Rightarrow> fault + (str \<times> json) list" where
  "check_approval tool_input d =
     (case truthy_str (jget (case tool_input of JObj kvs \<Rightarrow> kvs | _ \<Rightarrow> []) (S ''approval_id'')) of
        None \<Rightarrow> Inl tool_call_error
      | Some aid \<Rightarrow>
          bind_res (tool_approval d aid None) (\<lambda>found.
            case found of
              None \<Rightarrow> Inl tool_call_error
            | Some a \<Rightarrow>
                Inr [(S ''status'', JStr (S ''executed'')),
                     (S ''result'', JObj
                       ([(S ''approval_id'', JStr (ap_id a)), (S ''approval_status'', JStr (status_text (ap_status a))),
                         (S ''summary'', JStr (ap_summary a))]
                        @ (if ap_status a \<in> {Executed, Unsuccessful}
                           then [(S ''execution_result'', JStr (ap_result a))] else [])))]))"

text \<open>The catalogue with its enablement; the display texts are left out.\<close>

definition list_bundled_tools :: "tool_host \<Rightarrow> tools_db \<Rightarrow> (str \<times> json) list" where
  "list_bundled_tools h d =
     [(S ''status'', JStr (S ''executed'')),
      (S ''result'', JObj [(S ''tools'', JList (map (\<lambda>t. JObj
         [(S ''tool_id'', JStr (bt_id t)),
          (S ''connection'', JStr (if bt_oauth t then S ''oauth'' else S ''enable_only'')),
          (S ''enabled'', JBool (bt_id t \<in> set (enabled_tools d))),
          (S ''action_ids'', JList (map (\<lambda>a. JStr (as_id a)) (bt_actions t)))]) (tools h)))])]"

definition call_action ::
  "tool_host \<Rightarrow> package \<Rightarrow> str \<Rightarrow> json \<Rightarrow> json \<Rightarrow> tools_db \<Rightarrow> (fault + action_outcome) \<times> tools_db" where
  "call_action h run now name tool_input d =
     (case name of
        JStr n \<Rightarrow>
          if n = S ''check_tool_approval''
          then (map_sum id Json_result (check_approval tool_input d), d)
          else if n = S ''list_bundled_tools'' then (Inr (Json_result (list_bundled_tools h d)), d)
          else (case resolve_action h n of
                  None \<Rightarrow> (Inl tool_call_error, d)
                | Some (tool, action) \<Rightarrow> execute_action h run now tool action tool_input d)
      | _ \<Rightarrow> (Inl tool_call_error, d))"

subsection \<open>What a call guarantees\<close>

text \<open>A host whose registry passed registration and whose JSON text reads back as it was written.\<close>

definition registered_host :: "tool_host \<Rightarrow> bool" where
  "registered_host h \<longleftrightarrow> bundled_tool_map (tools h) = Inr (tools h)
     \<and> (\<forall>j s. dumps h j = Some s \<longrightarrow> loads h s = Some j)"

lemma registered_action:
  assumes "registered_host h" "manifest_action h tool action = Some spec"
  shows "action_schemas_ok spec" "tool \<in> set (bundled h)"
proof -
  from assms(2) obtain t where t: "find_first (\<lambda>t. bt_id t = tool) (tools h) = Some t"
    and a: "find_first (\<lambda>a. as_id a = action) (bt_actions t) = Some spec"
    by (auto simp: manifest_action_def bind_eq_Some_conv)
  with assms(1) find_first_Some [OF t] find_first_Some [OF a]
  show "action_schemas_ok spec" "tool \<in> set (bundled h)"
    by (auto simp: registered_host_def bundled_tool_map_def bundled_def list_all_iff split: if_splits)
qed

lemma input_schema_supported: "action_schemas_ok spec \<Longrightarrow> supported (as_input spec)"
  by (auto simp: action_schemas_ok_def supported_def)

lemma unsupported_nonempty:
  "schema \<noteq> JObj [] \<Longrightarrow> unsupported_schema_error schema path e = unsupported_schema_error schema path False"
  by (subst (1 2) unsupported_schema_error.simps) (cases schema; simp)

lemma output_schema_supported: "action_schemas_ok spec \<Longrightarrow> as_output spec = JObj [] \<or> supported (as_output spec)"
  using unsupported_nonempty [of "as_output spec" "S ''schema''" True]
  by (cases "as_output spec = JObj []") (auto simp: action_schemas_ok_def supported_def)

lemma action_cases:
  assumes "registered_host h"
  shows "execute_action h run now tool action tool_input d = (Inl tool_call_error, d)
    \<or> (\<exists>spec. tool \<in> set (bundled h) \<and> tool \<in> set (enabled_tools d) \<and> manifest_action h tool action = Some spec
        \<and> (let arguments = (if tool_input = JNull then JObj [] else tool_input)
           in satisfies (as_input spec) arguments
              \<and> execute_action h run now tool action tool_input d
                = finish_action now tool action spec (run arguments d)))"
proof (cases "execute_action h run now tool action tool_input d = (Inl tool_call_error, d)")
  case False
  define input where input: "input = (if tool_input = JNull then JObj [] else tool_input)"
  have en: "enabled_tool_error (bundled h) d tool = None"
    using False unfolding execute_action_def by (rule contrapos_np) simp
  with False obtain spec where spec: "manifest_action h tool action = Some spec"
    by (cases "manifest_action h tool action") (auto simp: execute_action_def)
  have inp: "jobj input \<noteq> None" "validate_against_schema input (as_input spec) (S ''input'') = None"
    by (rule ccontr, use False en spec in \<open>simp add: execute_action_def Let_def input [symmetric] split: if_splits\<close>)+
  with False en spec obtain serialized where ser: "ensure_json_object h input PAYLOAD_MAX_BYTES = Inr serialized"
    by (cases "ensure_json_object h input PAYLOAD_MAX_BYTES") (auto simp: execute_action_def Let_def input [symmetric])
  then have "dumps h input = Some serialized"
    by (auto simp: ensure_json_object_def split: json.splits option.splits if_splits)
  with assms have "loads h serialized = Some input" by (auto simp: registered_host_def)
  with en spec inp ser have "execute_action h run now tool action tool_input d
      = finish_action now tool action spec (run input d)"
    using inp(1) by (auto simp: execute_action_def Let_def input [symmetric])
  moreover have "satisfies (as_input spec) input"
    using validator_exact [OF input_schema_supported] registered_action(1) [OF assms spec] inp(2) by blast
  moreover have "tool \<in> set (enabled_tools d)" using en by (auto simp: enabled_tool_error_def split: if_splits)
  ultimately show ?thesis using spec registered_action(2) [OF assms spec] by (auto simp: Let_def input [symmetric])
qed simp

text \<open>
  C11. Agent input reaches a tool package only through every check: a call is refused with the
  tables untouched, or the tool is registered and enabled, the action is in its manifest, and
  the package runs on exactly the agent's JSON object, which satisfies the declared input
  schema keyword by keyword.
\<close>

theorem action_input_guarded:
  assumes "registered_host h"
  shows "execute_action h run now tool action tool_input d = (Inl tool_call_error, d)
    \<or> (\<exists>spec. tool \<in> set (bundled h) \<and> tool \<in> set (enabled_tools d) \<and> manifest_action h tool action = Some spec
        \<and> (let arguments = (if tool_input = JNull then JObj [] else tool_input)
           in satisfies (as_input spec) arguments
              \<and> execute_action h run now tool action tool_input d
                = finish_action now tool action spec (run arguments d)))"
  using assms by (rule action_cases)

text \<open>
  C33. What a package answers is checked before the agent sees it: a JSON answer that reports an
  executed action with a result carries a result that satisfies the declared output schema (or
  none is declared), and the call ends with one audit record of that answer, with the argument
  object as the package left it.
\<close>

theorem action_output_checked:
  assumes "registered_host h" "execute_action h run now tool action tool_input d = (Inr (Json_result r), d')"
  shows "\<exists>spec arguments d1. manifest_action h tool action = Some spec
    \<and> d' = audit now tool action r arguments d1
    \<and> (status_of r = S ''executed'' \<and> has_key r (S ''result'') \<longrightarrow>
         as_output spec = JObj [] \<or> satisfies (as_output spec) (jget r (S ''result'')))"
proof -
  from action_cases [OF assms(1), of run now tool action tool_input d] assms(2)
  obtain spec arguments where spec: "manifest_action h tool action = Some spec"
    and fin: "finish_action now tool action spec (run arguments d) = (Inr (Json_result r), d')"
    by (auto simp: Let_def)
  obtain answer left d1 where run: "run arguments d = (answer, left, d1)" by (cases "run arguments d")
  from fin run obtain r0 where r: "r = validate_output tool action spec r0" and d': "d' = audit now tool action r left d1"
    by (auto simp: finish_action_def Let_def split: if_splits sum.splits)
  have "as_output spec = JObj [] \<or> satisfies (as_output spec) (jget r (S ''result''))"
    if "status_of r = S ''executed'' \<and> has_key r (S ''result'')"
  proof -
    have "\<not> has_key (invalid_output tool action) (S ''result'')"
      by (simp add: invalid_output_def has_key_def)
    with that r have "r = r0" "validate_against_schema (jget r (S ''result'')) (as_output spec) (S ''result'') = None"
      by (auto simp: validate_output_def split: if_splits option.splits)
    with output_schema_supported [OF registered_action(1) [OF assms(1) spec]] validator_exact show ?thesis
      by blast
  qed
  with spec d' show ?thesis by blast
qed

text \<open>The demonstration host, answering a send with a text result.\<close>

lemma demo_registered: "registered_host demo_host"
proof -
  have "bundled_tool_map (tools demo_host) = Inr (tools demo_host)" by code_simp
  then show ?thesis by (auto simp: registered_host_def demo_host_def split: if_splits)
qed

definition demo_package :: package where
  "demo_package arguments d = (Returns (ActionExecuted (JStr (S ''sent''))), arguments, d)"

abbreviation demo_answer :: "(fault + action_outcome) \<times> tools_db" where
  "demo_answer \<equiv> execute_action demo_host demo_package (S ''2027'') (S ''gmail'') (S ''send'') JNull (tdb enabled_service)"

lemma demo_answered:
  "fst demo_answer = Inr (Json_result [(S ''status'', JStr (S ''executed'')), (S ''result'', JStr (S ''sent''))])"
  by code_simp

theorem action_input_guarded_witness:
  "\<exists>spec. manifest_action demo_host (S ''gmail'') (S ''send'') = Some spec \<and> satisfies (as_input spec) (JObj [])
     \<and> fst demo_answer \<noteq> Inl tool_call_error"
  using action_input_guarded [OF demo_registered, of demo_package "S ''2027''" "S ''gmail''" "S ''send''" JNull "tdb enabled_service"]
    demo_answered
  by (auto simp: Let_def)

theorem action_output_checked_witness:
  "\<exists>spec arguments d1. manifest_action demo_host (S ''gmail'') (S ''send'') = Some spec
     \<and> snd demo_answer = audit (S ''2027'') (S ''gmail'') (S ''send'')
         [(S ''status'', JStr (S ''executed'')), (S ''result'', JStr (S ''sent''))] arguments d1"
  using action_output_checked [OF demo_registered, of demo_package "S ''2027''" "S ''gmail''" "S ''send''" JNull "tdb enabled_service",
    OF prod_eqI, of _ "snd demo_answer"] demo_answered
  by auto


end
