(* ===== verification/JsonText.thy ===== *)
theory JsonText
  imports Json "HOL-Library.List_Lexorder"
begin

text \<open>
  JSON as text: \<open>json.dumps\<close> with ASCII escaping, and the byte budgets the workspace engine
  (\<open>apps/workspace_kit/engine.py\<close>) holds its answers to. How a float is printed is the argument
  \<open>F\<close>. Sizes are those of the escaped text, one byte per character.
\<close>

subsection \<open>\<open>json.dumps\<close>\<close>

definition hex_digit_char :: "int \<Rightarrow> int" where
  "hex_digit_char n = (if n < 10 then 48 + n else 87 + n)"

definition u_escape :: "int \<Rightarrow> str" where
  "u_escape n = [92, 117, hex_digit_char (n div 4096 mod 16), hex_digit_char (n div 256 mod 16),
     hex_digit_char (n div 16 mod 16), hex_digit_char (n mod 16)]"

definition escape_char :: "int \<Rightarrow> str" where
  "escape_char c =
     (if c = 34 \<or> c = 92 then [92, c]
      else if c = 10 then [92, 110] else if c = 13 then [92, 114] else if c = 9 then [92, 116]
      else if c = 12 then [92, 102] else if c = 8 then [92, 98]
      else if 32 \<le> c \<and> c \<le> 126 then [c]
      else if c < 0x10000 then u_escape c
      else u_escape (0xd800 + (c - 0x10000) div 1024) @ u_escape (0xdc00 + (c - 0x10000) mod 1024))"

definition escaped :: "str \<Rightarrow> str" where
  "escaped s = concat (map escape_char s)"

definition json_string :: "str \<Rightarrow> str" where
  "json_string s = [34] @ escaped s @ [34]"

fun dumps_with :: "(rat option \<Rightarrow> str) \<Rightarrow> str \<Rightarrow> str \<Rightarrow> json \<Rightarrow> str" where
  "dumps_with F comma colon JNull = S ''null''"
| "dumps_with F comma colon (JBool b) = (if b then S ''true'' else S ''false'')"
| "dumps_with F comma colon (JInt i) = str_of_int i"
| "dumps_with F comma colon (JFloat r) = F r"
| "dumps_with F comma colon (JStr s) = json_string s"
| "dumps_with F comma colon (JList xs) = S ''['' @ join comma (map (dumps_with F comma colon) xs) @ S '']''"
| "dumps_with F comma colon (JObj kvs) =
     S ''{'' @ join comma (map (\<lambda>(k, v). json_string k @ colon @ dumps_with F comma colon v) kvs) @ S ''}''"

text \<open>\<open>sort_keys=True\<close>, at every level.\<close>

fun sorted_keys :: "json \<Rightarrow> json" where
  "sorted_keys (JObj kvs) = JObj (sort_key fst (map (\<lambda>(k, v). (k, sorted_keys v)) kvs))"
| "sorted_keys (JList xs) = JList (map sorted_keys xs)"
| "sorted_keys j = j"

abbreviation json_text :: "(rat option \<Rightarrow> str) \<Rightarrow> json \<Rightarrow> str" where
  "json_text F j \<equiv> dumps_with F (S '', '') (S '': '') j"

abbreviation compact_text :: "(rat option \<Rightarrow> str) \<Rightarrow> json \<Rightarrow> str" where
  "compact_text F j \<equiv> dumps_with F (S '','') (S '':'') j"

text \<open>\<open>allow_nan=False\<close> refuses a value with an infinity or a NaN in it.\<close>

definition finite_json :: "json \<Rightarrow> bool" where
  "finite_json j \<longleftrightarrow> list_all (\<lambda>v. v \<noteq> JFloat None) (subvalues j)"

subsection \<open>Clipping to a budget\<close>

definition encoded_size :: "str \<Rightarrow> int" where
  "encoded_size s = int (length (json_string s)) - 2"

function clip_loop :: "str \<Rightarrow> int \<Rightarrow> nat \<Rightarrow> nat \<Rightarrow> nat" where
  "clip_loop text_in budget low high =
     (if low < high
      then (let middle = (low + high + 1) div 2
            in if encoded_size (take middle text_in) \<le> budget then clip_loop text_in budget middle high
               else clip_loop text_in budget low (middle - 1))
      else low)"
  by pat_completeness auto
termination by (relation "measure (\<lambda>(_, _, low, high). high - low)") auto

declare clip_loop.simps [simp del]

definition clip_encoded_text :: "str \<Rightarrow> int \<Rightarrow> str \<times> bool" where
  "clip_encoded_text s budget =
     (if encoded_size s \<le> budget then (s, False)
      else let s' = take (nat budget) s in (take (clip_loop s' budget 0 (length s')) s', True))"

definition ellipsis :: str where "ellipsis = [0x2026]"

definition snapshot_text :: "str \<Rightarrow> int \<Rightarrow> str" where
  "snapshot_text s budget =
     (case clip_encoded_text s budget of
        (clipped, False) \<Rightarrow> clipped
      | (_, True) \<Rightarrow> fst (clip_encoded_text s (budget - 6)) @ ellipsis)"

definition ACTION_ERROR_BYTES :: int where "ACTION_ERROR_BYTES = 2000"

definition bounded_action_error :: "str \<Rightarrow> str" where
  "bounded_action_error e =
     (case clip_encoded_text e (ACTION_ERROR_BYTES - 3) of
        (clipped, truncated) \<Rightarrow> clipped @ (if truncated then ellipsis else []))"

definition ACTION_LABEL_BYTES :: int where "ACTION_LABEL_BYTES = 40"

definition action_label :: "(str \<times> json) list \<Rightarrow> str" where
  "action_label action =
     (case jget action (S ''action'') of
        JStr v \<Rightarrow> (if v = [] then S ''invalid'' else fst (clip_encoded_text v ACTION_LABEL_BYTES))
      | _ \<Rightarrow> S ''invalid'')"

subsection \<open>The metadata of a feed entry\<close>

definition SNAPSHOT_META_VALUE_BYTES :: int where "SNAPSHOT_META_VALUE_BYTES = 500"
definition SNAPSHOT_META_FIELD_BYTES :: int where "SNAPSHOT_META_FIELD_BYTES = 150"
definition SNAPSHOT_META_BYTES :: int where "SNAPSHOT_META_BYTES = 2000"

text \<open>The loop over a copy of the items, each step on the dictionary as it is by then.\<close>

definition clip_meta_field :: "str \<times> json \<Rightarrow> (str, json) dict \<Rightarrow> (str, json) dict" where
  "clip_meta_field item d =
     (case item of
        (k, JStr s) \<Rightarrow>
          (let budget = (if k = S ''value'' then SNAPSHOT_META_VALUE_BYTES else SNAPSHOT_META_FIELD_BYTES)
           in case clip_encoded_text s budget of
                (clipped, truncated) \<Rightarrow>
                  (let d' = AList.update k (JStr clipped) d
                   in if truncated then AList.update (k @ S ''_truncated'') (JBool True) d' else d'))
      | _ \<Rightarrow> d)"

text \<open>\<open>parsed\<close> is what \<open>json.loads\<close> makes of the stored text, when there is one and it parses.\<close>

definition snapshot_message_meta ::
  "(rat option \<Rightarrow> str) \<Rightarrow> json option \<Rightarrow> (str, json) dict option" where
  "snapshot_message_meta F parsed =
     (case parsed of
        Some (JObj kvs) \<Rightarrow>
          (let d = fold clip_meta_field kvs kvs
           in if int (length (json_text F (JObj d))) \<le> SNAPSHOT_META_BYTES then Some d
              else Some [(S ''action'',
                case jget d (S ''action'') of JStr a \<Rightarrow> JStr a | _ \<Rightarrow> JStr (S ''unknown''))])
      | _ \<Rightarrow> None)"

subsection \<open>What fits\<close>

lemma escape_char_length: "1 \<le> length (escape_char c)" "length (escape_char c) \<le> 12"
  by (auto simp: escape_char_def u_escape_def)

lemma encoded_size_simps [simp]:
  "encoded_size [] = 0"
  "encoded_size (c # s) = int (length (escape_char c)) + encoded_size s"
  "encoded_size (s @ t) = encoded_size s + encoded_size t"
  by (simp_all add: encoded_size_def json_string_def escaped_def)

lemma encoded_size_length: "int (length s) \<le> encoded_size s"
proof (induction s)
  case (Cons c s)
  with escape_char_length(1) [of c] show ?case by simp
qed simp

lemma encoded_size_take_mono: "m \<le> n \<Longrightarrow> encoded_size (take m s) \<le> encoded_size (take n s)"
proof -
  assume "m \<le> n"
  then have "take n s = take m s @ take (n - m) (drop m s)" by (metis le_add_diff_inverse take_add)
  then show ?thesis using encoded_size_length [of "take (n - m) (drop m s)"] by simp
qed

lemma clip_loop_sound:
  assumes "low \<le> high" "encoded_size (take low s) \<le> budget" "\<forall>n > high. n \<le> length s \<longrightarrow> budget < encoded_size (take n s)"
    "high \<le> length s"
  shows "clip_loop s budget low high \<le> length s \<and> encoded_size (take (clip_loop s budget low high) s) \<le> budget
    \<and> (\<forall>n. n \<le> length s \<and> encoded_size (take n s) \<le> budget \<longrightarrow> n \<le> clip_loop s budget low high)"
  using assms
proof (induction s budget low high rule: clip_loop.induct)
  case (1 s budget low high)
  show ?case
  proof (cases "low < high")
    case False
    then have "clip_loop s budget low high = low" by (simp add: clip_loop.simps [of s budget low high])
    with False "1.prems" show ?thesis by simp (meson not_le)
  next
    case True
    let ?middle = "(low + high + 1) div 2"
    have middle: "low < ?middle" "?middle \<le> high" using True by auto
    show ?thesis
    proof (cases "encoded_size (take ?middle s) \<le> budget")
      case fits: True
      with True have "clip_loop s budget low high = clip_loop s budget ?middle high"
        by (simp add: clip_loop.simps [of s budget low high] Let_def)
      with "1.IH"(1) [OF True refl fits] "1.prems" middle fits show ?thesis by simp
    next
      case over: False
      with True have eq: "clip_loop s budget low high = clip_loop s budget low (?middle - 1)"
        by (simp add: clip_loop.simps [of s budget low high] Let_def)
      have "\<forall>n > ?middle - 1. n \<le> length s \<longrightarrow> budget < encoded_size (take n s)"
      proof (intro allI impI)
        fix n assume "?middle - 1 < n"
        then have "?middle \<le> n" using middle by linarith
        from encoded_size_take_mono [OF this, of s] over show "budget < encoded_size (take n s)" by linarith
      qed
      with "1.IH"(2) [OF True refl over] "1.prems" middle show ?thesis unfolding eq by simp
    qed
  qed
qed

lemma clip_fits: "0 \<le> budget \<Longrightarrow> encoded_size (fst (clip_encoded_text s budget)) \<le> budget"
  and clip_prefix: "\<exists>n. fst (clip_encoded_text s budget) = take n s"
  and clip_cut: "snd (clip_encoded_text s budget) \<longleftrightarrow> budget < encoded_size s"
  and clip_longest: "0 \<le> budget \<Longrightarrow> encoded_size (take n s) \<le> budget \<Longrightarrow>
    length (take n s) \<le> length (fst (clip_encoded_text s budget))"
proof -
  let ?s = "take (nat budget) s"
  let ?n = "clip_loop ?s budget 0 (length ?s)"
  have sound: "?n \<le> length ?s" "encoded_size (take ?n ?s) \<le> budget"
    "\<And>n. n \<le> length ?s \<Longrightarrow> encoded_size (take n ?s) \<le> budget \<Longrightarrow> n \<le> ?n" if "0 \<le> budget"
    using clip_loop_sound [of 0 "length ?s" ?s budget] that by (simp_all del: length_take take_take)
  show "encoded_size (fst (clip_encoded_text s budget)) \<le> budget" if "0 \<le> budget"
    using sound(2) [OF that] by (simp add: clip_encoded_text_def Let_def)
  show "\<exists>n. fst (clip_encoded_text s budget) = take n s"
    by (auto simp: clip_encoded_text_def Let_def take_take intro: exI [of _ "length s"])
  show "snd (clip_encoded_text s budget) \<longleftrightarrow> budget < encoded_size s"
    by (auto simp: clip_encoded_text_def Let_def)
  show "length (take n s) \<le> length (fst (clip_encoded_text s budget))"
    if "0 \<le> budget" "encoded_size (take n s) \<le> budget"
  proof (cases "encoded_size s \<le> budget")
    case False
    let ?k = "length (take n s)"
    have k: "?k \<le> nat budget" using encoded_size_length [of "take n s"] that by linarith
    then have "?k \<le> length ?s" by simp
    moreover have "take ?k ?s = take n s" using k by (simp add: take_take min_def)
    ultimately have "?k \<le> ?n" using sound(3) [OF that(1), of ?k] that(2) by simp
    with False sound(1) [OF that(1)] show ?thesis by (simp add: clip_encoded_text_def Let_def)
  qed (simp add: clip_encoded_text_def)
qed

lemma clip_within: "encoded_size s \<le> budget \<Longrightarrow> clip_encoded_text s budget = (s, False)"
  by (simp add: clip_encoded_text_def)

text \<open>
  C21. Clipping loses as little as it can: the clipped text is the longest beginning of the text
  whose escaped form fits the budget, and it is reported as clipped exactly when something
  was cut off.
\<close>

theorem clip_is_longest_fitting_prefix:
  assumes "0 \<le> budget" "clip_encoded_text s budget = (t, truncated)"
  shows "(\<exists>n. t = take n s) \<and> encoded_size t \<le> budget \<and> (truncated \<longleftrightarrow> t \<noteq> s)
    \<and> (\<forall>n. encoded_size (take n s) \<le> budget \<longrightarrow> length (take n s) \<le> length t)"
proof -
  have t: "t = fst (clip_encoded_text s budget)" "truncated = snd (clip_encoded_text s budget)"
    using assms(2) by simp_all
  have "truncated \<longleftrightarrow> t \<noteq> s"
  proof (cases "budget < encoded_size s")
    case True
    with clip_fits [OF assms(1), of s] clip_cut [of s budget] show ?thesis unfolding t by auto
  next
    case False
    with clip_within [of s budget] show ?thesis unfolding t by simp
  qed
  with clip_fits [OF assms(1)] clip_prefix clip_longest [OF assms(1)] show ?thesis unfolding t by blast
qed

theorem clip_is_longest_fitting_prefix_witness:
  "encoded_size (S ''ab'') \<le> 2 \<and> clip_encoded_text (S ''ab'' @ [233] @ S ''cd'') 7 = (S ''ab'', True)"
proof -
  have "clip_encoded_text (S ''ab'' @ [233] @ S ''cd'') 7 = (S ''ab'', True)" by code_simp
  with clip_is_longest_fitting_prefix [of 7 "S ''ab'' @ [233] @ S ''cd''" "S ''ab''" True] show ?thesis
    by (simp add: S_def escape_char_def)
qed

text \<open>A value shown in a snapshot fits its budget, ellipsis included.\<close>

lemma snapshot_text_fits:
  assumes "6 \<le> budget"
  shows "encoded_size (snapshot_text s budget) \<le> budget"
proof -
  have "encoded_size ellipsis = 6" by code_simp
  with assms clip_fits [of budget s] clip_fits [of "budget - 6" s] show ?thesis
    by (auto simp: snapshot_text_def split: prod.splits bool.splits)
qed

text \<open>
  The text of a rejection may exceed its budget by three bytes: the code reserves the three
  bytes of the ellipsis in UTF-8, but it is escaped to six.
\<close>

lemma plain_size: "list_all (\<lambda>c. 48 \<le> c \<and> c \<le> 57) s \<Longrightarrow> encoded_size s = int (length s)"
  by (induction s) (auto simp: escape_char_def)

lemma bounded_action_error_size:
  shows "encoded_size (bounded_action_error e) \<le> ACTION_ERROR_BYTES + 3"
    and "encoded_size (bounded_action_error (replicate 3000 48)) = ACTION_ERROR_BYTES + 3"
proof -
  have dots: "encoded_size ellipsis = 6" by code_simp
  show "encoded_size (bounded_action_error e) \<le> ACTION_ERROR_BYTES + 3"
    using clip_fits [of "ACTION_ERROR_BYTES - 3" e] dots
    by (auto simp: bounded_action_error_def ACTION_ERROR_BYTES_def split: prod.splits)
  let ?e = "replicate 3000 (48::int)" and ?b = "ACTION_ERROR_BYTES - 3"
  have plain: "list_all (\<lambda>c. 48 \<le> c \<and> c \<le> 57) (take n ?e)" for n by (simp add: list_all_iff)
  obtain n where t: "fst (clip_encoded_text ?e ?b) = take n ?e" using clip_prefix by blast
  have "encoded_size (take 1997 ?e) = 1997" using plain_size [OF plain, of 1997] by simp
  then have "1997 \<le> length (take n ?e)"
    using clip_longest [of ?b 1997 ?e] t by (simp add: ACTION_ERROR_BYTES_def)
  moreover have "encoded_size (take n ?e) \<le> 1997"
    using clip_fits [of ?b ?e] t by (simp add: ACTION_ERROR_BYTES_def)
  ultimately have "encoded_size (take n ?e) = 1997" using plain_size [OF plain, of n] by simp
  moreover have "snd (clip_encoded_text ?e ?b)"
    using clip_cut [of ?e ?b] plain_size [OF plain, of 3000] by (simp add: ACTION_ERROR_BYTES_def)
  ultimately show "encoded_size (bounded_action_error ?e) = ACTION_ERROR_BYTES + 3"
    using t dots by (auto simp: bounded_action_error_def ACTION_ERROR_BYTES_def split: prod.splits)
qed

subsection \<open>The metadata stays bounded\<close>

lemma clip_meta_field_lookup:
  "map_of (clip_meta_field (k, v) d) k' = (case v of
     JStr s \<Rightarrow>
       (let c = clip_encoded_text s (if k = S ''value'' then SNAPSHOT_META_VALUE_BYTES else SNAPSHOT_META_FIELD_BYTES)
        in if snd c \<and> k' = k @ S ''_truncated'' then Some (JBool True)
           else if k' = k then Some (JStr (fst c)) else map_of d k')
   | _ \<Rightarrow> map_of d k')"
  by (auto simp: clip_meta_field_def Let_def split: json.splits prod.splits)

lemma clip_meta_other:
  assumes "k' \<noteq> k"
  shows "map_of (clip_meta_field (k, v) d) k' \<in> {map_of d k', Some (JBool True)}"
  using assms by (cases v) (simp_all add: clip_meta_field_lookup Let_def)

lemma clip_meta_self:
  "map_of (clip_meta_field (k, v) d) k = Some (JStr a) \<Longrightarrow>
   encoded_size a \<le> SNAPSHOT_META_VALUE_BYTES \<or> (\<forall>s. v \<noteq> JStr s) \<and> map_of d k = Some (JStr a)"
proof (cases v)
  case (JStr s)
  have "encoded_size (fst (clip_encoded_text s b)) \<le> SNAPSHOT_META_VALUE_BYTES"
    if "b \<in> {SNAPSHOT_META_VALUE_BYTES, SNAPSHOT_META_FIELD_BYTES}" for b
    using that clip_fits [of b s] by (auto simp: SNAPSHOT_META_VALUE_BYTES_def SNAPSHOT_META_FIELD_BYTES_def)
  moreover assume "map_of (clip_meta_field (k, v) d) k = Some (JStr a)"
  ultimately show ?thesis by (auto simp: JStr clip_meta_field_lookup Let_def split: if_splits)
qed (auto simp: clip_meta_field_lookup)

text \<open>Every string left under a key was clipped when that key was visited, or was never visited.\<close>

lemma clip_meta_fields:
  "distinct (map fst items) \<Longrightarrow>
   (\<And>k v. (k, v) \<in> set items \<Longrightarrow> map_of d k \<in> {Some v, Some (JBool True)}) \<Longrightarrow>
   map_of (fold clip_meta_field items d) k = Some (JStr a) \<Longrightarrow>
   encoded_size a \<le> SNAPSHOT_META_VALUE_BYTES \<or> k \<notin> fst ` set items \<and> map_of d k = Some (JStr a)"
proof (induction items arbitrary: d)
  case (Cons item items)
  obtain k' v where item: "item = (k', v)" by (cases item)
  let ?d = "clip_meta_field (k', v) d"
  have rest: "map_of ?d k \<in> {Some w, Some (JBool True)}" if "(k, w) \<in> set items" for k w
  proof -
    have "k \<noteq> k'" using Cons.prems(1) that by (force simp: item)
    then show ?thesis using clip_meta_other [of k k' v d] Cons.prems(2) [of k w] that by auto
  qed
  have "encoded_size a \<le> SNAPSHOT_META_VALUE_BYTES \<or> k \<notin> fst ` set items \<and> map_of ?d k = Some (JStr a)"
    by (rule Cons.IH) (use Cons.prems rest in \<open>auto simp: item\<close>)
  then show ?case
  proof (elim disjE conjE)
    assume k: "k \<notin> fst ` set items" and at: "map_of ?d k = Some (JStr a)"
    show ?thesis
    proof (cases "k = k'")
      case True
      with clip_meta_self [of k' v d a] at Cons.prems(2) [of k' v] show ?thesis by (auto simp: item)
    next
      case False
      with k at clip_meta_other [OF False, of v d] show ?thesis by (auto simp: item)
    qed
  qed simp
qed simp

lemma snapshot_meta_bounded:
  assumes "snapshot_message_meta F parsed = Some d" "\<And>kvs. parsed = Some (JObj kvs) \<Longrightarrow> distinct (map fst kvs)"
  shows "int (length (json_text F (JObj d))) \<le> SNAPSHOT_META_BYTES"
proof -
  from assms(1) obtain kvs where parsed: "parsed = Some (JObj kvs)"
    by (auto simp: snapshot_message_meta_def split: option.splits json.splits)
  let ?d = "fold clip_meta_field kvs kvs"
  from assms(2) [OF parsed] have dist: "distinct (map fst kvs)" .
  have action: "encoded_size a \<le> 500" if "map_of ?d (S ''action'') = Some (JStr a)" for a
  proof -
    have "encoded_size a \<le> SNAPSHOT_META_VALUE_BYTES
        \<or> S ''action'' \<notin> fst ` set kvs \<and> map_of kvs (S ''action'') = Some (JStr a)"
      by (rule clip_meta_fields [OF dist _ that]) (simp add: map_of_is_SomeI [OF dist])
    then show ?thesis by (force simp: SNAPSHOT_META_VALUE_BYTES_def dest: map_of_SomeD)
  qed
  show ?thesis
  proof (cases "int (length (json_text F (JObj ?d))) \<le> SNAPSHOT_META_BYTES")
    case True
    with assms(1) parsed show ?thesis by (simp add: snapshot_message_meta_def Let_def)
  next
    case False
    then have d: "d = [(S ''action'', case jget ?d (S ''action'') of JStr a \<Rightarrow> JStr a | _ \<Rightarrow> JStr (S ''unknown''))]"
      using assms(1) parsed by (simp add: snapshot_message_meta_def Let_def)
    have "\<exists>a. d = [(S ''action'', JStr a)] \<and> encoded_size a \<le> 500"
    proof (cases "\<exists>a. map_of ?d (S ''action'') = Some (JStr a)")
      case True
      with action show ?thesis by (auto simp: d jget_def)
    next
      case False
      have "encoded_size (S ''unknown'') = 7" by code_simp
      with False show ?thesis by (auto simp: d jget_def split: option.splits json.splits)
    qed
    then obtain a where a: "d = [(S ''action'', JStr a)]" "encoded_size a \<le> 500" by blast
    have "length (json_string (S ''action'')) = 8" by code_simp
    with a show ?thesis by (simp add: SNAPSHOT_META_BYTES_def encoded_size_def)
  qed
qed

end
