(* ===== verification/ViewBlocks.thy ===== *)
theory ViewBlocks
  imports ToolSchema JsonText Regex
begin

text \<open>
  The artifact views of a workspace (\<open>apps/workspace_kit/views.py\<close>): the validator of the
  blocks an agent may author, and the table of block shapes it enforces. \<open>F\<close> prints floats and
  \<open>R\<close> is Python's \<open>repr\<close>, which only appears in messages.
\<close>

subsection \<open>Fields\<close>

definition SLUG_RE :: rx where
  "SLUG_RE = seqs [Bol, Cls (Range 97 122),
     Greedy 0 47 (Cls (unions [Range 97 122, Range 48 57, chars (S ''_-'')])), Eol]"

definition is_slug :: "json \<Rightarrow> bool" where
  "is_slug v = (case v of JStr s \<Rightarrow> rx_fullmatch (\<lambda>_. False) SLUG_RE s | _ \<Rightarrow> False)"

definition slug_pattern :: str where "slug_pattern = S ''^[a-z][a-z0-9_-]{0,47}$''"

text \<open>\<open>sorted(required - set(block))\<close> and \<open>sorted(set(block) - allowed)\<close>.\<close>

definition missing_keys :: "str list \<Rightarrow> (str \<times> json) list \<Rightarrow> str list" where
  "missing_keys required block = sort (filter (\<lambda>k. \<not> has_key block k) required)"

definition extra_keys_of :: "str list \<Rightarrow> (str \<times> json) list \<Rightarrow> str list" where
  "extra_keys_of allowed block = sort (filter (\<lambda>k. k \<notin> set allowed) (map fst block))"

definition block_fields :: "(str \<times> json) list \<Rightarrow> string list \<Rightarrow> string list \<Rightarrow> str option" where
  "block_fields block required optional =
     (case missing_keys (map S required) block of
        k # _ \<Rightarrow> Some (S ''missing field '' @ k)
      | [] \<Rightarrow> (case extra_keys_of (map S (required @ optional @ [''type''])) block of
                k # _ \<Rightarrow> Some (S ''unsupported field '' @ k)
              | [] \<Rightarrow> None))"

definition block_text :: "(str \<times> json) list \<Rightarrow> string \<Rightarrow> nat \<Rightarrow> str option" where
  "block_text block key max_length =
     (case jget block (S key) of
        JStr s \<Rightarrow>
          if s = [] then Some (S key @ S '' must be a non-empty string'')
          else if max_length < length s
          then Some (S key @ S '' must be at most '' @ str_of_int (int max_length) @ S '' characters'')
          else None
      | _ \<Rightarrow> Some (S key @ S '' must be a non-empty string''))"

definition optional_text :: "(str \<times> json) list \<Rightarrow> string \<Rightarrow> nat \<Rightarrow> str option" where
  "optional_text block key max_length = (if has_key block (S key) then block_text block key max_length else None)"

definition CONTROL_LABEL_LIMIT :: nat where "CONTROL_LABEL_LIMIT = 120"
definition FIELD_VALUE_LIMIT :: nat where "FIELD_VALUE_LIMIT = 1000"
definition FIELD_PLACEHOLDER_LIMIT :: nat where "FIELD_PLACEHOLDER_LIMIT = 200"
definition MAX_VIEW_BLOCKS :: nat where "MAX_VIEW_BLOCKS = 64"
definition VIEW_LIMIT :: nat where "VIEW_LIMIT = 16000"

definition validate_control_identity :: "(str \<times> json) list \<Rightarrow> str option" where
  "validate_control_identity block =
     (if \<not> is_slug (jget block (S ''control_id'')) then Some (S ''control_id must match '' @ slug_pattern)
      else block_text block ''label'' CONTROL_LABEL_LIMIT)"

text \<open>\<open>block.get(key, default)\<close>, and membership in a tuple of literals.\<close>

definition get_or :: "(str \<times> json) list \<Rightarrow> string \<Rightarrow> string \<Rightarrow> json" where
  "get_or block key fallback = (case map_of block (S key) of Some v \<Rightarrow> v | None \<Rightarrow> JStr (S fallback))"

definition one_of :: "string list \<Rightarrow> json \<Rightarrow> bool" where
  "one_of names v = list_ex (\<lambda>n. v = JStr (S n)) names"

text \<open>An integer no float can hold overflows in \<open>math.isfinite\<close> and counts as not finite.\<close>

definition FLOAT_OVERFLOW :: int where "FLOAT_OVERFLOW = 2 ^ 1024 - 2 ^ 970"

definition is_finite_number :: "json \<Rightarrow> bool" where
  "is_finite_number v =
     (case v of
        JInt i \<Rightarrow> \<bar>i\<bar> < FLOAT_OVERFLOW
      | JFloat r \<Rightarrow> r \<noteq> None
      | _ \<Rightarrow> False)"

text \<open>A list of texts, each between the given lengths.\<close>

definition texts_within :: "nat \<Rightarrow> nat \<Rightarrow> json list \<Rightarrow> bool" where
  "texts_within lo hi = list_all (\<lambda>item. case item of JStr s \<Rightarrow> lo \<le> length s \<and> length s \<le> hi | _ \<Rightarrow> False)"

definition sized_list :: "(str \<times> json) list \<Rightarrow> string \<Rightarrow> nat \<Rightarrow> nat \<Rightarrow> json list option" where
  "sized_list block key lo hi =
     (case jget block (S key) of
        JList items \<Rightarrow> if lo \<le> length items \<and> length items \<le> hi then Some items else None
      | _ \<Rightarrow> None)"

definition has_exactly :: "(str \<times> json) list \<Rightarrow> string list \<Rightarrow> bool" where
  "has_exactly item keys \<longleftrightarrow> extra_keys_of (map S keys) item = [] \<and> missing_keys (map S keys) item = []"

text \<open>The items of a block: the list is checked, then its items in order.\<close>

definition check_items ::
  "(str \<times> json) list \<Rightarrow> string \<Rightarrow> nat \<Rightarrow> nat \<Rightarrow> string \<Rightarrow> (json \<Rightarrow> str option) \<Rightarrow> str option" where
  "check_items block key lo hi refusal item_error =
     (case sized_list block key lo hi of
        None \<Rightarrow> Some (S refusal)
      | Some items \<Rightarrow> first_some item_error items)"

subsection \<open>The kinds of block\<close>

definition heading_error :: "(str \<times> json) list \<Rightarrow> str option" where
  "heading_error block =
     or_else (block_fields block [''text''] [''level''])
       (if has_key block (S ''level'') \<and> \<not> list_ex (\<lambda>n. json_eq (jget block (S ''level'')) (JInt n)) [1, 2, 3]
        then Some (S ''heading level must be 1, 2, or 3'')
        else block_text block ''text'' 200)"

definition text_error :: "(str \<times> json) list \<Rightarrow> str option" where
  "text_error block = or_else (block_fields block [''text''] []) (block_text block ''text'' 4000)"

definition callout_error :: "(str \<times> json) list \<Rightarrow> str option" where
  "callout_error block =
     or_else (block_fields block [''text''] [''title'', ''tone''])
       (if \<not> one_of [''info'', ''success'', ''warning'', ''danger''] (get_or block ''tone'' ''info'')
        then Some (S ''callout tone must be info, success, warning, or danger'')
        else or_else (optional_text block ''title'' 120) (block_text block ''text'' 2000))"

definition metrics_item_error :: "json \<Rightarrow> str option" where
  "metrics_item_error item =
     (case item of
        JObj kvs \<Rightarrow>
          if extra_keys_of (map S [''label'', ''value'', ''delta'']) kvs \<noteq> []
             \<or> \<not> has_key kvs (S ''label'') \<or> \<not> has_key kvs (S ''value'')
          then Some (S ''metrics items need label and value (delta optional)'')
          else or_else (block_text kvs ''label'' 80)
            (or_else (block_text kvs ''value'' 40) (optional_text kvs ''delta'' 40))
      | _ \<Rightarrow> Some (S ''metrics items must be objects''))"

definition metrics_error :: "(str \<times> json) list \<Rightarrow> str option" where
  "metrics_error block =
     or_else (block_fields block [''items''] [])
       (check_items block ''items'' 1 8 ''metrics items must be a list of 1 to 8 entries'' metrics_item_error)"

definition cards_item_error :: "json \<Rightarrow> str option" where
  "cards_item_error item =
     (case item of
        JObj kvs \<Rightarrow>
          if extra_keys_of (map S [''title'', ''text'', ''badge'', ''tone'']) kvs \<noteq> [] \<or> \<not> has_key kvs (S ''title'')
          then Some (S ''cards items need title (text, badge, and tone optional)'')
          else if \<not> one_of [''neutral'', ''info'', ''success'', ''warning'', ''danger''] (get_or kvs ''tone'' ''neutral'')
          then Some (S ''card tone must be neutral, info, success, warning, or danger'')
          else or_else (block_text kvs ''title'' 120)
            (or_else (optional_text kvs ''text'' 1000) (optional_text kvs ''badge'' 40))
      | _ \<Rightarrow> Some (S ''cards items must be objects''))"

definition cards_error :: "(str \<times> json) list \<Rightarrow> str option" where
  "cards_error block =
     or_else (block_fields block [''items''] [])
       (check_items block ''items'' 1 12 ''cards items must be a list of 1 to 12 entries'' cards_item_error)"

definition details_item_error :: "json \<Rightarrow> str option" where
  "details_item_error item =
     (case item of
        JObj kvs \<Rightarrow>
          if \<not> has_exactly kvs [''label'', ''value''] then Some (S ''details items need exactly label and value'')
          else or_else (block_text kvs ''label'' 80) (block_text kvs ''value'' 500)
      | _ \<Rightarrow> Some (S ''details items need exactly label and value''))"

definition details_error :: "(str \<times> json) list \<Rightarrow> str option" where
  "details_error block =
     or_else (block_fields block [''items''] [])
       (check_items block ''items'' 1 30 ''details items must be a list of 1 to 30 entries'' details_item_error)"

definition list_error :: "(str \<times> json) list \<Rightarrow> str option" where
  "list_error block =
     or_else (block_fields block [''items''] [''style''])
       (if \<not> one_of [''bullet'', ''number''] (get_or block ''style'' ''bullet'')
        then Some (S ''list style must be bullet or number'')
        else (case sized_list block ''items'' 1 50 of
                None \<Rightarrow> Some (S ''list items must be a list of 1 to 50 strings'')
              | Some items \<Rightarrow>
                  if \<not> texts_within 1 500 items
                  then Some (S ''list items must be non-empty strings of at most 500 characters'') else None))"

definition table_row_error :: "nat \<Rightarrow> json \<Rightarrow> str option" where
  "table_row_error columns row =
     (case row of
        JList cells \<Rightarrow>
          if length cells \<noteq> columns then Some (S ''each table row must match the number of columns'')
          else if \<not> texts_within 0 200 cells then Some (S ''table cells must be strings of at most 200 characters'')
          else None
      | _ \<Rightarrow> Some (S ''each table row must match the number of columns''))"

definition table_error :: "(str \<times> json) list \<Rightarrow> str option" where
  "table_error block =
     or_else (block_fields block [''columns'', ''rows''] [])
       (case sized_list block ''columns'' 1 8 of
          None \<Rightarrow> Some (S ''table columns must be a list of 1 to 8 names'')
        | Some columns \<Rightarrow>
            if \<not> texts_within 0 80 columns then Some (S ''table columns must be strings of at most 80 characters'')
            else check_items block ''rows'' 0 50 ''table rows must be a list of at most 50 rows''
              (table_row_error (length columns)))"

definition checklist_item_error :: "json \<Rightarrow> str option" where
  "checklist_item_error item =
     (case item of
        JObj kvs \<Rightarrow>
          if \<not> has_exactly kvs [''text'', ''done''] then Some (S ''checklist items need exactly text and done'')
          else (case jget kvs (S ''done'') of
                  JBool _ \<Rightarrow> block_text kvs ''text'' 200
                | _ \<Rightarrow> Some (S ''checklist done must be true or false''))
      | _ \<Rightarrow> Some (S ''checklist items need exactly text and done''))"

definition checklist_error :: "(str \<times> json) list \<Rightarrow> str option" where
  "checklist_error block =
     or_else (block_fields block [''items''] [])
       (check_items block ''items'' 1 50 ''checklist items must be a list of 1 to 50 entries'' checklist_item_error)"

definition within_percent :: "json \<Rightarrow> bool" where
  "within_percent v = (case number_of v of Some r \<Rightarrow> 0 \<le> r \<and> r \<le> 100 | None \<Rightarrow> False)"

definition progress_error :: "(str \<times> json) list \<Rightarrow> str option" where
  "progress_error block =
     or_else (block_fields block [''value''] [''label''])
       (or_else (optional_text block ''label'' 80)
          (if \<not> is_finite_number (jget block (S ''value'')) \<or> \<not> within_percent (jget block (S ''value''))
           then Some (S ''progress value must be a number between 0 and 100'') else None))"

definition timeline_item_error :: "json \<Rightarrow> str option" where
  "timeline_item_error item =
     (case item of
        JObj kvs \<Rightarrow>
          if extra_keys_of (map S [''title'', ''status'', ''text'', ''time'']) kvs \<noteq> []
             \<or> missing_keys (map S [''title'', ''status'']) kvs \<noteq> []
          then Some (S ''timeline items need title and status (text and time optional)'')
          else if \<not> one_of [''done'', ''current'', ''upcoming''] (jget kvs (S ''status''))
          then Some (S ''timeline status must be done, current, or upcoming'')
          else or_else (block_text kvs ''title'' 120)
            (or_else (optional_text kvs ''text'' 500) (optional_text kvs ''time'' 80))
      | _ \<Rightarrow> Some (S ''timeline items must be objects''))"

definition timeline_error :: "(str \<times> json) list \<Rightarrow> str option" where
  "timeline_error block =
     or_else (block_fields block [''items''] [])
       (check_items block ''items'' 1 30 ''timeline items must be a list of 1 to 30 entries'' timeline_item_error)"

definition kanban_column_error :: "json \<Rightarrow> str option" where
  "kanban_column_error column =
     (case column of
        JObj kvs \<Rightarrow>
          if \<not> has_exactly kvs [''title'', ''items''] then Some (S ''kanban columns need exactly title and items'')
          else or_else (block_text kvs ''title'' 80)
            (case sized_list kvs ''items'' 0 20 of
               None \<Rightarrow> Some (S ''kanban column items must be a list of at most 20 strings'')
             | Some items \<Rightarrow>
                 if \<not> texts_within 1 200 items
                 then Some (S ''kanban items must be non-empty strings of at most 200 characters'') else None)
      | _ \<Rightarrow> Some (S ''kanban columns need exactly title and items''))"

definition kanban_error :: "(str \<times> json) list \<Rightarrow> str option" where
  "kanban_error block =
     or_else (block_fields block [''columns''] [])
       (check_items block ''columns'' 1 6 ''kanban columns must be a list of 1 to 6 entries'' kanban_column_error)"

definition chart_point_error :: "json \<Rightarrow> str option" where
  "chart_point_error point =
     (case point of
        JObj kvs \<Rightarrow>
          if \<not> has_exactly kvs [''label'', ''value''] then Some (S ''chart points need exactly label and value'')
          else if \<not> is_finite_number (jget kvs (S ''value'')) then Some (S ''chart point values must be finite numbers'')
          else block_text kvs ''label'' 40
      | _ \<Rightarrow> Some (S ''chart points need exactly label and value''))"

definition chart_error :: "(str \<times> json) list \<Rightarrow> str option" where
  "chart_error block =
     or_else (block_fields block [''kind'', ''points''] [''label''])
       (if \<not> one_of [''bar'', ''line''] (jget block (S ''kind'')) then Some (S ''chart kind must be bar or line'')
        else or_else (optional_text block ''label'' 80)
          (check_items block ''points'' 2 60 ''chart points must be a list of 2 to 60 points'' chart_point_error))"

definition code_error :: "(str \<times> json) list \<Rightarrow> str option" where
  "code_error block =
     or_else (block_fields block [''text''] [''language''])
       (or_else (optional_text block ''language'' 20) (block_text block ''text'' 8000))"

definition button_error :: "(str \<times> json) list \<Rightarrow> str option" where
  "button_error block =
     or_else (block_fields block [''control_id'', ''label''] [''tone''])
       (if \<not> one_of [''primary'', ''neutral'', ''danger''] (get_or block ''tone'' ''primary'')
        then Some (S ''button tone must be primary, neutral, or danger'')
        else validate_control_identity block)"

definition toggle_error :: "(str \<times> json) list \<Rightarrow> str option" where
  "toggle_error block =
     or_else (block_fields block [''control_id'', ''label'', ''value''] [])
       (case jget block (S ''value'') of
          JBool _ \<Rightarrow> validate_control_identity block
        | _ \<Rightarrow> Some (S ''toggle value must be true or false''))"

definition short_text :: "nat \<Rightarrow> json \<Rightarrow> bool" where
  "short_text hi v = (case v of JStr s \<Rightarrow> length s \<le> hi | _ \<Rightarrow> False)"

definition field_error :: "(str \<times> json) list \<Rightarrow> str option" where
  "field_error block =
     or_else (block_fields block [''control_id'', ''label'', ''value''] [''placeholder''])
       (or_else (validate_control_identity block)
          (if \<not> short_text FIELD_VALUE_LIMIT (jget block (S ''value''))
           then Some (S ''field value must be a string of at most 1000 characters'')
           else if has_key block (S ''placeholder'') \<and> \<not> short_text FIELD_PLACEHOLDER_LIMIT (jget block (S ''placeholder''))
           then Some (S ''field placeholder must be a string of at most 200 characters'')
           else None))"

definition divider_error :: "(str \<times> json) list \<Rightarrow> str option" where
  "divider_error block = block_fields block [] []"

definition block_checks :: "(string \<times> ((str \<times> json) list \<Rightarrow> str option)) list" where
  "block_checks =
     [(''heading'', heading_error), (''text'', text_error), (''callout'', callout_error),
      (''metrics'', metrics_error), (''cards'', cards_error), (''details'', details_error),
      (''list'', list_error), (''table'', table_error), (''checklist'', checklist_error),
      (''progress'', progress_error), (''timeline'', timeline_error), (''kanban'', kanban_error),
      (''chart'', chart_error), (''code'', code_error), (''button'', button_error),
      (''toggle'', toggle_error), (''field'', field_error), (''divider'', divider_error)]"

definition VIEW_BLOCK_TYPES :: "string list" where
  "VIEW_BLOCK_TYPES =
     [''heading'', ''text'', ''callout'', ''metrics'', ''cards'', ''details'', ''list'', ''table'', ''checklist'',
      ''progress'', ''timeline'', ''kanban'', ''chart'', ''code'', ''button'', ''toggle'', ''field'', ''divider'']"

definition INTERACTIVE_VIEW_BLOCK_TYPES :: "str list" where
  "INTERACTIVE_VIEW_BLOCK_TYPES = map S [''button'', ''toggle'', ''field'']"

definition validate_block :: "(json \<Rightarrow> str) \<Rightarrow> json \<Rightarrow> str option" where
  "validate_block R v =
     (case v of
        JObj block \<Rightarrow>
          (let kind = jget block (S ''type'')
           in case find_first (\<lambda>(name, check). kind = JStr (S name)) block_checks of
                Some (name, check) \<Rightarrow> check block
              | None \<Rightarrow> Some (S ''unknown block type '' @ R kind @ S ''; allowed types: ''
                  @ join (S '', '') (map S VIEW_BLOCK_TYPES)))
      | _ \<Rightarrow> Some (S ''block must be an object''))"

subsection \<open>A view\<close>

definition is_control :: "json \<Rightarrow> bool" where
  "is_control v = (case v of
     JObj block \<Rightarrow> (case jget block (S ''type'') of JStr s \<Rightarrow> s \<in> set INTERACTIVE_VIEW_BLOCK_TYPES | _ \<Rightarrow> False)
   | _ \<Rightarrow> False)"

definition control_id :: "json \<Rightarrow> str" where
  "control_id v = (case v of
     JObj block \<Rightarrow> (case jget block (S ''control_id'') of JStr s \<Rightarrow> s | _ \<Rightarrow> []) | _ \<Rightarrow> [])"

definition view_block_label :: "nat \<Rightarrow> str" where
  "view_block_label index = S ''view block '' @ str_of_int (int (index + 1)) @ S '': ''"

fun validate_blocks :: "(json \<Rightarrow> str) \<Rightarrow> nat \<Rightarrow> str list \<Rightarrow> json list \<Rightarrow> str option" where
  "validate_blocks R index seen [] = None"
| "validate_blocks R index seen (block # blocks) =
     (case validate_block R block of
        Some e \<Rightarrow> Some (view_block_label index @ e)
      | None \<Rightarrow>
          if \<not> is_control block then validate_blocks R (Suc index) seen blocks
          else if control_id block \<in> set seen
          then Some (view_block_label index @ S ''duplicate control_id '' @ R (JStr (control_id block)))
          else validate_blocks R (Suc index) (control_id block # seen) blocks)"

definition validate_view :: "(rat option \<Rightarrow> str) \<Rightarrow> (json \<Rightarrow> str) \<Rightarrow> json \<Rightarrow> str option" where
  "validate_view F R view =
     (case view of
        JList blocks \<Rightarrow>
          if blocks = [] then Some (S ''view must be a non-empty list of blocks'')
          else if MAX_VIEW_BLOCKS < length blocks then Some (S ''view must have at most 64 blocks'')
          else (case validate_blocks R 0 [] blocks of
                  Some e \<Rightarrow> Some e
                | None \<Rightarrow>
                    if VIEW_LIMIT < length (json_text F (sorted_keys view))
                    then Some (S ''view must be at most 16000 characters when serialized'') else None)
      | _ \<Rightarrow> Some (S ''view must be a non-empty list of blocks''))"

subsection \<open>The shapes of the blocks\<close>

text \<open>
  What the validator is meant to enforce, as data: the shape of each kind of block. A record
  lists its fields, whether they are required and their shapes; no other field is allowed.
\<close>

datatype shape =
    Anything
  | Text_of nat nat                  \<comment> \<open>a text between two lengths\<close>
  | Names string "string list"       \<comment> \<open>one of some words, at least one\<close>
  | Level
  | Flag
  | Number
  | Percent
  | Slug
  | Items_of nat nat shape
  | Record_of "(string \<times> bool \<times> shape) list"

fun fits :: "shape \<Rightarrow> json \<Rightarrow> bool" where
  "fits Anything v = True"
| "fits (Text_of lo hi) v = (case v of JStr s \<Rightarrow> lo \<le> length s \<and> length s \<le> hi | _ \<Rightarrow> False)"
| "fits (Names n ns) v = one_of (n # ns) v"
| "fits Level v = list_ex (\<lambda>n. json_eq v (JInt n)) [1, 2, 3]"
| "fits Flag v = (case v of JBool b \<Rightarrow> True | _ \<Rightarrow> False)"
| "fits Number v = is_finite_number v"
| "fits Percent v = (is_finite_number v \<and> within_percent v)"
| "fits Slug v = is_slug v"
| "fits (Items_of lo hi sh) v =
     (case v of JList xs \<Rightarrow> lo \<le> length xs \<and> length xs \<le> hi \<and> list_all (fits sh) xs | _ \<Rightarrow> False)"
| "fits (Record_of fs) v =
     (case v of
        JObj kvs \<Rightarrow> list_all (\<lambda>(k, _). k \<in> set (map (S \<circ> fst) fs)) kvs
          \<and> list_all (\<lambda>(n, required, sh). case map_of kvs (S n) of None \<Rightarrow> \<not> required | Some w \<Rightarrow> fits sh w) fs
      | _ \<Rightarrow> False)"

abbreviation needs :: "string \<Rightarrow> shape \<Rightarrow> string \<times> bool \<times> shape" where "needs n sh \<equiv> (n, True, sh)"
abbreviation may :: "string \<Rightarrow> shape \<Rightarrow> string \<times> bool \<times> shape" where "may n sh \<equiv> (n, False, sh)"

abbreviation block_of :: "(string \<times> bool \<times> shape) list \<Rightarrow> shape" where
  "block_of fs \<equiv> Record_of (fs @ [may ''type'' Anything])"

abbreviation control_of :: "(string \<times> bool \<times> shape) list \<Rightarrow> shape" where
  "control_of fs \<equiv> block_of ([needs ''control_id'' Slug, needs ''label'' (Text_of 1 120)] @ fs)"

definition heading_shape :: shape where
  "heading_shape = block_of [needs ''text'' (Text_of 1 200), may ''level'' Level]"

definition text_shape :: shape where
  "text_shape = block_of [needs ''text'' (Text_of 1 4000)]"

definition callout_shape :: shape where
  "callout_shape = block_of [needs ''text'' (Text_of 1 2000), may ''title'' (Text_of 1 120),
     may ''tone'' (Names ''info'' [''success'', ''warning'', ''danger''])]"

definition metrics_item_shape :: shape where
  "metrics_item_shape = Record_of [needs ''label'' (Text_of 1 80), needs ''value'' (Text_of 1 40),
     may ''delta'' (Text_of 1 40)]"

definition metrics_shape :: shape where
  "metrics_shape = block_of [needs ''items'' (Items_of 1 8 metrics_item_shape)]"

definition cards_item_shape :: shape where
  "cards_item_shape = Record_of [needs ''title'' (Text_of 1 120), may ''text'' (Text_of 1 1000),
     may ''badge'' (Text_of 1 40),
     may ''tone'' (Names ''neutral'' [''info'', ''success'', ''warning'', ''danger''])]"

definition cards_shape :: shape where
  "cards_shape = block_of [needs ''items'' (Items_of 1 12 cards_item_shape)]"

definition details_item_shape :: shape where
  "details_item_shape = Record_of [needs ''label'' (Text_of 1 80), needs ''value'' (Text_of 1 500)]"

definition details_shape :: shape where
  "details_shape = block_of [needs ''items'' (Items_of 1 30 details_item_shape)]"

definition list_shape :: shape where
  "list_shape = block_of [needs ''items'' (Items_of 1 50 (Text_of 1 500)),
     may ''style'' (Names ''bullet'' [''number''])]"

definition table_shape :: shape where
  "table_shape = block_of [needs ''columns'' (Items_of 1 8 (Text_of 0 80)),
     needs ''rows'' (Items_of 0 50 (Items_of 0 8 (Text_of 0 200)))]"

definition checklist_item_shape :: shape where
  "checklist_item_shape = Record_of [needs ''text'' (Text_of 1 200), needs ''done'' Flag]"

definition checklist_shape :: shape where
  "checklist_shape = block_of [needs ''items'' (Items_of 1 50 checklist_item_shape)]"

definition progress_shape :: shape where
  "progress_shape = block_of [needs ''value'' Percent, may ''label'' (Text_of 1 80)]"

definition timeline_item_shape :: shape where
  "timeline_item_shape = Record_of [needs ''title'' (Text_of 1 120),
     needs ''status'' (Names ''done'' [''current'', ''upcoming'']), may ''text'' (Text_of 1 500),
     may ''time'' (Text_of 1 80)]"

definition timeline_shape :: shape where
  "timeline_shape = block_of [needs ''items'' (Items_of 1 30 timeline_item_shape)]"

definition kanban_item_shape :: shape where
  "kanban_item_shape = Record_of [needs ''title'' (Text_of 1 80), needs ''items'' (Items_of 0 20 (Text_of 1 200))]"

definition kanban_shape :: shape where
  "kanban_shape = block_of [needs ''columns'' (Items_of 1 6 kanban_item_shape)]"

definition chart_item_shape :: shape where
  "chart_item_shape = Record_of [needs ''label'' (Text_of 1 40), needs ''value'' Number]"

definition chart_shape :: shape where
  "chart_shape = block_of [needs ''kind'' (Names ''bar'' [''line'']),
     needs ''points'' (Items_of 2 60 chart_item_shape), may ''label'' (Text_of 1 80)]"

definition code_shape :: shape where
  "code_shape = block_of [needs ''text'' (Text_of 1 8000), may ''language'' (Text_of 1 20)]"

definition button_shape :: shape where
  "button_shape = control_of [may ''tone'' (Names ''primary'' [''neutral'', ''danger''])]"

definition toggle_shape :: shape where
  "toggle_shape = control_of [needs ''value'' Flag]"

definition field_shape :: shape where
  "field_shape = control_of [needs ''value'' (Text_of 0 1000), may ''placeholder'' (Text_of 0 200)]"

definition divider_shape :: shape where
  "divider_shape = block_of []"

definition block_shapes :: "(string \<times> shape) list" where
  "block_shapes =
     [(''heading'', heading_shape), (''text'', text_shape), (''callout'', callout_shape),
      (''metrics'', metrics_shape), (''cards'', cards_shape), (''details'', details_shape),
      (''list'', list_shape), (''table'', table_shape), (''checklist'', checklist_shape),
      (''progress'', progress_shape), (''timeline'', timeline_shape), (''kanban'', kanban_shape),
      (''chart'', chart_shape), (''code'', code_shape), (''button'', button_shape),
      (''toggle'', toggle_shape), (''field'', field_shape), (''divider'', divider_shape)]"

text \<open>A table has as many cells in every row as it has columns; no shape says so.\<close>

definition rows_match :: "(str \<times> json) list \<Rightarrow> bool" where
  "rows_match block = (case (jget block (S ''columns''), jget block (S ''rows'')) of
     (JList columns, JList rows) \<Rightarrow> list_all (\<lambda>row. case row of JList cells \<Rightarrow> length cells = length columns | _ \<Rightarrow> False) rows
   | _ \<Rightarrow> False)"

definition well_shaped :: "json \<Rightarrow> bool" where
  "well_shaped v = (case v of
     JObj block \<Rightarrow> list_ex (\<lambda>(name, sh). jget block (S ''type'') = JStr (S name) \<and> fits sh v
       \<and> (name = ''table'' \<longrightarrow> rows_match block)) block_shapes
   | _ \<Rightarrow> False)"

definition well_formed_view :: "(rat option \<Rightarrow> str) \<Rightarrow> json \<Rightarrow> bool" where
  "well_formed_view F view = (case view of
     JList blocks \<Rightarrow> blocks \<noteq> [] \<and> length blocks \<le> 64 \<and> list_all well_shaped blocks
       \<and> distinct (map control_id (filter is_control blocks))
       \<and> length (json_text F (sorted_keys view)) \<le> 16000
   | _ \<Rightarrow> False)"

subsection \<open>The validator enforces the shapes\<close>

lemma sorted_empty [simp]: "sort xs = [] \<longleftrightarrow> xs = []"
  by (metis length_0_conv length_sort)

lemma list_case_None [simp]: "(case xs of [] \<Rightarrow> None | x # _ \<Rightarrow> Some (f x)) = None \<longleftrightarrow> xs = []"
  by (cases xs) auto

lemma missing_none [simp]: "missing_keys ks b = [] \<longleftrightarrow> list_all (has_key b) ks"
  by (auto simp: missing_keys_def list_all_iff filter_empty_conv)

lemma extra_none [simp]: "extra_keys_of ks b = [] \<longleftrightarrow> list_all (\<lambda>(k, _). k \<in> set ks) b"
  by (force simp: extra_keys_of_def list_all_iff filter_empty_conv)

lemma block_fields_none:
  "block_fields b required optional = None \<longleftrightarrow>
     list_all (has_key b) (map S required) \<and> list_all (\<lambda>(k, _). k \<in> set (map S (required @ optional @ [''type'']))) b"
proof -
  have "block_fields b required optional = None \<longleftrightarrow> missing_keys (map S required) b = []
      \<and> extra_keys_of (map S (required @ optional @ [''type''])) b = []"
    unfolding block_fields_def by (simp split: list.splits del: missing_none extra_none)
  then show ?thesis by (simp only: missing_none extra_none)
qed

lemma needed: "(case map_of b k of None \<Rightarrow> \<not> True | Some v \<Rightarrow> P v) \<longleftrightarrow> has_key b k \<and> P (jget b k)"
  by (simp add: has_key_def jget_def split: option.splits)

lemma optional_field:
  "(case map_of b k of None \<Rightarrow> \<not> False | Some v \<Rightarrow> P v) \<longleftrightarrow> (has_key b k \<longrightarrow> P (jget b k))"
  by (simp add: has_key_def jget_def split: option.splits)

lemma absent: "\<not> has_key b k \<Longrightarrow> jget b k = JNull"
  by (simp add: has_key_def jget_def)

lemma present: "jget b k = v \<Longrightarrow> v \<noteq> JNull \<Longrightarrow> has_key b k"
  using absent by metis

lemma block_text_none: "block_text b k hi = None \<longleftrightarrow> has_key b (S k) \<and> fits (Text_of 1 hi) (jget b (S k))"
  by (cases "has_key b (S k)") (auto simp: block_text_def absent Suc_le_eq split: json.splits)

lemma optional_text_none:
  "optional_text b k hi = None \<longleftrightarrow> (has_key b (S k) \<longrightarrow> fits (Text_of 1 hi) (jget b (S k)))"
  by (simp add: optional_text_def block_text_none del: fits.simps)

lemma get_or_names:
  "one_of ns (get_or b k n) \<longleftrightarrow> (if has_key b (S k) then one_of ns (jget b (S k)) else n \<in> set ns)"
  by (auto simp: get_or_def jget_def has_key_def one_of_def list_ex_iff split: option.splits)

lemma texts_within_iff: "texts_within lo hi xs \<longleftrightarrow> list_all (fits (Text_of lo hi)) xs"
  by (simp add: texts_within_def list_all_iff)

lemma sized_list_Some:
  "sized_list b k lo hi = Some xs \<longleftrightarrow> jget b (S k) = JList xs \<and> lo \<le> length xs \<and> length xs \<le> hi"
  by (auto simp: sized_list_def split: json.splits if_splits)

lemma sized_list_None:
  "sized_list b k lo hi = None \<longleftrightarrow> (\<forall>xs. jget b (S k) = JList xs \<longrightarrow> \<not> (lo \<le> length xs \<and> length xs \<le> hi))"
  by (auto simp: sized_list_def split: json.splits if_splits)

lemma check_items_none:
  assumes "\<And>item. item_error item = None \<longleftrightarrow> fits sh item"
  shows "check_items b k lo hi refusal item_error = None
    \<longleftrightarrow> has_key b (S k) \<and> fits (Items_of lo hi sh) (jget b (S k))"
  using assms
  by (auto simp: check_items_def sized_list_Some sized_list_None list_all_iff split: option.splits json.splits
      intro: present)

lemma control_none:
  "validate_control_identity b = None \<longleftrightarrow> has_key b (S ''control_id'') \<and> is_slug (jget b (S ''control_id''))
     \<and> has_key b (S ''label'') \<and> fits (Text_of 1 120) (jget b (S ''label''))"
  by (auto simp: validate_control_identity_def block_text_none is_slug_def CONTROL_LABEL_LIMIT_def
        simp del: fits.simps split: json.splits intro: present)

lemma flag_fits: "(case v of JBool _ \<Rightarrow> x | _ \<Rightarrow> Some e) = None \<longleftrightarrow> fits Flag v \<and> x = None"
  by (cases v) auto

lemma short_text_fits: "short_text hi v \<longleftrightarrow> fits (Text_of 0 hi) v"
  by (cases v) (simp_all add: short_text_def)

lemma names_fits: "one_of (n # ns) v \<longleftrightarrow> fits (Names n ns) v"
  by simp

text \<open>A record is checked field by field.\<close>

lemma field_needed: "(case map_of b k of None \<Rightarrow> False | Some v \<Rightarrow> P v) \<longleftrightarrow> has_key b k \<and> P (jget b k)"
  by (simp add: has_key_def jget_def split: option.splits)

lemma field_optional: "(case map_of b k of None \<Rightarrow> True | Some v \<Rightarrow> P v) \<longleftrightarrow> (has_key b k \<longrightarrow> P (jget b k))"
  by (simp add: has_key_def jget_def split: option.splits)

lemma fits_record:
  "fits (Record_of fs) (JObj b) \<longleftrightarrow> list_all (\<lambda>(k, _). k \<in> set (map (S \<circ> fst) fs)) b
     \<and> list_all (\<lambda>(n, required, sh). (required \<longrightarrow> has_key b (S n)) \<and> (has_key b (S n) \<longrightarrow> fits sh (jget b (S n)))) fs"
  by (auto simp: has_key_def jget_def list_all_iff split: option.splits)

lemma fits_record_obj: "fits (Record_of fs) v \<Longrightarrow> \<exists>b. v = JObj b"
  by (cases v) auto

lemma fits_words:
  "fits (Names n ns) v \<longleftrightarrow> one_of (n # ns) v"
  "fits Level v \<longleftrightarrow> list_ex (\<lambda>n. json_eq v (JInt n)) [1, 2, 3]"
  "fits Number v \<longleftrightarrow> is_finite_number v"
  "fits Percent v \<longleftrightarrow> is_finite_number v \<and> within_percent v"
  "fits Slug v \<longleftrightarrow> is_slug v"
  by simp_all

lemma sized_texts:
  "(case sized_list b k lo hi of None \<Rightarrow> Some e
    | Some items \<Rightarrow> if \<not> texts_within lo' hi' items then Some e' else None) = None
   \<longleftrightarrow> has_key b (S k) \<and> fits (Items_of lo hi (Text_of lo' hi')) (jget b (S k))"
  by (auto simp: sized_list_Some sized_list_None texts_within_iff split: option.splits json.splits intro: present)

lemma refused_None: "(if c then Some e else x) = None \<longleftrightarrow> \<not> c \<and> x = None"
  by simp

declare fits.simps [simp del]

lemma fits_other [simp]:
  "fits Anything v" "\<not> fits (Record_of fs) JNull" "\<not> fits (Record_of fs) (JBool b)" "\<not> fits (Record_of fs) (JInt i)"
  "\<not> fits (Record_of fs) (JFloat r)" "\<not> fits (Record_of fs) (JStr s)" "\<not> fits (Record_of fs) (JList xs)"
  by (simp_all add: fits.simps)

lemmas error_parts = block_fields_none block_text_none optional_text_none get_or_names control_none
  short_text_fits flag_fits has_exactly_def sized_texts refused_None or_else_None_iff

lemma metrics_items: "metrics_item_error v = None \<longleftrightarrow> fits metrics_item_shape v"
  unfolding metrics_item_shape_def metrics_item_error_def
  by (cases v) (auto simp: fits_record error_parts fits_words)

lemma cards_items: "cards_item_error v = None \<longleftrightarrow> fits cards_item_shape v"
  unfolding cards_item_shape_def cards_item_error_def
  by (cases v) (auto simp: fits_record error_parts fits_words)

lemma details_items: "details_item_error v = None \<longleftrightarrow> fits details_item_shape v"
  unfolding details_item_shape_def details_item_error_def
  by (cases v) (auto simp: fits_record error_parts fits_words)

lemma checklist_items: "checklist_item_error v = None \<longleftrightarrow> fits checklist_item_shape v"
  unfolding checklist_item_shape_def checklist_item_error_def
  by (cases v) (auto simp: fits_record error_parts fits_words)

lemma timeline_items: "timeline_item_error v = None \<longleftrightarrow> fits timeline_item_shape v"
  unfolding timeline_item_shape_def timeline_item_error_def
  by (cases v) (auto simp: fits_record error_parts fits_words)

lemma kanban_items: "kanban_column_error v = None \<longleftrightarrow> fits kanban_item_shape v"
  unfolding kanban_item_shape_def kanban_column_error_def
  by (cases v) (auto simp: fits_record error_parts fits_words)

lemma chart_items: "chart_point_error v = None \<longleftrightarrow> fits chart_item_shape v"
  unfolding chart_item_shape_def chart_point_error_def
  by (cases v) (auto simp: fits_record error_parts fits_words)

lemma heading_fits: "heading_error b = None \<longleftrightarrow> fits heading_shape (JObj b)"
  unfolding heading_shape_def heading_error_def error_parts
  by (auto simp: fits_record fits_words)

lemma text_fits: "text_error b = None \<longleftrightarrow> fits text_shape (JObj b)"
  unfolding text_shape_def text_error_def error_parts
  by (auto simp: fits_record fits_words)

lemma callout_fits: "callout_error b = None \<longleftrightarrow> fits callout_shape (JObj b)"
  unfolding callout_shape_def callout_error_def error_parts
  by (auto simp: fits_record fits_words)

lemma metrics_fits: "metrics_error b = None \<longleftrightarrow> fits metrics_shape (JObj b)"
  unfolding metrics_shape_def metrics_error_def error_parts check_items_none [OF metrics_items]
  by (auto simp: fits_record fits_words)

lemma cards_fits: "cards_error b = None \<longleftrightarrow> fits cards_shape (JObj b)"
  unfolding cards_shape_def cards_error_def error_parts check_items_none [OF cards_items]
  by (auto simp: fits_record fits_words)

lemma details_fits: "details_error b = None \<longleftrightarrow> fits details_shape (JObj b)"
  unfolding details_shape_def details_error_def error_parts check_items_none [OF details_items]
  by (auto simp: fits_record fits_words)

lemma list_fits: "list_error b = None \<longleftrightarrow> fits list_shape (JObj b)"
  unfolding list_shape_def list_error_def error_parts
  by (auto simp: fits_record fits_words)

lemma checklist_fits: "checklist_error b = None \<longleftrightarrow> fits checklist_shape (JObj b)"
  unfolding checklist_shape_def checklist_error_def error_parts check_items_none [OF checklist_items]
  by (auto simp: fits_record fits_words)

lemma progress_fits: "progress_error b = None \<longleftrightarrow> fits progress_shape (JObj b)"
  unfolding progress_shape_def progress_error_def error_parts
  by (auto simp: fits_record fits_words)

lemma timeline_fits: "timeline_error b = None \<longleftrightarrow> fits timeline_shape (JObj b)"
  unfolding timeline_shape_def timeline_error_def error_parts check_items_none [OF timeline_items]
  by (auto simp: fits_record fits_words)

lemma kanban_fits: "kanban_error b = None \<longleftrightarrow> fits kanban_shape (JObj b)"
  unfolding kanban_shape_def kanban_error_def error_parts check_items_none [OF kanban_items]
  by (auto simp: fits_record fits_words)

lemma chart_fits: "chart_error b = None \<longleftrightarrow> fits chart_shape (JObj b)"
  unfolding chart_shape_def chart_error_def error_parts check_items_none [OF chart_items]
  by (auto simp: fits_record fits_words)

lemma code_fits: "code_error b = None \<longleftrightarrow> fits code_shape (JObj b)"
  unfolding code_shape_def code_error_def error_parts
  by (auto simp: fits_record fits_words)

lemma button_fits: "button_error b = None \<longleftrightarrow> fits button_shape (JObj b)"
  unfolding button_shape_def button_error_def error_parts
  by (auto simp: fits_record fits_words)

lemma toggle_fits: "toggle_error b = None \<longleftrightarrow> fits toggle_shape (JObj b)"
  unfolding toggle_shape_def toggle_error_def error_parts
  by (auto simp: fits_record fits_words)

lemma field_fits: "field_error b = None \<longleftrightarrow> fits field_shape (JObj b)"
  unfolding field_shape_def field_error_def error_parts FIELD_VALUE_LIMIT_def FIELD_PLACEHOLDER_LIMIT_def
  by (auto simp: fits_record fits_words)

lemma divider_fits: "divider_error b = None \<longleftrightarrow> fits divider_shape (JObj b)"
  unfolding divider_shape_def divider_error_def error_parts
  by (auto simp: fits_record fits_words)

lemma table_row_fits:
  "table_row_error n row = None \<longleftrightarrow> (\<exists>cells. row = JList cells \<and> length cells = n \<and> list_all (fits (Text_of 0 200)) cells)"
  by (auto simp: table_row_error_def texts_within_iff split: json.splits if_splits)

lemma table_fits: "table_error b = None \<longleftrightarrow> fits table_shape (JObj b) \<and> rows_match b"
proof -
  have rows: "check_items b ''rows'' 0 50 e (table_row_error n) = None \<longleftrightarrow>
      (\<exists>rows. jget b (S ''rows'') = JList rows \<and> length rows \<le> 50
         \<and> list_all (\<lambda>row. \<exists>cells. row = JList cells \<and> length cells = n \<and> list_all (fits (Text_of 0 200)) cells) rows)" for e n
    by (auto simp: check_items_def sized_list_Some sized_list_None table_row_fits list_all_iff split: option.splits)
  have "table_error b = None \<longleftrightarrow> list_all (\<lambda>(k, _). k \<in> {S ''columns'', S ''rows'', S ''type''}) b
      \<and> (\<exists>columns. jget b (S ''columns'') = JList columns \<and> 1 \<le> length columns \<and> length columns \<le> 8
         \<and> list_all (fits (Text_of 0 80)) columns
         \<and> (\<exists>rows. jget b (S ''rows'') = JList rows \<and> length rows \<le> 50
            \<and> list_all (\<lambda>row. \<exists>cells. row = JList cells \<and> length cells = length columns
                \<and> list_all (fits (Text_of 0 200)) cells) rows))"
    unfolding table_error_def or_else_None_iff block_fields_none
    by (auto simp: sized_list_Some sized_list_None refused_None rows texts_within_iff split: option.splits intro: present)
  also have "\<dots> \<longleftrightarrow> fits table_shape (JObj b) \<and> rows_match b"
    unfolding table_shape_def fits_record rows_match_def
    by (auto simp: fits.simps list_all_iff split: json.splits intro: present)
  finally show ?thesis .
qed

text \<open>The checks and the shapes are listed in the same order.\<close>

lemma checks_match_shapes:
  "list_all2 (\<lambda>(n, check) (n', sh). n = n' \<and> (\<forall>b. check b = None \<longleftrightarrow> fits sh (JObj b) \<and> (n = ''table'' \<longrightarrow> rows_match b)))
     block_checks block_shapes"
  unfolding block_checks_def block_shapes_def
  by (simp add: heading_fits text_fits callout_fits metrics_fits cards_fits details_fits list_fits table_fits
      checklist_fits progress_fits timeline_fits kanban_fits chart_fits code_fits button_fits toggle_fits
      field_fits divider_fits)

lemma first_check:
  assumes "list_all2 (\<lambda>(n, check) (n', sh). n = n' \<and> (\<forall>b. check b = None \<longleftrightarrow> fits sh (JObj b) \<and> (n = ''table'' \<longrightarrow> rows_match b)))
     checks shapes" "distinct (map fst shapes)"
  shows "(case find_first (\<lambda>(name, check). kind = JStr (S name)) checks of Some (name, check) \<Rightarrow> check b | None \<Rightarrow> Some e) = None
    \<longleftrightarrow> list_ex (\<lambda>(name, sh). kind = JStr (S name) \<and> fits sh (JObj b) \<and> (name = ''table'' \<longrightarrow> rows_match b)) shapes"
  using assms
proof (induction rule: list_all2_induct)
  case (Cons x xs y ys)
  obtain n check sh where x: "x = (n, check)" and y: "y = (n, sh)"
    and same: "check b = None \<longleftrightarrow> fits sh (JObj b) \<and> (n = ''table'' \<longrightarrow> rows_match b)"
    using Cons.hyps(1) by (cases x; cases y) auto
  show ?case
  proof (cases "kind = JStr (S n)")
    case True
    with Cons.prems have "\<not> list_ex (\<lambda>(name, sh). kind = JStr (S name) \<and> fits sh (JObj b) \<and> (name = ''table'' \<longrightarrow> rows_match b)) ys"
      by (force simp: y list_ex_iff)
    with True same show ?thesis by (simp add: x y)
  next
    case False
    with Cons show ?thesis by (simp add: x y)
  qed
qed simp

lemma validate_block_none: "validate_block R v = None \<longleftrightarrow> well_shaped v"
proof (cases v)
  case (JObj b)
  have "distinct (map fst block_shapes)" by (simp add: block_shapes_def)
  from first_check [OF checks_match_shapes this, where kind = "jget b (S ''type'')" and b = b] show ?thesis
    by (simp add: JObj validate_block_def well_shaped_def Let_def)
qed (simp_all add: validate_block_def well_shaped_def)

lemma validate_blocks_none:
  "validate_blocks R index seen blocks = None \<longleftrightarrow> list_all well_shaped blocks
     \<and> distinct (map control_id (filter is_control blocks))
     \<and> set (map control_id (filter is_control blocks)) \<inter> set seen = {}"
proof -
  have "validate_blocks R index seen blocks = None \<longleftrightarrow> list_all (\<lambda>b. validate_block R b = None) blocks
     \<and> distinct (map control_id (filter is_control blocks))
     \<and> set (map control_id (filter is_control blocks)) \<inter> set seen = {}"
    by (induction blocks arbitrary: index seen) (auto split: option.splits)
  then show ?thesis by (simp add: validate_block_none)
qed

lemma validate_view_none: "validate_view F R view = None \<longleftrightarrow> well_formed_view F view"
proof (cases "\<exists>blocks. view = JList blocks")
  case True
  then obtain blocks where view: "view = JList blocks" by blast
  show ?thesis
    unfolding view validate_view_def well_formed_view_def json.case refused_None MAX_VIEW_BLOCKS_def VIEW_LIMIT_def not_less
    using validate_blocks_none [of R 0 "[]" blocks]
    by (cases "validate_blocks R 0 [] blocks") (auto simp del: sorted_keys.simps)
qed (cases view; simp add: validate_view_def well_formed_view_def)


end
