(* ===== verification/UtcTime.thy ===== *)
theory UtcTime
  imports Complex_Main Regex
begin

text \<open>
  The times of the workspace engine (\<open>apps/workspace_kit/engine.py\<close>): UTC timestamps
  as texts, and the cadence of schedules. An epoch time is a whole number of seconds. The code
  reads the clock as a float, but it only compares it with whole seconds, divides its distance
  to a whole second by a whole period and rounds down, and prints it; none of these depends on
  the fraction of a second.

  \<open>time.strptime\<close>, \<open>time.gmtime\<close>, \<open>time.strftime\<close> and \<open>calendar.timegm\<close> are modelled for the
  one format of the code, with the regular expression \<open>strptime\<close> compiles that format to.
\<close>

subsection \<open>The calendar\<close>

definition is_leap :: "int \<Rightarrow> bool" where
  "is_leap y \<longleftrightarrow> y mod 4 = 0 \<and> (y mod 100 \<noteq> 0 \<or> y mod 400 = 0)"

definition month_days :: "int \<Rightarrow> int \<Rightarrow> int" where
  "month_days y m =
     (if m = 2 then (if is_leap y then 29 else 28) else if m \<in> {4, 6, 9, 11} then 30 else 31)"

definition year_days :: "int \<Rightarrow> int" where
  "year_days y = (if is_leap y then 366 else 365)"

text \<open>\<open>date.toordinal\<close>, and the ordinal of 1970-01-01.\<close>

definition days_before_year :: "int \<Rightarrow> int" where
  "days_before_year y = (y - 1) * 365 + (y - 1) div 4 - (y - 1) div 100 + (y - 1) div 400"

definition days_before_month :: "int \<Rightarrow> int \<Rightarrow> int" where
  "days_before_month y m = sum_list (map (month_days y) [1..m - 1])"

definition toordinal :: "int \<Rightarrow> int \<Rightarrow> int \<Rightarrow> int" where
  "toordinal y m d = days_before_year y + days_before_month y m + d"

definition EPOCH_ORD :: int where "EPOCH_ORD = 719163"

definition timegm :: "int \<times> int \<times> int \<times> int \<times> int \<times> int \<Rightarrow> int" where
  "timegm t = (case t of (y, m, d, hh, mm, ss) \<Rightarrow>
     (((toordinal y m 1 - EPOCH_ORD + d - 1) * 24 + hh) * 60 + mm) * 60 + ss)"

text \<open>The year and month a day falls in, counted from a given one.\<close>

function year_of :: "int \<Rightarrow> int \<Rightarrow> int \<times> int" where
  "year_of y d =
     (if d < 0 then year_of (y - 1) (d + year_days (y - 1))
      else if d < year_days y then (y, d) else year_of (y + 1) (d - year_days y))"
  by pat_completeness auto
termination
  by (relation "measure (\<lambda>(y, d). if d < 0 then nat (- d) + 400 else nat d)")
     (auto simp: year_days_def split: if_splits)

declare year_of.simps [simp del]

function month_of :: "int \<Rightarrow> int \<Rightarrow> int \<Rightarrow> int \<times> int" where
  "month_of y m d =
     (if 12 \<le> m \<or> d < month_days y m then (m, d) else month_of y (m + 1) (d - month_days y m))"
  by pat_completeness auto
termination by (relation "measure (\<lambda>(y, m, d). nat (12 - m))") auto

declare month_of.simps [simp del]

definition gmtime :: "int \<Rightarrow> int \<times> int \<times> int \<times> int \<times> int \<times> int" where
  "gmtime t =
     (case year_of 1970 (t div 86400) of (y, yd) \<Rightarrow>
        (case month_of y 1 yd of (m, d) \<Rightarrow>
           (y, m, d + 1, t mod 86400 div 3600, t mod 3600 div 60, t mod 60)))"

subsection \<open>Timestamps\<close>

definition pad2 :: "int \<Rightarrow> str" where
  "pad2 n = [48 + n div 10, 48 + n mod 10]"

definition format_utc :: "int \<Rightarrow> str" where
  "format_utc t = (case gmtime t of (y, m, d, hh, mm, ss) \<Rightarrow>
     str_of_int y @ S ''-'' @ pad2 m @ S ''-'' @ pad2 d @ S ''T'' @ pad2 hh @ S '':'' @ pad2 mm
       @ S '':'' @ pad2 ss @ S ''Z'')"

abbreviation digit_range :: "int \<Rightarrow> int \<Rightarrow> rx" where
  "digit_range a b \<equiv> Cls (Range (48 + a) (48 + b))"

definition year_rx :: rx where
  "year_rx = seqs [Cls Digit, Cls Digit, Cls Digit, Cls Digit]"

definition month_rx :: rx where
  "month_rx = alts (Seq (digit_range 1 1) (digit_range 0 2))
     [Seq (digit_range 0 0) (digit_range 1 9), digit_range 1 9]"

definition day_rx :: rx where
  "day_rx = alts (Seq (digit_range 3 3) (digit_range 0 1))
     [Seq (digit_range 1 2) (Cls Digit), Seq (digit_range 0 0) (digit_range 1 9), digit_range 1 9,
      Seq (Cls (Range 32 32)) (digit_range 1 9)]"

definition hour_rx :: rx where
  "hour_rx = alts (Seq (digit_range 2 2) (digit_range 0 3)) [Seq (digit_range 0 1) (Cls Digit), Cls Digit]"

definition minute_rx :: rx where
  "minute_rx = Alt (Seq (digit_range 0 5) (Cls Digit)) (Cls Digit)"

definition second_rx :: rx where
  "second_rx = alts (Seq (digit_range 6 6) (digit_range 0 1)) [Seq (digit_range 0 5) (Cls Digit), Cls Digit]"

definition UTC_RE :: rx where
  "UTC_RE = seqs [Group 1 year_rx, lit (S ''-''), Group 2 month_rx, lit (S ''-''), Group 3 day_rx,
     cilit (S ''T''), Group 4 hour_rx, lit (S '':''), Group 5 minute_rx, lit (S '':''),
     Group 6 second_rx, cilit (S ''Z'')]"

definition field :: "nat \<Rightarrow> (nat \<times> str) list \<Rightarrow> int" where
  "field n g = (case py_int (group_of n g) of Some i \<Rightarrow> i | None \<Rightarrow> 0)"

text \<open>
  \<open>strptime\<close> takes the first match and refuses it when text is left over; the date has to exist.
\<close>

definition strptime_utc :: "str \<Rightarrow> (int \<times> int \<times> int \<times> int \<times> int \<times> int) option" where
  "strptime_utc s =
     (case rx_match (\<lambda>_. False) UTC_RE s of
        None \<Rightarrow> None
      | Some (_, rest, g) \<Rightarrow>
          if rest \<noteq> [] \<or> field 1 g < 1 \<or> month_days (field 1 g) (field 2 g) < field 3 g then None
          else Some (field 1 g, field 2 g, field 3 g, field 4 g, field 5 g, field 6 g))"

definition parse_utc :: "str \<Rightarrow> int option" where
  "parse_utc s = map_option timegm (strptime_utc s)"

subsection \<open>The calendar is sound\<close>

lemma div_pred:
  fixes y k :: int
  assumes "0 < k"
  shows "y div k = (y - 1) div k + (if k dvd y then 1 else 0)"
proof (cases "k dvd y")
  case True
  then obtain q where y: "y = k * q" by (elim dvdE)
  have "k * q - 1 = (k - 1) + k * (q - 1)" by (simp add: algebra_simps)
  also have "\<dots> div k = (k - 1) div k + (q - 1)" using assms by (simp only: div_mult_self2)
  finally show ?thesis using assms by (simp add: y div_pos_pos_trivial)
next
  case False
  let ?q = "y div k" and ?r = "y mod k"
  have "0 < ?r" "?r < k" using False assms pos_mod_bound [of k y] pos_mod_sign [of k y]
    by (simp_all add: dvd_eq_mod_eq_0 order_less_le)
  moreover have "y - 1 = k * ?q + (?r - 1)" using div_mult_mod_eq [of y k] by (simp add: algebra_simps)
  ultimately have "(y - 1) div k = ?q" by (intro int_div_pos_eq [where r = "?r - 1"]) auto
  with False show ?thesis by simp
qed

lemma days_before_next_year: "days_before_year (y + 1) = days_before_year y + year_days y"
proof -
  have dvds: "(400::int) dvd y \<Longrightarrow> 100 dvd y" "(100::int) dvd y \<Longrightarrow> 4 dvd y"
    by (auto elim: dvd_trans [rotated])
  have leap: "is_leap y \<longleftrightarrow> 4 dvd y \<and> (\<not> 100 dvd y \<or> 400 dvd y)"
    by (simp add: is_leap_def dvd_eq_mod_eq_0)
  have "days_before_year (y + 1) = days_before_year y + 365
      + (if 4 dvd y then 1 else 0) - (if 100 dvd y then 1 else 0) + (if 400 dvd y then 1 else 0)"
    by (simp add: days_before_year_def div_pred [of 4 y] div_pred [of 100 y] div_pred [of 400 y])
  with dvds show ?thesis
    by (cases "4 dvd y"; cases "100 dvd y"; cases "400 dvd y") (simp_all add: year_days_def leap)
qed

lemma year_days_bounds: "365 \<le> year_days y" "year_days y \<le> 366"
  by (auto simp: year_days_def)

lemma days_before_year_mono: "y \<le> z \<Longrightarrow> days_before_year y \<le> days_before_year z"
proof (induction z rule: int_ge_induct)
  case (step z)
  with days_before_next_year [of z] year_days_bounds [of z] show ?case by linarith
qed simp

lemma year_of_sound:
  "year_of y d = (y', d') \<Longrightarrow>
     0 \<le> d' \<and> d' < year_days y' \<and> days_before_year y' + d' = days_before_year y + d"
proof (induction y d rule: year_of.induct)
  case (1 y d)
  have prev: "days_before_year y = days_before_year (y - 1) + year_days (y - 1)"
    using days_before_next_year [of "y - 1"] by simp
  consider "d < 0" | "0 \<le> d" "d < year_days y" | "year_days y \<le> d" "0 \<le> d"
    using year_days_bounds [of y] by linarith
  then show ?case
  proof cases
    case 1
    with "1.IH"(1) "1.prems" prev show ?thesis by (auto simp: year_of.simps [of y d])
  next
    case 2
    with "1.prems" show ?thesis by (auto simp: year_of.simps [of y d])
  next
    case 3
    with "1.IH"(2) "1.prems" days_before_next_year [of y] show ?thesis
      by (auto simp: year_of.simps [of y d])
  qed
qed

lemma days_before_next_month:
  "1 \<le> m \<Longrightarrow> days_before_month y (m + 1) = days_before_month y m + month_days y m"
  using upto_rec2 [of 1 m] by (simp add: days_before_month_def)

lemma days_before_december: "days_before_month y 12 = year_days y - 31"
  by (simp add: days_before_month_def upto.simps month_days_def year_days_def)

lemma month_of_sound:
  assumes "month_of y m d = (m', d')" "1 \<le> m" "m \<le> 12" "0 \<le> d" "days_before_month y m + d < year_days y"
  shows "1 \<le> m' \<and> m' \<le> 12 \<and> 0 \<le> d' \<and> d' < month_days y m' \<and> days_before_month y m' + d' = days_before_month y m + d"
  using assms
proof (induction y m d rule: month_of.induct)
  case (1 y m d)
  show ?case
  proof (cases "12 \<le> m \<or> d < month_days y m")
    case True
    with "1.prems" have eq: "m' = m" "d' = d" by (auto simp: month_of.simps [of y m d])
    have "d < month_days y m" if "m = 12"
      using "1.prems" days_before_december [of y] that by (simp add: month_days_def)
    with True eq "1.prems" show ?thesis by auto
  next
    case False
    with "1.prems" days_before_next_month [of m y] have
      "month_of y (m + 1) (d - month_days y m) = (m', d')"
      "days_before_month y (m + 1) + (d - month_days y m) < year_days y"
      by (auto simp: month_of.simps [of y m d])
    with "1.IH" [OF False] False "1.prems" days_before_next_month [of m y] show ?thesis by simp
  qed
qed

lemma split_seconds:
  fixes t :: int
  shows "t = ((t div 86400 * 24 + t mod 86400 div 3600) * 60 + t mod 3600 div 60) * 60 + t mod 60"
proof -
  have carry: "t = ((a * 24 + b) * 60 + c) * 60 + d"
    if "t = 86400 * a + r" "r = 3600 * b + u" "u = 60 * c + d" for a b c d r u :: int
    using that by simp
  have "t mod 86400 mod 3600 = t mod 3600" "t mod 3600 mod 60 = t mod 60"
    by (rule mod_mod_cancel, simp)+
  then show ?thesis by (intro carry [of _ "t mod 86400" _ "t mod 3600"]) (metis mult_div_mod_eq)+
qed

lemma gmtime_sound:
  assumes "gmtime t = (y, m, d, hh, mm, ss)"
  shows "timegm (y, m, d, hh, mm, ss) = t" "1 \<le> m" "m \<le> 12" "1 \<le> d" "d \<le> month_days y m"
    "0 \<le> hh" "hh < 24" "0 \<le> mm" "mm < 60" "0 \<le> ss" "ss < 60"
    "days_before_year y \<le> t div 86400 + 719162" "t div 86400 + 719162 < days_before_year (y + 1)"
proof -
  obtain yd where year: "year_of 1970 (t div 86400) = (y, yd)"
    and rest: "month_of y 1 yd = (m, d - 1)" "hh = t mod 86400 div 3600" "mm = t mod 3600 div 60" "ss = t mod 60"
    using assms by (auto simp: gmtime_def split: prod.splits)
  have yd: "0 \<le> yd" "yd < year_days y" "days_before_year y + yd = days_before_year 1970 + t div 86400"
    using year_of_sound [OF year] by auto
  have base: "days_before_year 1970 = 719162" by (simp add: days_before_year_def)
  have jan: "days_before_month y 1 = 0" by (simp add: days_before_month_def)
  have month: "1 \<le> m" "m \<le> 12" "0 \<le> d - 1" "d - 1 < month_days y m" "days_before_month y m + (d - 1) = yd"
    using month_of_sound [OF rest(1)] yd jan by auto
  then show "1 \<le> m" "m \<le> 12" "1 \<le> d" "d \<le> month_days y m" by auto
  show "days_before_year y \<le> t div 86400 + 719162" "t div 86400 + 719162 < days_before_year (y + 1)"
    using yd base days_before_next_year [of y] by linarith+
  show "0 \<le> hh" "hh < 24" "0 \<le> mm" "mm < 60" "0 \<le> ss" "ss < 60"
    unfolding rest(2-4) by (simp_all add: div_less_iff_less_mult pos_imp_zdiv_nonneg_iff)
  have days: "toordinal y m 1 - EPOCH_ORD + d - 1 = t div 86400"
    using month(5) yd(3) base by (simp add: toordinal_def EPOCH_ORD_def)
  have "t = ((t div 86400 * 24 + t mod 86400 div 3600) * 60 + t mod 3600 div 60) * 60 + t mod 60"
    by (rule split_seconds)
  then show "timegm (y, m, d, hh, mm, ss) = t"
    unfolding timegm_def prod.case days rest(2-4) by simp
qed

subsection \<open>A printed time reads back\<close>

text \<open>The first way an expression matches.\<close>

definition first_run :: "rx \<Rightarrow> pos \<Rightarrow> pos \<Rightarrow> bool" where
  "first_run r p q \<longleftrightarrow> (\<exists>qs. rx_run (\<lambda>_. False) r p = q # qs)"

lemma first_run_Seq: "first_run a p q \<Longrightarrow> first_run b q s \<Longrightarrow> first_run (Seq a b) p s"
  by (auto simp: first_run_def)

lemma first_run_Group:
  "first_run a (l, t @ r, g) (rev t @ l, r, g) \<Longrightarrow> first_run (Group n a) (l, t @ r, g) (rev t @ l, r, (n, t) # g)"
  by (auto simp: first_run_def)

lemma first_run_char: "first_run (Cls (Range c c)) (l, [c] @ r, g) (rev [c] @ l, r, g)"
  "c \<in> {84, 90} \<Longrightarrow> first_run (CiCls (Range c c)) (l, [c] @ r, g) (rev [c] @ l, r, g)"
  by (auto simp: first_run_def ci_variants_def)

lemma two_digits:
  assumes "0 \<le> n" "n < 100"
  obtains a b where "n = 10 * a + b" "0 \<le> a" "a \<le> 9" "0 \<le> b" "b \<le> 9" "pad2 n = [48 + a, 48 + b]"
  using assms by (intro that [of "n div 10" "n mod 10"]) (auto simp: pad2_def)

lemmas field_rxs = month_rx_def day_rx_def hour_rx_def minute_rx_def second_rx_def

lemma first_run_two:
  assumes "0 \<le> n"
  shows "1 \<le> n \<Longrightarrow> n \<le> 12 \<Longrightarrow> first_run month_rx (l, pad2 n @ r, g) (rev (pad2 n) @ l, r, g)"
    and "1 \<le> n \<Longrightarrow> n \<le> 31 \<Longrightarrow> first_run day_rx (l, pad2 n @ r, g) (rev (pad2 n) @ l, r, g)"
    and "n < 24 \<Longrightarrow> first_run hour_rx (l, pad2 n @ r, g) (rev (pad2 n) @ l, r, g)"
    and "n < 60 \<Longrightarrow> first_run minute_rx (l, pad2 n @ r, g) (rev (pad2 n) @ l, r, g)"
    and "n < 60 \<Longrightarrow> first_run second_rx (l, pad2 n @ r, g) (rev (pad2 n) @ l, r, g)"
  by (rule two_digits [of n]; use assms in \<open>force simp: first_run_def field_rxs is_digit_ascii\<close>)+

lemma four_digits:
  assumes "(1000::nat) \<le> n" "n < 10000"
  obtains a b c d where "nat_digits n = [a, b, c, d]"
    and "list_all (\<lambda>c. 48 \<le> c \<and> c \<le> 57) [a, b, c, d]"
proof -
  have steps: "\<not> n < 10" "\<not> n div 10 < 10" "\<not> n div 10 div 10 < 10" using assms by linarith+
  have "nat_digits n = nat_digits (n div 10 div 10 div 10) @
      [48 + int (n div 10 div 10 mod 10), 48 + int (n div 10 mod 10), 48 + int (n mod 10)]"
    using steps by (simp add: nat_digits.simps [of n] nat_digits.simps [of "n div 10"]
      nat_digits.simps [of "n div 10 div 10"])
  moreover have "nat_digits (n div 10 div 10 div 10) = [48 + int (n div 10 div 10 div 10)]"
    using assms by (subst nat_digits.simps) simp
  ultimately have "nat_digits n = [48 + int (n div 10 div 10 div 10), 48 + int (n div 10 div 10 mod 10),
      48 + int (n div 10 mod 10), 48 + int (n mod 10)]" by simp
  with that show thesis using nat_digits_ascii [of _ n] by simp
qed

lemma first_run_year:
  assumes "1000 \<le> y" "y < 10000"
  shows "first_run year_rx (l, str_of_int y @ r, g) (rev (str_of_int y) @ l, r, g)"
proof -
  obtain a b c d where eq: "nat_digits (nat y) = [a, b, c, d]"
    and "list_all (\<lambda>c. 48 \<le> c \<and> c \<le> 57) [a, b, c, d]"
    by (rule four_digits [of "nat y"]) (use assms in auto)
  then show ?thesis using assms
    by (simp add: first_run_def year_rx_def str_of_int_def is_digit_ascii)
qed

lemma py_int_pad2:
  assumes "0 \<le> n" "n < 100"
  shows "py_int (pad2 n) = Some n"
proof -
  have "list_all (\<lambda>n. py_int (pad2 n) = Some n) [0..99]" by code_simp
  with assms show ?thesis by (auto simp: list_all_iff)
qed

lemma py_int_year:
  assumes "1000 \<le> y" "y < 10000"
  shows "py_int (str_of_int y) = Some y"
proof -
  obtain a b c d where "nat_digits (nat y) = [a, b, c, d]"
    by (rule four_digits [of "nat y"]) (use assms in auto)
  with py_int_digits [of "nat y"] assms show ?thesis by (simp add: str_of_int_def max_str_digits_def)
qed

lemma parse_stamp:
  assumes "1000 \<le> y" "y < 10000" "1 \<le> m" "m \<le> 12" "1 \<le> d" "d \<le> month_days y m"
    "0 \<le> hh" "hh < 24" "0 \<le> mm" "mm < 60" "0 \<le> ss" "ss < 60"
  shows "strptime_utc (str_of_int y @ S ''-'' @ pad2 m @ S ''-'' @ pad2 d @ S ''T'' @ pad2 hh @ S '':''
     @ pad2 mm @ S '':'' @ pad2 ss @ S ''Z'') = Some (y, m, d, hh, mm, ss)"
proof -
  have "month_days y m \<le> 31" by (simp add: month_days_def)
  then have d: "d \<le> 31" using assms by simp
  let ?g = "[(6, pad2 ss), (5, pad2 mm), (4, pad2 hh), (3, pad2 d), (2, pad2 m), (1, str_of_int y)]"
  have chars: "S ''-'' = [45]" "S ''T'' = [84]" "S '':'' = [58]" "S ''Z'' = [90]" by (simp_all add: S_def)
  have fields: "first_run year_rx (l, str_of_int y @ r, g) (rev (str_of_int y) @ l, r, g)"
    "first_run month_rx (l, pad2 m @ r, g) (rev (pad2 m) @ l, r, g)"
    "first_run day_rx (l, pad2 d @ r, g) (rev (pad2 d) @ l, r, g)"
    "first_run hour_rx (l, pad2 hh @ r, g) (rev (pad2 hh) @ l, r, g)"
    "first_run minute_rx (l, pad2 mm @ r, g) (rev (pad2 mm) @ l, r, g)"
    "first_run second_rx (l, pad2 ss @ r, g) (rev (pad2 ss) @ l, r, g)" for l r g
    using assms d first_run_year first_run_two by auto
  have T: "first_run (CiCls (Range 84 84)) (l, [84] @ r, g) (rev [84] @ l, r, g)"
    and Z: "first_run (CiCls (Range 90 90)) (l, [90] @ r, g) (rev [90] @ l, r, g)" for l r g
    by (rule first_run_char(2), simp)+
  have "\<exists>l. first_run UTC_RE ([], str_of_int y @ [45] @ pad2 m @ [45] @ pad2 d @ [84] @ pad2 hh @ [58]
      @ pad2 mm @ [58] @ pad2 ss @ [90] @ [], []) (l, [], ?g)"
    unfolding UTC_RE_def seqs.simps chars lit.simps cilit.simps
    by (rule exI, (rule first_run_Seq first_run_Group first_run_char(1) T Z fields)+)
  then obtain l qs where "rx_run (\<lambda>_. False) UTC_RE ([], str_of_int y @ [45] @ pad2 m @ [45] @ pad2 d @ [84]
      @ pad2 hh @ [58] @ pad2 mm @ [58] @ pad2 ss @ [90], []) = (l, [], ?g) # qs"
    by (auto simp: first_run_def)
  then show ?thesis
    unfolding chars strptime_utc_def rx_match_def
    using assms d by (simp add: field_def group_of_def dict_get_or_def py_int_pad2 py_int_year)
qed

text \<open>
  C23. Times survive storage: what the engine writes for a time from 1970 to the end of the year
  9999 is read back as that time, to the second.
\<close>

theorem stored_time_roundtrip:
  assumes "0 \<le> t" "t < 253402300800"
  shows "parse_utc (format_utc t) = Some t"
proof -
  obtain y m d hh mm ss where gm: "gmtime t = (y, m, d, hh, mm, ss)" by (metis prod_cases6)
  note sound = gmtime_sound [OF gm]
  have ends: "days_before_year 1970 = 719162" "days_before_year 10000 = 3652059"
    by (simp_all add: days_before_year_def)
  have "0 \<le> t div 86400" "t div 86400 < 2932897" using assms by auto
  with sound(12,13) have low: "days_before_year 1970 < days_before_year (y + 1)"
    and high: "days_before_year y < days_before_year 10000" by (simp_all add: ends)
  have "1970 \<le> y" using low days_before_year_mono [of "y + 1" 1970] by force
  moreover have "y < 10000" using high days_before_year_mono [of 10000 y] by force
  ultimately have "strptime_utc (format_utc t) = Some (y, m, d, hh, mm, ss)"
    unfolding format_utc_def gm prod.case by (intro parse_stamp) (use sound in auto)
  with sound(1) show ?thesis by (simp add: parse_utc_def)
qed

theorem stored_time_roundtrip_witness: "parse_utc (format_utc 1783609200) = Some 1783609200"
  by (rule stored_time_roundtrip) simp_all

subsection \<open>The cadence of a schedule\<close>

definition cadence_text :: "int option \<Rightarrow> str option \<Rightarrow> str" where
  "cadence_text every_minutes next_run_at =
     (case every_minutes of
        None \<Rightarrow> (case next_run_at of Some t \<Rightarrow> S ''once at '' @ t | None \<Rightarrow> S ''once (already ran)'')
      | Some every \<Rightarrow>
          if every mod (24 * 60) = 0
          then (let days = every div (24 * 60)
                in if days = 1 then S ''every day'' else S ''every '' @ str_of_int days @ S '' days'')
          else if every mod 60 = 0
          then (let hours = every div 60
                in if hours = 1 then S ''every hour'' else S ''every '' @ str_of_int hours @ S '' hours'')
          else S ''every '' @ str_of_int every @ S '' minutes'')"

definition schedule_next_run :: "int \<Rightarrow> int \<Rightarrow> int \<Rightarrow> int" where
  "schedule_next_run due every_minutes now =
     (let period = every_minutes * 60
      in if now < due then due + period
         else (let steps = (now - due) div period + 1 in due + steps * period))"

text \<open>The fraction of a second on the clock makes no difference to the number of steps.\<close>

lemma steps_of_clock:
  fixes clock :: real
  assumes "0 < period"
  shows "\<lfloor>(clock - of_int due) / of_int period\<rfloor> = (\<lfloor>clock\<rfloor> - due) div period"
proof -
  have "\<lfloor>(clock - of_int due) / of_int period\<rfloor> = \<lfloor>clock - of_int due\<rfloor> div period"
    using assms floor_divide_real_eq_div [of period] by simp
  then show ?thesis by simp
qed

lemma next_run_grid:
  assumes "0 < every"
  shows "\<exists>k \<ge> 1. schedule_next_run due every now = due + k * (every * 60)"
    and "now < schedule_next_run due every now"
    and "1 \<le> k \<Longrightarrow> now < due + k * (every * 60) \<Longrightarrow> schedule_next_run due every now \<le> due + k * (every * 60)"
proof -
  let ?p = "every * 60" and ?q = "(now - due) div (every * 60)"
  have p: "0 < ?p" using assms by simp
  have q: "?p * ?q \<le> now - due" "now - due < ?p * (?q + 1)"
    using mult_div_mod_eq [of ?p "now - due"] pos_mod_sign [OF p, of "now - due"] pos_mod_bound [OF p, of "now - due"]
    by (auto simp: algebra_simps)
  have run: "schedule_next_run due every now = (if now < due then due + 1 * ?p else due + (?q + 1) * ?p)"
    by (simp add: schedule_next_run_def Let_def)
  have nonneg: "0 \<le> ?q" if "\<not> now < due" using that p by (simp add: pos_imp_zdiv_nonneg_iff)
  show "\<exists>k \<ge> 1. schedule_next_run due every now = due + k * ?p"
    unfolding run using nonneg by (cases "now < due") (force intro: exI [of _ 1] exI [of _ "?q + 1"])+
  show "now < schedule_next_run due every now"
    unfolding run using p q(2) by (auto simp: algebra_simps)
  show "schedule_next_run due every now \<le> due + k * ?p" if "1 \<le> k" "now < due + k * ?p"
  proof (cases "now < due")
    case True
    with that p show ?thesis unfolding run by simp
  next
    case False
    from q(1) that(2) have "?p * ?q < ?p * k" by (simp add: algebra_simps)
    with p have "?q + 1 \<le> k" by simp
    with p False show ?thesis unfolding run by simp
  qed
qed

text \<open>
  C22. Recurring schedules do not drift: the next run lies on the grid that starts at the time
  the run was due, and it is the first such time after now, however late the worker is.
\<close>

theorem next_run_first_on_grid:
  assumes "0 < every"
  shows "(\<exists>k \<ge> 1. schedule_next_run due every now = due + k * (every * 60))
    \<and> now < schedule_next_run due every now
    \<and> (\<forall>k. 1 \<le> k \<and> now < due + k * (every * 60) \<longrightarrow> schedule_next_run due every now \<le> due + k * (every * 60))"
  using next_run_grid [OF assms] by blast

theorem next_run_first_on_grid_witness:
  "schedule_next_run 1783609200 15 1783700000 = 1783700100 \<and> 1783700000 < schedule_next_run 1783609200 15 1783700000"
  using next_run_first_on_grid [of 15 1783609200 1783700000] by (simp add: schedule_next_run_def)

subsection \<open>How late a stored time can be\<close>

lemma field_bound:
  assumes "rx_match W UTC_RE s = Some p" "(i, n) \<in> {(1, 4), (2, 2), (3, 2), (4, 2), (5, 2), (6, 2)}"
  shows "field i (snd (snd p)) < 10 ^ n"
proof -
  from assms(1) have p: "p \<in> set (rx_run W UTC_RE ([], s, []))"
    by (auto simp: rx_match_def split: list.splits)
  have "groups_within i n UTC_RE"
    using assms(2) by (auto simp: UTC_RE_def S_def year_rx_def field_rxs)
  with groups_within_run [OF p] have "length (group_of i (snd (snd p))) \<le> n"
    by (simp add: captures_def group_of_def dict_get_or_def)
  then show ?thesis unfolding field_def by (auto split: option.splits intro: py_int_bound)
qed

lemma days_before_month_bound: "m < 100 \<Longrightarrow> days_before_month y m \<le> 3100"
proof -
  have "sum_list (map (month_days y) ms) \<le> 31 * int (length ms)" for ms
  proof (induction ms)
    case (Cons m ms)
    moreover have "month_days y m \<le> 31" by (simp add: month_days_def)
    ultimately show ?case by simp
  qed simp
  from this [of "[1..m - 1]"] show "m < 100 \<Longrightarrow> ?thesis" by (simp add: days_before_month_def split: if_splits)
qed

lemma parse_utc_bound:
  assumes "parse_utc s = Some t"
  shows "t < 10 ^ 12"
proof -
  from assms obtain p where p: "rx_match (\<lambda>_. False) UTC_RE s = Some p"
    and t: "t = timegm (field 1 (snd (snd p)), field 2 (snd (snd p)), field 3 (snd (snd p)),
      field 4 (snd (snd p)), field 5 (snd (snd p)), field 6 (snd (snd p)))"
    by (auto simp: parse_utc_def strptime_utc_def split: option.splits prod.splits if_splits)
  note f = field_bound [OF p]
  let ?f = "\<lambda>i. field i (snd (snd p))"
  have b: "?f 1 < 10000" "?f 2 < 100" "?f 3 < 100" "?f 4 < 100" "?f 5 < 100" "?f 6 < 100"
    using f [of 1 4] f [of 2 2] f [of 3 2] f [of 4 2] f [of 5 2] f [of 6 2] by simp_all
  have "days_before_year (?f 1) \<le> days_before_year 10000"
    using b(1) by (intro days_before_year_mono) simp
  then have "toordinal (?f 1) (?f 2) 1 \<le> 4000000"
    using days_before_month_bound [OF b(2), of "?f 1"] by (simp add: toordinal_def days_before_year_def)
  with b(3-6) show ?thesis unfolding t timegm_def EPOCH_ORD_def prod.case by simp
qed

text \<open>Times of this millennium and the next ones are printed in at most 21 characters.\<close>

lemma stamp_length:
  assumes "0 \<le> t" "t < 2 * 10 ^ 12"
  shows "length (format_utc t) \<le> 21"
proof -
  obtain y m d hh mm ss where g: "gmtime t = (y, m, d, hh, mm, ss)" by (cases "gmtime t") auto
  from gmtime_sound(12) [OF g] gmtime_sound(13) [OF g] have y: "days_before_year y \<le> t div 86400 + 719162"
    "t div 86400 + 719162 < days_before_year (y + 1)" .
  have "t div 86400 < 30000000" using zdiv_mono1 [of t "2 * 10 ^ 12" 86400] assms(2) by simp
  moreover have "0 \<le> t div 86400" using assms(1) by (simp add: pos_imp_zdiv_nonneg_iff)
  moreover have "days_before_year 100000 = 36523884" "days_before_year 1 = 0" by (simp_all add: days_before_year_def)
  ultimately have d: "days_before_year y < days_before_year 100000" "days_before_year 1 < days_before_year (y + 1)"
    using y by linarith+
  have "y < 100000" using d(1) days_before_year_mono [of 100000 y] by fastforce
  moreover have "0 < y" using d(2) days_before_year_mono [of "y + 1" 1] by fastforce
  ultimately have "length (str_of_int y) \<le> 5"
    using length_nat_digits [of "nat y" 5] by (simp add: str_of_int_def)
  then show ?thesis by (simp add: format_utc_def g pad2_def)
qed

end
