(* ===== verification/WorkspaceStore.thy ===== *)
theory WorkspaceStore
  imports Txn ViewBlocks UtcTime
begin

text \<open>
  The workspace of an app built on \<open>apps/workspace_kit\<close>: its tables (the schema of
  \<open>mission_pursuit/migrations\<close>), the shape check of an agent action and its application. The
  engine is modelled as \<open>mission_pursuit/backend.py\<close> configures it: the seeded dream cycle, no
  domain actions, routes or digest sections.

  Every table is a list in the order of insertion. A column of JSON text is kept as the value it
  was printed from, with its keys sorted the way it is printed. \<open>F\<close> prints floats, \<open>R\<close> is \<open>repr\<close>.
\<close>

subsection \<open>Tables\<close>

datatype run_status = Run_pending | Run_active | Run_done
datatype run_kind = Chat_run | Schedule_run

record workspace =
  ws_settings :: "(str \<times> str \<times> str) option"     \<comment> \<open>runtime, model and effort; all or none are NULL\<close>
  ws_thread_seq :: int
  ws_goal :: str
  ws_measurement :: str
  ws_created :: str
  ws_updated :: str

record feed_message =
  ms_id :: int
  ms_role :: str
  ms_content :: str
  ms_meta :: "(str \<times> json) list option"
  ms_created :: str

record run =
  rn_id :: int
  rn_kind :: run_kind
  rn_status :: run_status
  rn_task :: "str option"
  rn_host_status :: "str option"
  rn_thread :: "str option"
  rn_runtime :: "str option"
  rn_message :: "int option"
  rn_schedule :: "str option"
  rn_error :: "str option"
  rn_created :: str
  rn_updated :: str

record schedule =
  sc_id :: str
  sc_title :: str
  sc_prompt :: str
  sc_every :: "int option"
  sc_next :: "str option"
  sc_enabled :: bool
  sc_last_run :: "int option"
  sc_created :: str
  sc_updated :: str

record artifact =
  ar_id :: str
  ar_title :: str
  ar_data :: json
  ar_view :: "json option"
  ar_created :: str
  ar_updated :: str

record memory =
  me_id :: str
  me_content :: str
  me_created :: str
  me_updated :: str

record tool_row =
  tl_id :: str
  tl_title :: str
  tl_priority :: str
  tl_status :: str
  tl_note :: str
  tl_created :: str
  tl_updated :: str

record workspace_db =
  the_workspace :: "workspace option"
  messages :: "feed_message list"
  runs :: "run list"
  schedules :: "schedule list"
  artifacts :: "artifact list"
  memories :: "memory list"
  tool_rows :: "tool_row list"
  next_message :: int
  next_run :: int

type_synonym 'a ws_txn = "(workspace_db, 'a) txn"

definition insert_message :: "string \<Rightarrow> str \<Rightarrow> (str \<times> json) list option \<Rightarrow> str \<Rightarrow> int ws_txn" where
  "insert_message role content meta created = (\<lambda>d. Inr (next_message d,
     d\<lparr>messages := messages d @ [\<lparr>ms_id = next_message d, ms_role = S role, ms_content = content,
         ms_meta = meta, ms_created = created\<rparr>],
       next_message := next_message d + 1\<rparr>))"

definition insert_event :: "str \<Rightarrow> (str \<times> json) list \<Rightarrow> str \<Rightarrow> int ws_txn" where
  "insert_event content meta created = insert_message ''event'' content (Some meta) created"

abbreviation meta_of :: "string \<Rightarrow> (string \<times> str) list \<Rightarrow> (str \<times> json) list" where
  "meta_of action kvs \<equiv> (S ''action'', JStr (S action)) # map (\<lambda>(k, v). (S k, JStr v)) kvs"

subsection \<open>Limits\<close>

definition GOAL_LIMIT :: nat where "GOAL_LIMIT = 500"
definition MEASUREMENT_LIMIT :: nat where "MEASUREMENT_LIMIT = 500"
definition TITLE_LIMIT :: nat where "TITLE_LIMIT = 120"
definition SCHEDULE_PROMPT_LIMIT :: nat where "SCHEDULE_PROMPT_LIMIT = 4000"
definition DATA_LIMIT :: nat where "DATA_LIMIT = 16000"
definition MEMORY_CONTENT_LIMIT :: nat where "MEMORY_CONTENT_LIMIT = 300"
definition TOOL_NOTE_LIMIT :: nat where "TOOL_NOTE_LIMIT = 200"
definition MAX_ARTIFACTS :: nat where "MAX_ARTIFACTS = 100"
definition MAX_SCHEDULES :: nat where "MAX_SCHEDULES = 20"
definition MAX_MEMORIES :: nat where "MAX_MEMORIES = 40"
definition MAX_TOOLS :: nat where "MAX_TOOLS = 30"
definition TOOL_PRIORITIES :: "string list" where "TOOL_PRIORITIES = [''must_have'', ''good_to_have'']"
definition TOOL_STATUSES :: "string list" where "TOOL_STATUSES = [''enabled'', ''implemented'', ''not_implemented'']"
definition SCHEDULE_MIN_MINUTES :: int where "SCHEDULE_MIN_MINUTES = 5"
definition SCHEDULE_MAX_MINUTES :: int where "SCHEDULE_MAX_MINUTES = 7 * 24 * 60"
definition ACTION_NAME_ERROR_BYTES :: int where "ACTION_NAME_ERROR_BYTES = 80"

subsection \<open>The shape of an action\<close>

type_synonym action_fields = "(str \<times> json) list"

definition action_name :: "action_fields \<Rightarrow> str" where
  "action_name action = (case jget action (S ''action'') of JStr s \<Rightarrow> s | _ \<Rightarrow> [])"

definition check_fields :: "action_fields \<Rightarrow> string list \<Rightarrow> string list \<Rightarrow> str option" where
  "check_fields action required optional =
     (case missing_keys (map S required) action of
        k # _ \<Rightarrow> Some (action_name action @ S '' is missing required field: '' @ k)
      | [] \<Rightarrow> (case extra_keys_of (map S (required @ optional @ [''action''])) action of
                k # _ \<Rightarrow> Some (action_name action @ S '' has unsupported field: '' @ k)
              | [] \<Rightarrow> None))"

definition check_text :: "action_fields \<Rightarrow> string \<Rightarrow> nat \<Rightarrow> bool \<Rightarrow> str option" where
  "check_text action key max_length allow_empty =
     (case jget action (S key) of
        JStr v \<Rightarrow>
          if \<not> allow_empty \<and> strip v = [] then Some (S key @ S '' must not be empty'')
          else if max_length < length v
          then Some (S key @ S '' must be at most '' @ str_of_int (int max_length) @ S '' characters'')
          else None
      | _ \<Rightarrow> Some (S key @ S '' must be a string''))"

definition check_slug :: "action_fields \<Rightarrow> string \<Rightarrow> str option" where
  "check_slug action key =
     (if is_slug (jget action (S key)) then None else Some (S key @ S '' must match '' @ slug_pattern))"

definition check_data :: "(rat option \<Rightarrow> str) \<Rightarrow> action_fields \<Rightarrow> str option" where
  "check_data F action =
     (case map_of action (S ''data'') of
        None \<Rightarrow> None
      | Some v \<Rightarrow>
          if \<not> finite_json v then Some (S ''data must be JSON-serializable with finite numbers'')
          else if DATA_LIMIT < length (json_text F (sorted_keys v))
          then Some (S ''data must be at most 16000 characters when serialized'') else None)"

definition check_view :: "(rat option \<Rightarrow> str) \<Rightarrow> (json \<Rightarrow> str) \<Rightarrow> action_fields \<Rightarrow> bool \<Rightarrow> str option" where
  "check_view F R action allow_null =
     (case map_of action (S ''view'') of
        None \<Rightarrow> None
      | Some view \<Rightarrow>
          if view = JNull then (if allow_null then None else Some (S ''view must be a list of blocks''))
          else validate_view F R view)"

definition check_cadence :: "action_fields \<Rightarrow> bool \<Rightarrow> str option" where
  "check_cadence action required =
     (case (map_of action (S ''every_minutes''), map_of action (S ''at'')) of
        (Some _, Some _) \<Rightarrow> Some (S ''use either every_minutes or at, not both'')
      | (None, None) \<Rightarrow>
          if required then Some (S ''create_schedule needs every_minutes (recurring) or at (one-shot)'') else None
      | (Some (JInt every), None) \<Rightarrow>
          if SCHEDULE_MIN_MINUTES \<le> every \<and> every \<le> SCHEDULE_MAX_MINUTES then None
          else Some (S ''every_minutes must be between 5 and 10080'')
      | (Some _, None) \<Rightarrow> Some (S ''every_minutes must be an integer'')
      | (None, Some (JStr t)) \<Rightarrow>
          if parse_utc t = None then Some (S ''at must be a UTC timestamp like 2026-07-09T15:00:00Z'') else None
      | (None, Some _) \<Rightarrow> Some (S ''at must be a UTC timestamp like 2026-07-09T15:00:00Z''))"

definition if_given :: "action_fields \<Rightarrow> string \<Rightarrow> str option \<Rightarrow> str option" where
  "if_given action key error = (if has_key action (S key) then error else None)"

definition upsert_tool_error :: "action_fields \<Rightarrow> str option" where
  "upsert_tool_error action =
     or_else (check_fields action [''tool_id'', ''title'', ''priority'', ''status''] [''note''])
       (if \<not> one_of TOOL_PRIORITIES (jget action (S ''priority''))
        then Some (S ''priority must be one of: '' @ join (S '', '') (map S TOOL_PRIORITIES))
        else if \<not> one_of TOOL_STATUSES (jget action (S ''status''))
        then Some (S ''status must be one of: '' @ join (S '', '') (map S TOOL_STATUSES))
        else or_else (check_slug action ''tool_id'')
          (or_else (check_text action ''title'' TITLE_LIMIT False)
             (if_given action ''note'' (check_text action ''note'' TOOL_NOTE_LIMIT True))))"

definition create_artifact_error :: "(rat option \<Rightarrow> str) \<Rightarrow> (json \<Rightarrow> str) \<Rightarrow> action_fields \<Rightarrow> str option" where
  "create_artifact_error F R action =
     or_else (check_fields action [''artifact_id'', ''title''] [''data'', ''view''])
       (or_else (check_slug action ''artifact_id'')
          (or_else (check_text action ''title'' TITLE_LIMIT False)
             (or_else (check_data F action) (check_view F R action False))))"

definition update_artifact_error :: "(rat option \<Rightarrow> str) \<Rightarrow> (json \<Rightarrow> str) \<Rightarrow> action_fields \<Rightarrow> str option" where
  "update_artifact_error F R action =
     or_else (check_fields action [''artifact_id''] [''title'', ''data'', ''view''])
       (if extra_keys_of (map S [''action'', ''artifact_id'']) action = []
        then Some (S ''update_artifact needs at least one of title, data, view'')
        else or_else (check_slug action ''artifact_id'')
          (or_else (if_given action ''title'' (check_text action ''title'' TITLE_LIMIT False))
             (or_else (check_data F action) (check_view F R action True))))"

definition create_schedule_error :: "action_fields \<Rightarrow> str option" where
  "create_schedule_error action =
     or_else (check_fields action [''schedule_id'', ''title'', ''prompt''] [''every_minutes'', ''at''])
       (or_else (check_slug action ''schedule_id'')
          (or_else (check_text action ''title'' TITLE_LIMIT False)
             (or_else (check_text action ''prompt'' SCHEDULE_PROMPT_LIMIT False) (check_cadence action True))))"

definition update_schedule_error :: "action_fields \<Rightarrow> str option" where
  "update_schedule_error action =
     or_else (check_fields action [''schedule_id''] [''title'', ''prompt'', ''every_minutes'', ''at'', ''enabled''])
       (if extra_keys_of (map S [''action'', ''schedule_id'']) action = []
        then Some (S ''update_schedule needs at least one of title, prompt, every_minutes, at, enabled'')
        else if has_key action (S ''enabled'') \<and> \<not> fits Flag (jget action (S ''enabled''))
        then Some (S ''enabled must be true or false'')
        else or_else (check_slug action ''schedule_id'')
          (or_else (if_given action ''title'' (check_text action ''title'' TITLE_LIMIT False))
             (or_else (if_given action ''prompt'' (check_text action ''prompt'' SCHEDULE_PROMPT_LIMIT False))
                (check_cadence action False))))"

definition delete_error :: "action_fields \<Rightarrow> string \<Rightarrow> str option" where
  "delete_error action key = or_else (check_fields action [key] []) (check_slug action key)"

definition validate_action_shape ::
  "(rat option \<Rightarrow> str) \<Rightarrow> (json \<Rightarrow> str) \<Rightarrow> action_fields \<Rightarrow> str option" where
  "validate_action_shape F R action =
     (let name = jget action (S ''action'')
      in if name = JStr (S ''set_goal'')
         then or_else (check_fields action [''goal''] []) (check_text action ''goal'' GOAL_LIMIT True)
         else if name = JStr (S ''set_measurement'')
         then or_else (check_fields action [''measurement''] [])
           (check_text action ''measurement'' MEASUREMENT_LIMIT True)
         else if name = JStr (S ''remember'')
         then or_else (check_fields action [''memory_id'', ''content''] [])
           (or_else (check_slug action ''memory_id'') (check_text action ''content'' MEMORY_CONTENT_LIMIT False))
         else if name = JStr (S ''forget'') then delete_error action ''memory_id''
         else if name = JStr (S ''upsert_tool'') then upsert_tool_error action
         else if name = JStr (S ''delete_tool'') then delete_error action ''tool_id''
         else if name = JStr (S ''create_artifact'') then create_artifact_error F R action
         else if name = JStr (S ''update_artifact'') then update_artifact_error F R action
         else if name = JStr (S ''delete_artifact'') then delete_error action ''artifact_id''
         else if name = JStr (S ''create_schedule'') then create_schedule_error action
         else if name = JStr (S ''update_schedule'') then update_schedule_error action
         else if name = JStr (S ''delete_schedule'') then delete_error action ''schedule_id''
         else (let display = (case name of JStr s \<Rightarrow> s | j \<Rightarrow> R j)
               in Some (S ''unknown action '' @ R (JStr (fst (clip_encoded_text display ACTION_NAME_ERROR_BYTES)))
                  @ S ''; allowed actions: set_goal, set_measurement, remember, forget, upsert_tool, delete_tool,''
                  @ S '' create_artifact, update_artifact, delete_artifact,''
                  @ S '' create_schedule, update_schedule, delete_schedule'')))"

subsection \<open>Applying an action\<close>

text \<open>
  \<open>_apply_action\<close>, verb by verb: the error it returns, if any, and the tables it leaves. \<open>now\<close> is
  the time stamp of the action and \<open>clock\<close> the second \<open>time.time()\<close> reads. A field that the shape
  check would have refused raises here.
\<close>

definition text_field :: "action_fields \<Rightarrow> string \<Rightarrow> str ws_txn" where
  "text_field action key =
     (case map_of action (S key) of
        Some (JStr s) \<Rightarrow> ok s
      | Some _ \<Rightarrow> abort (Raised AttributeError)
      | None \<Rightarrow> abort (Raised KeyError))"

definition text_field_or :: "action_fields \<Rightarrow> string \<Rightarrow> str \<Rightarrow> str ws_txn" where
  "text_field_or action key fallback =
     (if has_key action (S key) then bind_txn (text_field action key) (\<lambda>s. ok (strip s)) else ok fallback)"

definition int_field :: "action_fields \<Rightarrow> string \<Rightarrow> int ws_txn" where
  "int_field action key =
     (case map_of action (S key) of
        Some (JInt n) \<Rightarrow> ok n
      | Some _ \<Rightarrow> abort (Raised TypeError)
      | None \<Rightarrow> abort (Raised KeyError))"

definition journal :: "str \<Rightarrow> string \<Rightarrow> (string \<times> str) list \<Rightarrow> str \<Rightarrow> str option ws_txn" where
  "journal content name kvs now = then_txn (insert_event content (meta_of name kvs) now) (ok None)"

definition reject :: "str \<Rightarrow> str option ws_txn" where
  "reject reason = ok (Some reason)"

definition quoted :: "str \<Rightarrow> str" where
  "quoted s = S ''\"'' @ s @ S ''\"''"

definition set_workspace :: "(workspace \<Rightarrow> workspace) \<Rightarrow> unit ws_txn" where
  "set_workspace f = modify (\<lambda>d. d\<lparr>the_workspace := map_option f (the_workspace d)\<rparr>)"

definition apply_set_goal :: "action_fields \<Rightarrow> str \<Rightarrow> str option ws_txn" where
  "apply_set_goal action now =
     bind_txn (text_field action ''goal'') (\<lambda>text.
     then_txn (set_workspace (\<lambda>w. w\<lparr>ws_goal := strip text, ws_updated := now\<rparr>))
     (journal (if strip text = [] then S ''Cleared the goal'' else S ''Set the goal'') ''set_goal'' [] now))"

definition apply_set_measurement :: "action_fields \<Rightarrow> str \<Rightarrow> str option ws_txn" where
  "apply_set_measurement action now =
     bind_txn (text_field action ''measurement'') (\<lambda>text.
     then_txn (set_workspace (\<lambda>w. w\<lparr>ws_measurement := strip text, ws_updated := now\<rparr>))
     (journal (if strip text = [] then S ''Cleared the measurement'' else S ''Set the measurement'')
        ''set_measurement'' [] now))"

text \<open>\<open>INSERT ... ON CONFLICT (id) DO UPDATE\<close> on a table keyed by \<open>key\<close>.\<close>

definition upsert_row :: "('r \<Rightarrow> str) \<Rightarrow> 'r \<Rightarrow> ('r \<Rightarrow> 'r) \<Rightarrow> 'r list \<Rightarrow> 'r list" where
  "upsert_row key row change rows =
     (if key row \<in> set (map key rows) then map (\<lambda>r. if key r = key row then change r else r) rows
      else rows @ [row])"

definition apply_remember :: "action_fields \<Rightarrow> str \<Rightarrow> str option ws_txn" where
  "apply_remember action now =
     bind_txn (text_field action ''memory_id'') (\<lambda>memory_id.
     bind_txn (select memories) (\<lambda>rows.
     (let exists = memory_id \<in> set (map me_id rows)
      in if \<not> exists \<and> MAX_MEMORIES \<le> length rows
         then reject (S ''memory limit reached (40); forget one first'')
         else bind_txn (text_field action ''content'') (\<lambda>content.
           then_txn (modify (\<lambda>d. d\<lparr>memories := upsert_row me_id
               \<lparr>me_id = memory_id, me_content = strip content, me_created = now, me_updated = now\<rparr>
               (\<lambda>m. m\<lparr>me_content := strip content, me_updated := now\<rparr>) (memories d)\<rparr>))
           (journal ((if exists then S ''Updated'' else S ''Stored'') @ S '' memory '' @ memory_id)
              ''remember'' [(''memory_id'', memory_id)] now)))))"

definition apply_forget :: "action_fields \<Rightarrow> str \<Rightarrow> str option ws_txn" where
  "apply_forget action now =
     bind_txn (text_field action ''memory_id'') (\<lambda>memory_id.
     bind_txn (select memories) (\<lambda>rows.
     if memory_id \<notin> set (map me_id rows)
     then reject (S ''memory '' @ quoted memory_id @ S '' does not exist'')
     else then_txn (modify (\<lambda>d. d\<lparr>memories := filter (\<lambda>m. me_id m \<noteq> memory_id) (memories d)\<rparr>))
       (journal (S ''Forgot memory '' @ memory_id) ''forget'' [(''memory_id'', memory_id)] now)))"

text \<open>The schema admits only the listed priorities and statuses.\<close>

definition apply_upsert_tool :: "action_fields \<Rightarrow> str \<Rightarrow> str option ws_txn" where
  "apply_upsert_tool action now =
     bind_txn (text_field action ''tool_id'') (\<lambda>tool_id.
     bind_txn (select tool_rows) (\<lambda>rows.
     (let exists = tool_id \<in> set (map tl_id rows)
      in if \<not> exists \<and> MAX_TOOLS \<le> length rows
         then reject (S ''tool limit reached (30); delete one first'')
         else bind_txn (text_field action ''title'') (\<lambda>title.
           bind_txn (text_field action ''priority'') (\<lambda>priority.
           bind_txn (text_field action ''status'') (\<lambda>status.
           bind_txn (text_field_or action ''note'' []) (\<lambda>note.
           then_txn (require (priority \<in> set (map S TOOL_PRIORITIES) \<and> status \<in> set (map S TOOL_STATUSES))
             constraint_violation)
           (then_txn (modify (\<lambda>d. d\<lparr>tool_rows := upsert_row tl_id
               \<lparr>tl_id = tool_id, tl_title = strip title, tl_priority = priority, tl_status = status,
                tl_note = note, tl_created = now, tl_updated = now\<rparr>
               (\<lambda>t. t\<lparr>tl_title := strip title, tl_priority := priority, tl_status := status,
                     tl_note := note, tl_updated := now\<rparr>) (tool_rows d)\<rparr>))
           (journal ((if exists then S ''Updated'' else S ''Recorded'') @ S '' tool '' @ quoted (strip title)
               @ S '' ('' @ priority @ S '', '' @ status @ S '')'') ''upsert_tool'' [(''tool_id'', tool_id)] now)))))))))"

text \<open>\<open>DELETE ... RETURNING title\<close>: the title of the row, or \<open>None\<close> when there was none.\<close>

definition title_of :: "('r \<Rightarrow> str) \<Rightarrow> ('r \<Rightarrow> str) \<Rightarrow> str \<Rightarrow> 'r list \<Rightarrow> str option" where
  "title_of key title k rows = map_option title (find_first (\<lambda>r. key r = k) rows)"

definition delete_tool :: "str \<Rightarrow> str option ws_txn" where
  "delete_tool tool_id = (\<lambda>d. Inr (title_of tl_id tl_title tool_id (tool_rows d),
     d\<lparr>tool_rows := filter (\<lambda>t. tl_id t \<noteq> tool_id) (tool_rows d)\<rparr>))"

definition delete_artifact :: "str \<Rightarrow> str option ws_txn" where
  "delete_artifact artifact_id = (\<lambda>d. Inr (title_of ar_id ar_title artifact_id (artifacts d),
     d\<lparr>artifacts := filter (\<lambda>a. ar_id a \<noteq> artifact_id) (artifacts d)\<rparr>))"

definition delete_schedule :: "str \<Rightarrow> str option ws_txn" where
  "delete_schedule schedule_id = (\<lambda>d. Inr (title_of sc_id sc_title schedule_id (schedules d),
     d\<lparr>schedules := filter (\<lambda>s. sc_id s \<noteq> schedule_id) (schedules d)\<rparr>))"

definition apply_delete_tool :: "action_fields \<Rightarrow> str \<Rightarrow> str option ws_txn" where
  "apply_delete_tool action now =
     bind_txn (text_field action ''tool_id'') (\<lambda>tool_id.
     bind_txn (delete_tool tool_id) (\<lambda>row.
     case row of
       None \<Rightarrow> reject (S ''tool '' @ quoted tool_id @ S '' does not exist'')
     | Some title \<Rightarrow> journal (S ''Deleted tool '' @ quoted title) ''delete_tool'' [(''tool_id'', tool_id)] now))"

definition apply_create_artifact :: "action_fields \<Rightarrow> str \<Rightarrow> str option ws_txn" where
  "apply_create_artifact action now =
     bind_txn (text_field action ''artifact_id'') (\<lambda>artifact_id.
     bind_txn (select artifacts) (\<lambda>rows.
     if artifact_id \<in> set (map ar_id rows)
     then reject (S ''artifact '' @ quoted artifact_id @ S '' already exists; use update_artifact'')
     else if MAX_ARTIFACTS \<le> length rows then reject (S ''artifact limit reached (100); delete one first'')
     else bind_txn (text_field action ''title'') (\<lambda>title.
       then_txn (modify (\<lambda>d. d\<lparr>artifacts := artifacts d @
           [\<lparr>ar_id = artifact_id, ar_title = strip title, ar_data = sorted_keys (jget action (S ''data'')),
             ar_view = (if jget action (S ''view'') = JNull then None
                        else Some (sorted_keys (jget action (S ''view'')))),
             ar_created = now, ar_updated = now\<rparr>]\<rparr>))
       (journal (S ''Created artifact '' @ quoted (strip title)) ''create_artifact''
          [(''artifact_id'', artifact_id)] now))))"

definition apply_update_artifact :: "action_fields \<Rightarrow> str \<Rightarrow> str option ws_txn" where
  "apply_update_artifact action now =
     bind_txn (text_field action ''artifact_id'') (\<lambda>artifact_id.
     bind_txn (select (\<lambda>d. title_of ar_id ar_title artifact_id (artifacts d))) (\<lambda>row.
     case row of
       None \<Rightarrow> reject (S ''artifact '' @ quoted artifact_id @ S '' does not exist; use create_artifact'')
     | Some old \<Rightarrow>
         bind_txn (text_field_or action ''title'' old) (\<lambda>title.
         then_txn (modify (\<lambda>d. d\<lparr>artifacts := map (\<lambda>a. if ar_id a = artifact_id
             then a\<lparr>ar_title := title, ar_updated := now,
               ar_data := (case map_of action (S ''data'') of Some v \<Rightarrow> sorted_keys v | None \<Rightarrow> ar_data a),
               ar_view := (case map_of action (S ''view'') of
                             Some v \<Rightarrow> if v = JNull then None else Some (sorted_keys v)
                           | None \<Rightarrow> ar_view a)\<rparr>
             else a) (artifacts d)\<rparr>))
         (journal (S ''Updated artifact '' @ quoted title) ''update_artifact''
            [(''artifact_id'', artifact_id)] now))))"

definition apply_delete_artifact :: "action_fields \<Rightarrow> str \<Rightarrow> str option ws_txn" where
  "apply_delete_artifact action now =
     bind_txn (text_field action ''artifact_id'') (\<lambda>artifact_id.
     bind_txn (delete_artifact artifact_id) (\<lambda>row.
     case row of
       None \<Rightarrow> reject (S ''artifact '' @ quoted artifact_id @ S '' does not exist'')
     | Some title \<Rightarrow> journal (S ''Deleted artifact '' @ quoted title) ''delete_artifact''
         [(''artifact_id'', artifact_id)] now))"

definition initial_next_run :: "action_fields \<Rightarrow> int \<Rightarrow> str ws_txn" where
  "initial_next_run action clock =
     (if has_key action (S ''every_minutes'')
      then bind_txn (int_field action ''every_minutes'') (\<lambda>every. ok (format_utc (clock + every * 60)))
      else bind_txn (text_field action ''at'') (\<lambda>t.
        case parse_utc t of
          None \<Rightarrow> abort (Raised AssertionError)
        | Some at_epoch \<Rightarrow> ok (format_utc (max at_epoch clock))))"

text \<open>\<open>action.get("every_minutes")\<close>\<close>

definition int_field_or_none :: "action_fields \<Rightarrow> string \<Rightarrow> int option ws_txn" where
  "int_field_or_none action key =
     (if jget action (S key) = JNull then ok None else bind_txn (int_field action key) (\<lambda>n. ok (Some n)))"

definition apply_create_schedule :: "action_fields \<Rightarrow> str \<Rightarrow> int \<Rightarrow> str option ws_txn" where
  "apply_create_schedule action now clock =
     bind_txn (text_field action ''schedule_id'') (\<lambda>schedule_id.
     bind_txn (select schedules) (\<lambda>rows.
     if schedule_id \<in> set (map sc_id rows)
     then reject (S ''schedule '' @ quoted schedule_id @ S '' already exists; use update_schedule'')
     else if MAX_SCHEDULES \<le> length rows then reject (S ''schedule limit reached (20); delete one first'')
     else bind_txn (int_field_or_none action ''every_minutes'') (\<lambda>every.
       bind_txn (initial_next_run action clock) (\<lambda>next.
       bind_txn (text_field action ''title'') (\<lambda>title.
       bind_txn (text_field action ''prompt'') (\<lambda>prompt.
       then_txn (modify (\<lambda>d. d\<lparr>schedules := schedules d @
           [\<lparr>sc_id = schedule_id, sc_title = strip title, sc_prompt = strip prompt, sc_every = every,
             sc_next = Some next, sc_enabled = True, sc_last_run = None, sc_created = now, sc_updated = now\<rparr>]\<rparr>))
       (journal (S ''Scheduled '' @ quoted (strip title) @ S '' '' @ cadence_text every (Some next))
          ''create_schedule'' [(''schedule_id'', schedule_id)] now)))))))"

text \<open>The cadence, the next time and the enabled flag after an update.\<close>

definition updated_timing ::
  "action_fields \<Rightarrow> int \<Rightarrow> schedule \<Rightarrow> (int option \<times> str option \<times> bool) ws_txn" where
  "updated_timing action clock row =
     (let enabled = (case map_of action (S ''enabled'') of Some (JBool b) \<Rightarrow> b | _ \<Rightarrow> sc_enabled row)
      in if has_key action (S ''every_minutes'')
         then bind_txn (int_field action ''every_minutes'') (\<lambda>every.
           ok (Some every, Some (format_utc (clock + every * 60)), enabled))
         else if has_key action (S ''at'')
         then bind_txn (initial_next_run action clock) (\<lambda>next.
           ok (None, Some next, if has_key action (S ''enabled'') then enabled else True))
         else ok (sc_every row, sc_next row, enabled))"

definition apply_update_schedule :: "action_fields \<Rightarrow> str \<Rightarrow> int \<Rightarrow> str option ws_txn" where
  "apply_update_schedule action now clock =
     bind_txn (text_field action ''schedule_id'') (\<lambda>schedule_id.
     bind_txn (select (\<lambda>d. find_first (\<lambda>s. sc_id s = schedule_id) (schedules d))) (\<lambda>found.
     case found of
       None \<Rightarrow> reject (S ''schedule '' @ quoted schedule_id @ S '' does not exist; use create_schedule'')
     | Some row \<Rightarrow>
         bind_txn (text_field_or action ''title'' (sc_title row)) (\<lambda>title.
         bind_txn (text_field_or action ''prompt'' (sc_prompt row)) (\<lambda>prompt.
         bind_txn (updated_timing action clock row) (\<lambda>(every, next, enabled).
         if enabled \<and> every = None \<and> next = None
         then reject (S ''schedule '' @ quoted schedule_id
                @ S '' is a finished one-shot; give it a new at time to re-enable'')
         else then_txn (modify (\<lambda>d. d\<lparr>schedules := map (\<lambda>s. if sc_id s = schedule_id
               then s\<lparr>sc_title := title, sc_prompt := prompt, sc_every := every, sc_next := next,
                      sc_enabled := enabled, sc_updated := now\<rparr>
               else s) (schedules d)\<rparr>))
           (journal (S ''Updated schedule '' @ quoted title) ''update_schedule''
              [(''schedule_id'', schedule_id)] now))))))"

definition apply_delete_schedule :: "action_fields \<Rightarrow> str \<Rightarrow> str option ws_txn" where
  "apply_delete_schedule action now =
     bind_txn (text_field action ''schedule_id'') (\<lambda>schedule_id.
     bind_txn (delete_schedule schedule_id) (\<lambda>row.
     case row of
       None \<Rightarrow> reject (S ''schedule '' @ quoted schedule_id @ S '' does not exist'')
     | Some title \<Rightarrow> journal (S ''Deleted schedule '' @ quoted title) ''delete_schedule''
         [(''schedule_id'', schedule_id)] now))"

definition apply_action :: "(json \<Rightarrow> str) \<Rightarrow> action_fields \<Rightarrow> str \<Rightarrow> int \<Rightarrow> str option ws_txn" where
  "apply_action R action now clock =
     (let name = jget action (S ''action'')
      in if name = JStr (S ''set_goal'') then apply_set_goal action now
         else if name = JStr (S ''set_measurement'') then apply_set_measurement action now
         else if name = JStr (S ''remember'') then apply_remember action now
         else if name = JStr (S ''forget'') then apply_forget action now
         else if name = JStr (S ''upsert_tool'') then apply_upsert_tool action now
         else if name = JStr (S ''delete_tool'') then apply_delete_tool action now
         else if name = JStr (S ''create_artifact'') then apply_create_artifact action now
         else if name = JStr (S ''update_artifact'') then apply_update_artifact action now
         else if name = JStr (S ''delete_artifact'') then apply_delete_artifact action now
         else if name = JStr (S ''create_schedule'') then apply_create_schedule action now clock
         else if name = JStr (S ''update_schedule'') then apply_update_schedule action now clock
         else if name = JStr (S ''delete_schedule'') then apply_delete_schedule action now
         else reject (S ''unknown action '' @ R name))"

end
