(* ===== verification/StoredViews.thy ===== *)
theory StoredViews
  imports ViewBlocks
begin

text \<open>
  Artifacts are stored as JSON text with sorted keys. Sorting the keys of a value changes no
  look-up in it and no shape it fits, so a view that was accepted is still well formed when it
  is read back.
\<close>

lemma insort_key_map: "(\<And>x. f (h x) = f x) \<Longrightarrow> insort_key f (h x) (map h xs) = map h (insort_key f x xs)"
  by (induction xs) auto

lemma sort_key_map: "(\<And>x. f (h x) = f x) \<Longrightarrow> sort_key f (map h xs) = map h (sort_key f xs)"
  by (induction xs) (auto simp: insort_key_map sort_key_def)

definition sort_value :: "str \<times> json \<Rightarrow> str \<times> json" where
  "sort_value kv = (fst kv, sorted_keys (snd kv))"

lemma sorted_object: "sorted_keys (JObj kvs) = JObj (map sort_value (sort_key fst kvs))"
proof -
  have "(\<lambda>(k, v). (k, sorted_keys v)) = sort_value" by (auto simp: sort_value_def)
  then show ?thesis by (simp add: sort_key_map [of fst sort_value] sort_value_def)
qed

lemma map_of_key: "map_of xs k = map_of (filter (\<lambda>x. fst x = k) xs) k"
  by (induction xs) auto

lemma map_of_sort [simp]: "map_of (sort_key fst kvs) k = map_of kvs k"
  by (metis map_of_key sort_key_stable)

lemma map_of_sorted_object: "map_of (map sort_value (sort_key fst kvs)) k = map_option sorted_keys (map_of kvs k)"
proof -
  have "map_of (map sort_value xs) k = map_option sorted_keys (map_of xs k)" for xs
    by (induction xs) (auto simp: sort_value_def)
  then show ?thesis by simp
qed

lemma jget_sorted_object: "jget (map sort_value (sort_key fst kvs)) k = sorted_keys (jget kvs k)"
  by (simp add: jget_def map_of_sorted_object split: option.splits)

declare sorted_keys.simps(1) [simp del]

lemma sorted_keys_idem [simp]: "sorted_keys (sorted_keys v) = sorted_keys v"
proof (induction v)
  case (JObj kvs)
  have "map sort_value (map sort_value (sort_key fst kvs)) = map sort_value (sort_key fst kvs)"
    using JObj by (auto simp: sort_value_def)
  moreover have "sort_key fst (map sort_value (sort_key fst kvs)) = map sort_value (sort_key fst kvs)"
    by (subst sort_key_map) (simp_all add: sort_value_def sort_key_id_if_sorted)
  ultimately show ?case by (simp add: sorted_object)
qed simp_all

lemma sorted_atoms [simp]:
  "sorted_keys v = JStr s \<longleftrightarrow> v = JStr s" "JStr s = sorted_keys v \<longleftrightarrow> v = JStr s"
  by (cases v; auto simp: sorted_object)+

lemma sorted_keys_cases:
  obtains "sorted_keys v = v" | xs where "v = JList xs" | kvs where "v = JObj kvs"
  by (cases v) auto

fun container :: "json \<Rightarrow> bool" where
  "container (JList xs) = True"
| "container (JObj kvs) = True"
| "container j = False"

lemma container_sorted: "container v \<Longrightarrow> container (sorted_keys v)" "\<not> container v \<Longrightarrow> sorted_keys v = v"
  by (cases v; simp add: sorted_object)+

lemma containers_misfit:
  assumes "container v"
  shows "\<not> fits (Text_of lo hi) v" "\<not> fits (Names n ns) v" "\<not> fits Level v" "\<not> fits Flag v" "\<not> fits Number v"
    "\<not> fits Percent v" "\<not> fits Slug v"
proof -
  have "\<not> json_eq v (JInt i)" for i using assms by (subst json_eq.simps) (cases v; simp)
  then show "\<not> fits Level v" by (simp add: fits.simps)
qed (use assms in \<open>cases v; simp add: fits.simps one_of_def is_slug_def is_finite_number_def list_ex_iff\<close>)+

lemma fits_sorted_word:
  "fits (Text_of lo hi) (sorted_keys v) = fits (Text_of lo hi) v" "fits (Names n ns) (sorted_keys v) = fits (Names n ns) v"
  "fits Level (sorted_keys v) = fits Level v" "fits Flag (sorted_keys v) = fits Flag v"
  "fits Number (sorted_keys v) = fits Number v" "fits Percent (sorted_keys v) = fits Percent v"
  "fits Slug (sorted_keys v) = fits Slug v"
  by (cases "container v"; simp add: containers_misfit container_sorted)+

lemma fits_sorted: "fits sh (sorted_keys v) \<longleftrightarrow> fits sh v"
proof (induction sh arbitrary: v)
  case (Record_of fs)
  show ?case
  proof (cases v)
    case (JObj kvs)
    have "list_all (\<lambda>(n, required, sh). case map_of (map sort_value (sort_key fst kvs)) (S n) of
          None \<Rightarrow> \<not> required | Some w \<Rightarrow> fits sh w) fs
      \<longleftrightarrow> list_all (\<lambda>(n, required, sh). case map_of kvs (S n) of None \<Rightarrow> \<not> required | Some w \<Rightarrow> fits sh w) fs"
      using Record_of by (fastforce simp: list_all_iff map_of_sorted_object split: option.splits)
    then show ?thesis
      by (simp add: JObj sorted_object fits.simps list_all_iff sort_value_def split_beta)
  qed simp_all
next
  case (Items_of lo hi sh)
  then show ?case by (rule_tac v = v in sorted_keys_cases) (auto simp: sorted_object fits.simps list_all_iff)
qed (simp_all add: fits_sorted_word)

lemma jlist_sorted: "jlist (sorted_keys v) = map_option (map sorted_keys) (jlist v)"
  by (cases v) (simp_all add: sorted_object)

definition cells_of :: "nat \<Rightarrow> json \<Rightarrow> bool" where
  "cells_of n row \<longleftrightarrow> map_option length (jlist row) = Some n"

lemma cells_of_sorted [simp]: "cells_of n (sorted_keys row) = cells_of n row"
  by (simp add: cells_of_def jlist_sorted option.map_comp comp_def del: map_option_eq_Some)

lemma case_cells_of: "case_json a (\<lambda>_. a) (\<lambda>_. a) (\<lambda>_. a) (\<lambda>_. a) (\<lambda>cells. length cells = n) (\<lambda>_. a) row
    = (if jlist row = None then a else cells_of n row)"
  by (cases row) (simp_all add: cells_of_def)

lemma rows_match_iff:
  "rows_match block \<longleftrightarrow> (case (jlist (jget block (S ''columns'')), jlist (jget block (S ''rows''))) of
     (Some columns, Some rows) \<Rightarrow> list_all (cells_of (length columns)) rows | _ \<Rightarrow> False)"
proof -
  have "(\<lambda>row. case row of JList cells \<Rightarrow> length cells = n | _ \<Rightarrow> False) = cells_of n" for n
    by (rule ext) (simp add: case_cells_of cells_of_def del: map_option_eq_Some)
  then show ?thesis
    unfolding rows_match_def
    by (cases "jget block (S ''columns'')"; cases "jget block (S ''rows'')") (simp_all del: case_prod_eta)
qed

lemma rows_match_sorted: "rows_match (map sort_value (sort_key fst kvs)) \<longleftrightarrow> rows_match kvs"
  unfolding rows_match_iff jget_sorted_object jlist_sorted
  by (auto simp: list_all_iff split: option.splits)

lemma well_shaped_sorted: "well_shaped (sorted_keys v) \<longleftrightarrow> well_shaped v"
proof (cases v)
  case (JObj kvs)
  with fits_sorted [of _ "JObj kvs"] show ?thesis
    by (simp add: sorted_object well_shaped_def jget_sorted_object rows_match_sorted)
qed (simp_all add: well_shaped_def)

lemma case_text_sorted:
  "(case sorted_keys u of JStr s \<Rightarrow> P s | _ \<Rightarrow> q) = (case u of JStr s \<Rightarrow> P s | _ \<Rightarrow> q)"
  by (cases u) (simp_all add: sorted_object)

lemma control_sorted:
  "is_control (sorted_keys v) \<longleftrightarrow> is_control v" "control_id (sorted_keys v) = control_id v"
  by (cases v; simp add: sorted_object is_control_def control_id_def jget_sorted_object case_text_sorted)+

lemma well_formed_sorted: "well_formed_view F (sorted_keys v) \<longleftrightarrow> well_formed_view F v"
proof (cases v)
  case (JList blocks)
  have controls: "map control_id (filter is_control (map sorted_keys bs)) = map control_id (filter is_control bs)" for bs
    by (induction bs) (auto simp: control_sorted)
  have "sorted_keys \<circ> sorted_keys = sorted_keys" by (simp add: fun_eq_iff)
  with controls show ?thesis
    by (simp add: JList well_formed_view_def list_all_iff well_shaped_sorted)
qed (simp_all add: well_formed_view_def sorted_object)

end
