(* ===== verification/WorkspaceActions.thy ===== *)
theory WorkspaceActions
  imports WorkspaceStore StoredViews
begin

text \<open>
  What the action protocol guarantees of the workspace tables. The shape check refuses every
  action whose application could fail; an accepted action either changes the tables it names
  and journals the change, or it is rejected; and the tables stay within their limits: unique
  ids, capped counts, bounded texts and views the interface can render.
\<close>

subsection \<open>Tables within their limits\<close>

definition capped :: "('r \<Rightarrow> str) \<Rightarrow> nat \<Rightarrow> ('r \<Rightarrow> bool) \<Rightarrow> 'r list \<Rightarrow> bool" where
  "capped key cap good rows \<longleftrightarrow> distinct (map key rows) \<and> length rows \<le> cap \<and> list_all good rows"

lemma capped_filter [simp, intro]: "capped key cap good rows \<Longrightarrow> capped key cap good (filter P rows)"
  by (auto simp: capped_def distinct_map_filter list_all_iff intro: le_trans [OF length_filter_le])

lemma capped_insert:
  "capped key cap good rows \<Longrightarrow> key r \<notin> key ` set rows \<Longrightarrow> length rows < cap \<Longrightarrow> good r \<Longrightarrow>
   capped key cap good (rows @ [r])"
  by (auto simp: capped_def)

lemma map_if_key:
  assumes "\<And>r. key (change r) = key r"
  shows "map key (map (\<lambda>r. if P r then change r else r) rows) = map key rows"
  using assms by simp

lemma capped_update:
  assumes "capped key cap good rows" "\<And>r. key (change r) = key r"
    and "\<And>r. r \<in> set rows \<Longrightarrow> good r \<Longrightarrow> P r \<Longrightarrow> good (change r)"
  shows "capped key cap good (map (\<lambda>r. if P r then change r else r) rows)"
  using assms map_if_key [of key change P rows] by (auto simp: capped_def list_all_iff simp del: map_map)

lemma capped_upsert:
  assumes "capped key cap good rows" "\<And>r. key (change r) = key r"
    and "\<And>r. good r \<Longrightarrow> key r = key row \<Longrightarrow> good (change r)" "good row"
    and "key row \<notin> key ` set rows \<longrightarrow> length rows < cap"
  shows "capped key cap good (upsert_row key row change rows)"
proof (cases "key row \<in> key ` set rows")
  case True
  with capped_update [OF assms(1,2), of "\<lambda>r. key r = key row"] assms(3) show ?thesis
    by (simp add: upsert_row_def)
next
  case False
  with assms show ?thesis by (simp add: upsert_row_def capped_insert)
qed

abbreviation slug :: "str \<Rightarrow> bool" where "slug s \<equiv> is_slug (JStr s)"

definition memory_ok :: "memory \<Rightarrow> bool" where
  "memory_ok m \<longleftrightarrow> slug (me_id m) \<and> length (me_content m) \<le> MEMORY_CONTENT_LIMIT"

definition tool_ok :: "tool_row \<Rightarrow> bool" where
  "tool_ok t \<longleftrightarrow> slug (tl_id t) \<and> length (tl_title t) \<le> TITLE_LIMIT \<and> length (tl_note t) \<le> TOOL_NOTE_LIMIT
     \<and> tl_priority t \<in> set (map S TOOL_PRIORITIES) \<and> tl_status t \<in> set (map S TOOL_STATUSES)"

definition stamp_ok :: "str option \<Rightarrow> bool" where
  "stamp_ok t \<longleftrightarrow> (case t of None \<Rightarrow> True | Some s \<Rightarrow> length s \<le> 21)"

definition artifact_ok :: "(rat option \<Rightarrow> str) \<Rightarrow> artifact \<Rightarrow> bool" where
  "artifact_ok F a \<longleftrightarrow> slug (ar_id a) \<and> length (ar_title a) \<le> TITLE_LIMIT
     \<and> length (json_text F (ar_data a)) \<le> DATA_LIMIT
     \<and> (case ar_view a of None \<Rightarrow> True | Some v \<Rightarrow> well_formed_view F v) \<and> length (ar_updated a) \<le> 21"

definition schedule_ok :: "schedule \<Rightarrow> bool" where
  "schedule_ok s \<longleftrightarrow> slug (sc_id s) \<and> length (sc_title s) \<le> TITLE_LIMIT \<and> length (sc_prompt s) \<le> SCHEDULE_PROMPT_LIMIT
     \<and> (case sc_every s of None \<Rightarrow> True | Some n \<Rightarrow> SCHEDULE_MIN_MINUTES \<le> n \<and> n \<le> SCHEDULE_MAX_MINUTES)
     \<and> (sc_enabled s \<longrightarrow> sc_every s = None \<longrightarrow> sc_next s \<noteq> None) \<and> stamp_ok (sc_next s)"

definition workspace_ok :: "workspace option \<Rightarrow> bool" where
  "workspace_ok w \<longleftrightarrow> (case w of None \<Rightarrow> True
     | Some w \<Rightarrow> length (ws_goal w) \<le> GOAL_LIMIT \<and> length (ws_measurement w) \<le> MEASUREMENT_LIMIT)"

definition tables_ok :: "(rat option \<Rightarrow> str) \<Rightarrow> workspace_db \<Rightarrow> bool" where
  "tables_ok F d \<longleftrightarrow> capped me_id MAX_MEMORIES memory_ok (memories d)
     \<and> capped tl_id MAX_TOOLS tool_ok (tool_rows d)
     \<and> capped ar_id MAX_ARTIFACTS (artifact_ok F) (artifacts d)
     \<and> capped sc_id MAX_SCHEDULES schedule_ok (schedules d)
     \<and> workspace_ok (the_workspace d)"

lemma tables_okD:
  "tables_ok F d \<Longrightarrow> capped me_id MAX_MEMORIES memory_ok (memories d)"
  "tables_ok F d \<Longrightarrow> capped tl_id MAX_TOOLS tool_ok (tool_rows d)"
  "tables_ok F d \<Longrightarrow> capped ar_id MAX_ARTIFACTS (artifact_ok F) (artifacts d)"
  "tables_ok F d \<Longrightarrow> capped sc_id MAX_SCHEDULES schedule_ok (schedules d)"
  "tables_ok F d \<Longrightarrow> workspace_ok (the_workspace d)"
  by (auto simp: tables_ok_def)

lemma tables_ok_update [simp]:
  "tables_ok F (d\<lparr>messages := ms\<rparr>) = tables_ok F d"
  "tables_ok F (d\<lparr>runs := rs\<rparr>) = tables_ok F d"
  "tables_ok F (d\<lparr>next_message := i\<rparr>) = tables_ok F d"
  "tables_ok F (d\<lparr>next_run := j\<rparr>) = tables_ok F d"
  by (simp_all add: tables_ok_def)

lemma tables_ok_parts:
  "tables_ok F d \<Longrightarrow> capped me_id MAX_MEMORIES memory_ok ms \<Longrightarrow> tables_ok F (d\<lparr>memories := ms\<rparr>)"
  "tables_ok F d \<Longrightarrow> capped tl_id MAX_TOOLS tool_ok ts \<Longrightarrow> tables_ok F (d\<lparr>tool_rows := ts\<rparr>)"
  "tables_ok F d \<Longrightarrow> capped ar_id MAX_ARTIFACTS (artifact_ok F) as \<Longrightarrow> tables_ok F (d\<lparr>artifacts := as\<rparr>)"
  "tables_ok F d \<Longrightarrow> capped sc_id MAX_SCHEDULES schedule_ok ss \<Longrightarrow> tables_ok F (d\<lparr>schedules := ss\<rparr>)"
  "tables_ok F d \<Longrightarrow> workspace_ok w \<Longrightarrow> tables_ok F (d\<lparr>the_workspace := w\<rparr>)"
  by (simp_all add: tables_ok_def)

subsection \<open>What the shape check establishes\<close>

definition text_of :: "action_fields \<Rightarrow> string \<Rightarrow> str option" where
  "text_of action key = Option.bind (map_of action (S key)) jstr"

abbreviation has_text :: "action_fields \<Rightarrow> string \<Rightarrow> bool" where
  "has_text action key \<equiv> text_of action key \<noteq> None"

abbreviation text_in :: "action_fields \<Rightarrow> string \<Rightarrow> str" where
  "text_in action key \<equiv> the (text_of action key)"

definition int_of :: "action_fields \<Rightarrow> string \<Rightarrow> int option" where
  "int_of action key = (case map_of action (S key) of Some (JInt n) \<Rightarrow> Some n | _ \<Rightarrow> None)"

lemma check_text_none:
  "check_text action key n allow = None \<longleftrightarrow>
     has_text action key \<and> length (text_in action key) \<le> n \<and> (allow \<or> strip (text_in action key) \<noteq> [])"
  by (auto simp: check_text_def text_of_def jget_def split: json.splits option.splits)

lemma check_slug_none: "check_slug action key = None \<longleftrightarrow> has_text action key \<and> slug (text_in action key)"
  by (auto simp: check_slug_def text_of_def jget_def is_slug_def split: json.splits option.splits)

lemma if_given_none: "if_given action key e = None \<longleftrightarrow> (has_key action (S key) \<longrightarrow> e = None)"
  by (simp add: if_given_def)

lemma one_of_none:
  "one_of names (jget action (S key)) \<longleftrightarrow> has_text action key \<and> text_in action key \<in> set (map S names)"
  by (auto simp: one_of_def text_of_def jget_def list_ex_iff split: option.splits json.splits)

lemmas shape_simps = check_text_none check_slug_none if_given_none one_of_none

lemma wp_text_field [wp_simps]:
  "wp (text_field action key) Q s \<longleftrightarrow> has_text action key \<and> Q (text_in action key) s"
  by (auto simp: text_field_def text_of_def wp_simps split: option.splits json.splits)

lemma wp_text_field_or [wp_simps]:
  "wp (text_field_or action key x) Q s \<longleftrightarrow>
     (if has_key action (S key) then has_text action key \<and> Q (strip (text_in action key)) s else Q x s)"
  by (simp add: text_field_or_def wp_simps)

lemma wp_int_field [wp_simps]:
  "wp (int_field action key) Q s \<longleftrightarrow> int_of action key \<noteq> None \<and> Q (the (int_of action key)) s"
  by (auto simp: int_field_def int_of_def wp_simps split: option.splits json.splits)

lemma wp_insert_message [wp_simps]:
  "wp (insert_message role content meta created) Q s \<longleftrightarrow>
     Q (next_message s) (s\<lparr>messages := messages s @ [\<lparr>ms_id = next_message s, ms_role = S role, ms_content = content,
         ms_meta = meta, ms_created = created\<rparr>], next_message := next_message s + 1\<rparr>)"
  by (simp add: insert_message_def wp_def)

lemma wp_journal:
  "(\<And>ms i. Q None (s\<lparr>messages := ms, next_message := i\<rparr>)) \<Longrightarrow> wp (journal content name kvs now) Q s"
  by (simp add: journal_def insert_event_def wp_simps)

lemma wp_reject [wp_simps]: "wp (reject reason) Q s \<longleftrightarrow> Q (Some reason) s"
  by (simp add: reject_def wp_simps)

lemma wp_set_workspace [wp_simps]:
  "wp (set_workspace f) Q s \<longleftrightarrow> Q () (s\<lparr>the_workspace := map_option f (the_workspace s)\<rparr>)"
  by (simp add: set_workspace_def wp_simps)

lemma stripped: "length s \<le> n \<Longrightarrow> length (strip s) \<le> n"
  using strip_length [of s] by linarith

subsection \<open>Verb by verb\<close>

abbreviation safe :: "(rat option \<Rightarrow> str) \<Rightarrow> str option ws_txn \<Rightarrow> workspace_db \<Rightarrow> bool" where
  "safe F m d \<equiv> wp m (\<lambda>_. tables_ok F) d"

lemmas verb_intros = wp_journal tables_ok_parts capped_upsert capped_insert capped_filter

lemma set_goal_safe:
  assumes "tables_ok F d" "check_text action ''goal'' GOAL_LIMIT True = None"
  shows "safe F (apply_set_goal action now) d"
  using assms tables_okD(5) [OF assms(1)]
  by (auto simp: apply_set_goal_def shape_simps wp_simps workspace_ok_def stripped split: option.splits
      intro!: verb_intros)

lemma set_measurement_safe:
  assumes "tables_ok F d" "check_text action ''measurement'' MEASUREMENT_LIMIT True = None"
  shows "safe F (apply_set_measurement action now) d"
  using assms tables_okD(5) [OF assms(1)]
  by (auto simp: apply_set_measurement_def shape_simps wp_simps workspace_ok_def stripped split: option.splits
      intro!: verb_intros)

lemma remember_safe:
  assumes "tables_ok F d" "check_slug action ''memory_id'' = None"
    and "check_text action ''content'' MEMORY_CONTENT_LIMIT False = None"
  shows "safe F (apply_remember action now) d"
  using assms tables_okD(1) [OF assms(1)]
  by (auto simp: apply_remember_def shape_simps wp_simps memory_ok_def stripped not_le intro!: verb_intros)

lemma forget_safe:
  assumes "tables_ok F d" "check_slug action ''memory_id'' = None"
  shows "safe F (apply_forget action now) d"
  using assms tables_okD(1) [OF assms(1)]
  by (auto simp: apply_forget_def shape_simps wp_simps intro!: verb_intros)

lemma upsert_tool_safe:
  assumes "tables_ok F d" "upsert_tool_error action = None"
  shows "safe F (apply_upsert_tool action now) d"
  using assms tables_okD(2) [OF assms(1)]
  by (auto simp: apply_upsert_tool_def upsert_tool_error_def shape_simps wp_simps tool_ok_def stripped not_le Let_def
      split: if_splits intro!: verb_intros)

lemma wp_delete_row [wp_simps]:
  "wp (delete_tool k) Q d \<longleftrightarrow> Q (title_of tl_id tl_title k (tool_rows d))
     (d\<lparr>tool_rows := filter (\<lambda>t. tl_id t \<noteq> k) (tool_rows d)\<rparr>)"
  "wp (delete_artifact k) Q d \<longleftrightarrow> Q (title_of ar_id ar_title k (artifacts d))
     (d\<lparr>artifacts := filter (\<lambda>a. ar_id a \<noteq> k) (artifacts d)\<rparr>)"
  "wp (delete_schedule k) Q d \<longleftrightarrow> Q (title_of sc_id sc_title k (schedules d))
     (d\<lparr>schedules := filter (\<lambda>s. sc_id s \<noteq> k) (schedules d)\<rparr>)"
  by (simp_all add: delete_tool_def delete_artifact_def delete_schedule_def wp_def)

lemma delete_error_none:
  "delete_error action key = None \<longleftrightarrow> check_fields action [key] [] = None \<and> check_slug action key = None"
  by (simp add: delete_error_def)

lemma delete_tool_safe:
  assumes "tables_ok F d" "delete_error action ''tool_id'' = None"
  shows "safe F (apply_delete_tool action now) d"
  using assms tables_okD(2) [OF assms(1)]
  by (auto simp: apply_delete_tool_def delete_error_none shape_simps wp_simps split: option.splits intro!: verb_intros)

lemma delete_artifact_safe:
  assumes "tables_ok F d" "delete_error action ''artifact_id'' = None"
  shows "safe F (apply_delete_artifact action now) d"
  using assms tables_okD(3) [OF assms(1)]
  by (auto simp: apply_delete_artifact_def delete_error_none shape_simps wp_simps split: option.splits
      intro!: verb_intros)

lemma delete_schedule_safe:
  assumes "tables_ok F d" "delete_error action ''schedule_id'' = None"
  shows "safe F (apply_delete_schedule action now) d"
  using assms tables_okD(4) [OF assms(1)]
  by (auto simp: apply_delete_schedule_def delete_error_none shape_simps wp_simps split: option.splits
      intro!: verb_intros)

text \<open>Artifacts.\<close>

lemma check_data_none:
  assumes "check_data F action = None"
  shows "length (json_text F (sorted_keys (jget action (S ''data'')))) \<le> DATA_LIMIT"
    and "map_of action (S ''data'') = Some v \<Longrightarrow> length (json_text F (sorted_keys v)) \<le> DATA_LIMIT"
  using assms by (auto simp: check_data_def jget_def DATA_LIMIT_def split: option.splits if_splits)

lemma check_view_none:
  assumes "check_view F R action allow = None" "map_of action (S ''view'') = Some v" "v \<noteq> JNull"
  shows "well_formed_view F (sorted_keys v)"
  using assms by (auto simp: check_view_def validate_view_none well_formed_sorted)

lemma create_artifact_safe:
  assumes "tables_ok F d" "create_artifact_error F R action = None" "length now \<le> 21"
  shows "safe F (apply_create_artifact action now) d"
proof -
  from assms(2) have parts: "has_text action ''artifact_id''" "slug (text_in action ''artifact_id'')"
      "has_text action ''title''" "length (text_in action ''title'') \<le> TITLE_LIMIT"
    and data: "check_data F action = None" and view: "check_view F R action False = None"
    by (auto simp: create_artifact_error_def shape_simps)
  have stored: "well_formed_view F (sorted_keys (jget action (S ''view'')))" if "jget action (S ''view'') \<noteq> JNull"
    using check_view_none [OF view] that by (auto simp: jget_def split: option.splits)
  show ?thesis
    using parts assms(1,3) tables_okD(3) [OF assms(1)] check_data_none(1) [OF data] stored
    by (auto simp: apply_create_artifact_def wp_simps artifact_ok_def stripped not_le simp del: sorted_keys.simps
        intro!: verb_intros)
qed

lemma title_of_Some: "title_of key title k rows = Some t \<Longrightarrow> \<exists>r \<in> set rows. key r = k \<and> title r = t"
  by (auto simp: title_of_def dest: find_first_Some)

lemma update_artifact_safe:
  assumes "tables_ok F d" "update_artifact_error F R action = None" "length now \<le> 21"
  shows "safe F (apply_update_artifact action now) d"
proof -
  from assms(2) have parts: "has_text action ''artifact_id''"
      "has_key action (S ''title'') \<Longrightarrow> has_text action ''title'' \<and> length (text_in action ''title'') \<le> TITLE_LIMIT"
    and data: "check_data F action = None" and view: "check_view F R action True = None"
    by (auto simp: update_artifact_error_def shape_simps split: if_splits)
  have d: "capped ar_id MAX_ARTIFACTS (artifact_ok F) (artifacts d)" by (rule tables_okD(3) [OF assms(1)])
  have old: "length t \<le> TITLE_LIMIT" if "title_of ar_id ar_title i (artifacts d) = Some t" for i t
    using title_of_Some [OF that] d by (auto simp: capped_def list_all_iff artifact_ok_def)
  show ?thesis
    using parts assms(1,3) d old check_data_none(2) [OF data] check_view_none [OF view]
    by (auto simp: apply_update_artifact_def wp_simps artifact_ok_def stripped
        simp del: sorted_keys.simps split: option.splits intro!: wp_journal tables_ok_parts capped_update)
qed

text \<open>Schedules. The clock is taken to read a time within the next tens of thousands of years.\<close>

definition sane_clock :: "int \<Rightarrow> bool" where
  "sane_clock clock \<longleftrightarrow> 0 \<le> clock \<and> clock < 10 ^ 12"

lemma stamps:
  assumes "sane_clock clock"
  shows "SCHEDULE_MIN_MINUTES \<le> every \<Longrightarrow> every \<le> SCHEDULE_MAX_MINUTES \<Longrightarrow>
      stamp_ok (Some (format_utc (clock + every * 60)))"
    and "parse_utc t = Some e \<Longrightarrow> stamp_ok (Some (format_utc (max e clock)))"
  using assms parse_utc_bound [of t e] stamp_length [of "clock + every * 60"] stamp_length [of "max e clock"]
  by (auto simp: stamp_ok_def sane_clock_def SCHEDULE_MIN_MINUTES_def SCHEDULE_MAX_MINUTES_def)

lemma cadence_none:
  "check_cadence action required = None \<longleftrightarrow>
     (if has_key action (S ''every_minutes'')
      then \<not> has_key action (S ''at'') \<and> (\<exists>n. int_of action ''every_minutes'' = Some n
        \<and> SCHEDULE_MIN_MINUTES \<le> n \<and> n \<le> SCHEDULE_MAX_MINUTES)
      else if has_key action (S ''at'') then \<exists>t e. text_of action ''at'' = Some t \<and> parse_utc t = Some e
      else \<not> required)"
  by (auto simp: check_cadence_def has_key_def int_of_def text_of_def split: option.splits json.splits if_splits)

lemma wp_initial_next_run [wp_simps]:
  "wp (initial_next_run action clock) Q s \<longleftrightarrow>
     (if has_key action (S ''every_minutes'')
      then int_of action ''every_minutes'' \<noteq> None
        \<and> Q (format_utc (clock + the (int_of action ''every_minutes'') * 60)) s
      else has_text action ''at'' \<and> (case parse_utc (text_in action ''at'') of None \<Rightarrow> False
        | Some e \<Rightarrow> Q (format_utc (max e clock)) s))"
  by (auto simp: initial_next_run_def wp_simps split: option.splits)

lemma wp_int_field_or_none [wp_simps]:
  "wp (int_field_or_none action key) Q s \<longleftrightarrow>
     (if jget action (S key) = JNull then Q None s else int_of action key \<noteq> None \<and> Q (int_of action key) s)"
  by (auto simp: int_field_or_none_def wp_simps)

lemma create_schedule_safe:
  assumes "tables_ok F d" "sane_clock clock" "create_schedule_error action = None"
  shows "safe F (apply_create_schedule action now clock) d"
proof -
  from assms(3) have parts: "has_text action ''schedule_id''" "slug (text_in action ''schedule_id'')"
      "has_text action ''title''" "length (text_in action ''title'') \<le> TITLE_LIMIT"
      "has_text action ''prompt''" "length (text_in action ''prompt'') \<le> SCHEDULE_PROMPT_LIMIT"
    and cadence: "check_cadence action True = None"
    by (auto simp: create_schedule_error_def shape_simps)
  have "jget action (S ''every_minutes'') = JNull \<longleftrightarrow> \<not> has_key action (S ''every_minutes'')"
    using cadence by (auto simp: cadence_none jget_def has_key_def int_of_def split: option.splits json.splits)
  then show ?thesis
    using parts assms(1) tables_okD(4) [OF assms(1)] cadence stamps [OF assms(2)]
    by (auto simp: apply_create_schedule_def wp_simps schedule_ok_def stripped not_le cadence_none
        split: if_splits intro!: verb_intros)
qed

text \<open>What an update computes for the timing of a schedule.\<close>

definition timing_ok :: "int option \<Rightarrow> str option \<Rightarrow> bool" where
  "timing_ok every next \<longleftrightarrow> stamp_ok next
     \<and> (case every of None \<Rightarrow> True | Some n \<Rightarrow> SCHEDULE_MIN_MINUTES \<le> n \<and> n \<le> SCHEDULE_MAX_MINUTES)"

lemma wp_updated_timing:
  assumes "schedule_ok row" "sane_clock clock" "check_cadence action False = None"
    and "\<And>every next enabled. timing_ok every next \<Longrightarrow> Q (every, next, enabled) s"
  shows "wp (updated_timing action clock row) Q s"
  using assms(1,3,4) stamps [OF assms(2)]
  by (auto simp: updated_timing_def wp_simps cadence_none schedule_ok_def timing_ok_def Let_def split: if_splits)

lemma update_schedule_safe:
  assumes "tables_ok F d" "sane_clock clock" "update_schedule_error action = None"
  shows "safe F (apply_update_schedule action now clock) d"
proof -
  from assms(3) have parts: "has_text action ''schedule_id''"
      "has_key action (S ''title'') \<Longrightarrow> has_text action ''title'' \<and> length (text_in action ''title'') \<le> TITLE_LIMIT"
      "has_key action (S ''prompt'') \<Longrightarrow> has_text action ''prompt'' \<and> length (text_in action ''prompt'') \<le> SCHEDULE_PROMPT_LIMIT"
    and cadence: "check_cadence action False = None"
    by (auto simp: update_schedule_error_def shape_simps split: if_splits)
  have d: "capped sc_id MAX_SCHEDULES schedule_ok (schedules d)" by (rule tables_okD(4) [OF assms(1)])
  have row: "schedule_ok s" if "find_first P (schedules d) = Some s" for P s
    using find_first_Some [OF that] d by (auto simp: capped_def list_all_iff)
  show ?thesis
    using parts assms(1) d row
    by (auto simp: apply_update_schedule_def wp_simps schedule_ok_def timing_ok_def stripped
        split: option.splits intro!: wp_updated_timing [OF _ assms(2) cadence] wp_journal tables_ok_parts capped_update)
qed

subsection \<open>The whole protocol\<close>

lemma action_safe:
  assumes "validate_action_shape F R action = None" "tables_ok F d" "sane_clock clock" "length now \<le> 21"
  shows "safe F (apply_action R action now clock) d"
proof -
  note rules = set_goal_safe set_measurement_safe remember_safe forget_safe upsert_tool_safe delete_tool_safe
    create_artifact_safe update_artifact_safe delete_artifact_safe create_schedule_safe update_schedule_safe
    delete_schedule_safe
  show ?thesis
    using assms unfolding validate_action_shape_def apply_action_def Let_def
    by (auto simp: delete_error_none intro: rules split: if_splits)
qed


definition empty_workspace :: workspace_db where
  "empty_workspace = \<lparr>the_workspace = None, messages = [], runs = [], schedules = [], artifacts = [],
     memories = [], tool_rows = [], next_message = 1, next_run = 1\<rparr>"


end
