(* ===== verification/WorkspaceApi.thy ===== *)
theory WorkspaceApi
  imports WorkspaceActions Config
begin

text \<open>
  The operations of a workspace app (\<open>workspace_kit/engine.py\<close>), each one database transaction:
  activation and deactivation, the messages and artifact interactions of the operator, the
  agent settings, the edits from the panels, and the journaled actions of the agent. \<open>now\<close> is
  the time stamp an operation takes and \<open>clock\<close> the second \<open>time.time()\<close> reads. The text of an
  \<open>AppError\<close> is left out, its status is kept. Transactions are taken one after the other, and
  one that fails gives back the ids it drew.
\<close>

definition WORKSPACE_THREAD_PREFIX :: str where "WORKSPACE_THREAD_PREFIX = S ''ws-''"
definition USER_MESSAGE_LIMIT :: nat where "USER_MESSAGE_LIMIT = 20000"
definition MAX_QUEUED_CHAT_TURNS :: nat where "MAX_QUEUED_CHAT_TURNS = 20"
definition MAX_ACTIONS_PER_TURN :: int where "MAX_ACTIONS_PER_TURN = 16"

abbreviation forbidden :: fault where "forbidden \<equiv> Api_error 403"
abbreviation unprocessable :: fault where "unprocessable \<equiv> Api_error 422"
abbreviation too_many_requests :: fault where "too_many_requests \<equiv> Api_error 429"

definition workspace_thread :: "workspace \<Rightarrow> str" where
  "workspace_thread w = WORKSPACE_THREAD_PREFIX @ str_of_int (ws_thread_seq w)"

definition workspace_runtime :: "str option ws_txn" where
  "workspace_runtime = select (\<lambda>d. Option.bind (the_workspace d) (\<lambda>w. map_option fst (ws_settings w)))"

definition update_runs :: "(run \<Rightarrow> bool) \<Rightarrow> (run \<Rightarrow> run) \<Rightarrow> unit ws_txn" where
  "update_runs P f = modify (\<lambda>d. d\<lparr>runs := map (\<lambda>r. if P r then f r else r) (runs d)\<rparr>)"

definition finish :: "string \<Rightarrow> str \<Rightarrow> run \<Rightarrow> run" where
  "finish host_status now r = r\<lparr>rn_status := Run_done, rn_host_status := Some (S host_status), rn_updated := now\<rparr>"

definition insert_run :: "run_kind \<Rightarrow> int option \<Rightarrow> str option \<Rightarrow> str \<Rightarrow> int ws_txn" where
  "insert_run kind message_id schedule_id now = (\<lambda>d. Inr (next_run d,
     d\<lparr>runs := runs d @ [\<lparr>rn_id = next_run d, rn_kind = kind, rn_status = Run_pending, rn_task = None,
         rn_host_status = None, rn_thread = None, rn_runtime = None, rn_message = message_id,
         rn_schedule = schedule_id, rn_error = None, rn_created = now, rn_updated = now\<rparr>],
       next_run := next_run d + 1\<rparr>))"

subsection \<open>The agent\<close>

definition active_task_for_agent_thread :: "str \<Rightarrow> str ws_txn" where
  "active_task_for_agent_thread thread_id =
     bind_txn (select the_workspace) (\<lambda>w.
     then_txn (require (case w of None \<Rightarrow> False | Some w \<Rightarrow> thread_id = workspace_thread w) forbidden)
     (bind_txn (select (\<lambda>d. find_first (\<lambda>r. rn_status r = Run_active \<and> rn_thread r = Some thread_id
          \<and> rn_task r \<noteq> None) (runs d))) (\<lambda>active.
      case active of None \<Rightarrow> abort forbidden | Some r \<Rightarrow> ok (the (rn_task r)))))"

definition verify_task_authority :: "str \<Rightarrow> unit ws_txn" where
  "verify_task_authority task_id =
     bind_txn (select the_workspace) (\<lambda>w.
     bind_txn (select (\<lambda>d. find_first (\<lambda>r. rn_task r = Some task_id \<and> rn_status r = Run_active) (runs d))) (\<lambda>run.
     require (case (w, run) of (Some w, Some r) \<Rightarrow> rn_thread r = Some (workspace_thread w) | _ \<Rightarrow> False) forbidden))"

text \<open>
  The budget of a turn: the count of its actions up to now, and whether this call is the one
  that records its exhaustion. A count of 17 says that the exhaustion is recorded.
\<close>

definition count_action :: "(str, int) dict \<Rightarrow> str \<Rightarrow> int \<times> (str, int) dict" where
  "count_action counts task_id =
     (let used = dict_get_or counts task_id 0
      in (used, if used \<le> MAX_ACTIONS_PER_TURN then AList.update task_id (used + 1) counts else counts))"

definition record_exhaustion :: "str \<Rightarrow> int ws_txn" where
  "record_exhaustion now = insert_message ''error''
     (S ''Action rejected: action budget exhausted (16 per turn)'') (Some (meta_of ''budget_exhausted'' [])) now"

text \<open>The failed attempt to record it takes the mark back, if the turn is still there.\<close>

definition uncount_exhaustion :: "(str, int) dict \<Rightarrow> str \<Rightarrow> (str, int) dict" where
  "uncount_exhaustion counts task_id =
     (if map_of counts task_id = Some (MAX_ACTIONS_PER_TURN + 1)
      then AList.update task_id MAX_ACTIONS_PER_TURN counts else counts)"

text \<open>A rejected action leaves one error message and nothing else.\<close>

definition journal_rejection :: "action_fields \<Rightarrow> str \<Rightarrow> str \<Rightarrow> str option ws_txn" where
  "journal_rejection action error now =
     (let bounded = bounded_action_error error
      in then_txn (insert_message ''error'' (S ''Action rejected: '' @ bounded)
           (Some [(S ''action'', JStr (action_label action))]) now) (ok (Some bounded)))"

text \<open>\<open>SAVEPOINT\<close>, the block, and \<open>ROLLBACK TO SAVEPOINT\<close> when it returned an error.\<close>

definition with_savepoint :: "str option ws_txn \<Rightarrow> str option ws_txn" where
  "with_savepoint m = (\<lambda>d. case m d of
     Inl f \<Rightarrow> Inl f
   | Inr (None, d') \<Rightarrow> Inr (None, d')
   | Inr (Some error, d') \<Rightarrow> Inr (Some error, d))"

text \<open>The transaction of one agent action; the reason of its rejection becomes the 422 of the call.\<close>

definition agent_action_txn ::
  "(rat option \<Rightarrow> str) \<Rightarrow> (json \<Rightarrow> str) \<Rightarrow> action_fields \<Rightarrow> str \<Rightarrow> str \<Rightarrow> int \<Rightarrow> str option ws_txn" where
  "agent_action_txn F R action task_id now clock =
     then_txn (verify_task_authority task_id)
       (case validate_action_shape F R action of
          Some error \<Rightarrow> journal_rejection action error now
        | None \<Rightarrow>
            bind_txn (with_savepoint (apply_action R action now clock)) (\<lambda>error.
              case error of None \<Rightarrow> ok None | Some e \<Rightarrow> journal_rejection action e now))"

definition is_action_body :: "json \<Rightarrow> bool" where
  "is_action_body body = (case body of
     JObj kvs \<Rightarrow> (case jget kvs (S ''action'') of JStr s \<Rightarrow> True | _ \<Rightarrow> False) | _ \<Rightarrow> False)"

subsection \<open>Activation\<close>

definition settings_fields :: "str list" where
  "settings_fields = map S [''agent_runtime'', ''model'', ''effort'']"

definition object_of :: "json \<Rightarrow> (str \<times> json) list ws_txn" where
  "object_of body = (case body of JObj kvs \<Rightarrow> ok kvs | _ \<Rightarrow> abort bad_request)"

text \<open>A runtime that is a list or an object cannot be looked up at all.\<close>

definition session_settings :: "(str \<times> json) list \<Rightarrow> (str \<times> str \<times> str) ws_txn" where
  "session_settings kvs =
     (case jget kvs (S ''agent_runtime'') of
        JStr runtime \<Rightarrow>
          (case session_config_error runtime (jget kvs (S ''model'')) (jget kvs (S ''effort'')) of
             Some _ \<Rightarrow> abort bad_request
           | None \<Rightarrow>
               (case (jget kvs (S ''model''), jget kvs (S ''effort'')) of
                  (JStr model, JStr effort) \<Rightarrow> ok (runtime, model, effort)
                | _ \<Rightarrow> abort (Raised AssertionError)))
      | JList _ \<Rightarrow> abort (Raised TypeError)
      | JObj _ \<Rightarrow> abort (Raised TypeError)
      | _ \<Rightarrow> abort bad_request)"

definition DREAM_SCHEDULE_ID :: str where "DREAM_SCHEDULE_ID = S ''dream_cycle''"
definition DREAM_HOUR_UTC :: int where "DREAM_HOUR_UTC = 3"

definition DREAM_PROMPT :: str where
  "DREAM_PROMPT = S ''Nightly dream cycle: clean up and reorganize this workspace's memory.'' @ [10]
   @ S ''Review every memory in the digest: merge duplicates, drop stale or incorrect entries,'' @ [10]
   @ S ''rewrite unclear ones so each is one small self-contained fact (under 300 characters), and'' @ [10]
   @ S ''add memories for anything important from recent work that is not yet recorded. Keep the'' @ [10]
   @ S ''tools inventory and the goal/measurement honest while you are at it. Finish with a short'' @ [10]
   @ S ''summary of what changed; if nothing needs changing, say so and change nothing.''"

definition next_dream_epoch :: "int \<Rightarrow> int" where
  "next_dream_epoch clock =
     (case gmtime clock of (y, m, d, _) \<Rightarrow>
        let today = timegm (y, m, d, DREAM_HOUR_UTC, 0, 0)
        in if clock < today then today else today + 24 * 3600)"

definition seed :: "str \<Rightarrow> int \<Rightarrow> unit ws_txn" where
  "seed now clock =
     then_txn (modify (\<lambda>d. if DREAM_SCHEDULE_ID \<in> set (map sc_id (schedules d)) then d
         else d\<lparr>schedules := schedules d @ [\<lparr>sc_id = DREAM_SCHEDULE_ID, sc_title = S ''Dream cycle'',
           sc_prompt = DREAM_PROMPT, sc_every = Some (24 * 60), sc_next = Some (format_utc (next_dream_epoch clock)),
           sc_enabled = True, sc_last_run = None, sc_created = now, sc_updated = now\<rparr>]\<rparr>))
     (then_txn (insert_event (S ''Scheduled the nightly dream cycle (memory cleanup at 03:00 UTC) '' @ [0x2014]
         @ S '' pause, edit, or delete it in Schedules'')
         (meta_of ''create_schedule'' [(''schedule_id'', DREAM_SCHEDULE_ID)]) now) (ok ()))"

definition ensure_workspace_can_activate :: "unit ws_txn" where
  "ensure_workspace_can_activate =
     bind_txn (select runs) (\<lambda>rs. require (\<not> list_ex (\<lambda>r. rn_status r = Run_active) rs) conflict)"

text \<open>The schema admits three runtimes.\<close>

definition ensure_workspace :: "str \<times> str \<times> str \<Rightarrow> str \<Rightarrow> int \<Rightarrow> unit ws_txn" where
  "ensure_workspace settings now clock =
     then_txn (require (fst settings \<in> set (map S [''codex'', ''claude_code'', ''hermes''])) constraint_violation)
     (bind_txn (select the_workspace) (\<lambda>old.
      case old of
        None \<Rightarrow> then_txn (modify (\<lambda>d. d\<lparr>the_workspace := Some \<lparr>ws_settings = Some settings, ws_thread_seq = 1,
            ws_goal = [], ws_measurement = [], ws_created = now, ws_updated = now\<rparr>\<rparr>)) (seed now clock)
      | Some _ \<Rightarrow> set_workspace (\<lambda>w. w\<lparr>ws_settings := Some settings, ws_updated := now\<rparr>)))"

definition is_text :: "json \<Rightarrow> bool" where
  "is_text v = (jstr v \<noteq> None)"

definition activate_workspace :: "json \<Rightarrow> str \<Rightarrow> int \<Rightarrow> unit ws_txn" where
  "activate_workspace body now clock =
     bind_txn (object_of body) (\<lambda>kvs.
     then_txn (require (missing_keys settings_fields kvs = [] \<and> extra_keys_of settings_fields kvs = []
         \<and> list_all (\<lambda>k. is_text (jget kvs k)) settings_fields) bad_request)
     (bind_txn (session_settings kvs) (\<lambda>settings.
      bind_txn workspace_runtime (\<lambda>runtime.
      then_txn (require (runtime = None) conflict)
      (then_txn ensure_workspace_can_activate (ensure_workspace settings now clock))))))"

text \<open>
  Deactivation answers with the runs whose dispatch it dropped and the tasks the host is then
  asked to stop; without a workspace there is nothing to do.
\<close>

definition deactivate_workspace :: "json \<Rightarrow> str \<Rightarrow> (int list \<times> str list) option ws_txn" where
  "deactivate_workspace body now =
     then_txn (require (body = JNull \<or> body = JObj []) bad_request)
     (bind_txn (select the_workspace) (\<lambda>workspace.
      case workspace of
        None \<Rightarrow> ok None
      | Some w \<Rightarrow>
          bind_txn (select runs) (\<lambda>rs.
          (let pending = map rn_id (filter (\<lambda>r. rn_status r = Run_pending) rs);
               tasks = concat (map (\<lambda>r. case rn_task r of None \<Rightarrow> [] | Some t \<Rightarrow> [t])
                  (filter (\<lambda>r. rn_status r = Run_active) rs))
           in then_txn (modify (\<lambda>d. d\<lparr>schedules := map (\<lambda>s. if sc_enabled s
                  then s\<lparr>sc_enabled := False, sc_updated := now\<rparr> else s) (schedules d)\<rparr>))
              (then_txn (update_runs (\<lambda>r. rn_status r = Run_pending) (finish ''deactivated'' now))
              (then_txn (if ws_settings w = None then ok ()
                  else then_txn (set_workspace (\<lambda>w. w\<lparr>ws_settings := None, ws_thread_seq := ws_thread_seq w + 1,
                         ws_updated := now\<rparr>))
                    (then_txn (insert_event (S ''Deactivated the app; schedules paused and queued work stopped'')
                       (meta_of ''deactivate'' []) now) (ok ())))
              (ok (Some (pending, tasks)))))))))"

subsection \<open>Human input\<close>

text \<open>
  The message, its run, and the running task that may take the message as a steer: only while
  no other chat turn waits.
\<close>

definition queue_human_input ::
  "str \<Rightarrow> (str \<times> json) list option \<Rightarrow> str \<Rightarrow> (int \<times> int \<times> str option) ws_txn" where
  "queue_human_input content meta now =
     bind_txn (select runs) (\<lambda>rs.
     then_txn (require (length (filter (\<lambda>r. rn_status r \<noteq> Run_done \<and> rn_kind r = Chat_run) rs)
         < MAX_QUEUED_CHAT_TURNS) conflict)
     (bind_txn (insert_message ''user'' content meta now) (\<lambda>message_id.
      bind_txn (insert_run Chat_run (Some message_id) None now) (\<lambda>run_id.
      ok (message_id, run_id,
        if list_ex (\<lambda>r. rn_status r = Run_pending \<and> rn_kind r = Chat_run) rs then None
        else map_option (\<lambda>r. case rn_task r of Some t \<Rightarrow> t | None \<Rightarrow> S ''None'')
          (find_first (\<lambda>r. rn_status r = Run_active \<and> rn_host_status r = Some (S ''running'')) rs))))))"

definition send_message :: "json \<Rightarrow> str \<Rightarrow> int \<Rightarrow> (int \<times> int \<times> str option) ws_txn" where
  "send_message body now clock =
     bind_txn (object_of body) (\<lambda>kvs.
     then_txn (require (extra_keys_of (S ''content'' # settings_fields) kvs = []) bad_request)
     (case jget kvs (S ''content'') of
        JStr text \<Rightarrow>
          (let content = strip text; supplied = filter (has_key kvs) settings_fields
           in then_txn (require (content \<noteq> [] \<and> length content \<le> USER_MESSAGE_LIMIT) bad_request)
              (bind_txn workspace_runtime (\<lambda>runtime.
               then_txn
                 (if runtime = None
                  then then_txn (require (supplied = settings_fields) bad_request)
                    (bind_txn (session_settings kvs) (\<lambda>settings.
                     then_txn ensure_workspace_can_activate (ensure_workspace settings now clock)))
                  else require (supplied = []) bad_request)
                 (queue_human_input content None now))))
      | _ \<Rightarrow> abort bad_request))"

text \<open>A steer that the host took ends the queued run, unless the run was dispatched meanwhile.\<close>

definition finish_steered :: "int \<Rightarrow> str \<Rightarrow> str \<Rightarrow> bool ws_txn" where
  "finish_steered run_id task_id now =
     bind_txn (select runs) (\<lambda>rs.
     if list_ex (\<lambda>r. rn_id r = run_id \<and> rn_status r = Run_pending) rs
     then then_txn (update_runs (\<lambda>r. rn_id r = run_id \<and> rn_status r = Run_pending) (finish ''steered'' now))
       (then_txn (insert_event (S ''Steered the message into the running turn'')
          (meta_of ''steer'' [(''task_id'', task_id)]) now) (ok True))
     else ok False)"

definition need :: "(str \<times> json) list \<Rightarrow> string \<Rightarrow> json ws_txn" where
  "need kvs key = (case map_of kvs (S key) of None \<Rightarrow> abort (Raised KeyError) | Some v \<Rightarrow> ok v)"

definition interaction_value_error :: "json \<Rightarrow> json \<Rightarrow> bool" where
  "interaction_value_error kind value =
     (if kind = JStr (S ''button'') then value \<noteq> JBool True
      else if kind = JStr (S ''toggle'') then (case value of JBool _ \<Rightarrow> False | _ \<Rightarrow> True)
      else (case value of JStr s \<Rightarrow> FIELD_VALUE_LIMIT < length s | _ \<Rightarrow> True))"

definition view_blocks :: "json option \<Rightarrow> json list" where
  "view_blocks view = (case view of Some (JList blocks) \<Rightarrow> blocks | _ \<Rightarrow> [])"

definition find_control :: "str \<Rightarrow> json list \<Rightarrow> (str \<times> json) list option" where
  "find_control cid blocks =
     Option.bind (find_first (\<lambda>b. is_control b \<and> (case b of JObj kvs \<Rightarrow> jget kvs (S ''control_id'') = JStr cid | _ \<Rightarrow> False))
       blocks) jobj"

definition interaction_event :: "str \<Rightarrow> str \<Rightarrow> json \<Rightarrow> json \<Rightarrow> json" where
  "interaction_event aid cid kind value =
     JObj [(S ''type'', JStr (S ''artifact_interaction'')), (S ''artifact_id'', JStr aid), (S ''control_id'', JStr cid),
       (S ''control_type'', kind), (S ''value'', value)]"

definition submit_artifact_interaction ::
  "(rat option \<Rightarrow> str) \<Rightarrow> json \<Rightarrow> str \<Rightarrow> (str \<times> int \<times> int \<times> str option) ws_txn" where
  "submit_artifact_interaction F body now =
     bind_txn (object_of body) (\<lambda>kvs.
     then_txn (require (missing_keys (map S [''artifact_id'', ''control_id'', ''value'']) kvs = []
         \<and> extra_keys_of (map S [''artifact_id'', ''control_id'', ''value'']) kvs = []) bad_request)
     (case (jget kvs (S ''artifact_id''), jget kvs (S ''control_id'')) of
        (JStr aid, JStr cid) \<Rightarrow>
          then_txn (require (is_slug (JStr aid) \<and> is_slug (JStr cid)) bad_request)
          (bind_txn workspace_runtime (\<lambda>runtime.
           then_txn (require (runtime \<noteq> None) conflict)
           (bind_txn (select (\<lambda>d. find_first (\<lambda>a. ar_id a = aid) (artifacts d))) (\<lambda>found.
            case found of
              None \<Rightarrow> abort not_found
            | Some a \<Rightarrow>
                (case find_control cid (view_blocks (ar_view a)) of
                   None \<Rightarrow> abort conflict
                 | Some control \<Rightarrow>
                     bind_txn (need control ''type'') (\<lambda>kind.
                     then_txn (require (\<not> interaction_value_error kind (jget kvs (S ''value''))) conflict)
                     (bind_txn (need control ''label'') (\<lambda>label.
                      (let content = compact_text F (sorted_keys (interaction_event aid cid kind (jget kvs (S ''value''))))
                       in bind_txn (queue_human_input content
                            (Some [(S ''action'', JStr (S ''artifact_interaction'')), (S ''artifact_id'', JStr aid),
                               (S ''artifact_title'', JStr (ar_title a)), (S ''control_id'', JStr cid),
                               (S ''control_label'', label), (S ''control_type'', kind),
                               (S ''value'', sorted_keys (jget kvs (S ''value'')))]) now)
                          (\<lambda>queued. ok (content, queued)))))))))))
      | _ \<Rightarrow> abort bad_request))"

subsection \<open>Agent settings\<close>

definition runtime_label :: "str \<Rightarrow> str" where
  "runtime_label runtime =
     (if runtime = S ''claude_code'' then S ''Claude Code'' else if runtime = S ''hermes'' then S ''Hermes'' else S ''Codex'')"

text \<open>\<open>str.title\<close> of one word.\<close>

definition title_word :: "str \<Rightarrow> str" where
  "title_word s = (case s of [] \<Rightarrow> [] | c # t \<Rightarrow> upper_cp c @ lower t)"

text \<open>The thread sequence after the update, and whether anything changed.\<close>

definition update_agent_settings :: "json \<Rightarrow> str \<Rightarrow> (int \<times> bool) ws_txn" where
  "update_agent_settings body now =
     bind_txn (object_of body) (\<lambda>kvs.
     then_txn (require (missing_keys settings_fields kvs = [] \<and> extra_keys_of settings_fields kvs = []) bad_request)
     (bind_txn (session_settings kvs) (\<lambda>requested.
      bind_txn (select the_workspace) (\<lambda>workspace.
      case workspace of
        None \<Rightarrow> abort conflict
      | Some w \<Rightarrow>
          if ws_settings w = None then abort conflict
          else if ws_settings w = Some requested then ok (ws_thread_seq w, False)
          else bind_txn (select runs) (\<lambda>rs.
            then_txn (require (list_all (\<lambda>r. rn_status r = Run_done) rs) conflict)
            (then_txn (set_workspace (\<lambda>w. w\<lparr>ws_thread_seq := ws_thread_seq w + 1, ws_settings := Some requested,
                ws_updated := now\<rparr>))
            (case requested of (runtime, model, effort) \<Rightarrow>
              then_txn (insert_event (S ''Switched to '' @ runtime_label runtime @ S '' '' @ [0xB7] @ S '' '' @ model
                  @ S '' '' @ [0xB7] @ S '' '' @ title_word effort)
                (meta_of ''update_agent_settings'' [(''agent_runtime'', runtime), (''effort'', effort), (''model'', model)]) now)
              (ok (ws_thread_seq w + 1, True)))))))))"

subsection \<open>Edits from the panels\<close>

definition set_schedule_enabled :: "str \<Rightarrow> bool \<Rightarrow> str \<Rightarrow> int \<Rightarrow> unit ws_txn" where
  "set_schedule_enabled schedule_id enabled now clock =
     bind_txn (select (\<lambda>d. find_first (\<lambda>s. sc_id s = schedule_id) (schedules d))) (\<lambda>found.
     case found of
       None \<Rightarrow> abort not_found
     | Some row \<Rightarrow>
         then_txn (require (\<not> (enabled \<and> sc_every row = None \<and> sc_next row = None)) conflict)
         (bind_txn workspace_runtime (\<lambda>runtime.
          then_txn (require (enabled \<longrightarrow> runtime \<noteq> None \<and> runtime \<noteq> Some []) conflict)
          (if enabled = sc_enabled row then ok ()
           else let next = (case sc_every row of
                      Some every \<Rightarrow> if enabled then Some (format_utc (clock + every * 60)) else sc_next row
                    | None \<Rightarrow> sc_next row)
             in modify (\<lambda>d. d\<lparr>schedules := map (\<lambda>s. if sc_id s = schedule_id
                  then s\<lparr>sc_enabled := enabled, sc_next := next, sc_updated := now\<rparr> else s) (schedules d)\<rparr>)))))"

text \<open>The common end of the deletions: 404 without a row, else one event.\<close>

definition removed :: "string \<Rightarrow> string \<Rightarrow> string \<Rightarrow> str \<Rightarrow> str \<Rightarrow> str option \<Rightarrow> unit ws_txn" where
  "removed what name key k now row =
     (case row of
        None \<Rightarrow> abort not_found
      | Some title \<Rightarrow> then_txn (insert_event (S ''Removed '' @ S what @ S '' '' @ title) (meta_of name [(key, k)]) now) (ok ()))"

definition delete_schedule_from_ui :: "str \<Rightarrow> str \<Rightarrow> unit ws_txn" where
  "delete_schedule_from_ui schedule_id now =
     bind_txn (delete_schedule schedule_id) (\<lambda>row.
     removed ''schedule'' ''delete_schedule'' ''schedule_id'' schedule_id now (map_option quoted row))"

definition delete_artifact_from_ui :: "str \<Rightarrow> str \<Rightarrow> unit ws_txn" where
  "delete_artifact_from_ui artifact_id now =
     bind_txn (delete_artifact artifact_id) (\<lambda>row.
     removed ''artifact'' ''delete_artifact'' ''artifact_id'' artifact_id now (map_option quoted row))"

definition delete_tool_from_ui :: "str \<Rightarrow> str \<Rightarrow> unit ws_txn" where
  "delete_tool_from_ui tool_id now =
     bind_txn (delete_tool tool_id) (\<lambda>row.
     removed ''tool'' ''delete_tool'' ''tool_id'' tool_id now (map_option quoted row))"

definition edit_memory_from_ui :: "str \<Rightarrow> json \<Rightarrow> str \<Rightarrow> str ws_txn" where
  "edit_memory_from_ui memory_id body now =
     bind_txn (object_of body) (\<lambda>kvs.
     then_txn (require (extra_keys_of [S ''content''] kvs = []) bad_request)
     (case jget kvs (S ''content'') of
        JStr text \<Rightarrow>
          (let content = strip text
           in then_txn (require (content \<noteq> [] \<and> length content \<le> MEMORY_CONTENT_LIMIT) bad_request)
              (bind_txn (select memories) (\<lambda>rows.
               then_txn (require (memory_id \<in> set (map me_id rows)) not_found)
               (then_txn (modify (\<lambda>d. d\<lparr>memories := map (\<lambda>m. if me_id m = memory_id
                   then m\<lparr>me_content := content, me_updated := now\<rparr> else m) (memories d)\<rparr>))
               (then_txn (insert_event (S ''Edited memory '' @ memory_id)
                   (meta_of ''edit_memory'' [(''memory_id'', memory_id)]) now) (ok content))))))
      | _ \<Rightarrow> abort bad_request))"

definition delete_memory_from_ui :: "str \<Rightarrow> str \<Rightarrow> unit ws_txn" where
  "delete_memory_from_ui memory_id now =
     bind_txn (select memories) (\<lambda>rows.
     then_txn (modify (\<lambda>d. d\<lparr>memories := filter (\<lambda>m. me_id m \<noteq> memory_id) (memories d)\<rparr>))
     (removed ''memory'' ''forget'' ''memory_id'' memory_id now
        (if memory_id \<in> set (map me_id rows) then Some memory_id else None)))"

text \<open>
  \<open>str.isdigit\<close>: also the digits outside the decimal systems, which \<open>int\<close> does not read.
\<close>

definition other_digits :: "(int \<times> int) list" where
  "other_digits =
     [(0xb2, 0xb3), (0xb9, 0xb9), (0x1369, 0x1371), (0x19da, 0x19da), (0x2070, 0x2070), (0x2074, 0x2079),
      (0x2080, 0x2089), (0x2460, 0x2468), (0x2474, 0x247c), (0x2488, 0x2490), (0x24ea, 0x24ea),
      (0x24f5, 0x24fd), (0x24ff, 0x24ff), (0x2776, 0x277e), (0x2780, 0x2788), (0x278a, 0x2792),
      (0x10a40, 0x10a43), (0x10e60, 0x10e68), (0x11052, 0x1105a), (0x1f100, 0x1f10a)]"

definition isdigit :: "str \<Rightarrow> bool" where
  "isdigit s \<longleftrightarrow> s \<noteq> [] \<and> list_all (\<lambda>c. is_digit c \<or> list_ex (\<lambda>(a, b). a \<le> c \<and> c \<le> b) other_digits) s"

text \<open>A row number from a path; the id columns hold 64 bits.\<close>

definition row_number :: "str \<Rightarrow> int ws_txn" where
  "row_number text =
     then_txn (require (isdigit text) not_found)
       (case py_int text of
          None \<Rightarrow> abort (Raised (ValueError (S ''invalid literal for int()'')))
        | Some n \<Rightarrow> then_txn (require (n < 2 ^ 63) (Raised (RuntimeError (S ''out of range for type bigint'')))) (ok n))"

definition discard_pending_run :: "str \<Rightarrow> str \<Rightarrow> int ws_txn" where
  "discard_pending_run run_id now =
     bind_txn (row_number run_id) (\<lambda>n.
     bind_txn (select runs) (\<lambda>rs.
     then_txn (require (list_ex (\<lambda>r. rn_id r = n \<and> rn_status r = Run_pending) rs) not_found)
     (then_txn (update_runs (\<lambda>r. rn_id r = n \<and> rn_status r = Run_pending) (finish ''discarded'' now))
     (then_txn (insert_event (S ''Discarded a queued turn'')
        [(S ''action'', JStr (S ''discard'')), (S ''run_id'', JInt n)] now) (ok n)))))"

text \<open>A stop is only forwarded for a task that some run of the workspace started.\<close>

definition stop_task :: "str \<Rightarrow> unit ws_txn" where
  "stop_task task_id = bind_txn (select runs) (\<lambda>rs. require (list_ex (\<lambda>r. rn_task r = Some task_id) rs) not_found)"

subsection \<open>Reads\<close>

definition FULL_MESSAGE_BYTES :: int where "FULL_MESSAGE_BYTES = 800000"

definition opt_text :: "str option \<Rightarrow> json" where
  "opt_text t = (case t of None \<Rightarrow> JNull | Some s \<Rightarrow> JStr s)"

definition opt_object :: "(str \<times> json) list option \<Rightarrow> json" where
  "opt_object kvs = (case kvs of None \<Rightarrow> JNull | Some kvs \<Rightarrow> JObj kvs)"

definition read_message :: "str \<Rightarrow> json ws_txn" where
  "read_message message_id =
     bind_txn (row_number message_id) (\<lambda>n.
     bind_txn (select (\<lambda>d. find_first (\<lambda>m. ms_id m = n) (messages d))) (\<lambda>found.
     case found of
       None \<Rightarrow> abort not_found
     | Some m \<Rightarrow>
         (case clip_encoded_text (ms_content m) FULL_MESSAGE_BYTES of (content, truncated) \<Rightarrow>
            ok (JObj [(S ''id'', JInt (ms_id m)), (S ''role'', JStr (ms_role m)), (S ''content'', JStr content),
              (S ''truncated'', JBool truncated), (S ''meta'', opt_object (ms_meta m)),
              (S ''created_at'', JStr (ms_created m))]))))"

definition read_artifact :: "str \<Rightarrow> json ws_txn" where
  "read_artifact artifact_id =
     bind_txn (select (\<lambda>d. find_first (\<lambda>a. ar_id a = artifact_id) (artifacts d))) (\<lambda>found.
     case found of
       None \<Rightarrow> abort not_found
     | Some a \<Rightarrow>
         ok (JObj [(S ''artifact_id'', JStr (ar_id a)), (S ''title'', JStr (ar_title a)), (S ''data'', ar_data a),
           (S ''view'', case ar_view a of None \<Rightarrow> JNull | Some v \<Rightarrow> v),
           (S ''created_at'', JStr (ar_created a)), (S ''updated_at'', JStr (ar_updated a))]))"

end
