(* ===== verification/WorkspaceDigest.thy ===== *)
theory WorkspaceDigest
  imports WorkspaceApi
begin

text \<open>
  The input of a workspace turn: the digest of the workspace (\<open>build_digest\<close>) trimmed to a
  budget, the recent conversation, the setup brief and the message or schedule that the turn is
  about (\<open>compose_input\<close>, and the first half of \<open>_dispatch_run\<close>), with the proof that the
  composed input always fits the limit of the host. \<open>le\<close> is the collation of the database.
\<close>

definition HOST_INPUT_LIMIT :: nat where "HOST_INPUT_LIMIT = 50000"
definition DIGEST_SCHEDULE_LINES :: nat where "DIGEST_SCHEDULE_LINES = 20"
definition DIGEST_ARTIFACT_LINES :: nat where "DIGEST_ARTIFACT_LINES = 60"
definition DIGEST_SECTION_FLOOR :: nat where "DIGEST_SECTION_FLOOR = 6"
definition RECENT_CONTEXT_MESSAGES :: nat where "RECENT_CONTEXT_MESSAGES = 2"
definition RECENT_CONTEXT_MESSAGE_LIMIT :: nat where "RECENT_CONTEXT_MESSAGE_LIMIT = 1900"

definition SETUP_BRIEF :: str where
  "SETUP_BRIEF = S ''== Builder setup =='' @ [10]
   @ S ''This workspace has no goal yet, so before anything else, help the human set it up. Work'' @ [10]
   @ S ''conversationally, a step or two per turn, not as a form:'' @ [10]
   @ S ''1. Ask for an ambitious goal: one that takes days or months, needs real collaboration'' @ [10]
   @ S ''   between the two of you, and is worth measuring. Push back gently on small goals.'' @ [10]
   @ S ''2. Ask how the two of you will measure progress, then store both (set_goal,'' @ [10]
   @ S ''   set_measurement).'' @ [10]
   @ S ''3. Sketch the working design together: which artifacts you will keep, what inputs you'' @ [10]
   @ S ''   need from the human, how they should prompt you day to day, and which scheduled runs'' @ [10]
   @ S ''   you will create for asynchronous work.'' @ [10]
   @ S ''4. Go through the tools this goal needs and record each with upsert_tool: priority'' @ [10]
   @ S ''   must_have or good_to_have; status enabled (you can use it now), implemented (exists on'' @ [10]
   @ S ''   the host but the human must enable it), or not_implemented (does not exist yet; say so'' @ [10]
   @ S ''   plainly).'' @ [10]
   @ S ''5. Then show the human the levers of this workspace: goal, measurement, memories,'' @ [10]
   @ S ''   artifacts, schedules, and the tools inventory. Everything can be changed later by'' @ [10]
   @ S ''   asking, and the workspace panels stay editable by the human.''"

subsection \<open>The rows of the digest\<close>

text \<open>\<open>ORDER BY\<close> two text columns, each ascending or descending in the collation.\<close>

definition by_columns ::
  "(str \<Rightarrow> str \<Rightarrow> bool) \<Rightarrow> bool \<Rightarrow> ('a \<Rightarrow> str) \<Rightarrow> ('a \<Rightarrow> str) \<Rightarrow> 'a \<Rightarrow> 'a \<Rightarrow> bool" where
  "by_columns le descending major minor x y \<longleftrightarrow>
     (if major x = major y then le (minor x) (minor y)
      else if descending then le (major y) (major x) else le (major x) (major y))"

definition last_run_status :: "workspace_db \<Rightarrow> schedule \<Rightarrow> str option" where
  "last_run_status d s = (case sc_last_run s of
     None \<Rightarrow> None
   | Some i \<Rightarrow> Option.bind (find_first (\<lambda>r. rn_id r = i) (runs d)) rn_host_status)"

definition digest_schedules :: "(str \<Rightarrow> str \<Rightarrow> bool) \<Rightarrow> workspace_db \<Rightarrow> (schedule \<times> str option) list" where
  "digest_schedules le d =
     map (\<lambda>s. (s, last_run_status d s)) (order_by (by_columns le False sc_created sc_id) (schedules d))"

definition digest_artifacts :: "(str \<Rightarrow> str \<Rightarrow> bool) \<Rightarrow> workspace_db \<Rightarrow> artifact list" where
  "digest_artifacts le d = order_by (by_columns le True ar_updated ar_id) (artifacts d)"

definition digest_memories :: "(str \<Rightarrow> str \<Rightarrow> bool) \<Rightarrow> workspace_db \<Rightarrow> memory list" where
  "digest_memories le d = order_by (by_columns le True me_updated me_id) (memories d)"

definition digest_tools :: "(str \<Rightarrow> str \<Rightarrow> bool) \<Rightarrow> workspace_db \<Rightarrow> tool_row list" where
  "digest_tools le d = order_by (by_columns le True tl_priority tl_id) (tool_rows d)"

definition schedule_line :: "schedule \<times> str option \<Rightarrow> str" where
  "schedule_line row = (case row of (s, latest) \<Rightarrow>
     S ''- '' @ sc_id s @ S '': '' @ quoted (sc_title s) @ S '' '' @ cadence_text (sc_every s) (sc_next s)
     @ S '', '' @ (if sc_enabled s then S ''enabled'' else S ''paused'')
     @ (case sc_next s of Some t \<Rightarrow> if t = [] then [] else S '', next '' @ t | None \<Rightarrow> [])
     @ (case latest of Some t \<Rightarrow> if t = [] then [] else S '', last '' @ t | None \<Rightarrow> []))"

definition data_chars :: "(rat option \<Rightarrow> str) \<Rightarrow> artifact \<Rightarrow> nat" where
  "data_chars F a = length (json_text F (ar_data a))"

definition artifact_line :: "(rat option \<Rightarrow> str) \<Rightarrow> artifact \<Rightarrow> str" where
  "artifact_line F a =
     S ''- '' @ ar_id a @ S '': '' @ quoted (ar_title a) @ S '' updated '' @ ar_updated a
     @ S '', data '' @ str_of_int (int (data_chars F a)) @ S '' chars, ''
     @ (if ar_view a \<noteq> None then S ''renders view'' else S ''no view'')"

definition tool_line :: "tool_row \<Rightarrow> str" where
  "tool_line t =
     S ''- '' @ tl_id t @ S '': '' @ quoted (tl_title t) @ S '' '' @ tl_priority t @ S '', '' @ tl_status t
     @ (if tl_note t = [] then [] else S '' '' @ [0x2014] @ S '' '' @ tl_note t)"

definition memory_line :: "memory \<Rightarrow> str" where
  "memory_line m = S ''- '' @ me_id m @ S '': '' @ me_content m"

subsection \<open>The digest\<close>

datatype section_name = Schedules_section | Tools_section | Artifacts_section | Memories_section

record digest_section =
  ds_name :: section_name
  ds_header :: str
  ds_lines :: "str list"
  ds_hidden :: nat

definition count_header :: "string \<Rightarrow> nat \<Rightarrow> nat \<Rightarrow> str" where
  "count_header title n cap =
     S title @ S '' ('' @ str_of_int (int n) @ S '' of max '' @ str_of_int (int cap) @ S ''):''"

definition digest_sections :: "(str \<Rightarrow> str \<Rightarrow> bool) \<Rightarrow> (rat option \<Rightarrow> str) \<Rightarrow> workspace_db \<Rightarrow> digest_section list" where
  "digest_sections le F d =
     [\<lparr>ds_name = Schedules_section, ds_header = count_header ''Schedules'' (length (schedules d)) MAX_SCHEDULES,
       ds_lines = map schedule_line (take DIGEST_SCHEDULE_LINES (digest_schedules le d)),
       ds_hidden = length (schedules d) - DIGEST_SCHEDULE_LINES\<rparr>,
      \<lparr>ds_name = Tools_section, ds_header = count_header ''Tools'' (length (tool_rows d)) MAX_TOOLS,
       ds_lines = map tool_line (digest_tools le d), ds_hidden = 0\<rparr>,
      \<lparr>ds_name = Artifacts_section, ds_header = count_header ''Artifacts'' (length (artifacts d)) MAX_ARTIFACTS,
       ds_lines = map (artifact_line F) (take DIGEST_ARTIFACT_LINES (digest_artifacts le d)),
       ds_hidden = length (artifacts d) - DIGEST_ARTIFACT_LINES\<rparr>,
      \<lparr>ds_name = Memories_section, ds_header = count_header ''Memories'' (length (memories d)) MAX_MEMORIES,
       ds_lines = map memory_line (digest_memories le d), ds_hidden = 0\<rparr>]"

definition section_lines :: "digest_section \<Rightarrow> str list" where
  "section_lines s = ds_header s # (if ds_lines s = [] then [S ''- (none)''] else ds_lines s)
     @ (if ds_hidden s = 0 then [] else [S ''- ...and '' @ str_of_int (int (ds_hidden s)) @ S '' more''])"

definition or_unset :: "str \<Rightarrow> str" where
  "or_unset s = (if s = [] then S ''(not set)'' else s)"

definition render_digest :: "str \<Rightarrow> str \<Rightarrow> digest_section list \<Rightarrow> str" where
  "render_digest goal measurement ss =
     join [10] (S ''== Workspace state =='' # (S ''Goal: '' @ or_unset goal) # (S ''Measurement: '' @ or_unset measurement)
       # concat (map section_lines ss))"

definition drop_line :: "section_name \<Rightarrow> digest_section list \<Rightarrow> digest_section list" where
  "drop_line name ss = map (\<lambda>s. if ds_name s = name
     then s\<lparr>ds_lines := butlast (ds_lines s), ds_hidden := ds_hidden s + 1\<rparr> else s) ss"

definition line_count :: "section_name \<Rightarrow> digest_section list \<Rightarrow> nat" where
  "line_count name ss = sum_list (map (\<lambda>s. if ds_name s = name then length (ds_lines s) else 0) ss)"

lemma line_count_drop: "0 < line_count name ss \<Longrightarrow> line_count name (drop_line name ss) < line_count name ss"
proof (induction ss)
  case (Cons s ss)
  have "line_count name (drop_line name ss) \<le> line_count name ss" for ss
    by (induction ss) (auto simp: line_count_def drop_line_def)
  from this [of ss] Cons show ?case
    by (cases "ds_lines s" rule: rev_cases) (auto simp: line_count_def drop_line_def split: if_splits)
qed (simp add: line_count_def)

function trim_section ::
  "str \<Rightarrow> str \<Rightarrow> nat \<Rightarrow> section_name \<Rightarrow> digest_section list \<Rightarrow> digest_section list" where
  "trim_section goal measurement budget name ss =
     (if DIGEST_SECTION_FLOOR < line_count name ss \<and> budget < length (render_digest goal measurement ss)
      then trim_section goal measurement budget name (drop_line name ss) else ss)"
  by pat_completeness auto
termination
  by (relation "measure (\<lambda>(_, _, _, name, ss). line_count name ss)") (auto intro!: line_count_drop)

declare trim_section.simps [simp del]

definition build_digest ::
  "(str \<Rightarrow> str \<Rightarrow> bool) \<Rightarrow> (rat option \<Rightarrow> str) \<Rightarrow> str \<Rightarrow> str \<Rightarrow> workspace_db \<Rightarrow> nat option \<Rightarrow> str" where
  "build_digest le F goal measurement d budget =
     render_digest goal measurement
       (case budget of
          None \<Rightarrow> digest_sections le F d
        | Some b \<Rightarrow> fold (trim_section goal measurement b)
            [Artifacts_section, Tools_section, Memories_section, Schedules_section] (digest_sections le F d))"

subsection \<open>The input\<close>

definition conversational :: "feed_message \<Rightarrow> bool" where
  "conversational m \<longleftrightarrow> ms_role m = S ''user'' \<or> ms_role m = S ''agent''"

definition context_line :: "feed_message \<Rightarrow> str" where
  "context_line m =
     (if ms_role m = S ''user'' then S ''Human'' else S ''Agent'') @ S '': ''
     @ (if RECENT_CONTEXT_MESSAGE_LIMIT < length (ms_content m)
        then take (RECENT_CONTEXT_MESSAGE_LIMIT - 1) (ms_content m) @ ellipsis
        else take RECENT_CONTEXT_MESSAGE_LIMIT (ms_content m))"

text \<open>The last two messages of the conversation, oldest first; messages are stored by id.\<close>

definition build_recent_context :: "feed_message list \<Rightarrow> int option \<Rightarrow> str" where
  "build_recent_context ms bound =
     (let rows = filter (\<lambda>m. conversational m \<and> (case bound of None \<Rightarrow> True | Some i \<Rightarrow> ms_id m < i)) ms
      in join [10] (map context_line (drop (length rows - RECENT_CONTEXT_MESSAGES) rows)))"

definition recent_header :: str where "recent_header = S ''== Recent conversation =='' @ [10]"

definition compose_input :: "run_kind \<Rightarrow> str \<Rightarrow> str \<Rightarrow> bool \<Rightarrow> str \<Rightarrow> str" where
  "compose_input kind digest payload setup recent_context =
     join [10, 10]
       ((if setup then [SETUP_BRIEF] else [])
        @ (if recent_context = [] then [] else [recent_header @ recent_context])
        @ [digest, (case kind of Chat_run \<Rightarrow> S ''== Message from the human ==''
                    | Schedule_run \<Rightarrow> S ''== Scheduled run =='') @ [10] @ payload])"

text \<open>
  The first transaction of \<open>_dispatch_run\<close>: the run's thread and configuration and the task
  input, or the end of a run whose schedule is gone.
\<close>

record prepared_task =
  pt_run :: int
  pt_input :: str
  pt_thread :: str
  pt_runtime :: str
  pt_config :: "(str \<times> str \<times> str) option"

definition run_payload :: "run \<Rightarrow> str \<Rightarrow> workspace_db \<Rightarrow> str option" where
  "run_payload r now d =
     (case rn_kind r of
        Chat_run \<Rightarrow> Some (case find_first (\<lambda>m. Some (ms_id m) = rn_message r) (messages d) of
                            Some m \<Rightarrow> ms_content m | None \<Rightarrow> [])
      | Schedule_run \<Rightarrow>
          map_option (\<lambda>s. S ''Schedule '' @ quoted (sc_title s) @ S '' ('' @ sc_id s @ S '') fired at '' @ now
             @ S ''. Instructions:'' @ [10] @ sc_prompt s)
            (find_first (\<lambda>s. Some (sc_id s) = rn_schedule r) (schedules d)))"

definition task_input ::
  "(str \<Rightarrow> str \<Rightarrow> bool) \<Rightarrow> (rat option \<Rightarrow> str) \<Rightarrow> workspace_db \<Rightarrow> workspace \<Rightarrow> run \<Rightarrow> bool \<Rightarrow> str \<Rightarrow> str" where
  "task_input le F d w r new_thread payload =
     (let setup = strip (ws_goal w) = [];
          recent = (if new_thread
                    then build_recent_context (messages d) (if rn_kind r = Chat_run then rn_message r else None) else []);
          context_length = (if setup then length SETUP_BRIEF + 2 else 0)
            + (if recent = [] then 0 else length recent_header + length recent + 2);
          budget = HOST_INPUT_LIMIT - context_length - length payload - 64;
          digest = build_digest le F (ws_goal w) (ws_measurement w) d (Some budget)
      in compose_input (rn_kind r) digest payload setup recent)"

text \<open>\<open>a or b\<close> on texts.\<close>

definition text_or :: "str option \<Rightarrow> str \<Rightarrow> str" where
  "text_or t fallback = (case t of None \<Rightarrow> fallback | Some s \<Rightarrow> if s = [] then fallback else s)"

definition prepare_run ::
  "(str \<Rightarrow> str \<Rightarrow> bool) \<Rightarrow> (rat option \<Rightarrow> str) \<Rightarrow> run \<Rightarrow> str \<Rightarrow> prepared_task option ws_txn" where
  "prepare_run le F r now =
     bind_txn (select the_workspace) (\<lambda>workspace.
     case workspace of
       None \<Rightarrow> abort conflict
     | Some w \<Rightarrow>
         (case ws_settings w of
            None \<Rightarrow> abort conflict
          | Some (runtime, model, effort) \<Rightarrow>
              then_txn (require (runtime \<noteq> [] \<and> model \<noteq> [] \<and> effort \<noteq> []) conflict)
              (bind_txn (select id) (\<lambda>d.
               case run_payload r now d of
                 None \<Rightarrow> then_txn (update_runs (\<lambda>q. rn_id q = rn_id r) (finish ''orphaned'' now)) (ok None)
               | Some payload \<Rightarrow>
                   (let thread = text_or (rn_thread r) (workspace_thread w);
                        run_runtime = text_or (rn_runtime r) runtime;
                        new_thread = (\<not> list_ex (\<lambda>q. rn_thread q = Some thread) (runs d))
                    in ok (Some \<lparr>pt_run = rn_id r, pt_input = task_input le F d w r new_thread payload,
                         pt_thread = thread,
                         pt_runtime = run_runtime,
                         pt_config = (if new_thread then Some (run_runtime, model, effort) else None)\<rparr>))))))"

subsection \<open>The digest shrinks to the budget or to its floor\<close>

definition names_of :: "digest_section list \<Rightarrow> section_name list" where
  "names_of ss = map ds_name ss"

lemma drop_line_names [simp]: "names_of (drop_line name ss) = names_of ss"
  by (auto simp: names_of_def drop_line_def)

lemma drop_line_others: "name \<noteq> other \<Longrightarrow> line_count other (drop_line name ss) = line_count other ss"
  by (induction ss) (auto simp: line_count_def drop_line_def)

lemma trim_section_names [simp]: "names_of (trim_section g m b name ss) = names_of ss"
proof (induction g m b name ss rule: trim_section.induct)
  case (1 g m b name ss)
  then show ?case by (subst trim_section.simps) simp
qed

lemma trim_section_others: "name \<noteq> other \<Longrightarrow> line_count other (trim_section g m b name ss) = line_count other ss"
proof (induction g m b name ss rule: trim_section.induct)
  case (1 g m b name ss)
  then show ?case by (subst trim_section.simps) (simp add: drop_line_others)
qed

lemma trim_section_goal:
  "length (render_digest g m (trim_section g m b name ss)) \<le> b
   \<or> line_count name (trim_section g m b name ss) \<le> DIGEST_SECTION_FLOOR"
proof (induction g m b name ss rule: trim_section.induct)
  case (1 g m b name ss)
  then show ?case by (subst (1 2) trim_section.simps) auto
qed

lemma trim_section_done: "length (render_digest g m ss) \<le> b \<Longrightarrow> trim_section g m b name ss = ss"
  by (subst trim_section.simps) simp

text \<open>After all four sections, in the order of the code.\<close>

lemma trimmed_sections:
  assumes "ss' = fold (trim_section g m b) [Artifacts_section, Tools_section, Memories_section, Schedules_section] ss"
  shows "length (render_digest g m ss') \<le> b \<or> (\<forall>name. line_count name ss' \<le> DIGEST_SECTION_FLOOR)"
proof -
  define floored where "floored names ss \<longleftrightarrow> length (render_digest g m ss) \<le> b
    \<or> (\<forall>name \<in> set names. line_count name ss \<le> DIGEST_SECTION_FLOOR)" for names ss
  have step: "floored (name # names) (trim_section g m b name ss)" if "floored names ss" "name \<notin> set names" for name names ss
  proof (cases "length (render_digest g m ss) \<le> b")
    case True
    then show ?thesis by (simp add: floored_def trim_section_done)
  next
    case False
    have "line_count other (trim_section g m b name ss) \<le> DIGEST_SECTION_FLOOR" if "other \<in> set names" for other
    proof -
      from that \<open>name \<notin> set names\<close> have "name \<noteq> other" by blast
      from trim_section_others [OF this, of g m b ss] False \<open>floored names ss\<close> that show ?thesis
        by (auto simp: floored_def)
    qed
    with trim_section_goal [of g m b name ss] show ?thesis by (auto simp: floored_def)
  qed
  have "floored [] ss" by (simp add: floored_def)
  from step [OF step [OF step [OF step [OF this, of Artifacts_section], of Tools_section], of Memories_section],
      of Schedules_section]
  have "floored [Schedules_section, Memories_section, Tools_section, Artifacts_section] ss'"
    by (simp add: assms)
  moreover have "name \<in> set [Schedules_section, Memories_section, Tools_section, Artifacts_section]" for name
    by (cases name) auto
  ultimately show ?thesis unfolding floored_def by blast
qed

text \<open>What trimming keeps of every section.\<close>

definition section_ok :: "(section_name \<Rightarrow> nat) \<Rightarrow> digest_section \<Rightarrow> bool" where
  "section_ok width s \<longleftrightarrow> length (ds_header s) \<le> 40 \<and> ds_hidden s + length (ds_lines s) \<le> 100
     \<and> (\<forall>l \<in> set (ds_lines s). length l \<le> width (ds_name s))"

lemma line_count_none: "name \<notin> set (names_of ss) \<Longrightarrow> line_count name ss = 0"
  by (induction ss) (auto simp: line_count_def names_of_def)

lemma line_count_unique:
  "distinct (names_of ss) \<Longrightarrow> s \<in> set ss \<Longrightarrow> line_count (ds_name s) ss = length (ds_lines s)"
proof (induction ss)
  case (Cons x ss)
  show ?case
  proof (cases "s \<in> set ss")
    case True
    with Cons.prems(1) have "ds_name s \<noteq> ds_name x" by (metis distinct.simps(2) image_eqI list.simps(9) list.set_map names_of_def)
    with Cons True show ?thesis by (simp add: line_count_def names_of_def)
  next
    case False
    with Cons.prems have "s = x" "ds_name s \<notin> set (names_of ss)" by (auto simp: names_of_def)
    then show ?thesis using line_count_none [of "ds_name s" ss] by (simp add: line_count_def)
  qed
qed simp

lemma drop_line_ok:
  assumes "list_all (section_ok width) ss" "distinct (names_of ss)" "0 < line_count name ss"
  shows "list_all (section_ok width) (drop_line name ss)"
proof -
  have "ds_lines s \<noteq> []" if "s \<in> set ss" "ds_name s = name" for s
    using line_count_unique [OF assms(2) that(1)] that(2) assms(3) by auto
  then have "section_ok width s \<Longrightarrow> s \<in> set ss \<Longrightarrow> ds_name s = name \<Longrightarrow>
      section_ok width (s\<lparr>ds_lines := butlast (ds_lines s), ds_hidden := ds_hidden s + 1\<rparr>)" for s
    by (cases "ds_lines s" rule: rev_cases) (auto simp: section_ok_def)
  with assms(1) show ?thesis by (auto simp: list_all_iff drop_line_def)
qed

lemma trim_section_ok:
  "list_all (section_ok width) ss \<Longrightarrow> distinct (names_of ss) \<Longrightarrow>
   list_all (section_ok width) (trim_section g m b name ss)"
proof (induction g m b name ss rule: trim_section.induct)
  case (1 g m b name ss)
  then show ?case by (subst trim_section.simps) (auto simp: drop_line_ok)
qed

lemma fold_trim_ok:
  "list_all (section_ok width) ss \<Longrightarrow> distinct (names_of ss) \<Longrightarrow>
   list_all (section_ok width) (fold (trim_section g m b) names ss) \<and> names_of (fold (trim_section g m b) names ss) = names_of ss"
  by (induction names arbitrary: ss) (auto simp: trim_section_ok)

subsection \<open>The floor is far below the limit\<close>

lemma slug_length:
  assumes "slug s"
  shows "length s \<le> 48"
proof -
  from assms obtain q where q: "q \<in> set (rx_run (\<lambda>_. False) SLUG_RE ([], s, []))" "fst (snd q) = []"
    unfolding is_slug_def rx_fullmatch_def list_ex_iff json.case by blast
  then show ?thesis
    by (cases s) (auto simp: SLUG_RE_def iter_greedy_class simp del: upt_Suc split: if_splits)
qed

fun text_size :: "str list \<Rightarrow> nat" where
  "text_size [] = 0"
| "text_size (l # ls) = length l + 1 + text_size ls"

lemma join_size: "length (join [c] ls) \<le> text_size ls"
  by (induction "[c]" ls rule: join.induct) auto

lemma text_size_append [simp]: "text_size (xs @ ys) = text_size xs + text_size ys"
  by (induction xs) auto

lemma text_size_bound:
  assumes "\<forall>l \<in> set ls. length l \<le> n" "length ls \<le> k"
  shows "text_size ls \<le> k * (n + 1)"
proof -
  have "text_size ls \<le> length ls * (n + 1)" using assms(1) by (induction ls) auto
  also have "\<dots> \<le> k * (n + 1)" using assms(2) by (intro mult_le_mono1)
  finally show ?thesis .
qed

lemma number_length: "n < 10 ^ k \<Longrightarrow> 0 < k \<Longrightarrow> length (str_of_int (int n)) \<le> k"
  by (simp add: str_of_int_def length_nat_digits)

lemma section_size:
  assumes "section_ok width s" "length (ds_lines s) \<le> k" "8 \<le> width (ds_name s)" "0 < k"
  shows "text_size (section_lines s) \<le> 70 + k * (width (ds_name s) + 1)"
proof -
  have "text_size (if ds_lines s = [] then [S ''- (none)''] else ds_lines s) \<le> k * (width (ds_name s) + 1)"
    using assms by (intro text_size_bound) (auto simp: section_ok_def)
  moreover have "length (str_of_int (int (ds_hidden s))) \<le> 3"
    using assms(1) by (intro number_length) (auto simp: section_ok_def)
  ultimately show ?thesis using assms(1) by (auto simp: section_lines_def section_ok_def)
qed

fun width :: "section_name \<Rightarrow> nat" where
  "width Schedules_section = 320"
| "width Tools_section = 420"
| "width Artifacts_section = 240"
| "width Memories_section = 360"

lemma int_length: "0 \<le> n \<Longrightarrow> n < 10 ^ k \<Longrightarrow> 0 < k \<Longrightarrow> length (str_of_int n) \<le> k"
  using number_length [of "nat n" k] by simp

lemma cadence_length:
  assumes "case every of None \<Rightarrow> True | Some n \<Rightarrow> SCHEDULE_MIN_MINUTES \<le> n \<and> n \<le> SCHEDULE_MAX_MINUTES" "stamp_ok next"
  shows "length (cadence_text every next) \<le> 29"
proof (cases every)
  case None
  with assms(2) show ?thesis by (auto simp: cadence_text_def stamp_ok_def split: option.splits)
next
  case (Some n)
  with assms(1) have n: "0 \<le> n" "n \<le> 10080" by (auto simp: SCHEDULE_MIN_MINUTES_def SCHEDULE_MAX_MINUTES_def)
  have "length (str_of_int (n div k)) \<le> 5" if "k \<in> {1, 60, 1440}" for k
    using n that zdiv_mono1 [OF n(2), of k] by (intro int_length) (auto simp: pos_imp_zdiv_nonneg_iff)
  from this [of 1] this [of 60] this [of 1440] show ?thesis
    by (simp add: Some cadence_text_def Let_def)
qed

abbreviation short_status :: "str option \<Rightarrow> bool" where
  "short_status t \<equiv> (case t of None \<Rightarrow> True | Some s \<Rightarrow> length s \<le> 64)"

lemma schedule_line_length:
  assumes "schedule_ok s" "short_status latest"
  shows "length (schedule_line (s, latest)) \<le> width Schedules_section"
  using assms cadence_length [of "sc_every s" "sc_next s"] slug_length [of "sc_id s"]
  by (auto simp: schedule_line_def schedule_ok_def quoted_def stamp_ok_def TITLE_LIMIT_def split: option.splits)

lemma tool_line_length: "tool_ok t \<Longrightarrow> length (tool_line t) \<le> width Tools_section"
  using slug_length [of "tl_id t"]
  by (auto simp: tool_line_def tool_ok_def quoted_def TITLE_LIMIT_def TOOL_NOTE_LIMIT_def TOOL_PRIORITIES_def
      TOOL_STATUSES_def)

lemma artifact_line_length: "artifact_ok F a \<Longrightarrow> length (artifact_line F a) \<le> width Artifacts_section"
  using slug_length [of "ar_id a"] number_length [of "data_chars F a" 5]
  by (auto simp: artifact_line_def artifact_ok_def quoted_def TITLE_LIMIT_def data_chars_def DATA_LIMIT_def)

lemma memory_line_length: "memory_ok m \<Longrightarrow> length (memory_line m) \<le> width Memories_section"
  using slug_length [of "me_id m"] by (auto simp: memory_line_def memory_ok_def MEMORY_CONTENT_LIMIT_def)

definition statuses_ok :: "workspace_db \<Rightarrow> bool" where
  "statuses_ok d \<longleftrightarrow> (\<forall>r \<in> set (runs d). short_status (rn_host_status r))"

lemma last_run_short: "statuses_ok d \<Longrightarrow> short_status (last_run_status d s)"
  by (auto simp: statuses_ok_def last_run_status_def split: option.splits Option.bind_splits dest!: find_first_Some)

lemma header_length: "n < 1000 \<Longrightarrow> cap < 1000 \<Longrightarrow> length title \<le> 12 \<Longrightarrow> length (count_header title n cap) \<le> 40"
  using number_length [of n 3] number_length [of cap 3] by (simp add: count_header_def)

lemmas digest_rows = digest_schedules_def digest_artifacts_def digest_memories_def digest_tools_def order_by_rows

lemma digest_sections_ok:
  assumes "tables_ok F d" "statuses_ok d"
  shows "list_all (section_ok width) (digest_sections le F d)"
    "names_of (digest_sections le F d) = [Schedules_section, Tools_section, Artifacts_section, Memories_section]"
proof -
  note counts = MAX_SCHEDULES_def MAX_TOOLS_def MAX_ARTIFACTS_def MAX_MEMORIES_def DIGEST_SCHEDULE_LINES_def
    DIGEST_ARTIFACT_LINES_def
  have rows: "list_all schedule_ok (schedules d)" "list_all (artifact_ok F) (artifacts d)"
    "list_all tool_ok (tool_rows d)" "list_all memory_ok (memories d)"
    "length (tool_rows d) \<le> 30" "length (memories d) \<le> 40" "length (artifacts d) \<le> 100" "length (schedules d) \<le> 20"
    using tables_okD [OF assms(1)] by (auto simp: capped_def counts)
  have "length (schedule_line row) \<le> width Schedules_section" if "row \<in> set (digest_schedules le d)" for row
    using that rows(1) last_run_short [OF assms(2)]
    by (auto simp: digest_rows list_all_iff simp del: width.simps intro!: schedule_line_length)
  moreover have "length (artifact_line F a) \<le> width Artifacts_section" if "a \<in> set (digest_artifacts le d)" for a
    using that rows(2) by (auto simp: digest_rows list_all_iff simp del: width.simps intro!: artifact_line_length)
  moreover have "length (tool_line t) \<le> width Tools_section" if "t \<in> set (digest_tools le d)" for t
    using that rows(3) by (auto simp: digest_rows list_all_iff simp del: width.simps intro!: tool_line_length)
  moreover have "length (memory_line m) \<le> width Memories_section" if "m \<in> set (digest_memories le d)" for m
    using that rows(4) by (auto simp: digest_rows list_all_iff simp del: width.simps intro!: memory_line_length)
  moreover have "length (digest_schedules le d) \<le> 20" "length (digest_artifacts le d) \<le> 100"
    "length (digest_tools le d) \<le> 30" "length (digest_memories le d) \<le> 40"
    using rows(5-8) by (simp_all add: digest_rows)
  ultimately show "list_all (section_ok width) (digest_sections le F d)"
    using rows(5-8)
    by (auto simp: digest_sections_def section_ok_def counts simp del: width.simps
        intro!: header_length dest!: in_set_takeD)
  show "names_of (digest_sections le F d) = [Schedules_section, Tools_section, Artifacts_section, Memories_section]"
    by (simp add: digest_sections_def names_of_def)
qed

lemma digest_bound:
  assumes "tables_ok F d" "statuses_ok d" "the_workspace d = Some w"
  shows "length (build_digest le F (ws_goal w) (ws_measurement w) d (Some b)) \<le> max b 10000"
proof -
  define ss where "ss = fold (trim_section (ws_goal w) (ws_measurement w) b)
    [Artifacts_section, Tools_section, Memories_section, Schedules_section] (digest_sections le F d)"
  have eq: "build_digest le F (ws_goal w) (ws_measurement w) d (Some b) = render_digest (ws_goal w) (ws_measurement w) ss"
    by (simp add: build_digest_def ss_def)
  note start = digest_sections_ok [OF assms(1,2), of le]
  have "list_all (section_ok width) ss \<and> names_of ss = names_of (digest_sections le F d)"
    unfolding ss_def by (rule fold_trim_ok [OF start(1)]) (simp add: start(2))
  then have ok: "list_all (section_ok width) ss"
    and names: "names_of ss = [Schedules_section, Tools_section, Artifacts_section, Memories_section]"
    by (simp_all add: start(2))
  from trimmed_sections [OF ss_def] consider "length (render_digest (ws_goal w) (ws_measurement w) ss) \<le> b"
    | "\<forall>name. line_count name ss \<le> DIGEST_SECTION_FLOOR" by blast
  then show ?thesis
  proof cases
    case 1
    then show ?thesis by (simp add: eq)
  next
    case 2
    obtain s1 s2 s3 s4 where ss: "ss = [s1, s2, s3, s4]" "ds_name s1 = Schedules_section" "ds_name s2 = Tools_section"
      "ds_name s3 = Artifacts_section" "ds_name s4 = Memories_section"
      using names by (auto simp: names_of_def map_eq_Cons_conv)
    have "length (ds_lines s) \<le> 6" if "s \<in> set ss" for s
      using 2 [rule_format, of "ds_name s"] line_count_unique [OF _ that] names by (simp add: DIGEST_SECTION_FLOOR_def)
    then have size: "text_size (section_lines s) \<le> 70 + 6 * (width (ds_name s) + 1)" if "s \<in> set ss" for s
      using ok that by (intro section_size) (auto simp: list_all_iff intro: section_name.exhaust [of "ds_name s"])
    have "text_size (concat (map section_lines ss)) \<le> 8500"
      using size [of s1] size [of s2] size [of s3] size [of s4] by (simp add: ss)
    moreover have "length (ws_goal w) \<le> 500" "length (ws_measurement w) \<le> 500"
      using tables_okD(5) [OF assms(1)] assms(3)
      by (auto simp: workspace_ok_def GOAL_LIMIT_def MEASUREMENT_LIMIT_def)
    ultimately have "length (render_digest (ws_goal w) (ws_measurement w) ss) \<le> 10000"
      unfolding render_digest_def by (intro order_trans [OF join_size]) (auto simp: or_unset_def)
    then show ?thesis by (simp add: eq)
  qed
qed

lemma context_line_length: "length (context_line m) \<le> 1907"
  by (simp add: context_line_def RECENT_CONTEXT_MESSAGE_LIMIT_def ellipsis_def)

lemma recent_context_length: "length (build_recent_context ms bound) \<le> 3816"
proof -
  define rows where "rows = filter (\<lambda>m. conversational m \<and> (case bound of None \<Rightarrow> True | Some i \<Rightarrow> ms_id m < i)) ms"
  let ?lines = "map context_line (drop (length rows - RECENT_CONTEXT_MESSAGES) rows)"
  have "text_size ?lines \<le> 2 * (1907 + 1)"
    by (rule text_size_bound) (auto simp: context_line_length RECENT_CONTEXT_MESSAGES_def)
  moreover have "build_recent_context ms bound = join [10] ?lines"
    by (simp add: build_recent_context_def rows_def Let_def)
  ultimately show ?thesis using join_size [of 10 ?lines] by simp
qed

lemma setup_brief_length: "length SETUP_BRIEF \<le> 1400"
  by (simp add: SETUP_BRIEF_def)

text \<open>The bound on the composed input, whatever the message of at most 20000 characters.\<close>

lemma task_input_fits:
  assumes "tables_ok F d" "statuses_ok d" "the_workspace d = Some w" "length payload \<le> USER_MESSAGE_LIMIT"
  shows "length (task_input le F d w r new_thread payload) \<le> HOST_INPUT_LIMIT"
proof -
  define fresh where "fresh \<longleftrightarrow> strip (ws_goal w) = []"
  define recent where "recent = (if new_thread
    then build_recent_context (messages d) (if rn_kind r = Chat_run then rn_message r else None) else [])"
  define context_length where "context_length = (if fresh then length SETUP_BRIEF + 2 else 0)
    + (if recent = [] then 0 else length recent_header + length recent + 2)"
  define digest where "digest = build_digest le F (ws_goal w) (ws_measurement w) d
    (Some (HOST_INPUT_LIMIT - context_length - length payload - 64))"
  have recent: "length recent \<le> 3816" using recent_context_length by (simp add: recent_def)
  then have "context_length \<le> 5300"
    using setup_brief_length by (simp add: context_length_def recent_header_def)
  moreover have "length digest \<le> max (HOST_INPUT_LIMIT - context_length - length payload - 64) 10000"
    unfolding digest_def by (rule digest_bound [OF assms(1-3)])
  moreover have "length (compose_input (rn_kind r) digest payload fresh recent)
      \<le> context_length + length digest + length payload + 32"
    by (auto simp: compose_input_def context_length_def split: run_kind.split)
  moreover have "task_input le F d w r new_thread payload = compose_input (rn_kind r) digest payload fresh recent"
    by (simp add: task_input_def fresh_def recent_def context_length_def digest_def Let_def)
  ultimately show ?thesis using assms(4) by (simp add: HOST_INPUT_LIMIT_def USER_MESSAGE_LIMIT_def)
qed

end
