(* ===== verification/WorkspaceRuns.thy ===== *)
theory WorkspaceRuns
  imports WorkspaceDigest
begin

text \<open>
  The run worker and the requests that interleave with it. The worker is one thread that
  reaps finished host tasks, fires due schedules and dispatches the oldest pending run; between
  its transactions it waits for the host, and meanwhile the requests of the operator and the
  agent run their own transactions. The machine takes one transaction, or one answer of the
  host, per step; a restart of the process may come at any point and loses all but the tables.
\<close>

subsection \<open>The transactions of the worker\<close>

definition DISPATCH_RETRY_SECONDS :: rat where "DISPATCH_RETRY_SECONDS = 30"

definition HOST_TASK_STATUSES_TERMINAL :: "str list" where
  "HOST_TASK_STATUSES_TERMINAL = map S [''completed'', ''failed'', ''cancelled'']"

text \<open>What the host says of a task: its state, or that it is unknown, too large or unavailable.\<close>

record host_task =
  ht_status :: str
  ht_output :: "str option"
  ht_error :: "str option"

datatype host_answer = Host_task host_task | Host_missing | Host_too_large | Host_unavailable

definition task_name :: "run \<Rightarrow> str" where
  "task_name r = (case rn_task r of Some t \<Rightarrow> t | None \<Rightarrow> S ''None'')"

definition set_done :: "run \<Rightarrow> str \<Rightarrow> str \<Rightarrow> unit ws_txn" where
  "set_done r host_status now = update_runs (\<lambda>q. rn_id q = rn_id r)
     (\<lambda>q. q\<lparr>rn_status := Run_done, rn_host_status := Some host_status, rn_updated := now\<rparr>)"

definition apply_run_result :: "run \<Rightarrow> host_task \<Rightarrow> str \<Rightarrow> unit ws_txn" where
  "apply_run_result r t now =
     then_txn
       (if ht_status t = S ''completed''
        then (let reply = strip (text_or (ht_output t) [])
              in if reply = [] then ok ()
                 else then_txn (insert_message ''agent'' (fst (clip_encoded_text reply FULL_MESSAGE_BYTES)) None now) (ok ()))
        else if ht_status t = S ''failed''
        then (let detail = text_or (ht_error t) (S ''task failed'')
              in then_txn (insert_message ''error''
                   (S ''Agent turn failed: '' @ fst (clip_encoded_text detail (FULL_MESSAGE_BYTES - 64))) None now) (ok ()))
        else if ht_status t = S ''cancelled''
        then then_txn (insert_event (S ''Stopped '' @ task_name r)
            [(S ''action'', JStr (S ''stop'')), (S ''task_id'', opt_text (rn_task r))] now) (ok ())
        else ok ())
       (set_done r (ht_status t) now)"

definition finish_oversized_run :: "run \<Rightarrow> str \<Rightarrow> unit ws_txn" where
  "finish_oversized_run r now =
     then_txn (insert_message ''error'' (S ''The agent's reply for '' @ task_name r @ S '' was too large to retrieve'') None now)
       (set_done r (S ''oversized'') now)"

definition finish_lost_run :: "run \<Rightarrow> str \<Rightarrow> unit ws_txn" where
  "finish_lost_run r now =
     then_txn (insert_message ''error'' (S ''Host task '' @ task_name r @ S '' disappeared; the turn was lost'') None now)
       (set_done r (S ''lost'') now)"

text \<open>One row of \<open>_reap_active_runs\<close>; the result says whether the run is over.\<close>

definition reap_run :: "run \<Rightarrow> host_answer \<Rightarrow> str \<Rightarrow> bool ws_txn" where
  "reap_run r answer now =
     (case answer of
        Host_missing \<Rightarrow> then_txn (finish_lost_run r now) (ok True)
      | Host_too_large \<Rightarrow> then_txn (finish_oversized_run r now) (ok True)
      | Host_unavailable \<Rightarrow> ok False
      | Host_task t \<Rightarrow>
          if ht_status t \<in> set HOST_TASK_STATUSES_TERMINAL then then_txn (apply_run_result r t now) (ok True)
          else if ht_status t \<noteq> [] \<and> rn_host_status r \<noteq> Some (ht_status t)
          then then_txn (update_runs (\<lambda>q. rn_id q = rn_id r)
                 (\<lambda>q. q\<lparr>rn_host_status := Some (ht_status t), rn_updated := now\<rparr>)) (ok False)
          else ok False)"

text \<open>\<open>parse_utc(next_run_at) or now_epoch\<close>: the epoch itself counts as unset.\<close>

definition due_epoch :: "str \<Rightarrow> int \<Rightarrow> int" where
  "due_epoch next clock = (case parse_utc next of None \<Rightarrow> clock | Some e \<Rightarrow> if e = 0 then clock else e)"

definition open_for :: "str \<Rightarrow> run \<Rightarrow> bool" where
  "open_for sid r \<longleftrightarrow> rn_schedule r = Some sid \<and> rn_status r \<noteq> Run_done"

definition update_schedule_row :: "str \<Rightarrow> (schedule \<Rightarrow> schedule) \<Rightarrow> unit ws_txn" where
  "update_schedule_row sid f = modify (\<lambda>d. d\<lparr>schedules := map (\<lambda>s. if sc_id s = sid then f s else s) (schedules d)\<rparr>)"

definition fire_schedule :: "str \<Rightarrow> int \<Rightarrow> schedule \<Rightarrow> unit ws_txn" where
  "fire_schedule now clock s =
     bind_txn (select (\<lambda>d. list_ex (open_for (sc_id s)) (runs d))) (\<lambda>overlapping.
     if overlapping \<and> sc_every s = None then ok ()
     else let new_next = map_option (\<lambda>every. format_utc (schedule_next_run
                (due_epoch (case sc_next s of Some t \<Rightarrow> t | None \<Rightarrow> []) clock) every clock)) (sc_every s)
          in if overlapping
             then then_txn (insert_event (S ''Skipped scheduled run '' @ quoted (sc_title s)
                    @ S '': the previous run is still active'')
                  (meta_of ''schedule_skip'' [(''schedule_id'', sc_id s)]) now)
                (update_schedule_row (sc_id s) (\<lambda>q. q\<lparr>sc_next := new_next, sc_updated := now\<rparr>))
             else bind_txn (insert_run Schedule_run None (Some (sc_id s)) now) (\<lambda>run_id.
                then_txn (update_schedule_row (sc_id s) (\<lambda>q. q\<lparr>sc_next := new_next, sc_enabled := (sc_every s \<noteq> None),
                    sc_last_run := Some run_id, sc_updated := now\<rparr>))
                (then_txn (insert_event (S ''Schedule '' @ quoted (sc_title s) @ S '' fired'')
                    (meta_of ''schedule_fire'' [(''schedule_id'', sc_id s)]) now) (ok ()))))"

text \<open>Stored times are compared as texts, in the collation of the database.\<close>

definition is_due :: "(str \<Rightarrow> str \<Rightarrow> bool) \<Rightarrow> str \<Rightarrow> schedule \<Rightarrow> bool" where
  "is_due le now s \<longleftrightarrow> sc_enabled s \<and> (case sc_next s of None \<Rightarrow> False | Some t \<Rightarrow> le t now)"

definition fire_due_schedules :: "(str \<Rightarrow> str \<Rightarrow> bool) \<Rightarrow> str \<Rightarrow> int \<Rightarrow> unit ws_txn" where
  "fire_due_schedules le now clock =
     bind_txn workspace_runtime (\<lambda>runtime.
     if runtime = None then ok ()
     else bind_txn (select (\<lambda>d. order_by (\<lambda>x y. le (the (sc_next x)) (the (sc_next y)))
              (filter (is_due le now) (schedules d))))
            (each_txn (fire_schedule now clock)))"

definition next_pending :: "workspace_db \<Rightarrow> run option" where
  "next_pending d =
     (if list_ex (\<lambda>r. rn_status r = Run_active) (runs d) then None
      else find_first (\<lambda>r. rn_status r = Run_pending) (runs d))"

text \<open>A task reference of the host is unique in the table.\<close>

definition claim_run :: "prepared_task \<Rightarrow> str \<Rightarrow> str \<Rightarrow> str \<Rightarrow> bool ws_txn" where
  "claim_run pt task_id status now =
     bind_txn (select runs) (\<lambda>rs.
     if list_ex (\<lambda>r. rn_id r = pt_run pt \<and> rn_status r = Run_pending) rs
     then then_txn (require (\<not> list_ex (\<lambda>r. rn_task r = Some task_id) rs) constraint_violation)
       (then_txn (update_runs (\<lambda>r. rn_id r = pt_run pt \<and> rn_status r = Run_pending)
          (\<lambda>r. r\<lparr>rn_status := Run_active, rn_task := Some task_id, rn_host_status := Some status,
                rn_thread := Some (pt_thread pt), rn_runtime := Some (pt_runtime pt), rn_error := None,
                rn_updated := now\<rparr>)) (ok True))
     else ok False)"

definition record_dispatch_error :: "int \<Rightarrow> str \<Rightarrow> str \<Rightarrow> unit ws_txn" where
  "record_dispatch_error run_id message now =
     update_runs (\<lambda>r. rn_id r = run_id \<and> rn_status r = Run_pending)
       (\<lambda>r. r\<lparr>rn_error := Some (take 500 message), rn_updated := now\<rparr>)"

subsection \<open>The engine\<close>

text \<open>Where the worker is, between two transactions.\<close>

datatype worker =
    Idle
  | Reaping bool "run list"
  | Firing
  | Picking
  | Preparing run
  | Posting prepared_task
  | Claiming prepared_task str str
  | Cancelling int str
  | Reporting int str

text \<open>An agent call after the check of its thread, and after it was counted.\<close>

datatype agent_call = Checked str json | Counted str action_fields

record engine =
  wdb :: workspace_db
  wk :: worker
  attempts :: "(int, rat) dict"
  action_counts :: "(str, int) dict"
  steers :: "(int \<times> str) list"
  calls :: "agent_call list"

definition forget_run_caches :: "int \<Rightarrow> str option \<Rightarrow> engine \<Rightarrow> engine" where
  "forget_run_caches run_id task e =
     e\<lparr>attempts := AList.delete run_id (attempts e),
       action_counts := (case task of None \<Rightarrow> action_counts e
         | Some t \<Rightarrow> if t = [] then action_counts e else AList.delete t (action_counts e))\<rparr>"

datatype worker_event = Go | Host_says host_answer | Task_created str "str option" | Post_failed str

definition forget_attempt :: "int \<Rightarrow> engine \<Rightarrow> engine" where
  "forget_attempt run_id e = e\<lparr>attempts := AList.delete run_id (attempts e)\<rparr>"

definition dispatch_step ::
  "(str \<Rightarrow> str \<Rightarrow> bool) \<Rightarrow> (rat option \<Rightarrow> str) \<Rightarrow> str \<Rightarrow> run \<Rightarrow> engine \<Rightarrow> engine" where
  "dispatch_step le F now r e =
     (case prepare_run le F r now (wdb e) of
        Inl _ \<Rightarrow> e\<lparr>wk := Reporting (rn_id r) (S ''workspace agent settings are not set yet'')\<rparr>
      | Inr (None, d) \<Rightarrow> forget_run_caches (rn_id r) None (e\<lparr>wdb := d, wk := Idle\<rparr>)
      | Inr (Some pt, d) \<Rightarrow>
          if HOST_INPUT_LIMIT < length (pt_input pt)
          then e\<lparr>wk := Reporting (rn_id r) (S ''composed task input exceeds the host limit'')\<rparr>
          else e\<lparr>wdb := d, wk := Posting pt\<rparr>)"

definition pick_step :: "rat \<Rightarrow> engine \<Rightarrow> engine" where
  "pick_step tick e =
     (case next_pending (wdb e) of
        None \<Rightarrow> e\<lparr>wk := Idle\<rparr>
      | Some r \<Rightarrow>
          if (case map_of (attempts e) (rn_id r) of None \<Rightarrow> False | Some t \<Rightarrow> tick - t < DISPATCH_RETRY_SECONDS)
          then e\<lparr>wk := Idle\<rparr>
          else e\<lparr>attempts := AList.update (rn_id r) tick (attempts e), wk := Preparing r\<rparr>)"

definition claim_step :: "prepared_task \<Rightarrow> str \<Rightarrow> str \<Rightarrow> str \<Rightarrow> engine \<Rightarrow> engine" where
  "claim_step pt task_id status now e =
     (case claim_run pt task_id status now (wdb e) of
        Inl _ \<Rightarrow> e\<lparr>wk := Reporting (pt_run pt) (S ''constraint violation'')\<rparr>
      | Inr (True, d) \<Rightarrow> forget_attempt (pt_run pt) (e\<lparr>wdb := d, wk := Idle\<rparr>)
      | Inr (False, d) \<Rightarrow> e\<lparr>wk := Cancelling (pt_run pt) task_id\<rparr>)"

definition reap_step :: "bool \<Rightarrow> run \<Rightarrow> run list \<Rightarrow> host_answer \<Rightarrow> str \<Rightarrow> engine \<Rightarrow> engine" where
  "reap_step deactivated r rows answer now e =
     (case mutation (reap_run r answer now) (wdb e) of
        (Inr True, d) \<Rightarrow> forget_run_caches (rn_id r) (rn_task r) (e\<lparr>wdb := d, wk := Reaping deactivated rows\<rparr>)
      | (_, d) \<Rightarrow> e\<lparr>wdb := d, wk := Reaping deactivated rows\<rparr>)"

text \<open>One step of the worker; an event that does not fit the state changes nothing.\<close>

definition worker_step ::
  "(str \<Rightarrow> str \<Rightarrow> bool) \<Rightarrow> (rat option \<Rightarrow> str) \<Rightarrow> str \<Rightarrow> int \<Rightarrow> rat \<Rightarrow> worker_event \<Rightarrow> engine \<Rightarrow> engine" where
  "worker_step le F now clock tick event e =
     (case (wk e, event) of
        (Idle, Go) \<Rightarrow>
          e\<lparr>wk := Reaping (Option.bind (the_workspace (wdb e)) ws_settings = None)
              (filter (\<lambda>r. rn_status r = Run_active) (runs (wdb e)))\<rparr>
      | (Reaping deactivated [], Go) \<Rightarrow> e\<lparr>wk := Firing\<rparr>
      | (Reaping deactivated (r # rows), Host_says answer) \<Rightarrow> reap_step deactivated r rows answer now e
      | (Firing, Go) \<Rightarrow>
          (case mutation (fire_due_schedules le now clock) (wdb e) of (r, d) \<Rightarrow>
             e\<lparr>wdb := d, wk := (case r of Inl _ \<Rightarrow> Idle | Inr _ \<Rightarrow> Picking)\<rparr>)
      | (Picking, Go) \<Rightarrow> pick_step tick e
      | (Preparing r, Go) \<Rightarrow> dispatch_step le F now r e
      | (Posting pt, Task_created task_id status) \<Rightarrow>
          if task_id = [] then e\<lparr>wk := Reporting (pt_run pt) (S ''host admin returned an invalid task reference'')\<rparr>
          else e\<lparr>wk := Claiming pt task_id (text_or status (S ''queued''))\<rparr>
      | (Posting pt, Post_failed message) \<Rightarrow> e\<lparr>wk := Reporting (pt_run pt) message\<rparr>
      | (Claiming pt task_id status, Go) \<Rightarrow> claim_step pt task_id status now e
      | (Cancelling run_id task_id, Go) \<Rightarrow> forget_attempt run_id (e\<lparr>wk := Idle\<rparr>)
      | (Reporting run_id message, Go) \<Rightarrow>
          e\<lparr>wdb := snd (mutation (record_dispatch_error run_id message now) (wdb e)), wk := Idle\<rparr>
      | _ \<Rightarrow> e)"

subsection \<open>Requests\<close>

datatype ui_request =
    Activate json
  | Deactivate json
  | Send json
  | Interact json
  | Settings json
  | Enable_schedule str bool
  | Delete_schedule str
  | Delete_artifact str
  | Edit_memory str json
  | Delete_memory str
  | Delete_tool str
  | Discard str

text \<open>The transaction of a request, with the runs whose caches it drops and the steer it starts.\<close>

definition ui_txn ::
  "(rat option \<Rightarrow> str) \<Rightarrow> ui_request \<Rightarrow> str \<Rightarrow> int \<Rightarrow> (int list \<times> (int \<times> str) option) ws_txn" where
  "ui_txn F request now clock =
     (let quiet = (\<lambda>m. then_txn m (ok ([], None)));
          queued = (\<lambda>(message_id, run_id, task). ok ([], map_option (\<lambda>t. (run_id, t)) task))
      in case request of
           Activate body \<Rightarrow> quiet (activate_workspace body now clock)
         | Deactivate body \<Rightarrow> bind_txn (deactivate_workspace body now) (\<lambda>dropped.
             ok (case dropped of None \<Rightarrow> [] | Some (pending, _) \<Rightarrow> pending, None))
         | Send body \<Rightarrow> bind_txn (send_message body now clock) queued
         | Interact body \<Rightarrow> bind_txn (submit_artifact_interaction F body now) (\<lambda>(_, q). queued q)
         | Settings body \<Rightarrow> bind_txn (update_agent_settings body now) (\<lambda>_. ok ([], None))
         | Enable_schedule sid enabled \<Rightarrow> quiet (set_schedule_enabled sid enabled now clock)
         | Delete_schedule sid \<Rightarrow> quiet (delete_schedule_from_ui sid now)
         | Delete_artifact aid \<Rightarrow> quiet (delete_artifact_from_ui aid now)
         | Edit_memory mid body \<Rightarrow> bind_txn (edit_memory_from_ui mid body now) (\<lambda>_. ok ([], None))
         | Delete_memory mid \<Rightarrow> quiet (delete_memory_from_ui mid now)
         | Delete_tool tid \<Rightarrow> quiet (delete_tool_from_ui tid now)
         | Discard run_id \<Rightarrow> bind_txn (discard_pending_run run_id now) (\<lambda>n. ok ([n], None)))"

definition ui_step :: "(rat option \<Rightarrow> str) \<Rightarrow> ui_request \<Rightarrow> str \<Rightarrow> int \<Rightarrow> engine \<Rightarrow> engine" where
  "ui_step F request now clock e =
     (case ui_txn F request now clock (wdb e) of
        Inl _ \<Rightarrow> e
      | Inr ((dropped, steer), d) \<Rightarrow>
          e\<lparr>wdb := d, attempts := filter (\<lambda>(i, _). i \<notin> set dropped) (attempts e),
            steers := steers e @ (case steer of None \<Rightarrow> [] | Some s \<Rightarrow> [s])\<rparr>)"

definition steer_step :: "int \<times> str \<Rightarrow> bool \<Rightarrow> str \<Rightarrow> engine \<Rightarrow> engine" where
  "steer_step steer delivered now e =
     (let e' = e\<lparr>steers := remove1 steer (steers e)\<rparr>
      in if \<not> delivered then e'
         else (case finish_steered (fst steer) (snd steer) now (wdb e) of
                 Inr (True, d) \<Rightarrow> forget_run_caches (fst steer) None (e'\<lparr>wdb := d\<rparr>)
               | _ \<Rightarrow> e'))"

definition arrive_step :: "str \<Rightarrow> json \<Rightarrow> engine \<Rightarrow> engine" where
  "arrive_step thread_id body e =
     (case active_task_for_agent_thread thread_id (wdb e) of
        Inl _ \<Rightarrow> e
      | Inr (task_id, _) \<Rightarrow> e\<lparr>calls := calls e @ [Checked task_id body]\<rparr>)"

text \<open>The count of the call under the lock, and the record of an exhausted budget.\<close>

definition count_step :: "str \<Rightarrow> json \<Rightarrow> bool \<Rightarrow> str \<Rightarrow> engine \<Rightarrow> engine" where
  "count_step task_id body recorded now e =
     (let e' = e\<lparr>calls := remove1 (Checked task_id body) (calls e)\<rparr>
      in case jobj body of
           None \<Rightarrow> e'
         | Some action \<Rightarrow>
             if \<not> is_action_body body then e'
             else (case count_action (action_counts e) task_id of (used, counts) \<Rightarrow>
               if used < MAX_ACTIONS_PER_TURN
               then e'\<lparr>action_counts := counts, calls := calls e' @ [Counted task_id action]\<rparr>
               else if used = MAX_ACTIONS_PER_TURN
               then (if recorded then e'\<lparr>action_counts := counts, wdb := snd (mutation (record_exhaustion now) (wdb e))\<rparr>
                     else e'\<lparr>action_counts := uncount_exhaustion counts task_id\<rparr>)
               else e'))"

definition write_step ::
  "(rat option \<Rightarrow> str) \<Rightarrow> (json \<Rightarrow> str) \<Rightarrow> str \<Rightarrow> action_fields \<Rightarrow> str \<Rightarrow> int \<Rightarrow> engine \<Rightarrow> engine" where
  "write_step F R task_id action now clock e =
     e\<lparr>calls := remove1 (Counted task_id action) (calls e),
       wdb := snd (mutation (agent_action_txn F R action task_id now clock) (wdb e))\<rparr>"

definition restart_step :: "engine \<Rightarrow> engine" where
  "restart_step e = \<lparr>wdb = wdb e, wk = Idle, attempts = [], action_counts = [], steers = [], calls = []\<rparr>"

definition initial_engine :: engine where
  "initial_engine = restart_step \<lparr>wdb = empty_workspace, wk = Idle, attempts = [], action_counts = [],
     steers = [], calls = []\<rparr>"

text \<open>The statuses of host tasks are short words.\<close>

definition short_answer :: "worker_event \<Rightarrow> bool" where
  "short_answer event =
     (case event of
        Host_says (Host_task t) \<Rightarrow> length (ht_status t) \<le> 64
      | Task_created _ status \<Rightarrow> short_status status
      | _ \<Rightarrow> True)"

inductive engine_step ::
  "(str \<Rightarrow> str \<Rightarrow> bool) \<Rightarrow> (rat option \<Rightarrow> str) \<Rightarrow> (json \<Rightarrow> str) \<Rightarrow> engine \<Rightarrow> engine \<Rightarrow> bool" for le F R where
  Worker: "sane_clock clock \<Longrightarrow> now = format_utc clock' \<Longrightarrow> sane_clock clock' \<Longrightarrow> short_answer event \<Longrightarrow>
    engine_step le F R e (worker_step le F now clock tick event e)"
| Request: "sane_clock clock \<Longrightarrow> now = format_utc clock' \<Longrightarrow> sane_clock clock' \<Longrightarrow>
    engine_step le F R e (ui_step F request now clock e)"
| Steer: "steer \<in> set (steers e) \<Longrightarrow> now = format_utc clock' \<Longrightarrow> sane_clock clock' \<Longrightarrow>
    engine_step le F R e (steer_step steer delivered now e)"
| Arrive: "engine_step le F R e (arrive_step thread_id body e)"
| Count: "Checked task_id body \<in> set (calls e) \<Longrightarrow> now = format_utc clock' \<Longrightarrow> sane_clock clock' \<Longrightarrow>
    engine_step le F R e (count_step task_id body recorded now e)"
| Write: "Counted task_id action \<in> set (calls e) \<Longrightarrow> sane_clock clock \<Longrightarrow> now = format_utc clock' \<Longrightarrow>
    sane_clock clock' \<Longrightarrow> engine_step le F R e (write_step F R task_id action now clock e)"
| Restart: "engine_step le F R e (restart_step e)"

abbreviation engine_steps ::
  "(str \<Rightarrow> str \<Rightarrow> bool) \<Rightarrow> (rat option \<Rightarrow> str) \<Rightarrow> (json \<Rightarrow> str) \<Rightarrow> engine \<Rightarrow> engine \<Rightarrow> bool" where
  "engine_steps le F R \<equiv> (engine_step le F R)\<^sup>*\<^sup>*"

abbreviation engine_reachable ::
  "(str \<Rightarrow> str \<Rightarrow> bool) \<Rightarrow> (rat option \<Rightarrow> str) \<Rightarrow> (json \<Rightarrow> str) \<Rightarrow> engine \<Rightarrow> bool" where
  "engine_reachable le F R e \<equiv> engine_steps le F R initial_engine e"

end
