(* ===== verification/WorkspaceInvariants.thy ===== *)
theory WorkspaceInvariants
  imports WorkspaceRuns Lifecycle
begin

text \<open>
  The invariant of the workspace engine under every interleaving of the worker, the operator,
  the agent and restarts: the tables stay within their limits, at most one run is active, at
  most one run per schedule is open, an inactive workspace has no work, and an active run
  belongs to the current thread.
\<close>

subsection \<open>The invariant\<close>

definition few :: "('a \<Rightarrow> bool) \<Rightarrow> nat \<Rightarrow> 'a list \<Rightarrow> bool" where
  "few P n xs \<longleftrightarrow> length (filter P xs) \<le> n"

lemma few_map: "few P n xs \<Longrightarrow> (\<And>x. P (f x) \<Longrightarrow> P x) \<Longrightarrow> few P n (map f xs)"
proof -
  assume few: "few P n xs" and P: "\<And>x. P (f x) \<Longrightarrow> P x"
  have "length (filter P (map f xs)) \<le> length (filter P xs)"
    using P by (induction xs) (auto simp: le_Suc_eq)
  with few show ?thesis by (simp add: few_def)
qed

lemma few_none: "few P 0 xs \<longleftrightarrow> list_all (\<lambda>x. \<not> P x) xs"
  by (simp add: few_def filter_empty_conv list_all_iff)

lemma few_append: "few P n xs \<Longrightarrow> \<not> P x \<Longrightarrow> few P n (xs @ [x])"
  by (simp add: few_def)

lemma few_append_Suc: "few P n xs \<Longrightarrow> few P (Suc n) (xs @ [x])"
  by (simp add: few_def)

abbreviation active :: "run \<Rightarrow> bool" where "active r \<equiv> rn_status r = Run_active"
abbreviation pending :: "run \<Rightarrow> bool" where "pending r \<equiv> rn_status r = Run_pending"
abbreviation open_chat :: "run \<Rightarrow> bool" where "open_chat r \<equiv> rn_status r \<noteq> Run_done \<and> rn_kind r = Chat_run"

definition run_ok :: "feed_message list \<Rightarrow> run \<Rightarrow> bool" where
  "run_ok ms r \<longleftrightarrow> (pending r \<longrightarrow> rn_task r = None \<and> rn_thread r = None \<and> rn_runtime r = None)
     \<and> (active r \<longrightarrow> rn_task r \<noteq> None \<and> rn_thread r \<noteq> None \<and> rn_host_status r \<noteq> None)
     \<and> (rn_kind r = Chat_run \<longrightarrow> (\<exists>m \<in> set ms. rn_message r = Some (ms_id m) \<and> length (ms_content m) \<le> USER_MESSAGE_LIMIT))
     \<and> (rn_kind r = Chat_run \<longleftrightarrow> rn_schedule r = None)
     \<and> short_status (rn_host_status r)"

definition tasks_unique :: "run list \<Rightarrow> bool" where
  "tasks_unique rs \<longleftrightarrow> (\<forall>r \<in> set rs. \<forall>q \<in> set rs. rn_task r \<noteq> None \<longrightarrow> rn_task r = rn_task q \<longrightarrow> rn_id r = rn_id q)"

definition runs_ok :: "int \<Rightarrow> feed_message list \<Rightarrow> run list \<Rightarrow> bool" where
  "runs_ok n ms rs \<longleftrightarrow> table_ok rn_id (n, rs) \<and> list_all (run_ok ms) rs \<and> few active 1 rs
     \<and> few open_chat MAX_QUEUED_CHAT_TURNS rs \<and> (\<forall>sid. few (open_for sid) 1 rs) \<and> tasks_unique rs"

definition thread_of :: "int \<Rightarrow> str" where "thread_of k = WORKSPACE_THREAD_PREFIX @ str_of_int k"

definition in_session :: "workspace \<Rightarrow> run \<Rightarrow> bool" where
  "in_session w r \<longleftrightarrow> (\<forall>t. rn_thread r = Some t \<longrightarrow> (\<exists>k. 1 \<le> k \<and> k \<le> ws_thread_seq w \<and> t = thread_of k))
     \<and> (active r \<longrightarrow> (rn_thread r = Some (workspace_thread w) \<longleftrightarrow> ws_settings w \<noteq> None))
     \<and> (pending r \<longrightarrow> ws_settings w \<noteq> None)"

definition session_ok :: "workspace option \<Rightarrow> run list \<Rightarrow> schedule list \<Rightarrow> bool" where
  "session_ok w rs ss \<longleftrightarrow> (case w of
     None \<Rightarrow> rs = [] \<and> ss = []
   | Some w \<Rightarrow> 1 \<le> ws_thread_seq w \<and> list_all (in_session w) rs
       \<and> (ws_settings w = None \<longrightarrow> list_all (\<lambda>s. \<not> sc_enabled s) ss))"

definition is_active_workspace :: "workspace option \<Rightarrow> bool" where
  "is_active_workspace w \<longleftrightarrow> Option.bind w ws_settings \<noteq> None"

definition claimable :: "prepared_task \<Rightarrow> workspace option \<Rightarrow> run list \<Rightarrow> bool" where
  "claimable pt w rs \<longleftrightarrow> (\<forall>r \<in> set rs. rn_id r = pt_run pt \<longrightarrow> pending r \<longrightarrow>
     is_active_workspace w \<and> Some (pt_thread pt) = map_option workspace_thread w)"

definition worker_ok :: "worker \<Rightarrow> int \<Rightarrow> feed_message list \<Rightarrow> workspace option \<Rightarrow> run list \<Rightarrow> bool" where
  "worker_ok k n ms w rs \<longleftrightarrow> (case k of
     Preparing r \<Rightarrow> few active 0 rs \<and> rn_id r < n \<and> pending r \<and> run_ok ms r
   | Posting pt \<Rightarrow> few active 0 rs \<and> pt_run pt < n \<and> length (pt_input pt) \<le> HOST_INPUT_LIMIT \<and> claimable pt w rs
   | Claiming pt t s \<Rightarrow> few active 0 rs \<and> pt_run pt < n \<and> length (pt_input pt) \<le> HOST_INPUT_LIMIT \<and> claimable pt w rs
       \<and> length s \<le> 64
   | _ \<Rightarrow> True)"

definition db_ok :: "(rat option \<Rightarrow> str) \<Rightarrow> worker \<Rightarrow> workspace_db \<Rightarrow> bool" where
  "db_ok F k d \<longleftrightarrow> tables_ok F d \<and> table_ok ms_id (next_message d, messages d)
     \<and> runs_ok (next_run d) (messages d) (runs d)
     \<and> session_ok (the_workspace d) (runs d) (schedules d)
     \<and> worker_ok k (next_run d) (messages d) (the_workspace d) (runs d)"

subsection \<open>Primitive changes\<close>

lemma run_ok_append: "run_ok ms r \<Longrightarrow> run_ok (ms @ [m]) r"
  by (auto simp: run_ok_def)

lemma runs_ok_append: "runs_ok n ms rs \<Longrightarrow> runs_ok n (ms @ [m]) rs"
  by (auto simp: runs_ok_def list_all_iff run_ok_append)

lemma worker_ok_append: "worker_ok k n ms w rs \<Longrightarrow> worker_ok k n (ms @ [m]) w rs"
  by (auto simp: worker_ok_def run_ok_append split: worker.splits)

definition with_message :: "feed_message \<Rightarrow> workspace_db \<Rightarrow> workspace_db" where
  "with_message m d = d\<lparr>messages := messages d @ [m], next_message := next_message d + 1\<rparr>"

lemma with_message_simps [simp]:
  "messages (with_message m d) = messages d @ [m]" "next_message (with_message m d) = next_message d + 1"
  "runs (with_message m d) = runs d" "next_run (with_message m d) = next_run d"
  "the_workspace (with_message m d) = the_workspace d" "schedules (with_message m d) = schedules d"
  "artifacts (with_message m d) = artifacts d" "memories (with_message m d) = memories d"
  "tool_rows (with_message m d) = tool_rows d"
  by (simp_all add: with_message_def)

lemma db_ok_message: "db_ok F k d \<Longrightarrow> ms_id m = next_message d \<Longrightarrow> db_ok F k (with_message m d)"
  by (auto simp: db_ok_def with_message_def table_ok_insert runs_ok_append worker_ok_append)

lemma wlp_insert_message [wlp_simps]:
  "wlp (insert_message role content meta created) Q d \<longleftrightarrow>
     Q (next_message d) (with_message \<lparr>ms_id = next_message d, ms_role = S role, ms_content = content, ms_meta = meta,
       ms_created = created\<rparr> d)"
  by (simp add: insert_message_def wlp_def with_message_def)

lemma wlp_insert_event [wlp_simps]:
  "wlp (insert_event content meta created) Q d \<longleftrightarrow>
     Q (next_message d) (with_message \<lparr>ms_id = next_message d, ms_role = S ''event'', ms_content = content,
       ms_meta = Some meta, ms_created = created\<rparr> d)"
  by (simp add: insert_event_def wlp_insert_message)

lemma wlp_update_runs [wlp_simps]:
  "wlp (update_runs P f) Q d \<longleftrightarrow> Q () (d\<lparr>runs := map (\<lambda>r. if P r then f r else r) (runs d)\<rparr>)"
  by (simp add: update_runs_def wlp_simps)

lemma wlp_set_workspace [wlp_simps]:
  "wlp (set_workspace f) Q d \<longleftrightarrow> Q () (d\<lparr>the_workspace := map_option f (the_workspace d)\<rparr>)"
  by (simp add: set_workspace_def wlp_simps)

lemma wlp_workspace_runtime [wlp_simps]:
  "wlp workspace_runtime Q d \<longleftrightarrow> Q (Option.bind (the_workspace d) (\<lambda>w. map_option fst (ws_settings w))) d"
  by (simp add: workspace_runtime_def wlp_simps)

lemma runtime_None [simp]:
  "Option.bind w (\<lambda>w. map_option fst (ws_settings w)) = None \<longleftrightarrow> \<not> is_active_workspace w"
proof (cases w)
  case (Some v)
  then show ?thesis by (cases "ws_settings v") (simp_all add: is_active_workspace_def)
qed (simp add: is_active_workspace_def)

lemma runtime_Some: "Option.bind w (\<lambda>w. map_option fst (ws_settings w)) = Some t \<Longrightarrow> is_active_workspace w"
  by (metis option.distinct(1) runtime_None)

text \<open>Updates that leave a run what it is, or end it.\<close>

definition winds_down :: "run \<Rightarrow> run \<Rightarrow> bool" where
  "winds_down r r' \<longleftrightarrow> rn_id r' = rn_id r \<and> rn_kind r' = rn_kind r \<and> rn_message r' = rn_message r
     \<and> rn_schedule r' = rn_schedule r \<and> rn_task r' = rn_task r \<and> rn_thread r' = rn_thread r
     \<and> rn_runtime r' = rn_runtime r \<and> (rn_status r' = rn_status r \<or> rn_status r' = Run_done)
     \<and> (short_status (rn_host_status r) \<longrightarrow> short_status (rn_host_status r'))
     \<and> (rn_host_status r \<noteq> None \<longrightarrow> rn_host_status r' \<noteq> None)"

lemma winds_down_refl [simp]: "winds_down r r"
  by (simp add: winds_down_def)

lemma winds_down_same:
  "winds_down r r' \<Longrightarrow> rn_id r' = rn_id r" "winds_down r r' \<Longrightarrow> rn_kind r' = rn_kind r"
  "winds_down r r' \<Longrightarrow> rn_message r' = rn_message r" "winds_down r r' \<Longrightarrow> rn_schedule r' = rn_schedule r"
  "winds_down r r' \<Longrightarrow> rn_task r' = rn_task r" "winds_down r r' \<Longrightarrow> rn_thread r' = rn_thread r"
  by (simp_all add: winds_down_def)

lemma winds_down_open: "winds_down r r' \<Longrightarrow> rn_status r' \<noteq> Run_done \<Longrightarrow> rn_status r = rn_status r'"
  by (auto simp: winds_down_def)

lemma finish_winds_down [simp]: "length s \<le> 64 \<Longrightarrow> winds_down r (finish s now r)"
  by (simp add: winds_down_def finish_def)

lemma run_ok_wind_down: "run_ok ms r \<Longrightarrow> winds_down r r' \<Longrightarrow> run_ok ms r'"
  unfolding run_ok_def winds_down_def by (elim conjE disjE) simp_all

lemma runs_ok_wind_down:
  assumes ok: "runs_ok n ms rs" and down: "\<And>r. winds_down r (f r)"
  shows "runs_ok n ms (map f rs)"
proof -
  note same [simp] = winds_down_same [OF down]
  have still: "rn_status r = rn_status (f r)" if "rn_status (f r) \<noteq> Run_done" for r
    using winds_down_open [OF down that] .
  have "table_ok rn_id (n, map f rs)"
    using ok table_ok_update [of rn_id n rs "\<lambda>_. True" f] by (simp add: runs_ok_def)
  moreover have "list_all (run_ok ms) (map f rs)"
    using ok run_ok_wind_down [OF _ down] by (simp add: runs_ok_def list_all_iff)
  moreover have "few active 1 (map f rs)"
  proof (rule few_map)
    show "active x" if "active (f x)" for x using still [of x] that by simp
  qed (use ok in \<open>simp add: runs_ok_def\<close>)
  moreover have "few open_chat MAX_QUEUED_CHAT_TURNS (map f rs)"
  proof (rule few_map)
    show "open_chat x" if "open_chat (f x)" for x using still [of x] that by simp
  qed (use ok in \<open>simp add: runs_ok_def\<close>)
  moreover have "few (open_for sid) 1 (map f rs)" for sid
  proof (rule few_map)
    show "open_for sid x" if "open_for sid (f x)" for x using still [of x] that by (simp add: open_for_def)
  qed (use ok in \<open>simp add: runs_ok_def\<close>)
  moreover have "tasks_unique (map f rs)"
  proof -
    have "tasks_unique rs" using ok by (simp add: runs_ok_def)
    then show ?thesis unfolding tasks_unique_def set_map ball_simps same by blast
  qed
  ultimately show ?thesis by (simp add: runs_ok_def)
qed

lemma in_session_wind_down: "in_session w r \<Longrightarrow> winds_down r r' \<Longrightarrow> in_session w r'"
  unfolding in_session_def winds_down_def by (elim conjE disjE) simp_all

lemma session_ok_wind_down:
  assumes "session_ok w rs ss" "\<And>r. winds_down r (f r)"
  shows "session_ok w (map f rs) ss"
  using assms(1) in_session_wind_down [OF _ assms(2)]
  by (auto simp: session_ok_def list_all_iff split: option.splits)

lemma worker_ok_wind_down:
  assumes "worker_ok k n ms w rs" and down: "\<And>r. winds_down r (f r)"
  shows "worker_ok k n ms w (map f rs)"
proof -
  note same [simp] = winds_down_same [OF down]
  have still: "active (f r) \<Longrightarrow> active r" "pending (f r) \<Longrightarrow> pending r" for r
    using winds_down_open [OF down, of r] by simp_all
  have "few active 0 (map f rs)" if "few active 0 rs" using that still(1) by (rule few_map)
  moreover have "claimable pt w (map f rs)" if "claimable pt w rs" for pt
    using that still(2) by (simp add: claimable_def)
  ultimately show ?thesis using assms(1) by (simp add: worker_ok_def split: worker.splits)
qed

lemma db_ok_wind_down:
  assumes "db_ok F k d" "\<And>r. winds_down r (f r)"
  shows "db_ok F k (d\<lparr>runs := map f (runs d)\<rparr>)"
  using assms runs_ok_wind_down [OF _ assms(2)] session_ok_wind_down [OF _ assms(2)] worker_ok_wind_down [OF _ assms(2)]
  by (simp add: db_ok_def)

text \<open>An update of some rows that only winds them down, and a new run.\<close>

lemma db_ok_update_runs:
  assumes "db_ok F k d" "\<And>r. winds_down r (f r)"
  shows "db_ok F k (d\<lparr>runs := map (\<lambda>r. if P r then f r else r) (runs d)\<rparr>)"
  by (rule db_ok_wind_down) (simp_all add: assms)

definition new_run :: "run_kind \<Rightarrow> int option \<Rightarrow> str option \<Rightarrow> str \<Rightarrow> workspace_db \<Rightarrow> run" where
  "new_run kind message_id schedule_id now d =
     \<lparr>rn_id = next_run d, rn_kind = kind, rn_status = Run_pending, rn_task = None,
      rn_host_status = None, rn_thread = None, rn_runtime = None, rn_message = message_id,
      rn_schedule = schedule_id, rn_error = None, rn_created = now, rn_updated = now\<rparr>"

definition with_run :: "run \<Rightarrow> workspace_db \<Rightarrow> workspace_db" where
  "with_run r d = d\<lparr>runs := runs d @ [r], next_run := next_run d + 1\<rparr>"

lemma with_run_simps [simp]:
  "messages (with_run r d) = messages d" "next_message (with_run r d) = next_message d"
  "runs (with_run r d) = runs d @ [r]" "next_run (with_run r d) = next_run d + 1"
  "the_workspace (with_run r d) = the_workspace d" "schedules (with_run r d) = schedules d"
  by (simp_all add: with_run_def)

lemma wlp_insert_run [wlp_simps]:
  "wlp (insert_run kind message_id schedule_id now) Q d \<longleftrightarrow>
     Q (next_run d) (with_run (new_run kind message_id schedule_id now d) d)"
  by (simp add: insert_run_def wlp_def with_run_def new_run_def)

lemma in_session_pending: "pending r \<Longrightarrow> rn_thread r = None \<Longrightarrow> ws_settings w \<noteq> None \<Longrightarrow> in_session w r"
  by (simp add: in_session_def)

lemma worker_ok_new_run:
  assumes "worker_ok k n ms w rs" "pending r" "rn_id r = n"
  shows "worker_ok k (n + 1) ms w (rs @ [r])"
  using assms by (auto simp: worker_ok_def few_append claimable_def split: worker.splits)

lemma db_ok_new_run:
  assumes ok: "db_ok F k d" and active_ws: "is_active_workspace (the_workspace d)"
    and run: "run_ok (messages d) (new_run kind message_id schedule_id now d)"
    and chats: "kind = Chat_run \<longrightarrow> length (filter open_chat (runs d)) < MAX_QUEUED_CHAT_TURNS"
    and schedule: "\<And>sid. schedule_id = Some sid \<Longrightarrow> \<not> list_ex (open_for sid) (runs d)"
  shows "db_ok F k (with_run (new_run kind message_id schedule_id now d) d)"
proof -
  let ?r = "new_run kind message_id schedule_id now d"
  have r: "rn_id ?r = next_run d" "pending ?r" "rn_task ?r = None" "rn_thread ?r = None"
    "rn_kind ?r = kind" "rn_schedule ?r = schedule_id"
    by (simp_all add: new_run_def)
  from ok have rs: "runs_ok (next_run d) (messages d) (runs d)" by (simp add: db_ok_def)
  have "few (open_for sid) 1 (runs d @ [?r])" for sid
  proof (cases "schedule_id = Some sid")
    case True
    with schedule [OF True] have "filter (open_for sid) (runs d) = []"
      by (auto simp: filter_empty_conv list_ex_iff)
    then show ?thesis by (simp add: few_def)
  next
    case False
    then show ?thesis using rs r by (intro few_append) (auto simp: runs_ok_def open_for_def)
  qed
  moreover have "few open_chat MAX_QUEUED_CHAT_TURNS (runs d @ [?r])"
    using rs chats r by (auto simp: runs_ok_def few_def)
  moreover have "table_ok rn_id (next_run d + 1, runs d @ [?r])"
    using rs r by (intro table_ok_insert) (auto simp: runs_ok_def)
  moreover have "tasks_unique (runs d @ [?r])"
  proof -
    have "tasks_unique (runs d)" using rs by (simp add: runs_ok_def)
    then show ?thesis unfolding tasks_unique_def set_append using r(3) by fastforce
  qed
  moreover have "few active 1 (runs d @ [?r])" using rs r(2) by (intro few_append) (simp_all add: runs_ok_def)
  ultimately have "runs_ok (next_run d + 1) (messages d) (runs d @ [?r])"
    using rs run by (simp add: runs_ok_def)
  moreover have "session_ok (the_workspace d) (runs d @ [?r]) (schedules d)"
    using ok active_ws in_session_pending [OF r(2,4)]
    by (auto simp: db_ok_def session_ok_def is_active_workspace_def split: option.splits)
  moreover have "worker_ok k (next_run d + 1) (messages d) (the_workspace d) (runs d @ [?r])"
    using ok r by (intro worker_ok_new_run) (auto simp: db_ok_def)
  moreover have "tables_ok F (with_run ?r d) = tables_ok F d" by (simp add: with_run_def)
  ultimately show ?thesis using ok by (simp add: db_ok_def)
qed

text \<open>The other tables.\<close>

lemma db_okD:
  assumes "db_ok F k d"
  shows "tables_ok F d" "capped me_id MAX_MEMORIES memory_ok (memories d)"
    "capped tl_id MAX_TOOLS tool_ok (tool_rows d)" "capped ar_id MAX_ARTIFACTS (artifact_ok F) (artifacts d)"
    "capped sc_id MAX_SCHEDULES schedule_ok (schedules d)" "workspace_ok (the_workspace d)"
    "runs_ok (next_run d) (messages d) (runs d)" "session_ok (the_workspace d) (runs d) (schedules d)"
    "worker_ok k (next_run d) (messages d) (the_workspace d) (runs d)"
  using assms by (simp_all add: db_ok_def tables_ok_def)

lemma db_ok_tables:
  assumes "db_ok F k d"
  shows "capped me_id MAX_MEMORIES memory_ok ms \<Longrightarrow> db_ok F k (d\<lparr>memories := ms\<rparr>)"
    "capped tl_id MAX_TOOLS tool_ok ts \<Longrightarrow> db_ok F k (d\<lparr>tool_rows := ts\<rparr>)"
    "capped ar_id MAX_ARTIFACTS (artifact_ok F) as \<Longrightarrow> db_ok F k (d\<lparr>artifacts := as\<rparr>)"
  using assms by (simp_all add: db_ok_def tables_ok_def)

definition schedules_allowed :: "workspace option \<Rightarrow> schedule list \<Rightarrow> bool" where
  "schedules_allowed w ss \<longleftrightarrow> (w = None \<longrightarrow> ss = []) \<and> (\<not> is_active_workspace w \<longrightarrow> list_all (\<lambda>s. \<not> sc_enabled s) ss)"

lemma session_ok_schedules:
  "session_ok w rs ss \<Longrightarrow> schedules_allowed w ss"
  "session_ok w rs ss \<Longrightarrow> schedules_allowed w ss' \<Longrightarrow> session_ok w rs ss'"
  by (auto simp: session_ok_def schedules_allowed_def is_active_workspace_def split: option.splits)

lemma db_ok_schedules:
  assumes "db_ok F k d" "capped sc_id MAX_SCHEDULES schedule_ok ss" "schedules_allowed (the_workspace d) ss"
  shows "db_ok F k (d\<lparr>schedules := ss\<rparr>)"
  using assms session_ok_schedules(2) by (auto simp: db_ok_def tables_ok_def)

text \<open>Blocks that keep the invariant.\<close>

abbreviation fine :: "(rat option \<Rightarrow> str) \<Rightarrow> worker \<Rightarrow> 'a ws_txn \<Rightarrow> bool" where
  "fine F k m \<equiv> keeps (db_ok F k) m"

lemma delete_fine:
  "fine F k (delete_tool x)" "fine F k (delete_artifact x)" "fine F k (delete_schedule x)"
proof -
  have allowed: "schedules_allowed (the_workspace d) (filter P (schedules d))" if "db_ok F k d" for d P
    using session_ok_schedules(1) [OF db_okD(8) [OF that]] by (auto simp: schedules_allowed_def list_all_iff)
  show "fine F k (delete_tool x)" "fine F k (delete_artifact x)" "fine F k (delete_schedule x)"
    using allowed
    by (auto intro!: wlp_keeps db_ok_tables db_ok_schedules capped_filter dest: db_okD
        simp: wlp_def delete_tool_def delete_artifact_def delete_schedule_def)
qed

lemma removed_fine: "fine F k (removed what name key x now row)"
  by (cases row) (auto intro!: wlp_keeps db_ok_message simp: removed_def wlp_simps)

lemma panel_deletes_fine:
  "fine F k (delete_schedule_from_ui x now)" "fine F k (delete_artifact_from_ui x now)" "fine F k (delete_tool_from_ui x now)"
  unfolding delete_schedule_from_ui_def delete_artifact_from_ui_def delete_tool_from_ui_def
  by (intro keeps_bind delete_fine removed_fine)+

lemma delete_memory_fine: "fine F k (delete_memory_from_ui x now)"
  unfolding delete_memory_from_ui_def
proof (intro keeps_bind keeps_then keeps_pure removed_fine)
  show "fine F k (modify (\<lambda>d. d\<lparr>memories := filter (\<lambda>m. me_id m \<noteq> x) (memories d)\<rparr>))"
    by (auto intro!: wlp_keeps db_ok_tables capped_filter dest: db_okD simp: wlp_simps)
qed

lemma edit_memory_fine: "fine F k (edit_memory_from_ui x body now)"
proof (rule wlp_keeps)
  fix d assume d: "db_ok F k d"
  have "db_ok F k (d\<lparr>memories := map (\<lambda>m. if me_id m = x then m\<lparr>me_content := c, me_updated := now\<rparr> else m) (memories d)\<rparr>)"
    if "length c \<le> MEMORY_CONTENT_LIMIT" for c
    using that by (intro db_ok_tables [OF d] capped_update [OF db_okD(2) [OF d]]) (auto simp: memory_ok_def)
  then show "wlp (edit_memory_from_ui x body now) (\<lambda>_. db_ok F k) d"
    by (auto simp: edit_memory_from_ui_def object_of_def wlp_simps Let_def split: json.splits intro!: db_ok_message)
qed

lemma set_schedule_enabled_fine:
  assumes "sane_clock clock"
  shows "fine F k (set_schedule_enabled sid enabled now clock)"
proof (rule wlp_keeps)
  fix d assume d: "db_ok F k d"
  let ?f = "\<lambda>next s. s\<lparr>sc_enabled := enabled, sc_next := next, sc_updated := now\<rparr>"
  have change: "db_ok F k (d\<lparr>schedules := map (\<lambda>s. if sc_id s = sid then ?f next s else s) (schedules d)\<rparr>)"
    if row: "find_first (\<lambda>s. sc_id s = sid) (schedules d) = Some row"
      and ran: "\<not> (enabled \<and> sc_every row = None \<and> sc_next row = None)"
      and active_ws: "enabled \<longrightarrow> is_active_workspace (the_workspace d)"
      and new: "next = (case sc_every row of Some every \<Rightarrow> if enabled then Some (format_utc (clock + every * 60))
          else sc_next row | None \<Rightarrow> sc_next row)" for row and "next" :: "str option"
  proof (rule db_ok_schedules [OF d])
    have inj: "s = row" if "s \<in> set (schedules d)" "sc_id s = sid" for s
      using that find_first_Some [OF row] db_okD(5) [OF d] by (auto simp: capped_def distinct_map dest: inj_onD)
    show "capped sc_id MAX_SCHEDULES schedule_ok (map (\<lambda>s. if sc_id s = sid then ?f next s else s) (schedules d))"
    proof (rule capped_update [OF db_okD(5) [OF d]])
      fix s assume s: "s \<in> set (schedules d)" "schedule_ok s" "sc_id s = sid"
      from inj [OF s(1,3)] s(2) ran stamps(1) [OF assms] show "schedule_ok (?f next s)"
        by (auto simp: schedule_ok_def new split: option.splits)
    qed simp
    show "schedules_allowed (the_workspace d) (map (\<lambda>s. if sc_id s = sid then ?f next s else s) (schedules d))"
      using session_ok_schedules(1) [OF db_okD(8) [OF d]] active_ws by (auto simp: schedules_allowed_def list_all_iff)
  qed
  show "wlp (set_schedule_enabled sid enabled now clock) (\<lambda>_. db_ok F k) d"
  proof (cases "find_first (\<lambda>s. sc_id s = sid) (schedules d)")
    case None
    then show ?thesis by (simp add: set_schedule_enabled_def wlp_simps)
  next
    case (Some row)
    show ?thesis
      unfolding set_schedule_enabled_def wlp_simps Some option.case Let_def
      by (intro impI, rule if_bool_eq_conj [THEN iffD2], intro conjI impI, rule d, rule change [OF Some _ _ refl]) auto
  qed
qed

lemma discard_fine: "fine F k (discard_pending_run x now)"
proof (rule wlp_keeps)
  fix d assume d: "db_ok F k d"
  have "wlp (row_number x) (\<lambda>n d'. d' = d) d"
    by (auto simp: row_number_def wlp_simps split: option.splits)
  then have number: "wlp (row_number x) Q d" if "\<And>n. Q n d" for Q
    by (rule wlp_mono) (use that in auto)
  show "wlp (discard_pending_run x now) (\<lambda>_. db_ok F k) d"
    unfolding discard_pending_run_def wlp_bind
    by (rule number) (auto simp: wlp_simps intro!: db_ok_message db_ok_update_runs [OF d])
qed

lemma steered_fine: "fine F k (finish_steered run_id task now)"
  by (rule wlp_keeps) (auto simp: finish_steered_def wlp_simps intro!: db_ok_message db_ok_update_runs)

text \<open>Human input.\<close>

lemma queue_fine:
  assumes d: "db_ok F k d" and active_ws: "is_active_workspace (the_workspace d)"
    and content: "length content \<le> USER_MESSAGE_LIMIT"
  shows "wlp (queue_human_input content meta now) (\<lambda>_. db_ok F k) d"
proof -
  let ?m = "\<lparr>ms_id = next_message d, ms_role = S ''user'', ms_content = content, ms_meta = meta, ms_created = now\<rparr>"
  have message: "db_ok F k (with_message ?m d)" by (rule db_ok_message [OF d]) simp
  have run: "run_ok (messages (with_message ?m d)) (new_run Chat_run (Some (next_message d)) None now (with_message ?m d))"
    using content by (auto simp: run_ok_def new_run_def)
  have "db_ok F k (with_run (new_run Chat_run (Some (next_message d)) None now (with_message ?m d)) (with_message ?m d))"
    if "length (filter open_chat (runs d)) < MAX_QUEUED_CHAT_TURNS"
    by (rule db_ok_new_run [OF message _ run]) (use that active_ws in auto)
  then show ?thesis by (simp add: queue_human_input_def wlp_simps)
qed

lemma session_settings_wlp:
  assumes "\<And>runtime model effort. Q (runtime, model, effort) d"
  shows "wlp (session_settings kvs) Q d"
  using assms by (auto simp: session_settings_def wlp_simps split: json.splits option.splits)

lemma next_dream_bounds: "clock < next_dream_epoch clock" "next_dream_epoch clock \<le> clock + 24 * 3600"
    "next_dream_epoch clock mod 86400 = DREAM_HOUR_UTC * 3600"
proof -
  obtain y m dd hh mm ss where g: "gmtime clock = (y, m, dd, hh, mm, ss)" by (cases "gmtime clock") auto
  note sound = gmtime_sound [OF g]
  define today where "today = timegm (y, m, dd, DREAM_HOUR_UTC, 0, 0)"
  have today: "today = clock - ((hh * 60 + mm) * 60 + ss) + DREAM_HOUR_UTC * 3600"
    using sound(1) by (simp add: today_def timegm_def algebra_simps)
  have upcoming: "next_dream_epoch clock = (if clock < today then today else today + 24 * 3600)"
    by (simp add: next_dream_epoch_def g today_def)
  show "clock < next_dream_epoch clock" "next_dream_epoch clock \<le> clock + 24 * 3600"
    using sound(6-11) unfolding upcoming today DREAM_HOUR_UTC_def by (auto split: if_splits)
  have "today = 10800 + 86400 * (toordinal y m 1 - EPOCH_ORD + dd - 1)"
    by (simp add: today_def timegm_def DREAM_HOUR_UTC_def)
  then have "today mod 86400 = DREAM_HOUR_UTC * 3600" by (simp only: mod_mult_self2) (simp add: DREAM_HOUR_UTC_def)
  then show "next_dream_epoch clock mod 86400 = DREAM_HOUR_UTC * 3600" by (simp add: upcoming)
qed

lemma dream_schedule_ok:
  assumes "sane_clock clock"
  shows "schedule_ok \<lparr>sc_id = DREAM_SCHEDULE_ID, sc_title = S ''Dream cycle'', sc_prompt = DREAM_PROMPT,
    sc_every = Some (24 * 60), sc_next = Some (format_utc (next_dream_epoch clock)), sc_enabled = True,
    sc_last_run = None, sc_created = now, sc_updated = now\<rparr>"
proof -
  have "slug DREAM_SCHEDULE_ID" by code_simp
  moreover have "length DREAM_PROMPT \<le> 4000" by (simp add: DREAM_PROMPT_def)
  moreover have "length (format_utc (next_dream_epoch clock)) \<le> 21"
    using assms next_dream_bounds [of clock] by (intro stamp_length) (auto simp: sane_clock_def)
  ultimately show ?thesis
    by (simp add: schedule_ok_def stamp_ok_def TITLE_LIMIT_def SCHEDULE_PROMPT_LIMIT_def SCHEDULE_MIN_MINUTES_def
        SCHEDULE_MAX_MINUTES_def)
qed

text \<open>The session: activation, deactivation and the change of the settings.\<close>

lemma in_session_reactivate:
  assumes "in_session w r" "\<not> active r" "ws_thread_seq w \<le> ws_thread_seq w'" "pending r \<longrightarrow> ws_settings w' \<noteq> None"
  shows "in_session w' r"
  using assms unfolding in_session_def by (elim conjE, intro conjI allI impI) (meson order_trans, simp_all)

lemma claimable_none: "list_all (\<lambda>r. \<not> pending r) rs \<Longrightarrow> claimable pt w rs"
  by (auto simp: claimable_def list_all_iff)

lemma worker_ok_session:
  assumes "worker_ok k n ms w rs" "list_all (\<lambda>r. \<not> pending r) rs"
  shows "worker_ok k n ms w' rs"
  using assms claimable_none [OF assms(2)] by (auto simp: worker_ok_def split: worker.splits)

lemma db_ok_workspace:
  assumes "db_ok F k d" "session_ok (Some w) (runs d) (schedules d)" "list_all (\<lambda>r. \<not> pending r) (runs d)"
    "workspace_ok (Some w)"
  shows "db_ok F k (d\<lparr>the_workspace := Some w\<rparr>)"
  using assms worker_ok_session by (auto simp: db_ok_def tables_ok_def)

lemma inactive_runs:
  assumes "db_ok F k d" "\<not> is_active_workspace (the_workspace d)"
  shows "list_all (\<lambda>r. \<not> pending r) (runs d)" "list_all (\<lambda>s. \<not> sc_enabled s) (schedules d)"
  using db_okD(8) [OF assms(1)] assms(2)
  by (auto simp: session_ok_def is_active_workspace_def in_session_def list_all_iff split: option.splits)

lemma ensure_workspace_fine:
  assumes d: "db_ok F k d" and off: "\<not> is_active_workspace (the_workspace d)"
    and idle: "\<not> list_ex active (runs d)" and clock: "sane_clock clock"
    and Q: "\<And>d'. db_ok F k d' \<Longrightarrow> is_active_workspace (the_workspace d') \<Longrightarrow> Q () d'"
  shows "wlp (ensure_workspace settings now clock) Q d"
proof (cases "the_workspace d")
  case None
  define w where "w = \<lparr>ws_settings = Some settings, ws_thread_seq = 1, ws_goal = [], ws_measurement = [],
    ws_created = now, ws_updated = now\<rparr>"
  from None db_okD(8) [OF d] have empty: "runs d = []" "schedules d = []" by (simp_all add: session_ok_def)
  have created: "db_ok F k (d\<lparr>the_workspace := Some w\<rparr>)"
    by (rule db_ok_workspace [OF d]) (simp_all add: empty session_ok_def w_def workspace_ok_def)
  have "wlp (seed now clock) Q (d\<lparr>the_workspace := Some w\<rparr>)"
  proof -
    let ?dream = "\<lparr>sc_id = DREAM_SCHEDULE_ID, sc_title = S ''Dream cycle'', sc_prompt = DREAM_PROMPT,
      sc_every = Some (24 * 60), sc_next = Some (format_utc (next_dream_epoch clock)), sc_enabled = True,
      sc_last_run = None, sc_created = now, sc_updated = now\<rparr>"
    have "db_ok F k (d\<lparr>the_workspace := Some w, schedules := [?dream]\<rparr>)"
      using dream_schedule_ok [OF clock]
      by (intro db_ok_schedules [OF created])
         (simp_all add: capped_def MAX_SCHEDULES_def schedules_allowed_def is_active_workspace_def w_def)
    then show ?thesis
      by (simp add: seed_def wlp_simps empty) (intro Q db_ok_message; simp add: is_active_workspace_def w_def)
  qed
  then show ?thesis by (simp add: ensure_workspace_def wlp_simps None w_def)
next
  case (Some w)
  define w' where "w' = w\<lparr>ws_settings := Some settings, ws_updated := now\<rparr>"
  note none = inactive_runs [OF d off]
  have "session_ok (Some w') (runs d) (schedules d)"
    using db_okD(8) [OF d] idle Some in_session_reactivate [of w _ w']
    by (auto simp: session_ok_def list_all_iff list_ex_iff w'_def)
  moreover have "workspace_ok (Some w')" using db_okD(6) [OF d] Some by (simp add: workspace_ok_def w'_def)
  ultimately have "db_ok F k (d\<lparr>the_workspace := Some w'\<rparr>)" using none by (intro db_ok_workspace [OF d])
  then have "Q () (d\<lparr>the_workspace := Some w'\<rparr>)" by (rule Q) (simp add: is_active_workspace_def w'_def)
  then show ?thesis by (simp add: ensure_workspace_def wlp_simps Some w'_def)
qed

lemma wlp_object_of [wlp_simps]: "wlp (object_of body) Q d \<longleftrightarrow> (\<forall>kvs. body = JObj kvs \<longrightarrow> Q kvs d)"
  by (cases body) (simp_all add: object_of_def wlp_simps)

lemma wlp_can_activate [wlp_simps]:
  "wlp ensure_workspace_can_activate Q d \<longleftrightarrow> (\<not> list_ex active (runs d) \<longrightarrow> Q () d)"
  by (simp add: ensure_workspace_can_activate_def wlp_simps)

lemma activate_fine:
  assumes "sane_clock clock"
  shows "fine F k (activate_workspace body now clock)"
proof (rule wlp_keeps)
  fix d assume d: "db_ok F k d"
  show "wlp (activate_workspace body now clock) (\<lambda>_. db_ok F k) d"
    unfolding activate_workspace_def wlp_simps
    by (intro allI impI session_settings_wlp ensure_workspace_fine [OF d _ _ assms]) simp_all
qed

lemma send_fine:
  assumes "sane_clock clock"
  shows "fine F k (send_message body now clock)"
proof (rule wlp_keeps)
  fix d assume d: "db_ok F k d"
  have enter: "wlp (if Option.bind (the_workspace d) (\<lambda>w. map_option fst (ws_settings w)) = None
      then then_txn (require (supplied = settings_fields) bad_request)
        (bind_txn (session_settings kvs) (\<lambda>settings.
         then_txn ensure_workspace_can_activate (ensure_workspace settings now clock)))
      else require (supplied = []) bad_request)
    (\<lambda>_ d'. db_ok F k d' \<and> is_active_workspace (the_workspace d')) d" for supplied kvs
  proof (cases "is_active_workspace (the_workspace d)")
    case True
    then show ?thesis using d by (simp add: wlp_simps)
  next
    case False
    show ?thesis
      unfolding wlp_simps runtime_None if_P [OF False]
      by (intro impI session_settings_wlp ensure_workspace_fine [OF d False _ assms]) simp_all
  qed
  show "wlp (send_message body now clock) (\<lambda>_. db_ok F k) d"
    unfolding send_message_def wlp_object_of wlp_bind wlp_then wlp_require
  proof (intro allI impI)
    fix kvs
    show "wlp (case jget kvs (S ''content'') of
        JStr text \<Rightarrow>
          (let content = strip text; supplied = filter (has_key kvs) settings_fields
           in then_txn (require (content \<noteq> [] \<and> length content \<le> USER_MESSAGE_LIMIT) bad_request)
              (bind_txn workspace_runtime (\<lambda>runtime.
               then_txn
                 (if runtime = None
                  then then_txn (require (supplied = settings_fields) bad_request)
                    (bind_txn (session_settings kvs) (\<lambda>settings.
                     then_txn ensure_workspace_can_activate (ensure_workspace settings now clock)))
                  else require (supplied = []) bad_request)
                 (queue_human_input content None now))))
      | _ \<Rightarrow> abort bad_request) (\<lambda>_. db_ok F k) d"
    proof (cases "jget kvs (S ''content'')")
      case (JStr t)
      show ?thesis
        unfolding JStr json.case Let_def wlp_then [of "require b f" for b f] wlp_require wlp_bind [of workspace_runtime]
          wlp_workspace_runtime wlp_then [where k = "queue_human_input c m n" for c m n]
        by (intro impI wlp_mono [OF enter]) (simp add: queue_fine)
    qed (simp_all add: wlp_abort)
  qed
qed

text \<open>The content of an interaction is short, so it fits where a message fits.\<close>

lemma json_string_length: "length (json_string s) \<le> 2 + 12 * length s"
proof -
  have "length (escaped s) \<le> 12 * length s"
    unfolding escaped_def
  proof (induction s)
    case (Cons c s)
    with escape_char_length(2) [of c] show ?case by simp
  qed simp
  then show ?thesis by (simp add: json_string_def)
qed

lemma join_length: "length (join c ls) \<le> sum_list (map (\<lambda>l. length l + length c) ls)"
  by (induction c ls rule: join.induct) auto

lemma sum_list_sort_key: "sum_list (map g (sort_key f xs)) = sum_list (map (g :: 'a \<Rightarrow> nat) xs)"
proof -
  have "sum_list (map g (insort_key f x ys)) = g x + sum_list (map g ys)" for x ys
    by (induction ys) auto
  then show ?thesis by (induction xs) simp_all
qed

lemma sorted_object_length:
  "length (dumps_with F c k (sorted_keys (JObj kvs)))
   \<le> 2 + sum_list (map (\<lambda>(key, v). length (json_string key) + length k + length (dumps_with F c k (sorted_keys v)) + length c) kvs)"
proof -
  let ?g = "\<lambda>(key, v). length (json_string key) + length k + length (dumps_with F c k (sorted_keys v)) + length c"
  let ?ls = "map (\<lambda>(key, v). json_string key @ k @ dumps_with F c k v) (map sort_value (sort_key fst kvs))"
  have "map (\<lambda>l. length l + length c) ?ls = map ?g (sort_key fst kvs)"
    by (simp add: sort_value_def split_beta)
  then have "length (join c ?ls) \<le> sum_list (map ?g kvs)"
    using join_length [of c ?ls] sum_list_sort_key [of ?g fst kvs] by presburger
  then show ?thesis unfolding sorted_object dumps_with.simps by (simp del: map_map)
qed

lemma interaction_content_length:
  assumes "length aid \<le> 48" "length cid \<le> 48" "kind = JStr t" "t \<in> set INTERACTIVE_VIEW_BLOCK_TYPES"
    and "value = JStr s \<and> length s \<le> 1000 \<or> value = JBool b"
  shows "length (compact_text F (sorted_keys (interaction_event aid cid kind value))) \<le> USER_MESSAGE_LIMIT"
proof -
  have "length (json_string aid) \<le> 578" "length (json_string cid) \<le> 578"
    using json_string_length [of aid] json_string_length [of cid] assms(1,2) by linarith+
  moreover have "length t \<le> 6" using assms(4) by (auto simp: INTERACTIVE_VIEW_BLOCK_TYPES_def)
  then have "length (json_string t) \<le> 74" using json_string_length [of t] by linarith
  moreover have "length (compact_text F (sorted_keys value)) \<le> 12002"
    using assms(5) json_string_length [of s] by auto
  moreover have "length (json_string (S n)) \<le> 2 + 12 * length n" for n
    using json_string_length [of "S n"] by simp
  from this [of "''type''"] this [of "''artifact_id''"] this [of "''control_id''"] this [of "''control_type''"]
    this [of "''value''"] this [of "''artifact_interaction''"]
  have "length (json_string (S ''type'')) \<le> 50" "length (json_string (S ''artifact_id'')) \<le> 134"
    "length (json_string (S ''control_id'')) \<le> 122" "length (json_string (S ''control_type'')) \<le> 146"
    "length (json_string (S ''value'')) \<le> 62" "length (json_string (S ''artifact_interaction'')) \<le> 242"
    by simp_all
  ultimately show ?thesis
    unfolding interaction_event_def assms(3) USER_MESSAGE_LIMIT_def
    by (intro order_trans [OF sorted_object_length]) simp
qed

lemma wlp_need [wlp_simps]: "wlp (need kvs key) Q d \<longleftrightarrow> (\<forall>v. map_of kvs (S key) = Some v \<longrightarrow> Q v d)"
  by (simp add: need_def wlp_simps split: option.splits)

lemma find_control_type:
  assumes "find_control cid blocks = Some control"
  obtains t where "map_of control (S ''type'') = Some (JStr t)" "t \<in> set INTERACTIVE_VIEW_BLOCK_TYPES"
proof -
  from assms obtain b where "find_first (\<lambda>b. is_control b \<and> (case b of JObj kvs \<Rightarrow> jget kvs (S ''control_id'') = JStr cid
      | _ \<Rightarrow> False)) blocks = Some b" "jobj b = Some control"
    by (auto simp: find_control_def split: Option.bind_splits)
  then have "is_control (JObj control)" by (auto dest!: find_first_Some)
  then show ?thesis
    by (auto simp: is_control_def jget_def split: json.splits option.splits intro: that)
qed

lemma interact_fine: "fine F k (submit_artifact_interaction F body now)"
proof (rule wlp_keeps)
  fix d assume d: "db_ok F k d"
  have queued: "wlp (queue_human_input (compact_text F (sorted_keys (interaction_event aid cid kind val))) meta now)
      (\<lambda>_. db_ok F k) d"
    if in_use: "is_active_workspace (the_workspace d)" and ids: "slug aid" "slug cid"
      and control: "find_control cid blocks = Some control" "map_of control (S ''type'') = Some kind"
      and valid: "\<not> interaction_value_error kind val"
    for aid cid kind val meta blocks control
  proof -
    obtain t where t: "kind = JStr t" "t \<in> set INTERACTIVE_VIEW_BLOCK_TYPES"
      using find_control_type [OF control(1)] control(2) by force
    have "(\<exists>s. val = JStr s \<and> length s \<le> 1000) \<or> (\<exists>b. val = JBool b)"
      using valid by (cases val) (auto simp: interaction_value_error_def FIELD_VALUE_LIMIT_def split: if_splits)
    then obtain s b where v: "val = JStr s \<and> length s \<le> 1000 \<or> val = JBool b" by blast
    show ?thesis
      by (rule queue_fine [OF d in_use interaction_content_length [OF slug_length [OF ids(1)] slug_length [OF ids(2)] t v]])
  qed
  show "wlp (submit_artifact_interaction F body now) (\<lambda>_. db_ok F k) d"
    unfolding submit_artifact_interaction_def
    by (auto simp: wlp_simps Let_def split: json.splits option.splits prod.splits intro!: wlp_mono [OF queued] dest: runtime_Some)
qed

lemma read_back: "0 \<le> i \<Longrightarrow> read_digits 10 digit_value 0 False (str_of_int i) = Some i"
  using read_nat_digits [of "nat i"] by (simp add: str_of_int_def)

lemma thread_of_inj: "0 \<le> i \<Longrightarrow> 0 \<le> j \<Longrightarrow> thread_of i = thread_of j \<longleftrightarrow> i = j"
  by (metis append_same_eq option.inject read_back same_append_eq thread_of_def)

lemma in_session_rotated:
  assumes "in_session w r" "\<not> pending r" "1 \<le> ws_thread_seq w"
  shows "in_session (w\<lparr>ws_settings := None, ws_thread_seq := ws_thread_seq w + 1, ws_updated := now\<rparr>) r"
proof -
  have "rn_thread r \<noteq> Some (thread_of (ws_thread_seq w + 1))"
  proof
    assume "rn_thread r = Some (thread_of (ws_thread_seq w + 1))"
    with assms(1) obtain k where "1 \<le> k" "k \<le> ws_thread_seq w" "thread_of (ws_thread_seq w + 1) = thread_of k"
      by (auto simp: in_session_def)
    then show False using thread_of_inj [of "ws_thread_seq w + 1" k] by simp
  qed
  with assms show ?thesis
    by (fastforce simp: in_session_def workspace_thread_def thread_of_def)
qed

lemma deactivate_fine: "fine F k (deactivate_workspace body now)"
proof (rule wlp_keeps)
  fix d assume d: "db_ok F k d"
  show "wlp (deactivate_workspace body now) (\<lambda>_. db_ok F k) d"
  proof (cases "the_workspace d")
    case None
    then show ?thesis by (simp add: deactivate_workspace_def wlp_simps d)
  next
    case (Some w)
    define ss where "ss = map (\<lambda>s. if sc_enabled s then s\<lparr>sc_enabled := False, sc_updated := now\<rparr> else s) (schedules d)"
    define rs where "rs = map (\<lambda>r. if pending r then finish ''deactivated'' now r else r) (runs d)"
    define w' where "w' = w\<lparr>ws_settings := None, ws_thread_seq := ws_thread_seq w + 1, ws_updated := now\<rparr>"
    have off: "list_all (\<lambda>s. \<not> sc_enabled s) ss" by (auto simp: ss_def list_all_iff)
    have "db_ok F k (d\<lparr>schedules := ss\<rparr>)"
    proof (rule db_ok_schedules [OF d])
      show "capped sc_id MAX_SCHEDULES schedule_ok ss"
        unfolding ss_def by (rule capped_update [OF db_okD(5) [OF d]]) (auto simp: schedule_ok_def)
      show "schedules_allowed (the_workspace d) ss"
        using off Some by (simp add: schedules_allowed_def)
    qed
    from db_ok_update_runs [OF this, of "finish ''deactivated'' now" pending]
    have mid: "db_ok F k (d\<lparr>schedules := ss, runs := rs\<rparr>)" by (simp add: rs_def)
    have none: "list_all (\<lambda>r. \<not> pending r) rs" by (auto simp: rs_def list_all_iff finish_def)
    have "session_ok (Some w') rs ss"
      using db_okD(8) [OF mid] none off in_session_rotated [of w] Some
      by (auto simp: session_ok_def w'_def list_all_iff)
    moreover have "workspace_ok (Some w')" using db_okD(6) [OF d] Some by (simp add: workspace_ok_def w'_def)
    ultimately have "db_ok F k (d\<lparr>schedules := ss, runs := rs, the_workspace := Some w'\<rparr>)"
      using db_ok_workspace [OF mid, of w'] none by simp
    with mid show ?thesis
      by (auto simp: deactivate_workspace_def wlp_simps Let_def Some ss_def rs_def w'_def intro!: db_ok_message)
  qed
qed

lemma settings_fine: "fine F k (update_agent_settings body now)"
proof (rule wlp_keeps)
  fix d assume d: "db_ok F k d"
  have switched: "db_ok F k (d\<lparr>the_workspace := Some (w\<lparr>ws_thread_seq := ws_thread_seq w + 1, ws_settings := Some s,
      ws_updated := now\<rparr>)\<rparr>)"
    if w: "the_workspace d = Some w" and idle: "list_all (\<lambda>r. rn_status r = Run_done) (runs d)" for w s
  proof (rule db_ok_workspace [OF d])
    let ?w = "w\<lparr>ws_thread_seq := ws_thread_seq w + 1, ws_settings := Some s, ws_updated := now\<rparr>"
    show "session_ok (Some ?w) (runs d) (schedules d)"
      using db_okD(8) [OF d] w idle in_session_reactivate [of w _ ?w] by (auto simp: session_ok_def list_all_iff)
    show "list_all (\<lambda>r. \<not> pending r) (runs d)" using idle by (auto simp: list_all_iff)
    show "workspace_ok (Some ?w)" using db_okD(6) [OF d] w by (simp add: workspace_ok_def)
  qed
  show "wlp (update_agent_settings body now) (\<lambda>_. db_ok F k) d"
    unfolding update_agent_settings_def wlp_object_of wlp_bind wlp_then wlp_require
    by (intro allI impI session_settings_wlp)
       (auto simp: wlp_simps d switched split: option.splits prod.splits intro!: db_ok_message)
qed

lemma ui_fine:
  assumes "sane_clock clock"
  shows "fine F k (ui_txn F request now clock)"
  by (cases request)
     (auto simp: ui_txn_def intro!: keeps_bind keeps_then keeps_pure activate_fine send_fine interact_fine
       deactivate_fine settings_fine set_schedule_enabled_fine panel_deletes_fine delete_memory_fine
       edit_memory_fine discard_fine assms split: prod.split)

subsection \<open>The actions of the agent\<close>

lemma wlp_text_field [wlp_simps]:
  "wlp (text_field action key) Q s \<longleftrightarrow> (has_text action key \<longrightarrow> Q (text_in action key) s)"
  by (auto simp: text_field_def text_of_def wlp_simps split: option.splits json.splits)

lemma wlp_text_field_or [wlp_simps]:
  "wlp (text_field_or action key x) Q s \<longleftrightarrow>
     (if has_key action (S key) then has_text action key \<longrightarrow> Q (strip (text_in action key)) s else Q x s)"
  by (simp add: text_field_or_def wlp_simps)

lemma wlp_int_field [wlp_simps]:
  "wlp (int_field action key) Q s \<longleftrightarrow> (int_of action key \<noteq> None \<longrightarrow> Q (the (int_of action key)) s)"
  by (auto simp: int_field_def int_of_def wlp_simps split: option.splits json.splits)

lemma wlp_int_field_or_none [wlp_simps]:
  "wlp (int_field_or_none action key) Q s \<longleftrightarrow>
     (if jget action (S key) = JNull then Q None s else int_of action key \<noteq> None \<longrightarrow> Q (int_of action key) s)"
  by (auto simp: int_field_or_none_def wlp_simps)

lemma wlp_initial_next_run: "(\<And>t. Q t s) \<Longrightarrow> wlp (initial_next_run action clock) Q s"
  by (auto simp: initial_next_run_def wlp_simps split: option.splits)

lemma wlp_updated_timing: "(\<And>t. Q t s) \<Longrightarrow> wlp (updated_timing action clock row) Q s"
  by (auto simp: updated_timing_def wlp_simps Let_def intro!: wlp_initial_next_run)

lemma wlp_reject [wlp_simps]: "wlp (reject reason) Q s \<longleftrightarrow> Q (Some reason) s"
  by (simp add: reject_def wlp_simps)

lemma wlp_journal [wlp_simps]:
  "wlp (journal content name kvs now) Q d \<longleftrightarrow>
     Q None (with_message \<lparr>ms_id = next_message d, ms_role = S ''event'', ms_content = content,
       ms_meta = Some (meta_of name kvs), ms_created = now\<rparr> d)"
  by (simp add: journal_def wlp_simps)

lemma wlp_delete_row [wlp_simps]:
  "wlp (delete_tool k) Q d \<longleftrightarrow> Q (title_of tl_id tl_title k (tool_rows d))
     (d\<lparr>tool_rows := filter (\<lambda>t. tl_id t \<noteq> k) (tool_rows d)\<rparr>)"
  "wlp (delete_artifact k) Q d \<longleftrightarrow> Q (title_of ar_id ar_title k (artifacts d))
     (d\<lparr>artifacts := filter (\<lambda>a. ar_id a \<noteq> k) (artifacts d)\<rparr>)"
  "wlp (delete_schedule k) Q d \<longleftrightarrow> Q (title_of sc_id sc_title k (schedules d))
     (d\<lparr>schedules := filter (\<lambda>s. sc_id s \<noteq> k) (schedules d)\<rparr>)"
  by (simp_all add: delete_tool_def delete_artifact_def delete_schedule_def wlp_def)

text \<open>An action writes no run, and of the workspace only the goal and the measurement.\<close>

definition same_session :: "workspace option \<Rightarrow> workspace option \<Rightarrow> bool" where
  "same_session w w' \<longleftrightarrow> map_option ws_settings w' = map_option ws_settings w
     \<and> map_option ws_thread_seq w' = map_option ws_thread_seq w"

definition framed :: "workspace_db \<Rightarrow> workspace_db \<Rightarrow> bool" where
  "framed d d' \<longleftrightarrow> runs d' = runs d \<and> next_run d' = next_run d \<and> same_session (the_workspace d) (the_workspace d')
     \<and> (\<exists>ms. messages d' = messages d @ ms)
     \<and> (table_ok ms_id (next_message d, messages d) \<longrightarrow> table_ok ms_id (next_message d', messages d'))"

lemma same_session_refl [simp]: "same_session w w"
  by (simp add: same_session_def)

lemma same_session_map [simp]:
  "(\<And>w. ws_settings (f w) = ws_settings w) \<Longrightarrow> (\<And>w. ws_thread_seq (f w) = ws_thread_seq w) \<Longrightarrow>
   same_session w (map_option f w)"
  by (cases w) (simp_all add: same_session_def)

lemma framed_refl [simp]: "framed d d"
  by (simp add: framed_def)

lemma framed_message:
  "framed d d' \<Longrightarrow> ms_id m = next_message d' \<Longrightarrow> framed d (with_message m d')"
  by (auto simp: framed_def table_ok_insert)

lemma framed_tables:
  "framed d (d\<lparr>memories := a\<rparr>)" "framed d (d\<lparr>tool_rows := b\<rparr>)" "framed d (d\<lparr>artifacts := c\<rparr>)"
  "framed d (d\<lparr>schedules := e\<rparr>)"
  "same_session (the_workspace d) w \<Longrightarrow> framed d (d\<lparr>the_workspace := w\<rparr>)"
  by (simp_all add: framed_def)

lemmas action_frames = framed_message framed_tables same_session_map wlp_initial_next_run wlp_updated_timing

lemma apply_frames:
  "wlp (apply_set_goal action now) (\<lambda>_. framed d) d" "wlp (apply_set_measurement action now) (\<lambda>_. framed d) d"
  "wlp (apply_remember action now) (\<lambda>_. framed d) d" "wlp (apply_forget action now) (\<lambda>_. framed d) d"
  "wlp (apply_upsert_tool action now) (\<lambda>_. framed d) d" "wlp (apply_delete_tool action now) (\<lambda>_. framed d) d"
  "wlp (apply_create_artifact action now) (\<lambda>_. framed d) d" "wlp (apply_update_artifact action now) (\<lambda>_. framed d) d"
  "wlp (apply_delete_artifact action now) (\<lambda>_. framed d) d" "wlp (apply_create_schedule action now clock) (\<lambda>_. framed d) d"
  "wlp (apply_update_schedule action now clock) (\<lambda>_. framed d) d" "wlp (apply_delete_schedule action now) (\<lambda>_. framed d) d"
proof -
  note defs = apply_set_goal_def apply_set_measurement_def apply_remember_def apply_forget_def apply_upsert_tool_def
    apply_delete_tool_def apply_create_artifact_def apply_update_artifact_def apply_delete_artifact_def
    apply_create_schedule_def apply_update_schedule_def apply_delete_schedule_def
  show "wlp (apply_set_goal action now) (\<lambda>_. framed d) d" "wlp (apply_set_measurement action now) (\<lambda>_. framed d) d"
    "wlp (apply_remember action now) (\<lambda>_. framed d) d" "wlp (apply_forget action now) (\<lambda>_. framed d) d"
    "wlp (apply_upsert_tool action now) (\<lambda>_. framed d) d" "wlp (apply_delete_tool action now) (\<lambda>_. framed d) d"
    "wlp (apply_create_artifact action now) (\<lambda>_. framed d) d" "wlp (apply_update_artifact action now) (\<lambda>_. framed d) d"
    "wlp (apply_delete_artifact action now) (\<lambda>_. framed d) d" "wlp (apply_create_schedule action now clock) (\<lambda>_. framed d) d"
    "wlp (apply_update_schedule action now clock) (\<lambda>_. framed d) d" "wlp (apply_delete_schedule action now) (\<lambda>_. framed d) d"
    by (auto simp: defs wlp_simps Let_def split: option.splits prod.splits intro!: action_frames)
qed

lemma apply_action_frame: "wlp (apply_action R action now clock) (\<lambda>_. framed d) d"
  unfolding apply_action_def Let_def by (simp add: apply_frames wlp_simps del: runtime_None)

lemma same_sessionD:
  assumes "same_session w w'"
  shows "is_active_workspace w' = is_active_workspace w" "map_option workspace_thread w' = map_option workspace_thread w"
  using assms
  by (cases w; cases w'; simp add: same_session_def is_active_workspace_def workspace_thread_def)+

lemma runs_ok_extend: "runs_ok n ms rs \<Longrightarrow> runs_ok n (ms @ ms') rs"
  by (auto simp: runs_ok_def list_all_iff run_ok_def)

lemma worker_ok_framed:
  "worker_ok k n ms w rs \<Longrightarrow> same_session w w' \<Longrightarrow> worker_ok k n (ms @ ms') w' rs"
  using same_sessionD [of w w']
  by (auto simp: worker_ok_def run_ok_def claimable_def split: worker.splits)

lemma db_ok_framed:
  assumes d: "db_ok F k d" and frame: "framed d d'" and tables: "tables_ok F d'" and active_ws: "is_active_workspace (the_workspace d)"
  shows "db_ok F k d'"
proof -
  from frame obtain ms where ms: "messages d' = messages d @ ms" and w: "same_session (the_workspace d) (the_workspace d')"
    and same: "runs d' = runs d" "next_run d' = next_run d"
      "table_ok ms_id (next_message d, messages d) \<Longrightarrow> table_ok ms_id (next_message d', messages d')"
    by (auto simp: framed_def)
  obtain v where v: "the_workspace d = Some v" "ws_settings v \<noteq> None"
    using active_ws by (auto simp: is_active_workspace_def split: Option.bind_splits)
  with w obtain v' where v': "the_workspace d' = Some v'" "ws_settings v' = ws_settings v" "ws_thread_seq v' = ws_thread_seq v"
    by (auto simp: same_session_def)
  then have "in_session v' = in_session v" by (simp add: fun_eq_iff in_session_def workspace_thread_def)
  moreover have "ws_settings v' \<noteq> None" using v(2) v'(2) by (simp only: not_False_eq_True)
  ultimately have "session_ok (the_workspace d') (runs d) (schedules d')"
    using db_okD(8) [OF d] unfolding session_ok_def v(1) v'(1) option.case v'(3) by metis
  then show ?thesis
    using d tables same ms runs_ok_extend [of "next_run d" "messages d" "runs d" ms]
      worker_ok_framed [OF _ w, of k "next_run d" "messages d" "runs d" ms]
    by (simp add: db_ok_def)
qed

lemma authority:
  "verify_task_authority t d = Inr (u, d') \<longleftrightarrow> d' = d \<and> (\<exists>w r. the_workspace d = Some w
     \<and> find_first (\<lambda>r. rn_task r = Some t \<and> active r) (runs d) = Some r \<and> rn_thread r = Some (workspace_thread w))"
  by (auto simp: verify_task_authority_def txn_simps split: option.splits)

lemma authority_active_workspace:
  assumes "db_ok F k d" "verify_task_authority t d = Inr (u, d')"
  shows "is_active_workspace (the_workspace d)"
proof -
  obtain w r where w: "the_workspace d = Some w" and r: "find_first (\<lambda>r. rn_task r = Some t \<and> active r) (runs d) = Some r"
    "rn_thread r = Some (workspace_thread w)"
    using assms(2) unfolding authority by blast
  from find_first_Some [OF r(1)] db_okD(8) [OF assms(1)] w r(2) show ?thesis
    by (auto simp: session_ok_def list_all_iff in_session_def is_active_workspace_def)
qed

lemma journal_rejection_fine: "fine F k (journal_rejection action error now)"
  by (rule wlp_keeps) (auto simp: journal_rejection_def wlp_simps Let_def intro!: db_ok_message)

lemma wlp_with_savepoint:
  "wlp m (\<lambda>e d'. e = None \<longrightarrow> Q None d') d \<Longrightarrow> (\<And>e. Q (Some e) d) \<Longrightarrow> wlp (with_savepoint m) Q d"
  by (auto simp: wlp_def with_savepoint_def split: sum.splits option.splits prod.splits)

lemma agent_action_fine:
  assumes "sane_clock clock" "length now \<le> 21"
  shows "fine F k (agent_action_txn F R action t now clock)"
proof (rule wlp_keeps)
  fix d assume d: "db_ok F k d"
  show "wlp (agent_action_txn F R action t now clock) (\<lambda>_. db_ok F k) d"
    unfolding agent_action_txn_def wlp_then wlp_iff [of "verify_task_authority t"]
  proof (intro allI impI)
    fix u d' assume auth: "verify_task_authority t d = Inr (u, d')"
    then have d': "d' = d" by (simp add: authority)
    note active_ws = authority_active_workspace [OF d auth]
    have rejected: "wlp (journal_rejection action e now) (\<lambda>_. db_ok F k) d" for e
      using journal_rejection_fine d by (auto simp: keeps_iff_wlp)
    show "wlp (case validate_action_shape F R action of
          Some error \<Rightarrow> journal_rejection action error now
        | None \<Rightarrow> bind_txn (with_savepoint (apply_action R action now clock)) (\<lambda>error.
              case error of None \<Rightarrow> ok None | Some e \<Rightarrow> journal_rejection action e now)) (\<lambda>_. db_ok F k) d'"
    proof (cases "validate_action_shape F R action")
      case None
      have "wlp (apply_action R action now clock) (\<lambda>_ d'. framed d d' \<and> tables_ok F d') d"
        using wp_wlp [OF action_safe [OF None db_okD(1) [OF d] assms]] apply_action_frame [of R action now clock d]
        by (auto simp: wlp_iff)
      then have "wlp (apply_action R action now clock) (\<lambda>_. db_ok F k) d"
        by (rule wlp_mono) (use db_ok_framed [OF d _ _ active_ws] in blast)
      then have "wlp (apply_action R action now clock) (\<lambda>e d'. e = None \<longrightarrow> wlp (ok None) (\<lambda>_. db_ok F k) d') d"
        by (rule wlp_mono) (simp add: wlp_simps)
      then show ?thesis
        unfolding None d' option.case wlp_bind
        by (intro wlp_with_savepoint) (simp_all add: rejected)
    next
      case (Some e)
      then show ?thesis by (simp add: d' rejected)
    qed
  qed
qed

end
