(* ===== verification/WorkspaceEngine.thy ===== *)
theory WorkspaceEngine
  imports WorkspaceInvariants
begin

text \<open>
  The invariant of \<open>WorkspaceInvariants\<close> along every run of the engine: each transaction of
  the worker keeps it, the prepared task it carries to the host fits, and so every reachable
  engine satisfies it.
\<close>

subsection \<open>Between two transactions\<close>

definition idle_worker :: "worker \<Rightarrow> bool" where
  "idle_worker k \<longleftrightarrow> (case k of Preparing _ \<Rightarrow> False | Posting _ \<Rightarrow> False | Claiming _ _ _ \<Rightarrow> False | _ \<Rightarrow> True)"

lemma db_ok_idle: "db_ok F k d \<Longrightarrow> idle_worker k' \<Longrightarrow> db_ok F k' d"
  by (cases k') (simp_all add: db_ok_def idle_worker_def worker_ok_def)

lemma now_length: "sane_clock clock \<Longrightarrow> length (format_utc clock) \<le> 21"
  by (rule stamp_length) (auto simp: sane_clock_def)

subsection \<open>Reaping\<close>

lemma wlp_set_done:
  assumes d: "db_ok F k d" and s: "length status \<le> 64"
  shows "wlp (set_done r status now) (\<lambda>_. db_ok F k) d"
  using s by (auto simp: set_done_def wlp_simps intro!: db_ok_update_runs [OF d] simp: winds_down_def)

lemma set_done_fine: "length status \<le> 64 \<Longrightarrow> fine F k (set_done r status now)"
  by (rule wlp_keeps) (rule wlp_set_done)

lemma message_fine:
  "fine F k (insert_message role content meta now)" "fine F k (insert_event content meta' now)"
  by (auto intro!: wlp_keeps db_ok_message simp: wlp_simps)

lemma reap_fine:
  assumes "\<And>t. answer = Host_task t \<Longrightarrow> length (ht_status t) \<le> 64"
  shows "fine F k (reap_run r answer now)"
proof (cases answer)
  case (Host_task t)
  note short = assms [OF Host_task]
  have "fine F k (apply_run_result r t now)"
    unfolding apply_run_result_def Let_def
    by (auto intro!: keeps_then keeps_pure set_done_fine message_fine short)
  moreover have "fine F k (update_runs (\<lambda>q. rn_id q = rn_id r)
      (\<lambda>q. q\<lparr>rn_host_status := Some (ht_status t), rn_updated := now\<rparr>))"
    using short by (auto intro!: wlp_keeps db_ok_update_runs simp: wlp_simps winds_down_def)
  ultimately show ?thesis
    by (auto simp: reap_run_def Host_task intro!: keeps_then keeps_pure)
qed (auto simp: reap_run_def finish_lost_run_def finish_oversized_run_def
    intro!: keeps_then keeps_pure set_done_fine message_fine)

subsection \<open>Firing\<close>

lemma next_stamp:
  assumes every: "SCHEDULE_MIN_MINUTES \<le> every" "every \<le> SCHEDULE_MAX_MINUTES" and clock: "sane_clock clock"
  shows "stamp_ok (Some (format_utc (schedule_next_run (due_epoch t clock) every clock)))"
proof -
  define due where "due = due_epoch t clock"
  have due: "due < 10 ^ 12"
    using clock parse_utc_bound [of t] by (auto simp: due_def due_epoch_def sane_clock_def split: option.splits)
  have pos: "0 < every" using every(1) by (simp add: SCHEDULE_MIN_MINUTES_def)
  have "clock < schedule_next_run due every clock" using next_run_grid(2) [OF pos] .
  moreover have "schedule_next_run due every clock \<le> max due clock + every * 60"
  proof -
    have "(clock - due) div (every * 60) * (every * 60) \<le> clock - due"
    proof -
      have "0 \<le> (clock - due) mod (every * 60)" using pos by simp
      then show ?thesis using div_mult_mod_eq [of "clock - due" "every * 60"] by linarith
    qed
    then show ?thesis by (auto simp: schedule_next_run_def Let_def algebra_simps max_def)
  qed
  ultimately have "length (format_utc (schedule_next_run due every clock)) \<le> 21"
    using clock due every(2) by (intro stamp_length) (auto simp: sane_clock_def SCHEDULE_MAX_MINUTES_def max_def split: if_splits)
  then show ?thesis by (simp add: stamp_ok_def due_def)
qed

text \<open>The rows still to fire keep their cadence while the others fire.\<close>

definition firing_ok :: "(rat option \<Rightarrow> str) \<Rightarrow> worker \<Rightarrow> schedule list \<Rightarrow> workspace_db \<Rightarrow> bool" where
  "firing_ok F k due d \<longleftrightarrow> db_ok F k d \<and> is_active_workspace (the_workspace d)
     \<and> (\<forall>s \<in> set due. \<forall>q \<in> set (schedules d). sc_id q = sc_id s \<longrightarrow> sc_every q = sc_every s)"

lemma wlp_update_schedule_row [wlp_simps]:
  "wlp (update_schedule_row sid f) Q d \<longleftrightarrow>
     Q () (d\<lparr>schedules := map (\<lambda>s. if sc_id s = sid then f s else s) (schedules d)\<rparr>)"
  by (simp add: update_schedule_row_def wlp_simps)

lemma firing_message: "firing_ok F k due d \<Longrightarrow> ms_id m = next_message d \<Longrightarrow> firing_ok F k due (with_message m d)"
  by (simp add: firing_ok_def db_ok_message)

lemma firing_update:
  assumes ok: "firing_ok F k due d" and s: "s \<in> set due"
    and same: "\<And>q. sc_id (f q) = sc_id q \<and> sc_every (f q) = sc_every q \<and> sc_title (f q) = sc_title q
      \<and> sc_prompt (f q) = sc_prompt q"
    and timing: "\<And>q. stamp_ok (sc_next (f q))"
    and runs_on: "\<And>q. schedule_ok q \<Longrightarrow> sc_every q = sc_every s \<Longrightarrow> sc_enabled (f q) \<Longrightarrow> sc_every s = None \<Longrightarrow> sc_next (f q) \<noteq> None"
  shows "firing_ok F k due (d\<lparr>schedules := map (\<lambda>q. if sc_id q = sc_id s then f q else q) (schedules d)\<rparr>)"
proof -
  from ok have d: "db_ok F k d" and active_ws: "is_active_workspace (the_workspace d)"
    and cadence: "\<And>s q. s \<in> set due \<Longrightarrow> q \<in> set (schedules d) \<Longrightarrow> sc_id q = sc_id s \<Longrightarrow> sc_every q = sc_every s"
    by (auto simp: firing_ok_def)
  have "db_ok F k (d\<lparr>schedules := map (\<lambda>q. if sc_id q = sc_id s then f q else q) (schedules d)\<rparr>)"
  proof (rule db_ok_schedules [OF d])
    show "capped sc_id MAX_SCHEDULES schedule_ok (map (\<lambda>q. if sc_id q = sc_id s then f q else q) (schedules d))"
    proof (rule capped_update [OF db_okD(5) [OF d]])
      show "sc_id (f q) = sc_id q" for q using same by simp
      show "schedule_ok (f q)" if "q \<in> set (schedules d)" "schedule_ok q" "sc_id q = sc_id s" for q
        using that runs_on [OF that(2) cadence [OF s that(1,3)]] cadence [OF s that(1,3)] same [of q] timing [of q]
        by (auto simp: schedule_ok_def)
    qed
    show "schedules_allowed (the_workspace d) (map (\<lambda>q. if sc_id q = sc_id s then f q else q) (schedules d))"
      using active_ws by (auto simp: schedules_allowed_def is_active_workspace_def)
  qed
  with active_ws cadence same show ?thesis
    by (auto simp: firing_ok_def split: if_splits)
qed

lemma fire_schedule_fine:
  assumes ok: "firing_ok F k due d" and s: "s \<in> set due" "schedule_ok s" and clock: "sane_clock clock"
  shows "wlp (fire_schedule now clock s) (\<lambda>_. firing_ok F k due) d"
proof -
  define new_next where "new_next = map_option (\<lambda>every. format_utc (schedule_next_run
    (due_epoch (case sc_next s of Some t \<Rightarrow> t | None \<Rightarrow> []) clock) every clock)) (sc_every s)"
  have stamp: "stamp_ok new_next"
    using s(2) next_stamp [OF _ _ clock] by (cases "sc_every s") (auto simp: new_next_def schedule_ok_def stamp_ok_def)
  show ?thesis
  proof (cases "list_ex (open_for (sc_id s)) (runs d)")
    case True
    have skip: "firing_ok F k due (d'\<lparr>schedules := map (\<lambda>q. if sc_id q = sc_id s
        then q\<lparr>sc_next := new_next, sc_updated := now\<rparr> else q) ss\<rparr>)"
      if "firing_ok F k due d'" "sc_every s \<noteq> None" "schedules d' = ss" for d' ss
      unfolding that(3) [symmetric] using that(1,2) by (intro firing_update [OF _ s(1)]) (simp_all add: stamp)
    show ?thesis
      using ok True by (auto simp: fire_schedule_def wlp_simps Let_def new_next_def [symmetric] intro!: skip firing_message)
  next
    case False
    let ?r = "new_run Schedule_run None (Some (sc_id s)) now d"
    from ok have d: "db_ok F k d" and active_ws: "is_active_workspace (the_workspace d)" by (simp_all add: firing_ok_def)
    have "db_ok F k (with_run ?r d)"
      by (rule db_ok_new_run [OF d active_ws]) (use False in \<open>auto simp: run_ok_def new_run_def\<close>)
    then have "firing_ok F k due (with_run ?r d)" using ok by (simp add: firing_ok_def)
    then have "firing_ok F k due (with_run ?r d\<lparr>schedules := map (\<lambda>q. if sc_id q = sc_id s
        then q\<lparr>sc_next := new_next, sc_enabled := (sc_every s \<noteq> None), sc_last_run := Some (next_run d),
               sc_updated := now\<rparr> else q) (schedules (with_run ?r d))\<rparr>)"
      by (intro firing_update [OF _ s(1)]) (simp_all add: stamp)
    then show ?thesis
      using False
      by (auto simp: fire_schedule_def wlp_simps Let_def new_next_def [symmetric] simp del: not_None_eq intro!: firing_message)
  qed
qed

lemma fire_due_fine:
  assumes "sane_clock clock"
  shows "fine F k (fire_due_schedules le now clock)"
proof (rule wlp_keeps)
  fix d assume d: "db_ok F k d"
  let ?due = "order_by (\<lambda>x y. le (the (sc_next x)) (the (sc_next y))) (filter (is_due le now) (schedules d))"
  have due: "s \<in> set (schedules d) \<and> schedule_ok s" if "s \<in> set ?due" for s
    using that db_okD(5) [OF d] by (auto simp: order_by_rows capped_def list_all_iff)
  have "wlp (each_txn (fire_schedule now clock) ?due) (\<lambda>_. firing_ok F k ?due) d"
    if active_ws: "is_active_workspace (the_workspace d)"
  proof (rule wlp_each)
    have "sc_every q = sc_every s" if "s \<in> set ?due" "q \<in> set (schedules d)" "sc_id q = sc_id s" for s q
      using that due [OF that(1)] db_okD(5) [OF d] by (auto simp: capped_def distinct_map dest: inj_onD)
    with d active_ws show "firing_ok F k ?due d" by (auto simp: firing_ok_def)
  qed (use due fire_schedule_fine assms in blast)
  then have "wlp (each_txn (fire_schedule now clock) ?due) (\<lambda>_. db_ok F k) d"
    if "is_active_workspace (the_workspace d)"
    using that by (auto elim: wlp_mono simp: firing_ok_def)
  then show "wlp (fire_due_schedules le now clock) (\<lambda>_. db_ok F k) d"
    by (simp add: fire_due_schedules_def wlp_simps d)
qed

subsection \<open>Dispatching\<close>

lemma pick_ok:
  assumes d: "db_ok F k d" and picked: "next_pending d = Some r"
  shows "db_ok F (Preparing r) d"
proof -
  from picked have r: "r \<in> set (runs d)" "pending r" and none: "\<not> list_ex active (runs d)"
    using find_first_Some [of pending "runs d" r] by (auto simp: next_pending_def split: if_splits)
  from db_okD(7) [OF d] r(1) have "rn_id r < next_run d" "run_ok (messages d) r"
    by (auto simp: runs_ok_def table_ok_def list_all_iff)
  moreover have "few active 0 (runs d)" using none by (auto simp: few_none list_ex_iff list_all_iff)
  ultimately show ?thesis using d r(2) by (simp add: db_ok_def worker_ok_def)
qed

text \<open>What a run carries to the agent is short: a message was checked, a schedule is bounded.\<close>

lemma payload_short:
  assumes d: "db_ok F (Preparing r) d" and payload: "run_payload r now d = Some p" and now: "length now \<le> 21"
  shows "length p \<le> USER_MESSAGE_LIMIT"
proof (cases "rn_kind r")
  case Chat_run
  from db_okD(9) [OF d] have "run_ok (messages d) r" by (simp add: worker_ok_def)
  with Chat_run obtain m where m: "m \<in> set (messages d)" "rn_message r = Some (ms_id m)" "length (ms_content m) \<le> USER_MESSAGE_LIMIT"
    by (auto simp: run_ok_def)
  from d have inj: "distinct (map ms_id (messages d))" by (simp add: db_ok_def table_ok_def)
  have "find_first (\<lambda>m'. Some (ms_id m') = rn_message r) (messages d) = Some m"
  proof (cases "find_first (\<lambda>m'. Some (ms_id m') = rn_message r) (messages d)")
    case None
    with m show ?thesis by (auto simp: find_first_None)
  next
    case (Some m')
    with find_first_Some [OF Some] m inj show ?thesis by (auto simp: distinct_map dest: inj_onD)
  qed
  with payload Chat_run m(3) show ?thesis by (simp add: run_payload_def)
next
  case Schedule_run
  with payload obtain s where s: "find_first (\<lambda>s. Some (sc_id s) = rn_schedule r) (schedules d) = Some s"
    and p: "p = S ''Schedule '' @ quoted (sc_title s) @ S '' ('' @ sc_id s @ S '') fired at '' @ now
      @ S ''. Instructions:'' @ [10] @ sc_prompt s"
    by (auto simp: run_payload_def)
  from find_first_Some [OF s] db_okD(5) [OF d] have "schedule_ok s" by (simp add: capped_def list_all_iff)
  then show ?thesis
    using now slug_length [of "sc_id s"]
    by (simp add: p schedule_ok_def quoted_def TITLE_LIMIT_def SCHEDULE_PROMPT_LIMIT_def USER_MESSAGE_LIMIT_def)
qed

lemma statuses_of_runs: "db_ok F k d \<Longrightarrow> statuses_ok d"
  by (auto simp: statuses_ok_def runs_ok_def run_ok_def list_all_iff dest: db_okD(7))

lemma prepared_ok:
  assumes d: "db_ok F (Preparing r) d" and now: "length now \<le> 21"
    and prepared: "prepare_run le F r now d = Inr (Some pt, d')"
  shows "length (pt_input pt) \<le> HOST_INPUT_LIMIT" and "db_ok F (Posting pt) d'"
proof -
  from db_okD(9) [OF d] have r: "few active 0 (runs d)" "rn_id r < next_run d" "pending r" "run_ok (messages d) r"
    by (simp_all add: worker_ok_def)
  from prepared obtain w payload new_thread where w: "the_workspace d = Some w" "ws_settings w \<noteq> None" and d': "d' = d"
    and payload: "run_payload r now d = Some payload"
    and pt: "pt_run pt = rn_id r" "pt_input pt = task_input le F d w r new_thread payload"
      "pt_thread pt = text_or (rn_thread r) (workspace_thread w)"
    by (auto simp: prepare_run_def txn_simps Let_def split: option.splits)
  show input: "length (pt_input pt) \<le> HOST_INPUT_LIMIT"
    unfolding pt(2) using task_input_fits [OF db_okD(1) [OF d] statuses_of_runs [OF d] w(1) payload_short [OF d payload now]] .
  have "pt_thread pt = workspace_thread w"
    using r(3,4) pt(3) by (simp add: run_ok_def text_or_def)
  then have "claimable pt (the_workspace d) (runs d)"
    using w by (simp add: claimable_def is_active_workspace_def)
  with input r pt(1) have "worker_ok (Posting pt) (next_run d) (messages d) (the_workspace d) (runs d)"
    by (simp add: worker_ok_def)
  with d show "db_ok F (Posting pt) d'" by (simp add: db_ok_def d')
qed

lemma orphan_ok:
  assumes d: "db_ok F k d" and prepared: "prepare_run le F r now d = Inr (None, d')"
  shows "db_ok F k d'"
  using prepared db_ok_update_runs [OF d, of "finish ''orphaned'' now" "\<lambda>q. rn_id q = rn_id r"]
  by (auto simp: prepare_run_def txn_simps Let_def update_runs_def split: option.splits)

subsection \<open>Claiming\<close>

definition claimed :: "prepared_task \<Rightarrow> str \<Rightarrow> str \<Rightarrow> str \<Rightarrow> run \<Rightarrow> run" where
  "claimed pt task_id status now r = r\<lparr>rn_status := Run_active, rn_task := Some task_id, rn_host_status := Some status,
     rn_thread := Some (pt_thread pt), rn_runtime := Some (pt_runtime pt), rn_error := None, rn_updated := now\<rparr>"

lemma claimed_simps [simp]:
  "rn_id (claimed pt t s now r) = rn_id r" "rn_kind (claimed pt t s now r) = rn_kind r"
  "rn_message (claimed pt t s now r) = rn_message r" "rn_schedule (claimed pt t s now r) = rn_schedule r"
  "rn_status (claimed pt t s now r) = Run_active" "rn_task (claimed pt t s now r) = Some t"
  "rn_thread (claimed pt t s now r) = Some (pt_thread pt)" "rn_host_status (claimed pt t s now r) = Some s"
  by (simp_all add: claimed_def)

lemma run_ok_claimed: "run_ok ms r \<Longrightarrow> length s \<le> 64 \<Longrightarrow> run_ok ms (claimed pt t s now r)"
  by (simp add: run_ok_def)

lemma one_per_key:
  assumes "distinct (map key xs)"
  shows "length (filter (\<lambda>x. key x = i) xs) \<le> 1"
  using assms
proof (induction xs)
  case (Cons x xs)
  moreover have "filter (\<lambda>y. key y = i) xs = []" if "key x = i"
  proof -
    have "key x \<notin> key ` set xs" using Cons.prems by simp
    then have "key y \<noteq> i" if "y \<in> set xs" for y using imageI [OF that, of key] \<open>key x = i\<close> by auto
    then show ?thesis by (simp add: filter_empty_conv)
  qed
  ultimately show ?case by auto
qed simp

lemma claim_runs_ok:
  assumes ok: "runs_ok n ms rs" and none: "few active 0 rs" and new: "\<not> list_ex (\<lambda>r. rn_task r = Some t) rs"
    and s: "length s \<le> 64"
  shows "runs_ok n ms (map (\<lambda>r. if rn_id r = i \<and> pending r then claimed pt t s now r else r) rs)"
    (is "runs_ok n ms (map ?f rs)")
proof -
  from ok have tab: "table_ok rn_id (n, rs)" and each: "list_all (run_ok ms) rs" and tasks: "tasks_unique rs"
    by (simp_all add: runs_ok_def)
  have "table_ok rn_id (n, map ?f rs)" by (rule table_ok_update [OF tab]) simp
  moreover have "list_all (run_ok ms) (map ?f rs)"
    using each run_ok_claimed [OF _ s] by (auto simp: list_all_iff)
  moreover have "few active 1 (map ?f rs)"
  proof -
    have "length (filter (\<lambda>r. rn_id r = i) rs) \<le> 1"
      using tab by (intro one_per_key) (simp add: table_ok_def)
    moreover have "length (filter active (map ?f rs)) \<le> length (filter (\<lambda>r. rn_id r = i) rs)"
      using none by (induction rs) (auto simp: few_none)
    ultimately show ?thesis by (simp add: few_def)
  qed
  moreover have "few open_chat MAX_QUEUED_CHAT_TURNS (map ?f rs)"
    by (rule few_map) (use ok in \<open>auto simp: runs_ok_def split: if_splits\<close>)
  moreover have "few (open_for sid) 1 (map ?f rs)" for sid
    by (rule few_map) (use ok in \<open>auto simp: runs_ok_def open_for_def split: if_splits\<close>)
  moreover have "tasks_unique (map ?f rs)"
    unfolding tasks_unique_def set_map ball_simps
  proof (intro ballI impI)
    fix r q assume r: "r \<in> set rs" "q \<in> set rs" "rn_task (?f r) \<noteq> None" "rn_task (?f r) = rn_task (?f q)"
    have fresh: "rn_task x \<noteq> Some t" if "x \<in> set rs" for x using new that by (auto simp: list_ex_iff)
    have same: "rn_task r \<noteq> None \<Longrightarrow> rn_task r = rn_task q \<Longrightarrow> rn_id r = rn_id q"
      using tasks r(1,2) unfolding tasks_unique_def by blast
    from r(3,4) fresh [OF r(1)] fresh [OF r(2)] show "rn_id (?f r) = rn_id (?f q)"
      by (cases "rn_id r = i \<and> pending r"; cases "rn_id q = i \<and> pending q") (simp_all add: same)
  qed
  ultimately show ?thesis by (simp add: runs_ok_def)
qed

lemma claim_ok:
  assumes d: "db_ok F (Claiming pt t s) d" and claim: "claim_run pt t s now d = Inr (b, d')"
  shows "db_ok F Idle d'"
proof -
  let ?P = "\<lambda>r. rn_id r = pt_run pt \<and> pending r" and ?f = "claimed pt t s now"
  from db_okD(9) [OF d] have none: "few active 0 (runs d)" and s: "length s \<le> 64"
    and claimable: "claimable pt (the_workspace d) (runs d)"
    by (simp_all add: worker_ok_def)
  note idle = db_ok_idle [OF d, of Idle, unfolded idle_worker_def, simplified]
  show ?thesis
  proof (cases "list_ex ?P (runs d)")
    case False
    with claim have "d' = d" by (simp add: claim_run_def txn_simps)
    with idle show ?thesis by simp
  next
    case True
    with claim have d': "d' = d\<lparr>runs := map (\<lambda>r. if ?P r then ?f r else r) (runs d)\<rparr>"
      and new: "\<not> list_ex (\<lambda>r. rn_task r = Some t) (runs d)"
      by (simp_all add: claim_run_def txn_simps update_runs_def claimed_def)
    from True claimable have active_ws: "is_active_workspace (the_workspace d)"
      and thread: "Some (pt_thread pt) = map_option workspace_thread (the_workspace d)"
      by (auto simp: claimable_def list_ex_iff)
    then obtain w where w: "the_workspace d = Some w" "pt_thread pt = workspace_thread w" "ws_settings w \<noteq> None"
      by (cases "the_workspace d") (auto simp: is_active_workspace_def)
    from db_okD(8) [OF d] w have seq: "1 \<le> ws_thread_seq w" and each: "list_all (in_session w) (runs d)"
      by (simp_all add: session_ok_def)
    have "in_session w (?f r)" for r
      using seq w by (auto simp: in_session_def workspace_thread_def thread_of_def intro!: exI [of _ "ws_thread_seq w"])
    with each have "list_all (in_session w) (runs d')" by (auto simp: d' list_all_iff)
    then have "session_ok (the_workspace d') (runs d') (schedules d')"
      using db_okD(8) [OF d] w by (simp add: d' session_ok_def del: not_None_eq)
    moreover have "runs_ok (next_run d') (messages d') (runs d')"
      using claim_runs_ok [OF db_okD(7) [OF d] none new s] by (simp add: d')
    moreover have "tables_ok F d'" using db_okD(1) [OF d] by (simp add: d' tables_ok_def)
    ultimately show ?thesis using idle by (simp add: db_ok_def worker_ok_def d')
  qed
qed

subsection \<open>Every reachable engine\<close>

definition engine_ok :: "(rat option \<Rightarrow> str) \<Rightarrow> engine \<Rightarrow> bool" where
  "engine_ok F e \<longleftrightarrow> db_ok F (wk e) (wdb e)"

lemma engine_ok_initial: "engine_ok F initial_engine"
  by (simp add: engine_ok_def initial_engine_def restart_step_def db_ok_def empty_workspace_def tables_ok_def capped_def
      workspace_ok_def table_ok_def runs_ok_def few_def tasks_unique_def session_ok_def worker_ok_def)

lemma idle_workers [simp]:
  "idle_worker Idle" "idle_worker (Reaping b rs)" "idle_worker Firing" "idle_worker Picking"
  "idle_worker (Cancelling i t)" "idle_worker (Reporting i t)"
  by (simp_all add: idle_worker_def)

lemma forget_simps [simp]:
  "wdb (forget_run_caches i t e) = wdb e" "wk (forget_run_caches i t e) = wk e"
  "wdb (forget_attempt i e) = wdb e" "wk (forget_attempt i e) = wk e"
  by (simp_all add: forget_run_caches_def forget_attempt_def)

lemma engine_okD: "engine_ok F e \<Longrightarrow> db_ok F (wk e) (wdb e)"
  by (simp add: engine_ok_def)

lemma error_fine: "fine F k (record_dispatch_error i m now)"
  by (auto simp: record_dispatch_error_def wlp_simps winds_down_def intro!: wlp_keeps db_ok_update_runs)

lemma dispatch_step_ok:
  assumes "db_ok F (Preparing r) (wdb e)" "length now \<le> 21"
  shows "engine_ok F (dispatch_step le F now r e)"
proof (cases "prepare_run le F r now (wdb e)")
  case (Inl f)
  then show ?thesis using db_ok_idle [OF assms(1)] by (simp add: dispatch_step_def engine_ok_def)
next
  case (Inr res)
  obtain pt d where res: "res = (pt, d)" by (cases res)
  show ?thesis
  proof (cases pt)
    case None
    have "db_ok F Idle d" using db_ok_idle [OF orphan_ok [OF assms(1)]] Inr by (simp add: res None)
    then show ?thesis using Inr by (simp add: dispatch_step_def engine_ok_def res None)
  next
    case (Some p)
    have "prepare_run le F r now (wdb e) = Inr (Some p, d)" using Inr by (simp add: res Some)
    from prepared_ok [OF assms this] show ?thesis using Inr by (simp add: dispatch_step_def engine_ok_def res Some)
  qed
qed

lemma reap_step_ok:
  assumes "db_ok F k (snd (mutation (reap_run r answer now) (wdb e)))"
  shows "db_ok F (wk (reap_step off r rest answer now e)) (wdb (reap_step off r rest answer now e))"
proof -
  obtain res d where res: "mutation (reap_run r answer now) (wdb e) = (res, d)" by (cases "mutation (reap_run r answer now) (wdb e)")
  have "db_ok F (Reaping off rest) d" using db_ok_idle [OF assms] by (simp add: res)
  then show ?thesis by (simp add: reap_step_def res split: sum.split bool.split)
qed

lemma worker_step_ok:
  assumes e: "engine_ok F e" and clock: "sane_clock clock" and now: "length now \<le> 21" and short: "short_answer event"
  shows "engine_ok F (worker_step le F now clock tick event e)"
proof -
  note d = engine_okD [OF e]
  note idle = db_ok_idle [OF d]
  show ?thesis
  proof (cases "wk e")
    case Idle
    then show ?thesis using e idle by (cases event) (simp_all add: worker_step_def engine_ok_def)
  next
    case (Reaping off rows)
    show ?thesis
    proof (cases rows)
      case Nil
      then show ?thesis using Reaping e idle by (cases event) (simp_all add: worker_step_def engine_ok_def)
    next
      case (Cons r rest)
      have "engine_ok F (reap_step off r rest answer now e)" if "event = Host_says answer" for answer
      proof -
        have "length (ht_status t) \<le> 64" if "answer = Host_task t" for t
          using short that \<open>event = Host_says answer\<close> by (simp add: short_answer_def)
        from keeps_mutation [OF reap_fine [OF this] d]
        have "db_ok F (wk e) (snd (mutation (reap_run r answer now) (wdb e)))" .
        then show ?thesis
          unfolding engine_ok_def by (rule reap_step_ok)
      qed
      then show ?thesis using Reaping Cons e by (cases event) (simp_all add: worker_step_def)
    qed
  next
    case Firing
    have "db_ok F (wk e) (snd (mutation (fire_due_schedules le now clock) (wdb e)))"
      by (rule keeps_mutation [OF fire_due_fine [OF clock] d])
    then show ?thesis
      using Firing e
      by (cases event) (auto simp: worker_step_def engine_ok_def split: prod.splits sum.splits intro: db_ok_idle)
  next
    case Picking
    show ?thesis
    proof (cases event)
      case Go
      then show ?thesis
        using Picking idle [of Idle] pick_ok [OF d] by (auto simp: worker_step_def pick_step_def engine_ok_def split: option.splits)
    qed (use Picking e in \<open>simp_all add: worker_step_def\<close>)
  next
    case (Preparing r)
    then show ?thesis
      using e d dispatch_step_ok [of F r e now le] now by (cases event) (simp_all add: worker_step_def)
  next
    case (Posting pt)
    show ?thesis
    proof (cases event)
      case (Task_created t s)
      then have "length (text_or s (S ''queued'')) \<le> 64"
        using short by (auto simp: short_answer_def text_or_def split: option.splits)
      then show ?thesis
        using Posting Task_created d idle by (auto simp: worker_step_def engine_ok_def db_ok_def worker_ok_def)
    qed (use Posting e idle in \<open>simp_all add: worker_step_def engine_ok_def\<close>)
  next
    case (Claiming pt t s)
    then show ?thesis
      using e d idle claim_ok [of F pt t s "wdb e" now]
      by (cases event) (auto simp: worker_step_def claim_step_def engine_ok_def split: sum.splits prod.splits bool.splits)
  next
    case (Cancelling i t)
    then show ?thesis using e idle by (cases event) (simp_all add: worker_step_def engine_ok_def)
  next
    case (Reporting i m)
    have "db_ok F (wk e) (snd (mutation (record_dispatch_error i m now) (wdb e)))"
      by (rule keeps_mutation [OF error_fine d])
    then show ?thesis
      using Reporting e by (cases event) (auto simp: worker_step_def engine_ok_def intro: db_ok_idle)
  qed
qed

lemma request_steps_ok:
  assumes e: "engine_ok F e"
  shows "sane_clock clock \<Longrightarrow> engine_ok F (ui_step F request now clock e)"
    and "engine_ok F (steer_step steer delivered now e)"
    and "engine_ok F (arrive_step thread_id body e)"
    and "engine_ok F (count_step task_id body recorded now e)"
    and "sane_clock clock \<Longrightarrow> length now \<le> 21 \<Longrightarrow> engine_ok F (write_step F R task_id action now clock e)"
    and "engine_ok F (restart_step e)"
proof -
  note d = engine_okD [OF e]
  show "engine_ok F (ui_step F request now clock e)" if "sane_clock clock"
    using keepsD [OF ui_fine [OF that] d] e
    by (auto simp: ui_step_def engine_ok_def split: sum.splits prod.splits)
  show "engine_ok F (steer_step steer delivered now e)"
    using keepsD [OF steered_fine d] e
    by (auto simp: steer_step_def engine_ok_def Let_def split: sum.splits prod.splits bool.splits)
  show "engine_ok F (arrive_step thread_id body e)"
    using e by (auto simp: arrive_step_def engine_ok_def split: sum.splits prod.splits)
  show "engine_ok F (count_step task_id body recorded now e)"
    using e keeps_mutation [OF message_fine(1) d]
    by (auto simp: count_step_def engine_ok_def Let_def record_exhaustion_def split: option.splits prod.splits)
  show "engine_ok F (write_step F R task_id action now clock e)" if "sane_clock clock" "length now \<le> 21"
    using keeps_mutation [OF agent_action_fine [OF that] d] by (simp add: write_step_def engine_ok_def)
  show "engine_ok F (restart_step e)"
    using db_ok_idle [OF d] by (simp add: restart_step_def engine_ok_def)
qed

lemma engine_step_ok: "engine_step le F R e e' \<Longrightarrow> engine_ok F e \<Longrightarrow> engine_ok F e'"
  by (induction rule: engine_step.induct) (auto intro: worker_step_ok request_steps_ok now_length)

lemma engine_steps_ok: "engine_steps le F R e e' \<Longrightarrow> engine_ok F e \<Longrightarrow> engine_ok F e'"
  by (induction rule: rtranclp_induct) (auto intro: engine_step_ok)

lemma reachable_ok: "engine_reachable le F R e \<Longrightarrow> engine_ok F e"
  using engine_steps_ok engine_ok_initial by blast

end
