(* ===== verification/WorkspaceHistory.thy ===== *)
theory WorkspaceHistory
  imports WorkspaceEngine
begin

text \<open>
  What never comes back: runs only move forward through their life cycle, a run keeps its host
  task and its thread once it has one, and the number of the current thread only grows. So a
  task whose thread was rotated away has lost its authority to write for good.
\<close>

subsection \<open>The life cycle of a run\<close>

fun run_moves :: "run_status \<Rightarrow> run_status list" where
  "run_moves Run_pending = [Run_active, Run_done]"
| "run_moves Run_active = [Run_done]"
| "run_moves Run_done = []"

fun run_rank :: "run_status \<Rightarrow> nat" where
  "run_rank Run_pending = 0"
| "run_rank Run_active = 1"
| "run_rank Run_done = 2"

definition run_identity :: "run \<Rightarrow> int \<times> run_kind \<times> int option \<times> str option" where
  "run_identity r = (rn_id r, rn_kind r, rn_message r, rn_schedule r)"

interpretation run_table: tracked_table run_moves run_rank rn_id rn_status run_identity
proof unfold_locales
  show "run_rank s < run_rank t" if "t \<in> set (run_moves s)" for s t using that by (cases s) auto
qed (simp add: run_identity_def)

text \<open>The same run later, with the task and the thread it had.\<close>

definition advanced :: "run \<Rightarrow> run \<Rightarrow> bool" where
  "advanced r r' \<longleftrightarrow> moved run_moves rn_status run_identity r r'
     \<and> (rn_task r \<noteq> None \<longrightarrow> rn_task r' = rn_task r \<and> rn_thread r' = rn_thread r)"

definition thread_number :: "workspace_db \<Rightarrow> int" where
  "thread_number d = (case the_workspace d of None \<Rightarrow> 0 | Some w \<Rightarrow> ws_thread_seq w)"

definition later :: "workspace_db \<Rightarrow> workspace_db \<Rightarrow> bool" where
  "later d d' \<longleftrightarrow> thread_number d \<le> thread_number d' \<and> next_run d \<le> next_run d'
     \<and> (\<exists>rs new. runs d' = rs @ new \<and> list_all2 advanced (runs d) rs \<and> (\<forall>r \<in> set new. next_run d \<le> rn_id r))"

lemma advanced_refl [simp]: "advanced r r"
  by (simp add: advanced_def)

lemma advanced_trans: "advanced a b \<Longrightarrow> advanced b c \<Longrightarrow> advanced a c"
  by (auto simp: advanced_def intro: run_table.moved_trans)

lemma advanced_same_status:
  "run_identity r' = run_identity r \<Longrightarrow> rn_status r' = rn_status r \<Longrightarrow> rn_task r' = rn_task r \<Longrightarrow>
   rn_thread r' = rn_thread r \<Longrightarrow> advanced r r'"
  by (simp add: advanced_def moved_def)

lemma advanced_done:
  "run_identity r' = run_identity r \<Longrightarrow> rn_status r' = Run_done \<Longrightarrow> rn_task r' = rn_task r \<Longrightarrow>
   rn_thread r' = rn_thread r \<Longrightarrow> advanced r r'"
  using run_table.leads_move [of Run_done "rn_status r"] by (cases "rn_status r") (auto simp: advanced_def moved_def)

lemma advanced_wind_down: "winds_down r r' \<Longrightarrow> advanced r r'"
  using advanced_same_status [of r' r] advanced_done [of r' r]
  by (auto simp: winds_down_def run_identity_def)

lemma laterI:
  assumes "thread_number d \<le> thread_number d'" "next_run d \<le> next_run d'" "runs d' = rs @ new"
    "list_all2 advanced (runs d) rs" "\<forall>r \<in> set new. next_run d \<le> rn_id r"
  shows "later d d'"
  using assms unfolding later_def by blast

lemma laterE:
  assumes "later d d'"
  obtains rs new where "thread_number d \<le> thread_number d'" "next_run d \<le> next_run d'" "runs d' = rs @ new"
    "list_all2 advanced (runs d) rs" "\<forall>r \<in> set new. next_run d \<le> rn_id r"
  using assms unfolding later_def by blast

lemma later_refl [simp]: "later d d"
  by (rule laterI [of d d "runs d" "[]"]) (auto intro: list_all2_refl)

subsection \<open>Primitive changes\<close>

text \<open>A change of the run rows, and any change elsewhere that keeps the thread number growing.\<close>

lemma later_map:
  assumes "later d0 d" "\<And>r. r \<in> set (runs d) \<Longrightarrow> advanced r (f r)"
    and "runs d' = map f (runs d)" "next_run d' = next_run d" "thread_number d \<le> thread_number d'"
  shows "later d0 d'"
proof -
  from assms(1) obtain rs new where d: "thread_number d0 \<le> thread_number d" "next_run d0 \<le> next_run d" "runs d = rs @ new"
    "list_all2 advanced (runs d0) rs" "\<forall>r \<in> set new. next_run d0 \<le> rn_id r"
    by (rule laterE)
  have step: "advanced r (f r)" if "r \<in> set rs" for r using assms(2) d(3) that by simp
  have "list_all2 advanced (runs d0) (map f rs)"
    using d(4) unfolding list_all2_map2 by (rule list.rel_mono_strong) (auto intro: advanced_trans step)
  moreover have "rn_id (f r) = rn_id r" if "r \<in> set new" for r
    using run_table.moved_key assms(2) that d(3) by (force simp: advanced_def)
  then have "\<forall>r \<in> set (map f new). next_run d0 \<le> rn_id r" using d(5) by simp
  ultimately show ?thesis
    by (rule laterI [rotated 3]) (use d assms(3-5) in simp_all)
qed

lemma later_frame:
  assumes "later d0 d" "runs d' = runs d" "next_run d' = next_run d" "thread_number d \<le> thread_number d'"
  shows "later d0 d'"
  using assms by (intro later_map [of d0 d id d']) simp_all

lemma later_update:
  assumes "later d0 d" "\<And>r. r \<in> set (runs d) \<Longrightarrow> P r \<Longrightarrow> advanced r (f r)"
  shows "later d0 (d\<lparr>runs := map (\<lambda>r. if P r then f r else r) (runs d)\<rparr>)"
  by (rule later_map [OF assms(1), of "\<lambda>r. if P r then f r else r"]) (auto simp: thread_number_def assms(2))

lemma later_update_runs:
  "later d0 d \<Longrightarrow> (\<And>r. winds_down r (f r)) \<Longrightarrow> later d0 (d\<lparr>runs := map (\<lambda>r. if P r then f r else r) (runs d)\<rparr>)"
  by (rule later_update) (auto intro: advanced_wind_down)

lemma later_message:
  assumes "later d0 d"
  shows "later d0 (with_message m d)"
  by (rule later_frame [OF assms]) (simp_all add: thread_number_def)

lemma later_new_run:
  assumes "later d0 d" "rn_id r = next_run d"
  shows "later d0 (with_run r d)"
proof -
  from assms(1) obtain rs new where "thread_number d0 \<le> thread_number d" "next_run d0 \<le> next_run d" "runs d = rs @ new"
    "list_all2 advanced (runs d0) rs" "\<forall>r \<in> set new. next_run d0 \<le> rn_id r" by (rule laterE)
  then show ?thesis
    using assms(2) by (intro laterI [of d0 _ rs "new @ [r]"]) (auto simp: thread_number_def)
qed

lemma later_tables:
  assumes "later d0 d"
  shows "later d0 (d\<lparr>memories := a\<rparr>)" "later d0 (d\<lparr>tool_rows := b\<rparr>)" "later d0 (d\<lparr>artifacts := c\<rparr>)"
    "later d0 (d\<lparr>schedules := s\<rparr>)"
  by (rule later_frame [OF assms]; simp add: thread_number_def)+

lemma later_workspace:
  "later d0 d \<Longrightarrow> thread_number d \<le> ws_thread_seq w \<Longrightarrow> later d0 (d\<lparr>the_workspace := Some w\<rparr>)"
  by (erule later_frame) (simp_all add: thread_number_def)

lemma later_framed: "later d0 d \<Longrightarrow> framed d d' \<Longrightarrow> later d0 d'"
  by (erule later_frame)
     (auto simp: framed_def thread_number_def same_session_def split: option.splits)

lemmas later_intros = later_message later_tables later_update_runs

abbreviation forth :: "workspace_db \<Rightarrow> 'a ws_txn \<Rightarrow> bool" where
  "forth d0 m \<equiv> keeps (later d0) m"

subsection \<open>Requests\<close>

lemma queue_forth: "forth d0 (queue_human_input content meta now)"
  by (auto intro!: wlp_keeps later_message later_new_run simp: queue_human_input_def wlp_simps new_run_def)

lemma seed_forth: "forth d0 (seed now clock)"
  by (auto intro!: wlp_keeps later_message later_tables simp: seed_def wlp_simps)

lemma ensure_forth: "forth d0 (ensure_workspace settings now clock)"
proof (rule wlp_keeps)
  fix d assume d: "later d0 d"
  have "wlp (seed now clock) (\<lambda>_. later d0) (d\<lparr>the_workspace := Some w\<rparr>)"
    if "the_workspace d = None" "ws_thread_seq w = 1" for w
    using seed_forth later_workspace [OF d, of w] that by (simp add: keeps_iff_wlp thread_number_def)
  then show "wlp (ensure_workspace settings now clock) (\<lambda>_. later d0) d"
    by (auto simp: ensure_workspace_def wlp_simps thread_number_def intro!: later_workspace d split: option.split)
qed

lemma session_settings_forth: "forth d0 (session_settings kvs)"
  by (rule wlp_keeps) (rule session_settings_wlp)

lemma object_forth: "forth d0 (object_of body)"
  by (auto intro!: wlp_keeps simp: wlp_simps)

lemma activate_forth: "forth d0 (activate_workspace body now clock)"
  unfolding activate_workspace_def ensure_workspace_can_activate_def workspace_runtime_def
  by (intro keeps_bind keeps_then keeps_pure object_forth session_settings_forth ensure_forth)

lemma send_forth: "forth d0 (send_message body now clock)"
  unfolding send_message_def ensure_workspace_can_activate_def workspace_runtime_def Let_def
  by (auto intro!: keeps_bind keeps_then keeps_pure object_forth session_settings_forth ensure_forth queue_forth
      split: json.split)

lemma need_forth: "forth d0 (need kvs key)"
  by (auto intro!: wlp_keeps simp: wlp_simps)

lemma interact_forth: "forth d0 (submit_artifact_interaction F body now)"
  unfolding submit_artifact_interaction_def workspace_runtime_def Let_def
  by (auto intro!: keeps_bind keeps_then keeps_pure object_forth need_forth queue_forth split: json.split option.split)

lemma deactivate_forth: "forth d0 (deactivate_workspace body now)"
proof (rule wlp_keeps)
  fix d assume d: "later d0 d"
  define d' where "d' = (\<lambda>ss. d\<lparr>schedules := ss,
    runs := map (\<lambda>r. if pending r then finish ''deactivated'' now r else r) (runs d)\<rparr>)"
  have d': "later d0 (d' ss)" for ss
  proof -
    have "later d0 (d\<lparr>schedules := ss\<rparr>)" by (rule later_tables(4) [OF d])
    from later_update_runs [OF this, where f = "finish ''deactivated'' now" and P = pending] show ?thesis by (simp add: d'_def)
  qed
  have "later d0 (d' ss\<lparr>the_workspace := Some w'\<rparr>)"
    if "the_workspace d = Some w" "ws_thread_seq w' = ws_thread_seq w + 1" for ss w w'
    using that by (intro later_workspace d') (simp add: d'_def thread_number_def)
  with d d' show "wlp (deactivate_workspace body now) (\<lambda>_. later d0) d"
    by (auto simp: deactivate_workspace_def wlp_simps Let_def d'_def intro!: later_message split: option.split)
qed

lemma message_forth:
  "forth d0 (insert_message role content meta now)" "forth d0 (insert_event content meta' now)"
  by (auto intro!: wlp_keeps later_message simp: wlp_simps)

lemma rotate_forth: "forth d0 (set_workspace (\<lambda>w. w\<lparr>ws_thread_seq := ws_thread_seq w + 1, ws_settings := s, ws_updated := now\<rparr>))"
  unfolding keeps_iff_wlp wlp_simps
  by (auto elim!: later_frame simp: thread_number_def split: option.splits)

lemma settings_forth: "forth d0 (update_agent_settings body now)"
  unfolding update_agent_settings_def
  by (auto intro!: keeps_bind keeps_then keeps_pure object_forth session_settings_forth message_forth rotate_forth
      split: option.split prod.split)

lemma row_number_forth: "forth d0 (row_number x)"
  unfolding row_number_def by (auto intro!: keeps_then keeps_pure split: option.split)

lemma panel_forth:
  "forth d0 (set_schedule_enabled sid enabled now clock)" "forth d0 (delete_schedule_from_ui x now)"
  "forth d0 (delete_artifact_from_ui x now)" "forth d0 (delete_tool_from_ui x now)"
  "forth d0 (edit_memory_from_ui x body now)" "forth d0 (delete_memory_from_ui x now)"
  by (auto intro!: wlp_keeps later_intros split: option.split json.split simp: wlp_simps set_schedule_enabled_def
      delete_schedule_from_ui_def delete_artifact_from_ui_def delete_tool_from_ui_def removed_def Let_def
      edit_memory_from_ui_def delete_memory_from_ui_def)

lemma discard_forth: "forth d0 (discard_pending_run x now)"
  unfolding discard_pending_run_def
  by (auto intro!: keeps_bind keeps_then keeps_pure row_number_forth)
     (auto intro!: wlp_keeps later_intros simp: wlp_simps)

lemma steered_forth: "forth d0 (finish_steered run_id task now)"
  by (auto intro!: wlp_keeps later_intros simp: finish_steered_def wlp_simps)

lemma ui_forth: "forth d0 (ui_txn F request now clock)"
  by (cases request)
     (auto simp: ui_txn_def intro!: keeps_bind keeps_then keeps_pure activate_forth send_forth interact_forth
       deactivate_forth settings_forth panel_forth discard_forth split: prod.split)

lemma agent_action_forth: "forth d0 (agent_action_txn F R action t now clock)"
proof (rule wlp_keeps)
  fix d assume d: "later d0 d"
  have rejected: "wlp (journal_rejection action e now) (\<lambda>_. later d0) d" for e
    by (auto simp: journal_rejection_def wlp_simps Let_def intro!: later_message d)
  have "wlp (with_savepoint (apply_action R action now clock))
      (\<lambda>e. wlp (case e of None \<Rightarrow> ok None | Some e \<Rightarrow> journal_rejection action e now) (\<lambda>_. later d0)) d"
    by (rule wlp_with_savepoint)
       (auto intro: wlp_mono [OF apply_action_frame] later_framed d simp: wlp_simps rejected)
  then show "wlp (agent_action_txn F R action t now clock) (\<lambda>_. later d0) d"
    unfolding agent_action_txn_def wlp_then wlp_iff [of "verify_task_authority t"]
    by (auto simp: authority rejected wlp_bind split: option.split)
qed

subsection \<open>The worker\<close>

lemma set_done_forth: "forth d0 (set_done r status now)"
proof (rule wlp_keeps)
  fix d assume d: "later d0 d"
  show "wlp (set_done r status now) (\<lambda>_. later d0) d"
    unfolding set_done_def wlp_simps
    by (rule later_update [OF d]) (auto intro: advanced_done simp: run_identity_def)
qed

lemma reap_forth: "forth d0 (reap_run r answer now)"
proof -
  have "forth d0 (update_runs P (\<lambda>q. q\<lparr>rn_host_status := s, rn_updated := now\<rparr>))" for P s
    unfolding keeps_iff_wlp wlp_simps
    by (auto elim!: later_update intro: advanced_same_status simp: run_identity_def)
  then show ?thesis
    by (auto simp: reap_run_def apply_run_result_def finish_lost_run_def finish_oversized_run_def Let_def
        intro!: keeps_then keeps_pure set_done_forth message_forth split: host_answer.split)
qed

lemma fire_forth: "forth d0 (fire_schedule now clock s)"
  by (rule wlp_keeps)
     (auto simp: fire_schedule_def wlp_simps Let_def new_run_def intro!: later_message later_tables later_new_run)

lemma fire_due_forth: "forth d0 (fire_due_schedules le now clock)"
  unfolding fire_due_schedules_def workspace_runtime_def
  by (auto intro!: keeps_bind keeps_pure keeps_each fire_forth)

lemma error_forth: "forth d0 (record_dispatch_error i m now)"
  unfolding record_dispatch_error_def keeps_iff_wlp wlp_simps
  by (auto elim!: later_update intro: advanced_same_status simp: run_identity_def)

lemma prepare_forth: "forth d0 (prepare_run le F r now)"
proof -
  have "forth d0 (update_runs P (finish ''orphaned'' now))" for P
    by (auto intro!: wlp_keeps later_update_runs simp: wlp_simps)
  then show ?thesis
    unfolding prepare_run_def Let_def
    by (auto intro!: keeps_bind keeps_then keeps_pure split: option.split prod.split)
qed

text \<open>A claim gives a task to a pending run, which had none.\<close>

lemma claim_forth:
  assumes "later d0 d" "db_ok F k d" "claim_run pt t s now d = Inr (b, d')"
  shows "later d0 d'"
proof (cases "list_ex (\<lambda>r. rn_id r = pt_run pt \<and> pending r) (runs d)")
  case False
  with assms show ?thesis by (simp add: claim_run_def txn_simps)
next
  case True
  with assms(3) have d': "d' = d\<lparr>runs := map (\<lambda>r. if rn_id r = pt_run pt \<and> pending r then claimed pt t s now r else r) (runs d)\<rparr>"
    by (simp add: claim_run_def txn_simps update_runs_def claimed_def)
  have "advanced r (claimed pt t s now r)" if "r \<in> set (runs d)" "pending r" for r
  proof -
    have "run_ok (messages d) r" using db_okD(7) [OF assms(2)] that by (simp add: runs_ok_def list_all_iff)
    then show ?thesis
      using that(2) run_table.leads_move [of Run_active Run_pending]
      by (simp add: run_ok_def advanced_def moved_def run_identity_def)
  qed
  then show ?thesis unfolding d' by (intro later_update [OF assms(1)]) simp_all
qed

subsection \<open>The engine\<close>

lemma later_mutation: "forth d0 m \<Longrightarrow> later d0 d \<Longrightarrow> mutation m d = (x, d') \<Longrightarrow> later d0 d'"
  using keeps_mutation [of "later d0" m d] by simp

lemma dispatch_step_later:
  assumes "later d0 (wdb e)"
  shows "later d0 (wdb (dispatch_step le F now r e))"
proof (cases "prepare_run le F r now (wdb e)")
  case (Inr res)
  obtain pt d where res: "res = (pt, d)" by (cases res)
  have "later d0 d" using keepsD [OF prepare_forth assms] Inr by (simp add: res)
  then show ?thesis using assms Inr by (cases pt) (simp_all add: dispatch_step_def res)
qed (use assms in \<open>simp add: dispatch_step_def\<close>)

lemma claim_step_later:
  assumes "later d0 (wdb e)" "db_ok F k (wdb e)"
  shows "later d0 (wdb (claim_step pt t s now e))"
proof (cases "claim_run pt t s now (wdb e)")
  case (Inr res)
  obtain b d where res: "res = (b, d)" by (cases res)
  have "later d0 d" using claim_forth [OF assms] Inr by (simp add: res)
  then show ?thesis using assms Inr by (cases b) (simp_all add: claim_step_def res)
qed (use assms in \<open>simp add: claim_step_def\<close>)

lemma reap_step_later:
  assumes "later d0 (wdb e)"
  shows "later d0 (wdb (reap_step off r rest answer now e))"
proof -
  obtain res d where res: "mutation (reap_run r answer now) (wdb e) = (res, d)" by (cases "mutation (reap_run r answer now) (wdb e)")
  have "later d0 d" by (rule later_mutation [OF reap_forth assms res])
  then show ?thesis by (simp add: reap_step_def res split: sum.split bool.split)
qed

lemma fire_step_later:
  assumes "later d0 (wdb e)"
  shows "later d0 (wdb (case mutation (fire_due_schedules le now clock) (wdb e) of (r, d) \<Rightarrow>
    e\<lparr>wdb := d, wk := k r\<rparr>))"
  using keeps_mutation [OF fire_due_forth assms] by (simp add: case_prod_beta)

lemma worker_step_later:
  assumes e: "engine_ok F e" and later: "later d0 (wdb e)"
  shows "later d0 (wdb (worker_step le F now clock tick event e))"
proof (cases "wk e")
  case (Reaping off rows)
  then show ?thesis
    using later by (cases event; cases rows) (simp_all add: worker_step_def reap_step_later)
next
  case Firing
  then show ?thesis
    using later by (cases event) (simp_all add: worker_step_def fire_step_later)
next
  case Picking
  then show ?thesis
    using later by (cases event) (simp_all add: worker_step_def pick_step_def split: option.split)
next
  case (Preparing r)
  then show ?thesis
    using later by (cases event) (simp_all add: worker_step_def dispatch_step_later)
next
  case (Claiming pt t s)
  then show ?thesis
    using later engine_okD [OF e] by (cases event) (simp_all add: worker_step_def claim_step_later)
next
  case (Reporting i m)
  then show ?thesis
    using later keeps_mutation [OF error_forth later] by (cases event) (simp_all add: worker_step_def)
qed (use later in \<open>cases event; simp add: worker_step_def\<close>)+

lemma request_steps_later:
  assumes later: "later d0 (wdb e)"
  shows "later d0 (wdb (ui_step F request now clock e))" "later d0 (wdb (steer_step steer delivered now e))"
    "later d0 (wdb (arrive_step thread_id body e))" "later d0 (wdb (count_step task_id body recorded now e))"
    "later d0 (wdb (write_step F R task_id action now clock e))" "later d0 (wdb (restart_step e))"
proof -
  show "later d0 (wdb (ui_step F request now clock e))"
    using keepsD [OF ui_forth later] later by (auto simp: ui_step_def split: sum.splits prod.splits)
  show "later d0 (wdb (steer_step steer delivered now e))"
    using keepsD [OF steered_forth later] later
    by (auto simp: steer_step_def Let_def split: sum.splits prod.splits bool.splits)
  show "later d0 (wdb (arrive_step thread_id body e))"
    using later by (auto simp: arrive_step_def split: sum.splits prod.splits)
  show "later d0 (wdb (count_step task_id body recorded now e))"
    using later keeps_mutation [OF message_forth(1) later]
    by (auto simp: count_step_def Let_def record_exhaustion_def split: option.splits prod.splits)
  show "later d0 (wdb (write_step F R task_id action now clock e))"
    using keeps_mutation [OF agent_action_forth later] by (simp add: write_step_def)
qed (use later in \<open>simp add: restart_step_def\<close>)

lemma engine_step_later:
  assumes "engine_step le F R e e'" "engine_ok F e" "later d0 (wdb e)"
  shows "later d0 (wdb e')"
  using assms by (cases rule: engine_step.cases) (auto intro: worker_step_later request_steps_later)

lemma engine_steps_later:
  assumes "engine_steps le F R e e'" "engine_ok F e"
  shows "later (wdb e) (wdb e')"
  using assms
proof (induction rule: rtranclp_induct)
  case (step e1 e2)
  then show ?case using engine_step_later engine_steps_ok by blast
qed simp

end
