(* ===== verification/WorkspaceProperties.thy ===== *)
theory WorkspaceProperties
  imports WorkspaceHistory
begin

text \<open>
  The properties of the workspace engine over all its executions, each with an execution in
  which its hypotheses hold: a message starts the workspace, the worker dispatches it to the
  host as task 7, and the operator deactivates the workspace while the task runs.
\<close>

subsection \<open>A dispatch that the host answers\<close>

definition dispatch_round ::
  "(str \<Rightarrow> str \<Rightarrow> bool) \<Rightarrow> (rat option \<Rightarrow> str) \<Rightarrow> str \<Rightarrow> int \<Rightarrow> rat \<Rightarrow> str \<Rightarrow> str option \<Rightarrow> engine \<Rightarrow> engine" where
  "dispatch_round le F now clock tick task_id status e =
     fold (worker_step le F now clock tick) [Go, Task_created task_id status, Go] e"

lemma dispatch_starts:
  assumes ok: "engine_ok F e" and wk: "wk e = Preparing r" and r: "r \<in> set (runs (wdb e))"
    and w: "the_workspace (wdb e) = Some w" "ws_settings w = Some s"
    and filled: "fst s \<noteq> []" "fst (snd s) \<noteq> []" "snd (snd s) \<noteq> []"
    and payload: "run_payload r now (wdb e) = Some p" and now: "length now \<le> 21"
    and t: "t \<noteq> []" "\<not> list_ex (\<lambda>q. rn_task q = Some t) (runs (wdb e))"
    and e'_def: "e' = dispatch_round le F now clock tick t status e"
  shows "wk e' = Idle" and "the_workspace (wdb e') = the_workspace (wdb e)"
    and "\<exists>q \<in> set (runs (wdb e')). rn_id q = rn_id r \<and> active q \<and> rn_task q = Some t
      \<and> rn_thread q = Some (workspace_thread w)"
proof -
  let ?d = "wdb e"
  have d: "db_ok F (Preparing r) ?d" using engine_okD [OF ok] wk by simp
  from db_okD(9) [OF d] have pending: "pending r" "rn_thread r = None" by (auto simp: worker_ok_def run_ok_def)
  obtain pt where prepared: "prepare_run le F r now ?d = Inr (Some pt, ?d)"
    and pt: "pt_run pt = rn_id r" "pt_thread pt = workspace_thread w"
    using w filled payload pending(2)
    by (cases s) (auto simp: prepare_run_def bind_txn_def then_txn_def select_def require_def ok_def Let_def text_or_def)
  define e1 where "e1 = e\<lparr>wk := Posting pt\<rparr>"
  have e1: "worker_step le F now clock tick Go e = e1"
    using prepared_ok(1) [OF d now prepared] prepared
    by (simp add: worker_step_def wk dispatch_step_def e1_def)
  define e2 where "e2 = e1\<lparr>wk := Claiming pt t (text_or status (S ''queued''))\<rparr>"
  have e2: "worker_step le F now clock tick (Task_created t status) e1 = e2"
    using t(1) by (simp add: worker_step_def e1_def e2_def)
  have row: "list_ex (\<lambda>q. rn_id q = pt_run pt \<and> pending q) (runs ?d)"
    using r pending(1) pt(1) by (auto simp: list_ex_iff)
  have claim: "claim_run pt t (text_or status (S ''queued'')) now ?d = Inr (True,
      ?d\<lparr>runs := map (\<lambda>q. if rn_id q = pt_run pt \<and> pending q
        then claimed pt t (text_or status (S ''queued'')) now q else q) (runs ?d)\<rparr>)"
    using row t(2)
    by (simp add: claim_run_def bind_txn_def then_txn_def select_def require_def ok_def update_runs_def modify_def claimed_def)
  have e': "e' = forget_attempt (pt_run pt) (e2\<lparr>wdb := ?d\<lparr>runs := map (\<lambda>q. if rn_id q = pt_run pt \<and> pending q
        then claimed pt t (text_or status (S ''queued'')) now q else q) (runs ?d)\<rparr>, wk := Idle\<rparr>)"
    using e1 e2 claim by (simp add: e'_def dispatch_round_def) (simp add: worker_step_def claim_step_def e2_def e1_def)
  show "wk e' = Idle" "the_workspace (wdb e') = the_workspace (wdb e)" by (simp_all add: e')
  show "\<exists>q \<in> set (runs (wdb e')). rn_id q = rn_id r \<and> active q \<and> rn_task q = Some t
      \<and> rn_thread q = Some (workspace_thread w)"
    using r pending(1) pt by (auto simp: e' intro!: bexI [of _ "claimed pt t (text_or status (S ''queued'')) now r"] image_eqI [of _ _ r])
qed

lemma deactivation_rotates:
  assumes "the_workspace (wdb e) = Some w" "ws_settings w \<noteq> None"
  shows "\<exists>w'. the_workspace (wdb (ui_step F (Deactivate (JObj [])) now clock e)) = Some w'
    \<and> ws_thread_seq w' = ws_thread_seq w + 1 \<and> ws_settings w' = None"
proof -
  obtain x d where x: "deactivate_workspace (JObj []) now (wdb e) = Inr (x, d)"
    and d: "the_workspace d = Some (w\<lparr>ws_settings := None, ws_thread_seq := ws_thread_seq w + 1, ws_updated := now\<rparr>)"
    using assms
    by (auto simp: deactivate_workspace_def bind_txn_def then_txn_def select_def require_def ok_def modify_def Let_def
        update_runs_def set_workspace_def insert_event_def insert_message_def)
  then show ?thesis by (simp add: ui_step_def ui_txn_def bind_txn_def ok_def split: option.split)
qed

lemma task_stays:
  assumes "later d d'" "r \<in> set (runs d)" "rn_task r = Some t"
  shows "\<exists>r' \<in> set (runs d'). advanced r r' \<and> rn_task r' = Some t \<and> rn_thread r' = rn_thread r"
proof -
  from assms(1) obtain rs new where d: "runs d' = rs @ new" "list_all2 advanced (runs d) rs" by (rule laterE)
  from assms(2) d(2) obtain r' where "r' \<in> set rs" "advanced r r'" by (metis in_set_conv_nth list_all2_conv_all_nth)
  with d(1) assms(3) show ?thesis by (auto simp: advanced_def)
qed

subsection \<open>An execution\<close>

definition ex_worker :: "worker_event \<Rightarrow> engine \<Rightarrow> engine" where
  "ex_worker event e = worker_step (\<lambda>_ _. False) (\<lambda>_. []) (format_utc 1783609200) 1783609200 100 event e"

definition ex_request :: "ui_request \<Rightarrow> engine \<Rightarrow> engine" where
  "ex_request request e = ui_step (\<lambda>_. []) request (format_utc 1783609200) 1783609200 e"

definition ex_fields :: "(str \<times> json) list" where
  "ex_fields = [(S ''content'', JStr (S ''hello'')), (S ''agent_runtime'', JStr (S ''codex'')),
     (S ''model'', JStr (S ''gpt-5.6-sol'')), (S ''effort'', JStr (S ''high''))]"

definition ex_settings :: "str \<times> str \<times> str" where
  "ex_settings = (S ''codex'', S ''gpt-5.6-sol'', S ''high'')"

definition ex_preparing :: engine where
  "ex_preparing = fold ex_worker [Go, Go, Go, Go] (ex_request (Send (JObj ex_fields)) initial_engine)"

definition ex_running :: engine where
  "ex_running = fold ex_worker [Go, Task_created (S ''7'') None, Go] ex_preparing"

definition ex_revoked :: engine where
  "ex_revoked = ex_request (Deactivate (JObj [])) ex_running"

abbreviation ex_reachable :: "engine \<Rightarrow> bool" where
  "ex_reachable e \<equiv> engine_reachable (\<lambda>_ _. False) (\<lambda>_. []) (\<lambda>_. []) e"

lemma ex_clock: "sane_clock 1783609200"
  by (simp add: sane_clock_def)

lemma ex_worker_reachable: "ex_reachable e \<Longrightarrow> short_answer event \<Longrightarrow> ex_reachable (ex_worker event e)"
  unfolding ex_worker_def
  by (rule rtranclp.rtrancl_into_rtrancl) (auto intro: engine_step.Worker [OF ex_clock refl ex_clock])

lemma ex_request_reachable: "ex_reachable e \<Longrightarrow> ex_reachable (ex_request request e)"
  unfolding ex_request_def
  by (rule rtranclp.rtrancl_into_rtrancl) (auto intro: engine_step.Request [OF ex_clock refl ex_clock])

lemma ex_reachable:
  "ex_reachable ex_preparing" "ex_reachable ex_running" "ex_reachable ex_revoked"
  unfolding ex_revoked_def ex_running_def ex_preparing_def fold.simps comp_apply id_apply
  by (intro ex_worker_reachable ex_request_reachable rtranclp.rtrancl_refl; simp add: short_answer_def)+


lemma ex_fields_read:
  "jget ex_fields (S ''content'') = JStr (S ''hello'')" "jget ex_fields (S ''agent_runtime'') = JStr (S ''codex'')"
  "jget ex_fields (S ''model'') = JStr (S ''gpt-5.6-sol'')" "jget ex_fields (S ''effort'') = JStr (S ''high'')"
  "extra_keys_of (S ''content'' # settings_fields) ex_fields = []"
  "filter (has_key ex_fields) settings_fields = settings_fields"
  "session_config_error (S ''codex'') (JStr (S ''gpt-5.6-sol'')) (JStr (S ''high'')) = None"
  "strip (S ''hello'') = S ''hello''" "S ''hello'' \<noteq> []" "length (S ''hello'') \<le> USER_MESSAGE_LIMIT"
  "S ''codex'' \<in> set (map S [''codex'', ''claude_code'', ''hermes''])"
  by code_simp+

definition ex_run :: run where
  "ex_run = \<lparr>rn_id = 1, rn_kind = Chat_run, rn_status = Run_pending, rn_task = None, rn_host_status = None,
     rn_thread = None, rn_runtime = None, rn_message = Some 2, rn_schedule = None, rn_error = None,
     rn_created = format_utc 1783609200, rn_updated = format_utc 1783609200\<rparr>"

lemma ex_sent:
  "\<exists>e w. ex_request (Send (JObj ex_fields)) initial_engine = e \<and> wk e = Idle \<and> attempts e = [] \<and> runs (wdb e) = [ex_run]
     \<and> the_workspace (wdb e) = Some w \<and> ws_settings w = Some ex_settings \<and> ws_thread_seq w = 1
     \<and> schedules (wdb e) \<noteq> []"
  by (simp add: ex_fields_read is_active_workspace_def ex_request_def ui_step_def ui_txn_def send_message_def object_of_def initial_engine_def restart_step_def
      empty_workspace_def bind_txn_def then_txn_def select_def require_def ok_def modify_def Let_def workspace_runtime_def
      session_settings_def ensure_workspace_can_activate_def ensure_workspace_def seed_def insert_event_def
      insert_message_def queue_human_input_def insert_run_def ex_run_def ex_settings_def MAX_QUEUED_CHAT_TURNS_def
      USER_MESSAGE_LIMIT_def del: extra_none)

text \<open>The worker finds the run; whatever it was asked, its payload is the message.\<close>

lemma ex_prepared:
  "wk ex_preparing = Preparing ex_run" "runs (wdb ex_preparing) = [ex_run]"
  "\<exists>w. the_workspace (wdb ex_preparing) = Some w \<and> ws_settings w = Some ex_settings \<and> ws_thread_seq w = 1"
  "\<exists>p. run_payload ex_run (format_utc 1783609200) (wdb ex_preparing) = Some p"
proof -
  obtain e w where e: "ex_request (Send (JObj ex_fields)) initial_engine = e" "wk e = Idle" "attempts e = []"
    "runs (wdb e) = [ex_run]" "the_workspace (wdb e) = Some w" "ws_settings w = Some ex_settings" "ws_thread_seq w = 1"
    using ex_sent by blast
  have run: "rn_status ex_run = Run_pending" "rn_id ex_run = 1" "rn_kind ex_run = Chat_run" by (simp_all add: ex_run_def)
  have none: "filter (is_due (\<lambda>_ _. False) now) ss = []" for now ss
    by (auto simp: filter_empty_conv is_due_def split: option.split)
  have prepared: "ex_preparing = e\<lparr>attempts := [(1, 100)], wk := Preparing ex_run\<rparr>"
    unfolding ex_preparing_def e(1)
    by (simp add: ex_worker_def worker_step_def e run none fire_due_schedules_def mutation_def bind_txn_def select_def ok_def
        workspace_runtime_def order_by_def pick_step_def next_pending_def ex_settings_def)
  show "wk ex_preparing = Preparing ex_run" "runs (wdb ex_preparing) = [ex_run]"
    "\<exists>w. the_workspace (wdb ex_preparing) = Some w \<and> ws_settings w = Some ex_settings \<and> ws_thread_seq w = 1"
    "\<exists>p. run_payload ex_run (format_utc 1783609200) (wdb ex_preparing) = Some p"
    unfolding prepared using e run by (simp_all add: run_payload_def)
qed

lemma ex_filled: "fst ex_settings \<noteq> []" "fst (snd ex_settings) \<noteq> []" "snd (snd ex_settings) \<noteq> []"
  by (simp_all add: ex_settings_def)

lemma ex_started:
  "wk ex_running = Idle" "the_workspace (wdb ex_running) = the_workspace (wdb ex_preparing)"
  "\<exists>q \<in> set (runs (wdb ex_running)). active q \<and> rn_task q = Some (S ''7'') \<and> rn_thread q = Some (thread_of 1)"
proof -
  obtain w p where w: "the_workspace (wdb ex_preparing) = Some w" "ws_settings w = Some ex_settings" "ws_thread_seq w = 1"
    and p: "run_payload ex_run (format_utc 1783609200) (wdb ex_preparing) = Some p"
    using ex_prepared(3,4) by blast
  have running: "ex_running = dispatch_round (\<lambda>_ _. False) (\<lambda>_. []) (format_utc 1783609200) 1783609200 100 (S ''7'') None ex_preparing"
    by (simp add: ex_running_def dispatch_round_def ex_worker_def)
  have r: "ex_run \<in> set (runs (wdb ex_preparing))" and new: "\<not> list_ex (\<lambda>q. rn_task q = Some (S ''7'')) (runs (wdb ex_preparing))"
    by (simp_all add: ex_prepared(2) ex_run_def)
  note start = dispatch_starts [OF reachable_ok [OF ex_reachable(1)] ex_prepared(1) r w(1,2)
      ex_filled p now_length [OF ex_clock] _ new running]
  show "wk ex_running = Idle" "the_workspace (wdb ex_running) = the_workspace (wdb ex_preparing)"
    by (rule start; simp)+
  have "workspace_thread w = thread_of 1" by (simp add: workspace_thread_def thread_of_def w(3))
  then show "\<exists>q \<in> set (runs (wdb ex_running)). active q \<and> rn_task q = Some (S ''7'') \<and> rn_thread q = Some (thread_of 1)"
    using start(3) by auto
qed

lemma ex_rotated:
  "\<exists>w. the_workspace (wdb ex_revoked) = Some w \<and> workspace_thread w = thread_of 2"
  "\<exists>r \<in> set (runs (wdb ex_revoked)). rn_task r = Some (S ''7'') \<and> rn_thread r = Some (thread_of 1)"
proof -
  obtain w where w: "the_workspace (wdb ex_running) = Some w" "ws_settings w \<noteq> None" "ws_thread_seq w = 1"
    using ex_started(2) ex_prepared(3) by (auto simp: ex_settings_def)
  from deactivation_rotates [OF w(1,2), of "\<lambda>_. []" "format_utc 1783609200" 1783609200] w(3)
  show "\<exists>w. the_workspace (wdb ex_revoked) = Some w \<and> workspace_thread w = thread_of 2"
    by (auto simp: ex_revoked_def ex_request_def workspace_thread_def thread_of_def)
  have "later (wdb ex_running) (wdb ex_revoked)"
    unfolding ex_revoked_def ex_request_def by (rule request_steps_later(1)) simp
  from task_stays [OF this] ex_started(3)
  show "\<exists>r \<in> set (runs (wdb ex_revoked)). rn_task r = Some (S ''7'') \<and> rn_thread r = Some (thread_of 1)"
    by fastforce
qed

lemma ex_authority:
  "\<exists>w r. the_workspace (wdb ex_running) = Some w \<and> find_first (\<lambda>r. rn_task r = Some (S ''7'') \<and> active r) (runs (wdb ex_running)) = Some r
     \<and> rn_thread r = Some (workspace_thread w)"
proof -
  obtain w where w: "the_workspace (wdb ex_running) = Some w" "ws_settings w \<noteq> None" "ws_thread_seq w = 1"
    using ex_started(2) ex_prepared(3) by (auto simp: ex_settings_def)
  obtain r where r: "find_first (\<lambda>r. rn_task r = Some (S ''7'') \<and> active r) (runs (wdb ex_running)) = Some r"
    using ex_started(3) find_first_None [of "\<lambda>r. rn_task r = Some (S ''7'') \<and> active r" "runs (wdb ex_running)"]
    by (cases "find_first (\<lambda>r. rn_task r = Some (S ''7'') \<and> active r) (runs (wdb ex_running))") auto
  from find_first_Some [OF r] db_okD(8) [OF engine_okD [OF reachable_ok [OF ex_reachable(2)]]] w
  have "rn_thread r = Some (workspace_thread w)"
    by (auto simp: session_ok_def list_all_iff in_session_def)
  with w(1) r show ?thesis by blast
qed

subsection \<open>The properties\<close>

lemma run_history:
  assumes e: "engine_ok F e" and steps: "engine_steps le F R e e'"
    and r: "r \<in> set (runs (wdb e))" "r' \<in> set (runs (wdb e'))" "rn_id r = rn_id r'"
  shows "advanced r r'"
proof -
  from engine_steps_later [OF steps e] obtain rs new where l: "runs (wdb e') = rs @ new"
    "list_all2 advanced (runs (wdb e)) rs" "\<forall>q \<in> set new. next_run (wdb e) \<le> rn_id q"
    by (rule laterE)
  from db_okD(7) [OF engine_okD [OF e]] r(1) have "rn_id r < next_run (wdb e)"
    by (auto simp: runs_ok_def table_ok_def)
  with l r(2,3) have "r' \<in> set rs" by auto
  with l(2) obtain q where q: "q \<in> set (runs (wdb e))" "advanced q r'"
    by (metis in_set_conv_nth list_all2_conv_all_nth)
  then have "rn_id q = rn_id r" using run_table.moved_key r(3) by (simp add: advanced_def)
  moreover have "distinct (map rn_id (runs (wdb e)))"
    using db_okD(7) [OF engine_okD [OF e]] by (simp add: runs_ok_def table_ok_def)
  ultimately have "q = r" using q(1) r(1) by (auto simp: distinct_map dest: inj_onD)
  with q(2) show ?thesis by simp
qed

lemma revoked_authority:
  assumes e: "engine_ok F e" and r: "r \<in> set (runs (wdb e))" "rn_task r = Some t"
    and w: "the_workspace (wdb e) = Some w" "rn_thread r \<noteq> Some (workspace_thread w)"
    and steps: "engine_steps le F R e e'"
  shows "verify_task_authority t (wdb e') = Inl forbidden"
proof -
  have later: "later (wdb e) (wdb e')" by (rule engine_steps_later [OF steps e])
  note ok' = engine_okD [OF engine_steps_ok [OF steps e]]
  from task_stays [OF later r] obtain r' where r': "r' \<in> set (runs (wdb e'))" "rn_task r' = Some t" "rn_thread r' = rn_thread r"
    by blast
  have stale: "rn_thread r' \<noteq> Some (workspace_thread w')" if "the_workspace (wdb e') = Some w'" for w'
  proof
    assume now_current: "rn_thread r' = Some (workspace_thread w')"
    have "in_session w r" "1 \<le> ws_thread_seq w"
      using db_okD(8) [OF engine_okD [OF e]] r(1) w(1) by (auto simp: session_ok_def list_all_iff)
    with now_current r'(3) obtain k where k: "1 \<le> k" "k \<le> ws_thread_seq w" "workspace_thread w' = thread_of k"
      by (auto simp: in_session_def)
    have "ws_thread_seq w \<le> ws_thread_seq w'"
      using later w(1) that by (auto simp: later_def thread_number_def)
    moreover have "ws_thread_seq w' = k"
      using k thread_of_inj [of "ws_thread_seq w'" k] \<open>1 \<le> ws_thread_seq w\<close> calculation
      by (simp add: workspace_thread_def thread_of_def)
    ultimately have "k = ws_thread_seq w" using k(2) by simp
    with now_current r'(3) k(3) w(2) show False by (simp add: workspace_thread_def thread_of_def)
  qed
  have same: "q = r'" if "q \<in> set (runs (wdb e'))" "rn_task q = Some t" for q
  proof -
    have "rn_id q = rn_id r'"
      using db_okD(7) [OF ok'] that r'(1,2) unfolding runs_ok_def tasks_unique_def by (metis option.distinct(1))
    then show ?thesis
      using db_okD(7) [OF ok'] that(1) r'(1) by (auto simp: runs_ok_def table_ok_def distinct_map dest: inj_onD)
  qed
  have "verify_task_authority t (wdb e') \<noteq> Inr (u, d)" for u d
  proof
    assume "verify_task_authority t (wdb e') = Inr (u, d)"
    then obtain w' q where q: "the_workspace (wdb e') = Some w'" "rn_thread q = Some (workspace_thread w')"
      "find_first (\<lambda>r. rn_task r = Some t \<and> active r) (runs (wdb e')) = Some q"
      unfolding authority by blast
    from find_first_Some [OF q(3)] same have "q = r'" by blast
    with stale [OF q(1)] q(2) show False by simp
  qed
  from this [of "()" "wdb e'"] show ?thesis
    by (simp add: verify_task_authority_def bind_txn_def select_def require_def ok_def abort_def split: if_splits)
qed

lemma dispatch_fits:
  assumes e: "engine_ok F e" and wk: "wk e = Preparing r" and clock: "sane_clock clock"
  shows "wk (dispatch_step le F (format_utc clock) r e) \<noteq> Reporting (rn_id r) (S ''composed task input exceeds the host limit'')"
proof (cases "prepare_run le F r (format_utc clock) (wdb e)")
  case (Inl f)
  then show ?thesis by (simp add: dispatch_step_def)
next
  case (Inr res)
  obtain pt d where res: "res = (pt, d)" by (cases res)
  show ?thesis
  proof (cases pt)
    case (Some p)
    have "length (pt_input p) \<le> HOST_INPUT_LIMIT"
      by (rule prepared_ok(1) [OF _ now_length [OF clock]]) (use engine_okD [OF e] wk Inr res Some in simp_all)
    then show ?thesis using Inr by (simp add: dispatch_step_def res Some)
  qed (use Inr res in \<open>simp add: dispatch_step_def\<close>)
qed

lemma rejection_journaled:
  assumes "agent_action_txn F R action t now clock d = Inr (Some error, d')"
  shows "\<exists>m. d' = with_message m d \<and> ms_id m = next_message d \<and> ms_role m = S ''error''
    \<and> ms_content m = S ''Action rejected: '' @ error \<and> ms_created m = now"
proof -
  have journal: "\<exists>m. d' = with_message m d \<and> ms_id m = next_message d \<and> ms_role m = S ''error''
      \<and> ms_content m = S ''Action rejected: '' @ error \<and> ms_created m = now"
    if "journal_rejection action e now d = Inr (Some error, d')" for e
    using that by (auto simp: journal_rejection_def txn_simps Let_def insert_message_def with_message_def)
  show ?thesis
  proof (cases "validate_action_shape F R action")
    case (Some e)
    with assms show ?thesis by (auto simp: agent_action_txn_def txn_simps authority intro: journal)
  next
    case None
    with assms obtain x d1 where x: "with_savepoint (apply_action R action now clock) d = Inr (x, d1)"
      "(case x of None \<Rightarrow> ok None | Some e \<Rightarrow> journal_rejection action e now) d1 = Inr (Some error, d')"
      by (auto simp: agent_action_txn_def txn_simps authority)
    then obtain e where "x = Some e" by (cases x) (simp_all add: ok_def)
    moreover from x(1) this have "d1 = d" by (auto simp: with_savepoint_def split: sum.splits option.splits prod.splits)
    ultimately show ?thesis using x(2) by (auto intro: journal)
  qed
qed





text \<open>
  C18. A run keeps its identity and only moves forward, from waiting to active to done, and once
  it has a host task it keeps that task and its thread, in every continuation.
\<close>

theorem runs_move_forward:
  assumes "engine_reachable le F R e" "engine_steps le F R e e'"
    and "r \<in> set (runs (wdb e))" "r' \<in> set (runs (wdb e'))" "rn_id r = rn_id r'"
  shows "leads run_moves (rn_status r) (rn_status r') \<and> run_identity r' = run_identity r
    \<and> (rn_task r = None \<or> rn_task r' = rn_task r \<and> rn_thread r' = rn_thread r)"
  using run_history [OF reachable_ok [OF assms(1)] assms(2-5)] by (auto simp: advanced_def moved_def)

theorem runs_move_forward_witness:
  "\<exists>r r'. r \<in> set (runs (wdb ex_running)) \<and> r' \<in> set (runs (wdb ex_revoked)) \<and> rn_task r = Some (S ''7'')
    \<and> leads run_moves Run_active (rn_status r') \<and> rn_task r' = Some (S ''7'')"
proof -
  obtain r where r: "r \<in> set (runs (wdb ex_running))" "active r" "rn_task r = Some (S ''7'')"
    using ex_started(3) by blast
  have "engine_step (\<lambda>_ _. False) (\<lambda>_. []) (\<lambda>_. []) ex_running ex_revoked"
    unfolding ex_revoked_def ex_request_def by (rule engine_step.Request [OF ex_clock refl ex_clock])
  then have steps: "engine_steps (\<lambda>_ _. False) (\<lambda>_. []) (\<lambda>_. []) ex_running ex_revoked" by simp
  have "later (wdb ex_running) (wdb ex_revoked)"
    by (rule engine_steps_later [OF steps reachable_ok [OF ex_reachable(2)]])
  from task_stays [OF this r(1,3)] obtain r' where r': "r' \<in> set (runs (wdb ex_revoked))" "advanced r r'" "rn_task r' = Some (S ''7'')"
    by blast
  then have "rn_id r = rn_id r'" using run_table.moved_key by (simp add: advanced_def)
  from runs_move_forward [OF ex_reachable(2) steps r(1) r'(1) this] r r'(1,3) show ?thesis by auto
qed

text \<open>
  C16. The input the worker composes always fits the limit of the host: whatever the tables hold,
  the digest, the setup brief, the recent conversation and the message together stay below it,
  so a dispatch never ends with the size error, which would be reported again at every retry.
\<close>

theorem dispatched_input_fits:
  assumes "engine_reachable le F R e" "wk e = Preparing r" "sane_clock clock"
  shows "wk (dispatch_step le F (format_utc clock) r e) \<noteq> Reporting (rn_id r) (S ''composed task input exceeds the host limit'')"
  by (rule dispatch_fits [OF reachable_ok [OF assms(1)] assms(2,3)])

theorem dispatched_input_fits_witness:
  "wk (dispatch_step (\<lambda>_ _. False) (\<lambda>_. []) (format_utc 1783609200) ex_run ex_preparing)
    \<noteq> Reporting 1 (S ''composed task input exceeds the host limit'')"
  using dispatched_input_fits [OF ex_reachable(1) ex_prepared(1) ex_clock] by (simp add: ex_run_def)

text \<open>
  C17. A dispatch that the host answers with a new task starts the run: from the transaction that
  prepares it, the worker goes on to post it and to claim it, and then the run is active with
  that task in the current thread and the worker is free again.
\<close>

theorem answered_dispatch_starts_run:
  assumes "engine_reachable le F R e" "wk e = Preparing r" "r \<in> set (runs (wdb e))"
    and "the_workspace (wdb e) = Some w" "ws_settings w = Some s"
    and "fst s \<noteq> []" "fst (snd s) \<noteq> []" "snd (snd s) \<noteq> []"
    and "run_payload r (format_utc clock) (wdb e) = Some p" "sane_clock clock"
    and "t \<noteq> []" "\<not> list_ex (\<lambda>q. rn_task q = Some t) (runs (wdb e))"
  shows "wk (dispatch_round le F (format_utc clock) clock tick t status e) = Idle
    \<and> (\<exists>q \<in> set (runs (wdb (dispatch_round le F (format_utc clock) clock tick t status e))).
        rn_id q = rn_id r \<and> active q \<and> rn_task q = Some t \<and> rn_thread q = Some (workspace_thread w))"
  using dispatch_starts(1,3) [OF reachable_ok [OF assms(1)] assms(2-9) now_length [OF assms(10)] assms(11,12) refl]
  by blast

theorem answered_dispatch_starts_run_witness:
  "\<exists>q \<in> set (runs (wdb (dispatch_round (\<lambda>_ _. False) (\<lambda>_. []) (format_utc 1783609200) 1783609200 100 (S ''7'') None ex_preparing))).
     rn_id q = 1 \<and> rn_task q = Some (S ''7'')"
proof -
  obtain w p where w: "the_workspace (wdb ex_preparing) = Some w" "ws_settings w = Some ex_settings"
    and p: "run_payload ex_run (format_utc 1783609200) (wdb ex_preparing) = Some p"
    using ex_prepared(3,4) by blast
  have "ex_run \<in> set (runs (wdb ex_preparing))" "\<not> list_ex (\<lambda>q. rn_task q = Some (S ''7'')) (runs (wdb ex_preparing))"
    "S ''7'' \<noteq> []"
    by (simp_all add: ex_prepared(2) ex_run_def)
  from answered_dispatch_starts_run [OF ex_reachable(1) ex_prepared(1) this(1) w ex_filled p ex_clock this(3,2)]
  show ?thesis by (auto simp: ex_run_def)
qed

text \<open>
  C19. An action that is rejected, by its shape or when it is applied, leaves exactly one error
  message with the reason the agent is told, and nothing else: what it wrote before the
  rejection is rolled back.
\<close>

theorem rejected_action_only_journaled:
  assumes "agent_action_txn F R action t now clock d = Inr (Some error, d')"
  shows "\<exists>m. d' = with_message m d \<and> ms_id m = next_message d \<and> ms_role m = S ''error''
    \<and> ms_content m = S ''Action rejected: '' @ error \<and> ms_created m = now"
  by (rule rejection_journaled [OF assms])

theorem rejected_action_only_journaled_witness:
  "\<exists>m error. agent_action_txn (\<lambda>_. []) (\<lambda>_. []) [(S ''action'', JStr (S ''fly''))] (S ''7'') (S ''2026-07-09T15:00:00Z'') 1783609200 (wdb ex_running)
      = Inr (Some error, with_message m (wdb ex_running)) \<and> ms_role m = S ''error''"
proof -
  let ?action = "[(S ''action'', JStr (S ''fly''))]"
  have "validate_action_shape (\<lambda>_. []) (\<lambda>_. []) ?action \<noteq> None" by code_simp
  then obtain e where e: "validate_action_shape (\<lambda>_. []) (\<lambda>_. []) ?action = Some e" by blast
  have "verify_task_authority (S ''7'') (wdb ex_running) = Inr ((), wdb ex_running)"
    using ex_authority by (simp add: authority)
  then obtain error d' where d': "agent_action_txn (\<lambda>_. []) (\<lambda>_. []) ?action (S ''7'') (S ''2026-07-09T15:00:00Z'') 1783609200 (wdb ex_running) = Inr (Some error, d')"
    by (simp add: agent_action_txn_def then_txn_def bind_txn_def e journal_rejection_def insert_message_def ok_def Let_def)
  from rejected_action_only_journaled [OF this] d' show ?thesis by blast
qed

end
