(* ===== verification/Spec2Isabelle.thy ===== *)
theory Spec2Isabelle
  imports ProxyServe PendingPush Config OrchestratorInvariants PolicyRoundtrip ProviderProperties ToolInvariants ToolHost WorkspaceProperties
begin

text \<open>
  Verification library of TrustyClaw, a host that runs coding agents in a confined machine. The
  code is Python; every path below is relative to \<open>src/host/\<close>. Each theory names the file it
  models in its opening text, every definition carries the name of the function it translates, and
  definitions appear in the order of the file.

  \<^bold>\<open>The program.\<close> An operator configures a network policy, starts tasks and approves sensitive
  actions through the admin service; agents run as external processes; all their traffic leaves
  through an inspecting proxy; tool packages act on third-party services for the agent; apps built
  on the workspace kit let an agent keep a workspace up to date through a typed action protocol.
  Everything that lasts is in one PostgreSQL database. Three parts are modelled.

  \<^bold>\<open>1. The network side\<close>: \<open>runtime/network_proxy/service.py\<close> reads a request, asks the integration
  that owns the host for a decision, writes one log record, and forwards or answers.
  \<^item> Text: \<open>Prelude\<close> (code points, bytes, results of code that may raise, list and dictionary
    lemmas), \<open>PyStr\<close> (the methods of \<open>str\<close>), \<open>UrlLib\<close> (\<open>urllib.parse\<close>, \<open>posixpath\<close>, UTF-8),
    \<open>Regex\<close> (the backtracking semantics of \<open>re\<close>), \<open>Json\<close> (values of \<open>json.loads\<close>).
  \<^item> Policy: \<open>NetPolicy\<close> (path normalisation, route matching and bounded decompression of
    \<open>runtime/core/network_policy.py\<close>), \<open>Manifests\<close> (the \<open>manifest.py\<close> of each integration,
    \<open>base.py\<close>, \<open>registry.py\<close>, \<open>session_options.py\<close>, \<open>version.py\<close>), \<open>Config\<close> (\<open>config.py\<close>),
    \<open>PolicyStore\<close> (the policy tables, their replacement by the admin service and their assembly by
    every reader) and \<open>PolicyRoundtrip\<close> (what is read back decides as what was submitted).
  \<^item> Guards: \<open>ParamGuard\<close> (\<open>param_guard.py\<close>), \<open>GuardEnv\<close> (what a guard may read, and the small
    guards), \<open>OpenAIGuard\<close>, \<open>ClaudeGuard\<close>, \<open>GitHubGuard\<close>, \<open>BedrockGuard\<close> with \<open>SigV4\<close>
    (\<open>runtime/core/aws_sigv4.py\<close>) and \<open>BedrockUsage\<close>, \<open>PushGate\<close> and \<open>PendingPush\<close> (the approval
    of pushes that touch \<open>.github\<close>), \<open>Dispatch\<close> (\<open>network_integrations/runtime.py\<close>).
  \<^item> Proxy: \<open>WebSocket\<close> (frames, the incremental guard, the tunnel), \<open>ProxyHttp\<close> (the socket reader
    and HTTP/1.1), \<open>ProxyServe\<close> (the request handler; its result lists the effects in order:
    connects, bytes sent to either side, log records).

  \<^bold>\<open>2. The admin side\<close>: tables behind transactions, and threads that interleave between them.
  \<^item> \<open>Txn\<close>: a transaction maps the tables to an outcome and new tables, and an error rolls back; the
    \<open>wp\<close> and \<open>wlp\<close> rules are the program logic the later theories use. \<open>Lifecycle\<close>: the locales of
    a status graph and of a table whose rows only move forward in it. They are interpreted on the
    tool approvals (\<open>ToolApprovals\<close>) and the workspace runs (\<open>WorkspaceHistory\<close>).
  \<^item> Tasks: \<open>TaskStore\<close> (the task tables of \<open>runtime/core/state.py\<close> with the constraints of the
    schema, \<open>task_status.py\<close>), \<open>TaskApi\<close> (the operations of \<open>runtime/admin_api/service.py\<close>),
    \<open>TaskInvariants\<close>, \<open>Orchestrator\<close> (the worker pool, the registry of live processes and the
    closing of turns of \<open>orchestrator.py\<close>, as atomic actions of many threads) and
    \<open>OrchestratorInvariants\<close>.
  \<^item> Tools: \<open>ToolApprovals\<close> (tables and ids), \<open>ToolDecisions\<close> (requests, decisions, execution,
    maintenance and crashes as interleaved sections of \<open>runtime/tools/tools_host.py\<close>),
    \<open>ToolInvariants\<close>, \<open>ToolSchema\<close> (the JSON Schema subset and its validator), \<open>ToolHost\<close>
    (registration, the checks around one call, the audit record).
  \<^item> Providers: \<open>ProviderStore\<close> (logins, accounts with the guard trigger of the schema, proxy pins and
    the Bedrock credential of \<open>runtime/core/state.py\<close>), \<open>ProviderTrust\<close> (verdicts, the commit of a
    refresh, captures, resets and login requests of \<open>orchestrator.py\<close> and \<open>service.py\<close>),
    \<open>ProviderMachine\<close> (refreshes, logins, resets and policy requests as one step relation, with the
    parked login of \<open>codex_app_server.py\<close>), \<open>ProviderInvariants\<close> (what each transaction does to the
    approved accounts) and \<open>ProviderProperties\<close> (the invariant and the properties).

  \<^bold>\<open>3. The workspace side\<close>: \<open>apps/workspace_kit\<close> as configured by \<open>apps/mission_pursuit\<close>, which
  registers no domain actions and no hooks.
  \<^item> Values: \<open>UtcTime\<close> (calendar arithmetic, stored times, schedules), \<open>JsonText\<close> (\<open>json.dumps\<close> and
    byte budgets), \<open>ViewBlocks\<close> and \<open>StoredViews\<close> (\<open>views.py\<close>, and views read back from storage).
  \<^item> Tables and transactions: \<open>WorkspaceStore\<close> (tables, checks and effects of the twelve actions),
    \<open>WorkspaceActions\<close> (what they keep), \<open>WorkspaceApi\<close> (requests of the operator, calls of the
    agent, authority of a task), \<open>WorkspaceDigest\<close> (the input of a turn).
  \<^item> Runs: \<open>WorkspaceRuns\<close> (the worker as a state machine: one transaction or one answer of the host
    per step, interleaved with requests, agent calls and restarts), \<open>WorkspaceInvariants\<close> and
    \<open>WorkspaceEngine\<close> (the invariant and that every transaction keeps it), \<open>WorkspaceHistory\<close>
    (what never comes back), \<open>WorkspaceProperties\<close> (the properties, with an example execution).

  \<^bold>\<open>What is shown.\<close> For the proxy: a request is connected only after every check passed and to a
  vetted address, without a valid policy nothing is forwarded, every request leaves one matching
  record, an inspected tunnel forwards whole allowed messages however its stream is cut. For
  the policy: a replacement that succeeds is the policy every reader enforces. For
  provider accounts: in every interleaving the proxy pins only the account the operator approved,
  an account is approved only while an unexpired login vouches for it, only a reset removes it, and
  switching an integration off removes its pin. For
  the guards: accepted text holds no token of a denied kind, the integer entropy and bigram tests
  decide the real-valued thresholds, paths are resolved, decoding is bounded. For tasks, tools and
  workspaces: the table invariants in every interleaving, caps, one running task per thread, at most
  one execution of an approval and only after its own decision, refusal of a task whose thread was
  rotated away, forward-only life cycles, no internal error on an action of accepted shape, and
  inputs that fit the host. Some properties exhibit a failure of the code (a leaked process, a
  decoder that loops, an id that raises); they are theorems about the code as it is.

  \<^bold>\<open>Integers, loops and bounds.\<close> Python integers are \<open>int\<close>, bytes are \<open>8 word\<close>, on which masks
  and packed lengths are computed. Loops are structural or carry a termination proof. Two loops that
  need not end are \<open>partial_function (option)\<close>: inflating a stream, where \<open>decode_body\<close> is
  bounded whenever it returns, and reading chunks of a stored response, where not returning is what
  is proved. \<open>rx_finditer\<close> runs on fuel \<open>Suc (length s)\<close>, enough because each round consumes a
  character. The concurrent parts are \<open>inductive\<close> step relations, so their theorems hold for
  executions of any length. \<open>sane_clock\<close> restricts the clock of a workspace to 10^12 seconds (the year
  is then below 100000 and a stored time has a bounded width).

  \<^bold>\<open>Parameters.\<close> What is not in the repository is an argument of the definitions that use it:
  zlib and the JSON parser (\<open>pylib\<close>), SHA-256, git, operator-written regular expressions, the word lists
  of the guard, the rows other roles write (\<open>guard_env\<close>), tool packages and their answers, the
  host API of a workspace, the answers of the provider commands, the account a Claude token belongs
  to (\<open>te_identity\<close>), the text of a float and the \<open>repr\<close> of a JSON value, and the text
  order of the database (\<open>le\<close>). Where a property needs a fact about one of them, it is a hypothesis
  of that property (for example: the host answers with short status words).

  \<^bold>\<open>Assumptions of the model.\<close> Transactions of one service are serial: the admin and tools services
  take a process-wide lock around each; the workspace engine takes an advisory or row lock in the
  transactions whose checks matter, and the others are treated as serial too, although READ COMMITTED
  lets two of them overlap. Ids of rolled-back inserts may be given again, where a PostgreSQL sequence
  would skip them. Text columns hold any \<open>str\<close> and a JSONB column gives back the value it was given.
  Times are numbers, compared exactly; the times of logins are texts and compared as such. In the
  machine of provider trust the reads that one helper makes without a lock are one step, the
  attesting helper names the account its token belongs to, the refresh inside
  \<open>complete_claude_oauth_login\<close> may report any status, and the process is not restarted: a restart
  between the commit of a policy and its reconciliation leaves the pin until the next refresh.

  \<^bold>\<open>Not modelled.\<close> Tool packages, agent adapters and the AWS bootstrap translate to protocols of
  services outside the repository. The PostgreSQL client and the sealing of secrets are seen
  through their effect. Message wording, prices in floats, TLS, sockets, the HTTP routes of the
  admin service, and read-only projections of tables to JSON are left out.
\<close>

end
